(* ===== verification/Prelude.thy ===== *)
theory Prelude
  imports Complex_Main "HOL-Library.Word" "HOL-Library.AList"
begin

text \<open>
  Shared vocabulary of the development: bytes and dictionaries, the Python values that
  travel through JSON and keyword dictionaries, the string operations of the standard
  library the services use, and the generic list lemmas behind several components.

  \<^item> A Python \<open>str\<close> is a \<open>string\<close>: its characters are those of Isabelle's \<open>char\<close>
    (code points below 256). Text outside that range in a literal of the source is written
    as its UTF-8 bytes (see \<open>em_dash\<close>).
  \<^item> A Python \<open>dict\<close> with string keys is an association list in insertion order, updated
    by \<open>AList.update\<close>: an existing key keeps its place, a new key goes to the end, as
    Python specifies.
  \<^item> A Python \<open>float\<close> is a \<open>rat\<close>: the arithmetic is exact, rounding is not modelled.
\<close>

section \<open>Types\<close>

type_synonym byte = "8 word"
type_synonym bytes = "byte list"
type_synonym 'v dict = "(string \<times> 'v) list"

named_theorems handler_defs \<open>definitions of the handlers of a component\<close>
named_theorems inv_intros \<open>preservation lemmas of the component invariants\<close>

datatype pyval =
    PNone
  | PBool bool
  | PInt int
  | PFloat rat
  | PStr string
  | PList "pyval list"
  | PDict "(string \<times> pyval) list"

fun truthy :: "pyval \<Rightarrow> bool" where
  "truthy PNone = False"
| "truthy (PBool b) = b"
| "truthy (PInt i) = (i \<noteq> 0)"
| "truthy (PFloat x) = (x \<noteq> 0)"
| "truthy (PStr s) = (s \<noteq> [])"
| "truthy (PList xs) = (xs \<noteq> [])"
| "truthy (PDict d) = (d \<noteq> [])"

text \<open>Python's \<open>a or b\<close> on values, \<open>d.get(k)\<close> and \<open>d.get(k, dflt)\<close>.\<close>

definition py_or :: "pyval \<Rightarrow> pyval \<Rightarrow> pyval" where
  "py_or a b = (if truthy a then a else b)"

definition dget :: "pyval dict \<Rightarrow> string \<Rightarrow> pyval" where
  "dget d k = (case map_of d k of None \<Rightarrow> PNone | Some v \<Rightarrow> v)"

definition dget_or :: "'v dict \<Rightarrow> string \<Rightarrow> 'v \<Rightarrow> 'v" where
  "dget_or d k dflt = (case map_of d k of None \<Rightarrow> dflt | Some v \<Rightarrow> v)"

text \<open>\<open>x or None\<close> and \<open>x or y\<close> on optional strings, where empty strings are falsy.\<close>

definition str_or_none :: "string option \<Rightarrow> string option" where
  "str_or_none s = (case s of Some (c # cs) \<Rightarrow> Some (c # cs) | _ \<Rightarrow> None)"

definition opt_str_or :: "string option \<Rightarrow> string \<Rightarrow> string" where
  "opt_str_or s t = (case s of Some (c # cs) \<Rightarrow> c # cs | _ \<Rightarrow> t)"

definition str_or :: "string \<Rightarrow> string \<Rightarrow> string" where
  "str_or s t = (if s = [] then t else s)"

section \<open>Strings\<close>

definition em_dash :: string where
  "em_dash = [CHR 0xE2, CHR 0x80, CHR 0x94]"

definition is_space :: "char \<Rightarrow> bool" where
  "is_space c = (c \<in> {CHR 0x09, CHR 0x0A, CHR 0x0B, CHR 0x0C, CHR 0x0D,
                      CHR 0x1C, CHR 0x1D, CHR 0x1E, CHR 0x1F, CHR '' '',
                      CHR 0x85, CHR 0xA0})"

definition lstrip :: "string \<Rightarrow> string" where
  "lstrip s = dropWhile is_space s"

definition rstrip :: "string \<Rightarrow> string" where
  "rstrip s = rev (dropWhile is_space (rev s))"

definition strip :: "string \<Rightarrow> string" where
  "strip s = rstrip (lstrip s)"

text \<open>\<open>str.split()\<close>: the maximal runs of non-space characters.\<close>

fun split_ws_acc :: "string \<Rightarrow> string \<Rightarrow> string list" where
  "split_ws_acc acc [] = (if acc = [] then [] else [rev acc])"
| "split_ws_acc acc (c # cs) =
     (if is_space c
      then (if acc = [] then split_ws_acc [] cs else rev acc # split_ws_acc [] cs)
      else split_ws_acc (c # acc) cs)"

definition split_ws :: "string \<Rightarrow> string list" where
  "split_ws s = split_ws_acc [] s"

text \<open>\<open>str.split(sep)\<close> for a one-character separator; never empty.\<close>

fun split_on :: "char \<Rightarrow> string \<Rightarrow> string list" where
  "split_on c [] = [[]]"
| "split_on c (x # xs) =
     (if x = c then [] # split_on c xs
      else (case split_on c xs of [] \<Rightarrow> [[x]] | w # ws \<Rightarrow> (x # w) # ws))"

definition startswith :: "string \<Rightarrow> string \<Rightarrow> bool" where
  "startswith s p = (take (length p) s = p)"

text \<open>\<open>needle in haystack\<close>.\<close>

fun substr_in :: "string \<Rightarrow> string \<Rightarrow> bool" where
  "substr_in p [] = (p = [])"
| "substr_in p (c # cs) = (startswith (c # cs) p \<or> substr_in p cs)"

text \<open>\<open>str.lower()\<close> on ASCII letters; other characters are kept.\<close>

definition lower_char :: "char \<Rightarrow> char" where
  "lower_char c = (let n = (of_char c :: nat) in
     if 65 \<le> n \<and> n \<le> 90 then char_of (n + 32) else c)"

definition lower :: "string \<Rightarrow> string" where
  "lower s = map lower_char s"

text \<open>\<open>sep.join(parts)\<close>.\<close>

fun join :: "string \<Rightarrow> string list \<Rightarrow> string" where
  "join sep [] = []"
| "join sep [x] = x"
| "join sep (x # y # xs) = x @ sep @ join sep (y # xs)"

text \<open>\<open>str(n)\<close> on integers.\<close>

fun digits_of :: "nat \<Rightarrow> string" where
  "digits_of n = (if n < 10 then [char_of (48 + n)]
                  else digits_of (n div 10) @ [char_of (48 + n mod 10)])"

declare digits_of.simps [simp del]

definition str_int :: "int \<Rightarrow> string" where
  "str_int i = (if i < 0 then CHR ''-'' # digits_of (nat (- i)) else digits_of (nat i))"

text \<open>\<open>encode("ascii", errors="replace")\<close> and \<open>decode("ascii", "replace")\<close>; the replacement
  character is written as its UTF-8 bytes.\<close>

definition ascii_byte :: "char \<Rightarrow> byte" where
  "ascii_byte c = (let n = (of_char c :: nat) in if n < 128 then of_nat n else 63)"

definition ascii_decode :: "bytes \<Rightarrow> string" where
  "ascii_decode bs = concat (map (\<lambda>b. if unat b < 128 then [char_of (unat b)]
      else [CHR 0xEF, CHR 0xBF, CHR 0xBD]) bs)"

text \<open>\<open>str(v)\<close> on a JSON value; \<open>repr\<close> of floats and containers is an argument.\<close>

fun py_str :: "(pyval \<Rightarrow> string) \<Rightarrow> pyval \<Rightarrow> string" where
  "py_str rp (PStr s) = s"
| "py_str rp PNone = ''None''"
| "py_str rp (PBool b) = (if b then ''True'' else ''False'')"
| "py_str rp (PInt i) = str_int i"
| "py_str rp v = rp v"

definition nl :: string where
  "nl = [CHR 0x0A]"

section \<open>Generic lemmas\<close>

lemma split_on_not_Nil [simp]: "split_on c s \<noteq> []"
  by (induction s) (auto split: list.splits)

lemma split_on_no_sep: "c \<notin> set s \<Longrightarrow> split_on c s = [s]"
  by (induction s) auto

lemma split_on_append_sep:
  "c \<notin> set s \<Longrightarrow> split_on c (s @ c # t) = s # split_on c t"
  by (induction s) auto

lemma split_on_join:
  "fs \<noteq> [] \<Longrightarrow> \<forall>f \<in> set fs. c \<notin> set f \<Longrightarrow> split_on c (join [c] fs) = fs"
  by (induction "[c]" fs rule: join.induct) (simp_all add: split_on_no_sep split_on_append_sep)

lemma join_Cons: "xs \<noteq> [] \<Longrightarrow> join sep (x # xs) = x @ sep @ join sep xs"
  by (cases xs) simp_all

lemma join_split_on: "join [c] (split_on c s) = s"
proof (induction s)
  case (Cons x xs)
  show ?case
  proof (cases "x = c")
    case True
    then show ?thesis using Cons by (simp add: join_Cons)
  next
    case False
    obtain w ws where w: "split_on c xs = w # ws" using split_on_not_Nil [of c xs] by (cases "split_on c xs") simp_all
    have "join [c] ((x # w) # ws) = x # join [c] (w # ws)" by (cases ws) simp_all
    then show ?thesis using Cons w False by simp
  qed
qed simp

lemma startswith_Nil [simp]: "startswith s []"
  by (simp add: startswith_def)

lemma startswith_append [simp]: "startswith (p @ s) p"
  by (simp add: startswith_def)

lemma split_ws_acc_ne: "w \<in> set (split_ws_acc acc s) \<Longrightarrow> w \<noteq> []"
  by (induction acc s rule: split_ws_acc.induct) (auto split: if_splits)

lemma dropWhile_idem [simp]: "dropWhile P (dropWhile P xs) = dropWhile P xs"
  by (induction xs) auto

lemma dropWhile_rev_dropWhile:
  "dropWhile P (rev (dropWhile P (rev (dropWhile P xs)))) = rev (dropWhile P (rev (dropWhile P xs)))"
proof (cases "rev (dropWhile P (rev (dropWhile P xs)))")
  case Nil
  then show ?thesis by (metis dropWhile.simps(1))
next
  case (Cons a as)
  let ?ys = "dropWhile P xs"
  have split: "?ys = rev (dropWhile P (rev ?ys)) @ rev (takeWhile P (rev ?ys))"
    by (metis rev_append rev_rev_ident takeWhile_dropWhile_id)
  with Cons obtain ys where "dropWhile P xs = a # ys" by (metis append_Cons)
  then have "\<not> P a" by (metis hd_dropWhile list.distinct(1) list.sel(1))
  with Cons show ?thesis by simp
qed

lemma strip_idem: "strip (strip s) = strip s"
  by (simp add: strip_def lstrip_def rstrip_def dropWhile_rev_dropWhile)

lemma strip_no_space:
  assumes "\<forall>c \<in> set s. \<not> is_space c"
  shows "strip s = s"
proof -
  have keep: "dropWhile is_space xs = xs" if "\<forall>c \<in> set xs. \<not> is_space c" for xs
    using that by (cases xs) auto
  from keep [of s] keep [of "rev s"] assms show ?thesis
    by (simp add: strip_def lstrip_def rstrip_def)
qed

lemma map_of_filter_key:
  "map_of (filter (\<lambda>kv. fst kv \<noteq> k) d) j = (if j = k then None else map_of d j)"
  by (induction d) auto

lemma map_of_update [simp]:
  "map_of (AList.update k v d) = (map_of d)(k \<mapsto> v)"
  by (rule update_conv')

lemma AList_update_Nil_iff [simp]: "AList.update k v d \<noteq> []"
  by (cases d) (auto split: if_splits)

lemma distinct_keys_update:
  "distinct (map fst d) \<Longrightarrow> distinct (map fst (AList.update k v d))"
  by (rule distinct_update)

lemma py_or_truthy [simp]: "truthy a \<Longrightarrow> py_or a b = a" "\<not> truthy a \<Longrightarrow> py_or a b = b"
  by (simp_all add: py_or_def)

end
