(* ===== verification/Wire.thy ===== *)
theory Wire
  imports Prelude
begin

text \<open>
  The frame protocol between the SIP service and a worker over a unix socket:
  \<open>[4 bytes BE length][1 byte type][payload]\<close>, where the length covers type and payload.
  Both sides have their own copy (\<open>sip/.../audio_bridge.py\<close> reads a blocking socket,
  \<open>workers/.../sip_protocol.py\<close> an asyncio stream); the contract that lets one side talk to
  the other is the locale \<open>frame_codec\<close>, interpreted for all four pairings.
\<close>

section \<open>Protocol constants\<close>

definition FRAME_AUDIO_IN :: int where "FRAME_AUDIO_IN = 1"
definition FRAME_AUDIO_OUT :: int where "FRAME_AUDIO_OUT = 2"
definition FRAME_CONTROL :: int where "FRAME_CONTROL = 16"
definition FRAME_HANGUP :: int where "FRAME_HANGUP = 17"
definition FRAME_DTMF :: int where "FRAME_DTMF = 18"

definition PCM_FRAME_BYTES :: nat where "PCM_FRAME_BYTES = 320"
definition SILENCE_FRAME :: bytes where "SILENCE_FRAME = replicate PCM_FRAME_BYTES 0"
definition QUEUE_MAX_FRAMES :: nat where "QUEUE_MAX_FRAMES = 50"

lemmas frame_consts = FRAME_AUDIO_IN_def FRAME_AUDIO_OUT_def FRAME_CONTROL_def
  FRAME_HANGUP_def FRAME_DTMF_def

section \<open>Encoding\<close>

datatype frame_error = ValueError | StructError

text \<open>\<open>struct.pack(">I", n)\<close> and \<open>struct.unpack(">I", b)\<close>.\<close>

definition pack_be32 :: "nat \<Rightarrow> bytes" where
  "pack_be32 n = [of_nat (n div 2 ^ 24), of_nat (n div 2 ^ 16), of_nat (n div 2 ^ 8), of_nat n]"

fun unpack_be32 :: "bytes \<Rightarrow> nat" where
  "unpack_be32 [a, b, c, d] =
     unat a * 2 ^ 24 + unat b * 2 ^ 16 + unat c * 2 ^ 8 + unat d"
| "unpack_be32 _ = 0"

text \<open>
  \<open>encode_frame\<close> of the SIP service: a type outside one byte is a \<open>ValueError\<close>; a payload
  whose length does not fit the 32-bit field makes \<open>struct.pack\<close> raise.
\<close>

definition encode_frame :: "int \<Rightarrow> bytes \<Rightarrow> frame_error + bytes" where
  "encode_frame frame_type payload =
     (if \<not> (0 \<le> frame_type \<and> frame_type \<le> 255) then Inl ValueError
      else let len = 1 + length payload in
        if len < 2 ^ 32 then Inr (pack_be32 len @ [of_int frame_type] @ payload)
        else Inl StructError)"

text \<open>The worker's copy of the same routine.\<close>

definition worker_encode_frame :: "int \<Rightarrow> bytes \<Rightarrow> frame_error + bytes" where
  "worker_encode_frame frame_type payload =
     (if \<not> (0 \<le> frame_type \<and> frame_type \<le> 255) then Inl ValueError
      else let len = 1 + length payload in
        if len < 2 ^ 32 then Inr (pack_be32 len @ [of_int frame_type] @ payload)
        else Inl StructError)"

lemma worker_encode_frame_eq: "worker_encode_frame = encode_frame"
  by (simp add: fun_eq_iff worker_encode_frame_def encode_frame_def)

section \<open>Reading on the SIP side: a blocking socket\<close>

text \<open>
  A socket is what the kernel will still deliver: segments of bytes, possibly an error; the
  end of the list is end of file. One \<open>recv(k)\<close> returns at most \<open>k\<close> bytes of the next
  segment, nothing at end of file, and \<open>None\<close> stands for the \<open>OSError\<close> it may raise.
\<close>

datatype sock_ev = Seg bytes | SockErr
type_synonym sock = "sock_ev list"

fun sock_recv :: "nat \<Rightarrow> sock \<Rightarrow> bytes option \<times> sock" where
  "sock_recv k [] = (Some [], [])"
| "sock_recv k (SockErr # s) = (None, s)"
| "sock_recv k (Seg bs # s) =
     (Some (take k bs), if k < length bs then Seg (drop k bs) # s else s)"

function recv_loop :: "nat \<Rightarrow> bytes \<Rightarrow> sock \<Rightarrow> bytes option \<times> sock" where
  "recv_loop n buf s =
     (if length buf < n then
        (case sock_recv (n - length buf) s of
           (None, s') \<Rightarrow> (None, s')
         | (Some chunk, s') \<Rightarrow>
             if chunk = [] then (None, s') else recv_loop n (buf @ chunk) s')
      else (Some buf, s))"
  by pat_completeness auto
termination
  by (relation "measure (\<lambda>(n, buf, s). n - length buf)") (auto simp: neq_Nil_conv)

declare recv_loop.simps [simp del]

definition recv_exact :: "sock \<Rightarrow> nat \<Rightarrow> bytes option \<times> sock" where
  "recv_exact s n = recv_loop n [] s"

definition read_frame :: "sock \<Rightarrow> (int \<times> bytes) option \<times> sock" where
  "read_frame s =
     (case recv_exact s 5 of
        (None, s') \<Rightarrow> (None, s')
      | (Some header, s') \<Rightarrow>
          let len = unpack_be32 (take 4 header); ftype = uint (header ! 4) in
          if 1 < len then
            (case recv_exact s' (len - 1) of
               (None, s'') \<Rightarrow> (None, s'')
             | (Some body, s'') \<Rightarrow> (Some (ftype, body), s''))
          else (Some (ftype, []), s'))"

section \<open>Reading on the worker side: an asyncio stream\<close>

text \<open>
  A \<open>StreamReader\<close> is the bytes it will deliver and how it ends: \<open>feed_eof\<close> or an exception
  set by the transport. \<open>readexactly\<close> raises \<open>IncompleteReadError\<close> at end of file and
  empties the buffer. \<open>read_frame\<close> turns that into \<open>None\<close>; any other exception propagates.
\<close>

datatype stream_end = AtEof | Raises
record stream =
  st_bytes :: bytes
  st_end :: stream_end

datatype read_error = Incomplete | StreamExc

definition readexactly :: "nat \<Rightarrow> stream \<Rightarrow> (read_error + bytes) \<times> stream" where
  "readexactly n s =
     (if n \<le> length (st_bytes s)
      then (Inr (take n (st_bytes s)), s\<lparr>st_bytes := drop n (st_bytes s)\<rparr>)
      else (case st_end s of
              AtEof \<Rightarrow> (Inl Incomplete, s\<lparr>st_bytes := []\<rparr>)
            | Raises \<Rightarrow> (Inl StreamExc, s)))"

text \<open>\<open>Inl ()\<close> is an exception that leaves the function.\<close>

definition worker_read_frame :: "stream \<Rightarrow> (unit + (int \<times> bytes) option) \<times> stream" where
  "worker_read_frame s =
     (case readexactly 5 s of
        (Inl Incomplete, s') \<Rightarrow> (Inr None, s')
      | (Inl StreamExc, s') \<Rightarrow> (Inl (), s')
      | (Inr header, s') \<Rightarrow>
          let len = unpack_be32 (take 4 header); ftype = uint (header ! 4) in
          if 1 < len then
            (case readexactly (len - 1) s' of
               (Inl Incomplete, s'') \<Rightarrow> (Inr None, s'')
             | (Inl StreamExc, s'') \<Rightarrow> (Inl (), s'')
             | (Inr body, s'') \<Rightarrow> (Inr (Some (ftype, body)), s''))
          else (Inr (Some (ftype, [])), s'))"

section \<open>Lemmas: the length field\<close>

lemma length_pack_be32 [simp]: "length (pack_be32 n) = 4"
  by (simp add: pack_be32_def)

lemma be32_digits:
  fixes n :: nat
  assumes "n < 2 ^ 32"
  shows "(n div 2 ^ 24) mod 2 ^ 8 * 2 ^ 24 + (n div 2 ^ 16) mod 2 ^ 8 * 2 ^ 16
       + (n div 2 ^ 8) mod 2 ^ 8 * 2 ^ 8 + n mod 2 ^ 8 = n"
proof -
  have s1: "n = n div 256 * 256 + n mod 256" by simp
  have s2: "n div 256 = n div 65536 * 256 + (n div 256) mod 256"
    using div_mult_mod_eq [of "n div 256" 256] by (simp add: div_mult2_eq [symmetric])
  have s3: "n div 65536 = n div 16777216 * 256 + (n div 65536) mod 256"
    using div_mult_mod_eq [of "n div 65536" 256] by (simp add: div_mult2_eq [symmetric])
  from assms have "n div 16777216 < 256" by (simp add: less_mult_imp_div_less)
  then have s4: "(n div 16777216) mod 256 = n div 16777216" by simp
  have "n div 16777216 * 16777216 + n div 65536 mod 256 * 65536 + n div 256 mod 256 * 256
      + n mod 256 = n"
    using s1 s2 s3 by linarith
  with s4 show ?thesis by simp
qed

lemma unpack_pack_be32: "n < 2 ^ 32 \<Longrightarrow> unpack_be32 (pack_be32 n) = n"
  using be32_digits [of n] by (simp add: pack_be32_def unat_of_nat take_bit_eq_mod)

lemma uint_of_int_byte: "0 \<le> t \<Longrightarrow> t \<le> 255 \<Longrightarrow> uint (of_int t :: byte) = t"
  by (simp add: uint_word_of_int_eq take_bit_int_eq_self)

lemma encode_frame_InrD:
  assumes "encode_frame t p = Inr w"
  shows "0 \<le> t" "t \<le> 255" "1 + length p < 2 ^ 32"
    "w = pack_be32 (1 + length p) @ [of_int t] @ p"
  using assms by (auto simp: encode_frame_def Let_def split: if_splits)

lemma encode_frame_length: "encode_frame t p = Inr w \<Longrightarrow> length w = 5 + length p"
  by (drule encode_frame_InrD(4)) simp

section \<open>Lemmas: the socket as a byte stream\<close>

text \<open>What a reader can still get before the first error, and a socket without errors.\<close>

fun sock_bytes :: "sock \<Rightarrow> bytes" where
  "sock_bytes [] = []"
| "sock_bytes (SockErr # s) = []"
| "sock_bytes (Seg bs # s) = bs @ sock_bytes s"

fun sock_ok :: "sock \<Rightarrow> bool" where
  "sock_ok [] = True"
| "sock_ok (SockErr # s) = False"
| "sock_ok (Seg bs # s) = (bs \<noteq> [] \<and> sock_ok s)"

lemma sock_recv_ok:
  assumes "sock_ok s" "0 < k" "sock_recv k s = (r, s')"
  shows "\<exists>c. r = Some c \<and> sock_bytes s = c @ sock_bytes s' \<and> sock_ok s' \<and> length c \<le> k
           \<and> (c = [] \<longrightarrow> sock_bytes s = [])"
  using assms by (induction k s rule: sock_recv.induct) (auto split: if_splits)

lemma recv_loop_ok:
  assumes "sock_ok s" "n - length buf \<le> length (sock_bytes s)" "length buf \<le> n"
  shows "\<exists>s'. recv_loop n buf s = (Some (buf @ take (n - length buf) (sock_bytes s)), s')
           \<and> sock_bytes s' = drop (n - length buf) (sock_bytes s) \<and> sock_ok s'"
  using assms
proof (induction n buf s rule: recv_loop.induct)
  case (1 n buf s)
  show ?case
  proof (cases "length buf < n")
    case False
    with "1.prems" show ?thesis by (auto simp: recv_loop.simps [of n buf s])
  next
    case True
    let ?k = "n - length buf"
    obtain r s1 where rs: "sock_recv ?k s = (r, s1)" by fastforce
    from True have "0 < ?k" by simp
    from sock_recv_ok [OF "1.prems"(1) this rs] obtain c where
      c: "r = Some c" "sock_bytes s = c @ sock_bytes s1" "sock_ok s1" "length c \<le> ?k"
        "c = [] \<longrightarrow> sock_bytes s = []" by blast
    with "1.prems"(2) True have ne: "c \<noteq> []" by auto
    have room: "n - length (buf @ c) \<le> length (sock_bytes s1)" "length (buf @ c) \<le> n"
      using "1.prems" c by auto
    from "1.IH" [OF True rs [symmetric] c(1) ne c(3) room] obtain s' where
      s': "recv_loop n (buf @ c) s1
             = (Some ((buf @ c) @ take (n - length (buf @ c)) (sock_bytes s1)), s')"
        "sock_bytes s' = drop (n - length (buf @ c)) (sock_bytes s1)" "sock_ok s'" by blast
    have "recv_loop n buf s = recv_loop n (buf @ c) s1"
      using True rs c(1) ne by (simp add: recv_loop.simps [of n buf s])
    with s' c(2,4) show ?thesis by auto
  qed
qed

lemma recv_exact_ok:
  assumes "sock_ok s" "n \<le> length (sock_bytes s)"
  obtains s' where "recv_exact s n = (Some (take n (sock_bytes s)), s')"
    "sock_bytes s' = drop n (sock_bytes s)" "sock_ok s'"
  using recv_loop_ok [OF assms(1), of n "[]"] assms(2) by (auto simp: recv_exact_def)

lemma recv_loop_length: "recv_loop n buf s = (Some b, s') \<Longrightarrow> length buf \<le> n \<Longrightarrow> length b = n"
proof (induction n buf s rule: recv_loop.induct)
  case (1 n buf s)
  show ?case
  proof (cases "length buf < n")
    case False
    with "1.prems" show ?thesis by (simp add: recv_loop.simps [of n buf s])
  next
    case True
    obtain r s1 where rs: "sock_recv (n - length buf) s = (r, s1)" by fastforce
    with True "1.prems"(1) obtain c where c: "r = Some c" "c \<noteq> []"
      "recv_loop n (buf @ c) s1 = (Some b, s')"
      by (auto simp: recv_loop.simps [of n buf s] split: option.splits if_splits)
    have "length c \<le> n - length buf" using rs c(1)
      by (cases s; cases "hd s") auto
    with True have "length (buf @ c) \<le> n" by simp
    with "1.IH" [OF True rs [symmetric] c(1,2)] c(3) show ?thesis by blast
  qed
qed

section \<open>The codec contract and its instances\<close>

text \<open>
  \<open>view\<close> is what the reader can still see, \<open>ok\<close> says the transport will not fail. The first
  law is the round trip with an arbitrary rest behind the frame, the second says an empty
  stream reads as end of file. The client lemma decodes a whole conversation.
\<close>

locale frame_codec =
  fixes enc :: "int \<Rightarrow> bytes \<Rightarrow> frame_error + bytes"
    and dec :: "'s \<Rightarrow> (int \<times> bytes) option \<times> 's"
    and view :: "'s \<Rightarrow> bytes"
    and ok :: "'s \<Rightarrow> bool"
  assumes roundtrip:
      "enc t p = Inr w \<Longrightarrow> ok s \<Longrightarrow> view s = w @ rest \<Longrightarrow>
         \<exists>s'. dec s = (Some (t, p), s') \<and> view s' = rest \<and> ok s'"
    and at_end: "ok s \<Longrightarrow> view s = [] \<Longrightarrow> fst (dec s) = None"

text \<open>Reading until the peer is done, at most \<open>n\<close> frames.\<close>

fun read_frames :: "('s \<Rightarrow> (int \<times> bytes) option \<times> 's) \<Rightarrow> nat \<Rightarrow> 's \<Rightarrow> (int \<times> bytes) list" where
  "read_frames dec 0 s = []"
| "read_frames dec (Suc n) s =
     (case dec s of (None, s') \<Rightarrow> [] | (Some f, s') \<Rightarrow> f # read_frames dec n s')"

text \<open>Writing a list of frames; the first one that cannot be encoded raises.\<close>

fun encode_all :: "(int \<Rightarrow> bytes \<Rightarrow> frame_error + bytes) \<Rightarrow> (int \<times> bytes) list \<Rightarrow> frame_error + bytes" where
  "encode_all enc [] = Inr []"
| "encode_all enc ((t, p) # fs) =
     (case enc t p of
        Inl e \<Rightarrow> Inl e
      | Inr w \<Rightarrow> (case encode_all enc fs of Inl e \<Rightarrow> Inl e | Inr ws \<Rightarrow> Inr (w @ ws)))"

context frame_codec
begin

lemma conversation:
  assumes "encode_all enc fs = Inr ws" "ok s" "view s = ws" "length fs < n"
  shows "read_frames dec n s = fs"
  using assms
proof (induction fs arbitrary: ws s n)
  case Nil
  with at_end [of s] obtain m where "n = Suc m" "fst (dec s) = None"
    by (cases n) auto
  then show ?case by (cases "dec s") auto
next
  case (Cons f fs)
  obtain t p where f: "f = (t, p)" by fastforce
  from Cons.prems(1) f obtain w ws' where w: "enc t p = Inr w" "encode_all enc fs = Inr ws'"
    "ws = w @ ws'" by (auto split: sum.splits)
  from roundtrip [OF w(1) Cons.prems(2)] Cons.prems(3) w(3) obtain s' where
    s': "dec s = (Some (t, p), s')" "view s' = ws'" "ok s'" by blast
  from Cons.prems(4) obtain m where m: "n = Suc m" "length fs < m" by (cases n) auto
  from Cons.IH [OF w(2) s'(3,2) m(2)] s'(1) m(1) f show ?case by simp
qed

end

lemma read_frame_roundtrip:
  assumes enc: "encode_frame t p = Inr w" and ok: "sock_ok s" and view: "sock_bytes s = w @ rest"
  shows "\<exists>s'. read_frame s = (Some (t, p), s') \<and> sock_bytes s' = rest \<and> sock_ok s'"
proof -
  note e = encode_frame_InrD [OF enc]
  have "5 \<le> length (sock_bytes s)" using view e(4) by simp
  from recv_exact_ok [OF ok this] obtain s1 where
    s1: "recv_exact s 5 = (Some (take 5 (sock_bytes s)), s1)"
      "sock_bytes s1 = drop 5 (sock_bytes s)" "sock_ok s1" .
  have hdr: "take 5 (sock_bytes s) = pack_be32 (1 + length p) @ [of_int t]"
    and tail: "sock_bytes s1 = p @ rest"
    using view e(4) s1(2) by auto
  have len: "unpack_be32 (take 4 (pack_be32 (1 + length p) @ [of_int t])) = 1 + length p"
    using e(3) by (simp add: unpack_pack_be32)
  have ft: "uint ((pack_be32 (1 + length p) @ [of_int t :: byte]) ! 4) = t"
    using e(1,2) by (simp add: nth_append uint_of_int_byte)
  show ?thesis
  proof (cases "p = []")
    case True
    with s1 hdr tail len ft show ?thesis by (simp add: read_frame_def Let_def)
  next
    case False
    have "length p \<le> length (sock_bytes s1)" using tail by simp
    from recv_exact_ok [OF s1(3) this] obtain s2 where
      s2: "recv_exact s1 (length p) = (Some (take (length p) (sock_bytes s1)), s2)"
        "sock_bytes s2 = drop (length p) (sock_bytes s1)" "sock_ok s2" .
    with tail have body: "recv_exact s1 (length p) = (Some p, s2)" "sock_bytes s2 = rest" by simp_all
    with s1(1) hdr len ft False s2(3) show ?thesis by (simp add: read_frame_def Let_def)
  qed
qed

lemma read_frame_at_end:
  assumes "sock_ok s" "sock_bytes s = []"
  shows "fst (read_frame s) = None"
proof -
  from assms have "s = []" by (cases s rule: sock_ok.cases) auto
  then show ?thesis by (simp add: read_frame_def recv_exact_def recv_loop.simps)
qed

text \<open>The worker's reader, with a propagating exception read as the end of the loop.\<close>

definition worker_dec :: "stream \<Rightarrow> (int \<times> bytes) option \<times> stream" where
  "worker_dec s = (case worker_read_frame s of (Inl (), s') \<Rightarrow> (None, s') | (Inr f, s') \<Rightarrow> (f, s'))"

lemma readexactly_append [simp]:
  "st_bytes s = w @ rest \<Longrightarrow> n = length w \<Longrightarrow>
     readexactly n s = (Inr w, s\<lparr>st_bytes := rest\<rparr>)"
  by (simp add: readexactly_def)

lemma worker_dec_roundtrip:
  assumes enc: "encode_frame t p = Inr w" and view: "st_bytes s = w @ rest"
  shows "worker_dec s = (Some (t, p), s\<lparr>st_bytes := rest\<rparr>)"
proof -
  note e = encode_frame_InrD [OF enc]
  let ?h = "pack_be32 (1 + length p) @ [of_int t]"
  have len: "unpack_be32 (take 4 ?h) = 1 + length p"
    using e(3) by (simp add: unpack_pack_be32)
  have ft: "uint (?h ! 4) = t"
    using e(1,2) by (simp add: nth_append uint_of_int_byte)
  have hdr: "readexactly 5 s = (Inr ?h, s\<lparr>st_bytes := p @ rest\<rparr>)"
    using view e(4) by simp
  show ?thesis
  proof (cases "p = []")
    case True
    with hdr len ft show ?thesis by (simp add: worker_dec_def worker_read_frame_def Let_def)
  next
    case False
    have "readexactly (length p) (s\<lparr>st_bytes := p @ rest\<rparr>) = (Inr p, s\<lparr>st_bytes := rest\<rparr>)"
      by simp
    with hdr len ft False show ?thesis
      by (simp add: worker_dec_def worker_read_frame_def Let_def)
  qed
qed

interpretation sip_to_sip: frame_codec encode_frame read_frame sock_bytes sock_ok
  by unfold_locales (auto intro: read_frame_roundtrip read_frame_at_end)

interpretation worker_to_sip: frame_codec worker_encode_frame read_frame sock_bytes sock_ok
  by unfold_locales (auto simp: worker_encode_frame_eq intro: read_frame_roundtrip read_frame_at_end)

interpretation sip_to_worker: frame_codec encode_frame worker_dec st_bytes "\<lambda>s. st_end s = AtEof"
proof unfold_locales
  fix t p w rest and s :: stream
  assume "encode_frame t p = Inr w" "st_end s = AtEof" "st_bytes s = w @ rest"
  then show "\<exists>s'. worker_dec s = (Some (t, p), s') \<and> st_bytes s' = rest \<and> st_end s' = AtEof"
    by (simp add: worker_dec_roundtrip)
next
  fix s :: stream
  assume "st_end s = AtEof" "st_bytes s = []"
  then show "fst (worker_dec s) = None"
    by (simp add: worker_dec_def worker_read_frame_def readexactly_def)
qed

section \<open>Properties\<close>

text \<open>
  C6: whatever frames a worker writes, the SIP service reads back exactly those frames, in
  order and then end of file, however the kernel cuts the byte stream into segments.
\<close>

theorem worker_frames_reach_sip:
  assumes "encode_all worker_encode_frame fs = Inr ws"
    and "sock_ok s" and "sock_bytes s = ws" and "length fs < n"
  shows "read_frames read_frame n s = fs"
  using assms by (rule worker_to_sip.conversation)

theorem worker_frames_reach_sip_witness:
  "read_frames read_frame 3 [Seg [0, 0, 0], Seg [3, 2, 7], Seg [8, 0, 0, 0, 1, 17]]
     = [(2, [7, 8]), (17, [])]"
  by (rule worker_frames_reach_sip [of _ "[0, 0, 0, 3, 2, 7, 8, 0, 0, 0, 1, 17]"])
    (simp_all add: worker_encode_frame_def pack_be32_def)

text \<open>
  in the other direction, the worker's asyncio reader recovers every frame the SIP
  service sends, up to the end of file.
\<close>

lemma sip_frames_reach_worker:
  assumes "encode_all encode_frame fs = Inr ws"
    and "st_end s = AtEof" and "st_bytes s = ws" and "length fs < n"
  shows "read_frames worker_dec n s = fs"
  using assms by (rule sip_to_worker.conversation)

lemma sip_frames_reach_worker_witness:
  "read_frames worker_dec 3 \<lparr>st_bytes = [0, 0, 0, 3, 1, 7, 8, 0, 0, 0, 2, 18, 53], st_end = AtEof\<rparr>
     = [(1, [7, 8]), (18, [53])]"
  by (rule sip_frames_reach_worker [of _ "[0, 0, 0, 3, 1, 7, 8, 0, 0, 0, 2, 18, 53]"])
    (simp_all add: encode_frame_def pack_be32_def)

end
