(* ===== verification/Bounded_Queue.thy ===== *)
theory Bounded_Queue
  imports Prelude
begin

text \<open>
  The contract of a bounded real-time queue: a full queue gives up its oldest element
  rather than blocking the producer, and counts the loss. The SIP audio bridge (both
  directions) and the worker's playout queue promise it; what a whole run of the producer
  leaves in the queue is proved here once, from the contract.
\<close>

definition last_n :: "nat \<Rightarrow> 'a list \<Rightarrow> 'a list" where
  "last_n n xs = drop (length xs - n) xs"

lemma last_n_short [simp]: "length xs \<le> n \<Longrightarrow> last_n n xs = xs"
  by (simp add: last_n_def)

lemma length_last_n [simp]: "length (last_n n xs) = min n (length xs)"
  by (simp add: last_n_def)

lemma last_n_snoc:
  assumes "0 < n"
  shows "last_n n (last_n n xs @ [x]) = last_n n (xs @ [x])"
proof (cases "length xs \<le> n")
  case True
  then show ?thesis by simp
next
  case False
  then have "Suc (length xs) - n = Suc (length xs - n)" by simp
  with False assms show ?thesis
    by (simp add: last_n_def min_def drop_Suc tl_drop)
qed

lemma last_n_snoc_full:
  assumes "n = length ys" "0 < n"
  shows "last_n n (ys @ [x]) = tl ys @ [x]"
  using assms by (cases ys) (auto simp: last_n_def)

locale bounded_queue =
  fixes cap :: nat
    and put :: "'a \<Rightarrow> 'q \<Rightarrow> 'q"
    and contents :: "'q \<Rightarrow> 'a list"
    and drops :: "'q \<Rightarrow> nat"
  assumes cap_pos: "0 < cap"
    and put_room: "length (contents q) < cap \<Longrightarrow> contents (put x q) = contents q @ [x]"
    and put_full: "length (contents q) = cap \<Longrightarrow> contents (put x q) = tl (contents q) @ [x]"
    and drop_room: "length (contents q) < cap \<Longrightarrow> drops (put x q) = drops q"
    and drop_full: "length (contents q) = cap \<Longrightarrow> drops (put x q) = Suc (drops q)"
begin

lemma put_last_n:
  assumes "length (contents q) \<le> cap"
  shows "contents (put x q) = last_n cap (contents q @ [x])"
proof (cases "length (contents q) < cap")
  case True
  then show ?thesis by (simp add: put_room)
next
  case False
  with assms have "length (contents q) = cap" by simp
  then show ?thesis using cap_pos by (simp add: put_full last_n_snoc_full)
qed

lemma put_bounded:
  "length (contents q) \<le> cap \<Longrightarrow> length (contents (put x q)) \<le> cap"
  by (simp add: put_last_n)

lemma put_conserves:
  assumes "length (contents q) \<le> cap"
  shows "length (contents (put x q)) + drops (put x q) = Suc (length (contents q) + drops q)"
proof (cases "length (contents q) < cap")
  case True
  then show ?thesis by (simp add: put_room drop_room)
next
  case False
  with assms have "length (contents q) = cap" by simp
  then show ?thesis using cap_pos by (cases "contents q") (simp_all add: put_full drop_full)
qed

lemma run_contents:
  assumes "length (contents q) \<le> cap"
  shows "contents (fold put xs q) = last_n cap (contents q @ xs)"
  using assms
proof (induction xs rule: rev_induct)
  case Nil
  then show ?case by simp
next
  case (snoc x xs)
  then have IH: "contents (fold put xs q) = last_n cap (contents q @ xs)" by simp
  then have "length (contents (fold put xs q)) \<le> cap" by simp
  then have "contents (put x (fold put xs q)) = last_n cap (contents (fold put xs q) @ [x])"
    by (rule put_last_n)
  with IH show ?case using last_n_snoc [OF cap_pos, of "contents q @ xs" x] by simp
qed

lemma run_bounded:
  "length (contents q) \<le> cap \<Longrightarrow> length (contents (fold put xs q)) \<le> cap"
  by (simp add: run_contents)

lemma run_conserves:
  assumes "length (contents q) \<le> cap"
  shows "length (contents (fold put xs q)) + drops (fold put xs q)
       = length (contents q) + drops q + length xs"
  using assms
proof (induction xs rule: rev_induct)
  case Nil
  then show ?case by simp
next
  case (snoc x xs)
  from snoc.prems have "length (contents (fold put xs q)) \<le> cap" by (rule run_bounded)
  from put_conserves [OF this, of x] snoc show ?case by simp
qed

end

end
