(* ===== verification/Audio_Bridge.thy ===== *)
theory Audio_Bridge
  imports Wire Bounded_Queue "HOL-Library.Sublist"
begin

text \<open>
  \<open>AudioBridge\<close> of \<open>sip/src/aipanel_sip/audio_bridge.py\<close>: the glue between one PJSIP call
  and a worker. The record holds the object's fields and what its callbacks and its socket
  have seen (\<open>br_dropped\<close>, \<open>br_hangups\<close>, \<open>br_dtmf\<close>: calls of the three callbacks;
  \<open>br_sent\<close>: the frames \<open>sendall\<close> accepted). The four threads that touch the object (PJSIP
  media, reader, writer, SIP callbacks) interleave: \<open>bridge_step\<close> is one atomic piece of one
  of them, \<open>run_bridge\<close> any schedule. What sockets and the file system answer is part of
  the event.
\<close>

section \<open>State\<close>

datatype reader_pc = RNone | RTop | RBlocked | RDone
datatype writer_pc = WNone | WTop | WWait | WDone

record bridge =
  br_inbound :: "bytes list"
  br_outbound :: "bytes list"
  br_listener :: bool
  br_client :: bool
  br_port :: bool
  br_reader :: reader_pc
  br_writer :: writer_pc
  br_shutdown :: bool
  br_closed :: bool
  br_path_exists :: bool
  br_dropped :: nat
  br_hangups :: nat
  br_dtmf :: "string list"
  br_sent :: "(int \<times> bytes) list"

text \<open>\<open>__init__\<close>; \<open>stale\<close> says whether a file already sits at the socket path.\<close>

definition new_bridge :: "bool \<Rightarrow> bridge" where
  "new_bridge stale = \<lparr>br_inbound = [], br_outbound = [], br_listener = False, br_client = False,
     br_port = False, br_reader = RNone, br_writer = WNone, br_shutdown = False,
     br_closed = False, br_path_exists = stale, br_dropped = 0, br_hangups = 0, br_dtmf = [],
     br_sent = []\<rparr>"

section \<open>Setup\<close>

text \<open>\<open>setup_socket\<close>: the bool says whether it returned; an \<open>OSError\<close> may come before or after
  \<open>bind\<close> created the path, and leaves the fields alone.\<close>

datatype setup_outcome = SetupOk | SetupFailsEarly | SetupFailsAfterUnlink | SetupFailsAfterBind

fun setup_socket :: "setup_outcome \<Rightarrow> bridge \<Rightarrow> bool \<times> bridge" where
  "setup_socket SetupOk b = (True, b\<lparr>br_path_exists := True, br_listener := True\<rparr>)"
| "setup_socket SetupFailsEarly b = (False, b)"
| "setup_socket SetupFailsAfterUnlink b = (False, b\<lparr>br_path_exists := False\<rparr>)"
| "setup_socket SetupFailsAfterBind b = (False, b\<lparr>br_path_exists := True\<rparr>)"

datatype accept_outcome = AcceptOk | AcceptTimeout | AcceptOsError
datatype accept_error = AcceptRuntime | AcceptTimeoutErr | AcceptOs

definition accept_worker :: "accept_outcome \<Rightarrow> bridge \<Rightarrow> (accept_error option) \<times> bridge" where
  "accept_worker r b =
     (if \<not> br_listener b then (Some AcceptRuntime, b)
      else (case r of
              AcceptTimeout \<Rightarrow> (Some AcceptTimeoutErr, b)
            | AcceptOsError \<Rightarrow> (Some AcceptOs, b)
            | AcceptOk \<Rightarrow> (None, b\<lparr>br_client := True, br_reader := RTop, br_writer := WTop\<rparr>)))"

definition attach_media :: "bridge \<Rightarrow> bridge" where
  "attach_media b = b\<lparr>br_port := True\<rparr>"

section \<open>The queues\<close>

definition enqueue_inbound :: "bytes \<Rightarrow> bridge \<Rightarrow> bridge" where
  "enqueue_inbound frame b =
     (let b1 = (if QUEUE_MAX_FRAMES \<le> length (br_inbound b)
                then b\<lparr>br_inbound := tl (br_inbound b), br_dropped := Suc (br_dropped b)\<rparr> else b)
      in b1\<lparr>br_inbound := br_inbound b1 @ [frame]\<rparr>)"

definition dequeue_outbound :: "bridge \<Rightarrow> bytes \<times> bridge" where
  "dequeue_outbound b =
     (case br_outbound b of
        [] \<Rightarrow> (SILENCE_FRAME, b)
      | f # fs \<Rightarrow> (f, b\<lparr>br_outbound := fs\<rparr>))"

text \<open>The locked append of the reader thread.\<close>

definition enqueue_outbound :: "bytes \<Rightarrow> bridge \<Rightarrow> bridge" where
  "enqueue_outbound payload b =
     (let b1 = (if QUEUE_MAX_FRAMES \<le> length (br_outbound b)
                then b\<lparr>br_outbound := tl (br_outbound b), br_dropped := Suc (br_dropped b)\<rparr> else b)
      in b1\<lparr>br_outbound := br_outbound b1 @ [payload]\<rparr>)"

section \<open>Sending\<close>

text \<open>\<open>_send\<close>: \<open>Inl\<close> is an exception that leaves it (only \<open>OSError\<close> is caught).\<close>

definition br_send :: "bool \<Rightarrow> int \<Rightarrow> bytes \<Rightarrow> bridge \<Rightarrow> frame_error + (bool \<times> bridge)" where
  "br_send sendall_ok ftype payload b =
     (if \<not> br_client b then Inr (False, b)
      else (case encode_frame ftype payload of
              Inl e \<Rightarrow> Inl e
            | Inr w \<Rightarrow>
                if sendall_ok then Inr (True, b\<lparr>br_sent := br_sent b @ [(ftype, payload)]\<rparr>)
                else Inr (False, b\<lparr>br_shutdown := True\<rparr>)))"

definition send_control :: "bool \<Rightarrow> bytes \<Rightarrow> bridge \<Rightarrow> frame_error + (bool \<times> bridge)" where
  "send_control ok json_utf8 b = br_send ok FRAME_CONTROL json_utf8 b"

definition send_dtmf :: "bool \<Rightarrow> string \<Rightarrow> bridge \<Rightarrow> frame_error + (bool \<times> bridge)" where
  "send_dtmf ok digit b =
     (if digit = [] then Inr (False, b)
      else br_send ok FRAME_DTMF (map ascii_byte (take 1 digit)) b)"

definition send_hangup :: "bool \<Rightarrow> bridge \<Rightarrow> frame_error + (bool \<times> bridge)" where
  "send_hangup ok b = br_send ok FRAME_HANGUP [] b"

section \<open>The reader and writer threads\<close>

text \<open>One pass of \<open>_read_loop\<close>: the loop test, then the result of the blocking \<open>read_frame\<close>.
  Control frames and unknown types are only logged.\<close>

definition reader_top :: "bridge \<Rightarrow> bridge" where
  "reader_top b = b\<lparr>br_reader := (if br_shutdown b then RDone else RBlocked)\<rparr>"

definition reader_got :: "(int \<times> bytes) option \<Rightarrow> bridge \<Rightarrow> bridge" where
  "reader_got fr b =
     (case fr of
        None \<Rightarrow> b\<lparr>br_hangups := Suc (br_hangups b), br_reader := RDone\<rparr>
      | Some (ftype, payload) \<Rightarrow>
          if ftype = FRAME_AUDIO_OUT then
            (if payload = [] then b\<lparr>br_reader := RTop\<rparr>
             else (enqueue_outbound payload b)\<lparr>br_reader := RTop\<rparr>)
          else if ftype = FRAME_HANGUP then
            b\<lparr>br_hangups := Suc (br_hangups b), br_reader := RDone\<rparr>
          else if ftype = FRAME_DTMF then
            (if payload = [] then b\<lparr>br_reader := RTop\<rparr>
             else b\<lparr>br_dtmf := br_dtmf b @ [ascii_decode payload], br_reader := RTop\<rparr>)
          else b\<lparr>br_reader := RTop\<rparr>)"

text \<open>One pass of \<open>_write_loop\<close>; an exception of \<open>_send\<close> ends the thread.\<close>

definition writer_top :: "bool \<Rightarrow> bridge \<Rightarrow> bridge" where
  "writer_top sendall_ok b =
     (if br_shutdown b then b\<lparr>br_writer := WDone\<rparr>
      else (case br_inbound b of
              [] \<Rightarrow> b\<lparr>br_writer := WWait\<rparr>
            | f # fs \<Rightarrow>
                let b1 = b\<lparr>br_inbound := fs\<rparr> in
                (case br_send sendall_ok FRAME_AUDIO_IN f b1 of
                   Inl e \<Rightarrow> b1\<lparr>br_writer := WDone\<rparr>
                 | Inr (sent, b2) \<Rightarrow> b2\<lparr>br_writer := (if sent then WTop else WDone)\<rparr>)))"

definition writer_wake :: "bridge \<Rightarrow> bridge" where
  "writer_wake b = b\<lparr>br_writer := (if br_shutdown b then WDone else WTop)\<rparr>"

section \<open>Teardown\<close>

definition bridge_close :: "bool \<Rightarrow> bridge \<Rightarrow> bridge" where
  "bridge_close unlink_ok b =
     (if br_closed b then b
      else b\<lparr>br_closed := True, br_shutdown := True, br_port := False, br_client := False,
             br_listener := False,
             br_path_exists := (br_path_exists b \<and> \<not> unlink_ok)\<rparr>)"

section \<open>Schedules\<close>

datatype bridge_event =
    RtpReceived bytes
  | RtpRequested
  | ReaderTests
  | ReaderGot "(int \<times> bytes) option"
  | WriterRuns bool
  | WriterWakes
  | SendControl bytes bool
  | SendDtmf string bool
  | SendHangup bool
  | AttachMedia
  | CloseBridge bool

definition sent_state :: "bridge \<Rightarrow> frame_error + (bool \<times> bridge) \<Rightarrow> bridge" where
  "sent_state b r = (case r of Inl e \<Rightarrow> b | Inr (ok, b') \<Rightarrow> b')"

fun bridge_step :: "bridge_event \<Rightarrow> bridge \<Rightarrow> bridge" where
  "bridge_step (RtpReceived f) b = (if br_port b then enqueue_inbound f b else b)"
| "bridge_step RtpRequested b = (if br_port b then snd (dequeue_outbound b) else b)"
| "bridge_step ReaderTests b = (if br_reader b = RTop then reader_top b else b)"
| "bridge_step (ReaderGot fr) b = (if br_reader b = RBlocked then reader_got fr b else b)"
| "bridge_step (WriterRuns ok) b = (if br_writer b = WTop then writer_top ok b else b)"
| "bridge_step WriterWakes b = (if br_writer b = WWait then writer_wake b else b)"
| "bridge_step (SendControl p ok) b = sent_state b (send_control ok p b)"
| "bridge_step (SendDtmf d ok) b = sent_state b (send_dtmf ok d b)"
| "bridge_step (SendHangup ok) b = sent_state b (send_hangup ok b)"
| "bridge_step AttachMedia b = (if br_closed b then b else attach_media b)"
| "bridge_step (CloseBridge ok) b = bridge_close ok b"

definition run_bridge :: "bridge_event list \<Rightarrow> bridge \<Rightarrow> bridge" where
  "run_bridge evs b = fold bridge_step evs b"

text \<open>Frames the caller's audio put in, and audio frames the worker received.\<close>

fun rtp_frames :: "bridge_event list \<Rightarrow> bytes list" where
  "rtp_frames [] = []"
| "rtp_frames (RtpReceived f # es) = f # rtp_frames es"
| "rtp_frames (_ # es) = rtp_frames es"

definition audio_sent :: "bridge \<Rightarrow> bytes list" where
  "audio_sent b = map snd (filter (\<lambda>f. fst f = FRAME_AUDIO_IN) (br_sent b))"

definition bridge_inv :: "bridge \<Rightarrow> bool" where
  "bridge_inv b \<longleftrightarrow>
     length (br_inbound b) \<le> QUEUE_MAX_FRAMES \<and> length (br_outbound b) \<le> QUEUE_MAX_FRAMES \<and>
     (br_closed b \<longrightarrow> br_shutdown b \<and> \<not> br_client b \<and> \<not> br_listener b \<and> \<not> br_port b) \<and>
     br_hangups b \<le> 1 \<and> (br_hangups b = 1 \<longrightarrow> br_reader b = RDone)"

section \<open>Queue lemmas\<close>

lemmas bridge_defs = enqueue_inbound_def dequeue_outbound_def enqueue_outbound_def br_send_def
  send_control_def send_dtmf_def send_hangup_def reader_top_def reader_got_def writer_top_def
  writer_wake_def bridge_close_def attach_media_def sent_state_def

interpretation inbound_queue: bounded_queue QUEUE_MAX_FRAMES enqueue_inbound br_inbound br_dropped
  by unfold_locales (auto simp: enqueue_inbound_def QUEUE_MAX_FRAMES_def)

interpretation outbound_queue: bounded_queue QUEUE_MAX_FRAMES enqueue_outbound br_outbound br_dropped
  by unfold_locales (auto simp: enqueue_outbound_def QUEUE_MAX_FRAMES_def)

lemma enqueue_inbound_frame [simp]:
  "br_outbound (enqueue_inbound f b) = br_outbound b"
  "br_closed (enqueue_inbound f b) = br_closed b"
  "br_shutdown (enqueue_inbound f b) = br_shutdown b"
  "br_client (enqueue_inbound f b) = br_client b"
  "br_listener (enqueue_inbound f b) = br_listener b"
  "br_port (enqueue_inbound f b) = br_port b"
  "br_hangups (enqueue_inbound f b) = br_hangups b"
  "br_reader (enqueue_inbound f b) = br_reader b"
  "br_sent (enqueue_inbound f b) = br_sent b"
  by (simp_all add: enqueue_inbound_def Let_def)

lemma enqueue_outbound_frame [simp]:
  "br_inbound (enqueue_outbound f b) = br_inbound b"
  "br_closed (enqueue_outbound f b) = br_closed b"
  "br_shutdown (enqueue_outbound f b) = br_shutdown b"
  "br_client (enqueue_outbound f b) = br_client b"
  "br_listener (enqueue_outbound f b) = br_listener b"
  "br_port (enqueue_outbound f b) = br_port b"
  "br_hangups (enqueue_outbound f b) = br_hangups b"
  "br_reader (enqueue_outbound f b) = br_reader b"
  "br_sent (enqueue_outbound f b) = br_sent b"
  by (simp_all add: enqueue_outbound_def Let_def)

section \<open>The invariant\<close>

lemma bridge_inv_new [inv_intros]: "bridge_inv (new_bridge stale)"
  by (simp add: bridge_inv_def new_bridge_def)

lemma bridge_inv_setup [inv_intros]:
  "bridge_inv b \<Longrightarrow> \<not> br_closed b \<Longrightarrow> bridge_inv (snd (setup_socket r b))"
  by (cases r) (auto simp: bridge_inv_def)

lemma bridge_inv_accept [inv_intros]:
  "bridge_inv b \<Longrightarrow> br_hangups b = 0 \<Longrightarrow> bridge_inv (snd (accept_worker r b))"
  by (auto simp: accept_worker_def bridge_inv_def split: accept_outcome.splits)

lemma bridge_inv_sent:
  "bridge_inv b \<Longrightarrow> bridge_inv (sent_state b (br_send ok t p b))"
  by (auto simp: br_send_def sent_state_def bridge_inv_def split: sum.splits)

lemma bridge_inv_writer:
  assumes "bridge_inv b"
  shows "bridge_inv (writer_top ok b)"
proof (cases "br_shutdown b \<or> br_inbound b = []")
  case True
  with assms show ?thesis by (auto simp: writer_top_def bridge_inv_def)
next
  case False
  then obtain f fs where "\<not> br_shutdown b" "br_inbound b = f # fs" by (auto simp: neq_Nil_conv)
  with assms show ?thesis
    by (auto simp: writer_top_def br_send_def bridge_inv_def Let_def split: sum.splits)
qed

lemma bridge_inv_reader_got:
  assumes "bridge_inv b" "br_reader b = RBlocked"
  shows "bridge_inv (reader_got fr b)"
proof -
  from assms have none: "br_hangups b = 0" by (auto simp: bridge_inv_def)
  have "length (br_outbound (enqueue_outbound p b)) \<le> QUEUE_MAX_FRAMES" for p
    using assms(1) by (intro outbound_queue.put_bounded) (simp add: bridge_inv_def)
  with assms(1) none show ?thesis
    by (auto simp: reader_got_def bridge_inv_def split: option.splits)
qed

lemma bridge_step_inv [inv_intros]:
  assumes "bridge_inv b"
  shows "bridge_inv (bridge_step e b)"
proof (cases e)
  case (RtpReceived f)
  have "length (br_inbound (enqueue_inbound f b)) \<le> QUEUE_MAX_FRAMES"
    using assms by (intro inbound_queue.put_bounded) (simp add: bridge_inv_def)
  with assms RtpReceived show ?thesis by (auto simp: bridge_inv_def)
next
  case (SendDtmf d ok)
  show ?thesis
  proof (cases "d = []")
    case True
    with SendDtmf assms show ?thesis by (simp add: send_dtmf_def sent_state_def)
  next
    case False
    with SendDtmf bridge_inv_sent [OF assms] show ?thesis by (simp add: send_dtmf_def)
  qed
qed (use assms bridge_inv_writer bridge_inv_reader_got bridge_inv_sent [OF assms] in
      \<open>auto simp: send_control_def send_hangup_def bridge_inv_def dequeue_outbound_def
        reader_top_def writer_wake_def attach_media_def bridge_close_def split: list.splits\<close>)

lemma run_bridge_inv [inv_intros]: "bridge_inv b \<Longrightarrow> bridge_inv (run_bridge evs b)"
  unfolding run_bridge_def by (induction evs arbitrary: b) (auto intro: bridge_step_inv)

section \<open>A closed bridge is silent\<close>

lemma bridge_step_closed:
  assumes "bridge_inv b" "br_closed b"
  shows "br_closed (bridge_step e b) \<and> br_sent (bridge_step e b) = br_sent b"
  using assms by (cases e)
    (auto simp: bridge_defs bridge_inv_def Let_def split: list.splits option.splits)

lemma run_bridge_closed:
  "bridge_inv b \<Longrightarrow> br_closed b \<Longrightarrow>
     br_closed (run_bridge evs b) \<and> br_sent (run_bridge evs b) = br_sent b"
  unfolding run_bridge_def
  by (induction evs arbitrary: b) (use bridge_step_closed bridge_step_inv in fastforce)+

section \<open>Audio order\<close>

lemma audio_sent_other:
  "t \<noteq> FRAME_AUDIO_IN \<Longrightarrow>
     audio_sent (sent_state b (br_send ok t p b)) = audio_sent b \<and>
     br_inbound (sent_state b (br_send ok t p b)) = br_inbound b"
  by (auto simp: br_send_def sent_state_def audio_sent_def split: sum.splits)

lemma subseq_tl_left: "subseq (tl xs) xs"
  by (cases xs) auto

lemma enqueue_inbound_subseq:
  "subseq (br_inbound (enqueue_inbound f b)) (br_inbound b @ [f])"
  by (auto simp: enqueue_inbound_def Let_def subseq_tl_left)

lemma subseq_skip_mid: "subseq (xs @ fs) (xs @ f # fs)"
  by (induction xs) auto

lemma writer_top_subseq:
  "subseq (audio_sent (writer_top ok b) @ br_inbound (writer_top ok b))
     (audio_sent b @ br_inbound b)"
proof (cases "br_shutdown b \<or> br_inbound b = []")
  case True
  then show ?thesis by (auto simp: writer_top_def audio_sent_def)
next
  case False
  then obtain f fs where f: "\<not> br_shutdown b" "br_inbound b = f # fs" by (auto simp: neq_Nil_conv)
  then show ?thesis
    by (auto simp: writer_top_def br_send_def audio_sent_def Let_def subseq_skip_mid
        split: sum.splits)
qed

lemma bridge_step_subseq:
  "subseq (audio_sent (bridge_step e b) @ br_inbound (bridge_step e b))
     (audio_sent b @ br_inbound b @ rtp_frames [e])"
proof (cases e)
  case (RtpReceived f)
  have "audio_sent (enqueue_inbound f b) = audio_sent b" by (simp add: audio_sent_def)
  with RtpReceived enqueue_inbound_subseq [of f b] show ?thesis
    by (auto intro: list_emb_append_mono subseq_append)
next
  case (WriterRuns ok)
  with writer_top_subseq [of ok b] show ?thesis by simp
next
  case (SendControl p ok)
  with audio_sent_other [of FRAME_CONTROL b ok p] show ?thesis
    by (simp add: send_control_def frame_consts)
next
  case (SendDtmf d ok)
  have "FRAME_DTMF \<noteq> FRAME_AUDIO_IN" by (simp add: frame_consts)
  with SendDtmf audio_sent_other [of FRAME_DTMF b ok] show ?thesis
    by (cases "d = []") (simp_all add: send_dtmf_def sent_state_def)
next
  case (SendHangup ok)
  with audio_sent_other [of FRAME_HANGUP b ok "[]"] show ?thesis
    by (simp add: send_hangup_def frame_consts)
qed (auto simp: bridge_defs audio_sent_def Let_def split: list.splits option.splits)

lemma rtp_frames_Cons: "rtp_frames (e # es) = rtp_frames [e] @ rtp_frames es"
  by (cases e) auto

lemma run_bridge_subseq:
  "subseq (audio_sent (run_bridge evs b) @ br_inbound (run_bridge evs b))
     (audio_sent b @ br_inbound b @ rtp_frames evs)"
proof (induction evs arbitrary: b)
  case Nil
  then show ?case by (simp add: run_bridge_def)
next
  case (Cons e es)
  have "subseq (audio_sent (run_bridge (e # es) b) @ br_inbound (run_bridge (e # es) b))
     ((audio_sent (bridge_step e b) @ br_inbound (bridge_step e b)) @ rtp_frames es)"
    using Cons.IH [of "bridge_step e b"] by (simp add: run_bridge_def)
  also have "subseq \<dots> ((audio_sent b @ br_inbound b @ rtp_frames [e]) @ rtp_frames es)"
    by (rule list_emb_append_mono [OF bridge_step_subseq]) simp
  finally show ?case by (simp add: rtp_frames_Cons [of e es])
qed

section \<open>Properties\<close>


text \<open>
  the audio the worker receives is the caller's audio with frames dropped but never
  reordered, duplicated or invented: it is a subsequence of the frames RTP delivered, under
  every interleaving and any pattern of socket failures.
\<close>

lemma bridge_audio_in_order:
  "subseq (audio_sent (run_bridge evs (snd (accept_worker r (snd (setup_socket su (new_bridge stale)))))))
     (rtp_frames evs)"
proof -
  let ?b = "snd (accept_worker r (snd (setup_socket su (new_bridge stale))))"
  have init: "br_inbound ?b = []" "audio_sent ?b = []"
    by (cases su; cases r; simp add: accept_worker_def new_bridge_def audio_sent_def)+
  have "subseq (audio_sent (run_bridge evs ?b) @ br_inbound (run_bridge evs ?b)) (rtp_frames evs)"
    using run_bridge_subseq [of evs ?b] init by simp
  then show ?thesis by (meson list_emb_append2 subseq_append_le_same_iff subseq_order.trans
        subseq_order.order_refl list_emb_prefix)
qed

text \<open>
  closing is final and idempotent: whatever the threads still do afterwards, nothing more
  is sent to the worker, and closing again changes nothing.
\<close>

lemma bridge_close_final:
  assumes "bridge_inv b"
  shows "br_sent (run_bridge evs (bridge_close ok b)) = br_sent b
    \<and> bridge_close ok' (bridge_close ok b) = bridge_close ok b"
proof -
  have "bridge_inv (bridge_close ok b)" using bridge_step_inv [OF assms, of "CloseBridge ok"] by simp
  moreover have "br_closed (bridge_close ok b)" by (simp add: bridge_close_def)
  ultimately have "br_sent (run_bridge evs (bridge_close ok b)) = br_sent (bridge_close ok b)"
    using run_bridge_closed by blast
  then show ?thesis by (simp add: bridge_close_def)
qed

lemma bridge_close_final_witness:
  "br_sent (run_bridge [SendHangup True, ReaderGot None, WriterRuns True]
     (bridge_close True (new_bridge False))) = []"
  using bridge_close_final [OF bridge_inv_new [of False], of
      "[SendHangup True, ReaderGot None, WriterRuns True]" True True]
  by (simp add: new_bridge_def)

text \<open>
  A burst of caller frames into the inbound queue keeps exactly the newest fifty, and
  every frame is accounted for: kept or counted by the drop metric.
\<close>

lemma inbound_burst:
  assumes "length (br_inbound b) \<le> QUEUE_MAX_FRAMES"
  shows "br_inbound (fold enqueue_inbound fs b) = last_n 50 (br_inbound b @ fs)
    \<and> length (br_inbound (fold enqueue_inbound fs b)) + br_dropped (fold enqueue_inbound fs b)
        = length (br_inbound b) + br_dropped b + length fs"
  using inbound_queue.run_contents [OF assms, of fs] inbound_queue.run_conserves [OF assms, of fs]
  by (simp add: QUEUE_MAX_FRAMES_def)

lemma inbound_burst_witness:
  "br_dropped (fold enqueue_inbound (replicate 52 [1, 2]) (new_bridge False)) = 2"
  using inbound_burst [of "new_bridge False" "replicate 52 [1, 2]"]
  by (auto simp: new_bridge_def last_n_def)

end
