(* ===== verification/Header_Parser.thy ===== *)
theory Header_Parser
  imports Prelude
begin

text \<open>
  \<open>sip/src/aipanel_sip/header_parser.py\<close>: the defensive RFC 3261 header scan of an INVITE.
  The loop of \<open>parse_headers\<close> with its three local variables (\<open>out\<close>, and \<open>pending_name\<close>
  with \<open>pending_value\<close> as one optional pair) is \<open>header_loop\<close>; \<open>_flush\<close> is
  \<open>flush_header\<close>.
\<close>

definition HEADER_MAP :: "string dict" where
  "HEADER_MAP =
     [(''x-vicidial-leadid'', ''vici_lead_id''),
      (''x-vicidial-uniqueid'', ''vici_uniqueid''),
      (''x-vicidial-campaign'', ''vici_campaign''),
      (''x-vicidial-phone'', ''vici_phone''),
      (''p-asserted-identity'', ''p_asserted_identity'')]"

definition flush_header :: "string dict \<Rightarrow> (string \<times> string) option \<Rightarrow> string dict" where
  "flush_header out pending =
     (case pending of
        None \<Rightarrow> out
      | Some (name, val) \<Rightarrow>
          (case map_of HEADER_MAP (lower name) of
             None \<Rightarrow> out
           | Some canonical \<Rightarrow> AList.update canonical (strip val) out))"

definition start_lines :: "string list" where
  "start_lines = [''INVITE '', ''SIP/2.0 '', ''ACK '', ''BYE '', ''CANCEL '', ''OPTIONS '']"

text \<open>\<open>line.partition(":")\<close> on a line that contains a colon.\<close>

definition before_colon :: "string \<Rightarrow> string" where
  "before_colon l = takeWhile (\<lambda>c. c \<noteq> CHR '':'') l"

definition after_colon :: "string \<Rightarrow> string" where
  "after_colon l = tl (dropWhile (\<lambda>c. c \<noteq> CHR '':'') l)"

fun header_loop :: "string list \<Rightarrow> string dict \<Rightarrow> (string \<times> string) option \<Rightarrow> string dict" where
  "header_loop [] out pending = flush_header out pending"
| "header_loop (line # rest) out pending =
     (if line = [] then flush_header out pending
      else if list_ex (startswith line) start_lines then header_loop rest out pending
      else if hd line = CHR '' '' \<or> hd line = CHR 0x09 then
        (case pending of
           None \<Rightarrow> header_loop rest out None
         | Some (name, val) \<Rightarrow> header_loop rest out (Some (name, val @ '' '' @ strip line)))
      else
        (let out1 = flush_header out pending in
         if CHR '':'' \<notin> set line then header_loop rest out1 None
         else header_loop rest out1 (Some (strip (before_colon line), after_colon line))))"

text \<open>\<open>raw_msg.replace("\r\n", "\n")\<close>.\<close>

fun replace_crlf :: "string \<Rightarrow> string" where
  "replace_crlf [] = []"
| "replace_crlf [a] = [a]"
| "replace_crlf (a # b # cs) =
     (if a = CHR 0x0D \<and> b = CHR 0x0A then CHR 0x0A # replace_crlf cs
      else a # replace_crlf (b # cs))"

definition parse_headers :: "string \<Rightarrow> string dict" where
  "parse_headers raw_msg =
     (if raw_msg = [] then []
      else header_loop (split_on (CHR 0x0A) (replace_crlf raw_msg)) [] None)"

section \<open>Lemmas\<close>

text \<open>Names and values that fit on one header line of the wire.\<close>

definition crlf :: string where "crlf = [CHR 0x0D, CHR 0x0A]"

definition name_ok :: "string \<Rightarrow> bool" where
  "name_ok n \<longleftrightarrow> n \<noteq> [] \<and> (\<forall>c \<in> set n. \<not> is_space c \<and> c \<noteq> CHR '':'')"

definition line_ok :: "string \<Rightarrow> bool" where
  "line_ok v \<longleftrightarrow> CHR 0x0D \<notin> set v \<and> CHR 0x0A \<notin> set v"

definition header_line :: "string \<times> string \<Rightarrow> string" where
  "header_line h = fst h @ CHR '':'' # snd h"

definition record_header :: "string dict \<Rightarrow> string \<times> string \<Rightarrow> string dict" where
  "record_header d h =
     (case map_of HEADER_MAP (lower (fst h)) of
        None \<Rightarrow> d | Some k \<Rightarrow> AList.update k (strip (snd h)) d)"

lemma flush_Some: "flush_header out (Some (n, v)) = record_header out (n, v)"
  by (simp add: flush_header_def record_header_def split: option.split)

lemma replace_crlf_line:
  "CHR 0x0D \<notin> set s \<Longrightarrow> replace_crlf (s @ crlf @ t) = s @ CHR 0x0A # replace_crlf t"
proof (induction s)
  case Nil
  then show ?case by (simp add: crlf_def)
next
  case (Cons a s)
  then obtain b r where "s @ crlf @ t = b # r" by (cases s) (auto simp: crlf_def)
  with Cons show ?case by auto
qed

lemma lines_of_headers:
  assumes "\<forall>l \<in> set ls. line_ok l"
  shows "split_on (CHR 0x0A) (replace_crlf (concat (map (\<lambda>l. l @ crlf) ls) @ t))
       = ls @ split_on (CHR 0x0A) (replace_crlf t)"
  using assms
  by (induction ls) (auto simp: line_ok_def replace_crlf_line split_on_append_sep)

lemma startswith_before:
  assumes "startswith (n @ c # v) p" "c \<notin> set p"
  shows "set p \<subseteq> set n"
proof (cases "length p \<le> length n")
  case True
  with assms(1) have "p = take (length p) n" by (simp add: startswith_def)
  then show ?thesis by (metis set_take_subset)
next
  case False
  from assms(1) have p: "p = take (length p) (n @ c # v)" by (simp add: startswith_def)
  with False have "p ! length n = (n @ c # v) ! length n" by (metis not_le nth_take)
  then have "p ! length n = c" by simp
  with False have "c \<in> set p" by (metis not_le nth_mem)
  with assms(2) show ?thesis by contradiction
qed

lemma start_line_no_name:
  assumes "name_ok n" "startswith (n @ CHR '':'' # v) p" "p \<in> set start_lines"
  shows False
proof -
  have p: "CHR '' '' \<in> set p" "CHR '':'' \<notin> set p"
    using assms(3) by (auto simp: start_lines_def)
  from startswith_before [OF assms(2) p(2)] p(1) assms(1) show False
    by (auto simp: name_ok_def is_space_def)
qed

lemma colon_parts:
  "CHR '':'' \<notin> set n \<Longrightarrow> before_colon (n @ CHR '':'' # v) = n"
  "CHR '':'' \<notin> set n \<Longrightarrow> after_colon (n @ CHR '':'' # v) = v"
  by (induction n) (auto simp: before_colon_def after_colon_def)

lemma header_loop_header:
  assumes "name_ok n" "line_ok v"
  shows "header_loop (header_line (n, v) # rest) out pending
       = header_loop rest (flush_header out pending) (Some (n, v))"
proof -
  let ?l = "n @ CHR '':'' # v"
  from assms(1) obtain c cs where n: "n = c # cs" "\<not> is_space c" by (cases n) (auto simp: name_ok_def)
  have no_start: "\<not> list_ex (startswith ?l) start_lines"
    using start_line_no_name [OF assms(1)] by (auto simp: list_ex_iff)
  have "CHR '':'' \<notin> set n" using assms(1) by (auto simp: name_ok_def)
  then have parts: "before_colon ?l = n" "after_colon ?l = v" by (simp_all add: colon_parts)
  have "strip n = n" using assms(1) by (intro strip_no_space) (auto simp: name_ok_def)
  moreover have "hd ?l \<noteq> CHR '' ''" "hd ?l \<noteq> CHR 0x09"
    using n by (auto simp: is_space_def)
  ultimately show ?thesis
    using no_start parts n(1) by (simp add: header_line_def)
qed

lemma header_loop_headers:
  assumes "\<forall>h \<in> set hs. name_ok (fst h) \<and> line_ok (snd h)"
  shows "header_loop (map header_line hs @ [] # rest) out pending
       = foldl record_header (flush_header out pending) hs"
  using assms
proof (induction hs arbitrary: out pending)
  case Nil
  then show ?case by simp
next
  case (Cons h hs)
  obtain n v where h: "h = (n, v)" by fastforce
  with Cons.prems have "name_ok n" "line_ok v" by auto
  from header_loop_header [OF this] Cons h show ?case by (simp add: flush_Some)
qed

lemma record_header_keys:
  assumes "fst ` set d \<subseteq> snd ` set HEADER_MAP"
  shows "fst ` set (record_header d h) \<subseteq> snd ` set HEADER_MAP"
proof (cases "map_of HEADER_MAP (lower (fst h))")
  case None
  with assms show ?thesis by (simp add: record_header_def)
next
  case (Some k)
  then have "k \<in> snd ` set HEADER_MAP" by (metis imageI map_of_SomeD snd_conv)
  with assms Some show ?thesis by (simp add: record_header_def dom_update)
qed

lemma flush_header_keys:
  "fst ` set d \<subseteq> snd ` set HEADER_MAP \<Longrightarrow>
     fst ` set (flush_header d pending) \<subseteq> snd ` set HEADER_MAP"
  by (cases pending) (simp add: flush_header_def, metis flush_Some record_header_keys surj_pair)

lemma header_loop_keys:
  "fst ` set out \<subseteq> snd ` set HEADER_MAP \<Longrightarrow>
     fst ` set (header_loop ls out pending) \<subseteq> snd ` set HEADER_MAP"
proof (induction ls out pending rule: header_loop.induct)
  case (1 out pending)
  then show ?case by (simp add: flush_header_keys)
next
  case (2 line rest out pending)
  from "2.prems" have "fst ` set (flush_header out pending) \<subseteq> snd ` set HEADER_MAP"
    by (rule flush_header_keys)
  with 2 show ?case by (simp add: Let_def split: option.splits)
qed

section \<open>Properties\<close>

text \<open>
  on a well-formed message (a request line, CRLF-terminated headers, a blank line, any
  body) the parser returns exactly the recognised headers: names compared case-insensitively,
  values stripped, the last occurrence of a repeated header winning, the body never looked at.
\<close>

lemma parse_headers_wire:
  assumes "startswith req ''INVITE ''" and "line_ok req"
    and "\<forall>h \<in> set hs. name_ok (fst h) \<and> line_ok (snd h) \<and> line_ok (fst h)"
  shows "parse_headers (req @ crlf @ concat (map (\<lambda>h. header_line h @ crlf) hs) @ crlf @ body)
       = foldl record_header [] hs"
proof -
  let ?ls = "req # map header_line hs @ [[]]"
  have msg: "req @ crlf @ concat (map (\<lambda>h. header_line h @ crlf) hs) @ crlf @ body
      = concat (map (\<lambda>l. l @ crlf) ?ls) @ body"
    by (simp add: comp_def)
  have ok: "\<forall>l \<in> set ?ls. line_ok l"
    using assms(2,3) by (auto simp: line_ok_def header_line_def)
  have req: "req \<noteq> []" "list_ex (startswith req) start_lines"
    using assms(1) by (auto simp: startswith_def start_lines_def)
  have "parse_headers (req @ crlf @ concat (map (\<lambda>h. header_line h @ crlf) hs) @ crlf @ body)
      = header_loop (?ls @ split_on (CHR 0x0A) (replace_crlf body)) [] None"
    unfolding msg using req(1) by (simp add: parse_headers_def lines_of_headers [OF ok, simplified])
  also have "\<dots> = foldl record_header [] hs"
    using header_loop_headers [of hs "split_on (CHR 0x0A) (replace_crlf body)" "[]" None]
      assms(3) req by (simp add: flush_header_def)
  finally show ?thesis .
qed

lemma parse_headers_wire_witness:
  "parse_headers (''INVITE sip:x SIP/2.0'' @ crlf @
       concat (map (\<lambda>h. header_line h @ crlf) [(''X-VICIdial-Phone'', '' 555 '')]) @ crlf @ ''v=0'')
     = foldl record_header [] [(''X-VICIdial-Phone'', '' 555 '')]"
  by (rule parse_headers_wire)
    (simp_all add: startswith_def line_ok_def name_ok_def is_space_def)

text \<open>
  Whatever bytes arrive, the result only has the five canonical field names as keys.
\<close>

lemma parse_headers_keys:
  "fst ` set (parse_headers raw) \<subseteq>
     {''vici_lead_id'', ''vici_uniqueid'', ''vici_campaign'', ''vici_phone'', ''p_asserted_identity''}"
proof (cases "raw = []")
  case True
  then show ?thesis by (simp add: parse_headers_def)
next
  case False
  have "snd ` set HEADER_MAP = {''vici_lead_id'', ''vici_uniqueid'', ''vici_campaign'',
      ''vici_phone'', ''p_asserted_identity''}"
    by (simp add: HEADER_MAP_def)
  with False header_loop_keys [of "[]" "split_on (CHR 0x0A) (replace_crlf raw)" None]
  show ?thesis by (simp add: parse_headers_def)
qed

end
