(* ===== verification/Call_Router.thy ===== *)
theory Call_Router
  imports Audio_Bridge Header_Parser
begin

text \<open>
  Incoming calls of the SIP service: \<open>call_handler.py\<close> (\<open>CallState\<close>, \<open>CallRouter\<close> and the
  callbacks of \<open>_IncomingCall\<close>), the data of \<open>models.py\<close> and the request that
  \<open>worker_dispatcher.py\<close> publishes. A call object is its bridge and its media flag; the state
  keeps every call object ever created (\<open>ss_objects\<close>), the table of \<open>CallState\<close>
  (\<open>ss_calls\<close>, the ids in it) and, as ghosts, what left the process: final responses, stream
  entries, BYEs and \<open>on_call_ended\<close> notifications. PJSIP, Redis, uuid4 and the clock are
  inputs of the handlers.
\<close>

section \<open>Data\<close>

type_synonym uuid = string

record sip_account =
  sa_deployment_id :: uuid
  sa_phone_login :: string
  sa_phone_pass :: string
  sa_asterisk_host :: string
  sa_asterisk_port :: int

text \<open>\<open>SipAccountModel.__str__\<close>, used in log lines.\<close>

definition account_str :: "sip_account \<Rightarrow> string" where
  "account_str a = sa_phone_login a @ ''@'' @ sa_asterisk_host a @ '':'' @ str_int (sa_asterisk_port a)"

record call_context =
  cx_call_id :: uuid
  cx_deployment_id :: uuid
  cx_account_login :: string
  cx_socket_path :: string
  cx_vici_lead_id :: "string option"
  cx_vici_uniqueid :: "string option"
  cx_vici_campaign :: "string option"
  cx_vici_phone :: "string option"
  cx_p_asserted_identity :: "string option"
  cx_started_at :: string

record sip_call =
  sc_bridge :: bridge
  sc_media_attached :: bool

record sip_state =
  ss_shutting_down :: bool
  ss_calls :: "uuid list"
  ss_objects :: "(uuid \<times> sip_call) list"
  ss_responses :: "(int \<times> int \<times> string) list"
  ss_stream :: "string dict list"
  ss_byes :: "(uuid \<times> int) list"
  ss_ended :: "(uuid \<times> string) list"

definition sip_init :: sip_state where
  "sip_init = \<lparr>ss_shutting_down = False, ss_calls = [], ss_objects = [], ss_responses = [],
     ss_stream = [], ss_byes = [], ss_ended = []\<rparr>"

section \<open>CallState\<close>

definition calls_add :: "uuid \<Rightarrow> sip_state \<Rightarrow> sip_state" where
  "calls_add cid s = (if cid \<in> set (ss_calls s) then s else s\<lparr>ss_calls := ss_calls s @ [cid]\<rparr>)"

definition calls_pop :: "uuid \<Rightarrow> sip_state \<Rightarrow> bool \<times> sip_state" where
  "calls_pop cid s =
     (cid \<in> set (ss_calls s), s\<lparr>ss_calls := filter (\<lambda>c. c \<noteq> cid) (ss_calls s)\<rparr>)"

definition active_count :: "sip_state \<Rightarrow> nat" where
  "active_count s = length (ss_calls s)"

section \<open>Worker dispatch\<close>

definition request_payload :: "call_context \<Rightarrow> string dict" where
  "request_payload ctx =
     [(''call_id'', cx_call_id ctx),
      (''deployment_id'', cx_deployment_id ctx),
      (''account_login'', cx_account_login ctx),
      (''socket_path'', cx_socket_path ctx),
      (''vici_lead_id'', opt_str_or (cx_vici_lead_id ctx) []),
      (''vici_uniqueid'', opt_str_or (cx_vici_uniqueid ctx) []),
      (''vici_campaign'', opt_str_or (cx_vici_campaign ctx) []),
      (''vici_phone'', opt_str_or (cx_vici_phone ctx) []),
      (''p_asserted_identity'', opt_str_or (cx_p_asserted_identity ctx) []),
      (''started_at'', cx_started_at ctx)]"

text \<open>\<open>xadd\<close> answers an entry id or raises \<open>RedisError\<close> (\<open>None\<close>).\<close>

definition publish_request :: "string option \<Rightarrow> call_context \<Rightarrow> sip_state \<Rightarrow> string option \<times> sip_state" where
  "publish_request xadd ctx s =
     (case xadd of
        None \<Rightarrow> (None, s)
      | Some entry_id \<Rightarrow> (Some entry_id, s\<lparr>ss_stream := ss_stream s @ [request_payload ctx]\<rparr>))"

section \<open>Callbacks of a call\<close>

definition set_object :: "uuid \<Rightarrow> sip_call \<Rightarrow> sip_state \<Rightarrow> sip_state" where
  "set_object cid c s = s\<lparr>ss_objects := AList.update cid c (ss_objects s)\<rparr>"

definition on_disconnected :: "uuid \<Rightarrow> sip_state \<Rightarrow> sip_state" where
  "on_disconnected cid s =
     (let (found, s1) = calls_pop cid s in
      if \<not> found then s1 else s1\<lparr>ss_ended := ss_ended s1 @ [(cid, ''completed'')]\<rparr>)"

text \<open>\<open>_worker_initiated_hangup\<close>: a failing \<open>hangup\<close> is logged, the call still counts as ended.\<close>

definition worker_initiated_hangup :: "bool \<Rightarrow> uuid \<Rightarrow> sip_state \<Rightarrow> sip_state" where
  "worker_initiated_hangup hangup_ok cid s =
     (let (found, s1) = calls_pop cid s in
      if \<not> found then s1
      else let s2 = (if hangup_ok then s1\<lparr>ss_byes := ss_byes s1 @ [(cid, 200)]\<rparr> else s1)
           in s2\<lparr>ss_ended := ss_ended s2 @ [(cid, ''worker_hangup'')]\<rparr>)"

text \<open>\<open>onCallState\<close>; \<open>info_ok\<close> is whether \<open>getInfo\<close> succeeded.\<close>

definition on_call_state :: "bool \<Rightarrow> bool \<Rightarrow> bool \<Rightarrow> bool \<Rightarrow> uuid \<Rightarrow> sip_state \<Rightarrow> sip_state" where
  "on_call_state info_ok disconnected send_ok unlink_ok cid s =
     (if \<not> info_ok \<or> \<not> disconnected then s
      else (case map_of (ss_objects s) cid of
              None \<Rightarrow> s
            | Some c \<Rightarrow>
                let b1 = sent_state (sc_bridge c) (send_hangup send_ok (sc_bridge c));
                    b2 = bridge_close unlink_ok b1
                in on_disconnected cid (set_object cid (c\<lparr>sc_bridge := b2\<rparr>) s)))"

text \<open>\<open>onCallMediaState\<close>: the first active audio medium while none is attached yet; the
  loop breaks after it either way. A media list is (is audio, is active) per entry.\<close>

fun on_call_media_state :: "bool \<Rightarrow> (bool \<times> bool) list \<Rightarrow> bool \<Rightarrow> bool \<Rightarrow> uuid \<Rightarrow> sip_state \<Rightarrow> sip_state" where
  "on_call_media_state info_ok [] attach_ok hangup_ok cid s = s"
| "on_call_media_state info_ok ((audio, active) # ms) attach_ok hangup_ok cid s =
     (if \<not> info_ok then s
      else (case map_of (ss_objects s) cid of
              None \<Rightarrow> s
            | Some c \<Rightarrow>
                if audio \<and> active \<and> \<not> sc_media_attached c then
                  (if attach_ok
                   then set_object cid (c\<lparr>sc_bridge := attach_media (sc_bridge c),
                                          sc_media_attached := True\<rparr>) s
                   else if hangup_ok then s\<lparr>ss_byes := ss_byes s @ [(cid, 503)]\<rparr> else s)
                else on_call_media_state info_ok ms attach_ok hangup_ok cid s))"

definition on_dtmf_digit :: "string \<Rightarrow> bool \<Rightarrow> uuid \<Rightarrow> sip_state \<Rightarrow> sip_state" where
  "on_dtmf_digit digit send_ok cid s =
     (case map_of (ss_objects s) cid of
        None \<Rightarrow> s
      | Some c \<Rightarrow>
          set_object cid (c\<lparr>sc_bridge := sent_state (sc_bridge c)
             (send_dtmf send_ok digit (sc_bridge c))\<rparr>) s)"

definition hangup_all :: "(uuid \<Rightarrow> bool) \<Rightarrow> sip_state \<Rightarrow> sip_state" where
  "hangup_all ok s = s\<lparr>ss_byes := ss_byes s @ map (\<lambda>c. (c, 200)) (filter ok (ss_calls s))\<rparr>"

section \<open>The INVITE\<close>

text \<open>What the outside answers while one INVITE is handled. \<open>iv_between\<close> are the callbacks
  of other threads that run after the call object exists and before it enters the table: the
  bridge's reader thread is already up then. \<open>iv_reject_ok\<close> is whether PJSIP accepts the
  rejection.\<close>

datatype racing = RaceWorkerHangup bool | RaceDisconnected bool bool

record invite =
  iv_account :: sip_account
  iv_prm_call_id :: int
  iv_call_id :: uuid
  iv_raw_msg :: "string option"
  iv_started_at :: string
  iv_stale :: bool
  iv_setup :: setup_outcome
  iv_xadd :: "string option"
  iv_accept :: accept_outcome
  iv_create_ok :: bool
  iv_context_json :: bytes
  iv_send_ok :: bool
  iv_answer_ok :: bool
  iv_between :: "racing list"
  iv_reject_ok :: bool
  iv_unlink_ok :: bool

definition reject :: "invite \<Rightarrow> int \<Rightarrow> string \<Rightarrow> sip_state \<Rightarrow> sip_state" where
  "reject iv code reason s =
     (if iv_reject_ok iv
      then s\<lparr>ss_responses := ss_responses s @ [(iv_prm_call_id iv, code, reason)]\<rparr> else s)"

definition invite_context :: "string \<Rightarrow> invite \<Rightarrow> call_context" where
  "invite_context runtime_dir iv =
     (let raw_msg = opt_str_or (iv_raw_msg iv) [];
          headers = parse_headers raw_msg
      in \<lparr>cx_call_id = iv_call_id iv,
          cx_deployment_id = sa_deployment_id (iv_account iv),
          cx_account_login = sa_phone_login (iv_account iv),
          cx_socket_path = runtime_dir @ ''/'' @ iv_call_id iv @ ''.sock'',
          cx_vici_lead_id = map_of headers ''vici_lead_id'',
          cx_vici_uniqueid = map_of headers ''vici_uniqueid'',
          cx_vici_campaign = map_of headers ''vici_campaign'',
          cx_vici_phone = map_of headers ''vici_phone'',
          cx_p_asserted_identity = map_of headers ''p_asserted_identity'',
          cx_started_at = iv_started_at iv\<rparr>)"

fun race_step :: "uuid \<Rightarrow> racing \<Rightarrow> sip_state \<Rightarrow> sip_state" where
  "race_step cid (RaceWorkerHangup ok) s = worker_initiated_hangup ok cid s"
| "race_step cid (RaceDisconnected send_ok unlink_ok) s =
     on_call_state True True send_ok unlink_ok cid s"

text \<open>How an INVITE ended; \<open>IvRaised\<close> is an exception that leaves the handler. The bridge
  as the handler leaves it is part of the outcome.\<close>

datatype invite_outcome =
    IvShuttingDown | IvRejected bridge | IvAnswerFailed bridge | IvAnswered | IvRaised

definition handle_invite :: "string \<Rightarrow> invite \<Rightarrow> sip_state \<Rightarrow> invite_outcome \<times> sip_state" where
  "handle_invite runtime_dir iv s =
     (if ss_shutting_down s then (IvShuttingDown, reject iv 503 ''shutting down'' s)
      else
        let cid = iv_call_id iv;
            ctx = invite_context runtime_dir iv;
            (setup_done, b0) = setup_socket (iv_setup iv) (new_bridge (iv_stale iv))
        in if \<not> setup_done then (IvRejected b0, reject iv 500 ''internal error'' s)
        else case publish_request (iv_xadd iv) ctx s of
          (None, s1) \<Rightarrow>
            (IvRejected (bridge_close (iv_unlink_ok iv) b0), reject iv 503 ''dispatch failed'' s1)
        | (Some entry, s1) \<Rightarrow>
            (case accept_worker (iv_accept iv) b0 of
               (Some AcceptTimeoutErr, b1) \<Rightarrow>
                 (IvRejected (bridge_close (iv_unlink_ok iv) b1), reject iv 503 ''no worker available'' s1)
             | (Some AcceptOs, b1) \<Rightarrow>
                 (IvRejected (bridge_close (iv_unlink_ok iv) b1), reject iv 500 ''internal error'' s1)
             | (Some AcceptRuntime, b1) \<Rightarrow> (IvRaised, s1)
             | (None, b1) \<Rightarrow>
                 if \<not> iv_create_ok iv then
                   (IvRejected (bridge_close (iv_unlink_ok iv) b1), reject iv 500 ''internal error'' s1)
                 else
                   (case send_control (iv_send_ok iv) (iv_context_json iv) b1 of
                      Inl e \<Rightarrow> (IvRaised, s1)
                    | Inr (ok, b2) \<Rightarrow>
                        if \<not> iv_answer_ok iv then
                          (IvAnswerFailed (bridge_close (iv_unlink_ok iv) b2),
                           set_object cid \<lparr>sc_bridge = bridge_close (iv_unlink_ok iv) b2,
                                           sc_media_attached = False\<rparr> s1)
                        else
                          let s2 = set_object cid \<lparr>sc_bridge = b2, sc_media_attached = False\<rparr> s1;
                              s3 = s2\<lparr>ss_responses := ss_responses s2 @ [(iv_prm_call_id iv, 200, [])]\<rparr>;
                              s4 = fold (race_step cid) (iv_between iv) s3
                          in (IvAnswered, calls_add cid s4))))"

section \<open>The process\<close>

datatype sip_event =
    Invite invite
  | CallStateChanged bool bool bool bool uuid
  | MediaStateChanged bool "(bool \<times> bool) list" bool bool uuid
  | DtmfDigit string bool uuid
  | WorkerHangsUp bool uuid
  | HangupAll "uuid \<Rightarrow> bool"
  | ShutdownSignal

fun sip_step :: "string \<Rightarrow> sip_event \<Rightarrow> sip_state \<Rightarrow> sip_state" where
  "sip_step rd (Invite iv) s = snd (handle_invite rd iv s)"
| "sip_step rd (CallStateChanged i d so uo cid) s = on_call_state i d so uo cid s"
| "sip_step rd (MediaStateChanged i ms a h cid) s = on_call_media_state i ms a h cid s"
| "sip_step rd (DtmfDigit d ok cid) s = on_dtmf_digit d ok cid s"
| "sip_step rd (WorkerHangsUp ok cid) s = worker_initiated_hangup ok cid s"
| "sip_step rd (HangupAll ok) s = hangup_all ok s"
| "sip_step rd ShutdownSignal s = s\<lparr>ss_shutting_down := True\<rparr>"

definition run_sip :: "string \<Rightarrow> sip_event list \<Rightarrow> sip_state \<Rightarrow> sip_state" where
  "run_sip rd evs s = fold (sip_step rd) evs s"

text \<open>The call ids uuid4 hands out in a run.\<close>

fun invite_ids :: "sip_event list \<Rightarrow> uuid list" where
  "invite_ids [] = []"
| "invite_ids (Invite iv # es) = iv_call_id iv # invite_ids es"
| "invite_ids (_ # es) = invite_ids es"

section \<open>Each call ends once\<close>

text \<open>Table entries are distinct, no ended call is in the table, no call ended twice; all ids
  seen so far are among \<open>used\<close>.\<close>

definition sip_inv :: "uuid set \<Rightarrow> sip_state \<Rightarrow> bool" where
  "sip_inv used s \<longleftrightarrow> distinct (ss_calls s) \<and> distinct (map fst (ss_ended s)) \<and>
     set (ss_calls s) \<inter> fst ` set (ss_ended s) = {} \<and>
     set (ss_calls s) \<union> fst ` set (ss_ended s) \<subseteq> used"

lemma sip_inv_mono: "sip_inv A s \<Longrightarrow> A \<subseteq> B \<Longrightarrow> sip_inv B s"
  by (auto simp: sip_inv_def)

lemma sip_inv_cong:
  "ss_calls s' = ss_calls s \<Longrightarrow> ss_ended s' = ss_ended s \<Longrightarrow> sip_inv A s' = sip_inv A s"
  by (simp add: sip_inv_def)

lemma set_object_fields [simp]:
  "ss_calls (set_object cid c s) = ss_calls s" "ss_ended (set_object cid c s) = ss_ended s"
  "ss_responses (set_object cid c s) = ss_responses s" "ss_byes (set_object cid c s) = ss_byes s"
  "ss_shutting_down (set_object cid c s) = ss_shutting_down s"
  "ss_stream (set_object cid c s) = ss_stream s"
  by (simp_all add: set_object_def)

lemma reject_fields [simp]:
  "ss_calls (reject iv c r s) = ss_calls s" "ss_ended (reject iv c r s) = ss_ended s"
  "ss_objects (reject iv c r s) = ss_objects s" "ss_byes (reject iv c r s) = ss_byes s"
  by (simp_all add: reject_def)

lemma calls_pop_inv:
  assumes "sip_inv A s"
  shows "sip_inv A (snd (calls_pop cid s))"
    and "fst (calls_pop cid s) \<Longrightarrow> cid \<in> A \<and> cid \<notin> fst ` set (ss_ended s)"
  using assms by (auto simp: sip_inv_def calls_pop_def)

lemma on_disconnected_inv: "sip_inv A s \<Longrightarrow> sip_inv A (on_disconnected cid s)"
  by (auto simp: on_disconnected_def calls_pop_def sip_inv_def)

lemma worker_initiated_hangup_inv: "sip_inv A s \<Longrightarrow> sip_inv A (worker_initiated_hangup ok cid s)"
  by (auto simp: worker_initiated_hangup_def calls_pop_def sip_inv_def Let_def)

lemma on_call_state_inv: "sip_inv A s \<Longrightarrow> sip_inv A (on_call_state i d so uo cid s)"
proof -
  assume inv: "sip_inv A s"
  then have "sip_inv A (on_disconnected cid (set_object cid c s))" for c
    by (intro on_disconnected_inv) (simp add: sip_inv_def)
  with inv show ?thesis by (simp add: on_call_state_def Let_def split: option.split)
qed

lemma on_call_media_state_fields:
  "ss_calls (on_call_media_state i ms a h cid s) = ss_calls s \<and>
   ss_ended (on_call_media_state i ms a h cid s) = ss_ended s"
  by (induction i ms a h cid s rule: on_call_media_state.induct) (auto split: option.split)

lemma on_dtmf_digit_fields:
  "ss_calls (on_dtmf_digit d ok cid s) = ss_calls s \<and> ss_ended (on_dtmf_digit d ok cid s) = ss_ended s"
  by (auto simp: on_dtmf_digit_def split: option.split)

lemma publish_request_fields:
  "publish_request x ctx s = (r, s') \<Longrightarrow>
     ss_calls s' = ss_calls s \<and> ss_ended s' = ss_ended s \<and> ss_responses s' = ss_responses s
     \<and> ss_shutting_down s' = ss_shutting_down s \<and> ss_objects s' = ss_objects s"
  by (auto simp: publish_request_def split: option.splits)

lemma race_step_inv: "sip_inv A s \<Longrightarrow> sip_inv A (race_step cid r s)"
  by (cases r) (auto intro: worker_initiated_hangup_inv on_call_state_inv)

lemma races_inv: "sip_inv A s \<Longrightarrow> sip_inv A (fold (race_step cid) rs s)"
  by (induction rs arbitrary: s) (auto intro: race_step_inv)

text \<open>A racing callback cannot end a call that is not in the table yet.\<close>

lemma pop_absent: "cid \<notin> set (ss_calls s) \<Longrightarrow> calls_pop cid s = (False, s)"
proof -
  assume a: "cid \<notin> set (ss_calls s)"
  then have "filter (\<lambda>c. c \<noteq> cid) (ss_calls s) = ss_calls s"
    by (induction "ss_calls s") (auto simp: filter_id_conv)
  with a show ?thesis by (simp add: calls_pop_def)
qed

lemma race_absent:
  assumes "cid \<notin> set (ss_calls s)"
  shows "ss_calls (race_step cid r s) = ss_calls s \<and> ss_ended (race_step cid r s) = ss_ended s
    \<and> ss_byes (race_step cid r s) = ss_byes s \<and> ss_responses (race_step cid r s) = ss_responses s"
  using assms
  by (cases r) (auto simp: worker_initiated_hangup_def on_call_state_def on_disconnected_def
      pop_absent Let_def split: option.split)

lemma races_absent:
  "cid \<notin> set (ss_calls s) \<Longrightarrow>
     ss_calls (fold (race_step cid) rs s) = ss_calls s \<and> ss_ended (fold (race_step cid) rs s) = ss_ended s
     \<and> ss_byes (fold (race_step cid) rs s) = ss_byes s
     \<and> ss_responses (fold (race_step cid) rs s) = ss_responses s"
proof (induction rs arbitrary: s)
  case Nil
  then show ?case by simp
next
  case (Cons r rs)
  with race_absent [OF Cons.prems, of r] Cons.IH [of "race_step cid r s"] show ?case by simp
qed

section \<open>The outcomes of an INVITE\<close>

lemma accept_after_setup:
  "setup_socket su (new_bridge st) = (True, b) \<Longrightarrow> fst (accept_worker r b) \<noteq> Some AcceptRuntime"
  by (cases su; cases r) (auto simp: accept_worker_def new_bridge_def)

text \<open>The table and the notifications only change when a call is answered.\<close>

lemma handle_invite_answered_state:
  assumes "handle_invite rd iv s = (IvAnswered, s')"
  shows "\<exists>b2. s' = calls_add (iv_call_id iv) (fold (race_step (iv_call_id iv)) (iv_between iv)
      ((set_object (iv_call_id iv) \<lparr>sc_bridge = b2, sc_media_attached = False\<rparr>
          (s\<lparr>ss_stream := ss_stream s @ [request_payload (invite_context rd iv)]\<rparr>))
         \<lparr>ss_responses := ss_responses s @ [(iv_prm_call_id iv, 200, [])]\<rparr>))"
  using assms
  by (auto simp: handle_invite_def Let_def publish_request_def
      split: prod.splits option.splits if_splits accept_error.splits sum.splits)

lemma handle_invite_answered:
  assumes "handle_invite rd iv s = (IvAnswered, s')" "iv_call_id iv \<notin> set (ss_calls s)"
  shows "ss_calls s' = ss_calls s @ [iv_call_id iv] \<and> ss_ended s' = ss_ended s
    \<and> ss_responses s' = ss_responses s @ [(iv_prm_call_id iv, 200, [])] \<and> ss_byes s' = ss_byes s"
  using handle_invite_answered_state [OF assms(1)] assms(2)
  by (auto simp: calls_add_def races_absent)

lemma handle_invite_not_answered:
  assumes "handle_invite rd iv s = (out, s')" "out \<noteq> IvAnswered"
  shows "ss_calls s' = ss_calls s \<and> ss_ended s' = ss_ended s"
  using assms
  by (auto simp: handle_invite_def Let_def publish_request_def
      split: prod.splits option.splits if_splits accept_error.splits sum.splits)

lemma handle_invite_inv:
  assumes "sip_inv A s" "iv_call_id iv \<notin> A"
  shows "sip_inv (insert (iv_call_id iv) A) (snd (handle_invite rd iv s))"
proof -
  obtain out s' where r: "handle_invite rd iv s = (out, s')" by fastforce
  have fresh: "iv_call_id iv \<notin> set (ss_calls s)" using assms by (auto simp: sip_inv_def)
  show ?thesis
  proof (cases "out = IvAnswered")
    case True
    from handle_invite_answered [OF r [unfolded True] fresh] assms show ?thesis
      by (auto simp: r sip_inv_def)
  next
    case False
    from handle_invite_not_answered [OF r False] assms show ?thesis
      by (auto simp: r sip_inv_def)
  qed
qed

lemma run_sip_inv:
  "sip_inv A s \<Longrightarrow> distinct (invite_ids evs) \<Longrightarrow> A \<inter> set (invite_ids evs) = {} \<Longrightarrow>
     sip_inv (A \<union> set (invite_ids evs)) (run_sip rd evs s)"
proof (induction evs arbitrary: s A)
  case Nil
  then show ?case by (simp add: run_sip_def)
next
  case (Cons e es)
  show ?case
  proof (cases e)
    case (Invite iv)
    have "sip_inv (insert (iv_call_id iv) A) (sip_step rd e s)"
      using Cons.prems Invite by (auto intro: handle_invite_inv)
    from Cons.IH [OF this] Cons.prems Invite show ?thesis by (auto simp: run_sip_def)
  next
    case (CallStateChanged i d so uo cid)
    with Cons.IH [OF on_call_state_inv [OF Cons.prems(1)]] Cons.prems show ?thesis
      by (simp add: run_sip_def)
  next
    case (WorkerHangsUp ok cid)
    with Cons.IH [OF worker_initiated_hangup_inv [OF Cons.prems(1)]] Cons.prems show ?thesis
      by (simp add: run_sip_def)
  next
    case (MediaStateChanged i ms a h cid)
    with Cons.IH [of A "sip_step rd e s"] Cons.prems on_call_media_state_fields show ?thesis
      by (simp add: run_sip_def sip_inv_def)
  next
    case (DtmfDigit d ok cid)
    with Cons.IH [of A "sip_step rd e s"] Cons.prems on_dtmf_digit_fields show ?thesis
      by (simp add: run_sip_def sip_inv_def)
  next
    case (HangupAll ok)
    with Cons.IH [of A "sip_step rd e s"] Cons.prems show ?thesis
      by (simp add: run_sip_def sip_inv_def hangup_all_def)
  next
    case ShutdownSignal
    with Cons.IH [of A "sip_step rd e s"] Cons.prems show ?thesis
      by (simp add: run_sip_def sip_inv_def)
  qed
qed

section \<open>Properties\<close>

text \<open>
  C5: over any run of the SIP process whose uuid4 values do not repeat, every call reports its
  end to \<open>on_call_ended\<close> at most once, no ended call is still in the table of active calls,
  and the table holds no call twice.
\<close>

theorem calls_end_once:
  assumes "distinct (invite_ids evs)"
  shows "distinct (map fst (ss_ended (run_sip rd evs sip_init)))
    \<and> set (ss_calls (run_sip rd evs sip_init)) \<inter> fst ` set (ss_ended (run_sip rd evs sip_init)) = {}
    \<and> distinct (ss_calls (run_sip rd evs sip_init))"
proof -
  have "sip_inv {} sip_init" by (simp add: sip_inv_def sip_init_def)
  from run_sip_inv [OF this assms, of rd] show ?thesis by (simp add: sip_inv_def)
qed

definition demo_invite :: "racing list \<Rightarrow> invite" where
  "demo_invite rs = \<lparr>iv_account = \<lparr>sa_deployment_id = ''d1'', sa_phone_login = ''8001'',
       sa_phone_pass = ''p'', sa_asterisk_host = ''h'', sa_asterisk_port = 5060\<rparr>,
     iv_prm_call_id = 7, iv_call_id = ''c1'', iv_raw_msg = None, iv_started_at = ''t'',
     iv_stale = False, iv_setup = SetupOk, iv_xadd = Some ''1-0'', iv_accept = AcceptOk,
     iv_create_ok = True, iv_context_json = [123, 125], iv_send_ok = True, iv_answer_ok = True,
     iv_between = rs, iv_reject_ok = True, iv_unlink_ok = True\<rparr>"

lemma demo_answered: "fst (handle_invite rd (demo_invite rs) sip_init) = IvAnswered"
  by (simp add: handle_invite_def demo_invite_def sip_init_def new_bridge_def publish_request_def
      accept_worker_def send_control_def br_send_def encode_frame_def FRAME_CONTROL_def Let_def)

theorem calls_end_once_witness:
  "distinct (map fst (ss_ended (run_sip ''/run'' [Invite (demo_invite []), WorkerHangsUp True ''c1'',
     CallStateChanged True True True True ''c1''] sip_init)))"
  using calls_end_once [of "[Invite (demo_invite []), WorkerHangsUp True ''c1'',
     CallStateChanged True True True True ''c1'']" "''/run''"]
  by (simp add: demo_invite_def)



text \<open>
  the order of the worker's hangup against the entry into the call table decides whether
  it is honoured. Afterwards, it removes the call, sends a BYE and reports the end. Before
  (the reader thread runs from \<open>accept_worker\<close> on), the callback finds no call, nothing is
  sent or reported, and the call enters the table as if the worker were still there.
\<close>

lemma worker_hangup_race:
  assumes "handle_invite rd (iv\<lparr>iv_between := [RaceWorkerHangup True]\<rparr>) s = (IvAnswered, early)"
    and "handle_invite rd (iv\<lparr>iv_between := []\<rparr>) s = (IvAnswered, late)"
    and "iv_call_id iv \<notin> set (ss_calls s)"
  shows "ss_calls early = ss_calls s @ [iv_call_id iv] \<and> ss_byes early = ss_byes s
      \<and> ss_ended early = ss_ended s
      \<and> ss_calls (worker_initiated_hangup True (iv_call_id iv) late) = ss_calls s
      \<and> ss_byes (worker_initiated_hangup True (iv_call_id iv) late) = ss_byes s @ [(iv_call_id iv, 200)]
      \<and> ss_ended (worker_initiated_hangup True (iv_call_id iv) late)
          = ss_ended s @ [(iv_call_id iv, ''worker_hangup'')]"
proof -
  have keep: "filter (\<lambda>c. c \<noteq> iv_call_id iv) (ss_calls s) = ss_calls s"
    using assms(3) by (auto simp: filter_id_conv)
  from handle_invite_answered [OF assms(1)] handle_invite_answered [OF assms(2)] assms(3) keep
  show ?thesis by (simp add: worker_initiated_hangup_def calls_pop_def)
qed

lemma worker_hangup_race_witness:
  "ss_calls (snd (handle_invite ''/run'' (demo_invite [RaceWorkerHangup True]) sip_init)) = [''c1'']"
proof -
  have iv: "(demo_invite rs)\<lparr>iv_between := rs'\<rparr> = demo_invite rs'" for rs rs'
    by (simp add: demo_invite_def)
  obtain e l where e: "handle_invite ''/run'' (demo_invite [RaceWorkerHangup True]) sip_init = (IvAnswered, e)"
    and l: "handle_invite ''/run'' (demo_invite []) sip_init = (IvAnswered, l)"
    using demo_answered by (metis prod.collapse)
  have "iv_call_id (demo_invite []) \<notin> set (ss_calls sip_init)" by (simp add: sip_init_def)
  from worker_hangup_race [of "''/run''" "demo_invite []", unfolded iv, OF e l this] e
  show ?thesis by (simp add: demo_invite_def sip_init_def)
qed

end
