(* ===== verification/Account_Manager.thy ===== *)
theory Account_Manager
  imports Call_Router
begin

text \<open>
  \<open>sip/src/aipanel_sip/account_manager.py\<close>: the SIP accounts registered with Asterisk, their
  retry timers, the staggered start-up and the Redis notifications that add, update and remove
  accounts. \<open>am_accounts\<close> is \<open>_accounts\<close>; \<open>am_created\<close> and \<open>am_shut_down\<close> are ghosts that
  record every PJSIP account ever created or shut down, in order. PJSIP, the database rows,
  Fernet, \<open>json.loads\<close> and \<open>uuid.UUID\<close> are parameters.
\<close>

section \<open>State\<close>

record reg_account =
  ra_model :: sip_account
  ra_serial :: nat
  ra_retry_idx :: nat
  ra_timers :: "int list"

record acct_state =
  am_accounts :: "(uuid \<times> reg_account) list"
  am_serial :: nat
  am_created :: "(uuid \<times> nat) list"
  am_shut_down :: "(uuid \<times> nat) list"
  am_unregistered :: "(uuid \<times> nat) list"
  am_reg_success :: nat
  am_reg_failure :: nat
  am_stopped :: bool

definition acct_init :: acct_state where
  "acct_init = \<lparr>am_accounts = [], am_serial = 0, am_created = [], am_shut_down = [],
     am_unregistered = [], am_reg_success = 0, am_reg_failure = 0, am_stopped = False\<rparr>"

section \<open>Registration state and retries\<close>

text \<open>\<open>_schedule_retry\<close> of one account; \<open>None\<close> is the \<open>IndexError\<close> of an empty schedule.\<close>

definition retry_delay :: "int list \<Rightarrow> nat \<Rightarrow> int option" where
  "retry_delay delays retry_idx =
     (if delays = [] then None else Some (delays ! min retry_idx (length delays - 1)))"

definition schedule_retry :: "int list \<Rightarrow> reg_account \<Rightarrow> reg_account option" where
  "schedule_retry delays a =
     (case retry_delay delays (ra_retry_idx a) of
        None \<Rightarrow> None
      | Some delay \<Rightarrow> Some (a\<lparr>ra_retry_idx := Suc (ra_retry_idx a), ra_timers := ra_timers a @ [delay]\<rparr>))"

definition on_reg_state :: "int list \<Rightarrow> bool \<Rightarrow> bool \<Rightarrow> reg_account \<times> acct_state \<Rightarrow> (reg_account \<times> acct_state) option" where
  "on_reg_state delays info_ok reg_is_active = (\<lambda>(a, s).
     if \<not> info_ok then Some (a, s)
     else if reg_is_active
     then Some (a\<lparr>ra_retry_idx := 0\<rparr>, s\<lparr>am_reg_success := Suc (am_reg_success s)\<rparr>)
     else (case schedule_retry delays a of
             None \<Rightarrow> None
           | Some a' \<Rightarrow> Some (a', s\<lparr>am_reg_failure := Suc (am_reg_failure s)\<rparr>)))"

text \<open>\<open>_do_retry\<close>: \<open>setRegistration\<close> raising schedules the next retry.\<close>

definition do_retry :: "int list \<Rightarrow> bool \<Rightarrow> reg_account \<Rightarrow> reg_account option" where
  "do_retry delays set_registration_ok a =
     (if set_registration_ok then Some a else schedule_retry delays a)"

text \<open>A burst of registration failures of one account.\<close>

fun failures :: "int list \<Rightarrow> nat \<Rightarrow> reg_account \<Rightarrow> reg_account option" where
  "failures delays 0 a = Some a"
| "failures delays (Suc n) a =
     (case schedule_retry delays a of None \<Rightarrow> None | Some a' \<Rightarrow> failures delays n a')"

section \<open>Staggered start-up\<close>

text \<open>\<open>load_initial\<close>: the delay of each model, for the jitter values \<open>random.uniform\<close> gave.\<close>

definition stagger_delay :: "rat \<Rightarrow> nat \<Rightarrow> nat \<Rightarrow> rat \<Rightarrow> rat" where
  "stagger_delay spread n i u =
     (let base = (of_nat i / of_nat (max 1 n)) * spread in max 0 (min spread (base + u)))"

definition load_initial :: "rat \<Rightarrow> rat list \<Rightarrow> sip_account list \<Rightarrow> (rat \<times> sip_account) list" where
  "load_initial spread jitters models =
     map (\<lambda>(i, u, m). (stagger_delay spread (length models) i u, m))
       (zip [0..<length models] (zip jitters models))"

section \<open>Database rows\<close>

record acct_row =
  ar_deployment_id :: uuid
  ar_phone_login :: string
  ar_phone_pass_encrypted :: "string option"
  ar_asterisk_host :: string
  ar_asterisk_port :: int

text \<open>\<open>_fetch_models\<close>: \<open>None\<close> rows are a database error; a row whose secret does not decrypt
  is skipped.\<close>

definition row_model :: "(string option \<Rightarrow> string option) \<Rightarrow> acct_row \<Rightarrow> sip_account option" where
  "row_model decrypt r =
     (case decrypt (ar_phone_pass_encrypted r) of
        None \<Rightarrow> None
      | Some pw \<Rightarrow> Some \<lparr>sa_deployment_id = ar_deployment_id r, sa_phone_login = ar_phone_login r,
          sa_phone_pass = pw, sa_asterisk_host = ar_asterisk_host r,
          sa_asterisk_port = ar_asterisk_port r\<rparr>)"

definition fetch_models :: "(string option \<Rightarrow> string option) \<Rightarrow> acct_row list option \<Rightarrow> sip_account list" where
  "fetch_models decrypt rows =
     (case rows of None \<Rightarrow> [] | Some rs \<Rightarrow> List.map_filter (row_model decrypt) rs)"

section \<open>Creating and destroying accounts\<close>

text \<open>The URIs of the PJSIP account configuration.\<close>

definition id_uri :: "sip_account \<Rightarrow> string" where
  "id_uri m = ''sip:'' @ sa_phone_login m @ ''@'' @ sa_asterisk_host m"

definition registrar_uri :: "sip_account \<Rightarrow> string" where
  "registrar_uri m = ''sip:'' @ sa_asterisk_host m @ '':'' @ str_int (sa_asterisk_port m)"

text \<open>\<open>_create_account\<close> checks the table under the lock, creates outside it and stores under
  the lock again: two steps another thread can come between.\<close>

definition create_check :: "sip_account \<Rightarrow> acct_state \<Rightarrow> bool" where
  "create_check m s = (map_of (am_accounts s) (sa_deployment_id m) = None)"

definition create_commit :: "bool \<Rightarrow> sip_account \<Rightarrow> acct_state \<Rightarrow> acct_state" where
  "create_commit pj_ok m s =
     (if \<not> pj_ok then s
      else s\<lparr>am_accounts := AList.update (sa_deployment_id m)
               \<lparr>ra_model = m, ra_serial = am_serial s, ra_retry_idx = 0, ra_timers = []\<rparr> (am_accounts s),
             am_serial := Suc (am_serial s),
             am_created := am_created s @ [(sa_deployment_id m, am_serial s)]\<rparr>)"

definition create_account :: "bool \<Rightarrow> sip_account \<Rightarrow> acct_state \<Rightarrow> acct_state" where
  "create_account pj_ok m s = (if create_check m s then create_commit pj_ok m s else s)"

definition destroy_account :: "uuid \<Rightarrow> acct_state \<Rightarrow> acct_state" where
  "destroy_account did s =
     (case map_of (am_accounts s) did of
        None \<Rightarrow> s
      | Some a \<Rightarrow> s\<lparr>am_accounts := AList.delete did (am_accounts s),
                     am_shut_down := am_shut_down s @ [(did, ra_serial a)]\<rparr>)"

definition unregister_all :: "acct_state \<Rightarrow> acct_state" where
  "unregister_all s = s\<lparr>am_unregistered := am_unregistered s
     @ map (\<lambda>(did, a). (did, ra_serial a)) (am_accounts s)\<rparr>"

section \<open>Redis notifications\<close>

text \<open>What the environment provides to a notification: the parsers, the rows of the requested
  deployment and whether PJSIP creates the account.\<close>

record acct_env =
  ae_loads :: "string \<Rightarrow> pyval option"
  ae_uuid :: "string \<Rightarrow> uuid option"
  ae_decrypt :: "string option \<Rightarrow> string option"
  ae_rows :: "uuid \<Rightarrow> acct_row list option"
  ae_pj_ok :: bool

datatype acct_exn = TypeErrorExn | AttributeErrorExn

definition apply_action :: "acct_env \<Rightarrow> pyval \<Rightarrow> uuid \<Rightarrow> acct_state \<Rightarrow> acct_state" where
  "apply_action env action did s =
     (if action = PStr ''remove'' then destroy_account did s
      else if action = PStr ''add'' \<or> action = PStr ''update'' then
        (let s1 = (if action = PStr ''update'' then destroy_account did s else s)
         in fold (create_account (ae_pj_ok env)) (fetch_models (ae_decrypt env) (ae_rows env did)) s1)
      else s)"

text \<open>\<open>_handle_pubsub_message\<close> on the decoded text. Only \<open>JSONDecodeError\<close>, \<open>KeyError\<close> and
  \<open>ValueError\<close> are caught; subscripting something that is not an object, and \<open>UUID\<close> of
  something that is not a string, raise other exceptions (\<open>Inl\<close>).\<close>

definition handle_pubsub_message :: "acct_env \<Rightarrow> string option \<Rightarrow> acct_state \<Rightarrow> acct_exn + acct_state" where
  "handle_pubsub_message env raw s =
     (case raw of
        None \<Rightarrow> Inr s
      | Some text \<Rightarrow>
          (case ae_loads env text of
             None \<Rightarrow> Inr s
           | Some (PDict data) \<Rightarrow>
               (case map_of data ''action'' of
                  None \<Rightarrow> Inr s
                | Some action \<Rightarrow>
                    (case map_of data ''deployment_id'' of
                       None \<Rightarrow> Inr s
                     | Some (PStr d) \<Rightarrow>
                         (case ae_uuid env d of
                            None \<Rightarrow> Inr s
                          | Some did \<Rightarrow> Inr (apply_action env action did s))
                     | Some PNone \<Rightarrow> Inl TypeErrorExn
                     | Some _ \<Rightarrow> Inl AttributeErrorExn))
           | Some _ \<Rightarrow> Inl TypeErrorExn))"

text \<open>\<open>_pubsub_loop\<close> over the connections it makes: whether \<open>subscribe\<close> worked, the messages
  heard, and whether the connection ended in a Redis or OS error. The waits are the timeouts of
  \<open>_stopped.wait\<close>. An exception of the handler leaves the loop, and the thread is gone.\<close>

record pubsub_conn =
  pc_subscribed :: bool
  pc_messages :: "string option list"
  pc_error :: bool

fun pubsub_listen :: "acct_env \<Rightarrow> string option list \<Rightarrow> acct_state \<Rightarrow> acct_exn + acct_state" where
  "pubsub_listen env [] s = Inr s"
| "pubsub_listen env (m # ms) s =
     (if am_stopped s then Inr s
      else (case handle_pubsub_message env m s of
              Inl e \<Rightarrow> Inl e | Inr s' \<Rightarrow> pubsub_listen env ms s'))"

fun pubsub_loop :: "acct_env \<Rightarrow> pubsub_conn list \<Rightarrow> rat \<Rightarrow> acct_state \<Rightarrow> rat list \<times> (acct_exn + acct_state)" where
  "pubsub_loop env [] backoff s = ([], Inr s)"
| "pubsub_loop env (c # cs) backoff s =
     (if am_stopped s then ([], Inr s)
      else
        (let r = (if pc_subscribed c then pubsub_listen env (pc_messages c) s else Inr s);
             b1 = (if pc_subscribed c then 1 else backoff)
         in case r of
              Inl e \<Rightarrow> ([], Inl e)
            | Inr s1 \<Rightarrow>
                if pc_error c \<or> \<not> pc_subscribed c then
                  (let (ws, res) = pubsub_loop env cs (min (b1 * 2) 30) s1 in (b1 # ws, res))
                else pubsub_loop env cs b1 s1))"

section \<open>Lemmas\<close>

text \<open>Every account PJSIP knows is in the table or was shut down: no account is orphaned.\<close>

definition acct_inv :: "acct_state \<Rightarrow> bool" where
  "acct_inv s \<longleftrightarrow>
     set (am_created s) =
       (\<lambda>(did, a). (did, ra_serial a)) ` set (am_accounts s) \<union> set (am_shut_down s) \<and>
     distinct (map fst (am_accounts s)) \<and>
     (\<forall>(did, a) \<in> set (am_accounts s). sa_deployment_id (ra_model a) = did)"

lemma acct_inv_init: "acct_inv acct_init"
  by (simp add: acct_inv_def acct_init_def)

lemma update_absent: "map_of d k = None \<Longrightarrow> AList.update k v d = d @ [(k, v)]"
  by (induction d) (auto split: if_splits)

lemma create_account_inv [inv_intros]:
  assumes "acct_inv s"
  shows "acct_inv (create_account ok m s)"
proof (cases "create_check m s \<and> ok")
  case False
  with assms show ?thesis by (auto simp: create_account_def create_commit_def)
next
  case True
  then have absent: "map_of (am_accounts s) (sa_deployment_id m) = None"
    by (simp add: create_check_def)
  then have "sa_deployment_id m \<notin> fst ` set (am_accounts s)" by (simp add: map_of_eq_None_iff)
  with assms True absent show ?thesis
    by (auto simp: create_account_def create_commit_def acct_inv_def update_absent)
qed

lemma set_delete_split:
  "distinct (map fst d) \<Longrightarrow> map_of d k = Some a \<Longrightarrow> set d = insert (k, a) (set (AList.delete k d))"
proof (induction d)
  case Nil
  then show ?case by simp
next
  case (Cons x d)
  obtain j v where x: "x = (j, v)" by fastforce
  show ?case
  proof (cases "j = k")
    case True
    with Cons.prems x have "k \<notin> fst ` set d" by auto
    then have "AList.delete k d = d" by (simp add: delete_id)
    with True x Cons.prems show ?thesis by simp
  next
    case False
    with Cons.prems x have "distinct (map fst d)" "map_of d k = Some a" by auto
    from Cons.IH [OF this] have "set (x # d) = insert x (insert (k, a) (set (AList.delete k d)))"
      by (simp only: list.set)
    also have "\<dots> = insert (k, a) (insert x (set (AList.delete k d)))" by (rule insert_commute)
    also have "insert x (set (AList.delete k d)) = set (AList.delete k (x # d))"
      using False x by simp
    finally show ?thesis .
  qed
qed

lemma set_delete_subset: "set (AList.delete k d) \<subseteq> set d"
  by (simp add: AList.delete_eq)

lemma destroy_account_inv [inv_intros]:
  assumes "acct_inv s"
  shows "acct_inv (destroy_account did s)"
proof (cases "map_of (am_accounts s) did")
  case None
  with assms show ?thesis by (simp add: destroy_account_def)
next
  case (Some a)
  have dist: "distinct (map fst (am_accounts s))" using assms by (simp add: acct_inv_def)
  let ?d = "AList.delete did (am_accounts s)"
  let ?f = "\<lambda>(d, a). (d, ra_serial a)"
  have "?f ` set (am_accounts s) = insert (did, ra_serial a) (?f ` set ?d)"
    using set_delete_split [OF dist Some] by (metis (no_types, lifting) case_prod_conv image_insert)
  then have "set (am_created s) = ?f ` set ?d \<union> set (am_shut_down s @ [(did, ra_serial a)])"
    using assms by (simp add: acct_inv_def)
  moreover have "distinct (map fst ?d)" by (rule distinct_delete [OF dist])
  moreover have "\<forall>(d, b) \<in> set ?d. sa_deployment_id (ra_model b) = d"
    using assms set_delete_subset [of did "am_accounts s"] by (auto simp: acct_inv_def)
  ultimately show ?thesis using Some by (simp add: destroy_account_def acct_inv_def)
qed

lemma create_all_inv: "acct_inv s \<Longrightarrow> acct_inv (fold (create_account ok) ms s)"
  by (induction ms arbitrary: s) (auto intro: create_account_inv)

lemma apply_action_inv [inv_intros]: "acct_inv s \<Longrightarrow> acct_inv (apply_action env act did s)"
  by (auto simp: apply_action_def Let_def intro: create_all_inv destroy_account_inv)

lemma handle_pubsub_message_inv:
  "acct_inv s \<Longrightarrow> handle_pubsub_message env raw s = Inr s' \<Longrightarrow> acct_inv s'"
  by (auto simp: handle_pubsub_message_def intro: apply_action_inv
      split: option.splits pyval.splits)

lemma pubsub_listen_inv:
  "acct_inv s \<Longrightarrow> pubsub_listen env ms s = Inr s' \<Longrightarrow> acct_inv s'"
  by (induction env ms s rule: pubsub_listen.induct)
    (auto split: if_splits sum.splits dest: handle_pubsub_message_inv)

lemma retry_delay_Some: "delays \<noteq> [] \<Longrightarrow> \<exists>d. retry_delay delays i = Some d \<and> d \<in> set delays"
proof -
  assume ne: "delays \<noteq> []"
  then have "min i (length delays - 1) < length delays" by (cases delays) auto
  then show ?thesis using ne by (auto simp: retry_delay_def)
qed

lemma failures_timers:
  "delays \<noteq> [] \<Longrightarrow>
     failures delays n a = Some (a\<lparr>ra_retry_idx := ra_retry_idx a + n,
       ra_timers := ra_timers a @ map (\<lambda>i. delays ! min i (length delays - 1))
         [ra_retry_idx a..<ra_retry_idx a + n]\<rparr>)"
proof (induction n arbitrary: a)
  case 0
  then show ?case by simp
next
  case (Suc n)
  then show ?case by (simp add: schedule_retry_def retry_delay_def upt_rec [of "ra_retry_idx a"])
qed

section \<open>Properties\<close>

text \<open>
  after any sequence of Redis notifications no PJSIP account is orphaned: every account
  ever created is either in the table or was shut down, and the table has one entry per
  deployment, under its own id.
\<close>

lemma notifications_keep_accounts:
  assumes "pubsub_loop env cs backoff acct_init = (ws, Inr s)"
  shows "acct_inv s"
proof -
  have "acct_inv s0 \<Longrightarrow> pubsub_loop env cs b s0 = (ws, Inr s) \<Longrightarrow> acct_inv s" for b s0 ws
  proof (induction env cs b s0 arbitrary: ws rule: pubsub_loop.induct)
    case (1 env backoff s)
    then show ?case by simp
  next
    case (2 env c cs backoff s)
    then show ?case
      by (auto simp: Let_def split: if_splits sum.splits prod.splits dest: pubsub_listen_inv)
  qed
  with acct_inv_init assms show ?thesis by blast
qed

definition demo_model :: sip_account where
  "demo_model = \<lparr>sa_deployment_id = ''d1'', sa_phone_login = ''8001'', sa_phone_pass = ''p'',
     sa_asterisk_host = ''h'', sa_asterisk_port = 5060\<rparr>"

definition demo_env :: acct_env where
  "demo_env = \<lparr>ae_loads = (\<lambda>t. if t = ''add'' then Some (PDict [(''action'', PStr ''add''),
       (''deployment_id'', PStr ''d1'')]) else if t = ''5'' then Some (PInt 5) else None),
     ae_uuid = Some, ae_decrypt = (\<lambda>p. p),
     ae_rows = (\<lambda>d. Some [\<lparr>ar_deployment_id = d, ar_phone_login = ''8001'',
       ar_phone_pass_encrypted = Some ''p'', ar_asterisk_host = ''h'', ar_asterisk_port = 5060\<rparr>]),
     ae_pj_ok = True\<rparr>"

lemma notifications_keep_accounts_witness:
  "acct_inv (sum.projr (snd (pubsub_loop demo_env
     [\<lparr>pc_subscribed = True, pc_messages = [Some ''add''], pc_error = True\<rparr>] 1 acct_init)))"
proof -
  let ?r = "pubsub_loop demo_env
     [\<lparr>pc_subscribed = True, pc_messages = [Some ''add''], pc_error = True\<rparr>] 1 acct_init"
  have "\<exists>ws s. ?r = (ws, Inr s)"
    by (simp add: demo_env_def acct_init_def handle_pubsub_message_def)
  then obtain ws s where r: "?r = (ws, Inr s)" by blast
  from notifications_keep_accounts [OF r] show ?thesis by (simp only: r snd_conv sum.sel)
qed

text \<open>
  The retry timers of an account that keeps failing follow the configured schedule and
  then stay at its last entry; with the default schedule, the \<open>n\<close>-th delay is 5, 10, 30 and
  then 60 seconds for ever.
\<close>

lemma retry_schedule:
  assumes "ra_retry_idx a = 0" and "ra_timers a = []"
  shows "\<exists>a'. failures [5, 10, 30, 60] n a = Some a' \<and>
     ra_timers a' = take n [5, 10, 30] @ replicate (n - 3) 60"
proof -
  have "map (\<lambda>i. [5, 10, 30, 60 :: int] ! min i 3) [0..<n] = take n [5, 10, 30] @ replicate (n - 3) 60"
  proof (rule nth_equalityI)
    fix i
    assume "i < length (map (\<lambda>i. [5, 10, 30, 60 :: int] ! min i 3) [0..<n])"
    then show "map (\<lambda>i. [5, 10, 30, 60 :: int] ! min i 3) [0..<n] ! i
        = (take n [5, 10, 30] @ replicate (n - 3) 60) ! i"
      by (cases "i < 3") (auto simp: nth_append min_def less_Suc_eq numeral_eq_Suc)
  qed simp
  with failures_timers [of "[5, 10, 30, 60]" n a] assms show ?thesis
    by (simp add: numeral_3_eq_3 [symmetric])
qed

lemma retry_schedule_witness:
  "\<exists>a'. failures [5, 10, 30, 60] 5 \<lparr>ra_model = demo_model, ra_serial = 0, ra_retry_idx = 0,
     ra_timers = []\<rparr> = Some a' \<and> ra_timers a' = [5, 10, 30, 60, 60]"
  using retry_schedule [of "\<lparr>ra_model = demo_model, ra_serial = 0, ra_retry_idx = 0,
     ra_timers = []\<rparr>" 5] by (simp add: numeral_eq_Suc)

text \<open>
  The staggered start-up puts every registration inside the configured window, whatever
  jitter is drawn.
\<close>

lemma stagger_window:
  assumes "0 \<le> spread" and "(d, m) \<in> set (load_initial spread jitters models)"
  shows "0 \<le> d \<and> d \<le> spread \<and> m \<in> set models"
  using assms
  by (auto simp: load_initial_def stagger_delay_def Let_def dest: set_zip_rightD)

lemma stagger_window_witness:
  "0 \<le> stagger_delay 60 2 1 45 \<and> stagger_delay 60 2 1 45 \<le> 60"
proof -
  have "(stagger_delay 60 2 1 45, demo_model) \<in> set (load_initial 60 [0, 45] [demo_model, demo_model])"
    by (simp add: load_initial_def upt_rec numeral_2_eq_2)
  with stagger_window [of 60 "stagger_delay 60 2 1 45" demo_model "[0, 45]" "[demo_model, demo_model]"]
  show ?thesis by simp
qed

text \<open>
  a notification that is valid JSON but not an object, or whose deployment id is not a
  string, raises out of the handler and ends the watcher: nothing after it is processed.
\<close>

lemma bad_notification_kills_watcher:
  assumes "ae_loads env msg = Some v"
    and "(\<forall>d. v \<noteq> PDict d) \<or> (\<exists>d a i. v = PDict d \<and> map_of d ''action'' = Some a
           \<and> map_of d ''deployment_id'' = Some i \<and> (\<forall>t. i \<noteq> PStr t))"
    and "\<not> am_stopped s" and "pc_subscribed c" and "pc_messages c = Some msg # rest"
  shows "\<exists>e. pubsub_loop env (c # cs) backoff s = ([], Inl e)"
proof -
  have "\<exists>e. handle_pubsub_message env (Some msg) s = Inl e"
    using assms(1,2) by (auto simp: handle_pubsub_message_def split: pyval.splits)
  with assms(3-5) show ?thesis by auto
qed

lemma bad_notification_kills_watcher_witness:
  "\<exists>e. pubsub_loop demo_env [\<lparr>pc_subscribed = True, pc_messages = [Some ''5'', Some ''add''],
     pc_error = False\<rparr>] 1 acct_init = ([], Inl e)"
  by (rule bad_notification_kills_watcher [of _ "''5''" "PInt 5"])
    (simp_all add: demo_env_def acct_init_def)

end
