(* ===== verification/Vici_Models.thy ===== *)
theory Vici_Models
  imports Prelude
begin

text \<open>
  \<open>session-mgr/src/aipanel_vici/models.py\<close>: the records of the session manager and the flat
  string form in which a session is mirrored to Redis. Decimal integers are printed and parsed
  here; \<open>repr\<close> and parsing of floats and the JSON of the cookie jar are functions of
  \<open>redis_env\<close>, with the round trips Python documents as the laws of a locale.
\<close>

section \<open>Records\<close>

datatype session_status = LOGGING_IN | READY | ON_CALL | PAUSED | ERROR | LOGGED_OUT

fun status_value :: "session_status \<Rightarrow> string" where
  "status_value LOGGING_IN = ''logging_in''"
| "status_value READY = ''ready''"
| "status_value ON_CALL = ''on_call''"
| "status_value PAUSED = ''paused''"
| "status_value ERROR = ''error''"
| "status_value LOGGED_OUT = ''logged_out''"

text \<open>\<open>SessionStatus(value)\<close>; None is its ValueError.\<close>

definition status_of_value :: "string \<Rightarrow> session_status option" where
  "status_of_value v = map_of (map (\<lambda>s. (status_value s, s))
     [LOGGING_IN, READY, ON_CALL, PAUSED, ERROR, LOGGED_OUT]) v"

record deployment_row =
  dp_deployment_id :: string
  dp_tenant_id :: string
  dp_vici_server_id :: string
  dp_web_url :: string
  dp_asterisk_host :: string
  dp_vici_user :: string
  dp_vici_pass :: string
  dp_phone_login :: string
  dp_phone_pass :: string
  dp_campaign_id :: string
  dp_ingroups :: "string list"

record captured_session =
  cp_cookies :: "string dict"
  cp_conf_exten :: string
  cp_session_id :: string
  cp_session_name :: string
  cp_user_agent :: string

record call_info =
  ci_lead_id :: "string option"
  ci_uniqueid :: "string option"
  ci_phone_number :: "string option"
  ci_campaign_id :: "string option"
  ci_list_id :: "string option"

record lead_data =
  le_lead_id :: string
  le_first_name :: string
  le_last_name :: string
  le_phone_number :: string
  le_email :: string
  le_address :: string
  le_city :: string
  le_state :: string
  le_postal_code :: string

record session_state =
  st_deployment_id :: string
  st_tenant_id :: string
  st_vici_user :: string
  st_phone_login :: string
  st_campaign :: string
  st_status :: session_status
  st_cookies :: "string dict"
  st_conf_exten :: string
  st_session_id :: string
  st_session_name :: string
  st_user_agent :: string
  st_last_heartbeat_at :: "rat option"
  st_last_call_id :: "string option"
  st_login_attempts :: int
  st_heartbeat_failures :: int
  st_last_error :: string
  st_created_at :: rat

definition new_state :: "deployment_row \<Rightarrow> rat \<Rightarrow> session_state" where
  "new_state d now =
     \<lparr>st_deployment_id = dp_deployment_id d, st_tenant_id = dp_tenant_id d,
      st_vici_user = dp_vici_user d, st_phone_login = dp_phone_login d, st_campaign = dp_campaign_id d,
      st_status = LOGGING_IN, st_cookies = [], st_conf_exten = [], st_session_id = [],
      st_session_name = [], st_user_agent = [], st_last_heartbeat_at = None, st_last_call_id = None,
      st_login_attempts = 0, st_heartbeat_failures = 0, st_last_error = [], st_created_at = now\<rparr>"

section \<open>Integers as strings\<close>

text \<open>\<open>int(s)\<close> on what \<open>str\<close> of an integer prints: digits with an optional sign.\<close>

definition is_digit :: "char \<Rightarrow> bool" where
  "is_digit c = (48 \<le> (of_char c :: nat) \<and> (of_char c :: nat) \<le> 57)"

definition digits_value :: "string \<Rightarrow> nat" where
  "digits_value s = foldl (\<lambda>n c. 10 * n + ((of_char c :: nat) - 48)) 0 s"

definition parse_int :: "string \<Rightarrow> int option" where
  "parse_int s =
     (case s of
        [] \<Rightarrow> None
      | c # cs \<Rightarrow>
          if c = CHR ''-'' then (if cs \<noteq> [] \<and> list_all is_digit cs then Some (- int (digits_value cs)) else None)
          else if list_all is_digit s then Some (int (digits_value s)) else None)"

section \<open>The Redis form\<close>

record redis_env =
  re_show_float :: "rat \<Rightarrow> string"
  re_parse_float :: "string \<Rightarrow> rat option"
  re_dumps :: "string dict \<Rightarrow> string"
  re_loads :: "string \<Rightarrow> string dict option"

definition to_redis_payload :: "redis_env \<Rightarrow> session_state \<Rightarrow> string dict" where
  "to_redis_payload env s =
     [(''deployment_id'', st_deployment_id s), (''tenant_id'', st_tenant_id s),
      (''vici_user'', st_vici_user s), (''phone_login'', st_phone_login s),
      (''campaign'', st_campaign s), (''status'', status_value (st_status s)),
      (''cookies'', re_dumps env (st_cookies s)), (''conf_exten'', st_conf_exten s),
      (''session_id'', st_session_id s), (''session_name'', st_session_name s),
      (''user_agent'', st_user_agent s),
      (''last_heartbeat_at'', case st_last_heartbeat_at s of None \<Rightarrow> [] | Some x \<Rightarrow> re_show_float env x),
      (''last_call_id'', case st_last_call_id s of None \<Rightarrow> [] | Some x \<Rightarrow> x),
      (''login_attempts'', str_int (st_login_attempts s)),
      (''heartbeat_failures'', str_int (st_heartbeat_failures s)),
      (''last_error'', st_last_error s), (''created_at'', re_show_float env (st_created_at s))]"

text \<open>\<open>int(data.get(k) or 0)\<close> and the two uses of \<open>float\<close>; None is a ValueError.\<close>

definition int_field :: "string dict \<Rightarrow> string \<Rightarrow> int option" where
  "int_field d k = (case map_of d k of None \<Rightarrow> Some 0 | Some s \<Rightarrow> if s = [] then Some 0 else parse_int s)"

definition float_or_zero :: "redis_env \<Rightarrow> string dict \<Rightarrow> string \<Rightarrow> rat option" where
  "float_or_zero env d k =
     (case map_of d k of None \<Rightarrow> Some 0 | Some s \<Rightarrow> if s = [] then Some 0 else re_parse_float env s)"

definition float_or_none :: "redis_env \<Rightarrow> string dict \<Rightarrow> string \<Rightarrow> rat option option" where
  "float_or_none env d k =
     (case map_of d k of None \<Rightarrow> Some None
      | Some s \<Rightarrow> if s = [] then Some None else map_option Some (re_parse_float env s))"

definition from_redis_payload :: "redis_env \<Rightarrow> string dict \<Rightarrow> session_state option" where
  "from_redis_payload env d =
     (let cookies_raw = opt_str_or (map_of d ''cookies'') ''{}'';
          cookies = (case re_loads env cookies_raw of None \<Rightarrow> [] | Some c \<Rightarrow> c)
      in case (status_of_value (dget_or d ''status'' (status_value LOGGING_IN)),
               float_or_none env d ''last_heartbeat_at'', int_field d ''login_attempts'',
               int_field d ''heartbeat_failures'', float_or_zero env d ''created_at'') of
           (Some status, Some hb, Some attempts, Some failures, Some created) \<Rightarrow> Some
             \<lparr>st_deployment_id = dget_or d ''deployment_id'' [], st_tenant_id = dget_or d ''tenant_id'' [],
              st_vici_user = dget_or d ''vici_user'' [], st_phone_login = dget_or d ''phone_login'' [],
              st_campaign = dget_or d ''campaign'' [], st_status = status, st_cookies = cookies,
              st_conf_exten = dget_or d ''conf_exten'' [], st_session_id = dget_or d ''session_id'' [],
              st_session_name = dget_or d ''session_name'' [], st_user_agent = dget_or d ''user_agent'' [],
              st_last_heartbeat_at = hb, st_last_call_id = str_or_none (map_of d ''last_call_id''),
              st_login_attempts = attempts, st_heartbeat_failures = failures,
              st_last_error = dget_or d ''last_error'' [], st_created_at = created\<rparr>
         | _ \<Rightarrow> None)"

section \<open>Lemmas\<close>

lemma status_roundtrip [simp]: "status_of_value (status_value s) = Some s"
  by (cases s) (simp_all add: status_of_value_def)

lemma of_char_digit: "(n :: nat) < 10 \<Longrightarrow> (of_char (char_of (48 + n) :: char) :: nat) = 48 + n"
  by (simp add: of_char_of)

lemma is_digit_char: "(n :: nat) < 10 \<Longrightarrow> is_digit (char_of (48 + n))"
  by (simp add: is_digit_def of_char_of)

lemma digits_of_digits: "list_all is_digit (digits_of n)"
proof (induction n rule: digits_of.induct)
  case (1 n)
  then show ?case
    by (subst digits_of.simps) (simp add: is_digit_char)
qed

lemma digits_of_value: "digits_value (digits_of n) = n"
proof (induction n rule: digits_of.induct)
  case (1 n)
  show ?case
  proof (cases "n < 10")
    case True
    then show ?thesis by (subst digits_of.simps) (simp add: digits_value_def of_char_digit)
  next
    case False
    have "digits_value (digits_of n) = 10 * digits_value (digits_of (n div 10)) + n mod 10"
      using False by (subst digits_of.simps) (simp add: digits_value_def of_char_of)
    then show ?thesis using 1 [OF False] by simp
  qed
qed

lemma digits_of_ne [simp]: "digits_of n \<noteq> []"
  by (subst digits_of.simps) simp

lemma digits_of_head: "digits_of n = c # cs \<Longrightarrow> c \<noteq> CHR ''-''"
proof -
  assume eq: "digits_of n = c # cs"
  then have "is_digit c" using digits_of_digits [of n] by simp
  moreover have "\<not> is_digit (CHR ''-'')" by (simp add: is_digit_def)
  ultimately show ?thesis by blast
qed

lemma parse_str_int [simp]: "parse_int (str_int i) = Some i"
proof (cases "i < 0")
  case True
  then show ?thesis by (simp add: str_int_def parse_int_def digits_of_digits digits_of_value)
next
  case False
  obtain c cs where d: "digits_of (nat i) = c # cs" using digits_of_ne by (metis neq_Nil_conv)
  have "c \<noteq> CHR ''-''" using digits_of_head [OF d] .
  moreover have "list_all is_digit (c # cs)" "digits_value (c # cs) = nat i"
    using digits_of_digits [of "nat i"] digits_of_value [of "nat i"] d by simp_all
  ultimately show ?thesis using False d by (simp add: str_int_def parse_int_def)
qed

lemma str_int_ne [simp]: "str_int i \<noteq> []"
  by (simp add: str_int_def)

text \<open>What is relied on of the float and JSON functions: they round-trip on the values of this
  session and never print an empty string, as Python documents for \<open>repr\<close> and \<open>json\<close>.\<close>

definition codec_ok :: "redis_env \<Rightarrow> session_state \<Rightarrow> bool" where
  "codec_ok env s \<longleftrightarrow>
     (\<forall>x \<in> insert (st_created_at s) (set_option (st_last_heartbeat_at s)).
        re_parse_float env (re_show_float env x) = Some x \<and> re_show_float env x \<noteq> []) \<and>
     re_loads env (re_dumps env (st_cookies s)) = Some (st_cookies s) \<and>
     re_dumps env (st_cookies s) \<noteq> []"

lemma redis_roundtrip:
  assumes "codec_ok env s" "st_last_call_id s \<noteq> Some []"
  shows "from_redis_payload env (to_redis_payload env s) = Some s"
proof -
  have cookies: "opt_str_or (Some (re_dumps env (st_cookies s))) x = re_dumps env (st_cookies s)" for x
    using assms(1) by (cases "re_dumps env (st_cookies s)") (simp_all add: opt_str_or_def codec_ok_def)
  have json: "re_loads env (re_dumps env (st_cookies s)) = Some (st_cookies s)"
    using assms(1) by (simp add: codec_ok_def)
  have call: "str_or_none (Some (case st_last_call_id s of None \<Rightarrow> [] | Some x \<Rightarrow> x)) = st_last_call_id s"
    using assms(2) by (auto simp: str_or_none_def split: option.splits list.splits)
  have get: "map_of (to_redis_payload env s) ''cookies'' = Some (re_dumps env (st_cookies s))"
    "map_of (to_redis_payload env s) ''last_call_id'' = Some (case st_last_call_id s of None \<Rightarrow> [] | Some x \<Rightarrow> x)"
    by (simp_all add: to_redis_payload_def)
  have hb: "float_or_none env (to_redis_payload env s) ''last_heartbeat_at'' = Some (st_last_heartbeat_at s)"
    using assms(1)
    by (simp add: float_or_none_def to_redis_payload_def codec_ok_def split: option.splits)
  have ints: "int_field (to_redis_payload env s) ''login_attempts'' = Some (st_login_attempts s)"
    "int_field (to_redis_payload env s) ''heartbeat_failures'' = Some (st_heartbeat_failures s)"
    by (simp_all add: int_field_def to_redis_payload_def)
  have created: "float_or_zero env (to_redis_payload env s) ''created_at'' = Some (st_created_at s)"
    using assms(1) by (simp add: float_or_zero_def to_redis_payload_def codec_ok_def)
  have status: "status_of_value (dget_or (to_redis_payload env s) ''status'' x) = Some (st_status s)" for x
    by (simp add: dget_or_def to_redis_payload_def)
  show ?thesis
    unfolding from_redis_payload_def get cookies call hb ints created status json Let_def
    by (cases s) (simp add: dget_or_def to_redis_payload_def)
qed

section \<open>Properties\<close>

text \<open>
  the Redis mirror of a session is faithful: what is written to the hash is read back as the
  same state, status, cookie jar, counters and times included, so a restarted manager can
  resume it.
\<close>

lemma session_redis_roundtrip:
  assumes "codec_ok env s" and "st_last_call_id s \<noteq> Some []"
  shows "from_redis_payload env (to_redis_payload env s) = Some s"
  using assms by (rule redis_roundtrip)

definition demo_deployment :: deployment_row where
  "demo_deployment = \<lparr>dp_deployment_id = ''d1'', dp_tenant_id = ''t'', dp_vici_server_id = ''v'',
     dp_web_url = ''https://vici.example.com/agc'', dp_asterisk_host = ''pbx'', dp_vici_user = ''ai1'',
     dp_vici_pass = ''pw'', dp_phone_login = ''8001'', dp_phone_pass = ''pp'', dp_campaign_id = ''SALES'',
     dp_ingroups = []\<rparr>"

lemma session_redis_roundtrip_witness:
  "\<exists>env. from_redis_payload env (to_redis_payload env
     ((new_state demo_deployment 5)\<lparr>st_status := READY, st_login_attempts := 12\<rparr>))
   = Some ((new_state demo_deployment 5)\<lparr>st_status := READY, st_login_attempts := 12\<rparr>)"
proof -
  let ?env = "\<lparr>re_show_float = (\<lambda>_. ''5.0''), re_parse_float = (\<lambda>_. Some 5),
    re_dumps = (\<lambda>_. ''{}''), re_loads = (\<lambda>_. Some [])\<rparr>"
  have "from_redis_payload ?env (to_redis_payload ?env
      ((new_state demo_deployment 5)\<lparr>st_status := READY, st_login_attempts := 12\<rparr>))
    = Some ((new_state demo_deployment 5)\<lparr>st_status := READY, st_login_attempts := 12\<rparr>)"
    by (rule session_redis_roundtrip) (simp_all add: codec_ok_def new_state_def)
  then show ?thesis by blast
qed

end
