(* ===== verification/Vici_Adapter.thy ===== *)
theory Vici_Adapter
  imports Vici_Models
begin

text \<open>
  \<open>adapters/base.py\<close> and \<open>adapters/v2_14.py\<close>: the requests the session manager sends to
  ViciDial 2.14 and the parsers of its answers. The adapter is a record of functions, as the
  workers only use its interface; \<open>v2_14\<close> is the one the code ships. The three regular
  expressions are one matcher, \<open>find_var\<close>, for \<open>name\s*=\s*['"]?(class+)\<close> ignoring case.
\<close>

section \<open>Requests\<close>

record http_spec =
  hs_method :: string
  hs_path :: string
  hs_params :: "pyval dict"
  hs_data :: "pyval dict"

definition get_spec :: "string \<Rightarrow> pyval dict \<Rightarrow> http_spec" where
  "get_spec path params = \<lparr>hs_method = ''GET'', hs_path = path, hs_params = params, hs_data = []\<rparr>"

definition post_spec :: "string \<Rightarrow> pyval dict \<Rightarrow> http_spec" where
  "post_spec path form = \<lparr>hs_method = ''POST'', hs_path = path, hs_params = [], hs_data = form\<rparr>"

definition DB_QUERY :: string where "DB_QUERY = ''/agc/vdc_db_query.php''"

definition heartbeat_request :: "captured_session \<Rightarrow> deployment_row \<Rightarrow> http_spec" where
  "heartbeat_request sess d = get_spec DB_QUERY
     [(''function'', PStr ''ConfExten_check''), (''user'', PStr (dp_vici_user d)),
      (''pass'', PStr (dp_vici_pass d)), (''conf_exten'', PStr (cp_conf_exten sess)),
      (''session_name'', PStr (cp_session_name sess)), (''stage'', PStr ''heartbeat'')]"

definition get_call_info_request :: "captured_session \<Rightarrow> deployment_row \<Rightarrow> http_spec" where
  "get_call_info_request sess d = get_spec DB_QUERY
     [(''function'', PStr ''user_status''), (''user'', PStr (dp_vici_user d)),
      (''pass'', PStr (dp_vici_pass d)), (''session_name'', PStr (cp_session_name sess)),
      (''format'', PStr ''vars'')]"

definition get_lead_request :: "string \<Rightarrow> http_spec" where
  "get_lead_request lead_id = get_spec ''/vicidial/non_agent_api.php''
     [(''source'', PStr ''aipanel''), (''function'', PStr ''update_lead''), (''query'', PStr ''Y''),
      (''lead_id'', PStr lead_id)]"

text \<open>The compatibility routes pass JSON values of any type through; an absent callback time is
  \<open>PNone\<close>.\<close>

definition dispose_request :: "captured_session \<Rightarrow> deployment_row \<Rightarrow> pyval \<Rightarrow> pyval \<Rightarrow> pyval \<Rightarrow> http_spec" where
  "dispose_request sess d status callback_datetime notes = post_spec DB_QUERY
     ([(''function'', PStr ''user_dispo_log''), (''user'', PStr (dp_vici_user d)),
       (''pass'', PStr (dp_vici_pass d)), (''campaign'', PStr (dp_campaign_id d)),
       (''session_name'', PStr (cp_session_name sess)), (''status'', status),
       (''comments'', py_or notes (PStr []))] @
      (if truthy callback_datetime
       then [(''callback'', PStr ''Y''), (''callback_dt'', callback_datetime),
             (''callback_type'', PStr ''USERONLY'')] else []))"

text \<open>\<open>summary[:1000]\<close>: None is a TypeError.\<close>

fun slice_1000 :: "pyval \<Rightarrow> pyval option" where
  "slice_1000 (PStr s) = Some (PStr (take 1000 s))"
| "slice_1000 (PList xs) = Some (PList (take 1000 xs))"
| "slice_1000 _ = None"

definition transfer_conference_request :: "captured_session \<Rightarrow> deployment_row \<Rightarrow> pyval \<Rightarrow> pyval \<Rightarrow> http_spec option" where
  "transfer_conference_request sess d ingroup_id summary =
     map_option (\<lambda>comments. post_spec DB_QUERY
       [(''function'', PStr ''transfer_park_call_to_x''), (''user'', PStr (dp_vici_user d)),
        (''pass'', PStr (dp_vici_pass d)), (''session_name'', PStr (cp_session_name sess)),
        (''conf_exten'', PStr (cp_conf_exten sess)), (''xfer_type'', PStr ''IN_GROUP''),
        (''ingroup'', ingroup_id), (''comments'', comments), (''leave_3way'', PStr ''0'')])
       (slice_1000 summary)"

definition pause_request :: "captured_session \<Rightarrow> deployment_row \<Rightarrow> string \<Rightarrow> http_spec" where
  "pause_request sess d pause_code = post_spec DB_QUERY
     [(''function'', PStr ''pause_session_log''), (''user'', PStr (dp_vici_user d)),
      (''pass'', PStr (dp_vici_pass d)), (''campaign'', PStr (dp_campaign_id d)),
      (''session_name'', PStr (cp_session_name sess)), (''stage'', PStr ''PAUSED''),
      (''pause_code'', PStr pause_code)]"

definition resume_request :: "captured_session \<Rightarrow> deployment_row \<Rightarrow> http_spec" where
  "resume_request sess d = post_spec DB_QUERY
     [(''function'', PStr ''pause_session_log''), (''user'', PStr (dp_vici_user d)),
      (''pass'', PStr (dp_vici_pass d)), (''campaign'', PStr (dp_campaign_id d)),
      (''session_name'', PStr (cp_session_name sess)), (''stage'', PStr ''READY'')]"

definition hangup_request :: "captured_session \<Rightarrow> deployment_row \<Rightarrow> http_spec" where
  "hangup_request sess d = post_spec DB_QUERY
     [(''function'', PStr ''ra_call_control''), (''user'', PStr (dp_vici_user d)),
      (''pass'', PStr (dp_vici_pass d)), (''session_name'', PStr (cp_session_name sess)),
      (''conf_exten'', PStr (cp_conf_exten sess)), (''call_action'', PStr ''HANGUP_CUSTOMER'')]"

definition logout_request :: "captured_session \<Rightarrow> deployment_row \<Rightarrow> http_spec" where
  "logout_request sess d = post_spec ''/agc/vicidial.php''
     [(''DB'', PStr ''0''), (''VD_login'', PStr (dp_vici_user d)), (''VD_pass'', PStr (dp_vici_pass d)),
      (''logout'', PStr ''LOGOUT''), (''session_name'', PStr (cp_session_name sess))]"

definition manual_dial_request :: "captured_session \<Rightarrow> deployment_row \<Rightarrow> string \<Rightarrow> http_spec" where
  "manual_dial_request sess d phone_number = post_spec DB_QUERY
     [(''function'', PStr ''ext_manual_dial''), (''user'', PStr (dp_vici_user d)),
      (''pass'', PStr (dp_vici_pass d)), (''session_name'', PStr (cp_session_name sess)),
      (''phone_number'', PStr phone_number), (''phone_code'', PStr ''1''),
      (''campaign'', PStr (dp_campaign_id d)), (''search'', PStr ''NO''), (''preview'', PStr ''NO''),
      (''focus'', PStr ''YES'')]"

section \<open>Login\<close>

definition rstrip_slashes :: "string \<Rightarrow> string" where
  "rstrip_slashes s = rev (dropWhile (\<lambda>c. c = CHR ''/'') (rev s))"

definition login_url :: "string \<Rightarrow> string" where
  "login_url base_url = rstrip_slashes base_url @ ''/agc/vicidial.php''"

definition login_form_fields :: "deployment_row \<Rightarrow> string dict" where
  "login_form_fields d =
     [(''VD_login'', dp_vici_user d), (''VD_pass'', dp_vici_pass d), (''VD_campaign'', dp_campaign_id d),
      (''phone_login'', dp_phone_login d), (''phone_pass'', dp_phone_pass d), (''relogin'', ''Y''),
      (''DB'', ''0'')]"

definition LOGOUT_MARKERS :: "string list" where
  "LOGOUT_MARKERS = [''NOT LOGGED-IN'', ''logout_session'', ''USER LOGGED OUT'', ''session_expired'']"

definition has_marker :: "string \<Rightarrow> bool" where
  "has_marker body = list_ex (\<lambda>m. substr_in m body) LOGOUT_MARKERS"

definition is_quote :: "char \<Rightarrow> bool" where
  "is_quote c = (c = CHR 0x27 \<or> c = CHR 0x22)"

definition drop_quote :: "string \<Rightarrow> string" where
  "drop_quote s = (case s of c # cs \<Rightarrow> if is_quote c then cs else s | [] \<Rightarrow> [])"

definition match_var :: "(char \<Rightarrow> bool) \<Rightarrow> string \<Rightarrow> string \<Rightarrow> string option" where
  "match_var cls name s =
     (if lower (take (length name) s) \<noteq> name then None
      else (case dropWhile is_space (drop (length name) s) of
              [] \<Rightarrow> None
            | e # r \<Rightarrow>
                if e \<noteq> CHR ''='' then None
                else let v = takeWhile cls (drop_quote (dropWhile is_space r))
                     in if v = [] then None else Some v))"

fun find_var :: "(char \<Rightarrow> bool) \<Rightarrow> string \<Rightarrow> string \<Rightarrow> string option" where
  "find_var cls name [] = match_var cls name []"
| "find_var cls name (c # cs) =
     (case match_var cls name (c # cs) of Some v \<Rightarrow> Some v | None \<Rightarrow> find_var cls name cs)"

definition is_alnum :: "char \<Rightarrow> bool" where
  "is_alnum c = (let n = (of_char c :: nat) in
     is_digit c \<or> (65 \<le> n \<and> n \<le> 90) \<or> (97 \<le> n \<and> n \<le> 122))"

definition is_name_char :: "char \<Rightarrow> bool" where
  "is_name_char c = (is_alnum c \<or> c = CHR ''_'' \<or> c = CHR ''-'')"

text \<open>The agent page: the error of the adapter, or the captured session.\<close>

definition parse_agent_page :: "string \<Rightarrow> string dict \<Rightarrow> string + captured_session" where
  "parse_agent_page html cookies =
     (if html = [] then Inl ''agent page response was empty''
      else if has_marker html
      then Inl (''agent page contains logout markers '' @ em_dash @ '' login likely failed'')
      else (case find_var is_digit ''conf_exten'' html of
              None \<Rightarrow> Inl ''could not extract conf_exten from agent page''
            | Some exten \<Rightarrow>
                (case find_var is_alnum ''session_id'' html of
                   None \<Rightarrow> Inl ''could not extract session_id from agent page''
                 | Some sid \<Rightarrow> Inr
                     \<lparr>cp_cookies = cookies, cp_conf_exten = exten, cp_session_id = sid,
                      cp_session_name = (case find_var is_name_char ''session_name'' html of
                         None \<Rightarrow> [] | Some n \<Rightarrow> n), cp_user_agent = []\<rparr>)))"

text \<open>\<open>base_url_from\<close>: scheme and authority as \<open>urlsplit\<close> finds them; None is its ValueError.\<close>

definition is_scheme_char :: "char \<Rightarrow> bool" where
  "is_scheme_char c = (is_alnum c \<or> c = CHR ''+'' \<or> c = CHR ''-'' \<or> c = CHR ''.'')"

definition url_scheme :: "string \<Rightarrow> (string \<times> string) option" where
  "url_scheme url =
     (let s = takeWhile (\<lambda>c. c \<noteq> CHR '':'') url; rest = drop (length s) url
      in if s = [] \<or> rest = [] \<or> \<not> list_all is_scheme_char s \<or> is_digit (hd s) \<or> \<not> is_alnum (hd s)
         then None else Some (lower s, tl rest))"

definition base_url_from :: "string \<Rightarrow> string option" where
  "base_url_from web_url =
     (case url_scheme web_url of
        None \<Rightarrow> None
      | Some (scheme, rest) \<Rightarrow>
          if take 2 rest \<noteq> ''//'' then None
          else let netloc = takeWhile (\<lambda>c. c \<notin> {CHR ''/'', CHR ''?'', CHR ''#''}) (drop 2 rest)
               in if netloc = [] then None else Some (scheme @ ''://'' @ netloc))"

section \<open>Responses\<close>

definition is_response_session_expired :: "string \<Rightarrow> int \<Rightarrow> bool" where
  "is_response_session_expired body status_code =
     (status_code = 401 \<or> status_code = 403 \<or> body = [] \<or> has_marker body)"

definition field_at :: "string list \<Rightarrow> nat \<Rightarrow> string option" where
  "field_at fs i = (if i < length fs \<and> fs ! i \<noteq> [] then Some (fs ! i) else None)"

definition parse_call_info_response :: "string \<Rightarrow> call_info" where
  "parse_call_info_response body =
     (if strip body = []
      then \<lparr>ci_lead_id = None, ci_uniqueid = None, ci_phone_number = None, ci_campaign_id = None,
            ci_list_id = None\<rparr>
      else let fs = split_on CHR ''|'' (strip body)
           in \<lparr>ci_lead_id = field_at fs 11, ci_uniqueid = field_at fs 12,
               ci_phone_number = field_at fs 15, ci_campaign_id = field_at fs 13,
               ci_list_id = field_at fs 14\<rparr>)"

definition part_at :: "string list \<Rightarrow> nat \<Rightarrow> string" where
  "part_at ps i = (if i < length ps then ps ! i else [])"

definition parse_lead_response :: "string \<Rightarrow> string \<Rightarrow> lead_data" where
  "parse_lead_response body lead_id =
     (if body = []
      then \<lparr>le_lead_id = lead_id, le_first_name = [], le_last_name = [], le_phone_number = [],
            le_email = [], le_address = [], le_city = [], le_state = [], le_postal_code = []\<rparr>
      else let ps = split_on CHR 0x09 (strip body)
           in \<lparr>le_lead_id = str_or (part_at ps 0) lead_id, le_first_name = part_at ps 10,
               le_last_name = part_at ps 12, le_phone_number = part_at ps 8, le_email = part_at ps 24,
               le_address = join '' '' (filter (\<lambda>p. p \<noteq> []) [part_at ps 13, part_at ps 14, part_at ps 15]),
               le_city = part_at ps 16, le_state = part_at ps 17, le_postal_code = part_at ps 19\<rparr>)"

section \<open>The interface\<close>

record adapter =
  ad_heartbeat :: "captured_session \<Rightarrow> deployment_row \<Rightarrow> http_spec"
  ad_expired :: "string \<Rightarrow> int \<Rightarrow> bool"
  ad_call_info_request :: "captured_session \<Rightarrow> deployment_row \<Rightarrow> http_spec"
  ad_call_info :: "string \<Rightarrow> call_info"
  ad_lead_request :: "string \<Rightarrow> http_spec"
  ad_lead :: "string \<Rightarrow> string \<Rightarrow> lead_data"
  ad_dispose :: "captured_session \<Rightarrow> deployment_row \<Rightarrow> pyval \<Rightarrow> pyval \<Rightarrow> pyval \<Rightarrow> http_spec"
  ad_transfer :: "captured_session \<Rightarrow> deployment_row \<Rightarrow> pyval \<Rightarrow> pyval \<Rightarrow> http_spec option"
  ad_pause :: "captured_session \<Rightarrow> deployment_row \<Rightarrow> string \<Rightarrow> http_spec"
  ad_resume :: "captured_session \<Rightarrow> deployment_row \<Rightarrow> http_spec"
  ad_hangup :: "captured_session \<Rightarrow> deployment_row \<Rightarrow> http_spec"
  ad_logout :: "captured_session \<Rightarrow> deployment_row \<Rightarrow> http_spec"
  ad_manual_dial :: "captured_session \<Rightarrow> deployment_row \<Rightarrow> string \<Rightarrow> http_spec"

definition v2_14 :: adapter where
  "v2_14 = \<lparr>ad_heartbeat = heartbeat_request, ad_expired = is_response_session_expired,
     ad_call_info_request = get_call_info_request, ad_call_info = parse_call_info_response,
     ad_lead_request = get_lead_request, ad_lead = parse_lead_response,
     ad_dispose = dispose_request, ad_transfer = transfer_conference_request,
     ad_pause = pause_request, ad_resume = resume_request, ad_hangup = hangup_request,
     ad_logout = logout_request, ad_manual_dial = manual_dial_request\<rparr>"

definition get_adapter :: "string \<Rightarrow> adapter option" where
  "get_adapter name = (if name \<in> {''v2_14'', ''2.14'', ''2_14''} then Some v2_14 else None)"

text \<open>What the session worker relies on. The transport reports its own failures as an empty
  body, which every adapter has to take for an expired session; the heartbeat is a read.\<close>

locale adapter_contract =
  fixes A :: adapter
  assumes empty_expired: "ad_expired A [] status"
    and heartbeat_reads: "hs_method (ad_heartbeat A sess d) = ''GET''"
    and heartbeat_user: "map_of (hs_params (ad_heartbeat A sess d)) ''user'' = Some (PStr (dp_vici_user d))"

interpretation v214: adapter_contract v2_14
  by unfold_locales
    (simp_all add: v2_14_def is_response_session_expired_def heartbeat_request_def get_spec_def)

section \<open>The transport\<close>

text \<open>\<open>ViciHttp.send\<close>: what the HTTP client does; a timeout is 599, any other failure 0, both
  with an empty body.\<close>

datatype transport = Response int string | TimedOut | Failed

fun http_send_result :: "transport \<Rightarrow> int \<times> string" where
  "http_send_result (Response status body) = (status, body)"
| "http_send_result TimedOut = (599, [])"
| "http_send_result Failed = (0, [])"

section \<open>Lemmas\<close>

lemma match_var_here:
  assumes "name \<noteq> []" "lower name = name" "v \<noteq> []" "\<forall>c \<in> set v. cls c"
    "\<forall>c. cls c \<longrightarrow> \<not> is_quote c \<and> \<not> is_space c" "s = [] \<or> \<not> cls (hd s)"
  shows "match_var cls name (name @ ''='' @ v @ s) = Some v"
proof -
  have ns: "\<not> is_space (CHR ''='')" by (simp add: is_space_def)
  obtain c cs where v: "v = c # cs" using assms(3) by (cases v) auto
  have c: "\<not> is_space c" "\<not> is_quote c" using assms(4,5) v by auto
  have "takeWhile cls (v @ s) = v"
    using assms(4,6) by (cases s) (simp_all add: takeWhile_append2 takeWhile_tail)
  then show ?thesis
    using assms(1,2) c ns v by (simp add: match_var_def drop_quote_def)
qed

section \<open>Properties\<close>

text \<open>
  The status record of ViciDial is read by position: for a pipe-separated record with no
  blank ends, lead, unique id, campaign, list and phone number are its fields 11 to 15, an empty
  or missing one being None.
\<close>

lemma call_info_by_position:
  assumes "fs \<noteq> []" and "\<forall>f \<in> set fs. CHR ''|'' \<notin> set f"
    and "strip (join ''|'' fs) = join ''|'' fs" and "join ''|'' fs \<noteq> []"
  shows "parse_call_info_response (join ''|'' fs)
       = \<lparr>ci_lead_id = field_at fs 11, ci_uniqueid = field_at fs 12, ci_phone_number = field_at fs 15,
          ci_campaign_id = field_at fs 13, ci_list_id = field_at fs 14\<rparr>"
  using split_on_join [OF assms(1,2)] assms(3,4) by (simp add: parse_call_info_response_def Let_def)

lemma call_info_by_position_witness:
  "ci_uniqueid (parse_call_info_response ''INCALL|||||||||||42|17.1|SALES|101|5551234'') = Some ''17.1''"
proof -
  let ?fs = "[''INCALL'', [], [], [], [], [], [], [], [], [], [], ''42'', ''17.1'', ''SALES'', ''101'', ''5551234'']"
  have j: "join ''|'' ?fs = ''INCALL|||||||||||42|17.1|SALES|101|5551234''" by simp
  have "parse_call_info_response (join ''|'' ?fs)
       = \<lparr>ci_lead_id = field_at ?fs 11, ci_uniqueid = field_at ?fs 12, ci_phone_number = field_at ?fs 15,
          ci_campaign_id = field_at ?fs 13, ci_list_id = field_at ?fs 14\<rparr>"
    by (rule call_info_by_position) (simp_all add: strip_no_space is_space_def)
  then show ?thesis unfolding j by (simp add: field_at_def)
qed

end
