(* ===== verification/Session_Worker.thy ===== *)
theory Session_Worker
  imports Vici_Adapter
begin

text \<open>
  \<open>session_worker.py\<close>: the state machine of one ViciDial session. The worker talks to ViciDial
  through an adapter, to the browser login through \<open>sx_login\<close> (the outcome of the n-th attempt),
  and mirrors its state to one Redis hash. A \<open>stop()\<close> of another task can fall into the waits of
  the login loop; \<open>sx_stop_wait\<close> and \<open>sx_stop_login\<close> say in which attempt it does.
\<close>

section \<open>State\<close>

record sess_worker =
  w_deployment :: deployment_row
  w_state :: session_state
  w_captured :: "captured_session option"
  w_http :: bool
  w_stopped :: bool
  w_redis :: "string dict option"
  w_requests :: "http_spec list"

record sw_env =
  sx_adapter :: adapter
  sx_codec :: redis_env
  sx_send :: "nat \<Rightarrow> http_spec \<Rightarrow> transport"
  sx_login :: "int \<Rightarrow> string + captured_session"
  sx_stop_wait :: "int \<Rightarrow> bool"
  sx_stop_login :: "int \<Rightarrow> bool"
  sx_redis_ok :: bool
  sx_now :: rat
  sx_backoff :: "nat list"

definition new_sess_worker :: "deployment_row \<Rightarrow> rat \<Rightarrow> string dict option \<Rightarrow> sess_worker" where
  "new_sess_worker d now redis =
     \<lparr>w_deployment = d, w_state = new_state d now, w_captured = None, w_http = False,
      w_stopped = False, w_redis = redis, w_requests = []\<rparr>"

definition upd_state :: "(session_state \<Rightarrow> session_state) \<Rightarrow> sess_worker \<Rightarrow> sess_worker" where
  "upd_state f w = w\<lparr>w_state := f (w_state w)\<rparr>"

definition mirror_to_redis :: "sw_env \<Rightarrow> sess_worker \<Rightarrow> sess_worker" where
  "mirror_to_redis env w =
     (if sx_redis_ok env then w\<lparr>w_redis := Some (to_redis_payload (sx_codec env) (w_state w))\<rparr> else w)"

definition set_status :: "sw_env \<Rightarrow> session_status \<Rightarrow> sess_worker \<Rightarrow> sess_worker" where
  "set_status env s w = mirror_to_redis env (upd_state (\<lambda>st. st\<lparr>st_status := s\<rparr>) w)"

definition vici_send :: "sw_env \<Rightarrow> http_spec \<Rightarrow> sess_worker \<Rightarrow> (int \<times> string) \<times> sess_worker" where
  "vici_send env spec w =
     (http_send_result (sx_send env (length (w_requests w)) spec), w\<lparr>w_requests := w_requests w @ [spec]\<rparr>)"

section \<open>Lifecycle\<close>

definition sw_stop :: "sw_env \<Rightarrow> sess_worker \<Rightarrow> sess_worker" where
  "sw_stop env w =
     (if w_stopped w then w
      else
        let w1 = w\<lparr>w_stopped := True\<rparr>;
            w2 = (case w_captured w1 of
                    Some c \<Rightarrow> if w_http w1
                      then (snd (vici_send env (ad_logout (sx_adapter env) c (w_deployment w1)) w1))\<lparr>w_http := False\<rparr>
                      else w1
                  | None \<Rightarrow> w1);
            w3 = set_status env LOGGED_OUT w2
        in if sx_redis_ok env then w3\<lparr>w_redis := None\<rparr> else w3)"

definition adopt_captured :: "sw_env \<Rightarrow> captured_session \<Rightarrow> sess_worker \<Rightarrow> sess_worker" where
  "adopt_captured env c w =
     set_status env READY (upd_state (\<lambda>st. st\<lparr>st_cookies := cp_cookies c, st_conf_exten := cp_conf_exten c,
         st_session_id := cp_session_id c, st_session_name := cp_session_name c,
         st_user_agent := cp_user_agent c, st_last_heartbeat_at := Some (sx_now env),
         st_heartbeat_failures := 0, st_last_error := []\<rparr>)
       (w\<lparr>w_captured := Some c, w_http := True\<rparr>))"

text \<open>\<open>_login_with_backoff\<close> over its delays: the stopped flag is looked at before the wait,
  neither after it nor after the login.\<close>

definition attempts :: "sess_worker \<Rightarrow> int" where
  "attempts w = st_login_attempts (w_state w)"

definition login_attempt :: "sw_env \<Rightarrow> nat \<Rightarrow> sess_worker \<Rightarrow> sess_worker" where
  "login_attempt env delay w =
     (let k = attempts w + 1;
          w1 = (if delay \<noteq> 0 \<and> sx_stop_wait env k then sw_stop env w else w);
          w2 = upd_state (\<lambda>st. st\<lparr>st_login_attempts := k\<rparr>) w1
      in if sx_stop_login env k then sw_stop env w2 else w2)"

fun login_loop :: "sw_env \<Rightarrow> nat list \<Rightarrow> sess_worker \<Rightarrow> sess_worker" where
  "login_loop env [] w = set_status env ERROR w"
| "login_loop env (delay # ds) w =
     (if w_stopped w then w
      else let w1 = login_attempt env delay w
        in (case sx_login env (attempts w1) of
              Inl err \<Rightarrow> login_loop env ds (upd_state (\<lambda>st. st\<lparr>st_last_error := err\<rparr>) w1)
            | Inr c \<Rightarrow> adopt_captured env c w1))"

definition login_with_backoff :: "sw_env \<Rightarrow> sess_worker \<Rightarrow> sess_worker" where
  "login_with_backoff env w = login_loop env (0 # sx_backoff env) w"

definition maybe_recover :: "sw_env \<Rightarrow> sess_worker \<Rightarrow> sess_worker" where
  "maybe_recover env w =
     (if st_heartbeat_failures (w_state w) < 3 then w
      else login_with_backoff env (w\<lparr>w_http := False, w_captured := None\<rparr>))"

definition heartbeat :: "sw_env \<Rightarrow> sess_worker \<Rightarrow> sess_worker" where
  "heartbeat env w =
     (case w_captured w of
        None \<Rightarrow> w
      | Some c \<Rightarrow>
          if \<not> w_http w then w
          else let ((status, body), w1) = vici_send env (ad_heartbeat (sx_adapter env) c (w_deployment w)) w
            in if ad_expired (sx_adapter env) body status
               then maybe_recover env (upd_state (\<lambda>st. st\<lparr>st_heartbeat_failures := st_heartbeat_failures st + 1\<rparr>) w1)
               else mirror_to_redis env (upd_state (\<lambda>st. st\<lparr>st_heartbeat_failures := 0,
                      st_last_heartbeat_at := Some (sx_now env)\<rparr>) w1))"

definition resume_from_redis :: "sw_env \<Rightarrow> sess_worker \<Rightarrow> bool \<times> sess_worker" where
  "resume_from_redis env w =
     (case (if sx_redis_ok env then w_redis w else None) of
        None \<Rightarrow> (False, w)
      | Some payload \<Rightarrow>
          if payload = [] then (False, w)
          else (case from_redis_payload (sx_codec env) payload of
            None \<Rightarrow> (False, w)
          | Some prior \<Rightarrow>
              if st_cookies prior = [] \<or> st_conf_exten prior = [] then (False, w)
              else
                let w1 = heartbeat env (adopt_captured env
                      \<lparr>cp_cookies = st_cookies prior, cp_conf_exten = st_conf_exten prior,
                       cp_session_id = st_session_id prior, cp_session_name = st_session_name prior,
                       cp_user_agent = st_user_agent prior\<rparr> w)
                in if 0 < st_heartbeat_failures (w_state w1)
                   then (False, w1\<lparr>w_captured := None, w_http := False\<rparr>)
                   else (True, w1)))"

definition sw_start :: "sw_env \<Rightarrow> sess_worker \<Rightarrow> sess_worker" where
  "sw_start env w =
     (case resume_from_redis env (set_status env LOGGING_IN w) of
        (True, w1) \<Rightarrow> w1
      | (False, w1) \<Rightarrow> login_with_backoff env w1)"

section \<open>Actions\<close>

text \<open>An action answers, finds the session expired, or raises: with no captured session or no
  HTTP client the attribute access on None fails before \<open>_raise_if_expired\<close> is reached.\<close>

datatype 'a act = ActOk 'a | ActExpired | ActRaises string

definition act_send :: "sw_env \<Rightarrow> (captured_session \<Rightarrow> http_spec option) \<Rightarrow> sess_worker \<Rightarrow> string act \<times> sess_worker" where
  "act_send env spec w =
     (case w_captured w of
        None \<Rightarrow> (ActRaises ''AttributeError'', w)
      | Some c \<Rightarrow>
          (case spec c of
             None \<Rightarrow> (ActRaises ''TypeError'', w)
           | Some sp \<Rightarrow>
               if \<not> w_http w then (ActRaises ''AttributeError'', w)
               else let ((status, body), w1) = vici_send env sp w
                 in if ad_expired (sx_adapter env) body status
                    then (ActExpired, upd_state (\<lambda>st. st\<lparr>st_heartbeat_failures := st_heartbeat_failures st + 99\<rparr>) w1)
                    else (ActOk body, w1)))"

definition act_done :: "(sess_worker \<Rightarrow> sess_worker) \<Rightarrow> string act \<times> sess_worker \<Rightarrow> unit act \<times> sess_worker" where
  "act_done f r =
     (case r of (ActOk body, w) \<Rightarrow> (ActOk (), f w) | (ActExpired, w) \<Rightarrow> (ActExpired, w)
      | (ActRaises e, w) \<Rightarrow> (ActRaises e, w))"

definition sw_get_call_info :: "sw_env \<Rightarrow> sess_worker \<Rightarrow> call_info act \<times> sess_worker" where
  "sw_get_call_info env w =
     (case act_send env (\<lambda>c. Some (ad_call_info_request (sx_adapter env) c (w_deployment w))) w of
        (ActOk body, w1) \<Rightarrow>
          let info = ad_call_info (sx_adapter env) body in
          (ActOk info,
           if str_or_none (ci_lead_id info) \<noteq> None
           then mirror_to_redis env (upd_state (\<lambda>st. st\<lparr>st_last_call_id :=
                  (case str_or_none (ci_uniqueid info) of None \<Rightarrow> st_last_call_id st | Some u \<Rightarrow> Some u)\<rparr>) w1)
           else w1)
      | (ActExpired, w1) \<Rightarrow> (ActExpired, w1)
      | (ActRaises e, w1) \<Rightarrow> (ActRaises e, w1))"

definition sw_get_lead :: "sw_env \<Rightarrow> string \<Rightarrow> sess_worker \<Rightarrow> lead_data act \<times> sess_worker" where
  "sw_get_lead env lead_id w =
     (if \<not> w_http w then (ActRaises ''AttributeError'', w)
      else let ((status, body), w1) = vici_send env (ad_lead_request (sx_adapter env) lead_id) w
        in (ActOk (ad_lead (sx_adapter env) body lead_id), w1))"

definition sw_dispose :: "sw_env \<Rightarrow> pyval \<Rightarrow> pyval \<Rightarrow> pyval \<Rightarrow> sess_worker \<Rightarrow> unit act \<times> sess_worker" where
  "sw_dispose env status callback notes w =
     act_done id (act_send env (\<lambda>c. Some (ad_dispose (sx_adapter env) c (w_deployment w) status callback notes)) w)"

definition sw_transfer :: "sw_env \<Rightarrow> pyval \<Rightarrow> pyval \<Rightarrow> sess_worker \<Rightarrow> unit act \<times> sess_worker" where
  "sw_transfer env ingroup_id summary w =
     act_done id (act_send env (\<lambda>c. ad_transfer (sx_adapter env) c (w_deployment w) ingroup_id summary) w)"

definition sw_pause :: "sw_env \<Rightarrow> string \<Rightarrow> sess_worker \<Rightarrow> unit act \<times> sess_worker" where
  "sw_pause env pause_code w = act_done (set_status env PAUSED)
     (act_send env (\<lambda>c. Some (ad_pause (sx_adapter env) c (w_deployment w) pause_code)) w)"

definition sw_resume :: "sw_env \<Rightarrow> sess_worker \<Rightarrow> unit act \<times> sess_worker" where
  "sw_resume env w = act_done (set_status env READY)
     (act_send env (\<lambda>c. Some (ad_resume (sx_adapter env) c (w_deployment w))) w)"

definition sw_hangup :: "sw_env \<Rightarrow> sess_worker \<Rightarrow> unit act \<times> sess_worker" where
  "sw_hangup env w = act_done id
     (act_send env (\<lambda>c. Some (ad_hangup (sx_adapter env) c (w_deployment w))) w)"

definition sw_manual_dial :: "sw_env \<Rightarrow> string \<Rightarrow> sess_worker \<Rightarrow> unit act \<times> sess_worker" where
  "sw_manual_dial env phone_number w = act_done id
     (act_send env (\<lambda>c. Some (ad_manual_dial (sx_adapter env) c (w_deployment w) phone_number)) w)"

section \<open>Lemmas\<close>

lemmas state_simps = upd_state_def mirror_to_redis_def set_status_def attempts_def

lemma set_status_simps [simp]:
  "w_captured (set_status env s w) = w_captured w" "w_http (set_status env s w) = w_http w"
  "w_stopped (set_status env s w) = w_stopped w" "w_requests (set_status env s w) = w_requests w"
  "st_status (w_state (set_status env s w)) = s" "attempts (set_status env s w) = attempts w"
  "st_heartbeat_failures (w_state (set_status env s w)) = st_heartbeat_failures (w_state w)"
  "w_deployment (set_status env s w) = w_deployment w"
  by (simp_all add: state_simps)

lemma upd_state_simps [simp]:
  "w_captured (upd_state f w) = w_captured w" "w_http (upd_state f w) = w_http w"
  "w_stopped (upd_state f w) = w_stopped w" "w_requests (upd_state f w) = w_requests w"
  "w_state (upd_state f w) = f (w_state w)" "w_deployment (upd_state f w) = w_deployment w"
  by (simp_all add: upd_state_def)

lemma mirror_simps [simp]:
  "w_captured (mirror_to_redis env w) = w_captured w" "w_http (mirror_to_redis env w) = w_http w"
  "w_stopped (mirror_to_redis env w) = w_stopped w" "w_requests (mirror_to_redis env w) = w_requests w"
  "w_state (mirror_to_redis env w) = w_state w" "w_deployment (mirror_to_redis env w) = w_deployment w"
  by (simp_all add: mirror_to_redis_def)

lemma adopt_simps [simp]:
  "w_captured (adopt_captured env c w) = Some c" "w_http (adopt_captured env c w)"
  "w_stopped (adopt_captured env c w) = w_stopped w" "w_requests (adopt_captured env c w) = w_requests w"
  "st_status (w_state (adopt_captured env c w)) = READY" "attempts (adopt_captured env c w) = attempts w"
  "st_heartbeat_failures (w_state (adopt_captured env c w)) = 0"
  by (simp_all add: adopt_captured_def state_simps)

lemma stop_simps [simp]:
  "w_stopped (sw_stop env w)" "attempts (sw_stop env w) = attempts w"
  "\<not> w_http w \<Longrightarrow> \<not> w_http (sw_stop env w)"
  "w_captured (sw_stop env w) = w_captured w"
  by (auto simp: sw_stop_def vici_send_def Let_def attempts_def state_simps split: option.splits)

text \<open>With no \<open>stop\<close> in between, a login ends in one of two ways, within the attempts the
  backoff allows.\<close>

definition undisturbed :: "sw_env \<Rightarrow> bool" where
  "undisturbed env \<longleftrightarrow> (\<forall>k. \<not> sx_stop_wait env k \<and> \<not> sx_stop_login env k)"

lemma attempts_upd [simp]:
  "attempts (upd_state (\<lambda>st. st\<lparr>st_login_attempts := k\<rparr>) w) = k"
  "attempts (upd_state (\<lambda>st. st\<lparr>st_last_error := e\<rparr>) w) = attempts w"
  "attempts (upd_state (\<lambda>st. st\<lparr>st_heartbeat_failures := f st\<rparr>) w) = attempts w"
  by (simp_all add: attempts_def)

lemma login_attempt_attempts [simp]: "attempts (login_attempt env d w) = attempts w + 1"
  by (simp add: login_attempt_def Let_def)

lemma login_attempt_quiet:
  "undisturbed env \<Longrightarrow> login_attempt env d w = upd_state (\<lambda>st. st\<lparr>st_login_attempts := attempts w + 1\<rparr>) w"
  by (simp add: login_attempt_def undisturbed_def)

lemma login_loop_outcome:
  assumes "undisturbed env" "\<not> w_stopped w"
  shows "let w' = login_loop env ds w in
    attempts w \<le> attempts w' \<and> attempts w' \<le> attempts w + int (length ds) \<and> \<not> w_stopped w' \<and>
    ((\<exists>c. sx_login env (attempts w') = Inr c \<and> w_captured w' = Some c \<and> w_http w' \<and>
        st_status (w_state w') = READY \<and> st_heartbeat_failures (w_state w') = 0) \<or>
     (w_captured w' = w_captured w \<and> w_http w' = w_http w \<and> st_status (w_state w') = ERROR \<and>
        attempts w' = attempts w + int (length ds)))"
  using assms(2)
proof (induction ds arbitrary: w)
  case Nil
  then show ?case by (simp add: Let_def)
next
  case (Cons d ds)
  define w1 where "w1 = login_attempt env d w"
  have w1: "attempts w1 = attempts w + 1" "\<not> w_stopped w1" "w_captured w1 = w_captured w" "w_http w1 = w_http w"
    using Cons.prems login_attempt_quiet [OF assms(1)] by (simp_all add: w1_def)
  show ?case
  proof (cases "sx_login env (attempts w1)")
    case (Inr c)
    then have "login_loop env (d # ds) w = adopt_captured env c w1"
      using Cons.prems by (simp add: Let_def w1_def [symmetric])
    then show ?thesis using Inr w1 by (simp add: Let_def)
  next
    case (Inl err)
    define w4 where "w4 = upd_state (\<lambda>st. st\<lparr>st_last_error := err\<rparr>) w1"
    have loop: "login_loop env (d # ds) w = login_loop env ds w4"
      using Inl Cons.prems by (simp add: Let_def w4_def w1_def [symmetric])
    have w4: "attempts w4 = attempts w + 1" "\<not> w_stopped w4" "w_captured w4 = w_captured w" "w_http w4 = w_http w"
      using w1 by (simp_all add: w4_def)
    show ?thesis
      using Cons.IH [OF w4(2)] unfolding loop Let_def w4(1,3,4) by auto
  qed
qed

lemma login_loop_mono: "attempts w \<le> attempts (login_loop env ds w)"
proof (induction ds arbitrary: w)
  case (Cons d ds)
  show ?case
  proof (cases "sx_login env (attempts w + 1)")
    case (Inl err)
    then show ?thesis
      using Cons.IH [of "upd_state (\<lambda>st. st\<lparr>st_last_error := err\<rparr>) (login_attempt env d w)"]
      by (simp add: Let_def)
  next
    case (Inr c)
    then show ?thesis by (simp add: Let_def)
  qed
qed simp

lemma login_with_backoff_attempts:
  assumes "\<not> w_stopped w"
  shows "attempts w < attempts (login_with_backoff env w)"
proof (cases "sx_login env (attempts w + 1)")
  case (Inl err)
  then show ?thesis
    using assms login_loop_mono [of "upd_state (\<lambda>st. st\<lparr>st_last_error := err\<rparr>) (login_attempt env 0 w)" env "sx_backoff env"]
    by (simp add: login_with_backoff_def Let_def)
next
  case (Inr c)
  then show ?thesis using assms by (simp add: login_with_backoff_def Let_def)
qed

text \<open>A heartbeat that fails before the third in a row only counts.\<close>

lemma heartbeat_fails:
  assumes "w_captured w = Some c" "w_http w"
    and "\<And>n spec. ad_expired (sx_adapter env) (snd (http_send_result (sx_send env n spec)))
           (fst (http_send_result (sx_send env n spec)))"
  shows "heartbeat env w = maybe_recover env (upd_state (\<lambda>st. st\<lparr>st_heartbeat_failures := st_heartbeat_failures st + 1\<rparr>)
    (w\<lparr>w_requests := w_requests w @ [ad_heartbeat (sx_adapter env) c (w_deployment w)]\<rparr>))"
  using assms by (simp add: heartbeat_def vici_send_def split_beta Let_def)

section \<open>Properties\<close>

text \<open>
  A login ends, within one attempt more than the backoff has delays, in one of two ways: the
  session of the last attempt adopted, ready and with clean counters, or the error status with
  no session; unless a stop falls into it.
\<close>

lemma login_outcome:
  assumes "undisturbed env" and "\<not> w_stopped w" and "w_captured w = None" and "\<not> w_http w"
  shows "attempts (login_with_backoff env w) \<le> attempts w + 1 + int (length (sx_backoff env)) \<and>
    (if st_status (w_state (login_with_backoff env w)) = ERROR
     then w_captured (login_with_backoff env w) = None \<and> \<not> w_http (login_with_backoff env w)
     else st_status (w_state (login_with_backoff env w)) = READY \<and> w_http (login_with_backoff env w) \<and>
       (\<exists>c. sx_login env (attempts (login_with_backoff env w)) = Inr c \<and>
            w_captured (login_with_backoff env w) = Some c) \<and>
       st_heartbeat_failures (w_state (login_with_backoff env w)) = 0)"
  using login_loop_outcome [OF assms(1,2), of "0 # sx_backoff env"] assms(3,4)
  unfolding login_with_backoff_def [symmetric] Let_def by auto

definition demo_captured :: captured_session where
  "demo_captured = \<lparr>cp_cookies = [(''PHPSESSID'', ''x'')], cp_conf_exten = ''8600051'',
     cp_session_id = ''s'', cp_session_name = ''n'', cp_user_agent = ''ua''\<rparr>"

definition demo_sw_env :: "transport \<Rightarrow> (int \<Rightarrow> string + captured_session) \<Rightarrow> (int \<Rightarrow> bool) \<Rightarrow> sw_env" where
  "demo_sw_env tr login stop_wait = \<lparr>sx_adapter = v2_14,
     sx_codec = \<lparr>re_show_float = (\<lambda>_. ''0.0''), re_parse_float = (\<lambda>_. Some 0), re_dumps = (\<lambda>_. ''{}''),
       re_loads = (\<lambda>_. Some [])\<rparr>,
     sx_send = (\<lambda>_ _. tr), sx_login = login, sx_stop_wait = stop_wait, sx_stop_login = (\<lambda>_. False),
     sx_redis_ok = True, sx_now = 100, sx_backoff = [5, 30, 120, 600]\<rparr>"

lemma login_outcome_witness:
  "attempts (login_with_backoff (demo_sw_env Failed (\<lambda>_. Inl ''no conf_exten'') (\<lambda>_. False))
     (new_sess_worker demo_deployment 0 None)) \<le> 5"
proof -
  let ?env = "demo_sw_env Failed (\<lambda>_. Inl ''no conf_exten'') (\<lambda>_. False)"
  let ?w = "new_sess_worker demo_deployment 0 None"
  have "attempts (login_with_backoff ?env ?w) \<le> attempts ?w + 1 + int (length (sx_backoff ?env)) \<and>
    (if st_status (w_state (login_with_backoff ?env ?w)) = ERROR
     then w_captured (login_with_backoff ?env ?w) = None \<and> \<not> w_http (login_with_backoff ?env ?w)
     else st_status (w_state (login_with_backoff ?env ?w)) = READY \<and> w_http (login_with_backoff ?env ?w) \<and>
       (\<exists>c. sx_login ?env (attempts (login_with_backoff ?env ?w)) = Inr c \<and>
            w_captured (login_with_backoff ?env ?w) = Some c) \<and>
       st_heartbeat_failures (w_state (login_with_backoff ?env ?w)) = 0)"
    by (rule login_outcome) (simp_all add: demo_sw_env_def undisturbed_def new_sess_worker_def)
  then show ?thesis by (simp add: demo_sw_env_def attempts_def new_sess_worker_def new_state_def)
qed

text \<open>
  heartbeats tolerate two failures and log in again at the third: with the network down,
  whatever failure the transport reports, the session is kept for two heartbeats and a new
  login attempt is made by the third.
\<close>

lemma relogin_at_third_failure:
  assumes "sx_adapter env = v2_14" and "\<forall>n spec. sx_send env n spec = TimedOut \<or> sx_send env n spec = Failed"
    and "w_captured w = Some c" and "w_http w" and "\<not> w_stopped w"
    and "st_heartbeat_failures (w_state w) = 0"
  shows "w_captured (heartbeat env (heartbeat env w)) = Some c \<and> w_http (heartbeat env (heartbeat env w)) \<and>
    attempts (heartbeat env (heartbeat env w)) = attempts w \<and>
    attempts w < attempts (heartbeat env (heartbeat env (heartbeat env w)))"
proof -
  have down: "ad_expired (sx_adapter env) (snd (http_send_result (sx_send env n spec)))
      (fst (http_send_result (sx_send env n spec)))" for n spec
    using assms(2) [THEN spec, of n] assms(1) v214.empty_expired by (metis http_send_result.simps(2,3) snd_conv)
  define beat where "beat v = upd_state (\<lambda>st. st\<lparr>st_heartbeat_failures := st_heartbeat_failures st + 1\<rparr>)
    (v\<lparr>w_requests := w_requests v @ [ad_heartbeat (sx_adapter env) c (w_deployment v)]\<rparr>)" for v
  have beat: "w_captured (beat v) = w_captured v" "w_http (beat v) = w_http v" "w_stopped (beat v) = w_stopped v"
    "st_heartbeat_failures (w_state (beat v)) = st_heartbeat_failures (w_state v) + 1"
    "attempts (beat v) = attempts v" for v
    by (simp_all add: beat_def attempts_def)
  have hb: "heartbeat env v = maybe_recover env (beat v)" if "w_captured v = Some c" "w_http v" for v
    using heartbeat_fails [OF that down] by (simp add: beat_def)
  have h1: "heartbeat env w = beat w" using hb [OF assms(3,4)] assms(6) by (simp add: maybe_recover_def beat)
  have h2: "heartbeat env (beat w) = beat (beat w)"
    using hb [of "beat w"] assms(3,4,6) by (simp add: maybe_recover_def beat)
  have h3: "heartbeat env (beat (beat w)) = login_with_backoff env ((beat (beat (beat w)))\<lparr>w_http := False, w_captured := None\<rparr>)"
    using hb [of "beat (beat w)"] assms(3,4,6) by (simp add: maybe_recover_def beat)
  have "attempts w < attempts (login_with_backoff env ((beat (beat (beat w)))\<lparr>w_http := False, w_captured := None\<rparr>))"
    using login_with_backoff_attempts [of "(beat (beat (beat w)))\<lparr>w_http := False, w_captured := None\<rparr>" env]
      assms(5) beat by (simp add: attempts_def)
  then show ?thesis unfolding h1 h2 h3 using beat assms(3,4) by simp
qed

definition demo_ready :: sess_worker where
  "demo_ready = (new_sess_worker demo_deployment 0 None)\<lparr>w_captured := Some demo_captured, w_http := True\<rparr>"

lemma relogin_at_third_failure_witness:
  "attempts demo_ready < attempts (heartbeat (demo_sw_env TimedOut (\<lambda>_. Inl ''x'') (\<lambda>_. False))
     (heartbeat (demo_sw_env TimedOut (\<lambda>_. Inl ''x'') (\<lambda>_. False))
       (heartbeat (demo_sw_env TimedOut (\<lambda>_. Inl ''x'') (\<lambda>_. False)) demo_ready)))"
  using relogin_at_third_failure [of "demo_sw_env TimedOut (\<lambda>_. Inl ''x'') (\<lambda>_. False)" demo_ready demo_captured]
  by (simp add: demo_sw_env_def demo_ready_def new_sess_worker_def new_state_def)

text \<open>
  stopping a session during its login backoff does not stop it: the flag is only looked at
  before the wait, so the attempt after it still runs, and a stopped worker ends up ready, with
  an open session nobody will log out and a mirror for the next start to resume.
\<close>

lemma stopped_session_comes_back:
  assumes "\<not> w_stopped w" and "w_captured w = None" and "\<not> w_http w"
    and "sx_login env (attempts w + 1) = Inl err" and "\<not> sx_stop_login env (attempts w + 1)"
    and "sx_backoff env = d # ds" and "d \<noteq> 0" and "sx_stop_wait env (attempts w + 2)"
    and "sx_login env (attempts w + 2) = Inr c" and "sx_redis_ok env"
  shows "w_stopped (login_with_backoff env w) \<and> st_status (w_state (login_with_backoff env w)) = READY \<and>
    w_captured (login_with_backoff env w) = Some c \<and> w_http (login_with_backoff env w) \<and>
    w_redis (login_with_backoff env w) \<noteq> None"
proof -
  define w1 where "w1 = upd_state (\<lambda>st. st\<lparr>st_last_error := err\<rparr>) (login_attempt env 0 w)"
  have w1: "attempts w1 = attempts w + 1" "\<not> w_stopped w1"
    using assms(1,5) by (simp_all add: w1_def login_attempt_def)
  define w2 where "w2 = login_attempt env d w1"
  have w2: "attempts w2 = attempts w + 2" "w_stopped w2"
    using w1 assms(7,8) by (simp_all add: w2_def) (simp_all add: login_attempt_def Let_def add.commute)
  have "login_with_backoff env w = login_loop env (d # ds) w1"
    using assms(1,4,6) by (simp add: login_with_backoff_def Let_def w1_def)
  also have "\<dots> = adopt_captured env c w2"
    using w1 w2 assms(9) by (simp add: Let_def w2_def [symmetric])
  finally show ?thesis using w2 assms(10)
    by (simp add: adopt_captured_def set_status_def mirror_to_redis_def)
qed

lemma stopped_session_comes_back_witness:
  "w_stopped (login_with_backoff (demo_sw_env Failed (\<lambda>k. if k = 1 then Inl ''x'' else Inr demo_captured)
      (\<lambda>k. k = 2)) (new_sess_worker demo_deployment 0 None)) \<and>
   st_status (w_state (login_with_backoff (demo_sw_env Failed (\<lambda>k. if k = 1 then Inl ''x'' else Inr demo_captured)
      (\<lambda>k. k = 2)) (new_sess_worker demo_deployment 0 None))) = READY"
  using stopped_session_comes_back [of "new_sess_worker demo_deployment 0 None"
      "demo_sw_env Failed (\<lambda>k. if k = 1 then Inl ''x'' else Inr demo_captured) (\<lambda>k. k = 2)" "''x''" 5
      "[30, 120, 600]" demo_captured]
  by (simp add: demo_sw_env_def new_sess_worker_def new_state_def attempts_def)

end
