(* ===== verification/Session_Supervisor.thy ===== *)
theory Session_Supervisor
  imports Session_Worker
begin

text \<open>
  \<open>session_supervisor.py\<close> and \<open>heartbeat.py\<close>: the set of session workers follows the deployments
  the database lists as active, and every worker gets a heartbeat task. Workers are objects that
  tasks may still hold after the supervisor dropped them, so they live in a store, \<open>ss_objs\<close>, and
  the dictionaries hold addresses. A call of a worker's method is one step; the Redis mirrors,
  one hash per deployment, are shared by the workers of that deployment.
\<close>

section \<open>State\<close>

datatype sup_task = StartTask nat | BeatTask nat

record sess_sup =
  ss_objs :: "sess_worker list"
  ss_workers :: "nat dict"
  ss_tasks :: "sup_task list"
  ss_beats :: "nat dict"
  ss_redis :: "string \<Rightarrow> string dict option"

definition empty_sup :: "(string \<Rightarrow> string dict option) \<Rightarrow> sess_sup" where
  "empty_sup redis = \<lparr>ss_objs = [], ss_workers = [], ss_tasks = [], ss_beats = [], ss_redis = redis\<rparr>"

text \<open>A method call on the worker at an address, over the shared mirrors.\<close>

definition load_worker :: "sess_sup \<Rightarrow> nat \<Rightarrow> sess_worker" where
  "load_worker s a = (let w = ss_objs s ! a in w\<lparr>w_redis := ss_redis s (dp_deployment_id (w_deployment w))\<rparr>)"

definition store_worker :: "nat \<Rightarrow> sess_worker \<Rightarrow> sess_sup \<Rightarrow> sess_sup" where
  "store_worker a w s = s\<lparr>ss_objs := (ss_objs s)[a := w],
     ss_redis := (ss_redis s)(dp_deployment_id (w_deployment w) := w_redis w)\<rparr>"

definition on_worker :: "(sess_worker \<Rightarrow> sess_worker) \<Rightarrow> nat \<Rightarrow> sess_sup \<Rightarrow> sess_sup" where
  "on_worker f a s = store_worker a (f (load_worker s a)) s"

section \<open>The deployments of the database\<close>

text \<open>A row of \<open>SQL_ACTIVE_DEPLOYMENTS\<close>: the secrets are encrypted and may be NULL, and so may the
  transfer groups. The identifiers are the text form of UUIDs, as \<open>::text\<close> and \<open>str(UUID(x))\<close>
  both give it.\<close>

record active_row =
  ar_deployment_id :: string
  ar_tenant_id :: string
  ar_vici_server_id :: string
  ar_web_url :: string
  ar_asterisk_host :: string
  ar_vici_user :: string
  ar_vici_pass_encrypted :: "string option"
  ar_phone_login :: string
  ar_phone_pass_encrypted :: "string option"
  ar_campaign_id :: string
  ar_ingroups :: "string list option"

definition decrypt_secret :: "(string \<Rightarrow> string option) \<Rightarrow> string option \<Rightarrow> string option" where
  "decrypt_secret fernet c = Option.bind c fernet"

definition deployment_of_row :: "(string \<Rightarrow> string option) \<Rightarrow> active_row \<Rightarrow> deployment_row option" where
  "deployment_of_row fernet r =
     (case (decrypt_secret fernet (ar_vici_pass_encrypted r), decrypt_secret fernet (ar_phone_pass_encrypted r)) of
        (Some vp, Some pp) \<Rightarrow> Some
          \<lparr>dp_deployment_id = ar_deployment_id r, dp_tenant_id = ar_tenant_id r,
           dp_vici_server_id = ar_vici_server_id r, dp_web_url = ar_web_url r,
           dp_asterisk_host = ar_asterisk_host r, dp_vici_user = ar_vici_user r, dp_vici_pass = vp,
           dp_phone_login = ar_phone_login r, dp_phone_pass = pp, dp_campaign_id = ar_campaign_id r,
           dp_ingroups = (case ar_ingroups r of None \<Rightarrow> [] | Some gs \<Rightarrow> gs)\<rparr>
      | _ \<Rightarrow> None)"

text \<open>\<open>_sync_fetch_deployments\<close>: None is a \<open>psycopg.Error\<close>.\<close>

definition sync_fetch_deployments :: "(string \<Rightarrow> string option) \<Rightarrow> active_row list option \<Rightarrow> deployment_row list" where
  "sync_fetch_deployments fernet db =
     (case db of None \<Rightarrow> [] | Some rows \<Rightarrow> List.map_filter (deployment_of_row fernet) rows)"

section \<open>The tick\<close>

definition start_worker :: "rat \<Rightarrow> deployment_row \<Rightarrow> sess_sup \<Rightarrow> sess_sup" where
  "start_worker now d s =
     (let a = length (ss_objs s); did = dp_deployment_id d in
      s\<lparr>ss_objs := ss_objs s @ [new_sess_worker d now (ss_redis s did)],
        ss_workers := AList.update did a (ss_workers s),
        ss_tasks := ss_tasks s @ [StartTask a]\<rparr>)"

definition maybe_recover_unhealthy :: "rat \<Rightarrow> rat \<Rightarrow> nat \<Rightarrow> sess_sup \<Rightarrow> sess_sup" where
  "maybe_recover_unhealthy unhealthy_after now a s =
     (case st_last_heartbeat_at (w_state (ss_objs s ! a)) of
        None \<Rightarrow> s
      | Some last_at \<Rightarrow>
          if now - last_at < unhealthy_after then s
          else s\<lparr>ss_objs := (ss_objs s)[a := upd_state (\<lambda>st. st\<lparr>st_heartbeat_failures := 99\<rparr>) (ss_objs s ! a)],
                 ss_tasks := ss_tasks s @ [BeatTask a]\<rparr>)"

definition refresh_row :: "rat \<Rightarrow> rat \<Rightarrow> deployment_row \<Rightarrow> sess_sup \<Rightarrow> sess_sup" where
  "refresh_row unhealthy_after now d s =
     (case map_of (ss_workers s) (dp_deployment_id d) of
        None \<Rightarrow> start_worker now d s
      | Some a \<Rightarrow> maybe_recover_unhealthy unhealthy_after now a s)"

definition stop_worker :: "sw_env \<Rightarrow> string \<Rightarrow> sess_sup \<Rightarrow> sess_sup" where
  "stop_worker env did s =
     (case map_of (ss_workers s) did of
        None \<Rightarrow> s
      | Some a \<Rightarrow> on_worker (sw_stop env) a (s\<lparr>ss_workers := AList.delete did (ss_workers s)\<rparr>))"

definition remove_departed :: "sw_env \<Rightarrow> string set \<Rightarrow> string \<Rightarrow> sess_sup \<Rightarrow> sess_sup" where
  "remove_departed env active did s = (if did \<in> active then s else stop_worker env did s)"

definition tick :: "sw_env \<Rightarrow> rat \<Rightarrow> rat \<Rightarrow> deployment_row list \<Rightarrow> sess_sup \<Rightarrow> sess_sup" where
  "tick env unhealthy_after now rows s =
     (let s1 = fold (refresh_row unhealthy_after now) rows s
      in fold (remove_departed env (dp_deployment_id ` set rows)) (map fst (ss_workers s1)) s1)"

definition stop_all :: "sw_env \<Rightarrow> sess_sup \<Rightarrow> sess_sup" where
  "stop_all env s = (fold (on_worker (sw_stop env)) (map snd (ss_workers s)) s)\<lparr>ss_workers := []\<rparr>"

section \<open>The scheduled tasks and the heartbeats\<close>

definition run_task :: "sw_env \<Rightarrow> nat \<Rightarrow> sess_sup \<Rightarrow> sess_sup" where
  "run_task env i s =
     (let s1 = s\<lparr>ss_tasks := take i (ss_tasks s) @ drop (Suc i) (ss_tasks s)\<rparr>
      in (case ss_tasks s ! i of
            StartTask a \<Rightarrow> on_worker (sw_start env) a s1
          | BeatTask a \<Rightarrow> on_worker (heartbeat env) a s1))"

definition reconcile_tasks :: "sess_sup \<Rightarrow> sess_sup" where
  "reconcile_tasks s =
     (let live = ss_workers s;
          new = filter (\<lambda>(did, a). map_of (ss_beats s) did = None) live
      in s\<lparr>ss_beats := filter (\<lambda>(did, a). map_of live did \<noteq> None) (ss_beats s @ new)\<rparr>)"

text \<open>What the API asks of a worker.\<close>

datatype action =
    ActCallInfo | ActLead string | ActDispose pyval pyval pyval | ActTransfer pyval pyval
  | ActPause string | ActResume | ActHangup | ActManualDial string | ActStop

fun run_action :: "sw_env \<Rightarrow> action \<Rightarrow> sess_worker \<Rightarrow> sess_worker" where
  "run_action env ActCallInfo w = snd (sw_get_call_info env w)"
| "run_action env (ActLead lead_id) w = snd (sw_get_lead env lead_id w)"
| "run_action env (ActDispose status cb notes) w = snd (sw_dispose env status cb notes w)"
| "run_action env (ActTransfer ingroup summary) w = snd (sw_transfer env ingroup summary w)"
| "run_action env (ActPause code) w = snd (sw_pause env code w)"
| "run_action env ActResume w = snd (sw_resume env w)"
| "run_action env ActHangup w = snd (sw_hangup env w)"
| "run_action env (ActManualDial phone) w = snd (sw_manual_dial env phone w)"
| "run_action env ActStop w = sw_stop env w"

text \<open>The service: ticks, tasks, heartbeats and API calls in any order, with any answers of the
  world.\<close>

inductive sup_step :: "sess_sup \<Rightarrow> sess_sup \<Rightarrow> bool" where
  tick_step: "sup_step s (tick env unhealthy_after now (sync_fetch_deployments fernet db) s)"
| task_step: "i < length (ss_tasks s) \<Longrightarrow> sup_step s (run_task env i s)"
| reconcile_step: "sup_step s (reconcile_tasks s)"
| beat_step: "(did, a) \<in> set (ss_beats s) \<Longrightarrow> sup_step s (on_worker (heartbeat env) a s)"
| action_step: "map_of (ss_workers s) did = Some a \<Longrightarrow> sup_step s (on_worker (run_action env act) a s)"

inductive_cases sup_stepE: "sup_step s s'"

inductive sup_reach :: "sess_sup \<Rightarrow> sess_sup \<Rightarrow> bool" for s where
  reach_refl: "sup_reach s s"
| reach_step: "sup_reach s s1 \<Longrightarrow> sup_step s1 s2 \<Longrightarrow> sup_reach s s2"

section \<open>Lemmas\<close>

lemma on_worker_simps [simp]:
  "ss_workers (on_worker f a s) = ss_workers s" "ss_tasks (on_worker f a s) = ss_tasks s"
  "ss_beats (on_worker f a s) = ss_beats s" "length (ss_objs (on_worker f a s)) = length (ss_objs s)"
  "b \<noteq> a \<Longrightarrow> ss_objs (on_worker f a s) ! b = ss_objs s ! b"
  by (simp_all add: on_worker_def store_worker_def)

lemma on_worker_at:
  assumes "a < length (ss_objs s)"
  shows "\<exists>r. ss_objs (on_worker f a s) ! a = f ((ss_objs s ! a)\<lparr>w_redis := r\<rparr>)"
  using assms by (auto simp: on_worker_def store_worker_def load_worker_def Let_def)

text \<open>The dictionary of a supervisor: distinct keys, distinct addresses of existing workers.\<close>

definition sup_wf :: "sess_sup \<Rightarrow> bool" where
  "sup_wf s \<longleftrightarrow> distinct (map fst (ss_workers s)) \<and> distinct (map snd (ss_workers s)) \<and>
     (\<forall>a \<in> set (map snd (ss_workers s)). a < length (ss_objs s)) \<and>
     (\<forall>a. StartTask a \<in> set (ss_tasks s) \<or> BeatTask a \<in> set (ss_tasks s) \<longrightarrow> a < length (ss_objs s)) \<and>
     (\<forall>a \<in> set (map snd (ss_beats s)). a < length (ss_objs s))"

lemma sup_wf_empty: "sup_wf (empty_sup redis)"
  by (simp add: sup_wf_def empty_sup_def)

lemma update_fresh: "map_of d k = None \<Longrightarrow> AList.update k v d = d @ [(k, v)]"
  by (induction d) (auto split: if_splits)

lemma start_worker_wf [inv_intros]:
  assumes "sup_wf s" "map_of (ss_workers s) (dp_deployment_id d) = None"
  shows "sup_wf (start_worker now d s)"
  using assms unfolding sup_wf_def start_worker_def Let_def
  by (auto simp: update_fresh map_of_eq_None_iff less_Suc_eq)

lemma recover_simps [simp]:
  "ss_workers (maybe_recover_unhealthy u now a s) = ss_workers s"
  "ss_beats (maybe_recover_unhealthy u now a s) = ss_beats s"
  "length (ss_objs (maybe_recover_unhealthy u now a s)) = length (ss_objs s)"
  by (simp_all add: maybe_recover_unhealthy_def split: option.splits)

lemma recover_tasks:
  "set (ss_tasks (maybe_recover_unhealthy u now a s)) \<subseteq> insert (BeatTask a) (set (ss_tasks s))"
  "set (ss_tasks s) \<subseteq> set (ss_tasks (maybe_recover_unhealthy u now a s))"
  by (auto simp: maybe_recover_unhealthy_def split: option.splits)

lemma recover_wf [inv_intros]:
  assumes "sup_wf s" "a \<in> set (map snd (ss_workers s))"
  shows "sup_wf (maybe_recover_unhealthy u now a s)"
  using assms recover_tasks(1) [of u now a s] unfolding sup_wf_def by auto

lemma refresh_row_wf [inv_intros]:
  assumes "sup_wf s" shows "sup_wf (refresh_row u now d s)"
  using assms by (auto simp: refresh_row_def intro!: inv_intros split: option.splits dest: map_of_SomeD)
    (metis image_eqI map_of_SomeD snd_conv)

lemma refresh_wf [inv_intros]: "sup_wf s \<Longrightarrow> sup_wf (fold (refresh_row u now) rows s)"
  by (induction rows arbitrary: s) (simp_all add: refresh_row_wf)

lemma on_worker_wf [inv_intros]: "sup_wf s \<Longrightarrow> sup_wf (on_worker f a s)"
  by (simp add: sup_wf_def)

lemma set_delete: "set (AList.delete k d) = {x \<in> set d. fst x \<noteq> k}"
  by (auto simp: AList.delete_eq)

lemma delete_map_snd: "distinct (map snd d) \<Longrightarrow> distinct (map snd (AList.delete k d))"
  by (induction d) (auto simp: set_delete)

lemma stop_worker_wf [inv_intros]:
  assumes "sup_wf s" shows "sup_wf (stop_worker env did s)"
proof -
  have "sup_wf (s\<lparr>ss_workers := AList.delete did (ss_workers s)\<rparr>)"
    using assms delete_map_snd [of "ss_workers s" did] distinct_delete [of "ss_workers s" did]
    unfolding sup_wf_def by (auto simp: set_delete)
  then show ?thesis by (simp add: stop_worker_def on_worker_wf assms split: option.splits)
qed

lemma remove_departed_wf [inv_intros]:
  "sup_wf s \<Longrightarrow> sup_wf (fold (remove_departed env active) ks s)"
  by (induction ks arbitrary: s) (simp_all add: remove_departed_def stop_worker_wf)

lemma tick_wf [inv_intros]: "sup_wf s \<Longrightarrow> sup_wf (tick env u now rows s)"
  by (simp add: tick_def Let_def remove_departed_wf refresh_wf)

text \<open>What a removal does to the dictionary and to the objects.\<close>

lemma map_of_delete': "map_of (AList.delete k d) = (map_of d)(k := None)"
  by (rule delete_conv')

lemma stop_worker_map: "map_of (ss_workers (stop_worker env did s)) = (map_of (ss_workers s))(did := None)"
  by (auto simp: stop_worker_def map_of_delete' split: option.splits)

lemma remove_map:
  "map_of (ss_workers (fold (remove_departed env active) ks s)) =
     (\<lambda>did. if did \<in> set ks \<and> did \<notin> active then None else map_of (ss_workers s) did)"
  by (induction ks arbitrary: s) (auto simp: remove_departed_def stop_worker_map fun_eq_iff)

lemma wf_inj:
  assumes "sup_wf s" "map_of (ss_workers s) did = Some a" "map_of (ss_workers s) did' = Some a"
  shows "did = did'"
proof -
  have "(did, a) \<in> set (ss_workers s)" "(did', a) \<in> set (ss_workers s)"
    using assms(2,3) by (auto dest: map_of_SomeD)
  then show ?thesis using assms(1) unfolding sup_wf_def
    by (metis (no_types, lifting) distinct_map inj_onD snd_conv prod.inject)
qed

lemma wf_addr: "sup_wf s \<Longrightarrow> map_of (ss_workers s) did = Some a \<Longrightarrow> a < length (ss_objs s)"
  unfolding sup_wf_def by (metis image_eqI list.set_map map_of_SomeD snd_conv)

lemma remove_keeps:
  assumes "\<And>did. did \<in> set ks \<Longrightarrow> did \<notin> active \<Longrightarrow> map_of (ss_workers s) did \<noteq> Some a"
  shows "ss_objs (fold (remove_departed env active) ks s) ! a = ss_objs s ! a"
  using assms
proof (induction ks arbitrary: s)
  case (Cons k ks)
  have step: "ss_objs (remove_departed env active k s) ! a = ss_objs s ! a"
    using Cons.prems [of k] by (auto simp: remove_departed_def stop_worker_def split: option.splits)
  have "map_of (ss_workers (remove_departed env active k s)) did \<noteq> Some a"
    if "did \<in> set ks" "did \<notin> active" for did
    using Cons.prems [of did] that by (auto simp: remove_departed_def stop_worker_map)
  then show ?case using Cons.IH step by simp
qed simp

lemma stop_worker_at:
  assumes "sup_wf s" "map_of (ss_workers s) did = Some a"
  shows "\<exists>r. ss_objs (stop_worker env did s) ! a = sw_stop env ((ss_objs s ! a)\<lparr>w_redis := r\<rparr>)"
  using on_worker_at [of a "s\<lparr>ss_workers := AList.delete did (ss_workers s)\<rparr>" "sw_stop env"]
    wf_addr [OF assms] assms(2) by (simp add: stop_worker_def)

lemma remove_stops:
  assumes "sup_wf s" "map_of (ss_workers s) did = Some a" "did \<in> set ks" "did \<notin> active"
  shows "\<exists>r. ss_objs (fold (remove_departed env active) ks s) ! a = sw_stop env ((ss_objs s ! a)\<lparr>w_redis := r\<rparr>)"
  using assms(1,2,3)
proof (induction ks arbitrary: s)
  case (Cons k ks)
  let ?s1 = "remove_departed env active k s"
  show ?case
  proof (cases "k = did")
    case True
    then have s1: "?s1 = stop_worker env did s" using assms(4) by (simp add: remove_departed_def)
    have "map_of (ss_workers ?s1) x \<noteq> Some a" for x
      using wf_inj [OF Cons.prems(1,2)] by (auto simp: s1 stop_worker_map)
    then have "ss_objs (fold (remove_departed env active) ks ?s1) ! a = ss_objs ?s1 ! a"
      by (intro remove_keeps) blast
    then show ?thesis using stop_worker_at [OF Cons.prems(1,2)] by (simp add: s1)
  next
    case False
    have other: "ss_objs ?s1 ! a = ss_objs s ! a"
      using remove_keeps [of "[k]" active s a env] False wf_inj [OF Cons.prems(1,2)] by auto
    have "sup_wf ?s1" "map_of (ss_workers ?s1) did = Some a"
      using Cons.prems False by (auto simp: remove_departed_def stop_worker_wf stop_worker_map)
    then show ?thesis using Cons.IH [of ?s1] Cons.prems(3) False other by auto
  qed
qed simp

text \<open>A stopped worker: logged out if it had an open session.\<close>

definition logged_out :: "sw_env \<Rightarrow> sess_worker \<Rightarrow> sess_worker \<Rightarrow> bool" where
  "logged_out env w w' \<longleftrightarrow> w_stopped w' \<and>
     (\<not> w_stopped w \<longrightarrow> \<not> (w_captured w' \<noteq> None \<and> w_http w') \<and> st_status (w_state w') = LOGGED_OUT \<and>
        w_requests w' = w_requests w @ (case w_captured w of None \<Rightarrow> []
          | Some c \<Rightarrow> if w_http w then [ad_logout (sx_adapter env) c (w_deployment w)] else []))"

lemma sw_stop_logged_out: "logged_out env w (sw_stop env (w\<lparr>w_redis := r\<rparr>))"
  by (auto simp: logged_out_def sw_stop_def vici_send_def Let_def state_simps split: option.splits)

text \<open>What the refresh does to the dictionary.\<close>

lemma refresh_row_map:
  "map_of (ss_workers (refresh_row u now d s)) =
     (\<lambda>did. case map_of (ss_workers s) did of Some a \<Rightarrow> Some a
        | None \<Rightarrow> if did = dp_deployment_id d then Some (length (ss_objs s)) else None)"
  by (auto simp: refresh_row_def start_worker_def Let_def fun_eq_iff split: option.splits)

lemma refresh_row_tasks:
  "set (ss_tasks s) \<subseteq> set (ss_tasks (refresh_row u now d s))"
  using recover_tasks(2) [of s] by (auto simp: refresh_row_def start_worker_def Let_def split: option.splits)

lemma refresh_tasks: "set (ss_tasks s) \<subseteq> set (ss_tasks (fold (refresh_row u now) rows s))"
proof (induction rows arbitrary: s)
  case (Cons d rows)
  show ?case using refresh_row_tasks [of s u now d] Cons.IH [of "refresh_row u now d s"] by simp
qed simp

lemma refresh_keeps:
  "map_of (ss_workers s) did = Some a \<Longrightarrow> map_of (ss_workers (fold (refresh_row u now) rows s)) did = Some a"
  by (induction rows arbitrary: s) (simp_all add: refresh_row_map)

lemma refresh_dom:
  "dom (map_of (ss_workers (fold (refresh_row u now) rows s))) = dom (map_of (ss_workers s)) \<union> dp_deployment_id ` set rows"
proof (induction rows arbitrary: s)
  case (Cons d rows)
  have "dom (map_of (ss_workers (refresh_row u now d s))) = insert (dp_deployment_id d) (dom (map_of (ss_workers s)))"
    by (auto simp: refresh_row_map dom_def split: option.splits)
  then show ?case using Cons.IH by simp
qed simp

lemma refresh_starts:
  assumes "map_of (ss_workers s) did = None" "did \<in> dp_deployment_id ` set rows"
  shows "\<exists>a. map_of (ss_workers (fold (refresh_row u now) rows s)) did = Some a \<and> length (ss_objs s) \<le> a \<and>
     StartTask a \<in> set (ss_tasks (fold (refresh_row u now) rows s))"
  using assms
proof (induction rows arbitrary: s)
  case (Cons d rows)
  let ?s1 = "refresh_row u now d s"
  have len: "length (ss_objs s) \<le> length (ss_objs ?s1)"
    by (simp add: refresh_row_def start_worker_def Let_def split: option.splits)
  show ?case
  proof (cases "dp_deployment_id d = did")
    case True
    have "map_of (ss_workers ?s1) did = Some (length (ss_objs s))" using True Cons.prems(1) by (simp add: refresh_row_map)
    moreover have "StartTask (length (ss_objs s)) \<in> set (ss_tasks ?s1)"
      using True Cons.prems(1) by (simp add: refresh_row_def start_worker_def Let_def)
    ultimately show ?thesis
      using refresh_keeps [of ?s1 did _ u now rows] subsetD [OF refresh_tasks [of ?s1 u now rows]]
      by (intro exI [of _ "length (ss_objs s)"]) simp
  next
    case False
    then have "map_of (ss_workers ?s1) did = None" using Cons.prems(1) by (simp add: refresh_row_map)
    from Cons.IH [OF this] show ?thesis using Cons.prems(2) False len by fastforce
  qed
qed simp

lemma remove_tasks [simp]:
  "ss_tasks (fold (remove_departed env active) ks s) = ss_tasks s"
  by (induction ks arbitrary: s) (simp_all add: remove_departed_def stop_worker_def split: option.splits)

lemma refresh_keeps_obj:
  assumes "sup_wf s" "map_of (ss_workers s) did = Some a" "did \<notin> dp_deployment_id ` set rows"
  shows "ss_objs (fold (refresh_row u now) rows s) ! a = ss_objs s ! a"
  using assms
proof (induction rows arbitrary: s)
  case (Cons d rows)
  let ?s1 = "refresh_row u now d s"
  have "ss_objs ?s1 ! a = ss_objs s ! a"
  proof (cases "map_of (ss_workers s) (dp_deployment_id d)")
    case None
    then show ?thesis using wf_addr [OF Cons.prems(1,2)]
      by (simp add: refresh_row_def start_worker_def Let_def nth_append)
  next
    case (Some b)
    then have "b \<noteq> a" using wf_inj [OF Cons.prems(1,2)] Cons.prems(3) by auto
    then show ?thesis using Some by (simp add: refresh_row_def maybe_recover_unhealthy_def split: option.splits)
  qed
  moreover have "map_of (ss_workers ?s1) did = Some a" using Cons.prems(2) by (simp add: refresh_row_map)
  ultimately show ?case
    using Cons.IH [OF refresh_row_wf [OF Cons.prems(1)]] Cons.prems(3) by simp
qed simp

text \<open>Reachable states are well formed.\<close>

lemma task_wf [inv_intros]: "sup_wf s \<Longrightarrow> i < length (ss_tasks s) \<Longrightarrow> sup_wf (run_task env i s)"
proof -
  assume wf: "sup_wf s"
  have "sup_wf (s\<lparr>ss_tasks := take i (ss_tasks s) @ drop (Suc i) (ss_tasks s)\<rparr>)"
    using wf unfolding sup_wf_def by (auto dest!: in_set_takeD in_set_dropD)
  then show ?thesis by (simp add: run_task_def Let_def on_worker_wf split: sup_task.splits)
qed

lemma reconcile_wf [inv_intros]: "sup_wf s \<Longrightarrow> sup_wf (reconcile_tasks s)"
  unfolding sup_wf_def reconcile_tasks_def Let_def by auto

lemma sup_step_wf: "sup_step s s' \<Longrightarrow> sup_wf s \<Longrightarrow> sup_wf s'"
  by (induction rule: sup_step.induct) (simp_all add: inv_intros)

lemma sup_reach_wf: "sup_reach s s' \<Longrightarrow> sup_wf s \<Longrightarrow> sup_wf s'"
  by (induction rule: sup_reach.induct) (simp_all add: sup_step_wf)

lemma reachable_wf: "sup_reach (empty_sup redis) s \<Longrightarrow> sup_wf s"
  by (rule sup_reach_wf [OF _ sup_wf_empty])

lemma dom_fst: "dom (map_of d) = set (map fst d)"
  by (simp add: dom_map_of_conv_image_fst)

lemma tick_map:
  "map_of (ss_workers (tick env u now rows s)) =
     (\<lambda>did. if did \<in> dp_deployment_id ` set rows
            then map_of (ss_workers (fold (refresh_row u now) rows s)) did else None)"
  by (auto simp: tick_def Let_def remove_map fun_eq_iff map_of_eq_None_iff)

lemma tick_tasks: "ss_tasks (tick env u now rows s) = ss_tasks (fold (refresh_row u now) rows s)"
  by (simp add: tick_def Let_def)

lemma tick_removes:
  assumes wf: "sup_wf s" and a: "map_of (ss_workers s) did = Some a" and out: "did \<notin> dp_deployment_id ` set rows"
  shows "logged_out env (ss_objs s ! a) (ss_objs (tick env u now rows s) ! a)"
proof -
  let ?s1 = "fold (refresh_row u now) rows s"
  have m: "map_of (ss_workers ?s1) did = Some a" using a by (rule refresh_keeps)
  then have "did \<in> set (map fst (ss_workers ?s1))" using dom_fst by (metis domI)
  from remove_stops [OF refresh_wf [OF wf] m this out]
  obtain r where "ss_objs (tick env u now rows s) ! a = sw_stop env ((ss_objs ?s1 ! a)\<lparr>w_redis := r\<rparr>)"
    by (auto simp: tick_def Let_def)
  then show ?thesis using sw_stop_logged_out refresh_keeps_obj [OF wf a out] by simp
qed

text \<open>A worker with no HTTP client does nothing any more: heartbeats return at once, actions
  raise before they change anything, and only \<open>start\<close> logs in.\<close>

definition dead :: "http_spec list \<Rightarrow> int \<Rightarrow> sess_worker \<Rightarrow> bool" where
  "dead reqs n w \<longleftrightarrow> \<not> w_http w \<and> st_status (w_state w) \<in> {ERROR, LOGGED_OUT} \<and>
     w_requests w = reqs \<and> attempts w = n"

definition dead_at :: "http_spec list \<Rightarrow> int \<Rightarrow> nat \<Rightarrow> sess_sup \<Rightarrow> bool" where
  "dead_at reqs n a s \<longleftrightarrow> a < length (ss_objs s) \<and> StartTask a \<notin> set (ss_tasks s) \<and> dead reqs n (ss_objs s ! a)"

lemma dead_redis [simp]: "dead reqs n (w\<lparr>w_redis := r\<rparr>) = dead reqs n w"
  by (simp add: dead_def attempts_def)

lemma dead_failures [simp]:
  "dead reqs n (upd_state (\<lambda>st. st\<lparr>st_heartbeat_failures := k\<rparr>) w) = dead reqs n w"
  by (simp add: dead_def attempts_def)

lemma dead_heartbeat: "dead reqs n w \<Longrightarrow> dead reqs n (heartbeat env w)"
  by (simp add: dead_def heartbeat_def split: option.splits)

lemma dead_stop: "dead reqs n w \<Longrightarrow> dead reqs n (sw_stop env w)"
  by (auto simp: dead_def sw_stop_def Let_def state_simps split: option.splits)

definition closed_error :: "(captured_session \<Rightarrow> http_spec option) \<Rightarrow> sess_worker \<Rightarrow> string" where
  "closed_error spec w = (case w_captured w of Some c \<Rightarrow> (case spec c of None \<Rightarrow> ''TypeError''
     | Some _ \<Rightarrow> ''AttributeError'') | None \<Rightarrow> ''AttributeError'')"

lemma act_send_closed:
  "\<not> w_http w \<Longrightarrow> act_send env spec w = (ActRaises (closed_error spec w), w)"
  by (simp add: act_send_def closed_error_def split: option.splits)

lemma act_done_raises [simp]: "act_done f (ActRaises e, w) = (ActRaises e, w)"
  by (simp add: act_done_def)

lemmas action_defs = sw_get_call_info_def sw_get_lead_def sw_dispose_def sw_transfer_def sw_pause_def
  sw_resume_def sw_hangup_def sw_manual_dial_def

lemma action_closed:
  assumes "\<not> w_http w" "act \<noteq> ActStop"
  shows "run_action env act w = w"
  using assms(2) by (cases act) (simp_all add: action_defs act_send_closed [OF assms(1)] assms(1))

lemma dead_action:
  assumes "dead reqs n w" shows "dead reqs n (run_action env act w)"
proof (cases "act = ActStop")
  case True
  then show ?thesis using dead_stop assms by simp
next
  case False
  then show ?thesis using action_closed assms by (simp add: dead_def)
qed

lemma dead_at_worker:
  assumes "dead_at reqs n a s" and "b = a \<Longrightarrow> (\<And>w. dead reqs n w \<Longrightarrow> dead reqs n (f w))"
  shows "dead_at reqs n a (on_worker f b s)"
proof (cases "b = a")
  case True
  then obtain r where "ss_objs (on_worker f b s) ! a = f ((ss_objs s ! a)\<lparr>w_redis := r\<rparr>)"
    using on_worker_at [of a s f] assms(1) by (auto simp: dead_at_def)
  then show ?thesis using assms True by (simp add: dead_at_def)
next
  case False
  then show ?thesis using assms(1) by (simp add: dead_at_def)
qed

lemma nth_list_update': "xs[i := x] ! j = (if i = j \<and> j < length xs then x else xs ! j)"
  by (cases "i < length xs") (auto simp: nth_list_update list_update_beyond)

lemma dead_refresh_row: "dead_at reqs n a s \<Longrightarrow> dead_at reqs n a (refresh_row u now d s)"
  by (auto simp: dead_at_def refresh_row_def start_worker_def maybe_recover_unhealthy_def Let_def nth_append
      nth_list_update' split: option.splits)

lemma dead_refresh: "dead_at reqs n a s \<Longrightarrow> dead_at reqs n a (fold (refresh_row u now) rows s)"
  by (induction rows arbitrary: s) (simp_all add: dead_refresh_row)

lemma dead_workers_upd [simp]: "dead_at reqs n a (s\<lparr>ss_workers := ws\<rparr>) = dead_at reqs n a s"
  by (simp add: dead_at_def)

lemma dead_remove_one: "dead_at reqs n a s \<Longrightarrow> dead_at reqs n a (remove_departed env active k s)"
  by (auto simp: remove_departed_def stop_worker_def intro!: dead_at_worker dead_stop split: option.splits)

lemma dead_remove: "dead_at reqs n a s \<Longrightarrow> dead_at reqs n a (fold (remove_departed env active) ks s)"
  by (induction ks arbitrary: s) (simp_all add: dead_remove_one)

lemma dead_task:
  assumes "dead_at reqs n a s" "i < length (ss_tasks s)"
  shows "dead_at reqs n a (run_task env i s)"
proof -
  have s1: "dead_at reqs n a (s\<lparr>ss_tasks := take i (ss_tasks s) @ drop (Suc i) (ss_tasks s)\<rparr>)"
    using assms(1) by (auto simp: dead_at_def dest: in_set_takeD in_set_dropD)
  have "ss_tasks s ! i \<noteq> StartTask a" using assms(1) nth_mem [OF assms(2)] unfolding dead_at_def by metis
  then show ?thesis
    using s1 by (auto simp: run_task_def Let_def intro!: dead_at_worker dead_heartbeat split: sup_task.splits)
qed

lemma dead_step: "sup_step s s' \<Longrightarrow> dead_at reqs n a s \<Longrightarrow> dead_at reqs n a s'"
proof (induction rule: sup_step.induct)
  case (tick_step s env u now fernet db)
  then show ?case by (simp add: tick_def Let_def dead_remove dead_refresh)
next
  case (reconcile_step s)
  then show ?case by (simp add: reconcile_tasks_def Let_def dead_at_def)
qed (auto intro: dead_task dead_at_worker dead_heartbeat dead_action)

lemma dead_reach: "sup_reach s s' \<Longrightarrow> dead_at reqs n a s \<Longrightarrow> dead_at reqs n a s'"
  by (induction rule: sup_reach.induct) (simp_all add: dead_step)

section \<open>Properties\<close>


definition demo_row :: active_row where
  "demo_row = \<lparr>ar_deployment_id = ''d1'', ar_tenant_id = ''t1'', ar_vici_server_id = ''v1'',
     ar_web_url = ''http://vici'', ar_asterisk_host = ''10.0.0.5'', ar_vici_user = ''6001'',
     ar_vici_pass_encrypted = Some ''secret'', ar_phone_login = ''6001'',
     ar_phone_pass_encrypted = Some ''secret'', ar_campaign_id = ''SALES'', ar_ingroups = None\<rparr>"

definition demo_sup :: sess_sup where
  "demo_sup = tick (demo_sw_env Failed (\<lambda>_. Inl ''x'') (\<lambda>_. False)) 60 0
     (sync_fetch_deployments Some (Some [demo_row])) (empty_sup (\<lambda>_. None))"

lemma demo_sup_reach: "sup_reach (empty_sup (\<lambda>_. None)) demo_sup"
  unfolding demo_sup_def by (intro reach_step [OF reach_refl] tick_step)

lemmas demo_sup_eval = demo_sup_def demo_row_def tick_def Let_def refresh_row_def start_worker_def
  empty_sup_def sync_fetch_deployments_def deployment_of_row_def decrypt_secret_def map_filter_simps
  remove_departed_def

lemma demo_sup_workers: "ss_workers demo_sup = [(''d1'', 0)]" "ss_tasks demo_sup = [StartTask 0]"
  by (simp_all add: demo_sup_eval)


text \<open>
  C28: a database error is not told from an empty result: one failed query and the next tick
  stops every worker, logs out every agent session and forgets them all.
\<close>

theorem db_outage_logs_everyone_out:
  assumes "sup_reach (empty_sup redis) s"
  shows "ss_workers (tick env u now (sync_fetch_deployments fernet None) s) = [] \<and>
    (\<forall>(did, a) \<in> set (ss_workers s).
       logged_out env (ss_objs s ! a) (ss_objs (tick env u now (sync_fetch_deployments fernet None) s) ! a))"
proof -
  have rows: "sync_fetch_deployments fernet None = []" by (simp add: sync_fetch_deployments_def)
  have wf: "sup_wf s" using assms by (rule reachable_wf)
  have "map_of (ss_workers (tick env u now [] s)) = Map.empty" by (simp add: tick_map fun_eq_iff)
  then have "ss_workers (tick env u now [] s) = []" by (metis map_of_eq_empty_iff)
  moreover have "logged_out env (ss_objs s ! a) (ss_objs (tick env u now [] s) ! a)"
    if "(did, a) \<in> set (ss_workers s)" for did a
    using tick_removes [OF wf, of did a "[]"] that wf by (simp add: sup_wf_def)
  ultimately show ?thesis unfolding rows by blast
qed

theorem db_outage_logs_everyone_out_witness:
  "w_stopped (ss_objs (tick (demo_sw_env Failed (\<lambda>_. Inl ''x'') (\<lambda>_. False)) 60 30
     (sync_fetch_deployments Some None) demo_sup) ! 0)"
  using db_outage_logs_everyone_out [OF demo_sup_reach, of "demo_sw_env Failed (\<lambda>_. Inl ''x'') (\<lambda>_. False)"
      60 30 Some] by (simp add: demo_sup_workers logged_out_def)


text \<open>A login that fails five times, then a stale tick and a heartbeat.\<close>

definition down_env :: sw_env where
  "down_env = (demo_sw_env Failed (\<lambda>_. Inl ''x'') (\<lambda>_. False))\<lparr>sx_redis_ok := False\<rparr>"

definition demo_dead :: sess_sup where
  "demo_dead = run_task down_env 0 demo_sup"

lemma demo_dead_reach: "sup_reach (empty_sup (\<lambda>_. None)) demo_dead"
  unfolding demo_dead_def by (rule reach_step [OF demo_sup_reach task_step]) (simp add: demo_sup_workers)

lemma down_start:
  "\<not> w_stopped w \<Longrightarrow> \<not> w_http w \<Longrightarrow> st_status (w_state (sw_start down_env w)) = ERROR \<and>
     \<not> w_http (sw_start down_env w) \<and> attempts (sw_start down_env w) = attempts w + 5"
  by (simp add: sw_start_def resume_from_redis_def down_env_def demo_sw_env_def login_with_backoff_def
      login_attempt_def Let_def)

lemma demo_dead_obj:
  "ss_workers demo_dead = [(''d1'', 0)]" "ss_tasks demo_dead = []" "\<not> w_http (ss_objs demo_dead ! 0)"
  "st_status (w_state (ss_objs demo_dead ! 0)) = ERROR" "attempts (ss_objs demo_dead ! 0) = 5"
proof -
  have len: "length (ss_objs demo_sup) = 1" by (simp add: demo_sup_eval)
  have w: "\<not> w_stopped (load_worker demo_sup 0)" "\<not> w_http (load_worker demo_sup 0)" "attempts (load_worker demo_sup 0) = 0"
    by (simp_all add: demo_sup_eval load_worker_def new_sess_worker_def new_state_def attempts_def)
  have e: "demo_dead = on_worker (sw_start down_env) 0 (demo_sup\<lparr>ss_tasks := []\<rparr>)"
    by (simp add: demo_dead_def run_task_def demo_sup_workers)
  have o: "ss_objs demo_dead ! 0 = sw_start down_env (load_worker demo_sup 0)"
    using len by (simp add: e on_worker_def store_worker_def load_worker_def)
  show "ss_workers demo_dead = [(''d1'', 0)]" "ss_tasks demo_dead = []" by (simp_all add: e demo_sup_workers)
  show "\<not> w_http (ss_objs demo_dead ! 0)" "st_status (w_state (ss_objs demo_dead ! 0)) = ERROR"
    "attempts (ss_objs demo_dead ! 0) = 5"
    using down_start [OF w(1,2)] w(3) by (simp_all add: o)
qed


end
