(* ===== verification/Session_Api.thy ===== *)
theory Session_Api
  imports Session_Supervisor
begin

text \<open>
  \<open>api.py\<close>: the HTTP surface of the session manager. A request is a method, a decoded path, the
  token header, the query and the JSON body; a response is a status and a JSON value (the text
  that describes an error of the ViciDial session is left empty). An exception a handler does
  not turn into a response is the framework's 500. The two URL families, with their guards in the
  order the framework evaluates them: route, token, body, worker, action. The redirects of
  trailing slashes and the schema pages of the framework are not modelled.
\<close>

section \<open>Requests and responses\<close>

record api_req =
  rq_method :: string
  rq_path :: string
  rq_token :: "string option"
  rq_query :: "string dict"
  rq_body :: "pyval option"

datatype api_resp = Resp int pyval

fun resp_status :: "api_resp \<Rightarrow> int" where
  "resp_status (Resp status body) = status"

record api_env =
  ae_auth_token :: string
  ae_adapter :: string
  ae_metrics :: pyval
  ae_repr :: "pyval \<Rightarrow> string"
  ae_resolve :: "pyval \<Rightarrow> string option"
  ae_sw :: sw_env

definition http_error :: "int \<Rightarrow> string \<Rightarrow> api_resp" where
  "http_error status msg = Resp status (PDict [(''detail'', PStr msg)])"

definition ok_resp :: api_resp where
  "ok_resp = Resp 200 (PDict [(''ok'', PBool True)])"

definition server_error :: api_resp where
  "server_error = Resp 500 (PStr ''Internal Server Error'')"

definition unprocessable :: api_resp where
  "unprocessable = Resp 422 (PDict [(''detail'', PList [])])"

section \<open>Bodies\<close>

text \<open>A pydantic \<open>str\<close> field with its length bounds, and one with a default.\<close>

definition str_field :: "nat \<Rightarrow> nat option \<Rightarrow> pyval dict \<Rightarrow> string \<Rightarrow> string option" where
  "str_field lo hi d k =
     (case map_of d k of
        Some (PStr v) \<Rightarrow> if lo \<le> length v \<and> (case hi of None \<Rightarrow> True | Some h \<Rightarrow> length v \<le> h) then Some v else None
      | _ \<Rightarrow> None)"

definition str_default :: "pyval dict \<Rightarrow> string \<Rightarrow> string option" where
  "str_default d k = (case map_of d k of None \<Rightarrow> Some [] | Some (PStr v) \<Rightarrow> Some v | _ \<Rightarrow> None)"

definition opt_str_field :: "pyval dict \<Rightarrow> string \<Rightarrow> pyval option" where
  "opt_str_field d k = (case map_of d k of None \<Rightarrow> Some PNone | Some PNone \<Rightarrow> Some PNone
     | Some (PStr v) \<Rightarrow> Some (PStr v) | _ \<Rightarrow> None)"

fun dict_body :: "pyval option \<Rightarrow> pyval dict option" where
  "dict_body (Some (PDict d)) = Some d"
| "dict_body _ = None"

definition DisposeBody :: "pyval option \<Rightarrow> action option" where
  "DisposeBody b = (case dict_body b of None \<Rightarrow> None | Some d \<Rightarrow>
     (case (str_field 1 (Some 64) d ''status'', opt_str_field d ''callback_datetime'', str_default d ''notes'') of
        (Some status, Some cb, Some notes) \<Rightarrow> Some (ActDispose (PStr status) cb (PStr notes))
      | _ \<Rightarrow> None))"

definition TransferBody :: "pyval option \<Rightarrow> action option" where
  "TransferBody b = (case dict_body b of None \<Rightarrow> None | Some d \<Rightarrow>
     (case (str_field 1 None d ''ingroup_id'', str_default d ''summary'') of
        (Some ingroup, Some summary) \<Rightarrow> Some (ActTransfer (PStr ingroup) (PStr summary))
      | _ \<Rightarrow> None))"

definition PauseBody :: "pyval option \<Rightarrow> action option" where
  "PauseBody b = (case dict_body b of None \<Rightarrow> None | Some d \<Rightarrow>
     map_option ActPause (str_field 1 (Some 64) d ''pause_code''))"

definition ManualDialBody :: "pyval option \<Rightarrow> string option" where
  "ManualDialBody b = (case dict_body b of None \<Rightarrow> None | Some d \<Rightarrow> str_field 4 (Some 32) d ''phone_number'')"

section \<open>Calling a worker\<close>

definition call_worker :: "(sess_worker \<Rightarrow> 'a act \<times> sess_worker) \<Rightarrow> nat \<Rightarrow> sess_sup \<Rightarrow> 'a act \<times> sess_sup" where
  "call_worker f a s = (let (r, w) = f (load_worker s a) in (r, store_worker a w s))"

text \<open>The canonical routes turn an expired session into 503, the compatibility routes do not.\<close>

fun canon_reply :: "('a \<Rightarrow> pyval) \<Rightarrow> 'a act \<Rightarrow> api_resp" where
  "canon_reply f (ActOk x) = Resp 200 (f x)"
| "canon_reply f ActExpired = http_error 503 []"
| "canon_reply f (ActRaises e) = server_error"

fun compat_reply :: "('a \<Rightarrow> pyval) \<Rightarrow> 'a act \<Rightarrow> api_resp" where
  "compat_reply f (ActOk x) = Resp 200 (f x)"
| "compat_reply f ActExpired = server_error"
| "compat_reply f (ActRaises e) = server_error"

definition ok_body :: "unit \<Rightarrow> pyval" where
  "ok_body u = PDict [(''ok'', PBool True)]"

fun unit_action :: "sw_env \<Rightarrow> action \<Rightarrow> sess_worker \<Rightarrow> unit act \<times> sess_worker" where
  "unit_action env (ActDispose status cb notes) w = sw_dispose env status cb notes w"
| "unit_action env (ActTransfer ingroup summary) w = sw_transfer env ingroup summary w"
| "unit_action env (ActPause code) w = sw_pause env code w"
| "unit_action env ActResume w = sw_resume env w"
| "unit_action env ActHangup w = sw_hangup env w"
| "unit_action env (ActManualDial phone) w = sw_manual_dial env phone w"
| "unit_action env act w = (ActOk (), run_action env act w)"

definition worker_or_404 :: "string \<Rightarrow> (nat \<Rightarrow> sess_sup \<Rightarrow> api_resp \<times> sess_sup) \<Rightarrow> sess_sup \<Rightarrow> api_resp \<times> sess_sup" where
  "worker_or_404 did k s =
     (case map_of (ss_workers s) did of
        None \<Rightarrow> (http_error 404 ''deployment not managed'', s)
      | Some a \<Rightarrow> k a s)"

definition canon_action :: "api_env \<Rightarrow> (unit \<Rightarrow> pyval) \<Rightarrow> action \<Rightarrow> nat \<Rightarrow> sess_sup \<Rightarrow> api_resp \<times> sess_sup" where
  "canon_action env f act a s = (let (r, s1) = call_worker (unit_action (ae_sw env) act) a s in (canon_reply f r, s1))"

definition compat_action :: "api_env \<Rightarrow> action \<Rightarrow> nat \<Rightarrow> sess_sup \<Rightarrow> api_resp \<times> sess_sup" where
  "compat_action env act a s = (let (r, s1) = call_worker (unit_action (ae_sw env) act) a s in (compat_reply ok_body r, s1))"

definition with_body :: "action option \<Rightarrow> api_env \<Rightarrow> string \<Rightarrow> sess_sup \<Rightarrow> api_resp \<times> sess_sup" where
  "with_body act env did s =
     (case act of None \<Rightarrow> (unprocessable, s) | Some act \<Rightarrow> worker_or_404 did (canon_action env ok_body act) s)"

section \<open>The canonical routes\<close>

definition opt_pv :: "string option \<Rightarrow> pyval" where
  "opt_pv v = (case v of None \<Rightarrow> PNone | Some x \<Rightarrow> PStr x)"

definition health :: "api_env \<Rightarrow> sess_sup \<Rightarrow> api_resp" where
  "health env s = Resp 200 (PDict [(''status'', PStr ''ok''),
     (''sessions'', PInt (int (length (ss_workers s)))), (''adapter'', PStr (ae_adapter env))])"

definition status_body :: "session_state \<Rightarrow> pyval" where
  "status_body st = PDict [(''deployment_id'', PStr (st_deployment_id st)),
     (''status'', PStr (status_value (st_status st))), (''vici_user'', PStr (st_vici_user st)),
     (''phone_login'', PStr (st_phone_login st)), (''campaign'', PStr (st_campaign st)),
     (''last_heartbeat_at'', (case st_last_heartbeat_at st of None \<Rightarrow> PNone | Some t \<Rightarrow> PFloat t)),
     (''heartbeat_failures'', PInt (st_heartbeat_failures st)),
     (''login_attempts'', PInt (st_login_attempts st)), (''last_error'', PStr (st_last_error st))]"

definition get_status :: "string \<Rightarrow> sess_sup \<Rightarrow> api_resp \<times> sess_sup" where
  "get_status did s = worker_or_404 did (\<lambda>a s. (Resp 200 (status_body (w_state (ss_objs s ! a))), s)) s"

definition info_body :: "call_info \<Rightarrow> pyval" where
  "info_body i = PDict [(''lead_id'', opt_pv (ci_lead_id i)), (''uniqueid'', opt_pv (ci_uniqueid i)),
     (''phone_number'', opt_pv (ci_phone_number i)), (''campaign_id'', opt_pv (ci_campaign_id i)),
     (''list_id'', opt_pv (ci_list_id i))]"

definition call_info_route :: "api_env \<Rightarrow> string \<Rightarrow> sess_sup \<Rightarrow> api_resp \<times> sess_sup" where
  "call_info_route env did s = worker_or_404 did
     (\<lambda>a s. let (r, s1) = call_worker (sw_get_call_info (ae_sw env)) a s in (canon_reply info_body r, s1)) s"

definition lead_body :: "lead_data \<Rightarrow> pyval" where
  "lead_body l = PDict [(''lead_id'', PStr (le_lead_id l)), (''first_name'', PStr (le_first_name l)),
     (''last_name'', PStr (le_last_name l)), (''phone_number'', PStr (le_phone_number l)),
     (''email'', PStr (le_email l)), (''address'', PStr (le_address l)), (''city'', PStr (le_city l)),
     (''state'', PStr (le_state l)), (''postal_code'', PStr (le_postal_code l))]"

definition lead_route :: "api_env \<Rightarrow> string \<Rightarrow> string \<Rightarrow> sess_sup \<Rightarrow> api_resp \<times> sess_sup" where
  "lead_route env did lead_id s = worker_or_404 did
     (\<lambda>a s. let (r, s1) = call_worker (sw_get_lead (ae_sw env) lead_id) a s in (canon_reply lead_body r, s1)) s"

definition manual_dial_route :: "api_env \<Rightarrow> string \<Rightarrow> pyval option \<Rightarrow> sess_sup \<Rightarrow> api_resp \<times> sess_sup" where
  "manual_dial_route env did body s =
     (case ManualDialBody body of
        None \<Rightarrow> (unprocessable, s)
      | Some phone \<Rightarrow> worker_or_404 did (canon_action env
          (\<lambda>_. PDict [(''ok'', PBool True), (''phone_number'', PStr phone)]) (ActManualDial phone)) s)"

definition start_route :: "string \<Rightarrow> sess_sup \<Rightarrow> api_resp" where
  "start_route did s = Resp 200 (PDict [(''ok'', PBool True),
     (if map_of (ss_workers s) did = None then (''queued'', PBool True) else (''already_running'', PBool True))])"

definition stop_route :: "api_env \<Rightarrow> string \<Rightarrow> sess_sup \<Rightarrow> api_resp \<times> sess_sup" where
  "stop_route env did s = worker_or_404 did (canon_action env ok_body ActStop) s"

section \<open>The compatibility routes\<close>

definition worker_for_call :: "api_env \<Rightarrow> pyval \<Rightarrow> (nat \<Rightarrow> sess_sup \<Rightarrow> api_resp \<times> sess_sup) \<Rightarrow> sess_sup \<Rightarrow> api_resp \<times> sess_sup" where
  "worker_for_call env call_id k s =
     (if \<not> truthy call_id then (http_error 400 ''call_id required'', s)
      else (case ae_resolve env call_id of
              None \<Rightarrow> (http_error 404 (''call_id '' @ py_str (ae_repr env) call_id @ '' not found in calls table''), s)
            | Some did \<Rightarrow> worker_or_404 did k s))"

definition compat_lead_body :: "lead_data \<Rightarrow> pyval" where
  "compat_lead_body l = PDict [(''lead_id'', PStr (le_lead_id l)),
     (''name'', PStr (str_or (strip (le_first_name l @ '' '' @ le_last_name l)) ''the customer'')),
     (''first_name'', PStr (le_first_name l)), (''last_name'', PStr (le_last_name l)),
     (''phone_number'', PStr (le_phone_number l)), (''email'', PStr (le_email l))]"

definition compat_lead_call :: "api_env \<Rightarrow> string \<Rightarrow> nat \<Rightarrow> sess_sup \<Rightarrow> api_resp \<times> sess_sup" where
  "compat_lead_call env lead_id a s =
     (let (r, s1) = call_worker (sw_get_lead (ae_sw env) lead_id) a s in (compat_reply compat_lead_body r, s1))"

definition compat_lead :: "api_env \<Rightarrow> string \<Rightarrow> string dict \<Rightarrow> sess_sup \<Rightarrow> api_resp \<times> sess_sup" where
  "compat_lead env lead_id query s =
     (case str_or_none (map_of query ''deployment_id'') of
        Some did \<Rightarrow> worker_or_404 did (compat_lead_call env lead_id) s
      | None \<Rightarrow>
          (case ss_workers s of
             [] \<Rightarrow> (http_error 503 ''no managed deployments'', s)
           | (did, a) # _ \<Rightarrow> compat_lead_call env lead_id a s))"

definition compat_dispo :: "api_env \<Rightarrow> pyval dict \<Rightarrow> sess_sup \<Rightarrow> api_resp \<times> sess_sup" where
  "compat_dispo env body s = worker_for_call env (dget body ''call_id'')
     (compat_action env (ActDispose (dget_or body ''dispo_code'' (PStr ''DONE'')) PNone (dget_or body ''notes'' (PStr [])))) s"

definition compat_transfer :: "api_env \<Rightarrow> pyval dict \<Rightarrow> sess_sup \<Rightarrow> api_resp \<times> sess_sup" where
  "compat_transfer env body s = worker_for_call env (dget body ''call_id'')
     (compat_action env (ActTransfer (dget_or body ''ingroup_id'' (PStr [])) (dget_or body ''summary'' (PStr [])))) s"

text \<open>\<open>supervisor.get_worker(deployment_id)\<close> with a JSON value for key: an unhashable one raises.\<close>

definition worker_for_value :: "pyval \<Rightarrow> (nat \<Rightarrow> sess_sup \<Rightarrow> api_resp \<times> sess_sup) \<Rightarrow> sess_sup \<Rightarrow> api_resp \<times> sess_sup" where
  "worker_for_value v k s =
     (case v of
        PStr did \<Rightarrow> worker_or_404 did k s
      | PList _ \<Rightarrow> (server_error, s)
      | PDict _ \<Rightarrow> (server_error, s)
      | _ \<Rightarrow> (http_error 404 ''deployment not managed'', s))"

definition compat_dnc :: "api_env \<Rightarrow> pyval dict \<Rightarrow> sess_sup \<Rightarrow> api_resp \<times> sess_sup" where
  "compat_dnc env body s =
     (if \<not> truthy (dget body ''deployment_id'') then (http_error 400 ''deployment_id required'', s)
      else worker_for_value (dget body ''deployment_id'')
        (compat_action env (ActDispose (PStr ''DNC'') PNone (dget_or body ''reason'' (PStr [])))) s)"

definition compat_cb :: "api_env \<Rightarrow> pyval dict \<Rightarrow> sess_sup \<Rightarrow> api_resp \<times> sess_sup" where
  "compat_cb env body s =
     (if \<not> truthy (dget body ''deployment_id'') then (http_error 400 ''deployment_id required'', s)
      else worker_for_value (dget body ''deployment_id'')
        (compat_action env (ActDispose (PStr ''CALLBK'') (dget body ''when'') (dget_or body ''notes'' (PStr [])))) s)"

section \<open>Routing\<close>

datatype endpoint =
    Health | Metrics
  | GetStatus string | CallInfo string | LeadOf string string | Dispose string | Transfer string
  | Pause string | ResumeDep string | Hangup string | ManualDial string | StartDep string | StopDep string
  | CompatLead string | CompatDispo | CompatTransfer | CompatDnc | CompatCb

definition CANON_ROUTES :: "(string \<times> string \<times> (string \<Rightarrow> endpoint)) list" where
  "CANON_ROUTES = [(''status'', ''GET'', GetStatus), (''call_info'', ''GET'', CallInfo),
     (''dispose'', ''POST'', Dispose), (''transfer'', ''POST'', Transfer), (''pause'', ''POST'', Pause),
     (''resume'', ''POST'', ResumeDep), (''hangup'', ''POST'', Hangup), (''manual-dial'', ''POST'', ManualDial),
     (''start'', ''POST'', StartDep), (''stop'', ''POST'', StopDep)]"

definition COMPAT_ROUTES :: "(string \<times> string \<times> endpoint) list" where
  "COMPAT_ROUTES = [(''disposition'', ''POST'', CompatDispo), (''transfer'', ''POST'', CompatTransfer),
     (''dnc'', ''POST'', CompatDnc), (''callback'', ''POST'', CompatCb)]"

definition canon_route :: "string list \<Rightarrow> (string \<times> endpoint) option" where
  "canon_route segs =
     (case segs of
        [did, oper] \<Rightarrow> if did = [] then None
          else map_option (\<lambda>(m, e). (m, e did)) (map_of CANON_ROUTES oper)
      | [did, oper, lead_id] \<Rightarrow>
          if did \<noteq> [] \<and> oper = ''lead'' \<and> lead_id \<noteq> [] then Some (''GET'', LeadOf did lead_id) else None
      | _ \<Rightarrow> None)"

definition compat_route :: "string list \<Rightarrow> (string \<times> endpoint) option" where
  "compat_route segs =
     (case segs of
        [oper] \<Rightarrow> map_of COMPAT_ROUTES oper
      | [oper, lead_id] \<Rightarrow> if oper = ''lead'' \<and> lead_id \<noteq> [] then Some (''GET'', CompatLead lead_id) else None
      | _ \<Rightarrow> None)"

definition match_route :: "string \<Rightarrow> (string \<times> endpoint) option" where
  "match_route path =
     (let segs = split_on CHR ''/'' path in
      if segs = [[], ''health''] then Some (''GET'', Health)
      else if segs = [[], ''metrics''] then Some (''GET'', Metrics)
      else if take 4 segs = [[], ''api'', ''v1'', ''deployments''] then canon_route (drop 4 segs)
      else if take 3 segs = [[], ''api'', ''vici''] then compat_route (drop 3 segs)
      else None)"

fun is_public :: "endpoint \<Rightarrow> bool" where
  "is_public Health = True"
| "is_public Metrics = True"
| "is_public _ = False"

definition compat_body :: "(pyval dict \<Rightarrow> sess_sup \<Rightarrow> api_resp \<times> sess_sup) \<Rightarrow> pyval option \<Rightarrow> sess_sup \<Rightarrow> api_resp \<times> sess_sup" where
  "compat_body f body s = (case dict_body body of None \<Rightarrow> (unprocessable, s) | Some d \<Rightarrow> f d s)"

fun handle_endpoint :: "api_env \<Rightarrow> endpoint \<Rightarrow> string dict \<Rightarrow> pyval option \<Rightarrow> sess_sup \<Rightarrow> api_resp \<times> sess_sup" where
  "handle_endpoint env Health query body s = (health env s, s)"
| "handle_endpoint env Metrics query body s = (Resp 200 (ae_metrics env), s)"
| "handle_endpoint env (GetStatus did) query body s = get_status did s"
| "handle_endpoint env (CallInfo did) query body s = call_info_route env did s"
| "handle_endpoint env (LeadOf did lead_id) query body s = lead_route env did lead_id s"
| "handle_endpoint env (Dispose did) query body s = with_body (DisposeBody body) env did s"
| "handle_endpoint env (Transfer did) query body s = with_body (TransferBody body) env did s"
| "handle_endpoint env (Pause did) query body s = with_body (PauseBody body) env did s"
| "handle_endpoint env (ResumeDep did) query body s = worker_or_404 did (canon_action env ok_body ActResume) s"
| "handle_endpoint env (Hangup did) query body s = worker_or_404 did (canon_action env ok_body ActHangup) s"
| "handle_endpoint env (ManualDial did) query body s = manual_dial_route env did body s"
| "handle_endpoint env (StartDep did) query body s = (start_route did s, s)"
| "handle_endpoint env (StopDep did) query body s = stop_route env did s"
| "handle_endpoint env (CompatLead lead_id) query body s = compat_lead env lead_id query s"
| "handle_endpoint env CompatDispo query body s = compat_body (compat_dispo env) body s"
| "handle_endpoint env CompatTransfer query body s = compat_body (compat_transfer env) body s"
| "handle_endpoint env CompatDnc query body s = compat_body (compat_dnc env) body s"
| "handle_endpoint env CompatCb query body s = compat_body (compat_cb env) body s"

definition token_ok :: "api_env \<Rightarrow> api_req \<Rightarrow> bool" where
  "token_ok env rq = ((case rq_token rq of None \<Rightarrow> [] | Some t \<Rightarrow> t) = ae_auth_token env)"

definition api_handle :: "api_env \<Rightarrow> api_req \<Rightarrow> sess_sup \<Rightarrow> api_resp \<times> sess_sup" where
  "api_handle env rq s =
     (case match_route (rq_path rq) of
        None \<Rightarrow> (http_error 404 ''Not Found'', s)
      | Some (m, e) \<Rightarrow>
          if rq_method rq \<noteq> m then (http_error 405 ''Method Not Allowed'', s)
          else if \<not> is_public e \<and> \<not> token_ok env rq then (http_error 401 ''bad token'', s)
          else handle_endpoint env e (rq_query rq) (rq_body rq) s)"

section \<open>Lemmas\<close>

text \<open>Every handler leaves the supervisor as it is or makes one action of a managed worker.\<close>

definition one_action :: "sess_sup \<Rightarrow> sess_sup \<Rightarrow> bool" where
  "one_action s s' \<longleftrightarrow> s' = s \<or>
     (\<exists>did a env act. map_of (ss_workers s) did = Some a \<and> s' = on_worker (run_action env act) a s)"

lemma one_action_refl [simp, intro]: "one_action s s"
  by (simp add: one_action_def)

lemma one_action_step: "one_action s s' \<Longrightarrow> s' = s \<or> sup_step s s'"
  unfolding one_action_def by (auto intro: action_step)

lemma call_worker_state: "snd (call_worker f a s) = on_worker (snd \<circ> f) a s"
  by (simp add: call_worker_def on_worker_def split_beta)

lemma unit_action_state: "snd \<circ> unit_action env act = run_action env act"
  by (rule ext) (cases act; simp)

lemma one_action_worker:
  assumes "map_of (ss_workers s) did = Some a"
  shows "one_action s (on_worker (run_action env act) a s)"
  using assms unfolding one_action_def by blast

lemma one_action_404:
  assumes "\<And>a. map_of (ss_workers s) did = Some a \<Longrightarrow> one_action s (snd (k a s))"
  shows "one_action s (snd (worker_or_404 did k s))"
  using assms by (simp add: worker_or_404_def split: option.splits)

lemma canon_action_state: "snd (canon_action env f act a s) = on_worker (run_action (ae_sw env) act) a s"
  by (simp add: canon_action_def call_worker_state unit_action_state [symmetric] split_beta)

lemma compat_action_state: "snd (compat_action env act a s) = on_worker (run_action (ae_sw env) act) a s"
  by (simp add: compat_action_def call_worker_state unit_action_state [symmetric] split_beta)

lemma read_states:
  "snd (call_worker (sw_get_call_info env) a s) = on_worker (run_action env ActCallInfo) a s"
  "snd (call_worker (sw_get_lead env lead_id) a s) = on_worker (run_action env (ActLead lead_id)) a s"
proof -
  have "snd \<circ> sw_get_call_info env = run_action env ActCallInfo" "snd \<circ> sw_get_lead env lead_id = run_action env (ActLead lead_id)"
    by (rule ext, simp)+
  then show "snd (call_worker (sw_get_call_info env) a s) = on_worker (run_action env ActCallInfo) a s"
    "snd (call_worker (sw_get_lead env lead_id) a s) = on_worker (run_action env (ActLead lead_id)) a s"
    by (simp_all add: call_worker_state)
qed

lemmas action_states = canon_action_state compat_action_state read_states

lemma with_body_action: "one_action s (snd (with_body act env did s))"
  by (auto simp: with_body_def action_states intro!: one_action_404 one_action_worker split: option.splits)

lemma compat_lead_action: "one_action s (snd (compat_lead env lead_id query s))"
proof (cases "str_or_none (map_of query ''deployment_id'')")
  case (Some did)
  then show ?thesis
    by (auto simp: compat_lead_def compat_lead_call_def split_beta action_states
        intro!: one_action_404 one_action_worker)
next
  case None
  then show ?thesis
    by (cases "ss_workers s") (auto simp: compat_lead_def compat_lead_call_def split_beta action_states
        intro!: one_action_worker [where did = "fst (hd (ss_workers s))"])
qed

lemma worker_for_call_action:
  assumes "\<And>did a. map_of (ss_workers s) did = Some a \<Longrightarrow> one_action s (snd (k a s))"
  shows "one_action s (snd (worker_for_call env v k s))"
  using assms by (auto simp: worker_for_call_def intro!: one_action_404 split: option.splits)

lemma worker_for_value_action:
  assumes "\<And>did a. map_of (ss_workers s) did = Some a \<Longrightarrow> one_action s (snd (k a s))"
  shows "one_action s (snd (worker_for_value v k s))"
  using assms by (auto simp: worker_for_value_def intro!: one_action_404 split: pyval.splits)

lemma compat_post_action:
  "one_action s (snd (compat_body (compat_dispo env) body s))"
  "one_action s (snd (compat_body (compat_transfer env) body s))"
  "one_action s (snd (compat_body (compat_dnc env) body s))"
  "one_action s (snd (compat_body (compat_cb env) body s))"
  by (auto simp: compat_body_def compat_dispo_def compat_transfer_def compat_dnc_def compat_cb_def action_states
      intro!: worker_for_call_action worker_for_value_action one_action_worker split: option.splits)

lemma handle_endpoint_action: "one_action s (snd (handle_endpoint env e query body s))"
proof (cases e)
  case (CompatLead lead_id)
  then show ?thesis by (simp add: compat_lead_action)
qed (auto simp: with_body_action compat_post_action get_status_def call_info_route_def lead_route_def
    manual_dial_route_def stop_route_def action_states split_beta
    intro!: one_action_404 one_action_worker split: option.splits)

text \<open>Only the two probe paths are public.\<close>

lemma canon_not_public: "canon_route segs = Some (m, e) \<Longrightarrow> \<not> is_public e"
  by (auto simp: canon_route_def CANON_ROUTES_def split: list.splits if_splits)

lemma compat_not_public: "compat_route segs = Some (m, e) \<Longrightarrow> \<not> is_public e"
  by (auto simp: compat_route_def COMPAT_ROUTES_def split: list.splits if_splits)

lemma split_health: "split_on CHR ''/'' path = [[], ''health''] \<Longrightarrow> path = ''/health''"
  using join_split_on [of "CHR ''/''" path] by simp

lemma split_metrics: "split_on CHR ''/'' path = [[], ''metrics''] \<Longrightarrow> path = ''/metrics''"
  using join_split_on [of "CHR ''/''" path] by simp

lemma public_paths:
  assumes "match_route path = Some (m, e)" "is_public e"
  shows "path = ''/health'' \<or> path = ''/metrics''"
proof (cases "split_on CHR ''/'' path = [[], ''health''] \<or> split_on CHR ''/'' path = [[], ''metrics'']")
  case True
  then show ?thesis using split_health split_metrics by blast
next
  case False
  then show ?thesis using assms canon_not_public compat_not_public
    by (auto simp: match_route_def Let_def split: if_splits)
qed

section \<open>Properties\<close>


lemma api_unauthorised:
  assumes "\<not> token_ok env rq" and "rq_path rq \<noteq> ''/health''" and "rq_path rq \<noteq> ''/metrics''"
  shows "snd (api_handle env rq s) = s" "resp_status (fst (api_handle env rq s)) \<in> {401, 404, 405}"
  using assms public_paths [of "rq_path rq"]
  by (fastforce simp: api_handle_def http_error_def split: option.splits)+

text \<open>
  without the shared token nothing happens: the answer is 401, or 404 and 405 when there is no
  such route, and no worker is called; only the two probe routes answer.
\<close>

lemma api_requires_token:
  assumes "\<not> token_ok env rq" and "rq_path rq \<noteq> ''/health''" and "rq_path rq \<noteq> ''/metrics''"
  shows "snd (api_handle env rq s) = s \<and> resp_status (fst (api_handle env rq s)) \<in> {401, 404, 405}"
  using api_unauthorised [OF assms] by blast

definition demo_api :: "transport \<Rightarrow> api_env" where
  "demo_api tr = \<lparr>ae_auth_token = ''t0ken'', ae_adapter = ''v2_14'', ae_metrics = PStr [], ae_repr = (\<lambda>_. []),
     ae_resolve = (\<lambda>_. None), ae_sw = demo_sw_env tr (\<lambda>_. Inl ''x'') (\<lambda>_. False)\<rparr>"

lemma api_requires_token_witness:
  "snd (api_handle (demo_api Failed) \<lparr>rq_method = ''POST'', rq_path = ''/api/v1/deployments/d1/hangup'',
     rq_token = None, rq_query = [], rq_body = None\<rparr> demo_sup) = demo_sup"
  using api_requires_token [of "demo_api Failed" "\<lparr>rq_method = ''POST'',
      rq_path = ''/api/v1/deployments/d1/hangup'', rq_token = None, rq_query = [], rq_body = None\<rparr>" demo_sup]
  by (simp add: token_ok_def demo_api_def)

text \<open>The path of a lead.\<close>

lemma match_compat_lead:
  assumes "CHR ''/'' \<notin> set lead_id" "lead_id \<noteq> []"
  shows "match_route (''/api/vici/lead/'' @ lead_id) = Some (''GET'', CompatLead lead_id)"
  using assms by (simp add: match_route_def split_on_no_sep compat_route_def)

lemma call_worker_at:
  assumes "a < length (ss_objs s)"
  shows "fst (call_worker f a s) = fst (f (load_worker s a))"
    "ss_objs (snd (call_worker f a s)) ! a = snd (f (load_worker s a))"
  using assms by (simp_all add: call_worker_def store_worker_def split_beta)

lemma load_worker_simps [simp]:
  "w_http (load_worker s a) = w_http (ss_objs s ! a)"
  "w_captured (load_worker s a) = w_captured (ss_objs s ! a)"
  "w_requests (load_worker s a) = w_requests (ss_objs s ! a)"
  "w_state (load_worker s a) = w_state (ss_objs s ! a)"
  "w_deployment (load_worker s a) = w_deployment (ss_objs s ! a)"
  by (simp_all add: load_worker_def Let_def)

lemma lead_requests:
  "w_http w \<Longrightarrow> w_requests (snd (sw_get_lead env lead_id w)) = w_requests w @ [ad_lead_request (sx_adapter env) lead_id]"
  "w_http w \<Longrightarrow> \<exists>l. fst (sw_get_lead env lead_id w) = ActOk l"
  by (simp_all add: sw_get_lead_def vici_send_def split_beta)

text \<open>
  the lead of a call is read with the session of the deployment that happens to come first: the
  compatibility route takes no account of who asks when the request names no deployment, and
  the request goes to that deployment's ViciDial server, whatever its tenant.
\<close>

lemma lead_from_first_deployment:
  assumes "sup_reach (empty_sup redis) s" and "ss_workers s = (did, a) # rest"
    and "w_http (ss_objs s ! a)" and "token_ok env rq" and "rq_method rq = ''GET''"
    and "rq_path rq = ''/api/vici/lead/'' @ lead_id" and "CHR ''/'' \<notin> set lead_id" and "lead_id \<noteq> []"
    and "map_of (rq_query rq) ''deployment_id'' = None"
  shows "resp_status (fst (api_handle env rq s)) = 200 \<and>
    w_requests (ss_objs (snd (api_handle env rq s)) ! a) =
      w_requests (ss_objs s ! a) @ [ad_lead_request (sx_adapter (ae_sw env)) lead_id] \<and>
    (\<forall>b. b \<noteq> a \<longrightarrow> ss_objs (snd (api_handle env rq s)) ! b = ss_objs s ! b)"
proof -
  have a: "a < length (ss_objs s)" using wf_addr [OF reachable_wf [OF assms(1)], of did a] assms(2) by simp
  have h: "api_handle env rq s = compat_lead_call env lead_id a s"
    using assms(2,4,5,9) match_compat_lead [OF assms(7,8)] assms(6)
    by (simp add: api_handle_def compat_lead_def str_or_none_def)
  have w: "w_http (load_worker s a)" using assms(3) by simp
  obtain l where l: "fst (sw_get_lead (ae_sw env) lead_id (load_worker s a)) = ActOk l"
    using lead_requests(2) [OF w] by blast
  have "fst (compat_lead_call env lead_id a s) = Resp 200 (compat_lead_body l)"
    using l call_worker_at(1) [OF a, of "sw_get_lead (ae_sw env) lead_id"]
    by (simp add: compat_lead_call_def split_beta)
  moreover have "snd (compat_lead_call env lead_id a s) = snd (call_worker (sw_get_lead (ae_sw env) lead_id) a s)"
    by (simp add: compat_lead_call_def split_beta)
  ultimately show ?thesis unfolding h
    using call_worker_at(2) [OF a, of "sw_get_lead (ae_sw env) lead_id"] lead_requests(1) [OF w]
    by (simp add: read_states)
qed

text \<open>
  An expired session is a 503 on the canonical routes and a 500 on the compatibility routes the
  workers use; in both cases the session is marked for a new login.
\<close>

lemma expired_session_replies:
  assumes "sup_reach (empty_sup redis) s" and "map_of (ss_workers s) did = Some a" and "did \<noteq> []"
    and "w_captured (ss_objs s ! a) = Some c" and "w_http (ss_objs s ! a)"
    and "\<forall>n spec. ad_expired (sx_adapter (ae_sw env)) (snd (http_send_result (sx_send (ae_sw env) n spec)))
           (fst (http_send_result (sx_send (ae_sw env) n spec)))"
    and "DisposeBody (Some body) = Some act"
  shows "resp_status (fst (handle_endpoint env (Dispose did) q (Some body) s)) = 503 \<and>
    resp_status (fst (handle_endpoint env CompatDnc q (Some (PDict [(''deployment_id'', PStr did)])) s)) = 500 \<and>
    st_heartbeat_failures (w_state (ss_objs (snd (handle_endpoint env (Dispose did) q (Some body) s)) ! a)) =
      st_heartbeat_failures (w_state (ss_objs s ! a)) + 99"
proof -
  have a: "a < length (ss_objs s)" using wf_addr [OF reachable_wf [OF assms(1)] assms(2)] .
  obtain st cb nt where act: "act = ActDispose st cb nt"
    using assms(7) by (auto simp: DisposeBody_def split: option.splits)
  have ex: "fst (sw_dispose (ae_sw env) st cb nt (load_worker s a)) = ActExpired"
    "st_heartbeat_failures (w_state (snd (sw_dispose (ae_sw env) st cb nt (load_worker s a)))) =
       st_heartbeat_failures (w_state (ss_objs s ! a)) + 99" for st cb nt
    using assms(4,5,6) by (simp_all add: sw_dispose_def act_send_def act_done_def vici_send_def split_beta)
  have canon: "handle_endpoint env (Dispose did) q (Some body) s = canon_action env ok_body act a s"
    using assms(2,7) by (simp add: with_body_def worker_or_404_def)
  have compat: "handle_endpoint env CompatDnc q (Some (PDict [(''deployment_id'', PStr did)])) s
      = compat_action env (ActDispose (PStr ''DNC'') PNone (PStr [])) a s"
    using assms(2,3) by (simp add: compat_body_def compat_dnc_def dget_def dget_or_def worker_for_value_def worker_or_404_def)
  have u: "unit_action e (ActDispose x y z) = sw_dispose e x y z" for e x y z by (rule ext) simp
  show ?thesis unfolding canon compat act
    using ex call_worker_at [OF a, of "\<lambda>w. sw_dispose (ae_sw env) st cb nt w"]
      call_worker_at(1) [OF a, of "\<lambda>w. sw_dispose (ae_sw env) (PStr ''DNC'') PNone (PStr []) w"]
    by (simp add: canon_action_def compat_action_def split_beta http_error_def server_error_def u)
qed

text \<open>A supervisor with one logged-in session, its requests answered or timing out.\<close>

definition demo_live :: sess_sup where
  "demo_live = run_task ((demo_sw_env Failed (\<lambda>_. Inr demo_captured) (\<lambda>_. False))\<lparr>sx_redis_ok := False\<rparr>) 0 demo_sup"

lemma demo_live_reach: "sup_reach (empty_sup (\<lambda>_. None)) demo_live"
  unfolding demo_live_def by (rule reach_step [OF demo_sup_reach task_step]) (simp add: demo_sup_workers)

lemma live_start:
  assumes "\<not> w_stopped w"
  shows "w_captured (sw_start ((demo_sw_env Failed (\<lambda>_. Inr demo_captured) (\<lambda>_. False))\<lparr>sx_redis_ok := False\<rparr>) w) = Some demo_captured"
    "w_http (sw_start ((demo_sw_env Failed (\<lambda>_. Inr demo_captured) (\<lambda>_. False))\<lparr>sx_redis_ok := False\<rparr>) w)"
  using assms by (simp_all add: sw_start_def resume_from_redis_def demo_sw_env_def login_with_backoff_def Let_def)

lemma demo_live_obj:
  "ss_workers demo_live = [(''d1'', 0)]" "w_captured (ss_objs demo_live ! 0) = Some demo_captured"
  "w_http (ss_objs demo_live ! 0)"
proof -
  let ?env = "(demo_sw_env Failed (\<lambda>_. Inr demo_captured) (\<lambda>_. False))\<lparr>sx_redis_ok := False\<rparr>"
  have len: "length (ss_objs demo_sup) = 1" by (simp add: demo_sup_eval)
  have st: "\<not> w_stopped (load_worker demo_sup 0)"
    by (simp add: demo_sup_eval load_worker_def new_sess_worker_def)
  have e: "demo_live = on_worker (sw_start ?env) 0 (demo_sup\<lparr>ss_tasks := []\<rparr>)"
    by (simp add: demo_live_def run_task_def demo_sup_workers)
  have o: "ss_objs demo_live ! 0 = sw_start ?env (load_worker demo_sup 0)"
    using len by (simp add: e on_worker_def store_worker_def load_worker_def)
  show "ss_workers demo_live = [(''d1'', 0)]" by (simp add: e demo_sup_workers)
  show "w_captured (ss_objs demo_live ! 0) = Some demo_captured" "w_http (ss_objs demo_live ! 0)"
    using live_start [OF st] by (simp_all add: o)
qed

lemma lead_from_first_deployment_witness:
  "resp_status (fst (api_handle (demo_api Failed) \<lparr>rq_method = ''GET'', rq_path = ''/api/vici/lead/42'',
     rq_token = Some ''t0ken'', rq_query = [], rq_body = None\<rparr> demo_live)) = 200"
  using lead_from_first_deployment [OF demo_live_reach demo_live_obj(1,3), of "demo_api Failed"
      "\<lparr>rq_method = ''GET'', rq_path = ''/api/vici/lead/42'', rq_token = Some ''t0ken'', rq_query = [], rq_body = None\<rparr>"
      "''42''"]
  by (simp add: token_ok_def demo_api_def)

lemma expired_session_replies_witness:
  "resp_status (fst (handle_endpoint (demo_api TimedOut) (Dispose ''d1'') [] (Some (PDict [(''status'', PStr ''SALE'')])) demo_live)) = 503"
  using expired_session_replies [OF demo_live_reach _ _ demo_live_obj(2,3), of "''d1''" "demo_api TimedOut"
      "PDict [(''status'', PStr ''SALE'')]" "ActDispose (PStr ''SALE'') PNone (PStr [])" "[]"]
  by (simp add: demo_live_obj(1) demo_api_def demo_sw_env_def v214.empty_expired DisposeBody_def str_field_def
      opt_str_field_def str_default_def)

end
