(* ===== verification/Panel_Db.thy ===== *)
theory Panel_Db
  imports Prelude
begin

text \<open>
  The panel's database as its ORM models describe it (\<open>panel/backend/src/aipanel/db/models/\<close>), and
  the session a request works in (\<open>db/session.py\<close>). A table is the list of its rows in the order
  they were written; \<open>handler\<close> is the code of a request, which reads and changes the uncommitted
  state and may end in an exception, and \<open>with_session\<close> is \<open>get_session\<close>, which commits what a
  handler that returned has done and rolls back what one that raised has done. Identifiers are the
  canonical strings of UUIDs, instants are rational seconds, JSON columns are Python values. The
  identifier of a new row, the instant and whether the audit table can be written come from the
  context of the request.
\<close>

type_synonym uuid = string
type_synonym instant = rat

section \<open>Rows\<close>

record tenant_row =
  tn_id :: uuid
  tn_name :: string
  tn_settings :: "pyval dict"
  tn_created_at :: instant

record user_row =
  us_id :: uuid
  us_tenant_id :: uuid
  us_email :: string
  us_password_hash :: string
  us_role :: string
  us_created_at :: instant

record voice_row =
  vo_id :: uuid
  vo_tenant_id :: uuid
  vo_name :: string
  vo_sample_path :: "string option"
  vo_embedding_path :: "string option"
  vo_status :: string
  vo_created_at :: instant

record kb_row =
  kb_id :: uuid
  kb_tenant_id :: uuid
  kb_name :: string
  kb_description :: "string option"
  kb_embedding_model :: string
  kb_created_at :: instant

record document_row =
  do_id :: uuid
  do_kb_id :: uuid
  do_filename :: string
  do_content_hash :: string
  do_chunk_count :: nat
  do_status :: string
  do_created_at :: instant

record panel_agent =
  pa_id :: uuid
  pa_tenant_id :: uuid
  pa_name :: string
  pa_persona :: "pyval dict"
  pa_voice_id :: "uuid option"
  pa_language :: string
  pa_script :: "pyval dict"
  pa_scenario_tree :: "pyval dict"
  pa_training_recordings :: "pyval dict list"
  pa_kb_collection_id :: "uuid option"
  pa_campaign_id :: "uuid option"
  pa_status :: string
  pa_created_at :: instant
  pa_updated_at :: instant

record server_row =
  vs_id :: uuid
  vs_tenant_id :: uuid
  vs_name :: string
  vs_asterisk_host :: string
  vs_asterisk_port :: int
  vs_web_url :: string
  vs_ami_user :: string
  vs_ami_pass_encrypted :: string
  vs_web_user_admin :: string
  vs_web_pass_encrypted :: string
  vs_created_at :: instant

record panel_deployment =
  pd_id :: uuid
  pd_tenant_id :: uuid
  pd_agent_id :: uuid
  pd_vicidial_server_id :: uuid
  pd_vici_user :: string
  pd_vici_pass_encrypted :: string
  pd_phone_login :: string
  pd_phone_pass_encrypted :: string
  pd_campaign_id :: string
  pd_allowed_transfer_ingroups :: "string list"
  pd_dispo_mapping :: "pyval dict"
  pd_status :: string
  pd_last_heartbeat_at :: "instant option"
  pd_aipanel_campaign_id :: "uuid option"
  pd_created_at :: instant
  pd_updated_at :: instant

record call_record =
  ca_id :: uuid
  ca_deployment_id :: uuid
  ca_vici_uniqueid :: string
  ca_vici_lead_id :: "string option"
  ca_phone_number :: "string option"
  ca_started_at :: instant
  ca_ended_at :: "instant option"
  ca_duration_sec :: "int option"
  ca_outcome :: "string option"
  ca_dispo_code :: "string option"
  ca_transfer_target :: "string option"
  ca_recording_path :: "string option"
  ca_campaign_id :: "uuid option"

record event_record =
  ev_id :: uuid
  ev_call_id :: uuid
  ev_ts :: instant
  ev_event_type :: string
  ev_payload :: "pyval dict"

record panel_campaign =
  cm_id :: uuid
  cm_tenant_id :: uuid
  cm_name :: string
  cm_description :: string
  cm_methodology :: string
  cm_objective :: string
  cm_success_dispos :: "string list"
  cm_persona_template :: "pyval dict"
  cm_script_template :: "pyval dict"
  cm_kb_collection_id :: "uuid option"
  cm_few_shot_pool :: "pyval list"
  cm_few_shot_updated_at :: "instant option"
  cm_status :: string
  cm_created_at :: instant
  cm_updated_at :: instant

record audit_row =
  au_id :: nat
  au_ts :: instant
  au_user_id :: "uuid option"
  au_tenant_id :: "uuid option"
  au_action :: string
  au_target_type :: "string option"
  au_target_id :: "uuid option"
  au_payload :: "pyval dict"

record node_row =
  nd_id :: uuid
  nd_hostname :: string
  nd_role :: string
  nd_services :: "string list"
  nd_status :: string
  nd_last_heartbeat_at :: "instant option"
  nd_joined_at :: instant
  nd_drained_at :: "instant option"

record join_token_row =
  jt_id :: uuid
  jt_token_hash :: string
  jt_role :: string
  jt_label :: string
  jt_created_by :: "uuid option"
  jt_created_at :: instant
  jt_expires_at :: instant
  jt_consumed_at :: "instant option"
  jt_consumed_by_node :: "uuid option"

record panel_db =
  tenants :: "tenant_row list"
  users :: "user_row list"
  voices :: "voice_row list"
  kbs :: "kb_row list"
  documents :: "document_row list"
  agents :: "panel_agent list"
  servers :: "server_row list"
  deployments :: "panel_deployment list"
  calls :: "call_record list"
  events :: "event_record list"
  campaigns :: "panel_campaign list"
  audits :: "audit_row list"
  nodes :: "node_row list"
  join_tokens :: "join_token_row list"

definition empty_panel_db :: panel_db where
  "empty_panel_db = \<lparr>tenants = [], users = [], voices = [], kbs = [], documents = [], agents = [],
     servers = [], deployments = [], calls = [], events = [], campaigns = [], audits = [], nodes = [],
     join_tokens = []\<rparr>"

section \<open>Queries\<close>

text \<open>\<open>session.get(Model, key)\<close>, an \<open>UPDATE\<close> and a \<open>DELETE\<close> by key.\<close>

definition get_row :: "('r \<Rightarrow> 'k) \<Rightarrow> 'k \<Rightarrow> 'r list \<Rightarrow> 'r option" where
  "get_row key k rows = find (\<lambda>r. key r = k) rows"

definition put_row :: "('r \<Rightarrow> 'k) \<Rightarrow> 'k \<Rightarrow> ('r \<Rightarrow> 'r) \<Rightarrow> 'r list \<Rightarrow> 'r list" where
  "put_row key k f rows = map (\<lambda>r. if key r = k then f r else r) rows"

definition del_row :: "('r \<Rightarrow> 'k) \<Rightarrow> 'k \<Rightarrow> 'r list \<Rightarrow> 'r list" where
  "del_row key k rows = filter (\<lambda>r. key r \<noteq> k) rows"

text \<open>\<open>ORDER BY x DESC\<close> and \<open>ASC\<close>; rows with equal keys keep the order of the table, where
  PostgreSQL promises none. \<open>LIMIT\<close> and \<open>OFFSET\<close> cut the result.\<close>

definition order_asc :: "('r \<Rightarrow> rat) \<Rightarrow> 'r list \<Rightarrow> 'r list" where
  "order_asc f rows = sort_key f rows"

definition order_desc :: "('r \<Rightarrow> rat) \<Rightarrow> 'r list \<Rightarrow> 'r list" where
  "order_desc f rows = sort_key (\<lambda>r. - f r) rows"

definition page :: "nat \<Rightarrow> nat \<Rightarrow> 'r list \<Rightarrow> 'r list" where
  "page limit_n offset_n rows = take limit_n (drop offset_n rows)"

lemma get_row_SomeD: "get_row key k rows = Some r \<Longrightarrow> r \<in> set rows \<and> key r = k"
  by (auto simp: get_row_def find_Some_iff in_set_conv_nth)

lemma get_row_None: "get_row key k rows = None \<longleftrightarrow> k \<notin> key ` set rows"
  by (auto simp: get_row_def find_None_iff)

lemma set_put_row: "r \<in> set (put_row key k f rows) \<longleftrightarrow>
    (\<exists>r0 \<in> set rows. r = (if key r0 = k then f r0 else r0))"
  unfolding put_row_def set_map image_iff by (rule refl)

lemma set_del_row [simp]: "set (del_row key k rows) = {r \<in> set rows. key r \<noteq> k}"
  by (auto simp: del_row_def)

lemma set_order_asc [simp]: "set (order_asc f rows) = set rows"
  by (simp add: order_asc_def)

lemma set_order_desc [simp]: "set (order_desc f rows) = set rows"
  by (simp add: order_desc_def)

lemma set_page: "r \<in> set (page limit_n offset_n rows) \<Longrightarrow> r \<in> set rows"
  unfolding page_def by (meson in_set_dropD in_set_takeD)

text \<open>Rows a change leaves alone: those a predicate rejects, when it rejects what is changed and
  what it becomes.\<close>

lemma filter_put_row:
  "(\<And>r. r \<in> set rows \<Longrightarrow> key r = k \<Longrightarrow> \<not> P r \<and> \<not> P (f r)) \<Longrightarrow>
   filter P (put_row key k f rows) = filter P rows"
  by (induction rows) (auto simp: put_row_def)

lemma filter_del_row:
  "(\<And>r. r \<in> set rows \<Longrightarrow> key r = k \<Longrightarrow> \<not> P r) \<Longrightarrow> filter P (del_row key k rows) = filter P rows"
  by (induction rows) (auto simp: del_row_def)

section \<open>Handlers and the session\<close>

text \<open>An exception of a handler: an \<open>HTTPException\<close>, or any other, which the server answers with
  500.\<close>

datatype api_error = HttpError nat string | Crash string

text \<open>The session: its uncommitted state, whether a failed flush has left it unusable until it is
  rolled back, and what the handler has done outside the database, which no rollback undoes.\<close>

datatype effect =
    EnqueueJob string "pyval list"
  | SessionMgr string "pyval dict"
  | StoreObject string bytes

record db_session =
  sn_db :: panel_db
  sn_failed :: bool
  sn_effects :: "effect list"

definition fresh_session :: "panel_db \<Rightarrow> db_session" where
  "fresh_session db = \<lparr>sn_db = db, sn_failed = False, sn_effects = []\<rparr>"

type_synonym 'a handler = "db_session \<Rightarrow> (api_error + 'a) \<times> db_session"

definition ret :: "'a \<Rightarrow> 'a handler" where
  "ret x s = (Inr x, s)"

definition raise :: "nat \<Rightarrow> string \<Rightarrow> 'a handler" where
  "raise code detail s = (Inl (HttpError code detail), s)"

definition fails_with :: "string \<Rightarrow> 'a handler" where
  "fails_with what s = (Inl (Crash what), s)"

definition bnd :: "'a handler \<Rightarrow> ('a \<Rightarrow> 'b handler) \<Rightarrow> 'b handler" where
  "bnd m k s = (case m s of (Inl e, s') \<Rightarrow> (Inl e, s') | (Inr x, s') \<Rightarrow> k x s')"

definition reading :: "(panel_db \<Rightarrow> 'a) \<Rightarrow> 'a handler" where
  "reading f s = (Inr (f (sn_db s)), s)"

definition writing :: "(panel_db \<Rightarrow> panel_db) \<Rightarrow> unit handler" where
  "writing f s = (Inr (), s\<lparr>sn_db := f (sn_db s)\<rparr>)"

definition guard_that :: "bool \<Rightarrow> nat \<Rightarrow> string \<Rightarrow> unit handler" where
  "guard_that c code detail = (if c then ret () else raise code detail)"

text \<open>A flush that the database may refuse (a foreign key, a unique column, an enumeration).\<close>

definition flushing :: "(panel_db \<Rightarrow> bool) \<Rightarrow> string \<Rightarrow> (panel_db \<Rightarrow> panel_db) \<Rightarrow> unit handler" where
  "flushing accepts why f s =
     (if accepts (sn_db s) then writing f s else (Inl (Crash why), s\<lparr>sn_failed := True\<rparr>))"

text \<open>\<open>get_session\<close>: commit after a handler that returned, which fails when the session has failed;
  roll back after one that raised.\<close>

definition with_session :: "'a handler \<Rightarrow> panel_db \<Rightarrow> (api_error + 'a) \<times> panel_db" where
  "with_session h db =
     (case h (fresh_session db) of
        (Inl e, _) \<Rightarrow> (Inl e, db)
      | (Inr x, s) \<Rightarrow> if sn_failed s then (Inl (Crash ''PendingRollbackError''), db) else (Inr x, sn_db s))"

definition effects_of :: "'a handler \<Rightarrow> panel_db \<Rightarrow> effect list" where
  "effects_of h db = sn_effects (snd (h (fresh_session db)))"

definition doing :: "effect \<Rightarrow> unit handler" where
  "doing e s = (Inr (), s\<lparr>sn_effects := sn_effects s @ [e]\<rparr>)"

lemma fresh_session_simps [simp]: "sn_db (fresh_session db) = db" "\<not> sn_failed (fresh_session db)"
  by (simp_all add: fresh_session_def)

lemma bnd_Inr: "m s = (Inr x, s') \<Longrightarrow> bnd m k s = k x s'"
  by (simp add: bnd_def)

lemma bnd_Inl: "m s = (Inl e, s') \<Longrightarrow> bnd m k s = (Inl e, s')"
  by (simp add: bnd_def)

lemma bnd_ret [simp]: "bnd (ret x) k = k x"
  by (simp add: fun_eq_iff bnd_def ret_def)

lemma bnd_raise [simp]: "bnd (raise c d) k = raise c d"
  by (simp add: fun_eq_iff bnd_def raise_def)

lemma bnd_assoc: "bnd (bnd m k) l = bnd m (\<lambda>x. bnd (k x) l)"
  by (auto simp: fun_eq_iff bnd_def split: prod.splits sum.splits)

lemma bnd_InrE:
  assumes "bnd m k s = (Inr y, s')"
  obtains x s1 where "m s = (Inr x, s1)" "k x s1 = (Inr y, s')"
  using assms by (auto simp: bnd_def split: prod.splits sum.splits)

section \<open>Contexts and the audit log\<close>

record req_ctx =
  rq_now :: instant
  rq_new_id :: uuid
  rq_audit_id :: nat
  rq_audit_ok :: bool

text \<open>\<open>services/audit_service.py\<close>: a failed flush is swallowed, and the session it failed in is left
  for the commit. The flush fails when the table cannot be written and when the payload is no JSON,
  which a dictionary that holds a \<open>UUID\<close> object is not: such a payload is None.\<close>

definition log_audit ::
  "req_ctx \<Rightarrow> uuid option \<Rightarrow> uuid option \<Rightarrow> string \<Rightarrow> string option \<Rightarrow> uuid option \<Rightarrow> pyval dict option \<Rightarrow> unit handler" where
  "log_audit cx user_id tenant_id action target_type target_id payload s =
     (case payload of
        Some p \<Rightarrow>
          if rq_audit_ok cx
          then writing (\<lambda>db. db\<lparr>audits := audits db @ [\<lparr>au_id = rq_audit_id cx, au_ts = rq_now cx,
             au_user_id = user_id, au_tenant_id = tenant_id, au_action = action, au_target_type = target_type,
             au_target_id = target_id, au_payload = p\<rparr>]\<rparr>) s
          else (Inr (), s\<lparr>sn_failed := True\<rparr>)
      | None \<Rightarrow> (Inr (), s\<lparr>sn_failed := True\<rparr>))"

definition audit_dump ::
  "req_ctx \<Rightarrow> user_row \<Rightarrow> string \<Rightarrow> string \<Rightarrow> uuid \<Rightarrow> pyval dict option \<Rightarrow> unit handler" where
  "audit_dump cx u action target_type target_id payload =
     log_audit cx (Some (us_id u)) (Some (us_tenant_id u)) action (Some target_type) (Some target_id) payload"

definition audit_as ::
  "req_ctx \<Rightarrow> user_row \<Rightarrow> string \<Rightarrow> string \<Rightarrow> uuid \<Rightarrow> pyval dict \<Rightarrow> unit handler" where
  "audit_as cx u action target_type target_id payload =
     audit_dump cx u action target_type target_id (Some payload)"

lemmas handler_simps = bnd_def ret_def raise_def reading_def writing_def guard_that_def

text \<open>The audit never stops a handler, touches no other table and never repairs a session.\<close>

lemma audit_returns: "\<exists>s'. audit_dump cx u a tt ti p s = (Inr (), s')"
  by (auto simp: audit_dump_def log_audit_def writing_def split: option.splits)

lemma audit_dump_frame:
  "audit_dump cx u a tt ti p s = (x, s') \<Longrightarrow> \<exists>au. sn_db s' = (sn_db s)\<lparr>audits := au\<rparr>"
  by (auto simp: audit_dump_def log_audit_def writing_def split: if_splits option.splits
      intro: exI [of _ "audits (sn_db s)"])

lemma with_session_failed:
  "snd (h (fresh_session db)) = s \<Longrightarrow> sn_failed s \<Longrightarrow> \<exists>e. with_session h db = (Inl e, db)"
  by (auto simp: with_session_def split: prod.splits sum.splits)

lemma with_session_cases:
  obtains (kept) "snd (with_session h db) = db"
    | (committed) x s where "h (fresh_session db) = (Inr x, s)" "with_session h db = (Inr x, sn_db s)"
proof (cases "h (fresh_session db)")
  case (Pair res s)
  then show ?thesis
    using that by (cases res; cases "sn_failed s") (simp_all add: with_session_def)
qed

end
