(* ===== verification/Panel_Auth.thy ===== *)
theory Panel_Auth
  imports Panel_Db Vici_Models
begin

text \<open>
  Who a request of the panel comes from: \<open>auth/jwt.py\<close>, \<open>auth/denylist.py\<close>, \<open>auth/deps.py\<close>,
  \<open>auth/permissions.py\<close> and the routes of \<open>api/v1/auth.py\<close>. The token library and the password
  hash are arguments: \<open>jwt_lib\<close> encodes a payload into a token of some type and decodes it at an
  instant, and \<open>jwt_law\<close> states what PyJWT documents of the pair. The denylist is Redis: keys with
  the instant they expire at, and whether the server answers.
\<close>

section \<open>UUIDs\<close>

text \<open>\<open>UUID(s)\<close> of the standard library drops the \<open>urn:uuid:\<close> prefix, the braces and the hyphens and wants
  32 hexadecimal digits; its \<open>str\<close> is the canonical form. The underscores and signs \<open>int(s, 16)\<close>
  accepts are not.\<close>

definition is_hex :: "char \<Rightarrow> bool" where
  "is_hex c = (c \<in> set ''0123456789abcdef'')"

definition hyphenate :: "string \<Rightarrow> string" where
  "hyphenate h = take 8 h @ ''-'' @ take 4 (drop 8 h) @ ''-'' @ take 4 (drop 12 h) @ ''-'' @
     take 4 (drop 16 h) @ ''-'' @ drop 20 h"

definition drop_prefix :: "string \<Rightarrow> string \<Rightarrow> string" where
  "drop_prefix p s = (if startswith s p then drop (length p) s else s)"

definition uuid_parse :: "string \<Rightarrow> uuid option" where
  "uuid_parse s =
     (let h = map lower_char (filter (\<lambda>c. c \<noteq> CHR ''-'' \<and> c \<noteq> CHR 0x7B \<and> c \<noteq> CHR 0x7D)
                (drop_prefix ''uuid:'' (drop_prefix ''urn:'' s))) in
      if length h = 32 \<and> list_all is_hex h then Some (hyphenate h) else None)"

section \<open>Tokens\<close>

record token_payload =
  tp_user_id :: uuid
  tp_tenant_id :: uuid
  tp_role :: string
  tp_token_type :: string
  tp_issued_at :: int
  tp_expires_at :: int
  tp_jti :: string

record 'tok jwt_lib =
  jl_encode :: "pyval dict \<Rightarrow> 'tok"
  jl_decode :: "int \<Rightarrow> 'tok \<Rightarrow> string + pyval dict"

text \<open>The panel's side of the clock and of its configuration: the instant in whole seconds, as
  \<open>int(ts.timestamp())\<close> reads it, the lifetimes and the next random identifiers.\<close>

record auth_conf =
  ac_access_minutes :: int
  ac_refresh_days :: int

definition new_claims :: "string \<Rightarrow> uuid \<Rightarrow> uuid \<Rightarrow> string \<Rightarrow> int \<Rightarrow> int \<Rightarrow> string \<Rightarrow> pyval dict" where
  "new_claims ty user_id tenant_id role iat expires jti =
     [(''sub'', PStr user_id), (''tenant_id'', PStr tenant_id), (''role'', PStr role), (''type'', PStr ty),
      (''iat'', PInt iat), (''exp'', PInt expires), (''jti'', PStr jti)]"

definition issue_access ::
  "'tok jwt_lib \<Rightarrow> auth_conf \<Rightarrow> int \<Rightarrow> string \<Rightarrow> uuid \<Rightarrow> uuid \<Rightarrow> string \<Rightarrow> 'tok \<times> int" where
  "issue_access lib cfg now jti user_id tenant_id role =
     (let expires = now + ac_access_minutes cfg * 60 in
      (jl_encode lib (new_claims ''access'' user_id tenant_id role now expires jti), expires))"

definition issue_refresh ::
  "'tok jwt_lib \<Rightarrow> auth_conf \<Rightarrow> int \<Rightarrow> string \<Rightarrow> uuid \<Rightarrow> uuid \<Rightarrow> string \<Rightarrow> 'tok \<times> int" where
  "issue_refresh lib cfg now jti user_id tenant_id role =
     (let expires = now + ac_refresh_days cfg * 86400 in
      (jl_encode lib (new_claims ''refresh'' user_id tenant_id role now expires jti), expires))"

text \<open>\<open>verify\<close>: the payload, an \<open>InvalidToken\<close> with its message, or an exception that is neither (an
  identifier that is no string has no \<open>replace\<close>).\<close>

datatype 'a verified = Verified 'a | InvalidToken string | VerifyCrash

definition claim_uuid :: "pyval dict \<Rightarrow> string \<Rightarrow> uuid verified" where
  "claim_uuid d k =
     (case map_of d k of
        None \<Rightarrow> InvalidToken ''malformed payload: ''
      | Some (PStr s) \<Rightarrow>
          (case uuid_parse s of Some u \<Rightarrow> Verified u
           | None \<Rightarrow> InvalidToken ''malformed payload: badly formed hexadecimal UUID string'')
      | Some PNone \<Rightarrow> InvalidToken ''malformed payload: one of the hex, bytes, bytes_le, fields, or int arguments must be given''
      | Some v \<Rightarrow> VerifyCrash)"

definition claim_int :: "pyval dict \<Rightarrow> string \<Rightarrow> int option" where
  "claim_int d k =
     (case dget d k of
        PInt i \<Rightarrow> Some i
      | PBool b \<Rightarrow> Some (if b then 1 else 0)
      | PFloat x \<Rightarrow> Some (if x < 0 then - \<lfloor>- x\<rfloor> else \<lfloor>x\<rfloor>)
      | PStr s \<Rightarrow> parse_int s
      | _ \<Rightarrow> None)"

definition verify :: "(pyval \<Rightarrow> string) \<Rightarrow> 'tok jwt_lib \<Rightarrow> int \<Rightarrow> 'tok \<Rightarrow> string \<Rightarrow> token_payload verified" where
  "verify rp lib now token expected_type =
     (case jl_decode lib now token of
        Inl why \<Rightarrow> InvalidToken why
      | Inr data \<Rightarrow>
          if dget data ''type'' \<noteq> PStr expected_type
          then InvalidToken (''expected '' @ expected_type @ '' token, got '' @ rp (dget data ''type''))
          else case claim_uuid data ''sub'' of
            InvalidToken m \<Rightarrow> InvalidToken m
          | VerifyCrash \<Rightarrow> VerifyCrash
          | Verified u \<Rightarrow>
              (case claim_uuid data ''tenant_id'' of
                 InvalidToken m \<Rightarrow> InvalidToken m
               | VerifyCrash \<Rightarrow> VerifyCrash
               | Verified t \<Rightarrow>
                   (case (map_of data ''role'', claim_int data ''iat'', claim_int data ''exp'') of
                      (Some role, Some iat, Some expires) \<Rightarrow>
                        Verified \<lparr>tp_user_id = u, tp_tenant_id = t, tp_role = py_str rp role,
                          tp_token_type = expected_type, tp_issued_at = iat, tp_expires_at = expires,
                          tp_jti = py_str rp (dget_or data ''jti'' (PStr []))\<rparr>
                    | _ \<Rightarrow> InvalidToken ''malformed payload: '')))"

section \<open>The denylist\<close>

record denylist =
  dn_keys :: "string \<Rightarrow> int option"
  dn_up :: bool

definition deny :: "int \<Rightarrow> string \<Rightarrow> int \<Rightarrow> denylist \<Rightarrow> denylist" where
  "deny now jti expires_at dn =
     (if jti = [] \<or> \<not> dn_up dn then dn
      else dn\<lparr>dn_keys := (dn_keys dn)(''auth:denylist:'' @ jti \<mapsto> now + max 1 (expires_at - now))\<rparr>)"

definition is_denied :: "int \<Rightarrow> string \<Rightarrow> denylist \<Rightarrow> bool" where
  "is_denied now jti dn =
     (jti \<noteq> [] \<and> dn_up dn \<and>
      (case dn_keys dn (''auth:denylist:'' @ jti) of None \<Rightarrow> False | Some gone \<Rightarrow> now < gone))"

section \<open>Dependencies\<close>

text \<open>The credentials of a request: the scheme and the token of its \<open>Authorization\<close> header.\<close>

type_synonym 'tok creds = "(string \<times> 'tok) option"

record 'tok auth_env =
  en_lib :: "'tok jwt_lib"
  en_repr :: "pyval \<Rightarrow> string"
  en_conf :: auth_conf
  en_hash :: "string \<Rightarrow> string"
  en_pwd :: "string \<Rightarrow> string \<Rightarrow> bool"

definition read_token ::
  "'tok auth_env \<Rightarrow> int \<Rightarrow> denylist \<Rightarrow> 'tok creds \<Rightarrow> api_error + token_payload" where
  "read_token env now dn creds =
     (case creds of
        None \<Rightarrow> Inl (HttpError 401 ''missing bearer token'')
      | Some (scheme, token) \<Rightarrow>
          if lower scheme \<noteq> ''bearer'' then Inl (HttpError 401 ''missing bearer token'')
          else case verify (en_repr env) (en_lib env) now token ''access'' of
            InvalidToken m \<Rightarrow> Inl (HttpError 401 (''invalid token: '' @ m))
          | VerifyCrash \<Rightarrow> Inl (Crash ''AttributeError'')
          | Verified p \<Rightarrow>
              if tp_jti p \<noteq> [] \<and> is_denied now (tp_jti p) dn then Inl (HttpError 401 ''token revoked'')
              else Inr p)"

definition get_current_user ::
  "'tok auth_env \<Rightarrow> int \<Rightarrow> denylist \<Rightarrow> 'tok creds \<Rightarrow> panel_db \<Rightarrow> api_error + user_row" where
  "get_current_user env now dn creds db =
     (case read_token env now dn creds of
        Inl e \<Rightarrow> Inl e
      | Inr p \<Rightarrow>
          (case get_row us_id (tp_user_id p) (users db) of
             None \<Rightarrow> Inl (HttpError 401 ''user no longer exists'')
           | Some u \<Rightarrow>
               if us_tenant_id u \<noteq> tp_tenant_id p \<or> us_role u \<noteq> tp_role p
               then Inl (HttpError 401 ''token / user mismatch'')
               else Inr u))"

definition ROLES_ALL :: "string list" where "ROLES_ALL = [''admin'', ''operator'', ''viewer'']"
definition ROLES_WRITE :: "string list" where "ROLES_WRITE = [''admin'', ''operator'']"
definition ROLES_ADMIN :: "string list" where "ROLES_ADMIN = [''admin'']"

definition require_role :: "string list \<Rightarrow> user_row \<Rightarrow> api_error + user_row" where
  "require_role roles u =
     (if us_role u \<in> set roles then Inr u else Inl (HttpError 403 ''requires one of: ''))"

text \<open>A route behind \<open>CurrentUser\<close> and, when it has one, a role: the dependencies run first, in the
  request's own session.\<close>

definition authorised ::
  "'tok auth_env \<Rightarrow> int \<Rightarrow> denylist \<Rightarrow> 'tok creds \<Rightarrow> string list \<Rightarrow> (user_row \<Rightarrow> 'a handler) \<Rightarrow> 'a handler" where
  "authorised env now dn creds roles h s =
     (case get_current_user env now dn creds (sn_db s) of
        Inl e \<Rightarrow> (Inl e, s)
      | Inr u \<Rightarrow> (case require_role roles u of Inl e \<Rightarrow> (Inl e, s) | Inr u \<Rightarrow> h u s))"

section \<open>The routes\<close>

text \<open>What a request hands the random generator and the clock.\<close>

record issue_ctx =
  ic_now :: int
  ic_jti_access :: string
  ic_jti_refresh :: string

record 'tok token_pair =
  pr_access :: 'tok
  pr_refresh :: 'tok
  pr_access_expires :: int
  pr_refresh_expires :: int

definition make_token_pair :: "'tok auth_env \<Rightarrow> issue_ctx \<Rightarrow> user_row \<Rightarrow> 'tok token_pair" where
  "make_token_pair env ic u =
     (let (a, ax) = issue_access (en_lib env) (en_conf env) (ic_now ic) (ic_jti_access ic) (us_id u) (us_tenant_id u) (us_role u);
          (r, rx) = issue_refresh (en_lib env) (en_conf env) (ic_now ic) (ic_jti_refresh ic) (us_id u) (us_tenant_id u) (us_role u)
      in \<lparr>pr_access = a, pr_refresh = r, pr_access_expires = ax, pr_refresh_expires = rx\<rparr>)"

definition verify_password :: "'tok auth_env \<Rightarrow> string \<Rightarrow> string \<Rightarrow> bool" where
  "verify_password env plaintext hashed = (hashed \<noteq> [] \<and> en_pwd env plaintext hashed)"

definition login ::
  "'tok auth_env \<Rightarrow> issue_ctx \<Rightarrow> string \<Rightarrow> string \<Rightarrow> panel_db \<Rightarrow> api_error + ('tok token_pair \<times> user_row)" where
  "login env ic email password db =
     (case get_row us_email (lower email) (users db) of
        None \<Rightarrow> Inl (HttpError 401 ''invalid credentials'')
      | Some u \<Rightarrow>
          if \<not> verify_password env password (us_password_hash u) then Inl (HttpError 401 ''invalid credentials'')
          else Inr (make_token_pair env ic u, u))"

definition refresh ::
  "'tok auth_env \<Rightarrow> issue_ctx \<Rightarrow> 'tok \<Rightarrow> panel_db \<Rightarrow> api_error + 'tok token_pair" where
  "refresh env ic token db =
     (case verify (en_repr env) (en_lib env) (ic_now ic) token ''refresh'' of
        InvalidToken m \<Rightarrow> Inl (HttpError 401 (''invalid refresh: '' @ m))
      | VerifyCrash \<Rightarrow> Inl (Crash ''AttributeError'')
      | Verified p \<Rightarrow>
          (case get_row us_id (tp_user_id p) (users db) of
             None \<Rightarrow> Inl (HttpError 401 ''user gone or tenant mismatch'')
           | Some u \<Rightarrow>
               if us_tenant_id u \<noteq> tp_tenant_id p then Inl (HttpError 401 ''user gone or tenant mismatch'')
               else Inr (make_token_pair env ic u)))"

definition logout :: "'tok auth_env \<Rightarrow> int \<Rightarrow> 'tok creds \<Rightarrow> denylist \<Rightarrow> (api_error + unit) \<times> denylist" where
  "logout env now creds dn =
     (case read_token env now dn creds of
        Inl e \<Rightarrow> (Inl e, dn)
      | Inr p \<Rightarrow> (Inr (), if tp_jti p \<noteq> [] then deny now (tp_jti p) (tp_expires_at p) dn else dn))"

section \<open>The token library\<close>

text \<open>What PyJWT documents: a token it encoded is decoded to its payload until the instant of its
  \<open>exp\<close> claim, and refused as expired from then on (the \<open>iat\<close> claim not being in the future).\<close>

definition jwt_law :: "'tok jwt_lib \<Rightarrow> bool" where
  "jwt_law lib \<longleftrightarrow> (\<forall>c i e now. dget c ''iat'' = PInt i \<longrightarrow> dget c ''exp'' = PInt e \<longrightarrow> i \<le> now \<longrightarrow>
     jl_decode lib now (jl_encode lib c) = (if e \<le> now then Inl ''expired'' else Inr c))"

lemma new_claims_get [simp]:
  "map_of (new_claims ty u t r i e j) ''sub'' = Some (PStr u)"
  "map_of (new_claims ty u t r i e j) ''tenant_id'' = Some (PStr t)"
  "map_of (new_claims ty u t r i e j) ''role'' = Some (PStr r)"
  "map_of (new_claims ty u t r i e j) ''type'' = Some (PStr ty)"
  "map_of (new_claims ty u t r i e j) ''iat'' = Some (PInt i)"
  "map_of (new_claims ty u t r i e j) ''exp'' = Some (PInt e)"
  "map_of (new_claims ty u t r i e j) ''jti'' = Some (PStr j)"
  by (simp_all add: new_claims_def)

definition canonical :: "uuid \<Rightarrow> bool" where
  "canonical u \<longleftrightarrow> uuid_parse u = Some u"

text \<open>A token of the panel verified as the type it has, and as another.\<close>

lemma verify_new:
  assumes "jwt_law lib" "canonical u" "canonical t" "i \<le> now"
  shows "verify rp lib now (jl_encode lib (new_claims ty u t r i e j)) ty' =
    (if e \<le> now then InvalidToken ''expired''
     else if ty \<noteq> ty' then InvalidToken (''expected '' @ ty' @ '' token, got '' @ rp (PStr ty))
     else Verified \<lparr>tp_user_id = u, tp_tenant_id = t, tp_role = r, tp_token_type = ty', tp_issued_at = i,
       tp_expires_at = e, tp_jti = j\<rparr>)"
proof -
  have "jl_decode lib now (jl_encode lib (new_claims ty u t r i e j)) =
      (if e \<le> now then Inl ''expired'' else Inr (new_claims ty u t r i e j))"
    using assms(1,4) unfolding jwt_law_def by (simp add: dget_def)
  then show ?thesis
    using assms(2,3)
    by (simp add: verify_def claim_uuid_def claim_int_def dget_def dget_or_def canonical_def)
qed

section \<open>Sessions of a user\<close>

lemma pair_access:
  "pr_access (make_token_pair env ic u) = jl_encode (en_lib env)
     (new_claims ''access'' (us_id u) (us_tenant_id u) (us_role u) (ic_now ic)
        (ic_now ic + ac_access_minutes (en_conf env) * 60) (ic_jti_access ic))"
  by (simp add: make_token_pair_def issue_access_def issue_refresh_def Let_def)

lemma pair_refresh:
  "pr_refresh (make_token_pair env ic u) = jl_encode (en_lib env)
     (new_claims ''refresh'' (us_id u) (us_tenant_id u) (us_role u) (ic_now ic)
        (ic_now ic + ac_refresh_days (en_conf env) * 86400) (ic_jti_refresh ic))"
  by (simp add: make_token_pair_def issue_access_def issue_refresh_def Let_def)

definition user_ok :: "user_row \<Rightarrow> bool" where
  "user_ok u \<longleftrightarrow> canonical (us_id u) \<and> canonical (us_tenant_id u)"

definition access_until :: "'tok auth_env \<Rightarrow> issue_ctx \<Rightarrow> int" where
  "access_until env ic = ic_now ic + ac_access_minutes (en_conf env) * 60"

definition refresh_until :: "'tok auth_env \<Rightarrow> issue_ctx \<Rightarrow> int" where
  "refresh_until env ic = ic_now ic + ac_refresh_days (en_conf env) * 86400"

lemma read_access_token:
  assumes "jwt_law (en_lib env)" "user_ok u" "ic_now ic \<le> now" "lower scheme = ''bearer''"
  shows "read_token env now dn (Some (scheme, pr_access (make_token_pair env ic u))) =
    (if access_until env ic \<le> now then Inl (HttpError 401 ''invalid token: expired'')
     else if ic_jti_access ic \<noteq> [] \<and> is_denied now (ic_jti_access ic) dn then Inl (HttpError 401 ''token revoked'')
     else Inr \<lparr>tp_user_id = us_id u, tp_tenant_id = us_tenant_id u, tp_role = us_role u, tp_token_type = ''access'',
       tp_issued_at = ic_now ic, tp_expires_at = access_until env ic, tp_jti = ic_jti_access ic\<rparr>)"
  using assms by (simp add: read_token_def pair_access verify_new user_ok_def access_until_def)

lemma refresh_new_token:
  assumes "jwt_law (en_lib env)" "user_ok u" "ic_now ic \<le> ic_now ic'" "get_row us_id (us_id u) (users db) = Some u'"
  shows "refresh env ic' (pr_refresh (make_token_pair env ic u)) db =
    (if refresh_until env ic \<le> ic_now ic' then Inl (HttpError 401 ''invalid refresh: expired'')
     else if us_tenant_id u' \<noteq> us_tenant_id u then Inl (HttpError 401 ''user gone or tenant mismatch'')
     else Inr (make_token_pair env ic' u'))"
  using assms by (simp add: refresh_def pair_refresh verify_new user_ok_def refresh_until_def)

lemma login_row: "login env ic email password db = Inr (pair, u) \<Longrightarrow>
  get_row us_email (lower email) (users db) = Some u \<and> pair = make_token_pair env ic u"
  by (auto simp: login_def split: option.splits if_splits)

text \<open>C16: The access token of a login identifies its user on every route, until the second it expires,
  while the row keeps its tenant and its role and the token has not been revoked; it is never
  accepted as a refresh token, and the refresh token of the pair is never accepted as access.\<close>

theorem login_token_authenticates:
  assumes "jwt_law (en_lib env)" "login env ic email password db = Inr (pair, u)" "user_ok u"
    and "ic_now ic \<le> now" "now < access_until env ic" "lower scheme = ''bearer''"
    and "\<not> is_denied now (ic_jti_access ic) dn"
    and "get_row us_id (us_id u) (users db') = Some u'" "us_tenant_id u' = us_tenant_id u" "us_role u' = us_role u"
  shows "get_current_user env now dn (Some (scheme, pr_access pair)) db' = Inr u' \<and>
    (\<exists>m. read_token env now dn (Some (scheme, pr_refresh pair)) = Inl (HttpError 401 m)) \<and>
    (\<exists>m. refresh env (ic\<lparr>ic_now := now\<rparr>) (pr_access pair) db' = Inl (HttpError 401 m))"
proof (intro conjI)
  from login_row [OF assms(2)] have p: "pair = make_token_pair env ic u"
    by simp
  show "get_current_user env now dn (Some (scheme, pr_access pair)) db' = Inr u'"
    using assms(5-10) read_access_token [OF assms(1,3,4,6)] by (simp add: get_current_user_def p)
  show "\<exists>m. read_token env now dn (Some (scheme, pr_refresh pair)) = Inl (HttpError 401 m)"
    using assms(1,3,4,6) by (auto simp: p read_token_def pair_refresh verify_new user_ok_def)
  show "\<exists>m. refresh env (ic\<lparr>ic_now := now\<rparr>) (pr_access pair) db' = Inl (HttpError 401 m)"
    using assms(1,3,4) by (auto simp: p refresh_def pair_access verify_new user_ok_def)
qed

text \<open>C31: A token that was logged out is never accepted again while Redis answers: its key lives at
  least until the token expires.\<close>

theorem logout_revokes_access:
  assumes "jwt_law (en_lib env)" "user_ok u" "ic_now ic \<le> t0" "t0 \<le> now" "ic_jti_access ic \<noteq> []"
    and "lower scheme = ''bearer''" "dn_up dn"
    and "logout env t0 (Some (scheme, pr_access (make_token_pair env ic u))) dn = (Inr (), dn')"
  shows "\<exists>m. read_token env now dn' (Some (scheme, pr_access (make_token_pair env ic u))) = Inl (HttpError 401 m)"
proof -
  let ?p = "\<lparr>tp_user_id = us_id u, tp_tenant_id = us_tenant_id u, tp_role = us_role u, tp_token_type = ''access'',
       tp_issued_at = ic_now ic, tp_expires_at = access_until env ic, tp_jti = ic_jti_access ic\<rparr>"
  have "dn' = deny t0 (ic_jti_access ic) (access_until env ic) dn"
    using assms(8,5) read_access_token [OF assms(1,2,3,6), of dn] by (auto simp: logout_def split: if_splits)
  then have "now < access_until env ic \<Longrightarrow> is_denied now (ic_jti_access ic) dn'"
    using assms(5,7,4) by (simp add: deny_def is_denied_def)
  moreover have "ic_now ic \<le> now"
    using assms(3,4) by simp
  ultimately show ?thesis
    using read_access_token [OF assms(1,2) _ assms(6), of ic now dn'] assms(5) by (cases "now < access_until env ic") auto
qed

text \<open>Logging out leaves the refresh token of the pair alone: until it expires it still buys a new
  pair, whose access token identifies the user, the denylist the logout left notwithstanding.\<close>

lemma logout_leaves_refresh:
  assumes "jwt_law (en_lib env)" "user_ok u" "lower scheme = ''bearer''"
    and "ic_now ic \<le> t0" "t0 \<le> ic_now ic'" "ic_now ic' < refresh_until env ic" "0 < ac_access_minutes (en_conf env)"
    and "get_row us_id (us_id u) (users db) = Some u"
    and "logout env t0 (Some (scheme, pr_access (make_token_pair env ic u))) dn = (Inr (), dn')"
    and "ic_jti_access ic' \<noteq> ic_jti_access ic" "\<not> is_denied (ic_now ic') (ic_jti_access ic') dn"
  shows "refresh env ic' (pr_refresh (make_token_pair env ic u)) db = Inr (make_token_pair env ic' u) \<and>
    get_current_user env (ic_now ic') dn' (Some (scheme, pr_access (make_token_pair env ic' u))) db = Inr u"
proof
  show "refresh env ic' (pr_refresh (make_token_pair env ic u)) db = Inr (make_token_pair env ic' u)"
    using refresh_new_token [OF assms(1,2) _ assms(8)] assms(4,5,6) by simp
  have "\<not> is_denied (ic_now ic') (ic_jti_access ic') dn'"
    using assms(9-11) read_access_token [OF assms(1,2,4,3), of dn]
    by (auto simp: logout_def deny_def is_denied_def split: if_splits)
  then show "get_current_user env (ic_now ic') dn' (Some (scheme, pr_access (make_token_pair env ic' u))) db = Inr u"
    using read_access_token [OF assms(1,2) order_refl assms(3), of ic' dn'] assms(7,8)
    by (simp add: get_current_user_def access_until_def)
qed

text \<open>A role that changed locks the old access token out and leaves the refresh token, whose new pair
  carries the new role.\<close>

lemma role_change_revokes:
  assumes "jwt_law (en_lib env)" "user_ok u" "lower scheme = ''bearer''" "ic_now ic \<le> now"
    and "get_row us_id (us_id u) (users db) = Some u'" "us_role u' \<noteq> us_role u"
  shows "\<exists>m. get_current_user env now dn (Some (scheme, pr_access (make_token_pair env ic u))) db = Inl (HttpError 401 m)"
  using assms by (auto simp: get_current_user_def read_access_token)

text \<open>A concrete library: a token is its payload. A user, an environment and two logins of it.\<close>

definition plain_jwt :: "pyval dict jwt_lib" where
  "plain_jwt = \<lparr>jl_encode = (\<lambda>c. c), jl_decode = (\<lambda>now c.
     case dget c ''exp'' of PInt e \<Rightarrow> if e \<le> now then Inl ''expired'' else Inr c | _ \<Rightarrow> Inr c)\<rparr>"

lemma plain_jwt_law: "jwt_law plain_jwt"
  by (simp add: jwt_law_def plain_jwt_def)

definition plain_env :: "pyval dict auth_env" where
  "plain_env = \<lparr>en_lib = plain_jwt, en_repr = (\<lambda>_. []), en_conf = \<lparr>ac_access_minutes = 15, ac_refresh_days = 7\<rparr>,
     en_hash = (\<lambda>p. p), en_pwd = (\<lambda>p h. p = h)\<rparr>"

definition alice :: user_row where
  "alice = \<lparr>us_id = ''11111111-1111-1111-1111-111111111111'', us_tenant_id = ''22222222-2222-2222-2222-222222222222'',
     us_email = ''alice@example.com'', us_password_hash = ''secret12'', us_role = ''admin'', us_created_at = 0\<rparr>"

definition alice_db :: panel_db where
  "alice_db = empty_panel_db\<lparr>users := [alice]\<rparr>"

definition first_login :: issue_ctx where
  "first_login = \<lparr>ic_now = 1000, ic_jti_access = ''a1'', ic_jti_refresh = ''r1''\<rparr>"

definition second_login :: issue_ctx where
  "second_login = \<lparr>ic_now = 3000, ic_jti_access = ''a2'', ic_jti_refresh = ''r2''\<rparr>"

definition no_denials :: denylist where
  "no_denials = \<lparr>dn_keys = (\<lambda>_. None), dn_up = True\<rparr>"

lemma alice_ok: "user_ok alice"
  unfolding user_ok_def canonical_def by (intro conjI; code_simp)

lemma alice_login: "login plain_env first_login ''Alice@Example.com'' ''secret12'' alice_db =
    Inr (make_token_pair plain_env first_login alice, alice)"
proof -
  have "lower ''Alice@Example.com'' = ''alice@example.com''"
    by code_simp
  then show ?thesis
    by (simp add: login_def alice_db_def get_row_def alice_def plain_env_def verify_password_def)
qed

lemma bearer_lower: "lower ''Bearer'' = ''bearer''"
  by code_simp

lemma alice_row: "get_row us_id (us_id alice) (users alice_db) = Some alice"
  by (simp add: get_row_def alice_db_def)

theorem login_token_authenticates_witness:
  "get_current_user plain_env 1800 no_denials (Some (''Bearer'', pr_access (make_token_pair plain_env first_login alice)))
     alice_db = Inr alice"
  by (rule login_token_authenticates [OF _ alice_login alice_ok _ _ bearer_lower _ alice_row, THEN conjunct1])
    (simp_all add: plain_jwt_law plain_env_def first_login_def access_until_def is_denied_def no_denials_def)

lemma alice_logout:
  "logout plain_env 1200 (Some (''Bearer'', pr_access (make_token_pair plain_env first_login alice))) no_denials =
     (Inr (), deny 1200 ''a1'' 1900 no_denials)"
  using read_access_token [OF _ alice_ok _ bearer_lower, of plain_env first_login 1200 no_denials]
  by (simp add: logout_def plain_jwt_law plain_env_def first_login_def access_until_def is_denied_def no_denials_def)

theorem logout_revokes_access_witness:
  "\<exists>m. read_token plain_env 1300 (deny 1200 ''a1'' 1900 no_denials)
     (Some (''Bearer'', pr_access (make_token_pair plain_env first_login alice))) = Inl (HttpError 401 m)"
  by (rule logout_revokes_access [OF _ alice_ok _ _ _ bearer_lower _ alice_logout])
    (simp_all add: plain_jwt_law plain_env_def first_login_def no_denials_def)

lemma logout_leaves_refresh_witness:
  "get_current_user plain_env 3000 (deny 1200 ''a1'' 1900 no_denials)
     (Some (''Bearer'', pr_access (make_token_pair plain_env second_login alice))) alice_db = Inr alice"
proof -
  have "ic_now second_login = 3000"
    by (simp add: second_login_def)
  then show ?thesis
    using logout_leaves_refresh [OF _ alice_ok bearer_lower _ _ _ _ alice_row alice_logout, of second_login]
    by (simp add: plain_jwt_law plain_env_def first_login_def second_login_def refresh_until_def no_denials_def is_denied_def)
qed

end
