(* ===== verification/Kb_Ingest.thy ===== *)
theory Kb_Ingest
  imports Prelude "HOL-Library.Sublist"
begin

text \<open>
  \<open>panel/backend/src/aipanel/jobs/kb_ingest_job.py\<close>: a document of the knowledge base is parsed,
  cut into overlapping chunks of sentences, embedded in batches and stored. The PDF and DOCX
  readers, the UTF-8 decoder and the embedding server are what they answer; the database is the
  chunks and the status of each document, and every statement block may fail.
\<close>

section \<open>Parsing\<close>

definition endswith :: "string \<Rightarrow> string \<Rightarrow> bool" where
  "endswith s p = startswith (rev s) (rev p)"

record parse_env =
  pe_utf8 :: "bytes \<Rightarrow> string option"
  pe_pdf :: "bytes \<Rightarrow> string + string"
  pe_docx :: "bytes \<Rightarrow> string + string"

text \<open>\<open>latin-1\<close> decodes every byte, so the loop over the encodings always returns.\<close>

definition latin1 :: "bytes \<Rightarrow> string" where
  "latin1 raw = map (\<lambda>b. char_of (unat b)) raw"

definition parse_txt :: "parse_env \<Rightarrow> bytes \<Rightarrow> string" where
  "parse_txt env raw = (case pe_utf8 env raw of Some s \<Rightarrow> s | None \<Rightarrow> latin1 raw)"

definition is_nontext :: "byte \<Rightarrow> bool" where
  "is_nontext b = (b < 9 \<or> (13 < b \<and> b < 32))"

definition looks_binary :: "bytes \<Rightarrow> bool" where
  "looks_binary raw = (let sample = take 4096 raw in length sample div 10 < length (filter is_nontext sample))"

text \<open>\<open>_parse\<close>: the text, or the message of the exception.\<close>

definition parse_document :: "parse_env \<Rightarrow> string \<Rightarrow> bytes \<Rightarrow> string + string" where
  "parse_document env filename raw =
     (let name = lower filename in
      if endswith name ''.pdf'' then pe_pdf env raw
      else if endswith name ''.docx'' then pe_docx env raw
      else if list_ex (endswith name) [''.txt'', ''.md'', ''.rst'', ''.log''] then Inr (parse_txt env raw)
      else if looks_binary raw
      then Inl (''unsupported file format: '' @ filename @ '' (looks binary; supported: pdf, docx, txt, md)'')
      else Inr (parse_txt env raw))"

section \<open>Sentences\<close>

text \<open>\<open>re.sub(r"[ \t]+", " ", text)\<close>.\<close>

definition is_blank :: "char \<Rightarrow> bool" where
  "is_blank c = (c = CHR '' '' \<or> c = CHR 0x09)"

fun squeeze_blanks :: "bool \<Rightarrow> string \<Rightarrow> string" where
  "squeeze_blanks in_run [] = []"
| "squeeze_blanks in_run (c # cs) =
     (if is_blank c then (if in_run then squeeze_blanks True cs else CHR '' '' # squeeze_blanks True cs)
      else c # squeeze_blanks False cs)"

text \<open>\<open>_SENT_SPLIT.split\<close>: at white space after \<open>.\<close>, \<open>!\<close> or \<open>?\<close>, and at two or more newlines. The
  character before the position decides the first alternative, which is tried first.\<close>

definition ends_sentence :: "char \<Rightarrow> bool" where
  "ends_sentence c = (c = CHR ''.'' \<or> c = CHR ''!'' \<or> c = CHR ''?'')"

function sent_split :: "char \<Rightarrow> string \<Rightarrow> string \<Rightarrow> string list" where
  "sent_split prev acc [] = [rev acc]"
| "sent_split prev acc (c # cs) =
     (if ends_sentence prev \<and> is_space c
      then rev acc # sent_split (last (c # takeWhile is_space cs)) [] (dropWhile is_space cs)
      else if c = CHR 0x0A \<and> cs \<noteq> [] \<and> hd cs = CHR 0x0A
      then rev acc # sent_split CHR 0x0A [] (dropWhile (\<lambda>x. x = CHR 0x0A) cs)
      else sent_split c (c # acc) cs)"
  by pat_completeness auto
termination
  by (relation "measure (\<lambda>(prev, acc, cs). length cs)") (auto simp: le_imp_less_Suc length_dropWhile_le)

definition sentences :: "string \<Rightarrow> string list" where
  "sentences text_in =
     (let t = strip (squeeze_blanks False text_in) in
      if t = [] then [] else filter (\<lambda>s. s \<noteq> []) (map strip (sent_split CHR 0x00 [] t)))"

section \<open>Chunks\<close>

definition approx_tokens :: "string \<Rightarrow> nat" where
  "approx_tokens s = max 1 (length s div 4)"

definition CHUNK_TARGET_TOKENS :: nat where "CHUNK_TARGET_TOKENS = 380"
definition CHUNK_OVERLAP_TOKENS :: nat where "CHUNK_OVERLAP_TOKENS = 60"
definition EMBED_BATCH_SIZE :: nat where "EMBED_BATCH_SIZE = 32"

text \<open>The tail a chunk leaves to the next one: the loop over \<open>reversed(cur)\<close>.\<close>

fun tail_of :: "nat \<Rightarrow> nat \<Rightarrow> string list \<Rightarrow> string list" where
  "tail_of overlap tok [] = []"
| "tail_of overlap tok (p # ps) =
     (if overlap < tok + approx_tokens p then []
      else p # tail_of overlap (tok + approx_tokens p) ps)"

definition tokens :: "string list \<Rightarrow> nat" where
  "tokens ss = sum_list (map approx_tokens ss)"

text \<open>The loop over the sentences, a chunk being its list of sentences; \<open>cur_tok\<close> is always the
  tokens of \<open>cur\<close>, as the code keeps it.\<close>

fun chunk_loop :: "nat \<Rightarrow> nat \<Rightarrow> string list \<Rightarrow> nat \<Rightarrow> string list \<Rightarrow> string list list" where
  "chunk_loop target overlap cur cur_tok [] = (if cur = [] then [] else [cur])"
| "chunk_loop target overlap cur cur_tok (s # ss) =
     (if cur \<noteq> [] \<and> target < cur_tok + approx_tokens s
      then let tail = rev (tail_of overlap 0 (rev cur)) in
        cur # chunk_loop target overlap (tail @ [s]) (tokens tail + approx_tokens s) ss
      else chunk_loop target overlap (cur @ [s]) (cur_tok + approx_tokens s) ss)"

definition chunk :: "string \<Rightarrow> string list" where
  "chunk text_in = map (join '' '') (chunk_loop CHUNK_TARGET_TOKENS CHUNK_OVERLAP_TOKENS [] 0 (sentences text_in))"

section \<open>The job\<close>

record kb_chunk =
  kc_document_id :: string
  kc_kb_id :: string
  kc_index :: nat
  kc_text :: string
  kc_tokens :: nat
  kc_embedding :: "rat list"

datatype doc_status = DocPending | DocProcessing | DocReady | DocError

record kb_document =
  kd_status :: doc_status
  kd_chunk_count :: nat
  kd_bytes_total :: nat
  kd_error_msg :: "string option"

record kb_db =
  kb_chunks :: "kb_chunk list"
  kb_documents :: "string \<Rightarrow> kb_document option"

text \<open>\<open>_sync_mark_status\<close> with the three statements that only touch the document row; an
  \<open>UPDATE\<close> of a row that is not there changes nothing.\<close>

definition update_document :: "string \<Rightarrow> (kb_document \<Rightarrow> kb_document) \<Rightarrow> kb_db \<Rightarrow> kb_db" where
  "update_document d f db =
     db\<lparr>kb_documents := (kb_documents db)(d := map_option f (kb_documents db d))\<rparr>"

definition mark_processing :: "kb_document \<Rightarrow> kb_document" where
  "mark_processing r = r\<lparr>kd_status := DocProcessing\<rparr>"

definition mark_failed :: "string \<Rightarrow> kb_document \<Rightarrow> kb_document" where
  "mark_failed err r = r\<lparr>kd_status := DocError, kd_error_msg := Some (take 500 err)\<rparr>"

definition mark_ready :: "nat \<Rightarrow> nat \<Rightarrow> kb_document \<Rightarrow> kb_document" where
  "mark_ready n bytes_total r =
     r\<lparr>kd_status := DocReady, kd_chunk_count := n, kd_bytes_total := bytes_total, kd_error_msg := None\<rparr>"

definition chunk_row :: "string \<Rightarrow> string \<Rightarrow> nat \<times> string \<times> rat list \<Rightarrow> kb_chunk" where
  "chunk_row document_id kb_id c = (case c of (i, t, v) \<Rightarrow>
     \<lparr>kc_document_id = document_id, kc_kb_id = kb_id, kc_index = i, kc_text = t,
      kc_tokens = approx_tokens t, kc_embedding = v\<rparr>)"

text \<open>\<open>_sync_replace_chunks\<close>: one transaction, so the whole of it or nothing.\<close>

definition replace_chunks :: "string \<Rightarrow> string \<Rightarrow> (string \<times> rat list) list \<Rightarrow> nat \<Rightarrow> kb_db \<Rightarrow> kb_db" where
  "replace_chunks document_id kb_id cs bytes_total db =
     update_document document_id (mark_ready (length cs) bytes_total)
       (db\<lparr>kb_chunks := filter (\<lambda>c. kc_document_id c \<noteq> document_id) (kb_chunks db) @
          map (chunk_row document_id kb_id) (enumerate 0 cs)\<rparr>)"

text \<open>The batches of \<open>range(0, len(chunks), 32)\<close>, embedded until one fails. The client answers
  None when the server does not, and may raise.\<close>

function batches :: "'a list \<Rightarrow> 'a list list" where
  "batches xs = (if xs = [] then [] else take EMBED_BATCH_SIZE xs # batches (drop EMBED_BATCH_SIZE xs))"
  by pat_completeness auto
termination
  by (relation "measure length") (auto simp: EMBED_BATCH_SIZE_def)

declare batches.simps [simp del]

type_synonym embed_batch = "string list \<Rightarrow> string + rat list list option"

fun embed_all :: "embed_batch \<Rightarrow> string list list \<Rightarrow> rat list list \<Rightarrow> string + rat list list" where
  "embed_all emb [] all_vecs = Inr all_vecs"
| "embed_all emb (b # bs) all_vecs =
     (case emb b of
        Inl exc \<Rightarrow> Inl exc
      | Inr None \<Rightarrow> Inl ''embed-server unreachable or returned error''
      | Inr (Some vecs) \<Rightarrow> embed_all emb bs (all_vecs @ vecs))"

text \<open>What the job depends on. \<open>ie_db n\<close> says how its \<open>n\<close>-th database transaction ends: done, or
  the text of the exception. The first is the processing mark, the second the outcome, the third
  the error mark after a write that failed.\<close>

record ingest_env =
  ie_parse :: parse_env
  ie_embed :: embed_batch
  ie_db :: "nat \<Rightarrow> string option"

text \<open>How the job ended: its returned dictionary, or an exception that left it.\<close>

datatype ingest_result = IngestOk nat | IngestFailed string string | IngestRaises string

definition mark_error ::
  "string option \<Rightarrow> string \<Rightarrow> string \<Rightarrow> string \<Rightarrow> string \<Rightarrow> kb_db \<Rightarrow> ingest_result \<times> kb_db" where
  "mark_error outage stage document_id msg err db =
     (case outage of
        Some exc \<Rightarrow> (IngestRaises exc, db)
      | None \<Rightarrow> (IngestFailed stage err, update_document document_id (mark_failed msg) db))"

definition kb_store ::
  "ingest_env \<Rightarrow> string \<Rightarrow> string \<Rightarrow> string list \<Rightarrow> rat list list \<Rightarrow> nat \<Rightarrow> kb_db \<Rightarrow> ingest_result \<times> kb_db" where
  "kb_store env document_id kb_id cs vecs bytes_total db =
     (case ie_db env 1 of
        None \<Rightarrow> (IngestOk (length cs), replace_chunks document_id kb_id (zip cs vecs) bytes_total db)
      | Some exc \<Rightarrow> mark_error (ie_db env 2) ''db'' document_id (''db write: '' @ exc) exc db)"

definition kb_ingest_document :: "ingest_env \<Rightarrow> string \<Rightarrow> string \<Rightarrow> string \<Rightarrow> bytes \<Rightarrow> kb_db \<Rightarrow> ingest_result \<times> kb_db" where
  "kb_ingest_document env document_id kb_id filename raw db =
     (case ie_db env 0 of
        Some exc \<Rightarrow> (IngestRaises exc, db)
      | None \<Rightarrow>
        (let db1 = update_document document_id mark_processing db in
         case parse_document (ie_parse env) filename raw of
           Inl err \<Rightarrow> mark_error (ie_db env 1) ''parse'' document_id err err db1
         | Inr txt_in \<Rightarrow>
             (let cs = chunk txt_in in
              if cs = [] then
                (case ie_db env 1 of
                   Some exc \<Rightarrow> (IngestRaises exc, db1)
                 | None \<Rightarrow> (IngestOk 0, replace_chunks document_id kb_id [] (length raw) db1))
              else (case embed_all (ie_embed env) (batches cs) [] of
                  Inl err \<Rightarrow> mark_error (ie_db env 1) ''embed'' document_id (''embed: '' @ err) err db1
                | Inr vecs \<Rightarrow> kb_store env document_id kb_id cs vecs (length raw) db1))))"

section \<open>Chunks cover the document\<close>

lemma tokens_append [simp]: "tokens (a @ b) = tokens a + tokens b"
  by (simp add: tokens_def)

lemma tokens_Nil [simp]: "tokens [] = 0"
  by (simp add: tokens_def)

lemma tokens_Cons [simp]: "tokens (a # b) = approx_tokens a + tokens b"
  by (simp add: tokens_def)

lemma tokens_rev [simp]: "tokens (rev a) = tokens a"
  by (induction a) auto

lemma tail_of_prefix: "prefix (tail_of ov n ss) ss"
  by (induction ss arbitrary: n) auto

lemma tail_of_bound: "n \<le> ov \<Longrightarrow> n + tokens (tail_of ov n ss) \<le> ov"
proof (induction ss arbitrary: n)
  case (Cons s ss)
  show ?case
    using Cons.IH [of "n + approx_tokens s"] Cons.prems by (auto simp: add.assoc not_less)
qed simp

lemma tail_suffix: "suffix (rev (tail_of ov 0 (rev cur))) cur"
  using tail_of_prefix [of ov 0 "rev cur"] by (simp add: suffix_to_prefix)

text \<open>A list of chunks covers the sentences when each is an overlap, a suffix of the previous
  chunk within the budget, followed by the next stretch of sentences, which is never empty.\<close>

fun chunks_cover :: "nat \<Rightarrow> string list \<Rightarrow> string list list \<Rightarrow> string list \<Rightarrow> bool" where
  "chunks_cover ov prev [] ss = (ss = [])"
| "chunks_cover ov prev (c # cs) ss =
     (\<exists>tail new rest. c = tail @ new \<and> suffix tail prev \<and> tokens tail \<le> ov \<and> new \<noteq> [] \<and>
        ss = new @ rest \<and> chunks_cover ov c cs rest)"

lemma covers_step:
  assumes "suffix tail prev" "tokens tail \<le> ov" "new \<noteq> []" "chunks_cover ov (tail @ new) cs rest"
  shows "chunks_cover ov prev ((tail @ new) # cs) (new @ rest)"
  using assms unfolding chunks_cover.simps by blast

lemma chunk_loop_covers:
  assumes "suffix tail prev" "tokens tail \<le> ov" "new \<noteq> [] \<or> tail = []"
  shows "chunks_cover ov prev (chunk_loop target ov (tail @ new) n ss) (new @ ss)"
  using assms
proof (induction ss arbitrary: prev tail new n)
  case Nil
  show ?case
  proof (cases "new = []")
    case True
    then show ?thesis using Nil.prems(3) by simp
  next
    case False
    then have "chunks_cover ov prev [tail @ new] (new @ [])"
      using covers_step [OF Nil.prems(1,2), of new "[]" "[]"] by simp
    moreover have "chunk_loop target ov (tail @ new) n [] = [tail @ new]"
      using False by simp
    ultimately show ?thesis
      by (simp only:)
  qed
next
  case (Cons s ss)
  show ?case
  proof (cases "tail @ new \<noteq> [] \<and> target < n + approx_tokens s")
    case True
    define tl where "tl = rev (tail_of ov 0 (rev (tail @ new)))"
    have "chunks_cover ov (tail @ new) (chunk_loop target ov (tl @ [s]) (tokens tl + approx_tokens s) ss) ([s] @ ss)"
    proof (rule Cons.IH)
      show "suffix tl (tail @ new)"
        unfolding tl_def by (rule tail_suffix)
      show "tokens tl \<le> ov"
        using tail_of_bound [of 0 ov "rev (tail @ new)"] unfolding tl_def tokens_rev by linarith
    qed simp
    moreover have "new \<noteq> []"
      using True Cons.prems(3) append_Nil by metis
    moreover have "chunk_loop target ov (tail @ new) n (s # ss) =
        (tail @ new) # chunk_loop target ov (tl @ [s]) (tokens tl + approx_tokens s) ss"
      by (subst chunk_loop.simps) (simp only: True if_True Let_def tl_def HOL.simp_thms)
    ultimately show ?thesis
      using covers_step [OF Cons.prems(1,2)] by simp
  next
    case False
    have "chunks_cover ov prev (chunk_loop target ov (tail @ (new @ [s])) (n + approx_tokens s) ss) ((new @ [s]) @ ss)"
      by (rule Cons.IH) (use Cons.prems in auto)
    moreover have "chunk_loop target ov (tail @ new) n (s # ss) =
        chunk_loop target ov ((tail @ new) @ [s]) (n + approx_tokens s) ss"
      by (subst chunk_loop.simps) (simp only: False if_False)
    ultimately show ?thesis
      by simp
  qed
qed

definition chunk_fits :: "nat \<Rightarrow> nat \<Rightarrow> string list \<Rightarrow> bool" where
  "chunk_fits target ov c = (tokens c \<le> target \<or> tokens (butlast c) \<le> ov)"

lemma chunk_loop_fits:
  assumes "cur \<noteq> [] \<Longrightarrow> chunk_fits target ov cur" "n = tokens cur"
  shows "\<forall>c\<in>set (chunk_loop target ov cur n ss). chunk_fits target ov c"
  using assms
proof (induction ss arbitrary: cur n)
  case Nil
  then show ?case by auto
next
  case (Cons s ss)
  show ?case
  proof (cases "cur \<noteq> [] \<and> target < n + approx_tokens s")
    case True
    define tl where "tl = rev (tail_of ov 0 (rev cur))"
    have "tokens tl \<le> ov"
      using tail_of_bound [of 0 ov "rev cur"] by (simp add: tl_def)
    then have "\<forall>c\<in>set (chunk_loop target ov (tl @ [s]) (tokens tl + approx_tokens s) ss). chunk_fits target ov c"
      by (intro Cons.IH) (simp_all add: chunk_fits_def)
    moreover have "chunk_loop target ov cur n (s # ss) =
        cur # chunk_loop target ov (tl @ [s]) (tokens tl + approx_tokens s) ss"
      by (subst chunk_loop.simps) (simp only: True if_True Let_def tl_def HOL.simp_thms)
    ultimately show ?thesis
      using True Cons.prems(1) by simp
  next
    case False
    have "\<forall>c\<in>set (chunk_loop target ov (cur @ [s]) (n + approx_tokens s) ss). chunk_fits target ov c"
      by (rule Cons.IH) (use False Cons.prems(2) in \<open>auto simp: chunk_fits_def not_less\<close>)
    moreover have "chunk_loop target ov cur n (s # ss) = chunk_loop target ov (cur @ [s]) (n + approx_tokens s) ss"
      by (subst chunk_loop.simps) (simp only: False if_False)
    ultimately show ?thesis
      by simp
  qed
qed


section \<open>The stored chunks\<close>

definition doc_chunks :: "string \<Rightarrow> kb_db \<Rightarrow> kb_chunk list" where
  "doc_chunks d db = filter (\<lambda>c. kc_document_id c = d) (kb_chunks db)"

lemma update_document_chunks [simp]: "kb_chunks (update_document d f db) = kb_chunks db"
  by (simp add: update_document_def)

lemma update_document_other [simp]: "d' \<noteq> d \<Longrightarrow> kb_documents (update_document d f db) d' = kb_documents db d'"
  by (simp add: update_document_def)

lemma update_document_at [simp]: "kb_documents (update_document d f db) d = map_option f (kb_documents db d)"
  by (simp add: update_document_def)

lemma chunk_row_document [simp]: "kc_document_id (chunk_row d k c) = d"
  by (cases c) (simp add: chunk_row_def)

lemma replace_chunks_own:
  "doc_chunks d (replace_chunks d k cs n db) = map (chunk_row d k) (enumerate 0 cs)"
  by (simp add: doc_chunks_def replace_chunks_def filter_map o_def)

lemma replace_chunks_other:
  "d' \<noteq> d \<Longrightarrow> doc_chunks d' (replace_chunks d k cs n db) = doc_chunks d' db"
  by (simp add: doc_chunks_def replace_chunks_def filter_map o_def) (metis (mono_tags, lifting) filter_cong)

lemma doc_chunks_update [simp]: "doc_chunks d (update_document e f db) = doc_chunks d db"
  by (simp add: doc_chunks_def)

lemma concat_batches: "concat (batches xs) = xs"
  by (induction xs rule: batches.induct) (subst batches.simps, simp)

lemma batches_sizes: "\<forall>b\<in>set (batches xs). b \<noteq> [] \<and> length b \<le> EMBED_BATCH_SIZE"
proof (induction xs rule: batches.induct)
  case (1 xs)
  then show ?case
    by (subst batches.simps) (auto simp: EMBED_BATCH_SIZE_def)
qed

lemma update_update_document [simp]:
  "update_document d f (update_document d g db) = update_document d (f \<circ> g) db"
  by (simp add: update_document_def option.map_comp)

lemma mark_absorbs [simp]:
  "mark_ready n b \<circ> mark_processing = mark_ready n b"
  "mark_failed e \<circ> mark_processing = mark_failed e"
  by (auto simp: fun_eq_iff mark_ready_def mark_processing_def mark_failed_def)

lemma replace_after_mark:
  "kb_documents (replace_chunks d k cs n (update_document d mark_processing db)) d =
     map_option (mark_ready (length cs) n) (kb_documents db d)"
  by (cases "kb_documents db d") (simp_all add: replace_chunks_def update_document_def mark_ready_def mark_processing_def)

lemma replace_other_document:
  "d' \<noteq> d \<Longrightarrow> kb_documents (replace_chunks d k cs n (update_document d g db)) d' = kb_documents db d'"
  by (simp add: replace_chunks_def update_document_def)

text \<open>What a finished job may have left of the document it was given: the rows of exactly the new
  chunks and a ready row, or the rows it found and an error, or the rows it found and a row that is
  as it was or still being processed.\<close>

definition ingest_outcome ::
  "ingest_env \<Rightarrow> string \<Rightarrow> string \<Rightarrow> string \<Rightarrow> bytes \<Rightarrow> kb_db \<Rightarrow> ingest_result \<Rightarrow> kb_db \<Rightarrow> bool" where
  "ingest_outcome env d k filename raw db res db' =
     (case res of
        IngestOk n \<Rightarrow>
          (\<exists>t vecs. parse_document (ie_parse env) filename raw = Inr t \<and> n = length (chunk t) \<and>
             embed_all (ie_embed env) (batches (chunk t)) [] = Inr vecs \<and>
             doc_chunks d db' = map (chunk_row d k) (enumerate 0 (zip (chunk t) vecs)) \<and>
             kb_documents db' d =
               map_option (mark_ready (length (zip (chunk t) vecs)) (length raw)) (kb_documents db d))
      | IngestFailed stage err \<Rightarrow>
          doc_chunks d db' = doc_chunks d db \<and>
          (\<exists>msg. kb_documents db' d = map_option (mark_failed msg) (kb_documents db d))
      | IngestRaises exc \<Rightarrow>
          doc_chunks d db' = doc_chunks d db \<and>
          (kb_documents db' d = kb_documents db d \<or>
           kb_documents db' d = map_option mark_processing (kb_documents db d)))"

lemma mark_error_outcome:
  "mark_error o1 stage d msg err (update_document d mark_processing db) = (res, db') \<Longrightarrow>
   ingest_outcome env d k filename raw db res db'"
  by (auto simp: mark_error_def ingest_outcome_def split: option.splits)

lemma kb_store_outcome:
  assumes "kb_store env d k (chunk t) vecs (length raw) (update_document d mark_processing db) = (res, db')"
    "parse_document (ie_parse env) filename raw = Inr t"
    "embed_all (ie_embed env) (batches (chunk t)) [] = Inr vecs"
  shows "ingest_outcome env d k filename raw db res db'"
proof (cases "ie_db env 1")
  case None
  then have "res = IngestOk (length (chunk t))"
    "db' = replace_chunks d k (zip (chunk t) vecs) (length raw) (update_document d mark_processing db)"
    using assms(1) by (auto simp: kb_store_def)
  then show ?thesis
    using assms(2,3) by (simp add: ingest_outcome_def replace_chunks_own replace_after_mark)
next
  case (Some exc)
  then show ?thesis
    using assms(1) mark_error_outcome by (auto simp: kb_store_def)
qed

lemma batches_Nil [simp]: "batches [] = []"
  by (subst batches.simps) simp

lemma kb_ingest_outcome:
  assumes "kb_ingest_document env d k filename raw db = (res, db')"
  shows "ingest_outcome env d k filename raw db res db'"
proof (cases "ie_db env 0")
  case (Some exc)
  then show ?thesis
    using assms by (auto simp: kb_ingest_document_def ingest_outcome_def)
next
  case up: None
  let ?db1 = "update_document d mark_processing db"
  show ?thesis
  proof (cases "parse_document (ie_parse env) filename raw")
    case (Inl err)
    then show ?thesis
      using assms up mark_error_outcome by (simp add: kb_ingest_document_def)
  next
    case parsed: (Inr t)
    show ?thesis
    proof (cases "chunk t = []")
      case True
      then show ?thesis
        using assms up parsed replace_chunks_own [of d k "[]" "length raw" ?db1]
          replace_after_mark [of d k "[]" "length raw" db]
        by (cases "ie_db env (Suc 0)") (auto simp: kb_ingest_document_def ingest_outcome_def Let_def)
    next
      case False
      then show ?thesis
        using assms up parsed mark_error_outcome kb_store_outcome
        by (cases "embed_all (ie_embed env) (batches (chunk t)) []") (auto simp: kb_ingest_document_def Let_def)
    qed
  qed
qed

lemma kb_ingest_others:
  assumes "kb_ingest_document env d k filename raw db = (res, db')" "d' \<noteq> d"
  shows "kb_documents db' d' = kb_documents db d' \<and> doc_chunks d' db' = doc_chunks d' db"
  using assms
  by (auto simp: kb_ingest_document_def kb_store_def mark_error_def Let_def replace_chunks_other
      replace_other_document split: option.splits sum.splits if_splits)

text \<open>C33: Ingesting a document is atomic. Whatever fails (the parser, the embedding server, any of the
  three transactions), the stored chunks of the document are those of before or exactly those of
  the new text, numbered from 0 and in its order, and they are the new ones only when the job
  answers ok. A failure it catches is recorded on the row; when even that write fails the job
  raises and the row stays as it was or as processing. No other document is touched.\<close>

theorem kb_ingest_atomic:
  "case kb_ingest_document env d k filename raw db of (res, db') \<Rightarrow>
     ingest_outcome env d k filename raw db res db' \<and>
     (\<forall>d'. d' = d \<or> kb_documents db' d' = kb_documents db d' \<and> doc_chunks d' db' = doc_chunks d' db)"
proof (cases "kb_ingest_document env d k filename raw db")
  case (Pair res db')
  show ?thesis
    unfolding Pair prod.case using kb_ingest_outcome [OF Pair] kb_ingest_others [OF Pair] by blast
qed

section \<open>An embedding server that answers what it was asked\<close>

definition embed_complete :: "embed_batch \<Rightarrow> bool" where
  "embed_complete emb \<longleftrightarrow> (\<forall>b vs. emb b = Inr (Some vs) \<longrightarrow> length vs = length b)"

lemma embed_all_length:
  assumes "embed_complete emb" "embed_all emb bs acc = Inr vecs"
  shows "length vecs = length acc + length (concat bs)"
  using assms(2)
proof (induction bs arbitrary: acc)
  case (Cons b bs)
  then obtain vs where "emb b = Inr (Some vs)" "embed_all emb bs (acc @ vs) = Inr vecs"
    by (auto split: sum.splits option.splits)
  then show ?case
    using Cons.IH [of "acc @ vs"] assms(1) by (simp add: embed_complete_def)
qed simp

text \<open>When the server answers each batch with one vector per text, a job that answers ok has
  stored every chunk of the document, and the counter on the row is their number.\<close>

lemma kb_ingest_complete:
  assumes "embed_complete (ie_embed env)"
    "kb_ingest_document env d k filename raw db = (IngestOk n, db')"
    "parse_document (ie_parse env) filename raw = Inr t"
  shows "n = length (chunk t) \<and> map kc_text (doc_chunks d db') = chunk t \<and>
     map_option kd_chunk_count (kb_documents db' d) = map_option (\<lambda>_. length (chunk t)) (kb_documents db d)"
proof -
  from kb_ingest_outcome [OF assms(2)] assms(3) obtain vecs where
    n: "n = length (chunk t)" and
    vecs: "embed_all (ie_embed env) (batches (chunk t)) [] = Inr vecs" and
    rows: "doc_chunks d db' = map (chunk_row d k) (enumerate 0 (zip (chunk t) vecs))" and
    doc: "kb_documents db' d =
      map_option (mark_ready (length (zip (chunk t) vecs)) (length raw)) (kb_documents db d)"
    by (auto simp: ingest_outcome_def)
  have len: "length vecs = length (chunk t)"
    using embed_all_length [OF assms(1) vecs] by (simp add: concat_batches)
  have "kc_text \<circ> chunk_row d k = fst \<circ> snd"
    by (simp add: fun_eq_iff chunk_row_def split: prod.split)
  then have "map kc_text (doc_chunks d db') = map fst (map snd (enumerate 0 (zip (chunk t) vecs)))"
    unfolding rows map_map by (simp only:)
  then have "map kc_text (doc_chunks d db') = chunk t"
    using len by (simp del: map_map add: map_snd_enumerate)
  then show ?thesis
    using n doc len by (simp add: option.map_comp o_def mark_ready_def)
qed


definition ok_embed :: embed_batch where
  "ok_embed b = Inr (Some (map (\<lambda>_. [1]) b))"

definition ok_ingest :: ingest_env where
  "ok_ingest = \<lparr>ie_parse = \<lparr>pe_utf8 = (\<lambda>_. Some ''We open at nine. Call us.''), pe_pdf = (\<lambda>_. Inl ''no''),
     pe_docx = (\<lambda>_. Inl ''no'')\<rparr>, ie_embed = ok_embed, ie_db = (\<lambda>_. None)\<rparr>"

definition fresh_document :: kb_document where
  "fresh_document = \<lparr>kd_status = DocPending, kd_chunk_count = 0, kd_bytes_total = 0, kd_error_msg = None\<rparr>"

definition one_document :: kb_db where
  "one_document = \<lparr>kb_chunks = [], kb_documents = [''d'' \<mapsto> fresh_document]\<rparr>"

lemma ok_embed_complete: "embed_complete ok_embed"
  by (auto simp: embed_complete_def ok_embed_def)

lemma ok_chunk: "chunk ''We open at nine. Call us.'' = [''We open at nine. Call us.'']"
  by code_simp

definition short_embed :: embed_batch where
  "short_embed b = Inr (Some [])"

text \<open>A server that answers fewer vectors than texts: the code zips them and drops the rest, the job
  answers ok with the number of chunks it cut, and nothing is stored.\<close>

lemma short_answer_truncates:
  "let (res, db') = kb_ingest_document (ok_ingest\<lparr>ie_embed := short_embed\<rparr>) ''d'' ''k'' ''a.txt'' [] one_document in
     res = IngestOk 1 \<and> doc_chunks ''d'' db' = [] \<and>
     map_option kd_status (kb_documents db' ''d'') = Some DocReady"
proof -
  have "parse_document (ie_parse ok_ingest) ''a.txt'' [] = Inr ''We open at nine. Call us.''"
    by code_simp
  then show ?thesis
    by (simp add: kb_ingest_document_def Let_def ok_chunk kb_store_def ok_ingest_def
        batches.simps EMBED_BATCH_SIZE_def short_embed_def replace_chunks_own replace_chunks_def
        one_document_def doc_chunks_def update_document_def mark_ready_def mark_processing_def fresh_document_def)
qed

lemma kb_ingest_complete_witness:
  "map kc_text (doc_chunks ''d'' (snd (kb_ingest_document ok_ingest ''d'' ''k'' ''a.txt'' [] one_document))) =
     [''We open at nine. Call us.'']"
proof -
  let ?r = "kb_ingest_document ok_ingest ''d'' ''k'' ''a.txt'' [] one_document"
  have p: "parse_document (ie_parse ok_ingest) ''a.txt'' [] = Inr ''We open at nine. Call us.''"
    by code_simp
  have "fst ?r = IngestOk 1"
    using p by (simp add: kb_ingest_document_def Let_def ok_chunk kb_store_def ok_ingest_def
        batches.simps EMBED_BATCH_SIZE_def ok_embed_def)
  then have "?r = (IngestOk 1, snd ?r)"
    by (metis prod.collapse)
  from kb_ingest_complete [OF _ this p] show ?thesis
    using ok_embed_complete by (simp add: ok_ingest_def ok_chunk)
qed

end
