(* ===== verification/Agent_Dsl.thy ===== *)
theory Agent_Dsl
  imports Prelude
begin

text \<open>
  \<open>schemas/agent_dsl.py\<close>: the persona, the script and the scenario tree of an agent, as the panel
  accepts them in a request and as it stores them. A field with a default is optional, None when
  the request does not give it; \<open>model_dump\<close> writes the default then, or leaves the field out with
  \<open>exclude_unset\<close>. A decoded JSON object has each key once.
\<close>

section \<open>The models\<close>

record dsl_persona =
  pe_name :: string
  pe_age_range :: string
  pe_gender :: string
  pe_accent :: string
  pe_backstory :: string
  pe_description :: "string option"
  pe_guidelines :: "string option"
  pe_disclosure_response :: "string option"

record dsl_section =
  sc_id :: string
  sc_title :: string
  sc_content :: string
  sc_expected_response_keywords :: "string list option"

record dsl_objection =
  ob_id :: string
  ob_trigger :: string
  ob_response :: string

record dsl_script =
  sr_opening_variants :: "string list"
  sr_sections :: "dsl_section list option"
  sr_closing :: string
  sr_objections :: "dsl_objection list option"

text \<open>\<open>graph\<close> may be given as null; the tree keeps fields it does not know.\<close>

record dsl_scenario =
  ce_rules :: "pyval list option"
  ce_graph :: "pyval option"
  ce_more :: "pyval dict"

section \<open>Dumping\<close>

text \<open>The fields of a model in their order: name, value when given, default.\<close>

definition dump_fields :: "bool \<Rightarrow> (string \<times> pyval option \<times> pyval) list \<Rightarrow> pyval dict" where
  "dump_fields exclude_unset fs =
     concat (map (\<lambda>(k, v, dflt).
       case v of Some x \<Rightarrow> [(k, x)] | None \<Rightarrow> if exclude_unset then [] else [(k, dflt)]) fs)"

definition DSL_DISCLOSURE :: string where
  "DSL_DISCLOSURE = ''I'' @ [CHR 0x27] @ ''m an AI assistant calling on behalf of the team. '' @
     ''I can answer questions, take requests, and connect you to a human.''"

definition persona_dump :: "bool \<Rightarrow> dsl_persona \<Rightarrow> pyval dict" where
  "persona_dump ex p = dump_fields ex
     [(''name'', Some (PStr (pe_name p)), PNone), (''age_range'', Some (PStr (pe_age_range p)), PNone),
      (''gender'', Some (PStr (pe_gender p)), PNone), (''accent'', Some (PStr (pe_accent p)), PNone),
      (''backstory'', Some (PStr (pe_backstory p)), PNone),
      (''description'', map_option PStr (pe_description p), PStr []),
      (''guidelines'', map_option PStr (pe_guidelines p), PStr []),
      (''disclosure_response'', map_option PStr (pe_disclosure_response p), PStr DSL_DISCLOSURE)]"

definition section_dump :: "bool \<Rightarrow> dsl_section \<Rightarrow> pyval" where
  "section_dump ex s = PDict (dump_fields ex
     [(''id'', Some (PStr (sc_id s)), PNone), (''title'', Some (PStr (sc_title s)), PNone),
      (''content'', Some (PStr (sc_content s)), PNone),
      (''expected_response_keywords'',
         map_option (\<lambda>ks. PList (map PStr ks)) (sc_expected_response_keywords s), PList [])])"

definition objection_dump :: "bool \<Rightarrow> dsl_objection \<Rightarrow> pyval" where
  "objection_dump ex b = PDict (dump_fields ex
     [(''id'', Some (PStr (ob_id b)), PNone), (''trigger'', Some (PStr (ob_trigger b)), PNone),
      (''response'', Some (PStr (ob_response b)), PNone)])"

definition script_dump :: "bool \<Rightarrow> dsl_script \<Rightarrow> pyval dict" where
  "script_dump ex s = dump_fields ex
     [(''opening_variants'', Some (PList (map PStr (sr_opening_variants s))), PNone),
      (''sections'', map_option (\<lambda>xs. PList (map (section_dump ex) xs)) (sr_sections s), PList []),
      (''closing'', Some (PStr (sr_closing s)), PNone),
      (''objections'', map_option (\<lambda>xs. PList (map (objection_dump ex) xs)) (sr_objections s), PList [])]"

definition scenario_dump :: "bool \<Rightarrow> dsl_scenario \<Rightarrow> pyval dict" where
  "scenario_dump ex t = dump_fields ex
     [(''rules'', map_option PList (ce_rules t), PList []), (''graph'', ce_graph t, PNone)] @ ce_more t"

text \<open>An agent for the examples.\<close>

definition sam_persona :: dsl_persona where
  "sam_persona = \<lparr>pe_name = ''Sam'', pe_age_range = ''30-40'', pe_gender = ''female'', pe_accent = ''us'',
     pe_backstory = [], pe_description = None, pe_guidelines = None, pe_disclosure_response = None\<rparr>"

definition sam_script :: dsl_script where
  "sam_script = \<lparr>sr_opening_variants = [''Hi, this is Sam.'', ''Hello, Sam here.''], sr_sections = None,
     sr_closing = ''Bye.'', sr_objections = None\<rparr>"

definition empty_scenario :: dsl_scenario where
  "empty_scenario = \<lparr>ce_rules = None, ce_graph = None, ce_more = []\<rparr>"

section \<open>Validation\<close>

definition only_keys :: "string list \<Rightarrow> pyval dict \<Rightarrow> bool" where
  "only_keys ks d = list_all (\<lambda>kv. fst kv \<in> set ks) d"

fun str_of :: "pyval \<Rightarrow> string option" where
  "str_of (PStr s) = Some s"
| "str_of _ = None"

definition req_str :: "pyval dict \<Rightarrow> string \<Rightarrow> string option" where
  "req_str d k = Option.bind (map_of d k) str_of"

text \<open>A field with a default: absent, or of the right type.\<close>

definition opt_of :: "(pyval \<Rightarrow> 'a option) \<Rightarrow> pyval dict \<Rightarrow> string \<Rightarrow> 'a option option" where
  "opt_of f d k = (case map_of d k of None \<Rightarrow> Some None | Some v \<Rightarrow> map_option Some (f v))"

fun list_of :: "(pyval \<Rightarrow> 'a option) \<Rightarrow> pyval \<Rightarrow> 'a list option" where
  "list_of f (PList xs) = those (map f xs)"
| "list_of f _ = None"

fun any_list :: "pyval \<Rightarrow> pyval list option" where
  "any_list (PList xs) = Some xs"
| "any_list _ = None"

fun graph_of :: "pyval \<Rightarrow> pyval option" where
  "graph_of PNone = Some PNone"
| "graph_of (PDict d) = Some (PDict d)"
| "graph_of _ = None"

definition AGE_RANGES :: "string list" where
  "AGE_RANGES = [''20-30'', ''30-40'', ''40-50'', ''50+'']"

definition GENDERS :: "string list" where
  "GENDERS = [''female'', ''male'', ''neutral'']"

definition one_of :: "string list \<Rightarrow> string \<Rightarrow> string option" where
  "one_of vs s = (if s \<in> set vs then Some s else None)"

definition PERSONA_FIELDS :: "string list" where
  "PERSONA_FIELDS = [''name'', ''age_range'', ''gender'', ''accent'', ''backstory'', ''description'',
     ''guidelines'', ''disclosure_response'']"

definition persona_of :: "pyval dict \<Rightarrow> dsl_persona option" where
  "persona_of d =
     (if only_keys PERSONA_FIELDS d
      then Option.bind (req_str d ''name'') (\<lambda>nm.
        Option.bind (Option.bind (req_str d ''age_range'') (one_of AGE_RANGES)) (\<lambda>age.
        Option.bind (Option.bind (req_str d ''gender'') (one_of GENDERS)) (\<lambda>gen.
        Option.bind (req_str d ''accent'') (\<lambda>acc.
        Option.bind (req_str d ''backstory'') (\<lambda>bs.
        Option.bind (opt_of str_of d ''description'') (\<lambda>desc.
        Option.bind (opt_of str_of d ''guidelines'') (\<lambda>gl.
        Option.bind (opt_of str_of d ''disclosure_response'') (\<lambda>dr.
        Some \<lparr>pe_name = nm, pe_age_range = age, pe_gender = gen, pe_accent = acc, pe_backstory = bs,
          pe_description = desc, pe_guidelines = gl, pe_disclosure_response = dr\<rparr>))))))))
      else None)"

fun section_of :: "pyval \<Rightarrow> dsl_section option" where
  "section_of (PDict d) =
     (if only_keys [''id'', ''title'', ''content'', ''expected_response_keywords''] d
      then Option.bind (req_str d ''id'') (\<lambda>i.
        Option.bind (req_str d ''title'') (\<lambda>t.
        Option.bind (req_str d ''content'') (\<lambda>c.
        Option.bind (opt_of (list_of str_of) d ''expected_response_keywords'') (\<lambda>ks.
        Some \<lparr>sc_id = i, sc_title = t, sc_content = c, sc_expected_response_keywords = ks\<rparr>))))
      else None)"
| "section_of _ = None"

fun objection_of :: "pyval \<Rightarrow> dsl_objection option" where
  "objection_of (PDict d) =
     (if only_keys [''id'', ''trigger'', ''response''] d
      then Option.bind (req_str d ''id'') (\<lambda>i.
        Option.bind (req_str d ''trigger'') (\<lambda>t.
        Option.bind (req_str d ''response'') (\<lambda>r.
        Some \<lparr>ob_id = i, ob_trigger = t, ob_response = r\<rparr>)))
      else None)"
| "objection_of _ = None"

definition variants_of :: "pyval \<Rightarrow> string list option" where
  "variants_of v = Option.bind (list_of str_of v) (\<lambda>vs. if 1 \<le> length vs \<and> length vs \<le> 20 then Some vs else None)"

definition SCRIPT_FIELDS :: "string list" where
  "SCRIPT_FIELDS = [''opening_variants'', ''sections'', ''closing'', ''objections'']"

definition script_of :: "pyval dict \<Rightarrow> dsl_script option" where
  "script_of d =
     (if only_keys SCRIPT_FIELDS d
      then Option.bind (Option.bind (map_of d ''opening_variants'') variants_of) (\<lambda>ov.
        Option.bind (opt_of (list_of section_of) d ''sections'') (\<lambda>ss.
        Option.bind (req_str d ''closing'') (\<lambda>cl.
        Option.bind (opt_of (list_of objection_of) d ''objections'') (\<lambda>os.
        Some \<lparr>sr_opening_variants = ov, sr_sections = ss, sr_closing = cl, sr_objections = os\<rparr>))))
      else None)"

definition scenario_of :: "pyval dict \<Rightarrow> dsl_scenario option" where
  "scenario_of d =
     Option.bind (opt_of any_list d ''rules'') (\<lambda>rs.
     Option.bind (opt_of graph_of d ''graph'') (\<lambda>g.
     Some \<lparr>ce_rules = rs, ce_graph = g, ce_more = filter (\<lambda>kv. fst kv \<notin> {''rules'', ''graph''}) d\<rparr>))"

text \<open>What the validation ensures of a model beyond the types of its fields.\<close>

definition persona_valid :: "dsl_persona \<Rightarrow> bool" where
  "persona_valid p \<longleftrightarrow> pe_age_range p \<in> set AGE_RANGES \<and> pe_gender p \<in> set GENDERS"

definition script_valid :: "dsl_script \<Rightarrow> bool" where
  "script_valid s \<longleftrightarrow> 1 \<le> length (sr_opening_variants s) \<and> length (sr_opening_variants s) \<le> 20"

lemma sam_valid [simp]: "persona_valid sam_persona" "script_valid sam_script"
  by (simp_all add: persona_valid_def script_valid_def sam_persona_def sam_script_def AGE_RANGES_def GENDERS_def)

section \<open>Reading back what was stored\<close>

text \<open>The model with its defaults made explicit, which is what a stored one parses to.\<close>

definition given_or :: "'a option \<Rightarrow> 'a \<Rightarrow> 'a option" where
  "given_or v dflt = Some (case v of None \<Rightarrow> dflt | Some x \<Rightarrow> x)"

definition persona_full :: "dsl_persona \<Rightarrow> dsl_persona" where
  "persona_full p = p\<lparr>pe_description := given_or (pe_description p) [], pe_guidelines := given_or (pe_guidelines p) [],
     pe_disclosure_response := given_or (pe_disclosure_response p) DSL_DISCLOSURE\<rparr>"

definition section_full :: "dsl_section \<Rightarrow> dsl_section" where
  "section_full s = s\<lparr>sc_expected_response_keywords := given_or (sc_expected_response_keywords s) []\<rparr>"

definition script_full :: "dsl_script \<Rightarrow> dsl_script" where
  "script_full s = s\<lparr>sr_sections := Some (map section_full (case sr_sections s of None \<Rightarrow> [] | Some xs \<Rightarrow> xs)),
     sr_objections := given_or (sr_objections s) []\<rparr>"

lemma those_map_Some [simp]: "those (map (\<lambda>x. Some (f x)) xs) = Some (map f xs)"
  by (induction xs) simp_all

lemma dump_fields_simps [simp]:
  "dump_fields ex [] = []"
  "dump_fields ex ((k, Some x, dflt) # fs) = (k, x) # dump_fields ex fs"
  "dump_fields False ((k, None, dflt) # fs) = (k, dflt) # dump_fields False fs"
  "dump_fields True ((k, None, dflt) # fs) = dump_fields True fs"
  by (simp_all add: dump_fields_def)

lemmas dsl_simps = only_keys_def req_str_def opt_of_def given_or_def o_def

lemma list_of_strings [simp]: "list_of str_of (PList (map PStr ss)) = Some ss"
  by (simp add: o_def)

lemma those_Some [simp]: "those (map Some xs) = Some xs"
  by (induction xs) simp_all

lemma section_of_dump: "section_of (section_dump False s) = Some (section_full s)"
  by (cases "sc_expected_response_keywords s") (simp_all add: section_dump_def section_full_def dsl_simps)

lemma objection_of_dump: "objection_of (objection_dump ex b) = Some b"
  by (simp add: objection_dump_def dsl_simps)

lemma list_of_nothing [simp]: "list_of f (PList []) = Some []"
  by simp

lemma lists_of_dump [simp]:
  "list_of section_of (PList (map (section_dump False) xs)) = Some (map section_full xs)"
  "list_of objection_of (PList (map (objection_dump ex) bs)) = Some bs"
  by (simp_all add: o_def section_of_dump objection_of_dump)

lemma section_dump_full: "section_dump ex (section_full s) = section_dump False s"
  by (cases "sc_expected_response_keywords s") (simp_all add: section_dump_def section_full_def given_or_def)

lemma objection_dump_any: "objection_dump ex b = objection_dump False b"
  by (simp add: objection_dump_def)

lemma persona_of_valid: "persona_of d = Some p \<Longrightarrow> persona_valid p"
  by (auto simp: persona_valid_def persona_of_def one_of_def Option.bind_eq_Some_conv split: if_splits)

lemma script_of_valid: "script_of d = Some s \<Longrightarrow> script_valid s"
  by (auto simp: script_valid_def script_of_def variants_of_def Option.bind_eq_Some_conv split: if_splits)

lemma persona_of_dump:
  assumes "persona_valid p"
  shows "persona_of (persona_dump False p) = Some (persona_full p)"
  using assms by (cases "pe_description p"; cases "pe_guidelines p"; cases "pe_disclosure_response p")
    (simp_all add: persona_valid_def persona_of_def persona_dump_def persona_full_def PERSONA_FIELDS_def one_of_def dsl_simps)

lemma persona_dump_full: "persona_dump ex (persona_full p) = persona_dump False p"
  by (cases "pe_description p"; cases "pe_guidelines p"; cases "pe_disclosure_response p")
    (simp_all add: persona_dump_def persona_full_def given_or_def)

lemma script_of_dump:
  assumes "script_valid s"
  shows "script_of (script_dump False s) = Some (script_full s)"
  using assms by (cases "sr_sections s"; cases "sr_objections s")
    (simp_all add: script_valid_def script_of_def script_dump_def script_full_def SCRIPT_FIELDS_def variants_of_def dsl_simps del: list_of.simps)

lemma script_dump_full: "script_dump ex (script_full s) = script_dump False s"
  by (cases "sr_sections s"; cases "sr_objections s")
    (simp_all add: script_dump_def script_full_def given_or_def section_dump_full objection_dump_any [of ex] o_def)

text \<open>
  a persona and a script the panel has accepted are stored in a form that it accepts again, and
  accepting that again stores the very same: an editor that sends back what it was shown changes
  nothing.
\<close>

lemma agent_dsl_roundtrip:
  assumes "persona_of d = Some p" "script_of e = Some s"
  shows "\<exists>p' s'. persona_of (persona_dump False p) = Some p' \<and> script_of (script_dump False s) = Some s' \<and>
     persona_dump False p' = persona_dump False p \<and> script_dump False s' = script_dump False s"
  using persona_of_dump [of p] persona_of_valid [OF assms(1)] persona_dump_full [of False p]
    script_of_dump [of s] script_of_valid [OF assms(2)] script_dump_full [of False s]
  by blast

lemma agent_dsl_roundtrip_witness:
  "\<exists>p s. persona_of [(''name'', PStr ''Sam''), (''age_range'', PStr ''30-40''), (''gender'', PStr ''female''),
       (''accent'', PStr ''us''), (''backstory'', PStr [])] = Some p \<and>
     script_of [(''opening_variants'', PList [PStr ''Hi.'']), (''closing'', PStr ''Bye.'')] = Some s \<and>
     map fst (persona_dump False p) = PERSONA_FIELDS \<and> persona_of (persona_dump False p) \<noteq> None \<and>
     script_of (script_dump False s) \<noteq> None"
proof -
  let ?d = "[(''name'', PStr ''Sam''), (''age_range'', PStr ''30-40''), (''gender'', PStr ''female''),
       (''accent'', PStr ''us''), (''backstory'', PStr [])]"
  let ?e = "[(''opening_variants'', PList [PStr ''Hi.'']), (''closing'', PStr ''Bye.'')]"
  obtain p where p: "persona_of ?d = Some p" and n: "map fst (persona_dump False p) = PERSONA_FIELDS"
    by (simp add: persona_of_def PERSONA_FIELDS_def one_of_def AGE_RANGES_def GENDERS_def persona_dump_def dsl_simps)
  obtain s where s: "script_of ?e = Some s"
    by (simp add: script_of_def SCRIPT_FIELDS_def variants_of_def dsl_simps)
  from agent_dsl_roundtrip [OF p s] p s n show ?thesis by auto
qed

end
