(* ===== verification/Panel_Content.thy ===== *)
theory Panel_Content
  imports Panel_Auth Kb_Ingest Agent_Dsl
begin

text \<open>
  What a tenant owns and edits in the panel: agents (\<open>services/agents_service.py\<close>, \<open>api/v1/agents.py\<close>),
  voices (\<open>services/voice_service.py\<close>, \<open>api/v1/voices.py\<close>, \<open>jobs/voice_clone_job.py\<close>), knowledge bases
  (\<open>services/kb_service.py\<close>, \<open>api/v1/kb.py\<close>) and ViciDial servers (\<open>api/v1/vicidial_servers.py\<close>). A
  route is the service's function, the audit row and the reply; the row that is written is subject
  to the foreign keys of its table, which say nothing of tenants. Object storage, the job queue, the
  embedding and the synthesis server are effects or what they answer.
\<close>

section \<open>Common parts of the routes\<close>

definition lookup ::
  "(panel_db \<Rightarrow> 'r list) \<Rightarrow> ('r \<Rightarrow> uuid) \<Rightarrow> ('r \<Rightarrow> uuid) \<Rightarrow> string \<Rightarrow> uuid \<Rightarrow> uuid \<Rightarrow> 'r handler" where
  "lookup tab key tenant what tenant_id i =
     bnd (reading (\<lambda>db. get_row key i (tab db))) (\<lambda>row.
       case row of
         None \<Rightarrow> raise 404 (what @ '' not found'')
       | Some r \<Rightarrow> if tenant r \<noteq> tenant_id then raise 404 (what @ '' not found'') else ret r)"

definition keep_or :: "'a option \<Rightarrow> 'a \<Rightarrow> 'a" where
  "keep_or new old = (case new of None \<Rightarrow> old | Some v \<Rightarrow> v)"

definition set_or :: "'a option \<Rightarrow> 'a option \<Rightarrow> 'a option" where
  "set_or new old = (case new of None \<Rightarrow> old | Some v \<Rightarrow> Some v)"

text \<open>A reference to a row is accepted when the row exists, whoever owns it.\<close>

definition fk :: "('r \<Rightarrow> uuid) \<Rightarrow> 'r list \<Rightarrow> uuid option \<Rightarrow> bool" where
  "fk key rows r = (case r of None \<Rightarrow> True | Some i \<Rightarrow> i \<in> key ` set rows)"

text \<open>A value compared with an enumeration column has to be one of its labels, or the database refuses
  the statement.\<close>

definition enum_ok :: "string list \<Rightarrow> string list \<Rightarrow> unit handler" where
  "enum_ok labels vs = (if set vs \<subseteq> set labels then ret () else fails_with ''DBAPIError: invalid input value for enum'')"

definition agent_statuses :: "string list" where "agent_statuses = [''draft'', ''ready'', ''archived'']"

text \<open>\<open>ILIKE\<close>: \<open>%\<close> is any text, \<open>_\<close> any character and the backslash quotes; the pattern is the
  search text as it comes, between two percent signs.\<close>

fun like :: "string \<Rightarrow> string \<Rightarrow> bool" where
  "like [] s = (s = [])"
| "like (p # ps) [] = (p = CHR 0x25 \<and> like ps [])"
| "like (p # ps) (c # cs) =
     (if p = CHR 0x25 then like ps (c # cs) \<or> like (p # ps) cs
      else if p = CHR ''_'' then like ps cs
      else if p = CHR 0x5C then (case ps of [] \<Rightarrow> False | q # qs \<Rightarrow> q = c \<and> like qs cs)
      else p = c \<and> like ps cs)"

definition ilike_contains :: "string \<Rightarrow> string \<Rightarrow> bool" where
  "ilike_contains part s = like (lower (CHR 0x25 # part @ [CHR 0x25])) (lower s)"

definition paged ::
  "nat \<Rightarrow> nat \<Rightarrow> ('r \<Rightarrow> instant) \<Rightarrow> (panel_db \<Rightarrow> 'r list) \<Rightarrow> ('r list \<times> nat) handler" where
  "paged limit_n offset_n key base =
     reading (\<lambda>db. (page limit_n offset_n (order_desc key (base db)), length (base db)))"

section \<open>Agents\<close>

definition list_agents ::
  "nat \<Rightarrow> nat \<Rightarrow> string option \<Rightarrow> string option \<Rightarrow> user_row \<Rightarrow> (panel_agent list \<times> nat) handler" where
  "list_agents limit_n offset_n name_contains status_filter u =
     bnd (guard_that (1 \<le> limit_n \<and> limit_n \<le> 500 \<and> (case name_contains of None \<Rightarrow> True | Some p \<Rightarrow> length p \<le> 200))
            422 ''validation error'') (\<lambda>_.
     bnd (case str_or_none status_filter of None \<Rightarrow> ret () | Some st \<Rightarrow> enum_ok agent_statuses [st]) (\<lambda>_.
     paged limit_n offset_n pa_updated_at (\<lambda>db. filter (\<lambda>a. pa_tenant_id a = us_tenant_id u \<and>
         (case str_or_none name_contains of None \<Rightarrow> True | Some p \<Rightarrow> ilike_contains p (pa_name a)) \<and>
         (case str_or_none status_filter of None \<Rightarrow> True | Some st \<Rightarrow> pa_status a = st)) (agents db))))"

definition get_agent :: "uuid \<Rightarrow> user_row \<Rightarrow> panel_agent handler" where
  "get_agent agent_id u = lookup agents pa_id pa_tenant_id ''agent'' (us_tenant_id u) agent_id"

record agent_create =
  anc_name :: string
  anc_persona :: dsl_persona
  anc_script :: dsl_script
  anc_scenario_tree :: dsl_scenario
  anc_voice_id :: "uuid option"
  anc_language :: string
  anc_kb_collection_id :: "uuid option"
  anc_campaign_id :: "uuid option"

definition new_agent :: "req_ctx \<Rightarrow> uuid \<Rightarrow> agent_create \<Rightarrow> panel_agent" where
  "new_agent cx tenant_id b = \<lparr>pa_id = rq_new_id cx, pa_tenant_id = tenant_id, pa_name = anc_name b,
     pa_persona = persona_dump False (anc_persona b), pa_voice_id = anc_voice_id b, pa_language = anc_language b,
     pa_script = script_dump False (anc_script b), pa_scenario_tree = scenario_dump False (anc_scenario_tree b),
     pa_training_recordings = [],
     pa_kb_collection_id = anc_kb_collection_id b, pa_campaign_id = None, pa_status = ''draft'',
     pa_created_at = rq_now cx, pa_updated_at = rq_now cx\<rparr>"

definition agent_fks :: "panel_agent \<Rightarrow> panel_db \<Rightarrow> bool" where
  "agent_fks a db = (fk vo_id (voices db) (pa_voice_id a) \<and> fk kb_id (kbs db) (pa_kb_collection_id a))"

definition insert_agent :: "panel_agent \<Rightarrow> unit handler" where
  "insert_agent a = flushing (\<lambda>db. agent_fks a db \<and> pa_id a \<notin> pa_id ` set (agents db)) ''IntegrityError''
     (\<lambda>db. db\<lparr>agents := agents db @ [a]\<rparr>)"

definition agent_create_valid :: "agent_create \<Rightarrow> bool" where
  "agent_create_valid b \<longleftrightarrow> 1 \<le> length (anc_name b) \<and> length (anc_name b) \<le> 200 \<and>
     persona_valid (anc_persona b) \<and> script_valid (anc_script b)"

definition create_agent :: "req_ctx \<Rightarrow> agent_create \<Rightarrow> user_row \<Rightarrow> panel_agent handler" where
  "create_agent cx b u =
     bnd (guard_that (agent_create_valid b) 422 ''validation error'') (\<lambda>_.
     (let a = new_agent cx (us_tenant_id u) b in
      bnd (insert_agent a) (\<lambda>_.
      bnd (audit_as cx u ''agent.create'' ''agent'' (pa_id a) [(''name'', PStr (pa_name a))]) (\<lambda>_.
      ret a))))"

text \<open>The update of a row: an assignment that changes nothing emits no statement and leaves
  \<open>updated_at\<close>.\<close>

definition touch_agent :: "instant \<Rightarrow> panel_agent \<Rightarrow> panel_agent \<Rightarrow> panel_agent" where
  "touch_agent now old new = (if new = old then old else new\<lparr>pa_updated_at := now\<rparr>)"

definition save_agent :: "req_ctx \<Rightarrow> panel_agent \<Rightarrow> panel_agent \<Rightarrow> panel_agent handler" where
  "save_agent cx old new =
     (let a = touch_agent (rq_now cx) old new in
      bnd (flushing (agent_fks a) ''IntegrityError''
             (\<lambda>db. db\<lparr>agents := put_row pa_id (pa_id old) (\<lambda>_. a) (agents db)\<rparr>)) (\<lambda>_. ret a))"

text \<open>\<open>AgentUpdate\<close>, and \<open>model_dump(exclude_unset=True)\<close> of it for the audit, which is no JSON when
  a \<open>UUID\<close> was given.\<close>

record agent_update =
  anu_name :: "string option"
  anu_persona :: "dsl_persona option"
  anu_script :: "dsl_script option"
  anu_scenario_tree :: "dsl_scenario option"
  anu_voice_id :: "uuid option"
  anu_language :: "string option"
  anu_kb_collection_id :: "uuid option"
  anu_campaign_id :: "uuid option"

definition opt_field :: "string \<Rightarrow> ('a \<Rightarrow> pyval) \<Rightarrow> 'a option \<Rightarrow> pyval dict" where
  "opt_field k f x = (case x of None \<Rightarrow> [] | Some v \<Rightarrow> [(k, f v)])"

definition dump_agent_update :: "agent_update \<Rightarrow> pyval dict option" where
  "dump_agent_update b =
     (if anu_voice_id b = None \<and> anu_kb_collection_id b = None \<and> anu_campaign_id b = None
      then Some (opt_field ''name'' PStr (anu_name b) @
        opt_field ''persona'' (\<lambda>p. PDict (persona_dump True p)) (anu_persona b) @
        opt_field ''script'' (\<lambda>t. PDict (script_dump True t)) (anu_script b) @
        opt_field ''scenario_tree'' (\<lambda>t. PDict (scenario_dump True t)) (anu_scenario_tree b) @
        opt_field ''language'' PStr (anu_language b))
      else None)"

definition apply_agent_update :: "agent_update \<Rightarrow> panel_agent \<Rightarrow> panel_agent" where
  "apply_agent_update b a = a\<lparr>pa_persona := keep_or (map_option (persona_dump False) (anu_persona b)) (pa_persona a),
     pa_script := keep_or (map_option (script_dump False) (anu_script b)) (pa_script a),
     pa_scenario_tree := keep_or (map_option (scenario_dump False) (anu_scenario_tree b)) (pa_scenario_tree a),
     pa_name := keep_or (anu_name b) (pa_name a), pa_voice_id := set_or (anu_voice_id b) (pa_voice_id a),
     pa_language := keep_or (anu_language b) (pa_language a),
     pa_kb_collection_id := set_or (anu_kb_collection_id b) (pa_kb_collection_id a)\<rparr>"

definition agent_update_valid :: "agent_update \<Rightarrow> bool" where
  "agent_update_valid b \<longleftrightarrow> (case anu_persona b of None \<Rightarrow> True | Some p \<Rightarrow> persona_valid p) \<and>
     (case anu_script b of None \<Rightarrow> True | Some t \<Rightarrow> script_valid t)"

definition update_agent :: "req_ctx \<Rightarrow> uuid \<Rightarrow> agent_update \<Rightarrow> user_row \<Rightarrow> panel_agent handler" where
  "update_agent cx agent_id b u =
     bnd (guard_that (agent_update_valid b) 422 ''validation error'') (\<lambda>_.
     bnd (get_agent agent_id u) (\<lambda>a.
     bnd (save_agent cx a (apply_agent_update b a)) (\<lambda>a'.
     bnd (audit_dump cx u ''agent.update'' ''agent'' (pa_id a') (dump_agent_update b)) (\<lambda>_.
     ret a'))))"

definition set_agent_status :: "req_ctx \<Rightarrow> uuid \<Rightarrow> string \<Rightarrow> string \<Rightarrow> user_row \<Rightarrow> panel_agent handler" where
  "set_agent_status cx agent_id new_status action u =
     bnd (get_agent agent_id u) (\<lambda>a.
     bnd (save_agent cx a (a\<lparr>pa_status := new_status\<rparr>)) (\<lambda>a'.
     bnd (audit_as cx u action ''agent'' (pa_id a') []) (\<lambda>_.
     ret a')))"

definition archive_agent :: "req_ctx \<Rightarrow> uuid \<Rightarrow> user_row \<Rightarrow> panel_agent handler" where
  "archive_agent cx agent_id u = set_agent_status cx agent_id ''archived'' ''agent.archive'' u"

definition promote_agent :: "req_ctx \<Rightarrow> uuid \<Rightarrow> user_row \<Rightarrow> panel_agent handler" where
  "promote_agent cx agent_id u = set_agent_status cx agent_id ''ready'' ''agent.promote'' u"

definition copy_agent :: "req_ctx \<Rightarrow> panel_agent \<Rightarrow> panel_agent" where
  "copy_agent cx a = a\<lparr>pa_id := rq_new_id cx, pa_name := pa_name a @ '' (copy)'', pa_training_recordings := [],
     pa_campaign_id := None, pa_status := ''draft'', pa_created_at := rq_now cx, pa_updated_at := rq_now cx\<rparr>"

definition duplicate_agent :: "req_ctx \<Rightarrow> uuid \<Rightarrow> user_row \<Rightarrow> panel_agent handler" where
  "duplicate_agent cx agent_id u =
     bnd (get_agent agent_id u) (\<lambda>src.
     (let a = copy_agent cx src in
      bnd (insert_agent a) (\<lambda>_.
      bnd (audit_as cx u ''agent.duplicate'' ''agent'' (pa_id a) [(''source_id'', PStr agent_id)]) (\<lambda>_.
      ret a))))"

definition list_versions :: "uuid \<Rightarrow> user_row \<Rightarrow> pyval dict list handler" where
  "list_versions agent_id u = bnd (get_agent agent_id u) (\<lambda>_. ret [])"

definition list_training_recordings :: "uuid \<Rightarrow> user_row \<Rightarrow> pyval dict list handler" where
  "list_training_recordings agent_id u = bnd (get_agent agent_id u) (\<lambda>a. ret (pa_training_recordings a))"

text \<open>An upload: the bytes go to the object store, the entry to the row. The queue it wants to hand
  the transcription to is imported from a module that is not there, and the exception is swallowed:
  no job is queued.\<close>

record upload =
  up_filename :: "string option"
  up_content_type :: "string option"
  up_bytes :: bytes

definition recording_entry :: "req_ctx \<Rightarrow> (instant \<Rightarrow> string) \<Rightarrow> string \<Rightarrow> uuid \<Rightarrow> string \<Rightarrow> upload \<Rightarrow> user_row \<Rightarrow> pyval dict" where
  "recording_entry cx isofmt storage_path agent_id label f u =
     [(''id'', PStr (rq_new_id cx)), (''agent_id'', PStr agent_id),
      (''filename'', PStr (opt_str_or (up_filename f) ''recording'')),
      (''content_type'', PStr (opt_str_or (up_content_type f) ''application/octet-stream'')),
      (''size_bytes'', PInt (int (length (up_bytes f)))), (''label'', PStr label),
      (''storage_path'', PStr storage_path), (''status'', PStr ''queued''), (''transcript'', PNone),
      (''uploaded_at'', PStr (isofmt (rq_now cx))), (''uploaded_by'', PStr (us_id u))]"

definition upload_training_recording ::
  "req_ctx \<Rightarrow> (instant \<Rightarrow> string) \<Rightarrow> string \<Rightarrow> string option \<Rightarrow> uuid \<Rightarrow> string \<Rightarrow> upload \<Rightarrow> user_row \<Rightarrow> pyval dict handler" where
  "upload_training_recording cx isofmt bucket outage agent_id label f u =
     bnd (get_agent agent_id u) (\<lambda>a.
     bnd (guard_that (up_bytes f \<noteq> []) 422 ''empty file'') (\<lambda>_.
     (let path = ''s3://'' @ bucket @ ''/training/'' @ us_tenant_id u @ ''/'' @ agent_id @ ''/'' @ rq_new_id cx @
                 ''-'' @ (case up_filename f of None \<Rightarrow> ''None'' | Some n \<Rightarrow> n);
          entry = recording_entry cx isofmt path agent_id label f u in
      case outage of
        Some e \<Rightarrow> raise 502 (''object storage upload failed: '' @ e)
      | None \<Rightarrow>
          bnd (doing (StoreObject path (up_bytes f))) (\<lambda>_.
          bnd (save_agent cx a (a\<lparr>pa_training_recordings := pa_training_recordings a @ [entry]\<rparr>)) (\<lambda>_.
          bnd (audit_as cx u ''agent.training_recording_upload'' ''agent'' agent_id
                 [(''filename'', dget entry ''filename''), (''size'', dget entry ''size_bytes'')]) (\<lambda>_.
          ret entry))))))"

definition delete_training_recording :: "req_ctx \<Rightarrow> uuid \<Rightarrow> string \<Rightarrow> user_row \<Rightarrow> unit handler" where
  "delete_training_recording cx agent_id recording_id u =
     bnd (get_agent agent_id u) (\<lambda>a.
     (let kept = filter (\<lambda>x. dget x ''id'' \<noteq> PStr recording_id) (pa_training_recordings a) in
      if length kept = length (pa_training_recordings a) then raise 404 ''training recording not found''
      else bnd (save_agent cx a (a\<lparr>pa_training_recordings := kept\<rparr>)) (\<lambda>_.
           audit_as cx u ''agent.training_recording_delete'' ''agent'' agent_id
             [(''recording_id'', PStr recording_id)])))"

section \<open>Voices\<close>

definition list_voices :: "nat \<Rightarrow> nat \<Rightarrow> user_row \<Rightarrow> (voice_row list \<times> nat) handler" where
  "list_voices limit_n offset_n u =
     bnd (if 1 \<le> limit_n \<and> limit_n \<le> 500 then ret () else fails_with ''ValidationError'') (\<lambda>_.
     paged limit_n offset_n vo_created_at (\<lambda>db. filter (\<lambda>v. vo_tenant_id v = us_tenant_id u) (voices db)))"

definition get_voice :: "uuid \<Rightarrow> user_row \<Rightarrow> voice_row handler" where
  "get_voice voice_id u = lookup voices vo_id vo_tenant_id ''voice'' (us_tenant_id u) voice_id"

definition new_voice :: "req_ctx \<Rightarrow> uuid \<Rightarrow> string \<Rightarrow> voice_row" where
  "new_voice cx tenant_id name = \<lparr>vo_id = rq_new_id cx, vo_tenant_id = tenant_id, vo_name = name,
     vo_sample_path = None, vo_embedding_path = None, vo_status = ''pending'', vo_created_at = rq_now cx\<rparr>"

text \<open>The clone job is queued before the row is committed; its bytes travel base64-encoded.\<close>

definition create_voice ::
  "req_ctx \<Rightarrow> (bytes \<Rightarrow> string) \<Rightarrow> string \<Rightarrow> string \<Rightarrow> upload \<Rightarrow> user_row \<Rightarrow> voice_row handler" where
  "create_voice cx b64 name ref_text audio u =
     bnd (guard_that (up_bytes audio \<noteq> []) 400 ''empty audio upload'') (\<lambda>_.
     (let v = new_voice cx (us_tenant_id u) name in
      bnd (flushing (\<lambda>db. vo_id v \<notin> vo_id ` set (voices db)) ''IntegrityError'' (\<lambda>db. db\<lparr>voices := voices db @ [v]\<rparr>)) (\<lambda>_.
      bnd (audit_as cx u ''voice.create'' ''voice'' (vo_id v)
             [(''name'', PStr name), (''filename'', case up_filename audio of None \<Rightarrow> PNone | Some f \<Rightarrow> PStr f)]) (\<lambda>_.
      bnd (doing (EnqueueJob ''voice_clone''
             [PStr (vo_id v), PStr (us_tenant_id u), PStr name, PStr ref_text, PStr (b64 (up_bytes audio)),
              PStr (opt_str_or (up_filename audio) ''ref.wav'')])) (\<lambda>_.
      ret v)))))"

text \<open>Deleting a voice clears every agent's reference to it.\<close>

definition drop_voice :: "uuid \<Rightarrow> panel_db \<Rightarrow> panel_db" where
  "drop_voice i db = db\<lparr>voices := del_row vo_id i (voices db),
     agents := map (\<lambda>a. if pa_voice_id a = Some i then a\<lparr>pa_voice_id := None\<rparr> else a) (agents db)\<rparr>"

definition delete_voice :: "req_ctx \<Rightarrow> uuid \<Rightarrow> user_row \<Rightarrow> unit handler" where
  "delete_voice cx voice_id u =
     bnd (get_voice voice_id u) (\<lambda>v.
     bnd (writing (drop_voice (vo_id v))) (\<lambda>_.
     audit_as cx u ''voice.delete'' ''voice'' voice_id []))"

text \<open>The preview streams what the synthesis server answers to this request.\<close>

definition preview_voice :: "uuid \<Rightarrow> string \<Rightarrow> user_row \<Rightarrow> pyval dict handler" where
  "preview_voice voice_id body_text u =
     bnd (guard_that (1 \<le> length body_text \<and> length body_text \<le> 2000) 422 ''validation error'') (\<lambda>_.
     bnd (get_voice voice_id u) (\<lambda>v.
     if vo_status v \<noteq> ''ready''
     then raise 409 (''voice status is '' @ [CHR 0x27] @ vo_status v @ [CHR 0x27] @ '', expected '' @ [CHR 0x27] @ ''ready'' @ [CHR 0x27])
     else ret [(''text'', PStr body_text), (''voice_id'', PStr (vo_id v)), (''output_format'', PStr ''pcm_s16le_24000'')]))"

definition mark_voice_ready :: "uuid \<Rightarrow> string \<Rightarrow> string \<Rightarrow> panel_db \<Rightarrow> panel_db" where
  "mark_voice_ready i sample_path embedding_path db = db\<lparr>voices := put_row vo_id i
     (\<lambda>v. v\<lparr>vo_sample_path := Some sample_path, vo_embedding_path := Some embedding_path, vo_status := ''ready''\<rparr>) (voices db)\<rparr>"

definition mark_voice_error :: "uuid \<Rightarrow> panel_db \<Rightarrow> panel_db" where
  "mark_voice_error i db = db\<lparr>voices := put_row vo_id i (\<lambda>v. v\<lparr>vo_status := ''error''\<rparr>) (voices db)\<rparr>"

text \<open>The job: \<open>result\<close> is what \<open>TTSClient.clone\<close> answers.\<close>

definition voice_clone :: "pyval dict option \<Rightarrow> uuid \<Rightarrow> panel_db \<Rightarrow> pyval dict \<times> panel_db" where
  "voice_clone result voice_id db =
     (case result of
        None \<Rightarrow> ([(''ok'', PBool False)], mark_voice_error voice_id db)
      | Some r \<Rightarrow>
          (let path = (case dget_or r ''embedding_path'' (PStr []) of PStr p \<Rightarrow> p | _ \<Rightarrow> []) in
           ([(''ok'', PBool True), (''embedding_path'', dget_or r ''embedding_path'' (PStr []))],
            mark_voice_ready voice_id path path db)))"

section \<open>Knowledge bases\<close>

definition list_kbs :: "nat \<Rightarrow> nat \<Rightarrow> user_row \<Rightarrow> (kb_row list \<times> nat) handler" where
  "list_kbs limit_n offset_n u =
     bnd (if 1 \<le> limit_n \<and> limit_n \<le> 500 then ret () else fails_with ''ValidationError'') (\<lambda>_.
     paged limit_n offset_n kb_created_at (\<lambda>db. filter (\<lambda>k. kb_tenant_id k = us_tenant_id u) (kbs db)))"

definition get_kb :: "uuid \<Rightarrow> user_row \<Rightarrow> kb_row handler" where
  "get_kb i u = lookup kbs kb_id kb_tenant_id ''kb'' (us_tenant_id u) i"

definition create_kb :: "req_ctx \<Rightarrow> string \<Rightarrow> string option \<Rightarrow> string \<Rightarrow> user_row \<Rightarrow> kb_row handler" where
  "create_kb cx name description model u =
     bnd (guard_that (1 \<le> length name \<and> length name \<le> 200) 422 ''validation error'') (\<lambda>_.
     (let k = \<lparr>kb_id = rq_new_id cx, kb_tenant_id = us_tenant_id u, kb_name = name, kb_description = description,
               kb_embedding_model = model, kb_created_at = rq_now cx\<rparr> in
      bnd (flushing (\<lambda>db. kb_id k \<notin> kb_id ` set (kbs db)) ''IntegrityError'' (\<lambda>db. db\<lparr>kbs := kbs db @ [k]\<rparr>)) (\<lambda>_.
      bnd (audit_as cx u ''kb.create'' ''kb'' (kb_id k) [(''name'', PStr name)]) (\<lambda>_.
      ret k))))"

definition list_documents :: "uuid \<Rightarrow> user_row \<Rightarrow> document_row list handler" where
  "list_documents i u =
     bnd (get_kb i u) (\<lambda>_. reading (\<lambda>db. order_desc do_created_at (filter (\<lambda>d. do_kb_id d = i) (documents db))))"

definition new_document :: "req_ctx \<Rightarrow> uuid \<Rightarrow> string \<Rightarrow> string \<Rightarrow> document_row" where
  "new_document cx i filename h = \<lparr>do_id = rq_new_id cx, do_kb_id = i, do_filename = filename, do_content_hash = h,
     do_chunk_count = 0, do_status = ''pending'', do_created_at = rq_now cx\<rparr>"

definition upload_document ::
  "req_ctx \<Rightarrow> (bytes \<Rightarrow> string) \<Rightarrow> (bytes \<Rightarrow> string) \<Rightarrow> uuid \<Rightarrow> upload \<Rightarrow> user_row \<Rightarrow> document_row handler" where
  "upload_document cx sha256 b64 i f u =
     bnd (guard_that (up_bytes f \<noteq> []) 400 ''empty upload'') (\<lambda>_.
     bnd (get_kb i u) (\<lambda>_.
     (let d = new_document cx i (opt_str_or (up_filename f) ''upload.bin'') (sha256 (up_bytes f)) in
      bnd (flushing (\<lambda>db. do_id d \<notin> do_id ` set (documents db)) ''IntegrityError''
             (\<lambda>db. db\<lparr>documents := documents db @ [d]\<rparr>)) (\<lambda>_.
      bnd (audit_as cx u ''kb.upload_document'' ''kb_document'' (do_id d)
             [(''kb_id'', PStr i), (''filename'', PStr (do_filename d)), (''bytes'', PInt (int (length (up_bytes f))))]) (\<lambda>_.
      bnd (doing (EnqueueJob ''kb_ingest_document''
             [PStr (do_id d), PStr i, PStr (do_filename d), PStr (b64 (up_bytes f))])) (\<lambda>_.
      ret d))))))"

definition delete_document :: "req_ctx \<Rightarrow> uuid \<Rightarrow> uuid \<Rightarrow> user_row \<Rightarrow> unit handler" where
  "delete_document cx i doc_id u =
     bnd (get_kb i u) (\<lambda>_.
     bnd (reading (\<lambda>db. get_row do_id doc_id (documents db))) (\<lambda>row.
       case row of
         None \<Rightarrow> raise 404 ''document not found''
       | Some d \<Rightarrow>
           if do_kb_id d \<noteq> i then raise 404 ''document not found''
           else bnd (writing (\<lambda>db. db\<lparr>documents := del_row do_id doc_id (documents db)\<rparr>)) (\<lambda>_.
                audit_as cx u ''kb.delete_document'' ''kb_document'' doc_id [])))"

text \<open>The search: \<open>vec\<close> is the embedding of the query, None when the server did not answer, and
  \<open>distance\<close> the cosine distance of pgvector.\<close>

record kb_hit =
  kh_text :: string
  kh_score :: rat
  kh_document_id :: uuid

definition search_kb ::
  "(rat list \<Rightarrow> rat list \<Rightarrow> rat) \<Rightarrow> kb_chunk list \<Rightarrow> uuid \<Rightarrow> string \<Rightarrow> nat \<Rightarrow> rat list option \<Rightarrow> user_row \<Rightarrow> kb_hit list handler" where
  "search_kb distance chunks i query limit_n vec u =
     bnd (guard_that (1 \<le> length query \<and> length query \<le> 2000 \<and> 1 \<le> limit_n \<and> limit_n \<le> 20) 422 ''validation error'') (\<lambda>_.
     bnd (get_kb i u) (\<lambda>_.
     ret (case vec of
       None \<Rightarrow> []
     | Some v \<Rightarrow> map (\<lambda>c. \<lparr>kh_text = kc_text c, kh_score = 1 - distance (kc_embedding c) v, kh_document_id = kc_document_id c\<rparr>)
         (take limit_n (sort_key (\<lambda>c. distance (kc_embedding c) v) (filter (\<lambda>c. kc_kb_id c = i) chunks))))))"

section \<open>ViciDial servers\<close>

definition list_servers :: "nat \<Rightarrow> nat \<Rightarrow> user_row \<Rightarrow> (server_row list \<times> nat) handler" where
  "list_servers limit_n offset_n u =
     paged limit_n offset_n vs_created_at (\<lambda>db. filter (\<lambda>v. vs_tenant_id v = us_tenant_id u) (servers db))"

definition get_server :: "uuid \<Rightarrow> user_row \<Rightarrow> server_row handler" where
  "get_server i u = lookup servers vs_id vs_tenant_id ''server'' (us_tenant_id u) i"

record server_create =
  svc_name :: string
  svc_asterisk_host :: string
  svc_asterisk_port :: int
  svc_web_url :: string
  svc_ami_user :: string
  svc_ami_pass :: string
  svc_web_user_admin :: string
  svc_web_pass :: string

text \<open>\<open>encrypt\<close> of \<open>crypto.py\<close> under the key of the environment, None when there is no valid key.\<close>

type_synonym encryptor = "string \<Rightarrow> string option"

definition encrypting :: "encryptor \<Rightarrow> string \<Rightarrow> string handler" where
  "encrypting enc p = (case enc p of None \<Rightarrow> fails_with ''CryptoError'' | Some c \<Rightarrow> ret c)"

definition len_within :: "nat \<Rightarrow> string \<Rightarrow> bool" where
  "len_within n s = (1 \<le> length s \<and> length s \<le> n)"

definition server_create_valid :: "server_create \<Rightarrow> bool" where
  "server_create_valid b =
     (len_within 200 (svc_name b) \<and> len_within 200 (svc_asterisk_host b) \<and> 1 \<le> svc_asterisk_port b \<and> svc_asterisk_port b \<le> 65535 \<and>
      len_within 128 (svc_ami_user b) \<and> len_within 200 (svc_ami_pass b) \<and> len_within 128 (svc_web_user_admin b) \<and> len_within 200 (svc_web_pass b))"

definition create_server :: "req_ctx \<Rightarrow> encryptor \<Rightarrow> server_create \<Rightarrow> user_row \<Rightarrow> server_row handler" where
  "create_server cx enc b u =
     bnd (guard_that (server_create_valid b) 422 ''validation error'') (\<lambda>_.
     bnd (encrypting enc (svc_ami_pass b)) (\<lambda>ami.
     bnd (encrypting enc (svc_web_pass b)) (\<lambda>web.
     (let v = \<lparr>vs_id = rq_new_id cx, vs_tenant_id = us_tenant_id u, vs_name = svc_name b,
               vs_asterisk_host = svc_asterisk_host b, vs_asterisk_port = svc_asterisk_port b, vs_web_url = svc_web_url b,
               vs_ami_user = svc_ami_user b, vs_ami_pass_encrypted = ami, vs_web_user_admin = svc_web_user_admin b,
               vs_web_pass_encrypted = web, vs_created_at = rq_now cx\<rparr> in
      bnd (flushing (\<lambda>db. vs_id v \<notin> vs_id ` set (servers db)) ''IntegrityError'' (\<lambda>db. db\<lparr>servers := servers db @ [v]\<rparr>)) (\<lambda>_.
      bnd (audit_as cx u ''vicidial_server.create'' ''vicidial_server'' (vs_id v)
             [(''name'', PStr (svc_name b)), (''host'', PStr (svc_asterisk_host b))]) (\<lambda>_.
      ret v))))))"

record server_update =
  svu_name :: "string option"
  svu_asterisk_host :: "string option"
  svu_asterisk_port :: "int option"
  svu_web_url :: "string option"
  svu_ami_user :: "string option"
  svu_ami_pass :: "string option"
  svu_web_user_admin :: "string option"
  svu_web_pass :: "string option"

definition opt_encrypting :: "encryptor \<Rightarrow> string option \<Rightarrow> string option handler" where
  "opt_encrypting enc p = (case p of None \<Rightarrow> ret None | Some s \<Rightarrow> bnd (encrypting enc s) (\<lambda>c. ret (Some c)))"

text \<open>The audit leaves the passwords out; a web address is no JSON, as it is an \<open>HttpUrl\<close> object.\<close>

definition dump_server_update :: "server_update \<Rightarrow> pyval dict option" where
  "dump_server_update b =
     (if svu_web_url b = None
      then Some (opt_field ''name'' PStr (svu_name b) @ opt_field ''asterisk_host'' PStr (svu_asterisk_host b) @
        opt_field ''asterisk_port'' PInt (svu_asterisk_port b) @ opt_field ''ami_user'' PStr (svu_ami_user b) @
        opt_field ''web_user_admin'' PStr (svu_web_user_admin b))
      else None)"

definition update_server :: "req_ctx \<Rightarrow> encryptor \<Rightarrow> uuid \<Rightarrow> server_update \<Rightarrow> user_row \<Rightarrow> server_row handler" where
  "update_server cx enc i b u =
     bnd (get_server i u) (\<lambda>v.
     bnd (opt_encrypting enc (svu_ami_pass b)) (\<lambda>ami.
     bnd (opt_encrypting enc (svu_web_pass b)) (\<lambda>web.
     (let v' = v\<lparr>vs_ami_pass_encrypted := keep_or ami (vs_ami_pass_encrypted v),
                vs_web_pass_encrypted := keep_or web (vs_web_pass_encrypted v),
                vs_web_url := keep_or (svu_web_url b) (vs_web_url v), vs_name := keep_or (svu_name b) (vs_name v),
                vs_asterisk_host := keep_or (svu_asterisk_host b) (vs_asterisk_host v),
                vs_asterisk_port := keep_or (svu_asterisk_port b) (vs_asterisk_port v),
                vs_ami_user := keep_or (svu_ami_user b) (vs_ami_user v),
                vs_web_user_admin := keep_or (svu_web_user_admin b) (vs_web_user_admin v)\<rparr> in
      bnd (writing (\<lambda>db. db\<lparr>servers := put_row vs_id (vs_id v) (\<lambda>_. v') (servers db)\<rparr>)) (\<lambda>_.
      bnd (audit_dump cx u ''vicidial_server.update'' ''vicidial_server'' (vs_id v) (dump_server_update b)) (\<lambda>_.
      ret v'))))))"

definition test_connection :: "uuid \<Rightarrow> user_row \<Rightarrow> pyval dict handler" where
  "test_connection i u =
     bnd (get_server i u) (\<lambda>_.
     ret [(''web_login_ok'', PBool False),
          (''web_error'', PStr ''test-connection requires aipanel-session-mgr to expose a probe endpoint''),
          (''ami_ok'', PBool False), (''ami_error'', PStr ''not implemented in v0.7'')])"

definition list_vici_campaigns :: "uuid \<Rightarrow> user_row \<Rightarrow> pyval dict list handler" where
  "list_vici_campaigns i u = bnd (get_server i u) (\<lambda>_. ret [])"

definition list_vici_ingroups :: "uuid \<Rightarrow> user_row \<Rightarrow> pyval dict list handler" where
  "list_vici_ingroups i u = bnd (get_server i u) (\<lambda>_. ret [])"

end
