(* ===== verification/Panel_Campaigns.thy ===== *)
theory Panel_Campaigns
  imports Panel_Content "HOL-Library.Multiset"
begin

text \<open>
  Campaigns: \<open>services/campaigns_service.py\<close>, \<open>api/v1/campaigns.py\<close> and the job that mines the
  examples a campaign shows its language model, \<open>jobs/campaign_mine_job.py\<close>.
\<close>

section \<open>The service\<close>

definition campaign_statuses :: "string list" where
  "campaign_statuses = [''draft'', ''active'', ''paused'', ''archived'']"

definition campaign_methodologies :: "string list" where
  "campaign_methodologies = [''spin'', ''bant'', ''meddpicc'', ''consultative'', ''value_based'', ''custom'']"

definition list_campaigns :: "nat \<Rightarrow> nat \<Rightarrow> string option \<Rightarrow> user_row \<Rightarrow> (panel_campaign list \<times> nat) handler" where
  "list_campaigns limit_n offset_n status_filter u =
     bnd (guard_that (1 \<le> limit_n \<and> limit_n \<le> 500) 422 ''validation error'') (\<lambda>_.
     bnd (case str_or_none status_filter of None \<Rightarrow> ret () | Some st \<Rightarrow> enum_ok campaign_statuses [st]) (\<lambda>_.
     paged limit_n offset_n cm_updated_at (\<lambda>db. filter (\<lambda>c. cm_tenant_id c = us_tenant_id u \<and>
       (case str_or_none status_filter of None \<Rightarrow> True | Some st \<Rightarrow> cm_status c = st)) (campaigns db))))"

definition get_campaign :: "uuid \<Rightarrow> user_row \<Rightarrow> panel_campaign handler" where
  "get_campaign i u = lookup campaigns cm_id cm_tenant_id ''campaign'' (us_tenant_id u) i"

record campaign_create =
  cmc_name :: string
  cmc_description :: string
  cmc_methodology :: string
  cmc_objective :: string
  cmc_success_dispos :: "string list"
  cmc_persona_template :: "pyval dict"
  cmc_script_template :: "pyval dict"
  cmc_kb_collection_id :: "uuid option"

definition new_campaign :: "req_ctx \<Rightarrow> uuid \<Rightarrow> campaign_create \<Rightarrow> panel_campaign" where
  "new_campaign cx tenant_id b = \<lparr>cm_id = rq_new_id cx, cm_tenant_id = tenant_id, cm_name = cmc_name b,
     cm_description = cmc_description b, cm_methodology = cmc_methodology b, cm_objective = cmc_objective b,
     cm_success_dispos = cmc_success_dispos b, cm_persona_template = cmc_persona_template b,
     cm_script_template = cmc_script_template b, cm_kb_collection_id = cmc_kb_collection_id b,
     cm_few_shot_pool = [], cm_few_shot_updated_at = None, cm_status = ''draft'',
     cm_created_at = rq_now cx, cm_updated_at = rq_now cx\<rparr>"

definition create_campaign :: "req_ctx \<Rightarrow> campaign_create \<Rightarrow> user_row \<Rightarrow> panel_campaign handler" where
  "create_campaign cx b u =
     bnd (guard_that (len_within 200 (cmc_name b) \<and> cmc_methodology b \<in> set campaign_methodologies) 422 ''validation error'') (\<lambda>_.
     (let c = new_campaign cx (us_tenant_id u) b in
      bnd (flushing (\<lambda>db. fk kb_id (kbs db) (cm_kb_collection_id c) \<and> cm_id c \<notin> cm_id ` set (campaigns db)) ''IntegrityError''
             (\<lambda>db. db\<lparr>campaigns := campaigns db @ [c]\<rparr>)) (\<lambda>_.
      bnd (audit_as cx u ''campaign.create'' ''campaign'' (cm_id c)
             [(''name'', PStr (cm_name c)), (''methodology'', PStr (cm_methodology c))]) (\<lambda>_.
      ret c))))"

definition save_campaign :: "req_ctx \<Rightarrow> panel_campaign \<Rightarrow> panel_campaign \<Rightarrow> panel_campaign handler" where
  "save_campaign cx old new =
     (let c = (if new = old then old else new\<lparr>cm_updated_at := rq_now cx\<rparr>) in
      bnd (flushing (\<lambda>db. fk kb_id (kbs db) (cm_kb_collection_id c)) ''IntegrityError''
             (\<lambda>db. db\<lparr>campaigns := put_row cm_id (cm_id old) (\<lambda>_. c) (campaigns db)\<rparr>)) (\<lambda>_. ret c))"

record campaign_update =
  cmu_name :: "string option"
  cmu_description :: "string option"
  cmu_methodology :: "string option"
  cmu_objective :: "string option"
  cmu_success_dispos :: "string list option"
  cmu_persona_template :: "pyval dict option"
  cmu_script_template :: "pyval dict option"
  cmu_kb_collection_id :: "uuid option"
  cmu_status :: "string option"

definition campaign_update_valid :: "campaign_update \<Rightarrow> bool" where
  "campaign_update_valid b =
     ((case cmu_methodology b of None \<Rightarrow> True | Some m \<Rightarrow> m \<in> set campaign_methodologies) \<and>
      (case cmu_status b of None \<Rightarrow> True | Some st \<Rightarrow> st \<in> set campaign_statuses))"

definition dump_campaign_update :: "campaign_update \<Rightarrow> pyval dict option" where
  "dump_campaign_update b =
     (if cmu_kb_collection_id b = None
      then Some (opt_field ''name'' PStr (cmu_name b) @ opt_field ''description'' PStr (cmu_description b) @
        opt_field ''methodology'' PStr (cmu_methodology b) @ opt_field ''objective'' PStr (cmu_objective b) @
        opt_field ''success_dispos'' (\<lambda>ds. PList (map PStr ds)) (cmu_success_dispos b) @
        opt_field ''persona_template'' PDict (cmu_persona_template b) @
        opt_field ''script_template'' PDict (cmu_script_template b) @ opt_field ''status'' PStr (cmu_status b))
      else None)"

definition apply_campaign_update :: "campaign_update \<Rightarrow> panel_campaign \<Rightarrow> panel_campaign" where
  "apply_campaign_update b c = c\<lparr>cm_name := keep_or (cmu_name b) (cm_name c),
     cm_description := keep_or (cmu_description b) (cm_description c),
     cm_methodology := keep_or (cmu_methodology b) (cm_methodology c),
     cm_objective := keep_or (cmu_objective b) (cm_objective c),
     cm_success_dispos := keep_or (cmu_success_dispos b) (cm_success_dispos c),
     cm_persona_template := keep_or (cmu_persona_template b) (cm_persona_template c),
     cm_script_template := keep_or (cmu_script_template b) (cm_script_template c),
     cm_kb_collection_id := set_or (cmu_kb_collection_id b) (cm_kb_collection_id c),
     cm_status := keep_or (cmu_status b) (cm_status c)\<rparr>"

definition update_campaign :: "req_ctx \<Rightarrow> uuid \<Rightarrow> campaign_update \<Rightarrow> user_row \<Rightarrow> panel_campaign handler" where
  "update_campaign cx i b u =
     bnd (guard_that (campaign_update_valid b) 422 ''validation error'') (\<lambda>_.
     bnd (get_campaign i u) (\<lambda>c.
     bnd (save_campaign cx c (apply_campaign_update b c)) (\<lambda>c'.
     bnd (audit_dump cx u ''campaign.update'' ''campaign'' (cm_id c') (dump_campaign_update b)) (\<lambda>_.
     ret c'))))"

definition archive_campaign :: "req_ctx \<Rightarrow> uuid \<Rightarrow> user_row \<Rightarrow> unit handler" where
  "archive_campaign cx i u =
     bnd (get_campaign i u) (\<lambda>c.
     bnd (save_campaign cx c (c\<lparr>cm_status := ''archived''\<rparr>)) (\<lambda>c'.
     audit_as cx u ''campaign.archive'' ''campaign'' (cm_id c') []))"

section \<open>The calls of a campaign\<close>

text \<open>The join of the calls with their deployments: a call counts by its own campaign or by the
  campaign of its deployment, and only among the deployments of the tenant.\<close>

definition campaign_calls :: "uuid \<Rightarrow> uuid \<Rightarrow> instant \<Rightarrow> panel_db \<Rightarrow> call_record list" where
  "campaign_calls tenant_id campaign_id since db =
     filter (\<lambda>c. since \<le> ca_started_at c \<and>
       (\<exists>d\<in>set (deployments db). pd_id d = ca_deployment_id c \<and> pd_tenant_id d = tenant_id \<and>
          (ca_campaign_id c = Some campaign_id \<or> pd_aipanel_campaign_id d = Some campaign_id))) (calls db)"

text \<open>\<open>select(Call.dispo_code, ..).select_from(base.subquery())\<close>: the column is one of the table \<open>calls\<close>, not
  of the subquery, so the statement ranges over the product of the two.\<close>

definition crossed :: "'r list \<Rightarrow> 'c list \<Rightarrow> 'c list" where
  "crossed base table = concat (map (\<lambda>_. table) base)"

record campaign_metrics =
  mt_total_calls :: nat
  mt_successful_calls :: nat
  mt_conversion_rate :: rat
  mt_by_dispo :: "nat dict"
  mt_avg_duration_sec :: rat

definition avg_or_zero :: "int option list \<Rightarrow> rat" where
  "avg_or_zero xs = (let ys = List.map_filter id xs in
     if ys = [] then 0 else of_int (sum_list ys) / of_nat (length ys))"

text \<open>\<open>by_dispo\<close> is filled group by group; \<open>d or "UNKNOWN"\<close> sends the NULL and the empty code to one
  key, the later group overwriting the earlier.\<close>

definition dispo_groups :: "call_record list \<Rightarrow> (string option \<times> nat) list" where
  "dispo_groups cs = map (\<lambda>d. (d, length (filter (\<lambda>c. ca_dispo_code c = d) cs))) (remdups (map ca_dispo_code cs))"

definition dispo_breakdown :: "call_record list \<Rightarrow> nat dict" where
  "dispo_breakdown cs = fold (\<lambda>(d, n) acc. AList.update (opt_str_or d ''UNKNOWN'') n acc) (dispo_groups cs) []"

definition metrics :: "req_ctx \<Rightarrow> uuid \<Rightarrow> nat \<Rightarrow> user_row \<Rightarrow> campaign_metrics handler" where
  "metrics cx i period_days u =
     bnd (guard_that (1 \<le> period_days \<and> period_days \<le> 365) 422 ''validation error'') (\<lambda>_.
     bnd (get_campaign i u) (\<lambda>c.
     reading (\<lambda>db.
       (let cs = campaign_calls (us_tenant_id u) i (rq_now cx - of_nat (period_days * 86400)) db;
            rows = crossed cs (calls db);
            successful = (if cs = [] then 0 else sum_list (map snd (filter (\<lambda>(d, n).
              case d of None \<Rightarrow> False | Some x \<Rightarrow> x \<in> set (cm_success_dispos c)) (dispo_groups rows)))) in
        \<lparr>mt_total_calls = length cs, mt_successful_calls = successful,
         mt_conversion_rate = (if cs = [] then 0 else of_nat successful / of_nat (length cs)),
         mt_by_dispo = (if cs = [] then [] else dispo_breakdown rows),
         mt_avg_duration_sec = avg_or_zero (map ca_duration_sec rows)\<rparr>))))"

section \<open>The pool of examples\<close>

record few_shot =
  fs_user :: string
  fs_agent :: string
  fs_score :: rat
  fs_call_id :: string
  fs_mined_at :: string

text \<open>\<open>FewShotExample(**item)\<close> as far as the job's own items go; anything else is skipped.\<close>

definition parse_few_shot :: "pyval \<Rightarrow> few_shot option" where
  "parse_few_shot item =
     (case item of
        PDict d \<Rightarrow>
          (case (map_of d ''user'', map_of d ''agent'', map_of d ''score'', map_of d ''call_id'', map_of d ''mined_at'') of
             (Some (PStr a), Some (PStr b), Some (PFloat x), Some (PStr i), Some (PStr m)) \<Rightarrow>
               Some \<lparr>fs_user = a, fs_agent = b, fs_score = x, fs_call_id = i, fs_mined_at = m\<rparr>
           | _ \<Rightarrow> None)
      | _ \<Rightarrow> None)"

definition parse_few_shot_pool :: "pyval list \<Rightarrow> few_shot list" where
  "parse_few_shot_pool raw = List.map_filter parse_few_shot raw"

definition get_few_shot_pool :: "uuid \<Rightarrow> nat \<Rightarrow> user_row \<Rightarrow> few_shot list handler" where
  "get_few_shot_pool i limit_n u =
     bnd (guard_that (1 \<le> limit_n \<and> limit_n \<le> 200) 422 ''validation error'') (\<lambda>_.
     bnd (get_campaign i u) (\<lambda>c.
     ret (take limit_n (sort_key (\<lambda>e. - fs_score e) (parse_few_shot_pool (cm_few_shot_pool c))))))"

definition refresh_few_shot :: "req_ctx \<Rightarrow> uuid \<Rightarrow> user_row \<Rightarrow> unit handler" where
  "refresh_few_shot cx i u =
     bnd (get_campaign i u) (\<lambda>_.
     bnd (doing (EnqueueJob ''campaign_mine_few_shot'' [PStr i, PInt 30])) (\<lambda>_.
     audit_as cx u ''campaign.refresh_few_shot'' ''campaign'' i []))"

section \<open>Mining\<close>

definition DEFAULT_WINDOW_DAYS :: nat where "DEFAULT_WINDOW_DAYS = 30"
definition KEEP_TOP_K :: nat where "KEEP_TOP_K = 12"
definition MAX_CALLS_PER_RUN :: nat where "MAX_CALLS_PER_RUN = 200"

definition score_pair :: "string \<Rightarrow> string \<Rightarrow> rat" where
  "score_pair user_text agent_text =
     (let u = strip user_text; a = strip agent_text in
      if u = [] \<or> a = [] then 0
      else
        (let u_words = length (split_ws u); a_words = length (split_ws a);
             user_band = (if 4 \<le> u_words \<and> u_words \<le> 25 then 1 else 45 / 100);
             agent_band = (if 8 \<le> a_words \<and> a_words \<le> 50 then 1 else 1 / 2);
             qa_bonus = (if CHR ''?'' \<in> set u then 1 / 10 else 0);
             ack_bonus = (if list_ex (\<lambda>t. substr_in t (lower a)) [''sure'', ''absolutely'', ''got it'', ''of course'']
                          then 5 / 100 else 0) in
         min 1 (1 / 2 * user_band + 4 / 10 * agent_band + qa_bonus + ack_bonus)))"

definition event_text :: "(pyval \<Rightarrow> string) \<Rightarrow> pyval dict \<Rightarrow> string" where
  "event_text rp payload = strip (py_str rp (dget_or payload ''text'' (PStr [])))"

text \<open>The pairs of a call: \<open>user_speech\<close> immediately followed by \<open>agent_speech\<close>, among the speech
  events in time order. \<open>round3\<close> is \<open>round(score, 3)\<close> and \<open>stamp\<close> the text of the instant.\<close>

record mine_env =
  mn_repr :: "pyval \<Rightarrow> string"
  mn_round3 :: "rat \<Rightarrow> rat"
  mn_stamp :: string

definition speech_events :: "uuid \<Rightarrow> panel_db \<Rightarrow> event_record list" where
  "speech_events call_id db = order_asc ev_ts
     (filter (\<lambda>e. ev_call_id e = call_id \<and> (ev_event_type e = ''user_speech'' \<or> ev_event_type e = ''agent_speech'')) (events db))"

definition example_of :: "mine_env \<Rightarrow> uuid \<Rightarrow> rat \<Rightarrow> string \<Rightarrow> string \<Rightarrow> pyval" where
  "example_of me call_id score user_text agent_text =
     PDict [(''user'', PStr user_text), (''agent'', PStr agent_text), (''score'', PFloat (mn_round3 me score)),
       (''call_id'', PStr call_id), (''mined_at'', PStr (mn_stamp me))]"

fun walk_pairs :: "mine_env \<Rightarrow> uuid \<Rightarrow> event_record list \<Rightarrow> (rat \<times> pyval) list" where
  "walk_pairs me call_id (e1 # e2 # es) =
     (let u = event_text (mn_repr me) (ev_payload e1); a = event_text (mn_repr me) (ev_payload e2); score = score_pair u a in
      (if ev_event_type e1 = ''user_speech'' \<and> ev_event_type e2 = ''agent_speech'' \<and> \<not> score < 1 / 2
       then [(score, example_of me call_id score u a)] else []) @ walk_pairs me call_id (e2 # es))"
| "walk_pairs me call_id _ = []"

definition mined_calls :: "instant \<Rightarrow> nat \<Rightarrow> panel_campaign \<Rightarrow> panel_db \<Rightarrow> call_record list" where
  "mined_calls now window_days c db = take MAX_CALLS_PER_RUN (order_desc ca_started_at
     (filter (\<lambda>x. case ca_dispo_code x of None \<Rightarrow> False | Some d \<Rightarrow> d \<in> set (cm_success_dispos c))
        (campaign_calls (cm_tenant_id c) (cm_id c) (now - of_nat (window_days * 86400)) db)))"

definition mine_candidates :: "mine_env \<Rightarrow> instant \<Rightarrow> nat \<Rightarrow> panel_campaign \<Rightarrow> panel_db \<Rightarrow> (rat \<times> pyval) list" where
  "mine_candidates me now window_days c db =
     concat (map (\<lambda>x. walk_pairs me (ca_id x) (speech_events (ca_id x) db)) (mined_calls now window_days c db))"

text \<open>\<open>candidates.sort(key=..., reverse=True)\<close> keeps the order of equal scores.\<close>

definition mine_one_campaign :: "mine_env \<Rightarrow> instant \<Rightarrow> nat \<Rightarrow> panel_campaign \<Rightarrow> panel_db \<Rightarrow> pyval list" where
  "mine_one_campaign me now window_days c db =
     (if cm_success_dispos c = [] then []
      else map snd (take KEEP_TOP_K (sort_key (\<lambda>x. - fst x) (mine_candidates me now window_days c db))))"

definition store_pool :: "instant \<Rightarrow> uuid \<Rightarrow> pyval list \<Rightarrow> panel_db \<Rightarrow> panel_db" where
  "store_pool now i best db = db\<lparr>campaigns := put_row cm_id i
     (\<lambda>r. r\<lparr>cm_few_shot_pool := best, cm_few_shot_updated_at := Some now, cm_updated_at := now\<rparr>) (campaigns db)\<rparr>"

text \<open>The job: one campaign, when it was named and exists, or every active one; one commit at the end.\<close>

definition mine_targets :: "uuid option \<Rightarrow> panel_db \<Rightarrow> panel_campaign list" where
  "mine_targets campaign_id db =
     (case campaign_id of
        Some i \<Rightarrow> (case get_row cm_id i (campaigns db) of None \<Rightarrow> [] | Some c \<Rightarrow> [c])
      | None \<Rightarrow> filter (\<lambda>c. cm_status c = ''active'') (campaigns db))"

definition campaign_mine_few_shot :: "mine_env \<Rightarrow> instant \<Rightarrow> uuid option \<Rightarrow> nat \<Rightarrow> panel_db \<Rightarrow> nat \<times> panel_db" where
  "campaign_mine_few_shot me now campaign_id window_days db =
     (let cs = mine_targets campaign_id db in
      (length cs, fold (\<lambda>c d. store_pool now (cm_id c) (mine_one_campaign me now window_days c d) d) cs db))"

section \<open>What the job keeps\<close>

lemma score_pair_bounds: "0 \<le> score_pair u a \<and> score_pair u a \<le> 1"
  by (simp add: score_pair_def Let_def)

lemma sorted_desc_sort_key: "sorted_wrt (\<lambda>x y. f y \<le> f x) (sort_key (\<lambda>x. - f x) (xs :: 'a list))"
  for f :: "'a \<Rightarrow> rat"
  using sorted_sort_key [of "\<lambda>x. - f x" xs] by (simp add: sorted_map)

text \<open>The pool of a campaign is the best of its candidates: at most twelve, in descending order of
  score, and no candidate that is left out scores higher than one that is kept; all are kept when
  there are at most twelve.\<close>

lemma mine_keeps_best:
  assumes "cm_success_dispos c \<noteq> []"
  shows "\<exists>kept dropped. mine_one_campaign me now w c db = map snd kept \<and>
     mset kept + mset dropped = mset (mine_candidates me now w c db) \<and>
     sorted_wrt (\<lambda>x y. fst y \<le> fst x) kept \<and> length kept = min KEEP_TOP_K (length (mine_candidates me now w c db)) \<and>
     (\<forall>x\<in>set kept. \<forall>y\<in>set dropped. fst y \<le> fst x)"
proof -
  define cand where "cand = mine_candidates me now w c db"
  define srt where "srt = sort_key (\<lambda>x. - fst x) cand"
  define kept where "kept = take KEEP_TOP_K srt"
  define dropped where "dropped = drop KEEP_TOP_K srt"
  have app: "srt = kept @ dropped"
    by (simp add: kept_def dropped_def)
  have "sorted_wrt (\<lambda>x y. fst y \<le> fst x) (kept @ dropped)"
    unfolding app [symmetric] srt_def by (rule sorted_desc_sort_key)
  then have order: "sorted_wrt (\<lambda>x y. fst y \<le> fst x) kept" "\<forall>x\<in>set kept. \<forall>y\<in>set dropped. fst y \<le> fst x"
    by (simp_all add: sorted_wrt_append)
  have "mset kept + mset dropped = mset cand"
    unfolding mset_append [symmetric] app [symmetric] srt_def by simp
  moreover have "length kept = min KEEP_TOP_K (length cand)"
    by (simp add: kept_def srt_def)
  moreover have "mine_one_campaign me now w c db = map snd kept"
    using assms by (simp add: mine_one_campaign_def kept_def srt_def cand_def)
  ultimately show ?thesis
    using order unfolding cand_def by blast
qed

section \<open>Where the examples come from\<close>

text \<open>An example of a campaign is an exchange of a successful call of the campaign's own tenant.\<close>

definition own_example :: "mine_env \<Rightarrow> uuid \<Rightarrow> string list \<Rightarrow> panel_db \<Rightarrow> pyval \<Rightarrow> bool" where
  "own_example me tenant_id dispos db item \<longleftrightarrow>
     (\<exists>x\<in>set (calls db). \<exists>d\<in>set (deployments db). \<exists>e1\<in>set (events db). \<exists>e2\<in>set (events db).
        pd_id d = ca_deployment_id x \<and> pd_tenant_id d = tenant_id \<and>
        (\<exists>code. ca_dispo_code x = Some code \<and> code \<in> set dispos) \<and>
        ev_call_id e1 = ca_id x \<and> ev_call_id e2 = ca_id x \<and>
        ev_event_type e1 = ''user_speech'' \<and> ev_event_type e2 = ''agent_speech'' \<and>
        (let u = event_text (mn_repr me) (ev_payload e1); a = event_text (mn_repr me) (ev_payload e2) in
         1 / 2 \<le> score_pair u a \<and> item = example_of me (ca_id x) (score_pair u a) u a))"

lemma walk_pairs_from:
  "p \<in> set (walk_pairs me i es) \<Longrightarrow> \<exists>e1\<in>set es. \<exists>e2\<in>set es. ev_event_type e1 = ''user_speech'' \<and>
     ev_event_type e2 = ''agent_speech'' \<and>
     (let u = event_text (mn_repr me) (ev_payload e1); a = event_text (mn_repr me) (ev_payload e2) in
      1 / 2 \<le> score_pair u a \<and> snd p = example_of me i (score_pair u a) u a)"
proof (induction me i es rule: walk_pairs.induct)
  case (1 me i e1 e2 es)
  show ?case
  proof (cases "p \<in> set (walk_pairs me i (e2 # es))")
    case True
    with 1 show ?thesis by (meson list.set_intros(2))
  next
    case False
    then have "ev_event_type e1 = ''user_speech''" "ev_event_type e2 = ''agent_speech''"
      "let u = event_text (mn_repr me) (ev_payload e1); a = event_text (mn_repr me) (ev_payload e2) in
        1 / 2 \<le> score_pair u a \<and> snd p = example_of me i (score_pair u a) u a"
      using 1(2) by (simp_all add: Let_def split: if_splits)
    then show ?thesis by (meson list.set_intros)
  qed
qed simp_all

lemma mined_call_own:
  "x \<in> set (mined_calls now w c db) \<Longrightarrow> x \<in> set (calls db) \<and>
     (\<exists>d\<in>set (deployments db). pd_id d = ca_deployment_id x \<and> pd_tenant_id d = cm_tenant_id c) \<and>
     (\<exists>code. ca_dispo_code x = Some code \<and> code \<in> set (cm_success_dispos c))"
  unfolding mined_calls_def by (drule in_set_takeD) (auto simp: campaign_calls_def split: option.splits)

lemma mine_one_own:
  assumes "item \<in> set (mine_one_campaign me now w c db)"
  shows "own_example me (cm_tenant_id c) (cm_success_dispos c) db item"
proof -
  obtain p where p: "p \<in> set (mine_candidates me now w c db)" "item = snd p"
    using assms by (auto simp: mine_one_campaign_def split: if_splits dest: in_set_takeD)
  then obtain x where x: "x \<in> set (mined_calls now w c db)" "p \<in> set (walk_pairs me (ca_id x) (speech_events (ca_id x) db))"
    by (auto simp: mine_candidates_def)
  obtain e1 e2 where e: "e1 \<in> set (speech_events (ca_id x) db)" "e2 \<in> set (speech_events (ca_id x) db)"
    "ev_event_type e1 = ''user_speech''" "ev_event_type e2 = ''agent_speech''"
    "let u = event_text (mn_repr me) (ev_payload e1); a = event_text (mn_repr me) (ev_payload e2) in
      1 / 2 \<le> score_pair u a \<and> snd p = example_of me (ca_id x) (score_pair u a) u a"
    using walk_pairs_from [OF x(2)] by blast
  have "e1 \<in> set (events db)" "e2 \<in> set (events db)" "ev_call_id e1 = ca_id x" "ev_call_id e2 = ca_id x"
    using e(1,2) by (simp_all add: speech_events_def)
  then show ?thesis
    using mined_call_own [OF x(1)] e(3-5) p(2) unfolding own_example_def by meson
qed

lemma store_pool_campaign:
  "r' \<in> set (campaigns (store_pool now i best db)) \<Longrightarrow> \<exists>r\<in>set (campaigns db). cm_id r' = cm_id r \<and>
     cm_tenant_id r' = cm_tenant_id r \<and> cm_success_dispos r' = cm_success_dispos r \<and>
     (cm_few_shot_pool r' = cm_few_shot_pool r \<or> (cm_id r = i \<and> cm_few_shot_pool r' = best))"
  by (auto simp: store_pool_def set_put_row split: if_splits)

lemma mine_fold:
  assumes "r' \<in> set (campaigns (fold (\<lambda>c d. store_pool now (cm_id c) (pool c) d) cs db))"
  shows "\<exists>r\<in>set (campaigns db). cm_id r' = cm_id r \<and> cm_tenant_id r' = cm_tenant_id r \<and>
    cm_success_dispos r' = cm_success_dispos r \<and>
    (cm_few_shot_pool r' = cm_few_shot_pool r \<or> (\<exists>c\<in>set cs. cm_id c = cm_id r \<and> cm_few_shot_pool r' = pool c))"
  using assms
proof (induction cs arbitrary: db)
  case (Cons c cs)
  then obtain r1 where r1: "r1 \<in> set (campaigns (store_pool now (cm_id c) (pool c) db))" "cm_id r' = cm_id r1"
    "cm_tenant_id r' = cm_tenant_id r1" "cm_success_dispos r' = cm_success_dispos r1"
    "cm_few_shot_pool r' = cm_few_shot_pool r1 \<or> (\<exists>c\<in>set cs. cm_id c = cm_id r1 \<and> cm_few_shot_pool r' = pool c)"
    by force
  from store_pool_campaign [OF r1(1)] r1(2-) show ?case
    by (metis list.set_intros)
qed auto

lemma mine_one_store [simp]:
  "mine_one_campaign me now w c (store_pool t i best db) = mine_one_campaign me now w c db"
  by (simp add: mine_one_campaign_def mine_candidates_def mined_calls_def campaign_calls_def speech_events_def
      store_pool_def)

lemma mine_fold_frame:
  "(\<And>c. mine_one_campaign me now w c d = mine_one_campaign me now w c db) \<Longrightarrow>
   fold (\<lambda>c d. store_pool now (cm_id c) (mine_one_campaign me now w c d) d) cs d =
   fold (\<lambda>c d. store_pool now (cm_id c) (mine_one_campaign me now w c db) d) cs d"
  by (induction cs arbitrary: d) simp_all

text \<open>C35: After a run of the job every campaign is one of before with its pool unchanged, or with a pool
  whose every example is an exchange, scored at least one half, of a call of the same tenant that
  ended with one of the campaign's success codes. No other tenant's conversation gets into it.\<close>

theorem pool_from_own_calls:
  assumes "distinct (map cm_id (campaigns db))" "r' \<in> set (campaigns (snd (campaign_mine_few_shot me now target w db)))"
  shows "\<exists>r\<in>set (campaigns db). cm_id r' = cm_id r \<and> cm_tenant_id r' = cm_tenant_id r \<and>
    (cm_few_shot_pool r' = cm_few_shot_pool r \<or>
     list_all (own_example me (cm_tenant_id r) (cm_success_dispos r) db) (cm_few_shot_pool r'))"
proof -
  have targets: "c \<in> set (campaigns db)" if "c \<in> set (mine_targets target db)" for c
    using that by (auto simp: mine_targets_def split: option.splits dest: get_row_SomeD [OF sym] get_row_SomeD)
  obtain r where r: "r \<in> set (campaigns db)" "cm_id r' = cm_id r" "cm_tenant_id r' = cm_tenant_id r"
    "cm_few_shot_pool r' = cm_few_shot_pool r \<or>
     (\<exists>c\<in>set (mine_targets target db). cm_id c = cm_id r \<and> cm_few_shot_pool r' = mine_one_campaign me now w c db)"
    using mine_fold [of r' now "\<lambda>c. mine_one_campaign me now w c db" "mine_targets target db" db] assms(2)
    unfolding campaign_mine_few_shot_def Let_def snd_conv mine_fold_frame [of me now w db db, OF refl] by blast
  show ?thesis
  proof (cases "cm_few_shot_pool r' = cm_few_shot_pool r")
    case False
    then obtain c where c: "c \<in> set (mine_targets target db)" "cm_id c = cm_id r"
      "cm_few_shot_pool r' = mine_one_campaign me now w c db"
      using r(4) by blast
    then have "c = r"
      using targets r(1) assms(1) by (metis distinct_map inj_onD)
    then show ?thesis
      using r(1-3) c(3) mine_one_own by (metis list_all_iff)
  qed (use r in blast)
qed

text \<open>A run that finds no successful call empties a pool that had examples.\<close>

lemma mine_overwrites_pool:
  assumes "get_row cm_id i (campaigns db) = Some c" "mined_calls now w c db = []"
    "r \<in> set (campaigns (snd (campaign_mine_few_shot me now (Some i) w db)))" "cm_id r = i"
  shows "cm_few_shot_pool r = []"
proof -
  have "mine_one_campaign me now w c db = []"
    using assms(2) by (simp add: mine_one_campaign_def mine_candidates_def)
  moreover have "cm_id c = i"
    using get_row_SomeD [OF assms(1)] by simp
  ultimately have "snd (campaign_mine_few_shot me now (Some i) w db) = store_pool now i [] db"
    using assms(1) by (simp add: campaign_mine_few_shot_def mine_targets_def)
  then obtain r0 where "r = (if cm_id r0 = i then r0\<lparr>cm_few_shot_pool := [], cm_few_shot_updated_at := Some now,
      cm_updated_at := now\<rparr> else r0)"
    using assms(3) by (auto simp: store_pool_def set_put_row)
  then show ?thesis
    using assms(4) by (auto split: if_splits)
qed

section \<open>A campaign with one successful call\<close>

definition solar :: panel_campaign where
  "solar = \<lparr>cm_id = ''k1'', cm_tenant_id = ''t1'', cm_name = ''Solar'', cm_description = [], cm_methodology = ''spin'',
     cm_objective = [], cm_success_dispos = [''XFER''], cm_persona_template = [], cm_script_template = [],
     cm_kb_collection_id = None, cm_few_shot_pool = [], cm_few_shot_updated_at = None, cm_status = ''active'',
     cm_created_at = 0, cm_updated_at = 0\<rparr>"

definition solar_deployment :: panel_deployment where
  "solar_deployment = \<lparr>pd_id = ''d1'', pd_tenant_id = ''t1'', pd_agent_id = ''a1'', pd_vicidial_server_id = ''s1'',
     pd_vici_user = [], pd_vici_pass_encrypted = [], pd_phone_login = [], pd_phone_pass_encrypted = [],
     pd_campaign_id = ''SOLAR'', pd_allowed_transfer_ingroups = [], pd_dispo_mapping = [], pd_status = ''stopped'',
     pd_last_heartbeat_at = None, pd_aipanel_campaign_id = Some ''k1'', pd_created_at = 0, pd_updated_at = 0\<rparr>"

definition solar_call :: call_record where
  "solar_call = \<lparr>ca_id = ''c1'', ca_deployment_id = ''d1'', ca_vici_uniqueid = ''u1'', ca_vici_lead_id = None,
     ca_phone_number = None, ca_started_at = 100, ca_ended_at = None, ca_duration_sec = None, ca_outcome = None,
     ca_dispo_code = Some ''XFER'', ca_transfer_target = None, ca_recording_path = None, ca_campaign_id = None\<rparr>"

definition solar_event :: "string \<Rightarrow> instant \<Rightarrow> string \<Rightarrow> event_record" where
  "solar_event ty ts words = \<lparr>ev_id = ''e'', ev_call_id = ''c1'', ev_ts = ts, ev_event_type = ty,
     ev_payload = [(''text'', PStr words)]\<rparr>"

definition solar_db :: panel_db where
  "solar_db = empty_panel_db\<lparr>campaigns := [solar], deployments := [solar_deployment], calls := [solar_call],
     events := [solar_event ''agent_speech'' 2 ''Sure, most homes on your street save about a third on the bill.'',
                solar_event ''user_speech'' 1 ''How much would I save?'']\<rparr>"

definition plain_mine :: mine_env where
  "plain_mine = \<lparr>mn_repr = (\<lambda>_. []), mn_round3 = (\<lambda>x. x), mn_stamp = ''now''\<rparr>"

lemma solar_calls: "mined_calls 200 30 solar solar_db = [solar_call]"
  by (simp add: mined_calls_def campaign_calls_def order_desc_def MAX_CALLS_PER_RUN_def solar_db_def solar_def
      solar_deployment_def solar_call_def)

lemma solar_events: "speech_events ''c1'' solar_db =
   [solar_event ''user_speech'' 1 ''How much would I save?'',
    solar_event ''agent_speech'' 2 ''Sure, most homes on your street save about a third on the bill.'']"
  by (simp add: speech_events_def order_asc_def solar_db_def solar_event_def)

text \<open>The exchange is mined, with the highest score there is.\<close>

lemma solar_score: "score_pair ''How much would I save?'' ''Sure, most homes on your street save about a third on the bill.'' = 1"
  by code_simp

lemma solar_candidates: "mine_candidates plain_mine 200 30 solar solar_db =
   [(1, example_of plain_mine ''c1'' 1 ''How much would I save?'' ''Sure, most homes on your street save about a third on the bill.'')]"
proof -
  have "event_text (mn_repr plain_mine) (ev_payload (solar_event ty ts w)) = strip w" for ty ts w
    by (simp add: event_text_def solar_event_def dget_or_def)
  moreover have "strip ''How much would I save?'' = ''How much would I save?''"
    "strip ''Sure, most homes on your street save about a third on the bill.'' =
     ''Sure, most homes on your street save about a third on the bill.''"
    by code_simp+
  ultimately show ?thesis
    using solar_score
    by (simp add: mine_candidates_def solar_calls solar_call_def solar_events Let_def)
      (simp add: solar_event_def)
qed

lemma mine_keeps_best_witness:
  "\<exists>kept dropped. mine_one_campaign plain_mine 200 30 solar solar_db = map snd kept \<and> length kept = 1 \<and>
     mset kept + mset dropped = mset (mine_candidates plain_mine 200 30 solar solar_db)"
proof -
  have "cm_success_dispos solar \<noteq> []"
    by (simp add: solar_def)
  from mine_keeps_best [OF this, of plain_mine 200 30 solar_db] show ?thesis
    unfolding solar_candidates KEEP_TOP_K_def by auto
qed

theorem pool_from_own_calls_witness:
  "\<exists>r'\<in>set (campaigns (snd (campaign_mine_few_shot plain_mine 200 None 30 solar_db))).
     cm_tenant_id r' = ''t1'' \<and> (cm_few_shot_pool r' = [] \<or> list_all (own_example plain_mine ''t1'' [''XFER''] solar_db) (cm_few_shot_pool r'))"
proof -
  have "campaigns (snd (campaign_mine_few_shot plain_mine 200 None 30 solar_db)) \<noteq> []"
    by (simp add: campaign_mine_few_shot_def mine_targets_def solar_db_def store_pool_def put_row_def solar_def)
  then obtain r' where r': "r' \<in> set (campaigns (snd (campaign_mine_few_shot plain_mine 200 None 30 solar_db)))"
    by (meson ex_in_conv set_empty)
  have "distinct (map cm_id (campaigns solar_db))"
    by (simp add: solar_db_def)
  from pool_from_own_calls [OF this r'] show ?thesis
    using r' by (auto simp: solar_db_def solar_def)
qed

end
