(* ===== verification/Panel_Deployments.thy ===== *)
theory Panel_Deployments
  imports Panel_Content "HOL-Library.List_Lexorder" "HOL-Library.Char_ord"
begin

text \<open>
  Deployments and calls: \<open>services/deployment_service.py\<close>, \<open>api/v1/deployments.py\<close>,
  \<open>api/v1/calls.py\<close>, the test call of \<open>api/v1/agents.py\<close>, and the client of the session manager they
  use, \<open>integrations/session_mgr_client.py\<close>. What the session manager answers is an argument; that it
  was asked is an effect.
\<close>

section \<open>The client of the session manager\<close>

datatype sm_body = SmJson pyval | SmText string

datatype sm_reply = SmError string | SmReply nat sm_body

text \<open>\<open>_post\<close>: whether it went through. The routes of start, stop and pause do not look.\<close>

definition sm_post :: "sm_reply \<Rightarrow> bool" where
  "sm_post r = (case r of SmError _ \<Rightarrow> False | SmReply code _ \<Rightarrow> code < 400)"

text \<open>The detail of a refusal: the \<open>detail\<close> entry of a JSON object, else the text cut to 200, else the
  status.\<close>

definition sm_detail :: "nat \<Rightarrow> string \<Rightarrow> sm_body \<Rightarrow> pyval" where
  "sm_detail code body_text b =
     py_or (case b of
              SmJson (PDict d) \<Rightarrow> dget d ''detail''
            | SmJson _ \<Rightarrow> PStr (take 200 body_text)
            | SmText t \<Rightarrow> PStr (take 200 t))
       (PStr (''HTTP '' @ str_int (int code)))"

definition sm_ask :: "string \<Rightarrow> sm_reply \<Rightarrow> bool \<times> pyval" where
  "sm_ask body_text r =
     (case r of
        SmError e \<Rightarrow> (False, PStr e)
      | SmReply code b \<Rightarrow> if 400 \<le> code then (False, sm_detail code body_text b) else (True, PNone))"

definition sm_path :: "uuid \<Rightarrow> string \<Rightarrow> string" where
  "sm_path i verb = ''/api/v1/deployments/'' @ i @ ''/'' @ verb"

section \<open>Deployments\<close>

definition deployment_statuses :: "string list" where
  "deployment_statuses = [''stopped'', ''starting'', ''running'', ''error'']"

definition list_deployments :: "nat \<Rightarrow> nat \<Rightarrow> string option \<Rightarrow> user_row \<Rightarrow> (panel_deployment list \<times> nat) handler" where
  "list_deployments limit_n offset_n status_filter u =
     bnd (if 1 \<le> limit_n \<and> limit_n \<le> 500 then ret () else fails_with ''ValidationError'') (\<lambda>_.
     bnd (case str_or_none status_filter of None \<Rightarrow> ret () | Some st \<Rightarrow> enum_ok deployment_statuses [st]) (\<lambda>_.
     paged limit_n offset_n pd_updated_at (\<lambda>db. filter (\<lambda>d. pd_tenant_id d = us_tenant_id u \<and>
       (case str_or_none status_filter of None \<Rightarrow> True | Some st \<Rightarrow> pd_status d = st)) (deployments db))))"

definition get_deployment :: "uuid \<Rightarrow> user_row \<Rightarrow> panel_deployment handler" where
  "get_deployment i u = lookup deployments pd_id pd_tenant_id ''deployment'' (us_tenant_id u) i"

record deployment_create =
  dc_agent_id :: uuid
  dc_vicidial_server_id :: uuid
  dc_vici_user :: string
  dc_vici_pass :: string
  dc_phone_login :: string
  dc_phone_pass :: string
  dc_campaign_id :: string
  dc_aipanel_campaign_id :: "uuid option"
  dc_allowed_transfer_ingroups :: "string list"
  dc_dispo_mapping :: "pyval dict"

definition deployment_create_valid :: "deployment_create \<Rightarrow> bool" where
  "deployment_create_valid b =
     (len_within 128 (dc_vici_user b) \<and> len_within 200 (dc_vici_pass b) \<and> len_within 64 (dc_phone_login b) \<and>
      len_within 200 (dc_phone_pass b) \<and> len_within 64 (dc_campaign_id b))"

definition new_deployment :: "req_ctx \<Rightarrow> uuid \<Rightarrow> string \<Rightarrow> string \<Rightarrow> deployment_create \<Rightarrow> panel_deployment" where
  "new_deployment cx tenant_id vici phone b = \<lparr>pd_id = rq_new_id cx, pd_tenant_id = tenant_id,
     pd_agent_id = dc_agent_id b, pd_vicidial_server_id = dc_vicidial_server_id b, pd_vici_user = dc_vici_user b,
     pd_vici_pass_encrypted = vici, pd_phone_login = dc_phone_login b, pd_phone_pass_encrypted = phone,
     pd_campaign_id = dc_campaign_id b, pd_allowed_transfer_ingroups = dc_allowed_transfer_ingroups b,
     pd_dispo_mapping = dc_dispo_mapping b, pd_status = ''stopped'', pd_last_heartbeat_at = None,
     pd_aipanel_campaign_id = None, pd_created_at = rq_now cx, pd_updated_at = rq_now cx\<rparr>"

definition deployment_fks :: "panel_deployment \<Rightarrow> panel_db \<Rightarrow> bool" where
  "deployment_fks d db = (pd_agent_id d \<in> pa_id ` set (agents db) \<and> pd_vicidial_server_id d \<in> vs_id ` set (servers db))"

definition create_deployment :: "req_ctx \<Rightarrow> encryptor \<Rightarrow> deployment_create \<Rightarrow> user_row \<Rightarrow> panel_deployment handler" where
  "create_deployment cx enc b u =
     bnd (guard_that (deployment_create_valid b) 422 ''validation error'') (\<lambda>_.
     bnd (encrypting enc (dc_vici_pass b)) (\<lambda>vici.
     bnd (encrypting enc (dc_phone_pass b)) (\<lambda>phone.
     (let d = new_deployment cx (us_tenant_id u) vici phone b in
      bnd (flushing (\<lambda>db. deployment_fks d db \<and> pd_id d \<notin> pd_id ` set (deployments db)) ''IntegrityError''
             (\<lambda>db. db\<lparr>deployments := deployments db @ [d]\<rparr>)) (\<lambda>_.
      bnd (audit_as cx u ''deployment.create'' ''deployment'' (pd_id d) [(''agent_id'', PStr (dc_agent_id b))]) (\<lambda>_.
      ret d))))))"

definition save_deployment :: "req_ctx \<Rightarrow> panel_deployment \<Rightarrow> panel_deployment \<Rightarrow> panel_deployment handler" where
  "save_deployment cx old new =
     (let d = (if new = old then old else new\<lparr>pd_updated_at := rq_now cx\<rparr>) in
      bnd (writing (\<lambda>db. db\<lparr>deployments := put_row pd_id (pd_id old) (\<lambda>_. d) (deployments db)\<rparr>)) (\<lambda>_. ret d))"

record deployment_update =
  du_vici_user :: "string option"
  du_vici_pass :: "string option"
  du_phone_login :: "string option"
  du_phone_pass :: "string option"
  du_campaign_id :: "string option"
  du_aipanel_campaign_id :: "uuid option"
  du_allowed_transfer_ingroups :: "string list option"
  du_dispo_mapping :: "pyval dict option"

definition dump_deployment_update :: "deployment_update \<Rightarrow> pyval dict option" where
  "dump_deployment_update b =
     (if du_aipanel_campaign_id b = None
      then Some (opt_field ''vici_user'' PStr (du_vici_user b) @ opt_field ''phone_login'' PStr (du_phone_login b) @
        opt_field ''campaign_id'' PStr (du_campaign_id b) @
        opt_field ''allowed_transfer_ingroups'' (\<lambda>xs. PList (map PStr xs)) (du_allowed_transfer_ingroups b) @
        opt_field ''dispo_mapping'' PDict (du_dispo_mapping b))
      else None)"

definition apply_deployment_update ::
  "string option \<Rightarrow> string option \<Rightarrow> deployment_update \<Rightarrow> panel_deployment \<Rightarrow> panel_deployment" where
  "apply_deployment_update vici phone b d = d\<lparr>pd_vici_pass_encrypted := keep_or vici (pd_vici_pass_encrypted d),
     pd_phone_pass_encrypted := keep_or phone (pd_phone_pass_encrypted d),
     pd_vici_user := keep_or (du_vici_user b) (pd_vici_user d), pd_phone_login := keep_or (du_phone_login b) (pd_phone_login d),
     pd_campaign_id := keep_or (du_campaign_id b) (pd_campaign_id d),
     pd_allowed_transfer_ingroups := keep_or (du_allowed_transfer_ingroups b) (pd_allowed_transfer_ingroups d),
     pd_dispo_mapping := keep_or (du_dispo_mapping b) (pd_dispo_mapping d)\<rparr>"

definition update_deployment ::
  "req_ctx \<Rightarrow> encryptor \<Rightarrow> uuid \<Rightarrow> deployment_update \<Rightarrow> user_row \<Rightarrow> panel_deployment handler" where
  "update_deployment cx enc i b u =
     bnd (get_deployment i u) (\<lambda>d.
     bnd (opt_encrypting enc (du_vici_pass b)) (\<lambda>vici.
     bnd (opt_encrypting enc (du_phone_pass b)) (\<lambda>phone.
     bnd (save_deployment cx d (apply_deployment_update vici phone b d)) (\<lambda>d'.
     bnd (audit_dump cx u ''deployment.update'' ''deployment'' (pd_id d') (dump_deployment_update b)) (\<lambda>_.
     ret d')))))"

definition set_deployment_status :: "req_ctx \<Rightarrow> uuid \<Rightarrow> string \<Rightarrow> user_row \<Rightarrow> panel_deployment handler" where
  "set_deployment_status cx i new_status u =
     bnd (get_deployment i u) (\<lambda>d. save_deployment cx d (d\<lparr>pd_status := new_status\<rparr>))"

text \<open>Deleting a deployment deletes its calls and their events (\<open>CASCADE\<close>).\<close>

definition drop_deployment :: "uuid \<Rightarrow> panel_db \<Rightarrow> panel_db" where
  "drop_deployment i db =
     (let gone = set (map ca_id (filter (\<lambda>c. ca_deployment_id c = i) (calls db))) in
      db\<lparr>deployments := del_row pd_id i (deployments db),
         calls := filter (\<lambda>c. ca_deployment_id c \<noteq> i) (calls db),
         events := filter (\<lambda>e. ev_call_id e \<notin> gone) (events db)\<rparr>)"

definition delete_deployment :: "req_ctx \<Rightarrow> uuid \<Rightarrow> user_row \<Rightarrow> unit handler" where
  "delete_deployment cx i u =
     bnd (get_deployment i u) (\<lambda>d.
     bnd (writing (drop_deployment (pd_id d))) (\<lambda>_.
     audit_as cx u ''deployment.delete'' ''deployment'' i []))"

text \<open>Start and stop: the row first, then the session manager, whose answer is dropped.\<close>

definition start_deployment :: "req_ctx \<Rightarrow> sm_reply \<Rightarrow> uuid \<Rightarrow> user_row \<Rightarrow> unit handler" where
  "start_deployment cx r i u =
     bnd (set_deployment_status cx i ''starting'' u) (\<lambda>d.
     bnd (doing (SessionMgr (sm_path i ''start'') [])) (\<lambda>_.
     (let ignored = sm_post r in
      audit_as cx u ''deployment.start'' ''deployment'' (pd_id d) [])))"

definition stop_deployment :: "req_ctx \<Rightarrow> sm_reply \<Rightarrow> uuid \<Rightarrow> user_row \<Rightarrow> unit handler" where
  "stop_deployment cx r i u =
     bnd (set_deployment_status cx i ''stopped'' u) (\<lambda>d.
     bnd (doing (SessionMgr (sm_path i ''stop'') [])) (\<lambda>_.
     (let ignored = sm_post r in
      audit_as cx u ''deployment.stop'' ''deployment'' (pd_id d) [])))"

definition pause_deployment :: "req_ctx \<Rightarrow> sm_reply \<Rightarrow> uuid \<Rightarrow> string \<Rightarrow> user_row \<Rightarrow> unit handler" where
  "pause_deployment cx r i pause_code u =
     bnd (guard_that (length pause_code \<le> 64) 422 ''validation error'') (\<lambda>_.
     bnd (get_deployment i u) (\<lambda>_.
     bnd (doing (SessionMgr (sm_path i ''pause'') [(''pause_code'', PStr pause_code)])) (\<lambda>_.
     (let ignored = sm_post r in
      audit_as cx u ''deployment.pause'' ''deployment'' i [(''pause_code'', PStr pause_code)]))))"

section \<open>A test call\<close>

definition pick_explicit :: "uuid \<Rightarrow> uuid \<Rightarrow> user_row \<Rightarrow> panel_deployment handler" where
  "pick_explicit i agent_id u =
     bnd (reading (\<lambda>db. find (\<lambda>d. pd_id d = i \<and> pd_tenant_id d = us_tenant_id u \<and> pd_agent_id d = agent_id) (deployments db)))
       (\<lambda>d. case d of None \<Rightarrow> raise 404 ''deployment not found for this agent'' | Some d \<Rightarrow> ret d)"

text \<open>The deployment that is picked when none is named is looked for among three statuses, two of which
  are no labels of the enumeration.\<close>

definition test_call_statuses :: "string list" where
  "test_call_statuses = [''running'', ''ready'', ''paused'']"

definition pick_running :: "uuid \<Rightarrow> user_row \<Rightarrow> panel_deployment handler" where
  "pick_running agent_id u =
     bnd (enum_ok deployment_statuses test_call_statuses) (\<lambda>_.
     bnd (reading (\<lambda>db. take 1 (order_desc pd_updated_at (filter (\<lambda>d. pd_tenant_id d = us_tenant_id u \<and>
            pd_agent_id d = agent_id \<and> pd_status d \<in> set test_call_statuses) (deployments db)))))
       (\<lambda>ds. case ds of [] \<Rightarrow> raise 409 (''no running deployment for this agent '' @ em_dash @ '' start one first'')
             | d # _ \<Rightarrow> ret d))"

definition test_call ::
  "req_ctx \<Rightarrow> (pyval \<Rightarrow> string) \<Rightarrow> string \<Rightarrow> sm_reply \<Rightarrow> uuid \<Rightarrow> string \<Rightarrow> uuid option \<Rightarrow> user_row \<Rightarrow> unit handler" where
  "test_call cx rp body_text r agent_id phone_number deployment_id u =
     bnd (guard_that (4 \<le> length phone_number \<and> length phone_number \<le> 32) 422 ''validation error'') (\<lambda>_.
     bnd (get_agent agent_id u) (\<lambda>_.
     bnd (case deployment_id of Some i \<Rightarrow> pick_explicit i agent_id u | None \<Rightarrow> pick_running agent_id u) (\<lambda>d.
     bnd (doing (SessionMgr (sm_path (pd_id d) ''manual-dial'') [(''phone_number'', PStr phone_number)])) (\<lambda>_.
     case sm_ask body_text r of
       (False, detail) \<Rightarrow>
         bnd (audit_as cx u ''agent.test_call_failed'' ''agent'' agent_id
                [(''phone_number'', PStr phone_number), (''deployment_id'', PStr (pd_id d)), (''error'', detail)]) (\<lambda>_.
         raise 502 (''session manager rejected dial: '' @ py_str rp detail))
     | (True, _) \<Rightarrow>
         audit_as cx u ''agent.test_call'' ''agent'' agent_id
           [(''phone_number'', PStr phone_number), (''deployment_id'', PStr (pd_id d))]))))"

section \<open>Calls\<close>

definition tenant_call :: "uuid \<Rightarrow> call_record \<Rightarrow> panel_db \<Rightarrow> bool" where
  "tenant_call tenant_id c db = list_ex (\<lambda>d. pd_id d = ca_deployment_id c \<and> pd_tenant_id d = tenant_id) (deployments db)"

definition get_call_for_tenant :: "uuid \<Rightarrow> user_row \<Rightarrow> call_record handler" where
  "get_call_for_tenant i u =
     bnd (reading (\<lambda>db. find (\<lambda>c. ca_id c = i \<and> tenant_call (us_tenant_id u) c db) (calls db))) (\<lambda>row.
       case row of None \<Rightarrow> raise 404 ''call not found'' | Some c \<Rightarrow> ret c)"

record call_filter =
  cf_deployment_id :: "uuid option"
  cf_outcome :: "string option"
  cf_started_after :: "instant option"
  cf_started_before :: "instant option"

definition call_matches :: "call_filter \<Rightarrow> call_record \<Rightarrow> bool" where
  "call_matches f c =
     ((case cf_deployment_id f of None \<Rightarrow> True | Some i \<Rightarrow> ca_deployment_id c = i) \<and>
      (case str_or_none (cf_outcome f) of None \<Rightarrow> True | Some x \<Rightarrow> ca_outcome c = Some x) \<and>
      (case cf_started_after f of None \<Rightarrow> True | Some t \<Rightarrow> t \<le> ca_started_at c) \<and>
      (case cf_started_before f of None \<Rightarrow> True | Some t \<Rightarrow> ca_started_at c \<le> t))"

definition list_calls :: "nat \<Rightarrow> nat \<Rightarrow> call_filter \<Rightarrow> user_row \<Rightarrow> (call_record list \<times> nat) handler" where
  "list_calls limit_n offset_n f u =
     bnd (guard_that (1 \<le> limit_n \<and> limit_n \<le> 500) 422 ''validation error'') (\<lambda>_.
     paged limit_n offset_n ca_started_at (\<lambda>db. filter (\<lambda>c. tenant_call (us_tenant_id u) c db \<and> call_matches f c) (calls db)))"

definition get_events :: "uuid \<Rightarrow> user_row \<Rightarrow> event_record list handler" where
  "get_events i u =
     bnd (get_call_for_tenant i u) (\<lambda>_. reading (\<lambda>db. order_asc ev_ts (filter (\<lambda>e. ev_call_id e = i) (events db))))"

record turn =
  tu_ts :: instant
  tu_role :: string
  tu_text :: string
  tu_extra :: "pyval dict"

definition turn_of :: "(pyval \<Rightarrow> string) \<Rightarrow> event_record \<Rightarrow> turn" where
  "turn_of rp e = \<lparr>tu_ts = ev_ts e, tu_role = (if ev_event_type e = ''user_speech'' then ''user'' else ''agent''),
     tu_text = py_str rp (dget_or (ev_payload e) ''text'' (PStr [])),
     tu_extra = filter (\<lambda>(k, v). k \<noteq> ''text'') (ev_payload e)\<rparr>"

definition get_transcript :: "(pyval \<Rightarrow> string) \<Rightarrow> uuid \<Rightarrow> user_row \<Rightarrow> turn list handler" where
  "get_transcript rp i u =
     bnd (get_call_for_tenant i u) (\<lambda>_.
     reading (\<lambda>db. map (turn_of rp) (order_asc ev_ts (filter (\<lambda>e. ev_call_id e = i \<and>
       (ev_event_type e = ''user_speech'' \<or> ev_event_type e = ''agent_speech'')) (events db)))))"

text \<open>The recording: \<open>sign\<close> is the presigned address of the object store.\<close>

definition split_bucket :: "string \<Rightarrow> string \<times> string" where
  "split_bucket rest = (takeWhile (\<lambda>c. c \<noteq> CHR ''/'') rest, tl (dropWhile (\<lambda>c. c \<noteq> CHR ''/'') rest))"

definition get_recording :: "(pyval \<Rightarrow> string) \<Rightarrow> (string \<Rightarrow> string \<Rightarrow> string) \<Rightarrow> uuid \<Rightarrow> user_row \<Rightarrow> string handler" where
  "get_recording rp sign i u =
     bnd (get_call_for_tenant i u) (\<lambda>c.
       case str_or_none (ca_recording_path c) of
         None \<Rightarrow> raise 404 ''no recording for this call''
       | Some p \<Rightarrow>
           if \<not> startswith p ''s3://'' then raise 500 (''unexpected recording_path format: '' @ rp (PStr p))
           else (case split_bucket (drop 5 p) of (bucket, k) \<Rightarrow>
                   if k = [] then raise 500 ''recording_path missing object key'' else ret (sign bucket k)))"

definition list_transfer_options :: "uuid \<Rightarrow> user_row \<Rightarrow> string list handler" where
  "list_transfer_options i u =
     bnd (get_call_for_tenant i u) (\<lambda>c.
     bnd (reading (\<lambda>db. get_row pd_id (ca_deployment_id c) (deployments db))) (\<lambda>d.
     ret (case d of None \<Rightarrow> [] | Some d \<Rightarrow> pd_allowed_transfer_ingroups d)))"

definition transfer_allowed :: "string \<Rightarrow> panel_deployment \<Rightarrow> bool" where
  "transfer_allowed ingroup_id d =
     (pd_allowed_transfer_ingroups d = [] \<or> ingroup_id \<in> set (pd_allowed_transfer_ingroups d))"

text \<open>The call \<open>c\<close> of the deployment \<open>d\<close> handed over, and the answer written down.\<close>

definition hand_over ::
  "req_ctx \<Rightarrow> (pyval \<Rightarrow> string) \<Rightarrow> string \<Rightarrow> sm_reply \<Rightarrow> uuid \<Rightarrow> string \<Rightarrow> string \<Rightarrow> call_record \<Rightarrow> panel_deployment \<Rightarrow>
     user_row \<Rightarrow> unit handler" where
  "hand_over cx rp body_text r i ingroup_id summary c d u =
     bnd (doing (SessionMgr (sm_path (pd_id d) ''transfer'') [(''ingroup_id'', PStr ingroup_id), (''summary'', PStr summary)])) (\<lambda>_.
     case sm_ask body_text r of
       (False, detail) \<Rightarrow>
         bnd (audit_as cx u ''call.transfer_failed'' ''call'' i [(''ingroup_id'', PStr ingroup_id), (''error'', detail)]) (\<lambda>_.
         raise 502 (''session manager rejected transfer: '' @ py_str rp detail))
     | (True, _) \<Rightarrow>
         bnd (writing (\<lambda>db. db\<lparr>calls := put_row ca_id (ca_id c) (ca_transfer_target_update (\<lambda>_. Some ingroup_id)) (calls db)\<rparr>)) (\<lambda>_.
         audit_as cx u ''call.transfer'' ''call'' i [(''ingroup_id'', PStr ingroup_id), (''summary'', PStr summary)]))"

definition transfer_call ::
  "req_ctx \<Rightarrow> (pyval \<Rightarrow> string) \<Rightarrow> string \<Rightarrow> sm_reply \<Rightarrow> uuid \<Rightarrow> string \<Rightarrow> string \<Rightarrow> user_row \<Rightarrow> unit handler" where
  "transfer_call cx rp body_text r i ingroup_id summary u =
     bnd (guard_that (len_within 64 ingroup_id \<and> length summary \<le> 2000) 422 ''validation error'') (\<lambda>_.
     bnd (get_call_for_tenant i u) (\<lambda>c.
     bnd (guard_that (ca_ended_at c = None) 409 (''this call has already ended '' @ em_dash @ '' cannot transfer'')) (\<lambda>_.
     bnd (reading (\<lambda>db. get_row pd_id (ca_deployment_id c) (deployments db))) (\<lambda>d.
       case d of
         None \<Rightarrow> raise 404 ''deployment for this call no longer exists''
       | Some d \<Rightarrow>
           bnd (guard_that (transfer_allowed ingroup_id d) 400
                  (''ingroup '' @ [CHR 0x27] @ ingroup_id @ [CHR 0x27] @ '' is not in this deployment's allow-list ('' @
                     rp (PList (map PStr (sort (remdups (pd_allowed_transfer_ingroups d))))) @ '')'')) (\<lambda>_.
           hand_over cx rp body_text r i ingroup_id summary c d u)))))"

end
