(* ===== verification/Panel_Isolation.thy ===== *)
theory Panel_Isolation
  imports Panel_Campaigns Panel_Deployments
begin

text \<open>
  The separation of the tenants: what a request of one tenant's user can change of the others. The
  view \<open>foreign\<close> is the database without the rows of a tenant; \<open>keeps\<close> says that a handler, when it
  returns, leaves it as it was, and the rules for it follow the way the handlers are composed. The
  tables with a tenant column share one contract, the locale \<open>tenant_table\<close>, interpreted on each.
\<close>

section \<open>The view without a tenant\<close>

definition has_key :: "('r \<Rightarrow> uuid) \<Rightarrow> 'r list \<Rightarrow> uuid \<Rightarrow> bool" where
  "has_key key rows i \<longleftrightarrow> i \<in> key ` set rows"

text \<open>Documents go with their knowledge base, calls and events with their deployment.\<close>

definition foreign_kb :: "uuid \<Rightarrow> panel_db \<Rightarrow> uuid \<Rightarrow> bool" where
  "foreign_kb t db i \<longleftrightarrow> has_key kb_id (filter (\<lambda>r. kb_tenant_id r \<noteq> t) (kbs db)) i"

definition foreign_deployment :: "uuid \<Rightarrow> panel_db \<Rightarrow> uuid \<Rightarrow> bool" where
  "foreign_deployment t db i \<longleftrightarrow> has_key pd_id (filter (\<lambda>r. pd_tenant_id r \<noteq> t) (deployments db)) i"

definition foreign_calls :: "uuid \<Rightarrow> panel_db \<Rightarrow> call_record list" where
  "foreign_calls t db = filter (\<lambda>c. foreign_deployment t db (ca_deployment_id c)) (calls db)"

definition foreign :: "uuid \<Rightarrow> panel_db \<Rightarrow> panel_db" where
  "foreign t db =
     db\<lparr>tenants := filter (\<lambda>r. tn_id r \<noteq> t) (tenants db), users := filter (\<lambda>r. us_tenant_id r \<noteq> t) (users db),
        voices := filter (\<lambda>r. vo_tenant_id r \<noteq> t) (voices db), kbs := filter (\<lambda>r. kb_tenant_id r \<noteq> t) (kbs db),
        documents := filter (\<lambda>d. foreign_kb t db (do_kb_id d)) (documents db),
        agents := filter (\<lambda>r. pa_tenant_id r \<noteq> t) (agents db), servers := filter (\<lambda>r. vs_tenant_id r \<noteq> t) (servers db),
        deployments := filter (\<lambda>r. pd_tenant_id r \<noteq> t) (deployments db), calls := foreign_calls t db,
        events := filter (\<lambda>e. has_key ca_id (foreign_calls t db) (ev_call_id e)) (events db),
        campaigns := filter (\<lambda>r. cm_tenant_id r \<noteq> t) (campaigns db),
        audits := filter (\<lambda>r. au_tenant_id r \<noteq> Some t) (audits db)\<rparr>"

lemmas foreign_defs = foreign_def foreign_calls_def foreign_kb_def foreign_deployment_def

text \<open>The primary keys.\<close>

definition keys_wf :: "panel_db \<Rightarrow> bool" where
  "keys_wf db \<longleftrightarrow> distinct (map vo_id (voices db)) \<and> distinct (map kb_id (kbs db)) \<and>
     distinct (map do_id (documents db)) \<and> distinct (map pa_id (agents db)) \<and> distinct (map vs_id (servers db)) \<and>
     distinct (map pd_id (deployments db)) \<and> distinct (map ca_id (calls db)) \<and> distinct (map cm_id (campaigns db))"

definition apart :: "uuid \<Rightarrow> panel_db \<Rightarrow> panel_db \<Rightarrow> bool" where
  "apart t db db' \<longleftrightarrow> keys_wf db' \<and> foreign t db' = foreign t db"

lemma apart_refl: "keys_wf db \<Longrightarrow> apart t db db"
  by (simp add: apart_def)

lemma apart_trans: "apart t a b \<Longrightarrow> apart t b c \<Longrightarrow> apart t a c"
  by (simp add: apart_def)

section \<open>Handlers that keep the others apart\<close>

definition keeps :: "uuid \<Rightarrow> (panel_db \<Rightarrow> bool) \<Rightarrow> 'a handler \<Rightarrow> bool" where
  "keeps t P h \<longleftrightarrow> (\<forall>s x s'. P (sn_db s) \<longrightarrow> keys_wf (sn_db s) \<longrightarrow> h s = (Inr x, s') \<longrightarrow> apart t (sn_db s) (sn_db s'))"

definition reads :: "'a handler \<Rightarrow> bool" where
  "reads h \<longleftrightarrow> (\<forall>s x s'. h s = (x, s') \<longrightarrow> sn_db s' = sn_db s)"

named_theorems keep_rules \<open>rules for handlers that keep the tenants apart\<close>
named_theorems read_rules \<open>rules for handlers that only read\<close>

lemma readsI: "(\<And>s x s'. h s = (x, s') \<Longrightarrow> sn_db s' = sn_db s) \<Longrightarrow> reads h"
  by (auto simp: reads_def)

lemma reads_bnd [read_rules]: "reads m \<Longrightarrow> (\<And>x. reads (k x)) \<Longrightarrow> reads (bnd m k)"
  by (fastforce simp: reads_def bnd_def split: prod.splits sum.splits)

lemma reads_basic [read_rules]:
  "reads (ret x)" "reads (raise c d)" "reads (fails_with w)" "reads (reading f)" "reads (doing e)" "reads (guard_that b c d)"
  by (auto simp: reads_def handler_simps fails_with_def doing_def)

lemma reads_if [read_rules]: "reads a \<Longrightarrow> reads b \<Longrightarrow> reads (if c then a else b)"
  by simp

lemma reads_option [read_rules]:
  "reads a \<Longrightarrow> (\<And>x. reads (b x)) \<Longrightarrow> reads (case z of None \<Rightarrow> a | Some x \<Rightarrow> b x)"
  by (cases z) simp_all

lemma reads_parts [read_rules]:
  "reads (lookup tab key tenant what t i)" "reads (enum_ok labels vs)" "reads (encrypting enc p)"
  "reads (opt_encrypting enc q)" "reads (paged l off f base)" "reads (get_call_for_tenant i u)"
  unfolding lookup_def enum_ok_def encrypting_def opt_encrypting_def paged_def get_call_for_tenant_def
  by (intro read_rules)+

lemma keeps_reads: "reads h \<Longrightarrow> keeps t P h"
  by (metis apart_refl keeps_def reads_def)

lemma keeps_after_read [keep_rules]:
  "reads m \<Longrightarrow> (\<And>x. keeps t P (k x)) \<Longrightarrow> keeps t P (bnd m k)"
  by (auto simp: keeps_def reads_def elim!: bnd_InrE) metis

lemma keeps_seq: "keeps t P m \<Longrightarrow> (\<And>x. keeps t (\<lambda>_. True) (k x)) \<Longrightarrow> keeps t P (bnd m k)"
  unfolding keeps_def by (intro allI impI) (erule bnd_InrE, metis apart_def)

lemma keeps_lookup:
  assumes "\<And>r. tenant r = t \<Longrightarrow> key r = i \<Longrightarrow> keeps t (\<lambda>db. r \<in> set (tab db)) (k r)"
  shows "keeps t P (bnd (lookup tab key tenant what t i) k)"
  unfolding keeps_def
proof (intro allI impI)
  fix s x s'
  assume wf: "keys_wf (sn_db s)" and run: "bnd (lookup tab key tenant what t i) k s = (Inr x, s')"
  from run obtain r s1 where l: "lookup tab key tenant what t i s = (Inr r, s1)" and k: "k r s1 = (Inr x, s')"
    by (rule bnd_InrE)
  have "get_row key i (tab (sn_db s)) = Some r \<and> tenant r = t \<and> s1 = s"
    using l by (auto simp: lookup_def handler_simps split: option.splits if_splits)
  then show "apart t (sn_db s) (sn_db s')"
    using assms k wf get_row_SomeD by (metis keeps_def)
qed

lemma keeps_audit: "keeps (us_tenant_id u) P (audit_dump cx u a tt ti p)"
  by (auto simp: keeps_def audit_dump_def log_audit_def writing_def apart_def foreign_defs keys_wf_def Let_def
      split: option.splits if_splits)

lemma keeps_audit_as: "keeps (us_tenant_id u) P (audit_as cx u a tt ti p)"
  unfolding audit_as_def by (rule keeps_audit)

lemma keeps_writing: "(\<And>db. P db \<Longrightarrow> keys_wf db \<Longrightarrow> apart t db (f db)) \<Longrightarrow> keeps t P (writing f)"
  by (auto simp: keeps_def writing_def)

lemma keeps_flushing: "(\<And>db. P db \<Longrightarrow> keys_wf db \<Longrightarrow> ok db \<Longrightarrow> apart t db (f db)) \<Longrightarrow> keeps t P (flushing ok why f)"
  by (auto simp: keeps_def flushing_def writing_def split: if_splits)

lemma keeps_if [keep_rules]: "(c \<Longrightarrow> keeps t P a) \<Longrightarrow> (\<not> c \<Longrightarrow> keeps t P b) \<Longrightarrow> keeps t P (if c then a else b)"
  by simp

section \<open>Tables with a tenant\<close>

text \<open>The contract of such a table: its keys are distinct, a change of it that keeps them so and keeps
  the rows of the other tenants keeps the database apart.\<close>

locale tenant_table =
  fixes tab :: "panel_db \<Rightarrow> 'r list" and put :: "'r list \<Rightarrow> panel_db \<Rightarrow> panel_db"
    and key :: "'r \<Rightarrow> uuid" and tenant :: "'r \<Rightarrow> uuid"
  assumes keys_distinct: "keys_wf db \<Longrightarrow> distinct (map key (tab db))"
    and put_apart: "keys_wf db \<Longrightarrow> distinct (map key rows) \<Longrightarrow>
      filter (\<lambda>r. tenant r \<noteq> t) rows = filter (\<lambda>r. tenant r \<noteq> t) (tab db) \<Longrightarrow> apart t db (put rows db)"
begin

lemma insert_own:
  "keys_wf db \<Longrightarrow> tenant r = t \<Longrightarrow> key r \<notin> key ` set (tab db) \<Longrightarrow> apart t db (put (tab db @ [r]) db)"
  by (rule put_apart) (simp_all add: keys_distinct)

lemma put_keys: "key r' = k \<Longrightarrow> map key (put_row key k (\<lambda>_. r') rows) = map key rows"
  by (induction rows) (auto simp: put_row_def)

lemma own_key: "keys_wf db \<Longrightarrow> r \<in> set (tab db) \<Longrightarrow> x \<in> set (tab db) \<Longrightarrow> key x = key r \<Longrightarrow> x = r"
  by (metis distinct_map inj_onD keys_distinct)

lemma update_own:
  assumes "keys_wf db" "r \<in> set (tab db)" "tenant r = t" "key r' = key r" "tenant r' = t"
  shows "apart t db (put (put_row key (key r) (\<lambda>_. r') (tab db)) db)"
proof (rule put_apart [OF assms(1)])
  show "distinct (map key (put_row key (key r) (\<lambda>_. r') (tab db)))"
    using assms(4) keys_distinct [OF assms(1)] by (simp add: put_keys)
  show "filter (\<lambda>r. tenant r \<noteq> t) (put_row key (key r) (\<lambda>_. r') (tab db)) = filter (\<lambda>r. tenant r \<noteq> t) (tab db)"
    using own_key [OF assms(1,2)] assms(3,5) by (intro filter_put_row) auto
qed

end

interpretation agent_table: tenant_table agents "\<lambda>rows db. db\<lparr>agents := rows\<rparr>" pa_id pa_tenant_id
  by unfold_locales (auto simp: keys_wf_def apart_def foreign_defs)

interpretation voice_table: tenant_table voices "\<lambda>rows db. db\<lparr>voices := rows\<rparr>" vo_id vo_tenant_id
  by unfold_locales (auto simp: keys_wf_def apart_def foreign_defs)

interpretation kb_table: tenant_table kbs "\<lambda>rows db. db\<lparr>kbs := rows\<rparr>" kb_id kb_tenant_id
  by unfold_locales (auto simp: keys_wf_def apart_def foreign_defs)

interpretation server_table: tenant_table servers "\<lambda>rows db. db\<lparr>servers := rows\<rparr>" vs_id vs_tenant_id
  by unfold_locales (auto simp: keys_wf_def apart_def foreign_defs)

interpretation campaign_table: tenant_table campaigns "\<lambda>rows db. db\<lparr>campaigns := rows\<rparr>" cm_id cm_tenant_id
  by unfold_locales (auto simp: keys_wf_def apart_def foreign_defs)

interpretation deployment_table: tenant_table deployments "\<lambda>rows db. db\<lparr>deployments := rows\<rparr>" pd_id pd_tenant_id
  by unfold_locales (auto simp: keys_wf_def apart_def foreign_defs)

section \<open>The handlers\<close>

lemma keeps_save_agent:
  assumes "pa_tenant_id old = t" "pa_id new = pa_id old" "pa_tenant_id new = t"
  shows "keeps t (\<lambda>db. old \<in> set (agents db)) (save_agent cx old new)"
  unfolding save_agent_def Let_def
proof (intro keeps_seq keeps_flushing keeps_reads read_rules)
  fix db assume "old \<in> set (agents db)" "keys_wf db"
  then show "apart t db (db\<lparr>agents := put_row pa_id (pa_id old) (\<lambda>_. touch_agent (rq_now cx) old new) (agents db)\<rparr>)"
    by (intro agent_table.update_own) (use assms in \<open>simp_all add: touch_agent_def\<close>)
qed

lemma keeps_save_campaign:
  assumes "cm_tenant_id old = t" "cm_id new = cm_id old" "cm_tenant_id new = t"
  shows "keeps t (\<lambda>db. old \<in> set (campaigns db)) (save_campaign cx old new)"
  unfolding save_campaign_def Let_def
proof (intro keeps_seq keeps_flushing keeps_reads read_rules)
  fix db assume "old \<in> set (campaigns db)" "keys_wf db"
  then show "apart t db (db\<lparr>campaigns := put_row cm_id (cm_id old) (\<lambda>_. if new = old then old
      else new\<lparr>cm_updated_at := rq_now cx\<rparr>) (campaigns db)\<rparr>)"
    by (intro campaign_table.update_own) (use assms in simp_all)
qed

lemma keeps_save_deployment:
  assumes "pd_tenant_id old = t" "pd_id new = pd_id old" "pd_tenant_id new = t"
  shows "keeps t (\<lambda>db. old \<in> set (deployments db)) (save_deployment cx old new)"
  unfolding save_deployment_def Let_def
proof (intro keeps_seq keeps_writing keeps_reads read_rules)
  fix db assume "old \<in> set (deployments db)" "keys_wf db"
  then show "apart t db (db\<lparr>deployments := put_row pd_id (pd_id old) (\<lambda>_. if new = old then old
      else new\<lparr>pd_updated_at := rq_now cx\<rparr>) (deployments db)\<rparr>)"
    by (intro deployment_table.update_own) (use assms in simp_all)
qed

lemma keeps_insert_agent: "pa_tenant_id a = t \<Longrightarrow> keeps t P (insert_agent a)"
  unfolding insert_agent_def by (intro keeps_flushing agent_table.insert_own) auto

lemma apply_agent_update_own [simp]:
  "pa_id (apply_agent_update b a) = pa_id a" "pa_tenant_id (apply_agent_update b a) = pa_tenant_id a"
  by (simp_all add: apply_agent_update_def)

lemma apply_campaign_update_own [simp]:
  "cm_id (apply_campaign_update b c) = cm_id c" "cm_tenant_id (apply_campaign_update b c) = cm_tenant_id c"
  by (simp_all add: apply_campaign_update_def)

lemma apply_deployment_update_own [simp]:
  "pd_id (apply_deployment_update v p b d) = pd_id d" "pd_tenant_id (apply_deployment_update v p b d) = pd_tenant_id d"
  by (simp_all add: apply_deployment_update_def)

lemmas keep_intros = keeps_audit keeps_audit_as keeps_lookup keeps_after_read read_rules keeps_if keeps_reads

lemma keeps_create_agent: "keeps (us_tenant_id u) P (create_agent cx b u)"
  unfolding create_agent_def Let_def
  by (intro keeps_after_read keeps_seq keeps_insert_agent keeps_audit_as keeps_reads read_rules) (simp add: new_agent_def)

lemma keeps_update_agent: "keeps (us_tenant_id u) P (update_agent cx i b u)"
  unfolding update_agent_def get_agent_def
  by (rule keeps_after_read, rule reads_basic(6),
      intro keeps_lookup keeps_seq keeps_save_agent keeps_audit keeps_reads read_rules) simp_all

lemma keeps_set_agent_status: "keeps (us_tenant_id u) P (set_agent_status cx i st action u)"
  unfolding set_agent_status_def get_agent_def
  by (intro keeps_lookup keeps_seq keeps_save_agent keeps_audit_as keeps_reads read_rules) simp_all

lemma keeps_duplicate_agent: "keeps (us_tenant_id u) P (duplicate_agent cx i u)"
  unfolding duplicate_agent_def get_agent_def Let_def
  by (intro keeps_lookup keeps_seq keeps_insert_agent keeps_audit_as keeps_reads read_rules) (simp add: copy_agent_def)

lemma keeps_upload_training_recording:
  "keeps (us_tenant_id u) P (upload_training_recording cx f bucket outage i lab up u)"
  unfolding upload_training_recording_def get_agent_def Let_def
  by (cases outage; simp only: option.case;
      intro keeps_lookup keeps_after_read keeps_seq keeps_save_agent keeps_audit_as keeps_reads read_rules; simp?)

lemma keeps_delete_training_recording: "keeps (us_tenant_id u) P (delete_training_recording cx i rid u)"
  unfolding delete_training_recording_def get_agent_def Let_def
  by (intro keeps_lookup keeps_if keeps_seq keeps_save_agent keeps_audit_as keeps_reads read_rules) simp_all

lemma keeps_create_voice: "keeps (us_tenant_id u) P (create_voice cx b64 name ref_text audio u)"
  unfolding create_voice_def Let_def
  by (intro keeps_after_read keeps_seq keeps_flushing voice_table.insert_own keeps_audit_as keeps_reads read_rules)
    (simp_all add: new_voice_def)

lemma keeps_create_kb: "keeps (us_tenant_id u) P (create_kb cx name d m u)"
  unfolding create_kb_def Let_def
  by (intro keeps_after_read keeps_seq keeps_flushing kb_table.insert_own keeps_audit_as keeps_reads read_rules) simp_all

lemma keeps_create_server: "keeps (us_tenant_id u) P (create_server cx enc b u)"
  unfolding create_server_def Let_def
  by (intro keeps_after_read keeps_seq keeps_flushing server_table.insert_own keeps_audit_as keeps_reads read_rules) simp_all

lemma keeps_update_server: "keeps (us_tenant_id u) P (update_server cx enc i b u)"
  unfolding update_server_def get_server_def Let_def
  by (intro keeps_lookup keeps_after_read keeps_seq keeps_writing server_table.update_own keeps_audit keeps_reads read_rules) simp_all

lemma keeps_create_campaign: "keeps (us_tenant_id u) P (create_campaign cx b u)"
  unfolding create_campaign_def Let_def
  by (intro keeps_after_read keeps_seq keeps_flushing campaign_table.insert_own keeps_audit_as keeps_reads read_rules)
    (simp_all add: new_campaign_def)

lemma keeps_update_campaign: "keeps (us_tenant_id u) P (update_campaign cx i b u)"
  unfolding update_campaign_def get_campaign_def
  by (intro keeps_after_read keeps_lookup keeps_seq keeps_save_campaign keeps_audit keeps_reads read_rules) simp_all

lemma keeps_archive_campaign: "keeps (us_tenant_id u) P (archive_campaign cx i u)"
  unfolding archive_campaign_def get_campaign_def
  by (intro keeps_lookup keeps_seq keeps_save_campaign keeps_audit_as keeps_reads read_rules) simp_all

lemma keeps_create_deployment: "keeps (us_tenant_id u) P (create_deployment cx enc b u)"
  unfolding create_deployment_def Let_def
  by (intro keeps_after_read keeps_seq keeps_flushing deployment_table.insert_own keeps_audit_as keeps_reads read_rules)
    (simp_all add: new_deployment_def)

lemma keeps_update_deployment: "keeps (us_tenant_id u) P (update_deployment cx enc i b u)"
  unfolding update_deployment_def get_deployment_def
  by (intro keeps_lookup keeps_after_read keeps_seq keeps_save_deployment keeps_audit keeps_reads read_rules) simp_all

lemma keeps_set_deployment_status: "keeps (us_tenant_id u) P (set_deployment_status cx i st u)"
  unfolding set_deployment_status_def get_deployment_def
  by (intro keeps_lookup keeps_save_deployment) simp_all

lemma keeps_start_stop:
  "keeps (us_tenant_id u) P (start_deployment cx r i u)" "keeps (us_tenant_id u) P (stop_deployment cx r i u)"
  unfolding start_deployment_def stop_deployment_def Let_def
  by (intro keeps_seq keeps_set_deployment_status keeps_audit_as keeps_reads read_rules)+

lemma keeps_get_call:
  assumes "\<And>c. keeps (us_tenant_id u) (\<lambda>db. c \<in> set (calls db) \<and> tenant_call (us_tenant_id u) c db) (k c)"
  shows "keeps (us_tenant_id u) P (bnd (get_call_for_tenant i u) k)"
  unfolding keeps_def
proof (intro allI impI)
  fix s x s'
  assume wf: "keys_wf (sn_db s)" and run: "bnd (get_call_for_tenant i u) k s = (Inr x, s')"
  from run obtain c s1 where l: "get_call_for_tenant i u s = (Inr c, s1)" and k: "k c s1 = (Inr x, s')"
    by (rule bnd_InrE)
  have "find (\<lambda>c. ca_id c = i \<and> tenant_call (us_tenant_id u) c (sn_db s)) (calls (sn_db s)) = Some c \<and> s1 = s"
    using l by (auto simp: get_call_for_tenant_def handler_simps split: option.splits)
  then have "c \<in> set (calls (sn_db s)) \<and> tenant_call (us_tenant_id u) c (sn_db s) \<and> s1 = s"
    by (metis find_Some_iff nth_mem)
  then show "apart (us_tenant_id u) (sn_db s) (sn_db s')"
    using assms k wf unfolding keeps_def by metis
qed

lemma keeps_reading:
  "(\<And>x. keeps t (\<lambda>db. P db \<and> f db = x) (k x)) \<Longrightarrow> keeps t P (bnd (reading f) k)"
  unfolding keeps_def bnd_def reading_def by simp

lemma keeps_lookup_with:
  assumes "\<And>r. tenant r = t \<Longrightarrow> key r = i \<Longrightarrow> keeps t (\<lambda>db. P db \<and> r \<in> set (tab db)) (k r)"
  shows "keeps t P (bnd (lookup tab key tenant what t i) k)"
  unfolding keeps_def
proof (intro allI impI)
  fix s x s'
  assume p: "P (sn_db s)" and wf: "keys_wf (sn_db s)" and run: "bnd (lookup tab key tenant what t i) k s = (Inr x, s')"
  from run obtain r s1 where l: "lookup tab key tenant what t i s = (Inr r, s1)" and k: "k r s1 = (Inr x, s')"
    by (rule bnd_InrE)
  have "get_row key i (tab (sn_db s)) = Some r \<and> tenant r = t \<and> s1 = s"
    using l by (auto simp: lookup_def handler_simps split: option.splits if_splits)
  moreover from this have "r \<in> set (tab (sn_db s))" "key r = i"
    using get_row_SomeD [of key i "tab (sn_db s)" r] by auto
  ultimately show "apart t (sn_db s) (sn_db s')"
    using assms [of r] p k wf unfolding keeps_def by auto
qed

lemma own_kb:
  assumes "keys_wf db" "k \<in> set (kbs db)" "kb_tenant_id k = t"
  shows "\<not> foreign_kb t db (kb_id k)"
proof
  assume "foreign_kb t db (kb_id k)"
  then obtain r where "r \<in> set (kbs db)" "kb_tenant_id r \<noteq> t" "kb_id r = kb_id k"
    by (auto simp: foreign_kb_def has_key_def)
  with kb_table.own_key [OF assms(1,2)] assms(3) show False by blast
qed

lemma own_deployment:
  assumes "keys_wf db" "d \<in> set (deployments db)" "pd_tenant_id d = t"
  shows "\<not> foreign_deployment t db (pd_id d)"
proof
  assume "foreign_deployment t db (pd_id d)"
  then obtain r where "r \<in> set (deployments db)" "pd_tenant_id r \<noteq> t" "pd_id r = pd_id d"
    by (auto simp: foreign_deployment_def has_key_def)
  with deployment_table.own_key [OF assms(1,2)] assms(3) show False by blast
qed

lemma documents_apart:
  assumes "keys_wf db" "distinct (map do_id ds)"
    "filter (\<lambda>d. foreign_kb t db (do_kb_id d)) ds = filter (\<lambda>d. foreign_kb t db (do_kb_id d)) (documents db)"
  shows "apart t db (db\<lparr>documents := ds\<rparr>)"
  using assms by (simp add: apart_def keys_wf_def foreign_defs)

lemma keeps_upload_document: "keeps (us_tenant_id u) P (upload_document cx sha b64 i f u)"
  unfolding upload_document_def get_kb_def Let_def
proof (rule keeps_after_read, rule reads_basic(6), intro keeps_lookup keeps_seq keeps_flushing keeps_audit_as keeps_reads read_rules)
  fix r db
  assume r: "kb_tenant_id r = us_tenant_id u" "kb_id r = i" "r \<in> set (kbs db)" and wf: "keys_wf db"
    and new: "do_id (new_document cx i (opt_str_or (up_filename f) ''upload.bin'') (sha (up_bytes f))) \<notin> do_id ` set (documents db)"
  have "\<not> foreign_kb (us_tenant_id u) db i"
    using own_kb [OF wf r(3,1)] r(2) by simp
  then show "apart (us_tenant_id u) db (db\<lparr>documents := documents db @
      [new_document cx i (opt_str_or (up_filename f) ''upload.bin'') (sha (up_bytes f))]\<rparr>)"
    by (intro documents_apart) (use wf new in \<open>auto simp: keys_wf_def new_document_def\<close>)
qed

lemma distinct_del_row: "distinct (map key rows) \<Longrightarrow> distinct (map key (del_row key k rows))"
  by (simp add: del_row_def distinct_map_filter)

lemma keeps_delete_document: "keeps (us_tenant_id u) P (delete_document cx i doc_id u)"
  unfolding delete_document_def get_kb_def
proof (intro keeps_lookup keeps_reading)
  fix r :: kb_row and row
  assume r: "kb_tenant_id r = us_tenant_id u" "kb_id r = i"
  show "keeps (us_tenant_id u) (\<lambda>db. r \<in> set (kbs db) \<and> get_row do_id doc_id (documents db) = row)
    (case row of None \<Rightarrow> raise 404 ''document not found''
     | Some d \<Rightarrow> if do_kb_id d \<noteq> i then raise 404 ''document not found''
         else bnd (writing (\<lambda>db. db\<lparr>documents := del_row do_id doc_id (documents db)\<rparr>))
           (\<lambda>_. audit_as cx u ''kb.delete_document'' ''kb_document'' doc_id []))"
  proof (cases row)
    case (Some d)
    have "apart (us_tenant_id u) db (db\<lparr>documents := del_row do_id doc_id (documents db)\<rparr>)"
      if "r \<in> set (kbs db)" "get_row do_id doc_id (documents db) = Some d" "do_kb_id d = i" "keys_wf db" for db
    proof (rule documents_apart [OF that(4)])
      show "distinct (map do_id (del_row do_id doc_id (documents db)))"
        using that(4) by (simp add: keys_wf_def distinct_del_row)
      have "x = d" if "x \<in> set (documents db)" "do_id x = doc_id" for x
        using get_row_SomeD [OF \<open>get_row do_id doc_id (documents db) = Some d\<close>] that \<open>keys_wf db\<close>
        by (metis distinct_map inj_onD keys_wf_def)
      moreover have "\<not> foreign_kb (us_tenant_id u) db i"
        using own_kb [OF that(4,1) r(1)] r(2) by simp
      ultimately show "filter (\<lambda>d. foreign_kb (us_tenant_id u) db (do_kb_id d)) (del_row do_id doc_id (documents db)) =
          filter (\<lambda>d. foreign_kb (us_tenant_id u) db (do_kb_id d)) (documents db)"
        using that(3) by (intro filter_del_row) auto
    qed
    then show ?thesis
      unfolding Some option.case
      by (intro keeps_if) (simp add: keeps_reads reads_basic, intro keeps_seq keeps_writing keeps_audit_as, simp)
  qed (simp add: keeps_reads read_rules)
qed

lemma keeps_delete_deployment: "keeps (us_tenant_id u) P (delete_deployment cx i u)"
  unfolding delete_deployment_def get_deployment_def
proof (intro keeps_lookup keeps_seq keeps_writing keeps_audit_as)
  fix d db
  assume d: "pd_tenant_id d = us_tenant_id u" "d \<in> set (deployments db)" and wf: "keys_wf db"
  let ?t = "us_tenant_id u"
  let ?db' = "drop_deployment (pd_id d) db"
  have own: "\<not> foreign_deployment ?t db (pd_id d)"
    by (rule own_deployment [OF wf d(2,1)])
  have deps: "filter (\<lambda>r. pd_tenant_id r \<noteq> ?t) (deployments ?db') = filter (\<lambda>r. pd_tenant_id r \<noteq> ?t) (deployments db)"
    using deployment_table.own_key [OF wf d(2)] d(1) by (auto simp: drop_deployment_def Let_def intro!: filter_del_row)
  then have fd: "foreign_deployment ?t ?db' = foreign_deployment ?t db"
    by (simp add: fun_eq_iff foreign_deployment_def)
  have fc: "foreign_calls ?t ?db' = foreign_calls ?t db"
    using own unfolding foreign_calls_def fd by (auto simp: drop_deployment_def Let_def intro!: filter_cong)
  define gone where "gone = set (map ca_id (filter (\<lambda>c. ca_deployment_id c = pd_id d) (calls db)))"
  have "j \<notin> gone" if j: "has_key ca_id (foreign_calls ?t db) j" for j
  proof
    assume "j \<in> gone"
    then obtain c1 where c1: "c1 \<in> set (calls db)" "ca_deployment_id c1 = pd_id d" "ca_id c1 = j"
      by (auto simp: gone_def)
    obtain c2 where c2: "c2 \<in> set (calls db)" "foreign_deployment ?t db (ca_deployment_id c2)" "ca_id c2 = j"
      using j by (auto simp: has_key_def foreign_calls_def)
    have "c1 = c2"
      using c1 c2 wf by (metis distinct_map inj_onD keys_wf_def)
    then show False
      using own c1(2) c2(2) by simp
  qed
  moreover have evs': "events ?db' = filter (\<lambda>e. ev_call_id e \<notin> gone) (events db)"
    by (simp add: drop_deployment_def Let_def gone_def)
  ultimately have evs: "filter (\<lambda>e. has_key ca_id (foreign_calls ?t db) (ev_call_id e)) (events ?db') =
      filter (\<lambda>e. has_key ca_id (foreign_calls ?t db) (ev_call_id e)) (events db)"
    unfolding evs' filter_filter by (intro filter_cong) auto
  have "keys_wf ?db'"
    using wf by (simp add: keys_wf_def drop_deployment_def distinct_del_row distinct_map_filter Let_def)
  moreover have "foreign_kb ?t ?db' = foreign_kb ?t db"
    by (simp add: fun_eq_iff foreign_kb_def drop_deployment_def Let_def)
  then have "foreign ?t ?db' = foreign ?t db"
    unfolding foreign_def fc deps evs by (simp add: drop_deployment_def Let_def)
  ultimately show "apart ?t db ?db'"
    by (simp add: apart_def)
qed

lemma transfer_apart:
  assumes c: "c \<in> set (calls db)" "tenant_call t c db" and wf: "keys_wf db"
  shows "apart t db (db\<lparr>calls := put_row ca_id (ca_id c) (ca_transfer_target_update (\<lambda>_. Some g)) (calls db)\<rparr>)"
proof -
  let ?rows = "put_row ca_id (ca_id c) (ca_transfer_target_update (\<lambda>_. Some g)) (calls db)"
  let ?db' = "db\<lparr>calls := ?rows\<rparr>"
  obtain d where "d \<in> set (deployments db)" "pd_id d = ca_deployment_id c" "pd_tenant_id d = t"
    using c(2) by (auto simp: tenant_call_def list_ex_iff)
  then have own: "\<not> foreign_deployment t db (ca_deployment_id c)"
    using own_deployment [OF wf, of d t] by simp
  have "x = c" if "x \<in> set (calls db)" "ca_id x = ca_id c" for x
    using that c(1) wf by (metis distinct_map inj_onD keys_wf_def)
  with own have "filter (\<lambda>c. foreign_deployment t db (ca_deployment_id c)) ?rows =
      filter (\<lambda>c. foreign_deployment t db (ca_deployment_id c)) (calls db)"
    by (intro filter_put_row) auto
  moreover have fk: "foreign_deployment t ?db' = foreign_deployment t db" "foreign_kb t ?db' = foreign_kb t db"
    by (simp_all add: fun_eq_iff foreign_deployment_def foreign_kb_def)
  ultimately have "foreign_calls t ?db' = foreign_calls t db"
    by (simp add: foreign_calls_def)
  moreover have "map ca_id ?rows = map ca_id (calls db)"
    by (simp add: put_row_def)
  ultimately show ?thesis
    using wf fk by (simp add: apart_def foreign_def keys_wf_def)
qed

lemma keeps_hand_over:
  "keeps (us_tenant_id u) (\<lambda>db. c \<in> set (calls db) \<and> tenant_call (us_tenant_id u) c db) (hand_over cx rp txt r i g summary c d u)"
  unfolding hand_over_def
proof (rule keeps_after_read, rule reads_basic, cases "sm_ask txt r")
  case (Pair ok detail)
  show "keeps (us_tenant_id u) (\<lambda>db. c \<in> set (calls db) \<and> tenant_call (us_tenant_id u) c db)
    (case sm_ask txt r of
       (False, detail) \<Rightarrow>
         bnd (audit_as cx u ''call.transfer_failed'' ''call'' i [(''ingroup_id'', PStr g), (''error'', detail)]) (\<lambda>_.
         raise 502 (''session manager rejected transfer: '' @ py_str rp detail))
     | (True, _) \<Rightarrow>
         bnd (writing (\<lambda>db. db\<lparr>calls := put_row ca_id (ca_id c) (ca_transfer_target_update (\<lambda>_. Some g)) (calls db)\<rparr>)) (\<lambda>_.
         audit_as cx u ''call.transfer'' ''call'' i [(''ingroup_id'', PStr g), (''summary'', PStr summary)]))"
    unfolding Pair prod.case using transfer_apart
    by (cases ok) (auto intro!: keeps_seq keeps_writing keeps_audit_as intro: keeps_reads reads_basic)
qed

lemma keeps_transfer_call: "keeps (us_tenant_id u) P (transfer_call cx rp txt r i g summary u)"
  unfolding transfer_call_def
proof (rule keeps_after_read, rule reads_basic, intro keeps_get_call keeps_after_read reads_basic)
  fix c and d :: "panel_deployment option"
  show "keeps (us_tenant_id u) (\<lambda>db. c \<in> set (calls db) \<and> tenant_call (us_tenant_id u) c db)
   (case d of
      None \<Rightarrow> raise 404 ''deployment for this call no longer exists''
    | Some d \<Rightarrow>
        bnd (guard_that (transfer_allowed g d) 400
               (''ingroup '' @ [CHR 0x27] @ g @ [CHR 0x27] @ '' is not in this deployment's allow-list ('' @
                  rp (PList (map PStr (sort (remdups (pd_allowed_transfer_ingroups d))))) @ '')'')) (\<lambda>_.
        hand_over cx rp txt r i g summary c d u))"
    by (cases d) (simp_all add: keeps_reads reads_basic keeps_after_read keeps_hand_over)
qed

text \<open>Deleting a voice clears references wherever they are, so it keeps to the tenant only when no agent
  of another tenant refers to the voice.\<close>

definition voices_local :: "uuid \<Rightarrow> panel_db \<Rightarrow> bool" where
  "voices_local t db \<longleftrightarrow> (\<forall>a\<in>set (agents db). \<forall>v\<in>set (voices db).
     pa_tenant_id a \<noteq> t \<longrightarrow> vo_tenant_id v = t \<longrightarrow> pa_voice_id a \<noteq> Some (vo_id v))"

lemma drop_voice_apart:
  assumes wf: "keys_wf db" and v: "v \<in> set (voices db)" "vo_tenant_id v = t" and loc: "voices_local t db"
  shows "apart t db (drop_voice (vo_id v) db)"
proof -
  let ?clear = "\<lambda>a. if pa_voice_id a = Some (vo_id v) then a\<lparr>pa_voice_id := None\<rparr> else a"
  have "filter (\<lambda>r. vo_tenant_id r \<noteq> t) (del_row vo_id (vo_id v) (voices db)) = filter (\<lambda>r. vo_tenant_id r \<noteq> t) (voices db)"
    using voice_table.own_key [OF wf v(1)] v(2) by (intro filter_del_row) auto
  moreover have "filter (\<lambda>a. pa_tenant_id a \<noteq> t) (map ?clear as) = filter (\<lambda>a. pa_tenant_id a \<noteq> t) as"
    if "set as \<subseteq> set (agents db)" for as
    using that loc v by (induction as) (auto simp: voices_local_def)
  then have "filter (\<lambda>a. pa_tenant_id a \<noteq> t) (map ?clear (agents db)) = filter (\<lambda>a. pa_tenant_id a \<noteq> t) (agents db)"
    by blast
  moreover have "map pa_id (map ?clear as) = map pa_id as" for as
    by (induction as) auto
  then have "map pa_id (map ?clear (agents db)) = map pa_id (agents db)"
    by blast
  ultimately show ?thesis
    using wf by (simp add: apart_def keys_wf_def foreign_defs drop_voice_def distinct_del_row del: map_map)
qed

lemma keeps_delete_voice: "keeps (us_tenant_id u) (voices_local (us_tenant_id u)) (delete_voice cx i u)"
  unfolding delete_voice_def get_voice_def
  by (intro keeps_lookup_with keeps_seq keeps_writing keeps_audit_as drop_voice_apart) auto

lemma keeps_pause: "keeps (us_tenant_id u) P (pause_deployment cx r i code u)"
  unfolding pause_deployment_def get_deployment_def Let_def
  by (intro keeps_after_read keeps_audit_as read_rules)

lemma keeps_refresh_few_shot: "keeps (us_tenant_id u) P (refresh_few_shot cx i u)"
  unfolding refresh_few_shot_def get_campaign_def by (intro keeps_after_read keeps_audit_as read_rules)

lemma reads_list: "reads a \<Longrightarrow> (\<And>x xs. reads (b x xs)) \<Longrightarrow> reads (case z of [] \<Rightarrow> a | x # xs \<Rightarrow> b x xs)"
  by (cases z) simp_all

lemma reads_pick: "reads (pick_explicit i a u)" "reads (pick_running a u)"
  unfolding pick_explicit_def pick_running_def by (intro read_rules reads_list)+

lemma keeps_test_call: "keeps (us_tenant_id u) P (test_call cx rp txt r i phone dep u)"
  unfolding test_call_def get_agent_def
proof (intro keeps_after_read reads_option reads_pick reads_parts reads_basic)
  fix d :: panel_deployment
  show "keeps (us_tenant_id u) P
    (case sm_ask txt r of
       (False, detail) \<Rightarrow>
         bnd (audit_as cx u ''agent.test_call_failed'' ''agent'' i
                [(''phone_number'', PStr phone), (''deployment_id'', PStr (pd_id d)), (''error'', detail)]) (\<lambda>_.
         raise 502 (''session manager rejected dial: '' @ py_str rp detail))
     | (True, _) \<Rightarrow>
         audit_as cx u ''agent.test_call'' ''agent'' i
           [(''phone_number'', PStr phone), (''deployment_id'', PStr (pd_id d))])"
    by (cases "sm_ask txt r", rename_tac ok detail, case_tac ok)
      (auto intro!: keeps_seq keeps_audit_as intro: keeps_reads reads_basic)
qed

end
