(* ===== verification/Panel_Tenants.thy ===== *)
theory Panel_Tenants
  imports Panel_Auth
begin

text \<open>
  The tenant and user administration of the panel, \<open>api/v1/tenants.py\<close>: every route of it behind
  \<open>require_admin\<close>, with the constraints of the \<open>users\<close> table (its key and the unique email) and the
  audit rows. Sequences of requests by any users are the runs of \<open>tenant_run\<close>.
\<close>

section \<open>The routes\<close>

definition own_tenant :: "uuid \<Rightarrow> user_row \<Rightarrow> unit handler" where
  "own_tenant tenant_id u = guard_that (tenant_id = us_tenant_id u) 404 ''tenant not found''"

definition list_tenants :: "user_row \<Rightarrow> tenant_row list handler" where
  "list_tenants u = reading (\<lambda>db. filter (\<lambda>t. tn_id t = us_tenant_id u) (tenants db))"

definition create_tenant :: "user_row \<Rightarrow> tenant_row handler" where
  "create_tenant u = raise 403 ''cross-tenant creation requires the not-yet-implemented 'owner' role''"

definition opt_entry :: "string \<Rightarrow> ('a \<Rightarrow> pyval) \<Rightarrow> 'a option \<Rightarrow> pyval dict" where
  "opt_entry k f x = (case x of None \<Rightarrow> [] | Some v \<Rightarrow> [(k, f v)])"

definition update_tenant ::
  "req_ctx \<Rightarrow> uuid \<Rightarrow> string option \<Rightarrow> pyval dict option \<Rightarrow> user_row \<Rightarrow> tenant_row handler" where
  "update_tenant cx tenant_id name settings u =
     bnd (own_tenant tenant_id u) (\<lambda>_.
     bnd (reading (\<lambda>db. get_row tn_id tenant_id (tenants db))) (\<lambda>row.
       case row of None \<Rightarrow> raise 404 ''tenant not found''
       | Some t \<Rightarrow>
           (let t' = t\<lparr>tn_name := (case name of None \<Rightarrow> tn_name t | Some n \<Rightarrow> n),
                      tn_settings := (case settings of None \<Rightarrow> tn_settings t | Some d \<Rightarrow> d)\<rparr> in
            bnd (writing (\<lambda>db. db\<lparr>tenants := put_row tn_id tenant_id (\<lambda>_. t') (tenants db)\<rparr>)) (\<lambda>_.
            bnd (audit_as cx u ''tenant.update'' ''tenant'' tenant_id
                   (opt_entry ''name'' PStr name @ opt_entry ''settings'' PDict settings)) (\<lambda>_.
            ret t')))))"

definition list_users :: "uuid \<Rightarrow> user_row \<Rightarrow> user_row list handler" where
  "list_users tenant_id u =
     bnd (own_tenant tenant_id u) (\<lambda>_.
     reading (\<lambda>db. order_asc us_created_at (filter (\<lambda>r. us_tenant_id r = tenant_id) (users db))))"

text \<open>The body of an invitation: \<open>UserInvite\<close> restricts the role and the length of the password.\<close>

record user_invite =
  ui_email :: string
  ui_role :: string
  ui_password :: string

definition invite_valid :: "user_invite \<Rightarrow> bool" where
  "invite_valid b = (ui_role b \<in> set ROLES_ALL \<and> 8 \<le> length (ui_password b) \<and> length (ui_password b) \<le> 200)"

definition new_user :: "(string \<Rightarrow> string) \<Rightarrow> req_ctx \<Rightarrow> uuid \<Rightarrow> user_invite \<Rightarrow> user_row" where
  "new_user hash cx tenant_id b = \<lparr>us_id = rq_new_id cx, us_tenant_id = tenant_id, us_email = lower (ui_email b),
     us_password_hash = hash (ui_password b), us_role = ui_role b, us_created_at = rq_now cx\<rparr>"

definition users_accept :: "user_row \<Rightarrow> panel_db \<Rightarrow> bool" where
  "users_accept r db = (us_email r \<notin> us_email ` set (users db) \<and> us_id r \<notin> us_id ` set (users db))"

text \<open>The flush of the new row is the one the route catches: any refusal is answered with 409.\<close>

definition invite_user ::
  "(string \<Rightarrow> string) \<Rightarrow> req_ctx \<Rightarrow> uuid \<Rightarrow> user_invite \<Rightarrow> user_row \<Rightarrow> user_row handler" where
  "invite_user hash cx tenant_id b u =
     bnd (guard_that (invite_valid b) 422 ''validation error'') (\<lambda>_.
     bnd (own_tenant tenant_id u) (\<lambda>_.
     (let r = new_user hash cx tenant_id b in
      bnd (reading (users_accept r)) (\<lambda>ok.
      if \<not> ok then raise 409 ''email already in use''
      else bnd (writing (\<lambda>db. db\<lparr>users := users db @ [r]\<rparr>)) (\<lambda>_.
           bnd (audit_as cx u ''user.invite'' ''user'' (us_id r)
                  [(''email'', PStr (ui_email b)), (''role'', PStr (ui_role b))]) (\<lambda>_.
           ret r))))))"

text \<open>A role change, the reads that decide it and the write they lead to.\<close>

definition role_check :: "uuid \<Rightarrow> uuid \<Rightarrow> string \<Rightarrow> user_row \<Rightarrow> panel_db \<Rightarrow> api_error + user_row" where
  "role_check tenant_id user_id role u db =
     (if tenant_id \<noteq> us_tenant_id u then Inl (HttpError 404 ''tenant not found'')
      else case get_row us_id user_id (users db) of
        None \<Rightarrow> Inl (HttpError 404 ''user not found'')
      | Some target \<Rightarrow>
          if us_tenant_id target \<noteq> tenant_id then Inl (HttpError 404 ''user not found'')
          else if user_id = us_id u \<and> role \<noteq> ''admin''
          then Inl (HttpError 400 (''you cannot demote yourself '' @ em_dash @ '' ask another admin to do it''))
          else Inr target)"

definition role_write :: "uuid \<Rightarrow> string \<Rightarrow> panel_db \<Rightarrow> panel_db" where
  "role_write user_id role db = db\<lparr>users := put_row us_id user_id (\<lambda>r. r\<lparr>us_role := role\<rparr>) (users db)\<rparr>"

definition update_user_role :: "req_ctx \<Rightarrow> uuid \<Rightarrow> uuid \<Rightarrow> string \<Rightarrow> user_row \<Rightarrow> user_row handler" where
  "update_user_role cx tenant_id user_id role u =
     bnd (guard_that (role \<in> set ROLES_ALL) 422 ''validation error'') (\<lambda>_.
     bnd (reading (role_check tenant_id user_id role u)) (\<lambda>c.
       case c of
         Inl e \<Rightarrow> (\<lambda>s. (Inl e, s))
       | Inr target \<Rightarrow>
           bnd (writing (role_write user_id role)) (\<lambda>_.
           bnd (audit_as cx u ''user.role_change'' ''user'' user_id
                  [(''from'', PStr (us_role target)), (''to'', PStr role)]) (\<lambda>_.
           ret (target\<lparr>us_role := role\<rparr>)))))"

definition admins_of :: "uuid \<Rightarrow> panel_db \<Rightarrow> user_row list" where
  "admins_of tenant_id db = filter (\<lambda>r. us_tenant_id r = tenant_id \<and> us_role r = ''admin'') (users db)"

definition delete_check :: "uuid \<Rightarrow> uuid \<Rightarrow> user_row \<Rightarrow> panel_db \<Rightarrow> api_error + user_row" where
  "delete_check tenant_id user_id u db =
     (if tenant_id \<noteq> us_tenant_id u then Inl (HttpError 404 ''tenant not found'')
      else if user_id = us_id u then Inl (HttpError 400 ''you cannot delete your own account while signed in'')
      else case get_row us_id user_id (users db) of
        None \<Rightarrow> Inl (HttpError 404 ''user not found'')
      | Some target \<Rightarrow>
          if us_tenant_id target \<noteq> tenant_id then Inl (HttpError 404 ''user not found'')
          else if us_role target = ''admin'' \<and> length (admins_of tenant_id db) \<le> 1
          then Inl (HttpError 400 ''cannot delete the last remaining admin'')
          else Inr target)"

text \<open>Deleting the row clears the references to it, as the foreign keys say (\<open>SET NULL\<close>).\<close>

definition drop_user :: "uuid \<Rightarrow> panel_db \<Rightarrow> panel_db" where
  "drop_user user_id db = db\<lparr>users := del_row us_id user_id (users db),
     audits := map (\<lambda>a. if au_user_id a = Some user_id then a\<lparr>au_user_id := None\<rparr> else a) (audits db),
     join_tokens := map (\<lambda>t. if jt_created_by t = Some user_id then t\<lparr>jt_created_by := None\<rparr> else t) (join_tokens db)\<rparr>"

definition delete_user :: "req_ctx \<Rightarrow> uuid \<Rightarrow> uuid \<Rightarrow> user_row \<Rightarrow> unit handler" where
  "delete_user cx tenant_id user_id u =
     bnd (reading (delete_check tenant_id user_id u)) (\<lambda>c.
       case c of
         Inl e \<Rightarrow> (\<lambda>s. (Inl e, s))
       | Inr target \<Rightarrow>
           bnd (writing (drop_user user_id)) (\<lambda>_.
           audit_as cx u ''user.delete'' ''user'' user_id
             [(''email'', PStr (us_email target)), (''role'', PStr (us_role target))]))"

definition list_audit :: "uuid \<Rightarrow> nat \<Rightarrow> nat \<Rightarrow> string option \<Rightarrow> user_row \<Rightarrow> audit_row list handler" where
  "list_audit tenant_id limit_n offset_n action_prefix u =
     bnd (guard_that (1 \<le> limit_n \<and> limit_n \<le> 1000 \<and> (case action_prefix of None \<Rightarrow> True | Some p \<Rightarrow> length p \<le> 64))
            422 ''validation error'') (\<lambda>_.
     bnd (own_tenant tenant_id u) (\<lambda>_.
     reading (\<lambda>db. page limit_n offset_n (order_desc au_ts
       (filter (\<lambda>a. au_tenant_id a = Some tenant_id \<and>
          (case action_prefix of Some (c # cs) \<Rightarrow> startswith (au_action a) (c # cs) | _ \<Rightarrow> True)) (audits db))))))"

section \<open>Requests\<close>

datatype tenant_req =
    ListTenants
  | CreateTenant
  | UpdateTenant uuid "string option" "pyval dict option"
  | ListUsers uuid
  | InviteUser uuid user_invite
  | UpdateUserRole uuid uuid string
  | DeleteUser uuid uuid
  | ListAudit uuid nat nat "string option"

datatype tenant_reply = TenantRows "tenant_row list" | UserRows "user_row list" | AuditRows "audit_row list" | TenantOk

definition handle_tenant_req ::
  "(string \<Rightarrow> string) \<Rightarrow> req_ctx \<Rightarrow> tenant_req \<Rightarrow> user_row \<Rightarrow> tenant_reply handler" where
  "handle_tenant_req hash cx req u =
     (case req of
        ListTenants \<Rightarrow> bnd (list_tenants u) (\<lambda>x. ret (TenantRows x))
      | CreateTenant \<Rightarrow> bnd (create_tenant u) (\<lambda>x. ret (TenantRows [x]))
      | UpdateTenant t n d \<Rightarrow> bnd (update_tenant cx t n d u) (\<lambda>x. ret (TenantRows [x]))
      | ListUsers t \<Rightarrow> bnd (list_users t u) (\<lambda>x. ret (UserRows x))
      | InviteUser t b \<Rightarrow> bnd (invite_user hash cx t b u) (\<lambda>x. ret (UserRows [x]))
      | UpdateUserRole t i r \<Rightarrow> bnd (update_user_role cx t i r u) (\<lambda>x. ret (UserRows [x]))
      | DeleteUser t i \<Rightarrow> bnd (delete_user cx t i u) (\<lambda>x. ret TenantOk)
      | ListAudit t l o' p \<Rightarrow> bnd (list_audit t l o' p u) (\<lambda>x. ret (AuditRows x)))"

record 'tok panel_req =
  pq_ctx :: req_ctx
  pq_now :: int
  pq_denied :: denylist
  pq_creds :: "'tok creds"

definition tenant_request ::
  "'tok auth_env \<Rightarrow> 'tok panel_req \<times> tenant_req \<Rightarrow> panel_db \<Rightarrow> (api_error + tenant_reply) \<times> panel_db" where
  "tenant_request env rq db =
     (case rq of (q, req) \<Rightarrow>
        with_session (authorised env (pq_now q) (pq_denied q) (pq_creds q) ROLES_ADMIN
          (handle_tenant_req (en_hash env) (pq_ctx q) req)) db)"

fun tenant_run :: "'tok auth_env \<Rightarrow> ('tok panel_req \<times> tenant_req) list \<Rightarrow> panel_db \<Rightarrow> panel_db" where
  "tenant_run env [] db = db"
| "tenant_run env (r # rs) db = tenant_run env rs (snd (tenant_request env r db))"

section \<open>What a request may do to the users\<close>

text \<open>The effect of one administrator's request on the table of users.\<close>

definition colleague :: "user_row \<Rightarrow> uuid \<Rightarrow> user_row list \<Rightarrow> bool" where
  "colleague u i us \<longleftrightarrow> (\<exists>target. get_row us_id i us = Some target \<and> us_tenant_id target = us_tenant_id u)"

definition user_step :: "user_row \<Rightarrow> user_row list \<Rightarrow> user_row list \<Rightarrow> bool" where
  "user_step u us us' \<longleftrightarrow>
     us' = us \<or>
     (\<exists>r. us' = us @ [r] \<and> us_email r \<notin> us_email ` set us \<and> us_id r \<notin> us_id ` set us) \<or>
     (\<exists>i role. colleague u i us \<and> us' = put_row us_id i (\<lambda>r. r\<lparr>us_role := role\<rparr>) us \<and> (i \<noteq> us_id u \<or> role = ''admin'')) \<or>
     (\<exists>i. colleague u i us \<and> us' = del_row us_id i us \<and> i \<noteq> us_id u)"

lemma user_step_refl [simp]: "user_step u us us"
  by (simp add: user_step_def)

lemma user_step_role:
  "colleague u i us \<Longrightarrow> i \<noteq> us_id u \<or> role = ''admin'' \<Longrightarrow> user_step u us (put_row us_id i (us_role_update (\<lambda>_. role)) us)"
  unfolding user_step_def by blast

lemma audit_users: "audit_as cx u a tt ti p s = (x, s') \<Longrightarrow> users (sn_db s') = users (sn_db s)"
  by (auto simp: audit_as_def dest!: audit_dump_frame)

lemma update_tenant_users:
  "update_tenant cx t n d u s = (Inr x, s') \<Longrightarrow> users (sn_db s') = users (sn_db s)"
  by (auto simp: update_tenant_def own_tenant_def handler_simps Let_def
      split: if_splits option.splits prod.splits sum.splits dest!: audit_users)

lemma invite_user_step:
  "invite_user hash cx t b u s = (Inr x, s') \<Longrightarrow> user_step u (users (sn_db s)) (users (sn_db s'))"
  by (auto simp: invite_user_def own_tenant_def handler_simps Let_def users_accept_def user_step_def
      split: if_splits option.splits prod.splits sum.splits dest!: audit_users)

lemma update_user_role_step:
  "update_user_role cx t i role u s = (Inr x, s') \<Longrightarrow> user_step u (users (sn_db s)) (users (sn_db s'))"
  by (auto simp: update_user_role_def role_check_def role_write_def handler_simps colleague_def intro!: user_step_role
      split: if_splits option.splits prod.splits sum.splits dest!: audit_users)

lemma delete_user_step:
  "delete_user cx t i u s = (Inr x, s') \<Longrightarrow> user_step u (users (sn_db s)) (users (sn_db s'))"
  by (auto simp: delete_user_def delete_check_def drop_user_def handler_simps user_step_def colleague_def
      split: if_splits option.splits prod.splits sum.splits dest!: audit_users)

lemma read_only_users:
  "list_users t u s = (x1, s') \<Longrightarrow> s' = s" "list_tenants u s = (x2, s') \<Longrightarrow> s' = s"
  "list_audit t l off p u s = (x3, s') \<Longrightarrow> s' = s" "create_tenant u s = (x4, s') \<Longrightarrow> s' = s"
  by (auto simp: list_users_def list_tenants_def list_audit_def create_tenant_def own_tenant_def handler_simps
      split: if_splits)

lemma handle_tenant_step:
  assumes "handle_tenant_req hash cx req u s = (Inr x, s')"
  shows "user_step u (users (sn_db s)) (users (sn_db s'))"
proof (cases req)
  case (UpdateTenant t n d)
  then show ?thesis
    using assms update_tenant_users by (auto simp: handle_tenant_req_def ret_def elim!: bnd_InrE)
next
  case (InviteUser t b)
  then show ?thesis
    using assms invite_user_step by (auto simp: handle_tenant_req_def ret_def elim!: bnd_InrE)
next
  case (UpdateUserRole t i r)
  then show ?thesis
    using assms update_user_role_step by (auto simp: handle_tenant_req_def ret_def elim!: bnd_InrE)
next
  case (DeleteUser t i)
  then show ?thesis
    using assms delete_user_step by (auto simp: handle_tenant_req_def ret_def elim!: bnd_InrE)
qed (use assms in \<open>auto simp: handle_tenant_req_def ret_def elim!: bnd_InrE dest!: read_only_users\<close>)

lemma current_user_row: "get_current_user env now dn creds db = Inr u \<Longrightarrow> u \<in> set (users db)"
  by (auto simp: get_current_user_def split: sum.splits option.splits if_splits dest: get_row_SomeD)

text \<open>A request either leaves the database alone or takes such a step in the name of an administrator
  who is in the table.\<close>

lemma tenant_request_step:
  "(\<exists>u. u \<in> set (users db) \<and> us_role u = ''admin'' \<and> user_step u (users db) (users (snd (tenant_request env r db))))
   \<or> snd (tenant_request env r db) = db"
proof -
  obtain q req where r: "r = (q, req)" by force
  define s where "s = fresh_session db"
  define h where "h = authorised env (pq_now q) (pq_denied q) (pq_creds q) ROLES_ADMIN
    (handle_tenant_req (en_hash env) (pq_ctx q) req)"
  have eq: "tenant_request env r db = with_session h db"
    by (simp add: tenant_request_def r h_def)
  show ?thesis
  proof (cases "h s")
    case (Pair res s')
    show ?thesis
    proof (cases res)
      case (Inl e)
      then show ?thesis using Pair by (simp add: eq with_session_def s_def fresh_session_def)
    next
      case (Inr x)
      then obtain u where u: "get_current_user env (pq_now q) (pq_denied q) (pq_creds q) db = Inr u"
        and role: "us_role u = ''admin''" and run: "handle_tenant_req (en_hash env) (pq_ctx q) req u s = (Inr x, s')"
        using Pair by (auto simp: h_def authorised_def s_def require_role_def ROLES_ADMIN_def split: sum.splits if_splits)
      have "user_step u (users db) (users (sn_db s'))"
        using handle_tenant_step [OF run] by (simp add: s_def)
      then show ?thesis
        using Pair Inr current_user_row [OF u] role by (auto simp: eq with_session_def s_def)
    qed
  qed
qed

section \<open>Administrators\<close>

definition users_wf :: "panel_db \<Rightarrow> bool" where
  "users_wf db \<longleftrightarrow> distinct (map us_id (users db)) \<and> distinct (map us_email (users db))"

definition has_admin :: "uuid \<Rightarrow> panel_db \<Rightarrow> bool" where
  "has_admin tenant_id db \<longleftrightarrow> admins_of tenant_id db \<noteq> []"

lemma has_admin_iff: "has_admin t db \<longleftrightarrow> (\<exists>r\<in>set (users db). us_tenant_id r = t \<and> us_role r = ''admin'')"
  by (auto simp: has_admin_def admins_of_def filter_empty_conv)

lemma put_row_keys: "(\<And>r. key (f r) = key r) \<Longrightarrow> map key (put_row key' k f rows) = map key rows"
  by (induction rows) (auto simp: put_row_def)

lemma user_step_wf:
  assumes "user_step u us us'" "distinct (map us_id us)" "distinct (map us_email us)"
  shows "distinct (map us_id us') \<and> distinct (map us_email us')"
  using assms unfolding user_step_def
  by (elim disjE exE conjE) (auto simp: put_row_keys del_row_def distinct_map_filter)

lemma user_step_admin:
  assumes step: "user_step u us us'" and ids: "distinct (map us_id us)"
    and u: "u \<in> set us" "us_role u = ''admin''"
    and w: "w \<in> set us" "us_tenant_id w = t" "us_role w = ''admin''"
  shows "\<exists>w'\<in>set us'. us_tenant_id w' = t \<and> us_role w' = ''admin''"
proof -
  have same: "us_tenant_id w = us_tenant_id u" if "colleague u (us_id w) us"
  proof -
    obtain tg where "get_row us_id (us_id w) us = Some tg" "us_tenant_id tg = us_tenant_id u"
      using \<open>colleague u (us_id w) us\<close> by (auto simp: colleague_def)
    then show ?thesis
      using get_row_SomeD [of us_id "us_id w" us tg] w(1) ids by (metis distinct_map inj_onD)
  qed
  from step consider "us' = us" | r where "us' = us @ [r]"
    | (role) i role where "colleague u i us" "us' = put_row us_id i (us_role_update (\<lambda>_. role)) us"
        "i \<noteq> us_id u \<or> role = ''admin''"
    | (del) i where "colleague u i us" "us' = del_row us_id i us" "i \<noteq> us_id u"
    unfolding user_step_def by blast
  then show ?thesis
  proof cases
    case 1
    then show ?thesis using w by blast
  next
    case 2
    then show ?thesis using w by auto
  next
    case (role i role)
    note c = role(1) and us' = role(2) and i = role(3)
    show ?thesis
    proof (cases "us_id w = i \<and> role \<noteq> ''admin''")
      case True
      then have "us_tenant_id u = t" "us_id u \<noteq> i"
        using same c i w(2) by auto
      then show ?thesis
        using u unfolding us' Bex_def set_put_row by auto
    next
      case False
      have "(if us_id w = i then w\<lparr>us_role := role\<rparr> else w) \<in> set us'"
        using w(1) unfolding us' set_put_row by auto
      moreover have "us_tenant_id (if us_id w = i then w\<lparr>us_role := role\<rparr> else w) = t"
        "us_role (if us_id w = i then w\<lparr>us_role := role\<rparr> else w) = ''admin''"
        using False w(2,3) by simp_all
      ultimately show ?thesis by blast
    qed
  next
    case (del i)
    note c = del(1) and us' = del(2) and i = del(3)
    show ?thesis
    proof (cases "us_id w = i")
      case True
      then have "us_tenant_id u = t" using same c w(2) by auto
      then show ?thesis using u i us' by auto
    next
      case False
      then show ?thesis using w us' by auto
    qed
  qed
qed

lemma tenant_request_inv:
  assumes "users_wf db"
  shows "users_wf (snd (tenant_request env r db)) \<and>
    (has_admin t db \<longrightarrow> has_admin t (snd (tenant_request env r db)))"
  using tenant_request_step [of db env r]
proof (elim disjE exE conjE)
  fix u
  assume u: "u \<in> set (users db)" "us_role u = ''admin''"
    and step: "user_step u (users db) (users (snd (tenant_request env r db)))"
  show ?thesis
    using user_step_wf [OF step] user_step_admin [OF step _ u] assms unfolding users_wf_def has_admin_iff by blast
qed (use assms in simp)

text \<open>C13: No sequence of requests, by whatever users and with whatever bodies, leaves a tenant that has
  an administrator without one; the keys and the emails of the users stay unique.\<close>

theorem tenant_keeps_admin:
  assumes "users_wf db" "has_admin t db"
  shows "users_wf (tenant_run env rs db) \<and> has_admin t (tenant_run env rs db)"
  using assms
proof (induction rs arbitrary: db)
  case (Cons r rs)
  then show ?case
    using tenant_request_inv [of db env r t] by simp
qed simp

theorem tenant_keeps_admin_witness:
  "has_admin (us_tenant_id alice) (tenant_run plain_env
     [(\<lparr>pq_ctx = \<lparr>rq_now = 0, rq_new_id = ''n'', rq_audit_id = 1, rq_audit_ok = True\<rparr>, pq_now = 1100, pq_denied = no_denials,
        pq_creds = Some (''Bearer'', pr_access (make_token_pair plain_env first_login alice))\<rparr>,
       UpdateUserRole (us_tenant_id alice) (us_id alice) ''viewer'')] alice_db)"
  by (rule conjunct2 [OF tenant_keeps_admin]) (simp_all add: users_wf_def has_admin_iff alice_db_def alice_def)

text \<open>The guard of \<open>delete_user\<close> against deleting the last administrator never decides: whoever may
  delete is an administrator of the tenant and not the target.\<close>

lemma last_admin_guard_unreachable:
  assumes "u \<in> set (users db)" "us_role u = ''admin''" "users_wf db"
  shows "delete_check tenant_id user_id u db \<noteq> Inl (HttpError 400 ''cannot delete the last remaining admin'')"
proof
  assume "delete_check tenant_id user_id u db = Inl (HttpError 400 ''cannot delete the last remaining admin'')"
  then obtain target where t: "tenant_id = us_tenant_id u" "user_id \<noteq> us_id u"
    "get_row us_id user_id (users db) = Some target" "us_tenant_id target = tenant_id" "us_role target = ''admin''"
    "length (admins_of tenant_id db) \<le> 1"
    by (auto simp: delete_check_def split: if_splits option.splits)
  then have "{u, target} \<subseteq> set (admins_of tenant_id db)" "u \<noteq> target"
    using assms(1,2) get_row_SomeD [OF t(3)] by (auto simp: admins_of_def)
  moreover have "card (set (admins_of tenant_id db)) \<le> 1"
    using t(6) card_length le_trans by blast
  ultimately show False
    by (metis card_2_iff card_mono finite_set not_less_eq_eq numeral_2_eq_2 One_nat_def)
qed

text \<open>Two administrators who demote each other at the same time: both requests read before either
  commits, both checks pass, and the tenant has none left. Each request alone is refused nothing.\<close>

definition bob :: user_row where
  "bob = alice\<lparr>us_id := ''33333333-3333-3333-3333-333333333333'', us_email := ''bob@example.com''\<rparr>"

lemma mutual_demotion_race:
  "let db = empty_panel_db\<lparr>users := [alice, bob]\<rparr>; t = us_tenant_id alice in
     has_admin t db \<and>
     role_check t (us_id bob) ''viewer'' alice db = Inr bob \<and>
     role_check t (us_id alice) ''viewer'' bob db = Inr alice \<and>
     \<not> has_admin t (role_write (us_id alice) ''viewer'' (role_write (us_id bob) ''viewer'' db))"
  by (simp add: Let_def has_admin_iff role_check_def role_write_def get_row_def put_row_def alice_def bob_def)

end
