(* ===== verification/Panel_Api.thy ===== *)
theory Panel_Api
  imports Panel_Isolation Panel_Tenants
begin

text \<open>
  The routes of the panel's API put together (\<open>api/v1/__init__.py\<close> and the decorators of the routes):
  which request runs which handler behind which role, in a session of its own; the separation of the
  tenants over any sequence of requests, and what the handlers do that their documentation does not
  say.
\<close>

section \<open>Requests\<close>

datatype agent_call =
    ListAgents nat nat "string option" "string option"
  | GetAgent uuid
  | CreateAgent agent_create
  | UpdateAgent uuid agent_update
  | ArchiveAgent uuid
  | DuplicateAgent uuid
  | PromoteAgent uuid
  | TestCall uuid string "uuid option"
  | ListVersions uuid
  | ListRecordings uuid
  | UploadRecording uuid string upload
  | DeleteRecording uuid string

datatype content_call =
    ListVoices nat nat
  | GetVoice uuid
  | CreateVoice string string upload
  | DeleteVoice uuid
  | PreviewVoice uuid string
  | ListKbs nat nat
  | CreateKb string "string option" string
  | ListDocuments uuid
  | UploadDocument uuid upload
  | DeleteDocument uuid uuid
  | SearchKb uuid string nat
  | ListServers nat nat
  | CreateServer server_create
  | UpdateServer uuid server_update
  | TestConnection uuid
  | ListViciCampaigns uuid
  | ListViciIngroups uuid

datatype campaign_call =
    ListCampaigns nat nat "string option"
  | GetCampaign uuid
  | CreateCampaign campaign_create
  | UpdateCampaign uuid campaign_update
  | ArchiveCampaign uuid
  | Metrics uuid nat
  | FewShotPool uuid nat
  | RefreshFewShot uuid

datatype deployment_call =
    ListDeployments nat nat "string option"
  | GetDeployment uuid
  | CreateDeployment deployment_create
  | UpdateDeployment uuid deployment_update
  | DeleteDeployment uuid
  | StartDeployment uuid
  | StopDeployment uuid
  | PauseDeployment uuid string
  | ListCalls nat nat call_filter
  | GetCall uuid
  | GetEvents uuid
  | GetTranscript uuid
  | GetRecording uuid
  | TransferOptions uuid
  | TransferCall uuid string string

datatype panel_call =
    AgentCall agent_call
  | ContentCall content_call
  | CampaignCall campaign_call
  | DeploymentCall deployment_call

text \<open>What a route answers: rows of a table, or anything that is computed from them.\<close>

datatype panel_reply =
    Agents "panel_agent list"
  | Voices "voice_row list"
  | Kbs "kb_row list"
  | Documents "document_row list"
  | Servers "server_row list"
  | Campaigns "panel_campaign list"
  | Deployments "panel_deployment list"
  | Calls "call_record list"
  | Events "event_record list"
  | Other

text \<open>Everything outside the database that a route depends on.\<close>

record panel_world =
  pw_enc :: encryptor
  pw_repr :: "pyval \<Rightarrow> string"
  pw_sm :: sm_reply
  pw_sm_text :: string
  pw_sha :: "bytes \<Rightarrow> string"
  pw_b64 :: "bytes \<Rightarrow> string"
  pw_iso :: "instant \<Rightarrow> string"
  pw_bucket :: string
  pw_store_outage :: "string option"
  pw_distance :: "rat list \<Rightarrow> rat list \<Rightarrow> rat"
  pw_chunks :: "kb_chunk list"
  pw_vec :: "rat list option"
  pw_sign :: "string \<Rightarrow> string \<Rightarrow> string"

definition say :: "('a \<Rightarrow> panel_reply) \<Rightarrow> 'a handler \<Rightarrow> panel_reply handler" where
  "say f h = bnd h (\<lambda>x. ret (f x))"

fun handle_agents :: "panel_world \<Rightarrow> req_ctx \<Rightarrow> agent_call \<Rightarrow> user_row \<Rightarrow> panel_reply handler" where
  "handle_agents w cx (ListAgents l off n st) u = say (\<lambda>r. Agents (fst r)) (list_agents l off n st u)"
| "handle_agents w cx (GetAgent i) u = say (\<lambda>r. Agents [r]) (get_agent i u)"
| "handle_agents w cx (CreateAgent b) u = say (\<lambda>r. Agents [r]) (create_agent cx b u)"
| "handle_agents w cx (UpdateAgent i b) u = say (\<lambda>r. Agents [r]) (update_agent cx i b u)"
| "handle_agents w cx (ArchiveAgent i) u = say (\<lambda>r. Other) (archive_agent cx i u)"
| "handle_agents w cx (DuplicateAgent i) u = say (\<lambda>r. Agents [r]) (duplicate_agent cx i u)"
| "handle_agents w cx (PromoteAgent i) u = say (\<lambda>r. Agents [r]) (promote_agent cx i u)"
| "handle_agents w cx (TestCall i p d) u = say (\<lambda>r. Other) (test_call cx (pw_repr w) (pw_sm_text w) (pw_sm w) i p d u)"
| "handle_agents w cx (ListVersions i) u = say (\<lambda>r. Other) (list_versions i u)"
| "handle_agents w cx (ListRecordings i) u = say (\<lambda>r. Other) (list_training_recordings i u)"
| "handle_agents w cx (UploadRecording i lab f) u =
     say (\<lambda>r. Other) (upload_training_recording cx (pw_iso w) (pw_bucket w) (pw_store_outage w) i lab f u)"
| "handle_agents w cx (DeleteRecording i r) u = say (\<lambda>r. Other) (delete_training_recording cx i r u)"

fun handle_content :: "panel_world \<Rightarrow> req_ctx \<Rightarrow> content_call \<Rightarrow> user_row \<Rightarrow> panel_reply handler" where
  "handle_content w cx (ListVoices l off) u = say (\<lambda>r. Voices (fst r)) (list_voices l off u)"
| "handle_content w cx (GetVoice i) u = say (\<lambda>r. Voices [r]) (get_voice i u)"
| "handle_content w cx (CreateVoice n t f) u = say (\<lambda>r. Voices [r]) (create_voice cx (pw_b64 w) n t f u)"
| "handle_content w cx (DeleteVoice i) u = say (\<lambda>r. Other) (delete_voice cx i u)"
| "handle_content w cx (PreviewVoice i t) u = say (\<lambda>r. Other) (preview_voice i t u)"
| "handle_content w cx (ListKbs l off) u = say (\<lambda>r. Kbs (fst r)) (list_kbs l off u)"
| "handle_content w cx (CreateKb n d m) u = say (\<lambda>r. Kbs [r]) (create_kb cx n d m u)"
| "handle_content w cx (ListDocuments i) u = say Documents (list_documents i u)"
| "handle_content w cx (UploadDocument i f) u = say (\<lambda>r. Documents [r]) (upload_document cx (pw_sha w) (pw_b64 w) i f u)"
| "handle_content w cx (DeleteDocument i d) u = say (\<lambda>r. Other) (delete_document cx i d u)"
| "handle_content w cx (SearchKb i q l) u = say (\<lambda>r. Other) (search_kb (pw_distance w) (pw_chunks w) i q l (pw_vec w) u)"
| "handle_content w cx (ListServers l off) u = say (\<lambda>r. Servers (fst r)) (list_servers l off u)"
| "handle_content w cx (CreateServer b) u = say (\<lambda>r. Servers [r]) (create_server cx (pw_enc w) b u)"
| "handle_content w cx (UpdateServer i b) u = say (\<lambda>r. Servers [r]) (update_server cx (pw_enc w) i b u)"
| "handle_content w cx (TestConnection i) u = say (\<lambda>r. Other) (test_connection i u)"
| "handle_content w cx (ListViciCampaigns i) u = say (\<lambda>r. Other) (list_vici_campaigns i u)"
| "handle_content w cx (ListViciIngroups i) u = say (\<lambda>r. Other) (list_vici_ingroups i u)"

fun handle_campaigns :: "panel_world \<Rightarrow> req_ctx \<Rightarrow> campaign_call \<Rightarrow> user_row \<Rightarrow> panel_reply handler" where
  "handle_campaigns w cx (ListCampaigns l off st) u = say (\<lambda>r. Campaigns (fst r)) (list_campaigns l off st u)"
| "handle_campaigns w cx (GetCampaign i) u = say (\<lambda>r. Campaigns [r]) (get_campaign i u)"
| "handle_campaigns w cx (CreateCampaign b) u = say (\<lambda>r. Campaigns [r]) (create_campaign cx b u)"
| "handle_campaigns w cx (UpdateCampaign i b) u = say (\<lambda>r. Campaigns [r]) (update_campaign cx i b u)"
| "handle_campaigns w cx (ArchiveCampaign i) u = say (\<lambda>r. Other) (archive_campaign cx i u)"
| "handle_campaigns w cx (Metrics i n) u = say (\<lambda>r. Other) (metrics cx i n u)"
| "handle_campaigns w cx (FewShotPool i n) u = say (\<lambda>r. Other) (get_few_shot_pool i n u)"
| "handle_campaigns w cx (RefreshFewShot i) u = say (\<lambda>r. Other) (refresh_few_shot cx i u)"

fun handle_deployments :: "panel_world \<Rightarrow> req_ctx \<Rightarrow> deployment_call \<Rightarrow> user_row \<Rightarrow> panel_reply handler" where
  "handle_deployments w cx (ListDeployments l off st) u = say (\<lambda>r. Deployments (fst r)) (list_deployments l off st u)"
| "handle_deployments w cx (GetDeployment i) u = say (\<lambda>r. Deployments [r]) (get_deployment i u)"
| "handle_deployments w cx (CreateDeployment b) u = say (\<lambda>r. Deployments [r]) (create_deployment cx (pw_enc w) b u)"
| "handle_deployments w cx (UpdateDeployment i b) u = say (\<lambda>r. Deployments [r]) (update_deployment cx (pw_enc w) i b u)"
| "handle_deployments w cx (DeleteDeployment i) u = say (\<lambda>r. Other) (delete_deployment cx i u)"
| "handle_deployments w cx (StartDeployment i) u = say (\<lambda>r. Other) (start_deployment cx (pw_sm w) i u)"
| "handle_deployments w cx (StopDeployment i) u = say (\<lambda>r. Other) (stop_deployment cx (pw_sm w) i u)"
| "handle_deployments w cx (PauseDeployment i c) u = say (\<lambda>r. Other) (pause_deployment cx (pw_sm w) i c u)"
| "handle_deployments w cx (ListCalls l off f) u = say (\<lambda>r. Calls (fst r)) (list_calls l off f u)"
| "handle_deployments w cx (GetCall i) u = say (\<lambda>r. Calls [r]) (get_call_for_tenant i u)"
| "handle_deployments w cx (GetEvents i) u = say Events (get_events i u)"
| "handle_deployments w cx (GetTranscript i) u = say (\<lambda>r. Other) (get_transcript (pw_repr w) i u)"
| "handle_deployments w cx (GetRecording i) u = say (\<lambda>r. Other) (get_recording (pw_repr w) (pw_sign w) i u)"
| "handle_deployments w cx (TransferOptions i) u = say (\<lambda>r. Other) (list_transfer_options i u)"
| "handle_deployments w cx (TransferCall i g s) u =
     say (\<lambda>r. Other) (transfer_call cx (pw_repr w) (pw_sm_text w) (pw_sm w) i g s u)"

fun handle_panel :: "panel_world \<Rightarrow> req_ctx \<Rightarrow> panel_call \<Rightarrow> user_row \<Rightarrow> panel_reply handler" where
  "handle_panel w cx (AgentCall c) u = handle_agents w cx c u"
| "handle_panel w cx (ContentCall c) u = handle_content w cx c u"
| "handle_panel w cx (CampaignCall c) u = handle_campaigns w cx c u"
| "handle_panel w cx (DeploymentCall c) u = handle_deployments w cx c u"

text \<open>The routes that change something are for writers, the others for every user.\<close>

fun read_only_call :: "panel_call \<Rightarrow> bool" where
  "read_only_call (AgentCall c) =
     (case c of ListAgents _ _ _ _ \<Rightarrow> True | GetAgent _ \<Rightarrow> True | ListVersions _ \<Rightarrow> True | ListRecordings _ \<Rightarrow> True
      | _ \<Rightarrow> False)"
| "read_only_call (ContentCall c) =
     (case c of ListVoices _ _ \<Rightarrow> True | GetVoice _ \<Rightarrow> True | PreviewVoice _ _ \<Rightarrow> True | ListKbs _ _ \<Rightarrow> True
      | ListDocuments _ \<Rightarrow> True | SearchKb _ _ _ \<Rightarrow> True | ListServers _ _ \<Rightarrow> True | TestConnection _ \<Rightarrow> True
      | ListViciCampaigns _ \<Rightarrow> True | ListViciIngroups _ \<Rightarrow> True | _ \<Rightarrow> False)"
| "read_only_call (CampaignCall c) =
     (case c of ListCampaigns _ _ _ \<Rightarrow> True | GetCampaign _ \<Rightarrow> True | Metrics _ _ \<Rightarrow> True | FewShotPool _ _ \<Rightarrow> True
      | _ \<Rightarrow> False)"
| "read_only_call (DeploymentCall c) =
     (case c of ListDeployments _ _ _ \<Rightarrow> True | GetDeployment _ \<Rightarrow> True | ListCalls _ _ _ \<Rightarrow> True | GetCall _ \<Rightarrow> True
      | GetEvents _ \<Rightarrow> True | GetTranscript _ \<Rightarrow> True | GetRecording _ \<Rightarrow> True | TransferOptions _ \<Rightarrow> True | _ \<Rightarrow> False)"

definition roles_of :: "panel_call \<Rightarrow> string list" where
  "roles_of c = (if read_only_call c then ROLES_ALL else ROLES_WRITE)"

definition panel_request ::
  "'tok auth_env \<Rightarrow> panel_world \<Rightarrow> 'tok panel_req \<times> panel_call \<Rightarrow> panel_db \<Rightarrow> (api_error + panel_reply) \<times> panel_db" where
  "panel_request env w rq db =
     (case rq of (q, c) \<Rightarrow>
        with_session (authorised env (pq_now q) (pq_denied q) (pq_creds q) (roles_of c) (handle_panel w (pq_ctx q) c)) db)"

section \<open>The tenants are kept apart\<close>

lemma keeps_say: "keeps t P h \<Longrightarrow> keeps t P (say f h)"
  unfolding say_def by (rule keeps_seq) (simp_all add: keeps_reads reads_basic)

lemma reads_lists:
  "reads (list_agents l off n st u)" "reads (get_agent i u)" "reads (list_versions i u)"
  "reads (list_training_recordings i u)" "reads (list_voices l off u)" "reads (get_voice i u)"
  "reads (preview_voice i txt u)" "reads (list_kbs l off u)" "reads (list_documents i u)"
  "reads (search_kb dst cs i q l vec u)" "reads (list_servers l off u)" "reads (test_connection i u)"
  "reads (list_vici_campaigns i u)" "reads (list_vici_ingroups i u)" "reads (list_campaigns l off st u)"
  "reads (get_campaign i u)" "reads (metrics cx i m u)" "reads (get_few_shot_pool i l u)"
  "reads (list_deployments l off st u)" "reads (get_deployment i u)" "reads (list_calls l off f u)"
  "reads (get_events i u)" "reads (get_transcript rp i u)" "reads (list_transfer_options i u)"
  unfolding list_agents_def get_agent_def list_versions_def list_training_recordings_def list_voices_def
    get_voice_def preview_voice_def list_kbs_def list_documents_def get_kb_def search_kb_def list_servers_def
    test_connection_def get_server_def list_vici_campaigns_def list_vici_ingroups_def list_campaigns_def
    get_campaign_def metrics_def get_few_shot_pool_def list_deployments_def get_deployment_def list_calls_def
    get_events_def get_transcript_def list_transfer_options_def
  by (intro read_rules)+

lemma reads_recording: "reads (get_recording rp sign i u)"
  unfolding get_recording_def
  by (intro read_rules) (simp add: case_prod_beta reads_if reads_basic)

lemma keeps_archive_promote:
  "keeps (us_tenant_id u) P (archive_agent cx i u)" "keeps (us_tenant_id u) P (promote_agent cx i u)"
  unfolding archive_agent_def promote_agent_def by (rule keeps_set_agent_status)+

lemmas handler_keeps = keeps_create_agent keeps_update_agent keeps_archive_promote keeps_duplicate_agent
  keeps_upload_training_recording keeps_delete_training_recording keeps_test_call keeps_create_voice
  keeps_create_kb keeps_upload_document keeps_delete_document keeps_create_server keeps_update_server
  keeps_create_campaign keeps_update_campaign keeps_archive_campaign keeps_refresh_few_shot
  keeps_create_deployment keeps_update_deployment keeps_delete_deployment keeps_start_stop keeps_pause
  keeps_transfer_call

lemma keeps_weaken: "keeps t (\<lambda>_. True) h \<Longrightarrow> keeps t P h"
  by (auto simp: keeps_def)

lemma keeps_handle_agents: "keeps (us_tenant_id u) P (handle_agents w cx c u)"
  by (cases c) (simp_all add: keeps_say handler_keeps keeps_reads reads_lists)

lemma keeps_handle_content: "keeps (us_tenant_id u) (voices_local (us_tenant_id u)) (handle_content w cx c u)"
  by (cases c) (simp_all add: keeps_say handler_keeps keeps_delete_voice keeps_reads reads_lists)

lemma keeps_handle_campaigns: "keeps (us_tenant_id u) P (handle_campaigns w cx c u)"
  by (cases c) (simp_all add: keeps_say handler_keeps keeps_reads reads_lists)

lemma keeps_handle_deployments: "keeps (us_tenant_id u) P (handle_deployments w cx c u)"
  by (cases c) (simp_all add: keeps_say handler_keeps keeps_reads reads_lists reads_parts reads_recording)

lemma keeps_handle_panel: "keeps (us_tenant_id u) (voices_local (us_tenant_id u)) (handle_panel w cx c u)"
  by (cases c) (simp_all add: keeps_handle_agents keeps_handle_content keeps_handle_campaigns keeps_handle_deployments)

section \<open>What a tenant sees\<close>

definition own_kb_doc :: "uuid \<Rightarrow> panel_db \<Rightarrow> document_row \<Rightarrow> bool" where
  "own_kb_doc t db d \<longleftrightarrow> (\<exists>k\<in>set (kbs db). kb_id k = do_kb_id d \<and> kb_tenant_id k = t)"

definition own_event :: "uuid \<Rightarrow> panel_db \<Rightarrow> event_record \<Rightarrow> bool" where
  "own_event t db e \<longleftrightarrow> (\<exists>c\<in>set (calls db). ca_id c = ev_call_id e \<and> tenant_call t c db)"

fun own_reply :: "uuid \<Rightarrow> panel_db \<Rightarrow> panel_reply \<Rightarrow> bool" where
  "own_reply t db (Agents rs) = list_all (\<lambda>r. pa_tenant_id r = t) rs"
| "own_reply t db (Voices rs) = list_all (\<lambda>r. vo_tenant_id r = t) rs"
| "own_reply t db (Kbs rs) = list_all (\<lambda>r. kb_tenant_id r = t) rs"
| "own_reply t db (Documents rs) = list_all (own_kb_doc t db) rs"
| "own_reply t db (Servers rs) = list_all (\<lambda>r. vs_tenant_id r = t) rs"
| "own_reply t db (Campaigns rs) = list_all (\<lambda>r. cm_tenant_id r = t) rs"
| "own_reply t db (Deployments rs) = list_all (\<lambda>r. pd_tenant_id r = t) rs"
| "own_reply t db (Calls rs) = list_all (\<lambda>c. tenant_call t c db) rs"
| "own_reply t db (Events rs) = list_all (own_event t db) rs"
| "own_reply t db Other = True"

text \<open>\<open>yields R h\<close>: what \<open>h\<close> returns satisfies \<open>R\<close> in the database it leaves.\<close>

definition yields :: "(panel_db \<Rightarrow> 'a \<Rightarrow> bool) \<Rightarrow> 'a handler \<Rightarrow> bool" where
  "yields R h \<longleftrightarrow> (\<forall>s x s'. h s = (Inr x, s') \<longrightarrow> R (sn_db s') x)"

lemma yields_bnd: "yields (\<lambda>_. R) m \<Longrightarrow> (\<And>x. R x \<Longrightarrow> yields S (k x)) \<Longrightarrow> yields S (bnd m k)"
  unfolding yields_def by (metis bnd_InrE)

lemma yields_after: "(\<And>x. yields S (k x)) \<Longrightarrow> yields S (bnd m k)"
  unfolding yields_def by (metis bnd_InrE)

lemma yields_ret: "(\<And>db. R db x) \<Longrightarrow> yields R (ret x)"
  by (simp add: yields_def ret_def)

lemma yields_stop: "yields R (raise c d)" "yields R (fails_with w)"
  by (simp_all add: yields_def raise_def fails_with_def)

lemma yields_if: "(b \<Longrightarrow> yields R x) \<Longrightarrow> (\<not> b \<Longrightarrow> yields R y) \<Longrightarrow> yields R (if b then x else y)"
  by simp

lemma yields_say: "yields (\<lambda>db x. S db (f x)) h \<Longrightarrow> yields S (say f h)"
  unfolding say_def yields_def by (auto simp: ret_def elim!: bnd_InrE)

lemma yields_lookup: "yields (\<lambda>_ r. tenant r = t) (lookup tab key tenant what t i)"
  by (auto simp: yields_def lookup_def handler_simps split: option.splits if_splits)

lemma yields_paged: "(\<And>db r. r \<in> set (base db) \<Longrightarrow> R db r) \<Longrightarrow> yields (\<lambda>db x. list_all (R db) (fst x)) (paged l off f base)"
  by (auto simp: yields_def paged_def reading_def list_all_iff dest!: set_page)

lemma yields_saves:
  "pa_tenant_id new = t \<Longrightarrow> pa_tenant_id old = t \<Longrightarrow> yields (\<lambda>_ r. pa_tenant_id r = t) (save_agent cx old new)"
  "cm_tenant_id newc = t \<Longrightarrow> cm_tenant_id oldc = t \<Longrightarrow> yields (\<lambda>_ r. cm_tenant_id r = t) (save_campaign cx oldc newc)"
  "pd_tenant_id newd = t \<Longrightarrow> pd_tenant_id oldd = t \<Longrightarrow> yields (\<lambda>_ r. pd_tenant_id r = t) (save_deployment cx oldd newd)"
  by (auto simp: save_agent_def save_campaign_def save_deployment_def touch_agent_def Let_def
      intro!: yields_after yields_ret)

lemma yields_other: "yields (own_reply t) (say (\<lambda>r. Other) h)"
  by (rule yields_say) (simp add: yields_def)

lemma yields_agents: "yields (own_reply (us_tenant_id u)) (handle_agents w cx c u)"
proof (cases c)
  case (ListAgents l off n st)
  show ?thesis
    unfolding ListAgents handle_agents.simps list_agents_def
    by (intro yields_say, simp only: own_reply.simps, intro yields_after yields_paged) simp
next
  case (GetAgent i)
  show ?thesis
    unfolding GetAgent handle_agents.simps get_agent_def by (intro yields_say) (simp add: yields_lookup)
next
  case (CreateAgent b)
  show ?thesis
    unfolding CreateAgent handle_agents.simps create_agent_def Let_def
    by (intro yields_say yields_after yields_ret) (simp add: new_agent_def)
next
  case (UpdateAgent i b)
  show ?thesis
    unfolding UpdateAgent handle_agents.simps update_agent_def get_agent_def
    by (intro yields_say yields_bnd [OF yields_lookup] yields_bnd [OF yields_saves(1)] yields_after yields_ret) simp_all
next
  case (PromoteAgent i)
  show ?thesis
    unfolding PromoteAgent handle_agents.simps promote_agent_def set_agent_status_def get_agent_def
    by (intro yields_say yields_bnd [OF yields_lookup] yields_bnd [OF yields_saves(1)] yields_after yields_ret) simp_all
next
  case (DuplicateAgent i)
  show ?thesis
    unfolding DuplicateAgent handle_agents.simps duplicate_agent_def get_agent_def Let_def
    by (intro yields_say yields_bnd [OF yields_lookup] yields_after yields_ret) (simp add: copy_agent_def)
qed (simp_all add: yields_other)

lemma yields_content: "yields (own_reply (us_tenant_id u)) (handle_content w cx c u)"
proof (cases c)
  case (ListVoices l off)
  show ?thesis
    unfolding ListVoices handle_content.simps list_voices_def
    by (intro yields_say, simp only: own_reply.simps, intro yields_after yields_paged) simp
next
  case (GetVoice i)
  show ?thesis
    unfolding GetVoice handle_content.simps get_voice_def by (intro yields_say) (simp add: yields_lookup)
next
  case (CreateVoice n rt f)
  show ?thesis
    unfolding CreateVoice handle_content.simps create_voice_def Let_def
    by (intro yields_say yields_after yields_ret) (simp add: new_voice_def)
next
  case (ListKbs l off)
  show ?thesis
    unfolding ListKbs handle_content.simps list_kbs_def
    by (intro yields_say, simp only: own_reply.simps, intro yields_after yields_paged) simp
next
  case (CreateKb n d m)
  show ?thesis
    unfolding CreateKb handle_content.simps create_kb_def Let_def
    by (intro yields_say yields_after yields_ret) simp
next
  case (ListDocuments i)
  show ?thesis
    unfolding ListDocuments handle_content.simps yields_def say_def list_documents_def get_kb_def lookup_def handler_simps
    by (auto simp: list_all_iff own_kb_doc_def split: option.splits if_splits dest!: get_row_SomeD)
next
  case (UploadDocument i f)
  show ?thesis
    unfolding UploadDocument handle_content.simps yields_def
  proof (intro allI impI)
    fix s x s'
    assume run: "say (\<lambda>r. Documents [r]) (upload_document cx (pw_sha w) (pw_b64 w) i f u) s = (Inr x, s')"
    then have "\<exists>k\<in>set (kbs (sn_db s')). kb_id k = i \<and> kb_tenant_id k = us_tenant_id u"
      "x = Documents [new_document cx i (opt_str_or (up_filename f) ''upload.bin'') (pw_sha w (up_bytes f))]"
      by (auto simp: say_def upload_document_def get_kb_def lookup_def handler_simps flushing_def doing_def Let_def
          audit_as_def split: option.splits if_splits prod.splits sum.splits dest!: get_row_SomeD audit_dump_frame)
    then show "own_reply (us_tenant_id u) (sn_db s') x"
      by (auto simp: own_kb_doc_def new_document_def)
  qed
next
  case (ListServers l off)
  show ?thesis
    unfolding ListServers handle_content.simps list_servers_def
    by (intro yields_say, simp only: own_reply.simps, intro yields_paged) simp
next
  case (CreateServer b)
  show ?thesis
    unfolding CreateServer handle_content.simps create_server_def Let_def
    by (intro yields_say yields_after yields_ret) simp
next
  case (UpdateServer i b)
  show ?thesis
    unfolding UpdateServer handle_content.simps update_server_def get_server_def Let_def
    by (intro yields_say yields_bnd [OF yields_lookup] yields_after yields_ret) simp
qed (simp_all add: yields_other)

lemma yields_campaigns: "yields (own_reply (us_tenant_id u)) (handle_campaigns w cx c u)"
proof (cases c)
  case (ListCampaigns l off st)
  show ?thesis
    unfolding ListCampaigns handle_campaigns.simps list_campaigns_def
    by (intro yields_say, simp only: own_reply.simps, intro yields_after yields_paged) simp
next
  case (GetCampaign i)
  show ?thesis
    unfolding GetCampaign handle_campaigns.simps get_campaign_def by (intro yields_say) (simp add: yields_lookup)
next
  case (CreateCampaign b)
  show ?thesis
    unfolding CreateCampaign handle_campaigns.simps create_campaign_def Let_def
    by (intro yields_say yields_after yields_ret) (simp add: new_campaign_def)
next
  case (UpdateCampaign i b)
  show ?thesis
    unfolding UpdateCampaign handle_campaigns.simps update_campaign_def get_campaign_def
    by (intro yields_say, rule yields_after,
        intro yields_bnd [OF yields_lookup] yields_bnd [OF yields_saves(2)] yields_after yields_ret) simp_all
qed (simp_all add: yields_other)

lemma find_call: "get_call_for_tenant i u s = (Inr c, s') \<Longrightarrow>
  s' = s \<and> c \<in> set (calls (sn_db s)) \<and> ca_id c = i \<and> tenant_call (us_tenant_id u) c (sn_db s)"
  by (auto simp: get_call_for_tenant_def handler_simps find_Some_iff split: option.splits)

lemma yields_deployments: "yields (own_reply (us_tenant_id u)) (handle_deployments w cx c u)"
proof (cases c)
  case (ListDeployments l off st)
  show ?thesis
    unfolding ListDeployments handle_deployments.simps list_deployments_def
    by (intro yields_say, simp only: own_reply.simps, intro yields_after yields_paged) simp
next
  case (GetDeployment i)
  show ?thesis
    unfolding GetDeployment handle_deployments.simps get_deployment_def by (intro yields_say) (simp add: yields_lookup)
next
  case (CreateDeployment b)
  show ?thesis
    unfolding CreateDeployment handle_deployments.simps create_deployment_def Let_def
    by (intro yields_say yields_after yields_ret) (simp add: new_deployment_def)
next
  case (UpdateDeployment i b)
  show ?thesis
    unfolding UpdateDeployment handle_deployments.simps update_deployment_def get_deployment_def
    by (intro yields_say, rule yields_bnd [OF yields_lookup], rule yields_after, rule yields_after,
        intro yields_bnd [OF yields_saves(3)] yields_after yields_ret) simp_all
next
  case (ListCalls l off f)
  show ?thesis
    unfolding ListCalls handle_deployments.simps list_calls_def
    by (intro yields_say, simp only: own_reply.simps, intro yields_after yields_paged) simp
next
  case (GetCall i)
  show ?thesis
    unfolding GetCall handle_deployments.simps by (intro yields_say) (auto simp: yields_def dest: find_call)
next
  case (GetEvents i)
  show ?thesis
    unfolding GetEvents handle_deployments.simps yields_def say_def get_events_def
    by (auto simp: ret_def reading_def list_all_iff own_event_def elim!: bnd_InrE dest!: find_call) blast
qed (simp_all add: yields_other)

lemma yields_panel: "yields (own_reply (us_tenant_id u)) (handle_panel w cx c u)"
  by (cases c) (simp_all add: yields_agents yields_content yields_campaigns yields_deployments)

section \<open>Tenants are separate\<close>

lemma authorised_run:
  assumes "authorised env now dn creds roles h (fresh_session db) = (Inr x, s')"
  obtains u where "get_current_user env now dn creds db = Inr u" "us_role u \<in> set roles" "h u (fresh_session db) = (Inr x, s')"
  using assms by (auto simp: authorised_def require_role_def split: sum.splits if_splits)

lemma panel_request_cases:
  obtains (refused) "snd (panel_request env w (q, c) db) = db"
      "\<forall>r. fst (panel_request env w (q, c) db) \<noteq> Inr r"
    | (served) u x s where "get_current_user env (pq_now q) (pq_denied q) (pq_creds q) db = Inr u" "us_role u \<in> set (roles_of c)"
      "handle_panel w (pq_ctx q) c u (fresh_session db) = (Inr x, s)" "panel_request env w (q, c) db = (Inr x, sn_db s)"
proof -
  define h where "h = authorised env (pq_now q) (pq_denied q) (pq_creds q) (roles_of c) (handle_panel w (pq_ctx q) c)"
  have eq: "panel_request env w (q, c) db = with_session h db"
    by (simp add: panel_request_def h_def)
  obtain res s where run: "h (fresh_session db) = (res, s)"
    by (cases "h (fresh_session db)")
  show ?thesis
  proof (cases "(\<exists>x. res = Inr x) \<and> \<not> sn_failed s")
    case True
    then obtain x where "res = Inr x" "\<not> sn_failed s" by blast
    then have "panel_request env w (q, c) db = (Inr x, sn_db s)"
      by (simp add: eq with_session_def run)
    moreover have "authorised env (pq_now q) (pq_denied q) (pq_creds q) (roles_of c) (handle_panel w (pq_ctx q) c)
        (fresh_session db) = (Inr x, s)"
      using run \<open>res = Inr x\<close> by (simp only: h_def)
    then obtain u where "get_current_user env (pq_now q) (pq_denied q) (pq_creds q) db = Inr u"
      "us_role u \<in> set (roles_of c)" "handle_panel w (pq_ctx q) c u (fresh_session db) = (Inr x, s)"
      by (rule authorised_run)
    ultimately show ?thesis
      by (intro served)
  next
    case False
    then show ?thesis
      using refused run by (cases res) (auto simp: eq with_session_def)
  qed
qed


lemma alice_current:
  "get_current_user plain_env 1800 no_denials (Some (''Bearer'', pr_access (make_token_pair plain_env first_login alice)))
     alice_db = Inr alice"
  using read_access_token [OF _ alice_ok _ bearer_lower, of plain_env first_login 1800 no_denials] alice_row
  by (simp add: get_current_user_def plain_jwt_law plain_env_def first_login_def access_until_def is_denied_def no_denials_def)

definition plain_world :: panel_world where
  "plain_world = \<lparr>pw_enc = Some, pw_repr = (\<lambda>_. []), pw_sm = SmError ''down'', pw_sm_text = [], pw_sha = (\<lambda>_. []),
     pw_b64 = (\<lambda>_. []), pw_iso = (\<lambda>_. []), pw_bucket = ''rec'', pw_store_outage = None, pw_distance = (\<lambda>_ _. 0),
     pw_chunks = [], pw_vec = None, pw_sign = (\<lambda>_ _. [])\<rparr>"

definition alice_call :: "pyval dict panel_req" where
  "alice_call = \<lparr>pq_ctx = \<lparr>rq_now = 5, rq_new_id = ''new'', rq_audit_id = 1, rq_audit_ok = True\<rparr>, pq_now = 1800,
     pq_denied = no_denials, pq_creds = Some (''Bearer'', pr_access (make_token_pair plain_env first_login alice))\<rparr>"

lemma alice_creates_kb:
  "\<exists>k. fst (panel_request plain_env plain_world (alice_call, ContentCall (CreateKb ''faq'' None ''m'')) alice_db) = Inr (Kbs [k])"
  by (simp add: panel_request_def with_session_def authorised_def alice_call_def alice_current require_role_def roles_of_def
      ROLES_WRITE_def)
    (simp add: Let_def say_def create_kb_def handler_simps flushing_def audit_as_def audit_dump_def log_audit_def fresh_session_def
      alice_db_def alice_def empty_panel_db_def)


text \<open>The references between the tenants that the routes accept: an agent may name another tenant's
  voice, and when that tenant deletes the voice the agent is changed.\<close>

definition their_voice :: voice_row where
  "their_voice = new_voice \<lparr>rq_now = 0, rq_new_id = ''v1'', rq_audit_id = 1, rq_audit_ok = True\<rparr> ''t1'' ''Ann''"

lemma cross_tenant_voice:
  "let db = empty_panel_db\<lparr>voices := [their_voice]\<rparr>;
       b = \<lparr>anc_name = ''Bot'', anc_persona = sam_persona, anc_script = sam_script,
            anc_scenario_tree = empty_scenario, anc_voice_id = Some ''v1'',
            anc_language = ''en'', anc_kb_collection_id = None, anc_campaign_id = None\<rparr>;
       cx = \<lparr>rq_now = 1, rq_new_id = ''a2'', rq_audit_id = 2, rq_audit_ok = True\<rparr>;
       u1 = alice\<lparr>us_tenant_id := ''t1''\<rparr>; u2 = alice\<lparr>us_tenant_id := ''t2''\<rparr>;
       db1 = snd (with_session (create_agent cx b u2) db); db2 = snd (with_session (delete_voice cx ''v1'' u1) db1)
   in map pa_tenant_id (agents db1) = [''t2''] \<and> map pa_voice_id (agents db1) = [Some ''v1''] \<and>
      map pa_voice_id (agents db2) = [None]"
  by (simp add: Let_def with_session_def create_agent_def delete_voice_def get_voice_def lookup_def handler_simps
      insert_agent_def flushing_def agent_fks_def fk_def new_agent_def their_voice_def new_voice_def audit_as_def audit_dump_def
      log_audit_def fresh_session_def empty_panel_db_def get_row_def drop_voice_def del_row_def agent_create_valid_def)

section \<open>What the routes do not keep\<close>

lemma lost_when_audit_fails:
  assumes "\<And>s x s'. m s = (Inr x, s') \<Longrightarrow> p x = None"
  shows "\<exists>e. with_session (bnd m (\<lambda>x. bnd (audit_dump cx u a tt (ti x) (p x)) (\<lambda>_. ret (y x)))) db = (Inl e, db)"
proof (cases "m (fresh_session db)")
  case (Pair res s)
  show ?thesis
  proof (cases res)
    case (Inl e)
    then show ?thesis using Pair by (simp add: with_session_def bnd_def)
  next
    case (Inr x)
    then show ?thesis using Pair assms [OF Pair [unfolded Inr]]
      by (simp add: with_session_def bnd_def audit_dump_def log_audit_def ret_def)
  qed
qed

lemma lost_under_lookup:
  assumes "\<And>x. \<exists>e. with_session (k x) db = (Inl e, db)" "\<And>s x s'. m s = (Inr x, s') \<Longrightarrow> s' = s"
  shows "\<exists>e. with_session (bnd m k) db = (Inl e, db)"
proof (cases "m (fresh_session db)")
  case (Pair res s)
  show ?thesis
  proof (cases res)
    case (Inl e)
    then show ?thesis using Pair by (simp add: with_session_def bnd_def)
  next
    case (Inr x)
    then have "s = fresh_session db"
      using assms(2) Pair by blast
    then show ?thesis
      using assms(1) [of x] Pair Inr by (simp add: with_session_def bnd_def)
  qed
qed

lemma lookup_same: "lookup tab key tenant what t i s = (Inr x, s') \<Longrightarrow> s' = s"
  by (auto simp: lookup_def handler_simps split: option.splits if_splits)

lemma opt_encrypting_same: "opt_encrypting enc p s = (Inr x, s') \<Longrightarrow> s' = s"
  by (auto simp: opt_encrypting_def encrypting_def fails_with_def handler_simps split: option.splits)

text \<open>An update that names a voice, a knowledge base or a campaign of an agent, the knowledge base of
  a campaign, the campaign of a deployment or the web address of a server is never stored: the audit
  row cannot be written as JSON, its failure is swallowed, and the commit then fails and takes the
  update with it. Nor is any update stored while the audit table cannot be written.\<close>

lemma unloggable_updates_lost:
  shows "(dump_agent_update ab = None \<longrightarrow> (\<exists>e. with_session (update_agent cx i ab u) db = (Inl e, db))) \<and>
    (dump_campaign_update cb = None \<longrightarrow> (\<exists>e. with_session (update_campaign cx i cb u) db = (Inl e, db))) \<and>
    (dump_deployment_update pb = None \<longrightarrow> (\<exists>e. with_session (update_deployment cx enc i pb u) db = (Inl e, db))) \<and>
    (dump_server_update sb = None \<longrightarrow> (\<exists>e. with_session (update_server cx enc i sb u) db = (Inl e, db)))"
proof (intro conjI impI)
  assume "dump_agent_update ab = None"
  then show "\<exists>e. with_session (update_agent cx i ab u) db = (Inl e, db)"
    unfolding update_agent_def get_agent_def
    by (intro lost_when_audit_fails lost_under_lookup) (simp_all add: lookup_same guard_that_def ret_def raise_def split: if_splits)
next
  assume "dump_campaign_update cb = None"
  then show "\<exists>e. with_session (update_campaign cx i cb u) db = (Inl e, db)"
    unfolding update_campaign_def get_campaign_def
    by (intro lost_when_audit_fails lost_under_lookup) (simp_all add: lookup_same guard_that_def ret_def raise_def split: if_splits)
next
  assume "dump_deployment_update pb = None"
  then show "\<exists>e. with_session (update_deployment cx enc i pb u) db = (Inl e, db)"
    unfolding update_deployment_def get_deployment_def
    by (intro lost_when_audit_fails lost_under_lookup) (simp_all add: lookup_same opt_encrypting_same)
next
  assume "dump_server_update sb = None"
  then show "\<exists>e. with_session (update_server cx enc i sb u) db = (Inl e, db)"
    unfolding update_server_def get_server_def Let_def
    by (intro lost_when_audit_fails lost_under_lookup) (simp_all add: lookup_same opt_encrypting_same)
qed

definition bot :: panel_agent where
  "bot = \<lparr>pa_id = ''a1'', pa_tenant_id = us_tenant_id alice, pa_name = ''Bot'', pa_persona = [], pa_voice_id = None,
     pa_language = ''en'', pa_script = [], pa_scenario_tree = [], pa_training_recordings = [], pa_kb_collection_id = None,
     pa_campaign_id = None, pa_status = ''draft'', pa_created_at = 0, pa_updated_at = 0\<rparr>"

definition bot_db :: panel_db where
  "bot_db = alice_db\<lparr>agents := [bot], voices := [new_voice (pq_ctx alice_call) (us_tenant_id alice) ''Ann'']\<rparr>"

definition give_voice :: agent_update where
  "give_voice = \<lparr>anu_name = None, anu_persona = None, anu_script = None, anu_scenario_tree = None,
     anu_voice_id = Some ''new'', anu_language = None, anu_kb_collection_id = None, anu_campaign_id = None\<rparr>"

lemma unloggable_updates_lost_witness:
  "(\<exists>e. with_session (update_agent (pq_ctx alice_call) ''a1'' give_voice alice) bot_db = (Inl e, bot_db)) \<and>
   get_row pa_id ''a1'' (agents bot_db) = Some bot \<and> agent_fks (apply_agent_update give_voice bot) bot_db"
proof (intro conjI)
  have "dump_agent_update give_voice = None"
    by (simp add: dump_agent_update_def give_voice_def)
  then show "\<exists>e. with_session (update_agent (pq_ctx alice_call) ''a1'' give_voice alice) bot_db = (Inl e, bot_db)"
    by (rule unloggable_updates_lost [THEN conjunct1, THEN mp])
qed (simp_all add: get_row_def bot_db_def bot_def agent_fks_def fk_def apply_agent_update_def give_voice_def
      new_voice_def alice_call_def set_or_def)

text \<open>A test call that names no deployment: the query it looks for one with is refused by the database,
  so it fails before the session manager is asked, running deployment or not.\<close>

lemma pick_running_fails: "pick_running agent_id u s = (Inl (Crash ''DBAPIError: invalid input value for enum''), s)"
  by (simp add: pick_running_def enum_ok_def test_call_statuses_def deployment_statuses_def bnd_def fails_with_def)

text \<open>The row of a failed dial or transfer is written in the session that the exception then rolls back.\<close>

definition failure_actions :: "string list" where
  "failure_actions = [''agent.test_call_failed'', ''call.transfer_failed'']"

lemma audit_as_rows:
  "audit_as cx u a tt ti p s = (x, s') \<Longrightarrow> r \<in> set (audits (sn_db s')) \<Longrightarrow>
   r \<in> set (audits (sn_db s)) \<or> au_action r = a"
  by (auto simp: audit_as_def audit_dump_def log_audit_def writing_def split: if_splits)

definition unaudited :: "'a handler \<Rightarrow> bool" where
  "unaudited h \<longleftrightarrow> (\<forall>s x s'. h s = (Inr x, s') \<longrightarrow>
     (\<forall>r\<in>set (audits (sn_db s')). r \<in> set (audits (sn_db s)) \<or> au_action r \<notin> set failure_actions))"

lemma unaudited_reads: "reads h \<Longrightarrow> unaudited h"
  by (auto simp: unaudited_def reads_def)

lemma unaudited_bnd: "unaudited m \<Longrightarrow> (\<And>x. unaudited (k x)) \<Longrightarrow> unaudited (bnd m k)"
  unfolding unaudited_def by (metis bnd_InrE)

lemma unaudited_audit: "a \<notin> set failure_actions \<Longrightarrow> unaudited (audit_as cx u a tt ti p)"
  unfolding unaudited_def using audit_as_rows by blast

lemma unaudited_then_raise: "unaudited (bnd m (\<lambda>_. raise c d))"
  by (auto simp: unaudited_def raise_def elim!: bnd_InrE)

lemma unaudited_session:
  assumes "unaudited h" "r \<in> set (audits (snd (with_session h db)))" "au_action r \<in> set failure_actions"
  shows "r \<in> set (audits db)"
proof (cases rule: with_session_cases [of h db])
  case kept
  then show ?thesis using assms(2) by simp
next
  case (committed x s)
  then show ?thesis using assms unfolding unaudited_def by fastforce
qed

lemma unaudited_ask:
  assumes "\<And>d. unaudited (no d)" "unaudited yes"
  shows "unaudited (case z of (False, d) \<Rightarrow> no d | (True, _) \<Rightarrow> yes)"
  using assms by (cases z) (auto split: bool.split)

lemma unaudited_test_call: "unaudited (test_call cx rp body r i phone dep u)"
  unfolding test_call_def
  by (intro unaudited_ask unaudited_then_raise unaudited_bnd)
    (simp_all add: unaudited_audit failure_actions_def unaudited_reads reads_lists reads_basic reads_option reads_pick)

lemma unaudited_transfer_call: "unaudited (transfer_call cx rp body r i g summary u)"
proof -
  have "unaudited (hand_over cx rp body r i g summary c d u)" for c d
    unfolding hand_over_def
    by (intro unaudited_ask unaudited_then_raise unaudited_bnd)
      (auto simp: unaudited_audit failure_actions_def unaudited_reads reads_basic, auto simp: unaudited_def writing_def)
  then show ?thesis
    unfolding transfer_call_def
    by (intro unaudited_bnd) (auto simp: unaudited_reads reads_basic reads_parts split: option.split intro!: unaudited_bnd)
qed

text \<open>A test call without a named deployment never succeeds, never reaches the session manager and
  changes nothing; and whatever the session manager answers to a test call or a transfer, the audit
  row of a failure is never stored.\<close>

lemma failed_calls_leave_no_trace:
  "(\<exists>e. with_session (test_call cx rp body r i phone None u) db = (Inl e, db)) \<and>
   effects_of (test_call cx rp body r i phone None u) db = [] \<and>
   set (filter (\<lambda>a. au_action a \<in> set failure_actions)
     (audits (snd (with_session (test_call cx rp body r i phone dep u) db)) @
      audits (snd (with_session (transfer_call cx rp body r i g summary u) db)))) \<subseteq> set (audits db)"
proof (intro conjI)
  have *: "\<exists>e. test_call cx rp body r i phone None u (fresh_session db) = (Inl e, fresh_session db)"
    unfolding test_call_def get_agent_def lookup_def bnd_def guard_that_def ret_def raise_def reading_def option.case
    by (auto simp: pick_running_fails split: option.split)
  then show "\<exists>e. with_session (test_call cx rp body r i phone None u) db = (Inl e, db)"
    "effects_of (test_call cx rp body r i phone None u) db = []"
    by (auto simp: with_session_def effects_of_def fresh_session_def)
  show "set (filter (\<lambda>a. au_action a \<in> set failure_actions)
     (audits (snd (with_session (test_call cx rp body r i phone dep u) db)) @
      audits (snd (with_session (transfer_call cx rp body r i g summary u) db)))) \<subseteq> set (audits db)"
    unfolding set_filter set_append
    using unaudited_session [OF unaudited_test_call] unaudited_session [OF unaudited_transfer_call] by blast
qed

text \<open>The allow-list of a transfer that is empty forbids nothing.\<close>

lemma empty_allow_list: "pd_allowed_transfer_ingroups d = [] \<Longrightarrow> transfer_allowed g d"
  by (simp add: transfer_allowed_def)

text \<open>A training recording is stored and its row says queued; no job is.\<close>

lemma recording_never_queued:
  "EnqueueJob j args \<notin> set (effects_of (upload_training_recording cx f bucket outage i lab up u) db)"
  unfolding upload_training_recording_def get_agent_def lookup_def save_agent_def flushing_def bnd_def guard_that_def
    ret_def raise_def reading_def effects_of_def doing_def writing_def audit_as_def audit_dump_def log_audit_def Let_def
  by (auto simp: fresh_session_def split: option.splits sum.splits prod.splits if_splits)

end
