(* ===== verification/Worker_Audio.thy ===== *)
theory Worker_Audio
  imports Wire Bounded_Queue
begin

text \<open>
  The worker's two audio pipelines. \<open>audio_out.py\<close>: the bytes a TTS response streams are cut
  into 20 ms frames for the playout queue (at most 200 frames, oldest dropped), with a
  barge-in between any two chunks. \<open>audio_in.py\<close>: the frames towards the speech recogniser
  (at most 200, newest dropped) and the dispatch of its messages.

  What other tasks do while a response is streamed is part of the list of \<open>tts_event\<close>s: the
  code suspends only while it waits for the next chunk, so a chunk is handled in one piece.
\<close>

section \<open>Playout\<close>

definition FRAMES_OUT_MAX :: nat where "FRAMES_OUT_MAX = 200"

record speech_request =
  sp_text :: string
  sp_audio :: bytes
  sp_voice_id :: "string option"
  sp_is_terminal :: bool
  sp_request_id :: string

record audio_out =
  ao_frames :: "bytes list"
  ao_drops :: nat
  ao_cancel :: bool
  ao_stop :: bool
  ao_speaking :: bool

definition ao_init :: audio_out where
  "ao_init = \<lparr>ao_frames = [], ao_drops = 0, ao_cancel = False, ao_stop = False, ao_speaking = False\<rparr>"

definition enqueue_frame :: "bytes \<Rightarrow> audio_out \<Rightarrow> audio_out" where
  "enqueue_frame f a =
     (if length (ao_frames a) < FRAMES_OUT_MAX then a\<lparr>ao_frames := ao_frames a @ [f]\<rparr>
      else a\<lparr>ao_frames := tl (ao_frames a) @ [f], ao_drops := Suc (ao_drops a)\<rparr>)"

text \<open>The inner \<open>while len(leftover) >= PCM_FRAME_BYTES\<close>: the whole frames and what is left.\<close>

function chunk_frames :: "bytes \<Rightarrow> bytes list \<times> bytes" where
  "chunk_frames leftover =
     (if length leftover < PCM_FRAME_BYTES then ([], leftover)
      else let (fs, rest) = chunk_frames (drop PCM_FRAME_BYTES leftover)
           in (take PCM_FRAME_BYTES leftover # fs, rest))"
  by pat_completeness auto
termination by (relation "measure length") (auto simp: PCM_FRAME_BYTES_def)

declare chunk_frames.simps [simp del]

definition pad_frame :: "bytes \<Rightarrow> bytes" where
  "pad_frame chunk = chunk @ replicate (PCM_FRAME_BYTES - length chunk) 0"

text \<open>What the barge-in monitor does to this pipeline: cancel, and drain the playout queue.\<close>

definition barge_in_audio :: "audio_out \<Rightarrow> audio_out" where
  "barge_in_audio a = a\<lparr>ao_cancel := True, ao_frames := []\<rparr>"

datatype tts_event =
    TtsChunk bytes
  | TtsBargeIn
  | TtsPlayed
  | TtsStop
  | TtsFail

text \<open>The body of \<open>_stream_tts\<close> after a 200: whether it was cancelled, and the state. The end
  of the list is the end of the response.\<close>

fun tts_loop :: "bytes \<Rightarrow> tts_event list \<Rightarrow> audio_out \<Rightarrow> bool \<times> audio_out" where
  "tts_loop leftover [] a =
     (False, if leftover \<noteq> [] then enqueue_frame (pad_frame leftover) a else a)"
| "tts_loop leftover (TtsChunk c # es) a =
     (if ao_cancel a \<or> ao_stop a then (True, a)
      else let (fs, rest) = chunk_frames (leftover @ c)
           in tts_loop rest es (fold enqueue_frame fs a))"
| "tts_loop leftover (TtsBargeIn # es) a = tts_loop leftover es (barge_in_audio a)"
| "tts_loop leftover (TtsPlayed # es) a = tts_loop leftover es (a\<lparr>ao_frames := tl (ao_frames a)\<rparr>)"
| "tts_loop leftover (TtsStop # es) a = tts_loop leftover es (a\<lparr>ao_stop := True\<rparr>)"
| "tts_loop leftover (TtsFail # es) a = (False, a)"

definition stream_tts :: "int \<Rightarrow> tts_event list \<Rightarrow> audio_out \<Rightarrow> bool \<times> audio_out" where
  "stream_tts status es a = (if status \<noteq> 200 then (False, a) else tts_loop [] es a)"

definition tts_body :: "string \<Rightarrow> speech_request \<Rightarrow> pyval dict" where
  "tts_body voice_id_default req =
     [(''text'', PStr (sp_text req)),
      (''voice_id'', (case str_or_none (Some (opt_str_or (sp_voice_id req) voice_id_default)) of
                        None \<Rightarrow> PNone | Some v \<Rightarrow> PStr v)),
      (''output_format'', PStr ''pcm_s16le_8000''),
      (''speed'', PFloat 1)]"

function enqueue_audio_bytes :: "bytes \<Rightarrow> audio_out \<Rightarrow> audio_out" where
  "enqueue_audio_bytes pcm a =
     (if pcm = [] then a
      else if ao_cancel a \<or> ao_stop a then a
      else enqueue_audio_bytes (drop PCM_FRAME_BYTES pcm)
             (enqueue_frame (pad_frame (take PCM_FRAME_BYTES pcm)) a))"
  by pat_completeness auto
termination by (relation "measure (length \<circ> fst)") (auto simp: PCM_FRAME_BYTES_def)

declare enqueue_audio_bytes.simps [simp del]

text \<open>One round of \<open>run\<close>; an exception of the HTTP layer other than the ones \<open>_stream_tts\<close>
  handles is logged by \<open>run\<close> and ends the utterance the same way.\<close>

definition speak_request :: "int \<Rightarrow> tts_event list \<Rightarrow> speech_request \<Rightarrow> audio_out \<Rightarrow> bool \<times> audio_out" where
  "speak_request status es req a =
     (let a1 = a\<lparr>ao_cancel := False, ao_speaking := True\<rparr>;
          (cancelled, a2) = (if sp_audio req \<noteq> [] then (False, enqueue_audio_bytes (sp_audio req) a1)
                             else stream_tts status es a1)
      in (cancelled, a2\<lparr>ao_speaking := False\<rparr>))"

text \<open>The reference: the whole utterance cut into frames, the last one padded with silence.\<close>

function utterance_frames :: "bytes \<Rightarrow> bytes list" where
  "utterance_frames pcm =
     (if pcm = [] then []
      else pad_frame (take PCM_FRAME_BYTES pcm) # utterance_frames (drop PCM_FRAME_BYTES pcm))"
  by pat_completeness auto
termination by (relation "measure length") (auto simp: PCM_FRAME_BYTES_def)

declare utterance_frames.simps [simp del]

section \<open>Recognition\<close>

record stt_final =
  fi_text :: string
  fi_duration_ms :: int
  fi_received_at :: rat

record stt_partial =
  pa_text :: string
  pa_stability :: rat
  pa_received_at :: rat

record audio_in =
  ai_frames :: "bytes list"
  ai_finals :: "stt_final list"
  ai_partials :: "stt_partial list"
  ai_speech_end :: "rat option"
  ai_latency :: "rat list"
  ai_sent :: "bytes list"
  ai_stop :: bool

definition ai_init :: audio_in where
  "ai_init = \<lparr>ai_frames = [], ai_finals = [], ai_partials = [], ai_speech_end = None,
     ai_latency = [], ai_sent = [], ai_stop = False\<rparr>"

definition feed :: "bytes \<Rightarrow> audio_in \<Rightarrow> audio_in" where
  "feed pcm a = (if length (ai_frames a) < 200 then a\<lparr>ai_frames := ai_frames a @ [pcm]\<rparr> else a)"

definition mark_speech_end :: "rat \<Rightarrow> audio_in \<Rightarrow> audio_in" where
  "mark_speech_end now a = a\<lparr>ai_speech_end := Some now\<rparr>"

text \<open>One round of \<open>_send_loop\<close>: \<open>resample\<close> is \<open>audioop.ratecv\<close>, with its state threaded; the
  result is False when the loop returns (the send failed).\<close>

definition send_round :: "('r \<Rightarrow> bytes \<Rightarrow> bytes \<times> 'r) \<Rightarrow> bool \<Rightarrow> 'r \<times> audio_in \<Rightarrow> bool \<times> 'r \<times> audio_in" where
  "send_round resample send_ok s =
     (case ai_frames (snd s) of
        [] \<Rightarrow> (True, s)
      | f # fs \<Rightarrow>
          let (up, r) = resample (fst s) f; a = (snd s)\<lparr>ai_frames := fs\<rparr>
          in (send_ok, r, if send_ok then a\<lparr>ai_sent := ai_sent a @ [up]\<rparr> else a))"

text \<open>The conversions of \<open>_recv_loop\<close>, \<open>str(v)\<close>, \<open>float(v)\<close> and \<open>int(v)\<close> on JSON values. The
  parsers of numeric strings and \<open>repr\<close> of floats and containers are given by \<open>stt_env\<close>.\<close>

record stt_env =
  se_loads :: "string \<Rightarrow> pyval option"
  se_float :: "string \<Rightarrow> rat option"
  se_int :: "string \<Rightarrow> int option"
  se_repr :: "pyval \<Rightarrow> string"

datatype py_exn = TypeErr | ValueErr | AttributeErr | KeyErr

fun py_float :: "stt_env \<Rightarrow> pyval \<Rightarrow> py_exn + rat" where
  "py_float env (PFloat x) = Inr x"
| "py_float env (PInt i) = Inr (of_int i)"
| "py_float env (PBool b) = Inr (if b then 1 else 0)"
| "py_float env (PStr s) = (case se_float env s of None \<Rightarrow> Inl ValueErr | Some x \<Rightarrow> Inr x)"
| "py_float env v = Inl TypeErr"

fun py_int :: "stt_env \<Rightarrow> pyval \<Rightarrow> py_exn + int" where
  "py_int env (PInt i) = Inr i"
| "py_int env (PFloat x) = Inr (if x < 0 then \<lceil>x\<rceil> else \<lfloor>x\<rfloor>)"
| "py_int env (PBool b) = Inr (if b then 1 else 0)"
| "py_int env (PStr s) = (case se_int env s of None \<Rightarrow> Inl ValueErr | Some x \<Rightarrow> Inr x)"
| "py_int env v = Inl TypeErr"

text \<open>One message of \<open>_recv_loop\<close> received at \<open>now\<close>. Only the JSON error is caught.\<close>

definition recv_partial :: "stt_env \<Rightarrow> rat \<Rightarrow> pyval dict \<Rightarrow> audio_in \<Rightarrow> py_exn option \<times> audio_in" where
  "recv_partial env now data a =
     (case py_float env (dget_or data ''stability'' (PFloat 0)) of
        Inl e \<Rightarrow> (Some e, a)
      | Inr st \<Rightarrow>
          (None, a\<lparr>ai_partials := ai_partials a @
             [\<lparr>pa_text = py_str (se_repr env) (dget_or data ''text'' (PStr [])),
               pa_stability = st, pa_received_at = now\<rparr>]\<rparr>))"

definition recv_final :: "stt_env \<Rightarrow> rat \<Rightarrow> pyval dict \<Rightarrow> audio_in \<Rightarrow> py_exn option \<times> audio_in" where
  "recv_final env now data a =
     (let a1 = (case ai_speech_end a of
                  None \<Rightarrow> a
                | Some t \<Rightarrow> a\<lparr>ai_latency := ai_latency a @ [now - t], ai_speech_end := None\<rparr>)
      in case py_int env (dget_or data ''duration_ms'' (PInt 0)) of
           Inl e \<Rightarrow> (Some e, a1)
         | Inr ms \<Rightarrow>
             (None, a1\<lparr>ai_finals := ai_finals a1 @
                [\<lparr>fi_text = strip (py_str (se_repr env) (dget_or data ''text'' (PStr []))),
                  fi_duration_ms = ms, fi_received_at = now\<rparr>]\<rparr>))"

definition recv_msg :: "stt_env \<Rightarrow> rat \<Rightarrow> string \<Rightarrow> audio_in \<Rightarrow> py_exn option \<times> audio_in" where
  "recv_msg env now msg a =
     (case se_loads env msg of
        None \<Rightarrow> (None, a)
      | Some (PDict data) \<Rightarrow>
          if dget data ''type'' = PStr ''partial'' then recv_partial env now data a
          else if dget data ''type'' = PStr ''final'' then recv_final env now data a
          else (None, a)
      | Some _ \<Rightarrow> (Some AttributeErr, a))"

fun stt_recv_loop :: "stt_env \<Rightarrow> (rat \<times> string) list \<Rightarrow> audio_in \<Rightarrow> py_exn option \<times> audio_in" where
  "stt_recv_loop env [] a = (None, a)"
| "stt_recv_loop env ((now, msg) # ms) a =
     (if ai_stop a then (None, a)
      else (case recv_msg env now msg a of
              (Some e, a1) \<Rightarrow> (Some e, a1)
            | (None, a1) \<Rightarrow> stt_recv_loop env ms a1))"

text \<open>The transcripts the server means to send, and the objects it sends for them.\<close>

datatype stt_event = SttPartial string rat | SttFinal string int | SttError string

fun stt_wire :: "stt_event \<Rightarrow> pyval" where
  "stt_wire (SttPartial t s) = PDict [(''type'', PStr ''partial''), (''text'', PStr t), (''stability'', PFloat s)]"
| "stt_wire (SttFinal t d) = PDict [(''type'', PStr ''final''), (''text'', PStr t), (''duration_ms'', PInt d)]"
| "stt_wire (SttError m) = PDict [(''type'', PStr ''error''), (''message'', PStr m)]"

fun finals_of :: "(rat \<times> stt_event) list \<Rightarrow> stt_final list" where
  "finals_of [] = []"
| "finals_of ((now, SttFinal t d) # es) =
     \<lparr>fi_text = strip t, fi_duration_ms = d, fi_received_at = now\<rparr> # finals_of es"
| "finals_of ((now, e) # es) = finals_of es"

fun partials_of :: "(rat \<times> stt_event) list \<Rightarrow> stt_partial list" where
  "partials_of [] = []"
| "partials_of ((now, SttPartial t s) # es) =
     \<lparr>pa_text = t, pa_stability = s, pa_received_at = now\<rparr> # partials_of es"
| "partials_of ((now, e) # es) = partials_of es"

section \<open>Lemmas\<close>

interpretation playout: bounded_queue FRAMES_OUT_MAX enqueue_frame ao_frames ao_drops
  by unfold_locales (auto simp: enqueue_frame_def FRAMES_OUT_MAX_def)

lemma enqueue_frame_flags [simp]:
  "ao_cancel (enqueue_frame f a) = ao_cancel a" "ao_stop (enqueue_frame f a) = ao_stop a"
  "ao_speaking (enqueue_frame f a) = ao_speaking a"
  by (simp_all add: enqueue_frame_def)

lemma fold_enqueue_flags [simp]:
  "ao_cancel (fold enqueue_frame fs a) = ao_cancel a" "ao_stop (fold enqueue_frame fs a) = ao_stop a"
  "ao_speaking (fold enqueue_frame fs a) = ao_speaking a"
  by (induction fs arbitrary: a) simp_all

lemma PCM_pos [simp]: "0 < PCM_FRAME_BYTES"
  by (simp add: PCM_FRAME_BYTES_def)

lemma pad_frame_full [simp]: "length c = PCM_FRAME_BYTES \<Longrightarrow> pad_frame c = c"
  by (simp add: pad_frame_def)

lemma utterance_frames_Nil [simp]: "utterance_frames [] = []"
  by (simp add: utterance_frames.simps)

lemma utterance_frames_short:
  "0 < length pcm \<Longrightarrow> length pcm < PCM_FRAME_BYTES \<Longrightarrow> utterance_frames pcm = [pad_frame pcm]"
  by (subst utterance_frames.simps) simp

text \<open>Cutting a prefix first changes nothing.\<close>

lemma chunk_frames_utterance:
  "utterance_frames (leftover @ c) =
     fst (chunk_frames leftover) @ utterance_frames (snd (chunk_frames leftover) @ c)"
proof (induction leftover rule: chunk_frames.induct)
  case (1 leftover)
  show ?case
  proof (cases "length leftover < PCM_FRAME_BYTES")
    case True
    then show ?thesis by (simp add: chunk_frames.simps)
  next
    case False
    then have ne: "leftover \<noteq> []" by auto
    have "utterance_frames (leftover @ c)
        = take PCM_FRAME_BYTES leftover # utterance_frames (drop PCM_FRAME_BYTES leftover @ c)"
      using False ne by (subst utterance_frames.simps) (simp add: min_def)
    also have "\<dots> = take PCM_FRAME_BYTES leftover
        # fst (chunk_frames (drop PCM_FRAME_BYTES leftover))
        @ utterance_frames (snd (chunk_frames (drop PCM_FRAME_BYTES leftover)) @ c)"
      using 1 [OF False] by simp
    finally show ?thesis
      using False by (simp add: chunk_frames.simps [of leftover] split_beta Let_def)
  qed
qed

lemma chunk_frames_rest: "length (snd (chunk_frames b)) < PCM_FRAME_BYTES"
  by (induction b rule: chunk_frames.induct)
    (subst chunk_frames.simps, auto simp: split_beta Let_def)

lemma tts_loop_chunks:
  assumes "\<not> ao_cancel a" "\<not> ao_stop a" "length leftover < PCM_FRAME_BYTES"
  shows "tts_loop leftover (map TtsChunk cs) a
    = (False, fold enqueue_frame (utterance_frames (leftover @ concat cs)) a)"
  using assms
proof (induction cs arbitrary: leftover a)
  case Nil
  then show ?case by (auto simp: utterance_frames_short)
next
  case (Cons c cs)
  let ?r = "chunk_frames (leftover @ c)"
  have "tts_loop leftover (map TtsChunk (c # cs)) a
      = tts_loop (snd ?r) (map TtsChunk cs) (fold enqueue_frame (fst ?r) a)"
    using Cons.prems by (simp add: split_beta Let_def)
  also have "\<dots> = (False, fold enqueue_frame (utterance_frames (snd ?r @ concat cs))
      (fold enqueue_frame (fst ?r) a))"
    using Cons.prems by (intro Cons.IH) (simp_all add: chunk_frames_rest)
  also have "\<dots> = (False, fold enqueue_frame (utterance_frames ((leftover @ c) @ concat cs)) a)"
    by (simp only: chunk_frames_utterance [of "leftover @ c"] fold_append comp_apply)
  finally show ?case by simp
qed

lemma audio_bytes_frames:
  assumes "\<not> ao_cancel a" "\<not> ao_stop a"
  shows "enqueue_audio_bytes pcm a = fold enqueue_frame (utterance_frames pcm) a"
  using assms
proof (induction pcm a rule: enqueue_audio_bytes.induct)
  case (1 pcm a)
  then show ?case
    by (cases "pcm = []")
      (simp_all add: enqueue_audio_bytes.simps [of pcm] utterance_frames.simps [of pcm]
        enqueue_audio_bytes.simps [of "[]"])
qed

text \<open>Once cancelled or stopped, the loop ends at the next chunk with nothing more queued.\<close>

lemma tts_loop_cancelled:
  assumes "ao_cancel a" "ao_frames a = []" "TtsFail \<notin> set es"
  shows "\<exists>a'. tts_loop leftover (es @ TtsChunk c # es') a = (True, a') \<and> ao_frames a' = []"
  using assms
proof (induction es arbitrary: a)
  case (Cons e es)
  then show ?case by (cases e) (auto simp: barge_in_audio_def)
qed simp

lemma tts_loop_until_barge_in:
  assumes "TtsFail \<notin> set (es @ es1)" "TtsStop \<notin> set es" "\<not> ao_stop a" "ao_cancel a \<longrightarrow> ao_frames a = []"
  shows "\<exists>a'. tts_loop leftover (es @ TtsBargeIn # es1 @ TtsChunk c # es2) a = (True, a') \<and> ao_frames a' = []"
  using assms
proof (induction es arbitrary: a leftover)
  case Nil
  then show ?case
    using tts_loop_cancelled [of "barge_in_audio a" es1] by (simp add: barge_in_audio_def)
next
  case (Cons e es)
  show ?case
  proof (cases e)
    case (TtsChunk d)
    show ?thesis
    proof (cases "ao_cancel a")
      case True
      with TtsChunk Cons.prems show ?thesis by simp
    next
      case False
      with Cons.prems have "\<exists>a'. tts_loop (snd (chunk_frames (leftover @ d)))
          (es @ TtsBargeIn # es1 @ TtsChunk c # es2)
          (fold enqueue_frame (fst (chunk_frames (leftover @ d))) a) = (True, a') \<and> ao_frames a' = []"
        by (intro Cons.IH) auto
      with TtsChunk False Cons.prems(3) show ?thesis by (simp add: split_beta Let_def)
    qed
  next
    case TtsBargeIn
    have "\<exists>a'. tts_loop leftover (es @ tts_event.TtsBargeIn # es1 @ TtsChunk c # es2) (barge_in_audio a)
        = (True, a') \<and> ao_frames a' = []"
      using Cons.prems by (intro Cons.IH) (auto simp: barge_in_audio_def)
    with TtsBargeIn show ?thesis by simp
  next
    case TtsPlayed
    have "\<exists>a'. tts_loop leftover (es @ tts_event.TtsBargeIn # es1 @ TtsChunk c # es2)
        (a\<lparr>ao_frames := tl (ao_frames a)\<rparr>) = (True, a') \<and> ao_frames a' = []"
      using Cons.prems by (intro Cons.IH) auto
    with TtsPlayed show ?thesis by simp
  qed (use Cons.prems in auto)
qed

lemma recv_wire:
  assumes "se_loads env msg = Some (stt_wire e)"
  shows "fst (recv_msg env now msg a) = None"
    and "ai_stop (snd (recv_msg env now msg a)) = ai_stop a"
    and "ai_finals (snd (recv_msg env now msg a)) = ai_finals a @ finals_of [(now, e)]"
    and "ai_partials (snd (recv_msg env now msg a)) = ai_partials a @ partials_of [(now, e)]"
  using assms
  by (cases e; simp add: recv_msg_def recv_partial_def recv_final_def dget_def dget_or_def Let_def
      split: option.splits)+

lemma recv_loop_wire:
  assumes "\<forall>(now, msg, e) \<in> set ms. se_loads env msg = Some (stt_wire e)" "\<not> ai_stop a"
  shows "fst (stt_recv_loop env (map (\<lambda>(now, msg, e). (now, msg)) ms) a) = None \<and>
    ai_finals (snd (stt_recv_loop env (map (\<lambda>(now, msg, e). (now, msg)) ms) a))
      = ai_finals a @ finals_of (map (\<lambda>(now, msg, e). (now, e)) ms) \<and>
    ai_partials (snd (stt_recv_loop env (map (\<lambda>(now, msg, e). (now, msg)) ms) a))
      = ai_partials a @ partials_of (map (\<lambda>(now, msg, e). (now, e)) ms)"
  using assms
proof (induction ms arbitrary: a)
  case Nil
  then show ?case by simp
next
  case (Cons m ms)
  obtain now msg e where m: "m = (now, msg, e)" by (cases m)
  let ?a = "snd (recv_msg env now msg a)"
  from Cons.prems m have w: "se_loads env msg = Some (stt_wire e)" by simp
  have step: "recv_msg env now msg a = (None, ?a)" using recv_wire(1) [OF w] by (metis prod.collapse)
  have hd: "finals_of ((now, e) # xs) = finals_of [(now, e)] @ finals_of xs"
    "partials_of ((now, e) # xs) = partials_of [(now, e)] @ partials_of xs" for xs
    by (cases e; simp)+
  have loop: "stt_recv_loop env (map (\<lambda>(now, msg, e). (now, msg)) (m # ms)) a
      = stt_recv_loop env (map (\<lambda>(now, msg, e). (now, msg)) ms) ?a"
    using Cons.prems(2) m by (simp, subst step, simp)
  have "\<not> ai_stop ?a" using recv_wire(2) [OF w] Cons.prems(2) by simp
  moreover have "\<forall>(now, msg, e) \<in> set ms. se_loads env msg = Some (stt_wire e)"
    using Cons.prems(1) by simp
  ultimately have IH: "fst (stt_recv_loop env (map (\<lambda>(now, msg, e). (now, msg)) ms) ?a) = None \<and>
    ai_finals (snd (stt_recv_loop env (map (\<lambda>(now, msg, e). (now, msg)) ms) ?a))
      = ai_finals ?a @ finals_of (map (\<lambda>(now, msg, e). (now, e)) ms) \<and>
    ai_partials (snd (stt_recv_loop env (map (\<lambda>(now, msg, e). (now, msg)) ms) ?a))
      = ai_partials ?a @ partials_of (map (\<lambda>(now, msg, e). (now, e)) ms)"
    by (intro Cons.IH)
  show ?case
    unfolding loop using IH recv_wire(3,4) [OF w, of now a]
    by (simp only: m list.map split_conv hd(1) [of "map (\<lambda>(now, msg, e). (now, e)) ms"]
        hd(2) [of "map (\<lambda>(now, msg, e). (now, e)) ms"] append_assoc)
qed

section \<open>Properties\<close>

text \<open>
  whatever way the TTS server cuts its response into chunks, an utterance that is not
  interrupted reaches the playout queue as its 20 ms frames in order, the last one padded with
  silence, the newest 200 being kept, exactly as if it had been given as one block of audio.
\<close>

lemma tts_playout:
  assumes "\<not> ao_cancel a" and "\<not> ao_stop a" and "length (ao_frames a) \<le> FRAMES_OUT_MAX"
  shows "ao_frames (snd (stream_tts 200 (map TtsChunk cs) a))
       = last_n FRAMES_OUT_MAX (ao_frames a @ utterance_frames (concat cs))"
  using tts_loop_chunks [OF assms(1,2), of "[]" cs] playout.run_contents [OF assms(3)]
  by (simp add: stream_tts_def)

lemma tts_playout_witness:
  "length (ao_frames (snd (stream_tts 200 (map TtsChunk [replicate 300 1, replicate 30 2]) ao_init))) = 2"
proof -
  have "ao_frames (snd (stream_tts 200 (map TtsChunk [replicate 300 1, replicate 30 2]) ao_init))
      = last_n FRAMES_OUT_MAX (ao_frames ao_init @ utterance_frames (concat [replicate 300 1, replicate 30 2]))"
    by (rule tts_playout) (simp_all add: ao_init_def)
  then show ?thesis
    by (simp add: ao_init_def utterance_frames.simps PCM_FRAME_BYTES_def FRAMES_OUT_MAX_def)
qed

text \<open>
  a barge-in silences the agent: whatever was streamed, queued and played before it, when
  the next chunk of the response arrives the stream ends as cancelled and the playout queue is
  empty, so nothing of the interrupted utterance is heard after the caller cut in.
\<close>

lemma barge_in_silences:
  assumes "TtsFail \<notin> set (es @ es1)" and "TtsStop \<notin> set es" and "\<not> ao_stop a"
    and "sp_audio req = []"
  shows "\<exists>a'. speak_request 200 (es @ TtsBargeIn # es1 @ TtsChunk c # es2) req a = (True, a')
              \<and> ao_frames a' = [] \<and> \<not> ao_speaking a'"
proof -
  obtain a' where "tts_loop [] (es @ TtsBargeIn # es1 @ TtsChunk c # es2)
      (a\<lparr>ao_cancel := False, ao_speaking := True\<rparr>) = (True, a')" "ao_frames a' = []"
    using tts_loop_until_barge_in [OF assms(1,2), of "a\<lparr>ao_cancel := False, ao_speaking := True\<rparr>" "[]" c es2]
      assms(3) by auto
  then show ?thesis using assms(4) by (simp add: speak_request_def stream_tts_def Let_def)
qed

lemma barge_in_silences_witness:
  "\<exists>a'. speak_request 200 ([TtsChunk (replicate 640 1)] @ TtsBargeIn # [TtsPlayed] @ TtsChunk [5] # [])
     \<lparr>sp_text = ''hi'', sp_audio = [], sp_voice_id = None, sp_is_terminal = False,
      sp_request_id = ''r''\<rparr> ao_init = (True, a')
     \<and> ao_frames a' = [] \<and> \<not> ao_speaking a'"
  by (rule barge_in_silences) (simp_all add: ao_init_def)

text \<open>
  The messages of the recogniser reach their consumers: every final, stripped, goes to the
  conversation and every partial to the barge-in monitor, each in order and none to the other,
  and error messages disturb neither.
\<close>

lemma transcripts_dispatched:
  assumes "\<forall>(now, msg, e) \<in> set ms. se_loads env msg = Some (stt_wire e)" and "\<not> ai_stop a"
  shows "(let r = snd (stt_recv_loop env (map (\<lambda>(now, msg, e). (now, msg)) ms) a)
          in (ai_finals r, ai_partials r))
       = (ai_finals a @ finals_of (map (\<lambda>(now, msg, e). (now, e)) ms),
          ai_partials a @ partials_of (map (\<lambda>(now, msg, e). (now, e)) ms))"
  using recv_loop_wire [OF assms] by (simp add: Let_def)

lemma transcripts_dispatched_witness:
  "\<exists>env. ai_finals (snd (stt_recv_loop env [(1, ''p''), (2, ''f'')] ai_init))
     = [\<lparr>fi_text = ''yes'', fi_duration_ms = 40, fi_received_at = 2\<rparr>]"
proof -
  define env where "env = \<lparr>se_loads = (\<lambda>m. Some (stt_wire (if m = ''p'' then SttPartial ''ye'' (1/2)
    else SttFinal '' yes '' 40))), se_float = (\<lambda>_. None), se_int = (\<lambda>_. None), se_repr = (\<lambda>_. [])\<rparr>"
  let ?ms = "[(1 :: rat, ''p'', SttPartial ''ye'' (1/2)), (2, ''f'', SttFinal '' yes '' 40)]"
  have "(let r = snd (stt_recv_loop env (map (\<lambda>(now, msg, e). (now, msg)) ?ms) ai_init)
         in (ai_finals r, ai_partials r))
      = (ai_finals ai_init @ finals_of (map (\<lambda>(now, msg, e). (now, e)) ?ms),
         ai_partials ai_init @ partials_of (map (\<lambda>(now, msg, e). (now, e)) ?ms))"
    by (rule transcripts_dispatched) (simp_all add: env_def ai_init_def)
  then show ?thesis
    by (intro exI [of _ env]) (simp add: Let_def ai_init_def strip_def lstrip_def rstrip_def is_space_def)
qed

end
