(* ===== verification/Humanize.thy ===== *)
theory Humanize
  imports Prelude
begin

text \<open>
  \<open>humanize.py\<close> and \<open>barge_in.py\<close>, the pure decisions that make the agent less robotic, and
  the filler bookkeeping of \<open>conversation.py\<close>. A random draw is an argument: \<open>dr_random\<close> is
  what \<open>rng.random()\<close> returns, \<open>dr_index\<close> the index \<open>rng.choice\<close> and \<open>rng.randint\<close> are
  derived from.
\<close>

section \<open>Draws\<close>

record draw =
  dr_random :: rat
  dr_index :: nat

definition choice :: "draw \<Rightarrow> 'a list \<Rightarrow> 'a" where
  "choice d xs = xs ! (dr_index d mod length xs)"

text \<open>\<open>randint(a, b)\<close>, with None for its \<open>ValueError\<close> on an empty range.\<close>

definition randint :: "draw \<Rightarrow> int \<Rightarrow> int \<Rightarrow> int option" where
  "randint d a b = (if b < a then None else Some (a + int (dr_index d) mod (b - a + 1)))"

section \<open>humanize.py\<close>

definition pick_opener :: "string list \<Rightarrow> draw \<Rightarrow> string" where
  "pick_opener openers d = (if openers = [] then [] else choice d openers)"

definition FILLERS :: "string list" where
  "FILLERS = [''um, '', ''uh, '', ''let me see, '', ''right, so '', ''okay, '', ''well, '']"

definition inject_filler :: "string \<Rightarrow> rat \<Rightarrow> nat \<Rightarrow> nat \<Rightarrow> draw \<Rightarrow> string \<times> bool" where
  "inject_filler text frequency turns_since_last min_gap_turns d =
     (if text = [] \<or> frequency \<le> 0 then (text, False)
      else if length (split_ws text) < 4 then (text, False)
      else if turns_since_last < min_gap_turns then (text, False)
      else if frequency \<le> dr_random d then (text, False)
      else (choice d FILLERS @ text, True))"

definition response_delay_ms :: "int \<Rightarrow> int \<Rightarrow> draw \<Rightarrow> int option" where
  "response_delay_ms min_ms max_ms d =
     (let max1 = (if max_ms < min_ms then min_ms else max_ms);
          min1 = (if min_ms < 0 then 0 else min_ms)
      in randint d min1 max1)"

record backchannel_decision =
  bc_play :: bool
  bc_sound :: string
  bc_reason :: string

definition BACKCHANNELS :: "string list" where
  "BACKCHANNELS = [''mm-hm'', ''right'', ''okay'', ''I see'', ''sure'']"

text \<open>\<open>pow\<close> is the floating-point \<open>**\<close>.\<close>

definition should_backchannel :: "(rat \<Rightarrow> rat \<Rightarrow> rat) \<Rightarrow> rat \<Rightarrow> rat \<Rightarrow> rat \<Rightarrow> draw \<Rightarrow> backchannel_decision" where
  "should_backchannel pow user_speech_duration_ms last_backchannel_ms_ago frequency d =
     (let no = (\<lambda>reason. \<lparr>bc_play = False, bc_sound = [], bc_reason = reason\<rparr>) in
      if frequency \<le> 0 then no ''frequency_zero''
      else if user_speech_duration_ms < 2000 then no ''too_early''
      else if last_backchannel_ms_ago < 4000 then no ''cooldown''
      else
        let p = 1 - pow (1 - frequency) (user_speech_duration_ms / 1000) in
        if p \<le> dr_random d then no ''rng_no''
        else \<lparr>bc_play = True, bc_sound = choice d BACKCHANNELS, bc_reason = ''fired''\<rparr>)"

definition DEFAULT_DISCLOSURE :: string where
  "DEFAULT_DISCLOSURE = ''I'' @ [CHR 0x27] @ ''m an AI assistant calling on behalf of the team. ''
     @ ''I can answer questions, take requests, and connect you to a human if you'' @ [CHR 0x27]
     @ ''d like.''"

section \<open>barge\_in.py\<close>

record barge_decision =
  bd_cancel_tts :: bool
  bd_reason :: string

definition word_count :: "string \<Rightarrow> nat" where
  "word_count text = length (filter (\<lambda>w. strip w \<noteq> []) (split_ws text))"

definition should_barge_in :: "string \<Rightarrow> rat \<Rightarrow> rat \<Rightarrow> bool \<Rightarrow> nat \<Rightarrow> rat \<Rightarrow> rat \<Rightarrow> barge_decision" where
  "should_barge_in partial_text partial_stability partial_duration_ms is_speaking
       min_words min_duration_ms stability_threshold =
     (if \<not> is_speaking then \<lparr>bd_cancel_tts = False, bd_reason = ''agent_silent''\<rparr>
      else if partial_text = [] then \<lparr>bd_cancel_tts = False, bd_reason = ''empty_partial''\<rparr>
      else if partial_stability < stability_threshold
      then \<lparr>bd_cancel_tts = False, bd_reason = ''low_stability''\<rparr>
      else if word_count partial_text < min_words \<and> partial_duration_ms < min_duration_ms
      then \<lparr>bd_cancel_tts = False, bd_reason = ''backchannel_filtered''\<rparr>
      else \<lparr>bd_cancel_tts = True, bd_reason = ''user_interrupting''\<rparr>)"

section \<open>The monitor loop of a call\<close>

text \<open>\<open>_barge_in_loop\<close> of \<open>call_session.py\<close> keeps the time of the first partial of a burst.
  A partial is (text, stability, received at, agent speaking); None is the half-second timeout.
  \<open>if last_partial_at\<close> is a test of a float: zero counts as absent.\<close>

type_synonym partial_in = "string \<times> rat \<times> rat \<times> bool"

record barge_cfg =
  bg_min_words :: nat
  bg_min_duration_ms :: rat
  bg_stability_threshold :: rat

definition opt_time :: "rat option \<Rightarrow> rat option" where
  "opt_time t = (case t of None \<Rightarrow> None | Some x \<Rightarrow> if x = 0 then None else Some x)"

fun barge_in_round :: "barge_cfg \<Rightarrow> partial_in option \<Rightarrow> rat option \<Rightarrow> bool \<times> rat option" where
  "barge_in_round cfg None last_partial_at = (False, None)"
| "barge_in_round cfg (Some (text, stability, rcv, speaking)) last_partial_at =
     (let duration_ms = (case opt_time last_partial_at of None \<Rightarrow> 0 | Some t \<Rightarrow> (rcv - t) * 1000);
          first_at = (case opt_time last_partial_at of None \<Rightarrow> Some rcv | Some t \<Rightarrow> Some t);
          d = should_barge_in text stability duration_ms speaking (bg_min_words cfg)
                (bg_min_duration_ms cfg) (bg_stability_threshold cfg)
      in (bd_cancel_tts d, first_at))"

fun barge_in_run :: "barge_cfg \<Rightarrow> partial_in option list \<Rightarrow> rat option \<Rightarrow> bool list" where
  "barge_in_run cfg [] lp = []"
| "barge_in_run cfg (p # ps) lp =
     (let (cancel, lp1) = barge_in_round cfg p lp in cancel # barge_in_run cfg ps lp1)"

section \<open>The fillers of a conversation\<close>

definition maybe_inject_filler :: "rat \<Rightarrow> string \<Rightarrow> draw \<Rightarrow> nat \<Rightarrow> string \<times> nat" where
  "maybe_inject_filler frequency text d turns_since_filler =
     (let (new_text, did) = inject_filler text frequency turns_since_filler 4 d
      in if did then (new_text, 0) else (new_text, turns_since_filler + 1))"

text \<open>Which turns of a conversation get one.\<close>

fun filler_run :: "rat \<Rightarrow> (string \<times> draw) list \<Rightarrow> nat \<Rightarrow> bool list" where
  "filler_run frequency [] n = []"
| "filler_run frequency ((text, d) # ts) n =
     (snd (inject_filler text frequency n 4 d)
      # filler_run frequency ts (snd (maybe_inject_filler frequency text d n)))"

section \<open>Lemmas\<close>

lemma split_ws_acc_nonspace:
  "\<forall>c \<in> set acc. \<not> is_space c \<Longrightarrow> w \<in> set (split_ws_acc acc s) \<Longrightarrow> \<forall>c \<in> set w. \<not> is_space c"
proof (induction acc s rule: split_ws_acc.induct)
  case (1 acc)
  then show ?case by (cases "acc = []") simp_all
next
  case (2 acc c cs)
  consider "is_space c" "acc = []" | "is_space c" "acc \<noteq> []" | "\<not> is_space c" by blast
  then show ?case
  proof cases
    case 1
    then show ?thesis using "2.IH"(1) "2.prems"(2) by simp
  next
    case c: 2
    then have "w = rev acc \<or> w \<in> set (split_ws_acc [] cs)" using "2.prems"(2) by simp
    then show ?thesis using "2.prems"(1) "2.IH"(2) [OF c] by (elim disjE) simp_all
  next
    case 3
    then show ?thesis using "2.IH"(3) "2.prems" by simp
  qed
qed

text \<open>The \<open>if w.strip()\<close> of the word count filters nothing.\<close>

lemma word_count_split: "word_count text = length (split_ws text)"
proof -
  have "strip w \<noteq> []" if "w \<in> set (split_ws text)" for w
    using that split_ws_acc_nonspace [of "[]" w "text"] split_ws_acc_ne [of w "[]" "text"]
    by (simp add: split_ws_def strip_no_space)
  then have "filter (\<lambda>w. strip w \<noteq> []) (split_ws text) = split_ws text" by simp
  then show ?thesis by (simp add: word_count_def)
qed

lemma barge_in_iff:
  "bd_cancel_tts (should_barge_in text st dur speaking mw md thr)
   = (speaking \<and> text \<noteq> [] \<and> thr \<le> st \<and> (mw \<le> length (split_ws text) \<or> md \<le> dur))"
  by (auto simp: should_barge_in_def word_count_split)

lemma barge_in_run_burst:
  assumes "t \<noteq> 0"
  shows "barge_in_run cfg (map Some ps) (Some t)
    = map (\<lambda>(text, st, rcv, speaking). bd_cancel_tts (should_barge_in text st ((rcv - t) * 1000) speaking
        (bg_min_words cfg) (bg_min_duration_ms cfg) (bg_stability_threshold cfg))) ps"
  using assms by (induction ps) (auto simp: opt_time_def Let_def)

lemma inject_needs_gap: "snd (inject_filler text f n 4 d) \<Longrightarrow> 4 \<le> n"
  by (simp add: inject_filler_def split: if_splits)

lemma maybe_inject_turns:
  "snd (maybe_inject_filler f text d n) = (if snd (inject_filler text f n 4 d) then 0 else n + 1)"
  by (simp add: maybe_inject_filler_def split_beta Let_def)

lemma filler_run_first:
  "j < length ts \<Longrightarrow> filler_run f ts n ! j \<Longrightarrow> 4 \<le> n + j"
proof (induction ts arbitrary: n j)
  case (Cons t ts)
  obtain tx d where t: "t = (tx, d)" by (cases t)
  show ?case
  proof (cases j)
    case 0
    with Cons.prems t show ?thesis by (auto dest: inject_needs_gap)
  next
    case (Suc k)
    let ?n = "snd (maybe_inject_filler f tx d n)"
    have "4 \<le> ?n + k" using Cons.IH [of k ?n] Cons.prems t Suc by simp
    with Suc show ?thesis by (simp add: maybe_inject_turns split: if_splits)
  qed
qed simp

lemma length_filler_run [simp]: "length (filler_run f ts n) = length ts"
  by (induction ts arbitrary: n) auto

section \<open>Properties\<close>

text \<open>
  fillers never crowd: at least four turns without one lie between any two turns of a
  conversation that begin with a filler, whatever the frequency and the draws.
\<close>

lemma fillers_spaced:
  assumes "i < j" and "j < length ts" and "filler_run f ts n ! i" and "filler_run f ts n ! j"
  shows "i + 4 < j"
  using assms
proof (induction ts arbitrary: n i j)
  case Nil
  then show ?case by simp
next
  case (Cons t ts)
  obtain tx d where t: "t = (tx, d)" by (cases t)
  obtain k where k: "j = Suc k" using Cons.prems(1) by (cases j) auto
  let ?n = "snd (maybe_inject_filler f tx d n)"
  show ?case
  proof (cases i)
    case 0
    then have "?n = 0" using Cons.prems(3) t by (simp add: maybe_inject_turns)
    then show ?thesis using filler_run_first [of k ts f ?n] Cons.prems t k 0 by simp
  next
    case (Suc l)
    then show ?thesis using Cons.IH [of l k ?n] Cons.prems t k by simp
  qed
qed

lemma fillers_spaced_witness:
  "filler_run 1 (replicate 6 (''one two three four'', \<lparr>dr_random = 0, dr_index = 1\<rparr>)) 99
     = [True, False, False, False, False, True] \<and> (0 :: nat) + 4 < 5"
proof -
  let ?t = "(''one two three four'', \<lparr>dr_random = 0, dr_index = 1\<rparr>)"
  have len: "length (split_ws ''one two three four'') = 4"
    by (simp add: split_ws_def is_space_def)
  have run: "filler_run 1 (replicate 6 ?t) 99 = [True, False, False, False, False, True]"
    by (simp add: inject_filler_def maybe_inject_turns len eval_nat_numeral)
  moreover have "(0 :: nat) + 4 < 5"
    by (rule fillers_spaced [where f = 1 and n = 99 and ts = "replicate 6 ?t"], unfold run) simp_all
  ultimately show ?thesis by blast
qed

text \<open>
  in a burst of partials with no half-second of silence, a partial interrupts the agent
  exactly when the agent speaks, the partial is stable and not empty, and it has enough words
  or comes long enough after the first of the burst; either gate suffices.
\<close>

lemma barge_in_burst:
  assumes "t0 \<noteq> 0"
  shows "barge_in_run cfg (map Some ((text0, st0, t0, sp0) # ps)) None
    = map (\<lambda>(text, st, rcv, speaking). speaking \<and> text \<noteq> [] \<and> bg_stability_threshold cfg \<le> st \<and>
        (bg_min_words cfg \<le> length (split_ws text) \<or> bg_min_duration_ms cfg \<le> (rcv - t0) * 1000))
        ((text0, st0, t0, sp0) # ps)"
  using assms barge_in_run_burst [OF assms, of cfg ps]
  by (simp add: opt_time_def barge_in_iff Let_def)

lemma barge_in_burst_witness:
  "barge_in_run \<lparr>bg_min_words = 3, bg_min_duration_ms = 800, bg_stability_threshold = 6/10\<rparr>
     (map Some [(''no'', 9/10, 5, True), (''no wait'', 9/10, 6, True)]) None = [False, True]"
  by (subst barge_in_burst) (simp_all add: split_ws_def is_space_def)

end
