(* ===== verification/Tools.thy ===== *)
theory Tools
  imports Prelude
begin

text \<open>
  The tools of the language model: \<open>tools.py\<close> with the HTTP client it calls
  (\<open>vici_client.py\<close>) and the knowledge-base stub (\<open>kb_search.py\<close>). Tool arguments are JSON
  values, as the model sent them. The session manager is \<open>te_http\<close>: the reply to the n-th
  request, given method, path and body.
\<close>

section \<open>The session-manager client\<close>

datatype http_reply = HttpFail | HttpReply int "pyval option"

text \<open>\<open>ts_requests\<close> are the requests sent, \<open>ts_transcript\<close> the events written.\<close>

record tool_state =
  ts_requests :: "(string \<times> string \<times> pyval dict) list"
  ts_transcript :: "(string \<times> pyval dict) list"

record tool_env =
  te_http :: "nat \<Rightarrow> string \<Rightarrow> string \<Rightarrow> pyval dict \<Rightarrow> http_reply"
  te_loads :: "string \<Rightarrow> string + pyval"
  te_repr :: "pyval \<Rightarrow> string"

record vici_client =
  vc_base_url :: string
  vc_enabled :: bool
  vc_open :: bool

definition rstrip_slash :: "string \<Rightarrow> string" where
  "rstrip_slash s = rev (dropWhile (\<lambda>c. c = CHR ''/'') (rev s))"

definition new_vici :: "string \<Rightarrow> bool \<Rightarrow> vici_client" where
  "new_vici base_url enabled =
     \<lparr>vc_base_url = rstrip_slash base_url, vc_enabled = (enabled \<and> base_url \<noteq> []), vc_open = False\<rparr>"

definition vici_enter :: "vici_client \<Rightarrow> vici_client" where
  "vici_enter vc = (if vc_enabled vc then vc\<lparr>vc_open := True\<rparr> else vc)"

definition vici_exit :: "vici_client \<Rightarrow> vici_client" where
  "vici_exit vc = vc\<lparr>vc_open := False\<rparr>"

text \<open>\<open>raise_for_status\<close> lets only 2xx pass.\<close>

definition is_success :: "int \<Rightarrow> bool" where
  "is_success status = (200 \<le> status \<and> status \<le> 299)"

definition http_send :: "tool_env \<Rightarrow> string \<Rightarrow> string \<Rightarrow> pyval dict \<Rightarrow> tool_state \<Rightarrow> http_reply \<times> tool_state" where
  "http_send env meth path body s =
     (te_http env (length (ts_requests s)) meth path body,
      s\<lparr>ts_requests := ts_requests s @ [(meth, path, body)]\<rparr>)"

definition vici_post :: "tool_env \<Rightarrow> string \<Rightarrow> pyval dict \<Rightarrow> vici_client \<Rightarrow> tool_state \<Rightarrow> bool \<times> tool_state" where
  "vici_post env path body vc s =
     (if \<not> vc_enabled vc \<or> \<not> vc_open vc then (True, s)
      else (case http_send env ''POST'' path body s of
              (HttpFail, s1) \<Rightarrow> (False, s1)
            | (HttpReply status _, s1) \<Rightarrow> (is_success status, s1)))"

definition post_disposition :: "tool_env \<Rightarrow> string \<Rightarrow> pyval \<Rightarrow> string \<Rightarrow> pyval \<Rightarrow> vici_client \<Rightarrow> tool_state \<Rightarrow> bool \<times> tool_state" where
  "post_disposition env call_id vici_uniqueid dispo_code notes vc s =
     vici_post env ''/api/vici/disposition''
       [(''call_id'', PStr call_id), (''vici_uniqueid'', vici_uniqueid),
        (''dispo_code'', PStr dispo_code), (''notes'', notes)] vc s"

definition transfer_to_ingroup :: "tool_env \<Rightarrow> string \<Rightarrow> pyval \<Rightarrow> pyval \<Rightarrow> pyval \<Rightarrow> vici_client \<Rightarrow> tool_state \<Rightarrow> bool \<times> tool_state" where
  "transfer_to_ingroup env call_id vici_uniqueid ingroup_id summary vc s =
     vici_post env ''/api/vici/transfer''
       [(''call_id'', PStr call_id), (''vici_uniqueid'', vici_uniqueid),
        (''ingroup_id'', ingroup_id), (''summary'', summary)] vc s"

definition mark_dnc :: "tool_env \<Rightarrow> pyval \<Rightarrow> pyval \<Rightarrow> vici_client \<Rightarrow> tool_state \<Rightarrow> bool \<times> tool_state" where
  "mark_dnc env vici_lead_id reason vc s =
     vici_post env ''/api/vici/dnc''
       [(''vici_lead_id'', vici_lead_id), (''reason'', reason)] vc s"

definition schedule_callback :: "tool_env \<Rightarrow> pyval \<Rightarrow> pyval \<Rightarrow> pyval \<Rightarrow> vici_client \<Rightarrow> tool_state \<Rightarrow> bool \<times> tool_state" where
  "schedule_callback env vici_lead_id when_at notes vc s =
     vici_post env ''/api/vici/callback''
       [(''vici_lead_id'', vici_lead_id), (''when'', when_at), (''notes'', notes)] vc s"

text \<open>\<open>get_lead\<close>. The fields are whatever JSON values the service sent; only \<open>HTTPError\<close> is
  caught, so a reply that is not a JSON object raises (the name of the exception).\<close>

record lead =
  ld_lead_id :: pyval
  ld_name :: pyval
  ld_phone_number :: pyval
  ld_email :: pyval

definition stub_lead :: "pyval \<Rightarrow> lead" where
  "stub_lead lead_id = \<lparr>ld_lead_id = lead_id, ld_name = PStr ''the customer'',
     ld_phone_number = PStr [], ld_email = PStr []\<rparr>"

definition lead_of :: "tool_env \<Rightarrow> pyval \<Rightarrow> pyval dict \<Rightarrow> lead" where
  "lead_of env lead_id data =
     \<lparr>ld_lead_id = PStr (py_str (te_repr env) (dget_or data ''lead_id'' lead_id)),
      ld_name = py_or (py_or (dget_or data ''name'' (PStr [])) (dget_or data ''first_name'' (PStr [])))
                  (PStr ''the customer''),
      ld_phone_number = py_or (dget_or data ''phone_number'' (PStr [])) (PStr []),
      ld_email = py_or (dget_or data ''email'' (PStr [])) (PStr [])\<rparr>"

definition get_lead :: "tool_env \<Rightarrow> pyval \<Rightarrow> vici_client \<Rightarrow> tool_state \<Rightarrow> (string + lead) \<times> tool_state" where
  "get_lead env lead_id vc s =
     (if \<not> truthy lead_id then (Inr (stub_lead (PStr [])), s)
      else if \<not> vc_enabled vc \<or> \<not> vc_open vc then (Inr (stub_lead lead_id), s)
      else (case http_send env ''GET'' (''/api/vici/lead/'' @ py_str (te_repr env) lead_id) [] s of
              (HttpFail, s1) \<Rightarrow> (Inr (stub_lead lead_id), s1)
            | (HttpReply status json, s1) \<Rightarrow>
                if \<not> is_success status then (Inr (stub_lead lead_id), s1)
                else (case json of
                        None \<Rightarrow> (Inl ''JSONDecodeError'', s1)
                      | Some (PDict data) \<Rightarrow> (Inr (lead_of env lead_id data), s1)
                      | Some _ \<Rightarrow> (Inl ''AttributeError'', s1))))"

section \<open>The knowledge base\<close>

text \<open>\<open>KBSearch.search\<close>: a stub with or without a collection.\<close>

definition kb_search :: "string option \<Rightarrow> string \<Rightarrow> string list" where
  "kb_search kb_collection_id query = (if str_or_none kb_collection_id = None then [] else [])"

section \<open>Schemas\<close>

definition tool_schema :: "string \<Rightarrow> string \<Rightarrow> (string \<times> string) list \<Rightarrow> string list \<Rightarrow> pyval" where
  "tool_schema name description properties required =
     PDict [(''type'', PStr ''function''),
       (''function'', PDict
          [(''name'', PStr name), (''description'', PStr description),
           (''parameters'', PDict
              [(''type'', PStr ''object''),
               (''properties'', PDict (map (\<lambda>(p, desc). (p, PDict
                  ((''type'', PStr ''string'') # (if desc = [] then [] else [(''description'', PStr desc)]))))
                  properties)),
               (''required'', PList (map PStr required))])])]"

definition TOOL_SCHEMAS :: "pyval list" where
  "TOOL_SCHEMAS =
    [tool_schema ''search_kb''
       (''Search the knowledge base for product or policy info. '' @
        ''Use this whenever the caller asks something factual you '' @ ''are not 100% sure about.'')
       [(''query'', ''Natural-language question to search for.'')] [''query''],
     tool_schema ''transfer_to_ingroup'' ''Transfer the call to a human-staffed ViciDial in-group.''
       [(''ingroup_id'', []), (''reason'', []), (''summary_for_agent'', ''1-2 sentence handoff summary.'')]
       [''ingroup_id'', ''reason'', ''summary_for_agent''],
     tool_schema ''mark_dnc'' ''Mark this number Do-Not-Call.'' [(''reason'', [])] [''reason''],
     tool_schema ''schedule_callback'' ''Schedule a callback at a specific time.''
       [(''when'', ''ISO 8601 datetime.''), (''notes'', [])] [''when'', ''notes''],
     tool_schema ''dispose_not_interested'' ''End the call with a not-interested disposition.''
       [(''reason'', [])] [''reason''],
     tool_schema ''dispose_qualified'' ''End the call with a qualified-lead disposition.''
       [(''notes'', [])] [''notes''],
     tool_schema ''end_call''
       (''End the call when no other tool fits (e.g. caller hung up '' @
        ''verbally, or the conversation has reached its natural end).'')
       [(''reason'', [])] [''reason'']]"

definition TERMINAL_TOOLS :: "string list" where
  "TERMINAL_TOOLS = [''transfer_to_ingroup'', ''mark_dnc'', ''schedule_callback'',
     ''dispose_not_interested'', ''dispose_qualified'', ''end_call'']"

section \<open>The tools\<close>

record tool_result =
  tr_name :: string
  tr_success :: bool
  tr_is_terminal :: bool
  tr_speak :: string
  tr_feedback :: string
  tr_dispo_code :: string
  tr_extra :: "pyval dict"

record tool_ctx =
  tc_call_id :: string
  tc_deployment_id :: string
  tc_vici_lead_id :: pyval
  tc_vici_uniqueid :: pyval
  tc_vici :: vici_client
  tc_kb :: "string option"
  tc_has_writer :: bool

definition feedback :: "string \<Rightarrow> bool \<Rightarrow> string \<Rightarrow> tool_result" where
  "feedback name success fb = \<lparr>tr_name = name, tr_success = success, tr_is_terminal = False,
     tr_speak = [], tr_feedback = fb, tr_dispo_code = [], tr_extra = []\<rparr>"

definition terminal :: "string \<Rightarrow> string \<Rightarrow> string \<Rightarrow> pyval dict \<Rightarrow> tool_result" where
  "terminal name speak dispo extra = \<lparr>tr_name = name, tr_success = True, tr_is_terminal = True,
     tr_speak = speak, tr_feedback = [], tr_dispo_code = dispo, tr_extra = extra\<rparr>"

text \<open>A tool on its arguments: the type of the exception it raises, or its result.\<close>

type_synonym tool_fn = "tool_env \<Rightarrow> pyval \<Rightarrow> tool_ctx \<Rightarrow> tool_state \<Rightarrow> (string + tool_result) \<times> tool_state"

text \<open>\<open>args.get(...)\<close> on something that is not an object.\<close>

definition on_args :: "pyval \<Rightarrow> tool_state \<Rightarrow> (pyval dict \<Rightarrow> (string + tool_result) \<times> tool_state) \<Rightarrow> (string + tool_result) \<times> tool_state" where
  "on_args args s f = (case args of PDict d \<Rightarrow> f d | _ \<Rightarrow> (Inl ''AttributeError'', s))"

definition apostrophe :: string where "apostrophe = [CHR 0x27]"

definition t_search_kb :: tool_fn where
  "t_search_kb env args ctx s = on_args args s (\<lambda>d.
     case dget_or d ''query'' (PStr []) of
       PStr q \<Rightarrow>
         (let query = strip q in
          if query = [] then (Inr (feedback ''search_kb'' False ''Empty query.''), s)
          else let results = kb_search (tc_kb ctx) query in
            if results = [] then (Inr (feedback ''search_kb'' True ''No results found.''), s)
            else (Inr (feedback ''search_kb'' True
                   (''Top results:'' @ nl @ join nl (map (\<lambda>r. ''- '' @ r) (take 5 results)))), s))
     | _ \<Rightarrow> (Inl ''AttributeError'', s))"

definition t_transfer :: tool_fn where
  "t_transfer env args ctx s = on_args args s (\<lambda>d.
     let ingroup = dget_or d ''ingroup_id'' (PStr []);
         reason = dget_or d ''reason'' (PStr []);
         summary = dget_or d ''summary_for_agent'' (PStr [])
     in if \<not> truthy ingroup
        then (Inr (feedback ''transfer_to_ingroup'' False ''ingroup_id is required.''), s)
        else (case transfer_to_ingroup env (tc_call_id ctx) (tc_vici_uniqueid ctx) ingroup summary (tc_vici ctx) s of
          (False, s1) \<Rightarrow> (Inr (feedback ''transfer_to_ingroup'' False
                             ''Transfer failed; please try a different action.''), s1)
        | (True, s1) \<Rightarrow> (Inr (terminal ''transfer_to_ingroup''
             (''Sure '' @ em_dash @ '' transferring you now, please hold.'') ''XFER''
             [(''ingroup_id'', ingroup), (''reason'', reason), (''summary'', summary)]), s1)))"

definition t_dnc :: tool_fn where
  "t_dnc env args ctx s = on_args args s (\<lambda>d.
     let reason = dget_or d ''reason'' (PStr []);
         (_, s1) = mark_dnc env (tc_vici_lead_id ctx) reason (tc_vici ctx) s
     in (Inr (terminal ''mark_dnc''
           (''Understood '' @ em_dash @ '' I'' @ apostrophe @
            ''ve added you to our do-not-call list. Have a good day.'') ''DNC''
           [(''reason'', reason)]), s1))"

definition t_callback :: tool_fn where
  "t_callback env args ctx s = on_args args s (\<lambda>d.
     let when_at = dget_or d ''when'' (PStr []); notes = dget_or d ''notes'' (PStr [])
     in (case schedule_callback env (tc_vici_lead_id ctx) when_at notes (tc_vici ctx) s of
           (False, s1) \<Rightarrow> (Inr (feedback ''schedule_callback'' False
              (''Couldn'' @ apostrophe @ ''t schedule the callback. Try a different time.'')), s1)
         | (True, s1) \<Rightarrow> (Inr (terminal ''schedule_callback''
              (''Got it '' @ em_dash @ '' I'' @ apostrophe @ ''ve scheduled a callback. Talk to you then.'')
              ''CALLBK'' [(''when'', when_at), (''notes'', notes)]), s1)))"

definition t_dispose_not_interested :: tool_fn where
  "t_dispose_not_interested env args ctx s = on_args args s (\<lambda>d.
     (Inr (terminal ''dispose_not_interested'' ''Thanks for your time. Have a good day.'' ''NI''
        [(''reason'', dget_or d ''reason'' (PStr []))]), s))"

definition t_dispose_qualified :: tool_fn where
  "t_dispose_qualified env args ctx s = on_args args s (\<lambda>d.
     (Inr (terminal ''dispose_qualified''
        (''Wonderful '' @ em_dash @ '' I'' @ apostrophe @ ''ll get this over to the team and they'' @
         apostrophe @ ''ll be in touch shortly.'') ''QUAL''
        [(''notes'', dget_or d ''notes'' (PStr []))]), s))"

definition t_end_call :: tool_fn where
  "t_end_call env args ctx s = on_args args s (\<lambda>d.
     (Inr (terminal ''end_call'' (''Thanks '' @ em_dash @ '' have a good day.'') ''DONE''
        [(''reason'', dget_or d ''reason'' (PStr []))]), s))"

definition DISPATCH :: "(string \<times> tool_fn) list" where
  "DISPATCH = [(''search_kb'', t_search_kb), (''transfer_to_ingroup'', t_transfer),
     (''mark_dnc'', t_dnc), (''schedule_callback'', t_callback),
     (''dispose_not_interested'', t_dispose_not_interested),
     (''dispose_qualified'', t_dispose_qualified), (''end_call'', t_end_call)]"

section \<open>Dispatch\<close>

definition tool_list :: string where
  "tool_list = ''['' @ join '', '' (map (\<lambda>n. apostrophe @ n @ apostrophe)
     [''dispose_not_interested'', ''dispose_qualified'', ''end_call'', ''mark_dnc'',
      ''schedule_callback'', ''search_kb'', ''transfer_to_ingroup'']) @ '']''"

text \<open>\<open>json.loads(raw_args) if raw_args else {}\<close> on a string, \<open>raw_args or {}\<close> otherwise.\<close>

definition parse_args :: "tool_env \<Rightarrow> pyval \<Rightarrow> string + pyval" where
  "parse_args env raw_args =
     (case raw_args of
        PStr s \<Rightarrow> if s = [] then Inr (PDict []) else te_loads env s
      | _ \<Rightarrow> Inr (py_or raw_args (PDict [])))"

definition tool_call_event :: "string \<Rightarrow> pyval \<Rightarrow> tool_result \<Rightarrow> string \<times> pyval dict" where
  "tool_call_event name args r =
     (''tool_call'', [(''name'', PStr name), (''args'', args), (''success'', PBool (tr_success r)),
        (''terminal'', PBool (tr_is_terminal r)), (''extra'', PDict (tr_extra r))])"

definition dispatch :: "tool_env \<Rightarrow> string \<Rightarrow> pyval \<Rightarrow> tool_ctx \<Rightarrow> tool_state \<Rightarrow> tool_result \<times> tool_state" where
  "dispatch env name raw_args ctx s =
     (case map_of DISPATCH name of
        None \<Rightarrow> (feedback name False (''Unknown tool '' @ apostrophe @ name @ apostrophe @
                   ''. Choose from: '' @ tool_list), s)
      | Some fn \<Rightarrow>
          (case parse_args env raw_args of
             Inl err \<Rightarrow> (feedback name False (''Tool args were not valid JSON: '' @ err @ ''.''), s)
           | Inr args \<Rightarrow>
               (case fn env args ctx s of
                  (Inl exn, s1) \<Rightarrow> (feedback name False (''Tool failed internally: '' @ exn @ ''.''), s1)
                | (Inr result, s1) \<Rightarrow>
                    (result, if tc_has_writer ctx
                             then s1\<lparr>ts_transcript := ts_transcript s1 @ [tool_call_event name args result]\<rparr>
                             else s1))))"

section \<open>The contract of a tool\<close>

text \<open>The disposition a terminal tool stands for, and what every result has to satisfy.\<close>

definition DISPOSITIONS :: "string dict" where
  "DISPOSITIONS = [(''transfer_to_ingroup'', ''XFER''), (''mark_dnc'', ''DNC''),
     (''schedule_callback'', ''CALLBK''), (''dispose_not_interested'', ''NI''),
     (''dispose_qualified'', ''QUAL''), (''end_call'', ''DONE'')]"

definition result_ok :: "string \<Rightarrow> tool_result \<Rightarrow> bool" where
  "result_ok name r \<longleftrightarrow>
     tr_name r = name \<and>
     (if tr_is_terminal r
      then name \<in> set TERMINAL_TOOLS \<and> tr_success r \<and> tr_speak r \<noteq> [] \<and>
           map_of DISPOSITIONS name = Some (tr_dispo_code r)
      else tr_speak r = [] \<and> tr_dispo_code r = [] \<and> tr_extra r = [])"

text \<open>A tool of the table keeps this contract, sends at most one request and leaves the
  transcript to the dispatcher.\<close>

locale tool =
  fixes name :: string and run :: tool_fn
  assumes registered: "map_of DISPATCH name = Some run"
    and ok: "fst (run env args ctx s) = Inr r \<Longrightarrow> result_ok name r"
    and transcript: "ts_transcript (snd (run env args ctx s)) = ts_transcript s"
    and one_request: "length (ts_requests (snd (run env args ctx s))) \<le> Suc (length (ts_requests s))"
begin

lemma dispatch_run:
  "dispatch env name raw ctx s =
     (case parse_args env raw of
        Inl err \<Rightarrow> (feedback name False (''Tool args were not valid JSON: '' @ err @ ''.''), s)
      | Inr args \<Rightarrow>
          (case fst (run env args ctx s) of
             Inl exn \<Rightarrow> (feedback name False (''Tool failed internally: '' @ exn @ ''.''),
                         snd (run env args ctx s))
           | Inr r \<Rightarrow> (r, if tc_has_writer ctx
               then (snd (run env args ctx s))\<lparr>ts_transcript :=
                      ts_transcript (snd (run env args ctx s)) @ [tool_call_event name args r]\<rparr>
               else snd (run env args ctx s))))"
  using registered by (auto simp: dispatch_def split: sum.splits prod.splits)

lemma feedback_ok [simp]: "result_ok name (feedback name b fb)"
  by (simp add: result_ok_def feedback_def)

lemma dispatch_ok: "result_ok name (fst (dispatch env name raw ctx s))"
  by (auto simp: dispatch_run intro: ok split: sum.splits)

lemma dispatch_requests:
  "length (ts_requests (snd (dispatch env name raw ctx s))) \<le> Suc (length (ts_requests s))"
  using one_request [of env _ ctx s] by (auto simp: dispatch_run split: sum.splits)

lemma dispatch_transcript:
  "ts_transcript (snd (dispatch env name raw ctx s)) = ts_transcript s \<or>
   (\<exists>args. ts_transcript (snd (dispatch env name raw ctx s))
      = ts_transcript s @ [tool_call_event name args (fst (dispatch env name raw ctx s))])"
  using transcript [of env _ ctx s] by (auto simp: dispatch_run split: sum.splits)

end

lemma vici_post_state:
  "ts_transcript (snd (vici_post env path body vc s)) = ts_transcript s"
  "length (ts_requests (snd (vici_post env path body vc s))) \<le> Suc (length (ts_requests s))"
  by (auto simp: vici_post_def http_send_def split: http_reply.splits)

lemmas tool_simps = on_args_def result_ok_def feedback_def terminal_def TERMINAL_TOOLS_def
  DISPOSITIONS_def Let_def

lemmas tool_splits = pyval.splits prod.splits bool.splits if_splits

lemmas tool_posts = transfer_to_ingroup_def mark_dnc_def schedule_callback_def

interpretation search_kb: tool "''search_kb''" t_search_kb
  by unfold_locales (auto simp: DISPATCH_def t_search_kb_def tool_simps kb_search_def split: tool_splits)

interpretation transfer: tool "''transfer_to_ingroup''" t_transfer
proof
  fix env args ctx s r
  show "map_of DISPATCH ''transfer_to_ingroup'' = Some t_transfer" by (simp add: DISPATCH_def)
  show "fst (t_transfer env args ctx s) = Inr r \<Longrightarrow> result_ok ''transfer_to_ingroup'' r"
    by (auto simp: t_transfer_def tool_simps split: tool_splits)
  show "ts_transcript (snd (t_transfer env args ctx s)) = ts_transcript s"
    by (cases args) (auto simp: t_transfer_def tool_simps tool_posts split_beta vici_post_state
        split: bool.splits)
  show "length (ts_requests (snd (t_transfer env args ctx s))) \<le> Suc (length (ts_requests s))"
    by (cases args) (auto simp: t_transfer_def tool_simps tool_posts split_beta vici_post_state
        split: bool.splits)
qed

interpretation dnc: tool "''mark_dnc''" t_dnc
proof
  fix env args ctx s r
  show "map_of DISPATCH ''mark_dnc'' = Some t_dnc" by (simp add: DISPATCH_def)
  show "fst (t_dnc env args ctx s) = Inr r \<Longrightarrow> result_ok ''mark_dnc'' r"
    by (auto simp: t_dnc_def tool_simps split: tool_splits)
  show "ts_transcript (snd (t_dnc env args ctx s)) = ts_transcript s"
    by (cases args) (auto simp: t_dnc_def tool_simps tool_posts split_beta vici_post_state)
  show "length (ts_requests (snd (t_dnc env args ctx s))) \<le> Suc (length (ts_requests s))"
    by (cases args) (auto simp: t_dnc_def tool_simps tool_posts split_beta vici_post_state)
qed

interpretation callback: tool "''schedule_callback''" t_callback
proof
  fix env args ctx s r
  show "map_of DISPATCH ''schedule_callback'' = Some t_callback" by (simp add: DISPATCH_def)
  show "fst (t_callback env args ctx s) = Inr r \<Longrightarrow> result_ok ''schedule_callback'' r"
    by (auto simp: t_callback_def tool_simps split: tool_splits)
  show "ts_transcript (snd (t_callback env args ctx s)) = ts_transcript s"
    by (cases args) (auto simp: t_callback_def tool_simps tool_posts split_beta vici_post_state
        split: bool.splits)
  show "length (ts_requests (snd (t_callback env args ctx s))) \<le> Suc (length (ts_requests s))"
    by (cases args) (auto simp: t_callback_def tool_simps tool_posts split_beta vici_post_state
        split: bool.splits)
qed

interpretation not_interested: tool "''dispose_not_interested''" t_dispose_not_interested
  by unfold_locales (auto simp: DISPATCH_def t_dispose_not_interested_def tool_simps split: tool_splits)

interpretation lead_qualified: tool "''dispose_qualified''" t_dispose_qualified
  by unfold_locales (auto simp: DISPATCH_def t_dispose_qualified_def tool_simps split: tool_splits)

interpretation hang_up: tool "''end_call''" t_end_call
  by unfold_locales (auto simp: DISPATCH_def t_end_call_def tool_simps split: tool_splits)

text \<open>Every name is a tool of the table or unknown.\<close>

lemma dispatch_unknown:
  assumes "map_of DISPATCH name = None"
  shows "dispatch env name raw ctx s = (feedback name False (''Unknown tool '' @ apostrophe @ name
    @ apostrophe @ ''. Choose from: '' @ tool_list), s)"
  using assms by (simp add: dispatch_def)

lemma dispatch_cases:
  obtains "map_of DISPATCH name = None"
  | "name = ''search_kb''" | "name = ''transfer_to_ingroup''" | "name = ''mark_dnc''"
  | "name = ''schedule_callback''" | "name = ''dispose_not_interested''"
  | "name = ''dispose_qualified''" | "name = ''end_call''"
proof (cases "map_of DISPATCH name")
  case None
  then show thesis by (rule that)
next
  case (Some fn)
  then have "name \<in> fst ` set DISPATCH" by (force dest: map_of_SomeD)
  then have "name = ''search_kb'' \<or> name = ''transfer_to_ingroup'' \<or> name = ''mark_dnc''
      \<or> name = ''schedule_callback'' \<or> name = ''dispose_not_interested''
      \<or> name = ''dispose_qualified'' \<or> name = ''end_call''"
    by (simp only: DISPATCH_def list.set image_insert image_empty fst_conv insert_iff empty_iff simp_thms)
  then show thesis by (elim disjE) (erule that)+
qed

lemma dispatch_result_ok: "result_ok name (fst (dispatch env name raw ctx s))"
proof (cases rule: dispatch_cases [of name])
  case 1
  then show ?thesis by (simp add: dispatch_unknown result_ok_def feedback_def)
qed (simp_all only: search_kb.dispatch_ok transfer.dispatch_ok dnc.dispatch_ok callback.dispatch_ok
    not_interested.dispatch_ok lead_qualified.dispatch_ok hang_up.dispatch_ok)

lemma dispatch_one_request:
  "length (ts_requests (snd (dispatch env name raw ctx s))) \<le> Suc (length (ts_requests s))"
proof (cases rule: dispatch_cases [of name])
  case 1
  then show ?thesis by (simp add: dispatch_unknown)
qed (simp_all only: search_kb.dispatch_requests transfer.dispatch_requests dnc.dispatch_requests
    callback.dispatch_requests not_interested.dispatch_requests lead_qualified.dispatch_requests
    hang_up.dispatch_requests)

lemma dispatch_search_not_terminal:
  "\<not> tr_is_terminal (fst (dispatch env ''search_kb'' raw ctx s))"
  using search_kb.dispatch_ok [of env raw ctx s] by (simp add: result_ok_def TERMINAL_TOOLS_def split: if_splits)

text \<open>The schema of a tool and what it demands.\<close>

definition schema_name :: "pyval \<Rightarrow> pyval" where
  "schema_name t = (case t of PDict d \<Rightarrow>
     (case dget d ''function'' of PDict f \<Rightarrow> dget f ''name'' | _ \<Rightarrow> PNone) | _ \<Rightarrow> PNone)"

definition schema_required :: "pyval \<Rightarrow> pyval list" where
  "schema_required t = (case t of PDict d \<Rightarrow>
     (case dget d ''function'' of PDict f \<Rightarrow>
        (case dget f ''parameters'' of PDict p \<Rightarrow>
           (case dget p ''required'' of PList rs \<Rightarrow> rs | _ \<Rightarrow> []) | _ \<Rightarrow> []) | _ \<Rightarrow> []) | _ \<Rightarrow> [])"

lemma schema_of_tool_schema:
  "schema_name (tool_schema n desc ps rs) = PStr n"
  "schema_required (tool_schema n desc ps rs) = map PStr rs"
  by (simp_all add: schema_name_def schema_required_def tool_schema_def dget_def)

lemma post_accepted:
  assumes "\<forall>n m p b. \<exists>st j. te_http env n m p b = HttpReply st j \<and> is_success st"
  shows "fst (vici_post env path body vc s)"
proof -
  obtain st j where "te_http env (length (ts_requests s)) ''POST'' path body = HttpReply st j" "is_success st"
    using assms by blast
  then show ?thesis by (simp add: vici_post_def http_send_def)
qed

lemma parse_args_object [simp]: "parse_args env (PDict d) = Inr (PDict d)"
  by (simp add: parse_args_def py_or_def)

lemma on_args_object [simp]: "on_args (PDict d) s f = f d"
  by (simp add: on_args_def)

lemma advertised_cases:
  assumes "(PStr name, rs) \<in> (\<lambda>t. (schema_name t, schema_required t)) ` set TOOL_SCHEMAS"
  obtains "name = ''search_kb''" "PStr ''query'' \<in> set rs"
  | "name = ''transfer_to_ingroup''" "PStr ''ingroup_id'' \<in> set rs"
  | "name = ''mark_dnc''" | "name = ''schedule_callback''" | "name = ''dispose_not_interested''"
  | "name = ''dispose_qualified''" | "name = ''end_call''"
proof -
  have eq: "(\<lambda>t. (schema_name t, schema_required t)) ` set TOOL_SCHEMAS = set
      [(PStr ''search_kb'', [PStr ''query'']),
       (PStr ''transfer_to_ingroup'', [PStr ''ingroup_id'', PStr ''reason'', PStr ''summary_for_agent'']),
       (PStr ''mark_dnc'', [PStr ''reason'']), (PStr ''schedule_callback'', [PStr ''when'', PStr ''notes'']),
       (PStr ''dispose_not_interested'', [PStr ''reason'']), (PStr ''dispose_qualified'', [PStr ''notes'']),
       (PStr ''end_call'', [PStr ''reason''])]"
    by (simp only: TOOL_SCHEMAS_def schema_of_tool_schema list.set image_insert image_empty list.map)
  from assms show thesis
    unfolding eq list.set insert_iff prod.inject pyval.inject
  proof (elim disjE conjE)
    assume "name = ''search_kb''" "rs = [PStr ''query'']"
    then show thesis by (intro that(1)) simp_all
  next
    assume "name = ''transfer_to_ingroup''"
      "rs = [PStr ''ingroup_id'', PStr ''reason'', PStr ''summary_for_agent'']"
    then show thesis by (intro that(2)) simp_all
  qed (erule that(3) that(4) that(5) that(6) that(7) emptyE)+
qed

lemma simple_tools:
  "fst (t_search_kb env (PDict d) ctx s) = (case dget_or d ''query'' (PStr []) of
     PStr q \<Rightarrow> Inr (if strip q = [] then feedback ''search_kb'' False ''Empty query.''
                   else feedback ''search_kb'' True ''No results found.'') | _ \<Rightarrow> Inl ''AttributeError'')"
  "\<exists>sp ex. fst (t_dnc env (PDict d) ctx s) = Inr (terminal ''mark_dnc'' sp ''DNC'' ex)"
  "\<exists>sp ex. fst (t_dispose_not_interested env (PDict d) ctx s) = Inr (terminal ''dispose_not_interested'' sp ''NI'' ex)"
  "\<exists>sp ex. fst (t_dispose_qualified env (PDict d) ctx s) = Inr (terminal ''dispose_qualified'' sp ''QUAL'' ex)"
  "\<exists>sp ex. fst (t_end_call env (PDict d) ctx s) = Inr (terminal ''end_call'' sp ''DONE'' ex)"
  by (auto simp: t_search_kb_def t_dnc_def t_dispose_not_interested_def t_dispose_qualified_def
      t_end_call_def kb_search_def Let_def split_beta split: pyval.splits)

lemma posting_tools:
  assumes "\<forall>n m p b. \<exists>st j. te_http env n m p b = HttpReply st j \<and> is_success st"
  shows "truthy (dget_or d ''ingroup_id'' (PStr [])) \<Longrightarrow>
      \<exists>sp ex. fst (t_transfer env (PDict d) ctx s) = Inr (terminal ''transfer_to_ingroup'' sp ''XFER'' ex)"
    and "\<exists>sp ex. fst (t_callback env (PDict d) ctx s) = Inr (terminal ''schedule_callback'' sp ''CALLBK'' ex)"
proof -
  have acc: "\<exists>s1. vici_post env path body vc s = (True, s1)" for path body vc s
    using post_accepted [OF assms, of path body vc s] by (metis prod.collapse)
  show "\<exists>sp ex. fst (t_transfer env (PDict d) ctx s) = Inr (terminal ''transfer_to_ingroup'' sp ''XFER'' ex)"
    if t: "truthy (dget_or d ''ingroup_id'' (PStr []))"
  proof -
    obtain s1 where "transfer_to_ingroup env (tc_call_id ctx) (tc_vici_uniqueid ctx)
      (dget_or d ''ingroup_id'' (PStr [])) (dget_or d ''summary_for_agent'' (PStr [])) (tc_vici ctx) s = (True, s1)"
      using acc unfolding transfer_to_ingroup_def by blast
    with t show ?thesis by (simp add: t_transfer_def Let_def) blast
  qed
  obtain s1 where "schedule_callback env (tc_vici_lead_id ctx) (dget_or d ''when'' (PStr []))
      (dget_or d ''notes'' (PStr [])) (tc_vici ctx) s = (True, s1)"
    using acc unfolding schedule_callback_def by blast
  then show "\<exists>sp ex. fst (t_callback env (PDict d) ctx s) = Inr (terminal ''schedule_callback'' sp ''CALLBK'' ex)"
    by (simp add: t_callback_def Let_def) blast
qed

lemma dispatch_fst:
  assumes "map_of DISPATCH name = Some fn" "fst (fn env (PDict d) ctx s) = Inr r"
  shows "fst (dispatch env name (PDict d) ctx s) = r"
  using assms by (auto simp: dispatch_def split: prod.splits)

section \<open>Properties\<close>

text \<open>
  C24: whatever the model asks for and whatever the services reply, a dispatch ends the call
  only through one of the terminal tools, successfully, with words for the caller and that
  tool's own disposition; every other result says nothing, disposes of nothing and lets the
  conversation go on.
\<close>

theorem dispatch_contract:
  "(let r = fst (dispatch env name raw ctx s) in
    tr_name r = name \<and>
    (if tr_is_terminal r
     then name \<in> set TERMINAL_TOOLS \<and> tr_success r \<and> tr_speak r \<noteq> [] \<and>
          map_of DISPOSITIONS name = Some (tr_dispo_code r)
     else tr_speak r = [] \<and> tr_dispo_code r = [] \<and> tr_extra r = []))"
  unfolding Let_def by (rule dispatch_result_ok [unfolded result_ok_def])

text \<open>
  the model is told the truth about its tools: for every advertised schema, a call with
  every required argument given as non-blank text succeeds when the session manager accepts
  requests, and it ends the call exactly when the tool is listed as terminal.
\<close>

lemma advertised_tools_work:
  assumes "\<forall>n m p b. \<exists>st j. te_http env n m p b = HttpReply st j \<and> is_success st"
    and "\<forall>p. PStr p \<in> set rs \<longrightarrow> (\<exists>v. map_of d p = Some (PStr v) \<and> strip v \<noteq> [])"
    and "(PStr name, rs) \<in> (\<lambda>t. (schema_name t, schema_required t)) ` set TOOL_SCHEMAS"
  shows "tr_success (fst (dispatch env name (PDict d) ctx s)) \<and>
         tr_is_terminal (fst (dispatch env name (PDict d) ctx s)) = (name \<in> set TERMINAL_TOOLS)"
proof -
  have trm: "?thesis" if t: "map_of DISPATCH name = Some fn" "name \<in> set TERMINAL_TOOLS"
    "\<exists>sp ex. fst (fn env (PDict d) ctx s) = Inr (terminal name sp dispo ex)" for fn dispo
  proof -
    obtain sp ex where "fst (fn env (PDict d) ctx s) = Inr (terminal name sp dispo ex)"
      using t(3) by blast
    from dispatch_fst [OF t(1) this] t(2) show ?thesis by (simp add: terminal_def)
  qed
  from assms(3) show ?thesis
  proof (cases rule: advertised_cases)
    case 1
    then obtain v where "map_of d ''query'' = Some (PStr v)" "strip v \<noteq> []" using assms(2) by blast
    then have "fst (t_search_kb env (PDict d) ctx s) = Inr (feedback ''search_kb'' True ''No results found.'')"
      by (simp add: simple_tools(1) dget_or_def)
    from dispatch_fst [OF search_kb.registered this] 1 show ?thesis
      by (simp add: feedback_def TERMINAL_TOOLS_def)
  next
    case 2
    then obtain v where v: "map_of d ''ingroup_id'' = Some (PStr v)" "strip v \<noteq> []"
      using assms(2) by blast
    then have "truthy (dget_or d ''ingroup_id'' (PStr []))"
      by (auto simp: dget_or_def strip_def lstrip_def rstrip_def)
    from posting_tools(1) [OF assms(1) this] 2 transfer.registered show ?thesis
      by (intro trm) (simp_all add: TERMINAL_TOOLS_def)
  next
    case 3
    with simple_tools(2) dnc.registered show ?thesis by (intro trm) (simp_all add: TERMINAL_TOOLS_def)
  next
    case 4
    with posting_tools(2) [OF assms(1)] callback.registered show ?thesis
      by (intro trm) (simp_all add: TERMINAL_TOOLS_def)
  next
    case 5
    with simple_tools(3) not_interested.registered show ?thesis
      by (intro trm) (simp_all add: TERMINAL_TOOLS_def)
  next
    case 6
    with simple_tools(4) lead_qualified.registered show ?thesis
      by (intro trm) (simp_all add: TERMINAL_TOOLS_def)
  next
    case 7
    with simple_tools(5) hang_up.registered show ?thesis
      by (intro trm) (simp_all add: TERMINAL_TOOLS_def)
  qed
qed

definition demo_tool_env :: tool_env where
  "demo_tool_env = \<lparr>te_http = (\<lambda>_ _ _ _. HttpReply 200 (Some (PDict []))),
     te_loads = (\<lambda>_. Inl ''Expecting value''), te_repr = (\<lambda>_. [])\<rparr>"

definition demo_ctx :: tool_ctx where
  "demo_ctx = \<lparr>tc_call_id = ''c'', tc_deployment_id = ''d'', tc_vici_lead_id = PStr ''42'',
     tc_vici_uniqueid = PNone, tc_vici = \<lparr>vc_base_url = ''http://vici'', vc_enabled = True, vc_open = True\<rparr>,
     tc_kb = None, tc_has_writer = True\<rparr>"

lemma advertised_tools_work_witness:
  "tr_is_terminal (fst (dispatch demo_tool_env ''mark_dnc'' (PDict [(''reason'', PStr ''asked'')]) demo_ctx
     \<lparr>ts_requests = [], ts_transcript = []\<rparr>))"
proof -
  have "tr_success (fst (dispatch demo_tool_env ''mark_dnc'' (PDict [(''reason'', PStr ''asked'')]) demo_ctx
      \<lparr>ts_requests = [], ts_transcript = []\<rparr>)) \<and>
    tr_is_terminal (fst (dispatch demo_tool_env ''mark_dnc'' (PDict [(''reason'', PStr ''asked'')]) demo_ctx
      \<lparr>ts_requests = [], ts_transcript = []\<rparr>)) = (''mark_dnc'' \<in> set TERMINAL_TOOLS)"
  proof (rule advertised_tools_work [where rs = "[PStr ''reason'']"])
    show "\<forall>n m p b. \<exists>st j. te_http demo_tool_env n m p b = HttpReply st j \<and> is_success st"
      by (simp add: demo_tool_env_def is_success_def)
  qed (simp_all add: TOOL_SCHEMAS_def schema_of_tool_schema strip_def lstrip_def rstrip_def is_space_def)
  then show ?thesis by (simp add: TERMINAL_TOOLS_def)
qed

end
