(* ===== verification/Conversation.thy ===== *)
theory Conversation
  imports Worker_Audio Humanize Tools
begin

text \<open>
  \<open>conversation.py\<close>: the loop that turns what the caller says into what the agent says and
  does. The chat history is the list of message objects sent to the language model; the model
  itself is \<open>ce_llm\<close>, the reply to the n-th request. What is spoken goes to a queue of at most
  16 requests, what is written to the transcript is in the tool state. An exception that leaves
  a coroutine is its type's name.
\<close>

section \<open>State\<close>

record conv_settings =
  cs_model :: string
  cs_temperature :: rat
  cs_max_tokens :: int
  cs_delay_min :: int
  cs_delay_max :: int
  cs_filler_frequency :: rat
  cs_voice_id :: "string option"
  cs_enable_tools :: bool

datatype llm_reply = LlmTimeout | LlmHttpError | LlmReply int "pyval option"

record conv_env =
  ce_tools :: tool_env
  ce_llm :: "nat \<Rightarrow> pyval dict \<Rightarrow> llm_reply"
  ce_draw :: "nat \<Rightarrow> draw"
  ce_uuid :: "nat \<Rightarrow> string"
  ce_dumps :: "pyval \<Rightarrow> string"

record conv =
  cv_messages :: "pyval dict list"
  cv_turns_since_filler :: nat
  cv_terminal :: "tool_result option"
  cv_speech :: "speech_request list"
  cv_call_ended :: bool
  cv_tools :: tool_state
  cv_llm_calls :: nat
  cv_draws :: nat
  cv_uuids :: nat

definition conv_init :: conv where
  "conv_init = \<lparr>cv_messages = [], cv_turns_since_filler = 99, cv_terminal = None, cv_speech = [],
     cv_call_ended = False, cv_tools = \<lparr>ts_requests = [], ts_transcript = []\<rparr>,
     cv_llm_calls = 0, cv_draws = 0, cv_uuids = 0\<rparr>"

definition SPEECH_QUEUE_MAX :: nat where "SPEECH_QUEUE_MAX = 16"

definition msg :: "string \<Rightarrow> string \<Rightarrow> pyval dict" where
  "msg role content = [(''role'', PStr role), (''content'', PStr content)]"

definition add_message :: "pyval dict \<Rightarrow> conv \<Rightarrow> conv" where
  "add_message m c = c\<lparr>cv_messages := cv_messages c @ [m]\<rparr>"

definition write_event :: "tool_ctx \<Rightarrow> string \<Rightarrow> pyval dict \<Rightarrow> conv \<Rightarrow> conv" where
  "write_event ctx etype payload c =
     (if tc_has_writer ctx
      then c\<lparr>cv_tools := (cv_tools c)\<lparr>ts_transcript := ts_transcript (cv_tools c) @ [(etype, payload)]\<rparr>\<rparr>
      else c)"

section \<open>Speaking\<close>

definition enqueue_speech :: "conv_env \<Rightarrow> conv_settings \<Rightarrow> tool_ctx \<Rightarrow> string \<Rightarrow> bool \<Rightarrow> conv \<Rightarrow> conv" where
  "enqueue_speech env st ctx text is_terminal c =
     (if text = [] then c
      else
        let c1 = write_event ctx ''agent_speech''
              [(''text'', PStr text), (''terminal'', PBool is_terminal)] c;
            c2 = c1\<lparr>cv_uuids := Suc (cv_uuids c1)\<rparr>
        in if length (cv_speech c2) < SPEECH_QUEUE_MAX
           then c2\<lparr>cv_speech := cv_speech c2 @ [\<lparr>sp_text = text, sp_audio = [],
                  sp_voice_id = cs_voice_id st, sp_is_terminal = is_terminal,
                  sp_request_id = ce_uuid env (cv_uuids c1)\<rparr>]\<rparr>
           else c2)"

definition filler_text :: "conv_env \<Rightarrow> conv_settings \<Rightarrow> string \<Rightarrow> conv \<Rightarrow> string \<times> conv" where
  "filler_text env st text c =
     (let (new_text, n) = maybe_inject_filler (cs_filler_frequency st) text
            (ce_draw env (cv_draws c)) (cv_turns_since_filler c)
      in (new_text, c\<lparr>cv_turns_since_filler := n, cv_draws := Suc (cv_draws c)\<rparr>))"

definition set_system_prompt :: "string \<Rightarrow> conv \<Rightarrow> conv" where
  "set_system_prompt prompt c =
     (case cv_messages c of
        m # ms \<Rightarrow> if dget m ''role'' = PStr ''system''
                  then c\<lparr>cv_messages := msg ''system'' prompt # ms\<rparr>
                  else c\<lparr>cv_messages := msg ''system'' prompt # m # ms\<rparr>
      | [] \<Rightarrow> c\<lparr>cv_messages := [msg ''system'' prompt]\<rparr>)"

definition enqueue_opener :: "conv_env \<Rightarrow> conv_settings \<Rightarrow> tool_ctx \<Rightarrow> string \<Rightarrow> conv \<Rightarrow> conv" where
  "enqueue_opener env st ctx text c =
     (if text = [] then c
      else enqueue_speech env st ctx text False (add_message (msg ''assistant'' text) c))"

section \<open>The language model\<close>

definition llm_body :: "conv_settings \<Rightarrow> pyval dict list \<Rightarrow> pyval dict" where
  "llm_body st messages =
     [(''model'', PStr (cs_model st)), (''messages'', PList (map PDict messages)),
      (''temperature'', PFloat (cs_temperature st)), (''max_tokens'', PInt (cs_max_tokens st)),
      (''stream'', PBool False)] @
     (if cs_enable_tools st
      then [(''tools'', PList TOOL_SCHEMAS), (''tool_choice'', PStr ''auto'')] else [])"

text \<open>The outcome of \<open>_call_llm\<close>: content and tool calls, an \<open>_LLMFailure\<close> of some kind, or
  an exception of another type.\<close>

datatype llm_outcome = LlmOk string pyval | LlmFailure string | LlmRaises string

text \<open>\<open>data["choices"][0]["message"]\<close>: KeyError, IndexError and bad JSON are failures, the
  TypeError of subscripting anything else is not caught.\<close>

fun subscript_choices :: "pyval \<Rightarrow> string option + pyval" where
  "subscript_choices (PDict d) =
     (case map_of d ''choices'' of
        None \<Rightarrow> Inl None
      | Some (PList []) \<Rightarrow> Inl None
      | Some (PList (x # xs)) \<Rightarrow> Inr x
      | Some (PDict _) \<Rightarrow> Inl None
      | Some (PStr []) \<Rightarrow> Inl None
      | Some (PStr (ch # cs)) \<Rightarrow> Inr (PStr [ch])
      | Some _ \<Rightarrow> Inl (Some ''TypeError''))"
| "subscript_choices _ = Inl (Some ''TypeError'')"

fun subscript_message :: "pyval \<Rightarrow> string option + pyval" where
  "subscript_message (PDict d) = (case map_of d ''message'' of None \<Rightarrow> Inl None | Some m \<Rightarrow> Inr m)"
| "subscript_message _ = Inl (Some ''TypeError'')"

definition shape_error :: "string option \<Rightarrow> llm_outcome" where
  "shape_error e = (case e of None \<Rightarrow> LlmFailure ''bad_shape'' | Some exn \<Rightarrow> LlmRaises exn)"

definition message_parts :: "pyval \<Rightarrow> llm_outcome" where
  "message_parts m =
     (case m of
        PDict d \<Rightarrow>
          (case py_or (dget d ''content'') (PStr []) of
             PStr s \<Rightarrow> LlmOk (strip s) (py_or (dget d ''tool_calls'') (PList []))
           | _ \<Rightarrow> LlmRaises ''AttributeError'')
      | _ \<Rightarrow> LlmRaises ''AttributeError'')"

definition call_llm :: "conv_env \<Rightarrow> conv_settings \<Rightarrow> conv \<Rightarrow> llm_outcome \<times> conv" where
  "call_llm env st c =
     (let c1 = c\<lparr>cv_llm_calls := Suc (cv_llm_calls c)\<rparr>
      in (case ce_llm env (cv_llm_calls c) (llm_body st (cv_messages c)) of
            LlmTimeout \<Rightarrow> LlmFailure ''timeout''
          | LlmHttpError \<Rightarrow> LlmFailure ''http_error''
          | LlmReply status json \<Rightarrow>
              if status \<noteq> 200 then LlmFailure (''status_'' @ str_int status)
              else (case json of
                      None \<Rightarrow> LlmFailure ''bad_shape''
                    | Some data \<Rightarrow>
                        (case subscript_choices data of
                           Inl e \<Rightarrow> shape_error e
                         | Inr first \<Rightarrow>
                             (case subscript_message first of
                                Inl e \<Rightarrow> shape_error e
                              | Inr m \<Rightarrow> message_parts m))), c1))"

section \<open>Its tool calls\<close>

text \<open>\<open>for tc in tool_calls\<close> over a JSON value; None when it cannot be iterated.\<close>

fun py_iter :: "pyval \<Rightarrow> pyval list option" where
  "py_iter (PList xs) = Some xs"
| "py_iter (PStr s) = Some (map (\<lambda>ch. PStr [ch]) s)"
| "py_iter (PDict d) = Some (map (\<lambda>kv. PStr (fst kv)) d)"
| "py_iter _ = None"

text \<open>Dispatch of a JSON name: a list or object cannot be looked up, any other value that is
  not a string is an unknown tool.\<close>

definition dispatch_name :: "tool_env \<Rightarrow> pyval \<Rightarrow> pyval \<Rightarrow> tool_ctx \<Rightarrow> tool_state \<Rightarrow> (string + tool_result) \<times> tool_state" where
  "dispatch_name env name raw_args ctx s =
     (case name of
        PStr n \<Rightarrow> (let (r, s1) = dispatch env n raw_args ctx s in (Inr r, s1))
      | PList _ \<Rightarrow> (Inl ''TypeError'', s)
      | PDict _ \<Rightarrow> (Inl ''TypeError'', s)
      | v \<Rightarrow> (let n = py_str (te_repr env) v in
          (Inr (feedback n False (''Unknown tool '' @ apostrophe @ n @ apostrophe @
             ''. Choose from: '' @ tool_list)), s)))"

definition tool_message :: "conv_env \<Rightarrow> pyval \<Rightarrow> tool_result \<Rightarrow> pyval dict" where
  "tool_message env tool_call_id r =
     [(''role'', PStr ''tool''), (''tool_call_id'', tool_call_id),
      (''content'', PStr (str_or (tr_feedback r) (ce_dumps env (PDict (tr_extra r)))))]"

text \<open>The follow-up after \<open>search_kb\<close>: False when the handler returns, because the model
  failed; Inl an exception.\<close>

definition follow_up :: "conv_env \<Rightarrow> conv_settings \<Rightarrow> tool_ctx \<Rightarrow> conv \<Rightarrow> (string + bool) \<times> conv" where
  "follow_up env st ctx c =
     (case call_llm env st c of
        (LlmFailure k, c1) \<Rightarrow> (Inr False, c1)
      | (LlmRaises e, c1) \<Rightarrow> (Inl e, c1)
      | (LlmOk content _, c1) \<Rightarrow>
          if content = [] then (Inr True, c1)
          else let (spoken, c2) = filler_text env st content c1
               in (Inr True, enqueue_speech env st ctx spoken False
                     (add_message (msg ''assistant'' content) c2)))"

text \<open>One round of the loop over the tool calls: it goes on, the handler returns, or an
  exception leaves it.\<close>

datatype one_outcome = OneNext | OneStop | OneRaise string

definition tool_one :: "conv_env \<Rightarrow> conv_settings \<Rightarrow> tool_ctx \<Rightarrow> pyval \<Rightarrow> conv \<Rightarrow> one_outcome \<times> conv" where
  "tool_one env st ctx tc c =
     (case tc of
        PDict d \<Rightarrow>
          (case py_or (dget_or d ''function'' (PDict [])) (PDict []) of
             PDict fn \<Rightarrow>
               (let name = dget_or fn ''name'' (PStr []);
                    raw_args = dget_or fn ''arguments'' (PStr ''{}'');
                    tool_call_id = dget_or d ''id'' (PStr (ce_uuid env (cv_uuids c)));
                    c1 = c\<lparr>cv_uuids := Suc (cv_uuids c)\<rparr>
                in case dispatch_name (ce_tools env) name raw_args ctx (cv_tools c1) of
                     (Inl exn, ts) \<Rightarrow> (OneRaise exn, c1\<lparr>cv_tools := ts\<rparr>)
                   | (Inr r, ts) \<Rightarrow>
                       let c2 = add_message (tool_message env tool_call_id r) (c1\<lparr>cv_tools := ts\<rparr>)
                       in if tr_is_terminal r then
                            (OneStop, let c3 = c2\<lparr>cv_terminal := Some r\<rparr> in
                               if tr_speak r \<noteq> [] then enqueue_speech env st ctx (tr_speak r) True c3 else c3)
                          else if name = PStr ''search_kb'' then
                            (case follow_up env st ctx c2 of
                               (Inl exn, c3) \<Rightarrow> (OneRaise exn, c3)
                             | (Inr False, c3) \<Rightarrow> (OneStop, c3)
                             | (Inr True, c3) \<Rightarrow> (OneNext, c3))
                          else (OneNext, c2))
           | _ \<Rightarrow> (OneRaise ''AttributeError'', c))
      | _ \<Rightarrow> (OneRaise ''AttributeError'', c))"

fun tool_loop :: "conv_env \<Rightarrow> conv_settings \<Rightarrow> tool_ctx \<Rightarrow> pyval list \<Rightarrow> conv \<Rightarrow> string option \<times> conv" where
  "tool_loop env st ctx [] c = (None, c)"
| "tool_loop env st ctx (tc # tcs) c =
     (case tool_one env st ctx tc c of
        (OneRaise exn, c1) \<Rightarrow> (Some exn, c1)
      | (OneStop, c1) \<Rightarrow> (None, c1)
      | (OneNext, c1) \<Rightarrow> tool_loop env st ctx tcs c1)"

definition handle_llm_response :: "conv_env \<Rightarrow> conv_settings \<Rightarrow> tool_ctx \<Rightarrow> string \<Rightarrow> pyval \<Rightarrow> conv \<Rightarrow> string option \<times> conv" where
  "handle_llm_response env st ctx content tool_calls c =
     (let c1 = (if content \<noteq> [] then
                  let (spoken, c') = filler_text env st content c
                  in enqueue_speech env st ctx spoken False (add_message (msg ''assistant'' content) c')
                else c)
      in if \<not> truthy tool_calls then (None, c1)
         else
           let c2 = add_message [(''role'', PStr ''assistant''),
                 (''content'', if content = [] then PNone else PStr content),
                 (''tool_calls'', tool_calls)] c1
           in (case py_iter tool_calls of
                 None \<Rightarrow> (Some ''TypeError'', c2)
               | Some tcs \<Rightarrow> tool_loop env st ctx tcs c2))"

section \<open>The loop\<close>

definition FALLBACK_APOLOGY :: string where
  "FALLBACK_APOLOGY = ''Sorry, I'' @ apostrophe @ ''m having trouble on my end. '' @
     ''Let me transfer you to a human '' @ em_dash @ '' please hold.''"

definition error_result :: tool_result where
  "error_result = \<lparr>tr_name = ''end_call'', tr_success = False, tr_is_terminal = True,
     tr_speak = FALLBACK_APOLOGY, tr_feedback = [], tr_dispo_code = ''ERROR_AI'', tr_extra = []\<rparr>"

text \<open>\<open>_await_speech_drain\<close>: up to 60 polls; \<open>takes\<close> is how many requests the playout task
  takes between the polls.\<close>

fun await_speech_drain :: "nat \<Rightarrow> nat list \<Rightarrow> speech_request list \<Rightarrow> speech_request list" where
  "await_speech_drain 0 takes q = q"
| "await_speech_drain (Suc n) takes q =
     (if q = [] then q
      else (case takes of [] \<Rightarrow> await_speech_drain n [] q
                        | k # ks \<Rightarrow> await_speech_drain n ks (drop k q)))"

text \<open>A turn ends with the loop going on, with a terminal result and its speech to be waited for,
  with the loop returning, or with an exception.\<close>

datatype turn_outcome = TurnNext | TurnDrain | TurnReturn | TurnRaise string

definition llm_failed :: "conv_env \<Rightarrow> conv_settings \<Rightarrow> tool_ctx \<Rightarrow> conv \<Rightarrow> conv" where
  "llm_failed env st ctx c =
     (enqueue_speech env st ctx FALLBACK_APOLOGY True c)
       \<lparr>cv_terminal := Some error_result, cv_call_ended := True\<rparr>"

definition after_response :: "string option \<times> conv \<Rightarrow> turn_outcome \<times> conv" where
  "after_response rc =
     (case rc of
        (Some exn, c) \<Rightarrow> (TurnRaise exn, c)
      | (None, c) \<Rightarrow> if cv_terminal c \<noteq> None then (TurnDrain, c) else (TurnNext, c))"

definition turn_core :: "conv_env \<Rightarrow> conv_settings \<Rightarrow> tool_ctx \<Rightarrow> stt_final \<Rightarrow> conv \<Rightarrow> turn_outcome \<times> conv" where
  "turn_core env st ctx final c =
     (if fi_text final = [] then (TurnNext, c)
      else
        let c1 = write_event ctx ''user_speech''
              [(''text'', PStr (fi_text final)), (''duration_ms'', PInt (fi_duration_ms final))] c;
            c2 = add_message (msg ''user'' (fi_text final)) c1
        in case response_delay_ms (cs_delay_min st) (cs_delay_max st) (ce_draw env (cv_draws c2)) of
             None \<Rightarrow> (TurnRaise ''ValueError'', c2\<lparr>cv_draws := Suc (cv_draws c2)\<rparr>)
           | Some delay \<Rightarrow>
               (case call_llm env st (c2\<lparr>cv_draws := Suc (cv_draws c2)\<rparr>) of
                  (LlmFailure k, c3) \<Rightarrow> (TurnReturn, llm_failed env st ctx c3)
                | (LlmRaises exn, c3) \<Rightarrow> (TurnRaise exn, c3)
                | (LlmOk content tool_calls, c3) \<Rightarrow>
                    after_response (handle_llm_response env st ctx content tool_calls c3)))"

definition conv_turn :: "conv_env \<Rightarrow> conv_settings \<Rightarrow> tool_ctx \<Rightarrow> nat list \<Rightarrow> stt_final \<Rightarrow> conv \<Rightarrow> turn_outcome \<times> conv" where
  "conv_turn env st ctx takes final c =
     (case turn_core env st ctx final c of
        (TurnDrain, c1) \<Rightarrow>
          (TurnReturn, c1\<lparr>cv_speech := await_speech_drain 60 takes (cv_speech c1), cv_call_ended := True\<rparr>)
      | r \<Rightarrow> r)"

text \<open>\<open>run\<close> over what happens: a final transcript (with the requests taken while a terminal
  turn drains), or the playout task taking a request while the loop waits.\<close>

datatype conv_event = UserFinal stt_final "nat list" | SpeechTaken

fun conv_run :: "conv_env \<Rightarrow> conv_settings \<Rightarrow> tool_ctx \<Rightarrow> conv_event list \<Rightarrow> conv \<Rightarrow> turn_outcome \<times> conv" where
  "conv_run env st ctx [] c = (TurnNext, c)"
| "conv_run env st ctx (SpeechTaken # es) c =
     conv_run env st ctx es (c\<lparr>cv_speech := tl (cv_speech c)\<rparr>)"
| "conv_run env st ctx (UserFinal f takes # es) c =
     (case conv_turn env st ctx takes f c of
        (TurnNext, c1) \<Rightarrow> conv_run env st ctx es c1
      | (out, c1) \<Rightarrow> (out, c1))"

fun heard :: "conv_event list \<Rightarrow> string list" where
  "heard [] = []"
| "heard (SpeechTaken # es) = heard es"
| "heard (UserFinal f t # es) = (if fi_text f = [] then heard es else fi_text f # heard es)"

text \<open>What the history says the user said.\<close>

definition user_texts :: "pyval dict list \<Rightarrow> pyval list" where
  "user_texts ms = map (\<lambda>m. dget m ''content'') (filter (\<lambda>m. dget m ''role'' = PStr ''user'') ms)"

section \<open>Lemmas\<close>

lemma write_event_simps [simp]:
  "cv_messages (write_event ctx t p c) = cv_messages c"
  "cv_terminal (write_event ctx t p c) = cv_terminal c"
  "cv_call_ended (write_event ctx t p c) = cv_call_ended c"
  "cv_speech (write_event ctx t p c) = cv_speech c"
  by (simp_all add: write_event_def)

lemma enqueue_speech_simps [simp]:
  "cv_messages (enqueue_speech env st ctx x b c) = cv_messages c"
  "cv_terminal (enqueue_speech env st ctx x b c) = cv_terminal c"
  "cv_call_ended (enqueue_speech env st ctx x b c) = cv_call_ended c"
  by (simp_all add: enqueue_speech_def Let_def)

lemma enqueue_speech_bounded:
  "length (cv_speech c) \<le> SPEECH_QUEUE_MAX \<Longrightarrow>
   length (cv_speech (enqueue_speech env st ctx x b c)) \<le> SPEECH_QUEUE_MAX"
  by (simp add: enqueue_speech_def Let_def)

lemma filler_text_simps [simp]:
  "cv_messages (snd (filler_text env st x c)) = cv_messages c"
  "cv_terminal (snd (filler_text env st x c)) = cv_terminal c"
  "cv_call_ended (snd (filler_text env st x c)) = cv_call_ended c"
  "cv_speech (snd (filler_text env st x c)) = cv_speech c"
  by (simp_all add: filler_text_def split_beta Let_def)

lemma call_llm_simps [simp]:
  "cv_messages (snd (call_llm env st c)) = cv_messages c"
  "cv_terminal (snd (call_llm env st c)) = cv_terminal c"
  "cv_call_ended (snd (call_llm env st c)) = cv_call_ended c"
  "cv_speech (snd (call_llm env st c)) = cv_speech c"
  by (simp_all add: call_llm_def Let_def)

lemma add_message_simps [simp]:
  "cv_messages (add_message m c) = cv_messages c @ [m]"
  "cv_terminal (add_message m c) = cv_terminal c"
  "cv_call_ended (add_message m c) = cv_call_ended c"
  "cv_speech (add_message m c) = cv_speech c"
  by (simp_all add: add_message_def)

lemma user_texts_simps [simp]:
  "user_texts [] = []"
  "user_texts (ms @ ms') = user_texts ms @ user_texts ms'"
  "user_texts [msg ''user'' x] = [PStr x]"
  "user_texts [msg ''assistant'' x] = []"
  "user_texts [msg ''system'' x] = []"
  "user_texts [tool_message env i r] = []"
  "user_texts [[(''role'', PStr ''assistant''), (''content'', y), (''tool_calls'', z)]] = []"
  by (simp_all add: user_texts_def msg_def tool_message_def dget_def)

text \<open>What every step of a turn does to the state, as one relation that composes: the user
  messages and the end flag stay, a terminal result is only ever set to a well-formed one.\<close>

definition terminal_ok :: "tool_result option \<Rightarrow> bool" where
  "terminal_ok t = (case t of None \<Rightarrow> True | Some r \<Rightarrow> tr_is_terminal r \<and> result_ok (tr_name r) r)"

definition keeps_turn :: "conv \<Rightarrow> conv \<Rightarrow> bool" where
  "keeps_turn c c' \<longleftrightarrow>
     user_texts (cv_messages c') = user_texts (cv_messages c) \<and>
     cv_call_ended c' = cv_call_ended c \<and>
     (terminal_ok (cv_terminal c) \<longrightarrow> terminal_ok (cv_terminal c'))"

lemma keeps_turn_refl [simp]: "keeps_turn c c"
  by (simp add: keeps_turn_def)

lemma keeps_turn_trans: "keeps_turn a b \<Longrightarrow> keeps_turn b c \<Longrightarrow> keeps_turn a c"
  by (simp add: keeps_turn_def)

lemma dispatch_name_ok:
  assumes "dispatch_name te name raw ctx s = (Inr r, s')" "tr_is_terminal r"
  shows "result_ok (tr_name r) r"
proof (cases name)
  case (PStr n)
  then have "r = fst (dispatch te n raw ctx s)" using assms(1) by (auto simp: dispatch_name_def split: prod.splits)
  with dispatch_result_ok [of n te raw ctx s] show ?thesis by (simp add: result_ok_def)
qed (use assms in \<open>auto simp: dispatch_name_def feedback_def Let_def\<close>)

lemma follow_up_state:
  "user_texts (cv_messages (snd (follow_up env st ctx c))) = user_texts (cv_messages c)"
  "cv_call_ended (snd (follow_up env st ctx c)) = cv_call_ended c"
  "cv_terminal (snd (follow_up env st ctx c)) = cv_terminal c"
proof -
  obtain out c1 where c1: "call_llm env st c = (out, c1)" by (cases "call_llm env st c")
  then have "cv_messages c1 = cv_messages c" "cv_call_ended c1 = cv_call_ended c" "cv_terminal c1 = cv_terminal c"
    using call_llm_simps [of env st c] by simp_all
  with c1 show "user_texts (cv_messages (snd (follow_up env st ctx c))) = user_texts (cv_messages c)"
    "cv_call_ended (snd (follow_up env st ctx c)) = cv_call_ended c"
    "cv_terminal (snd (follow_up env st ctx c)) = cv_terminal c"
    by (cases out; simp add: follow_up_def split_beta Let_def)+
qed

text \<open>The shape of a round: the exceptions, and the result of a dispatch.\<close>

lemma tool_one_cases:
  obtains (raise) exn c' where "tool_one env st ctx tc c = (OneRaise exn, c')"
      "user_texts (cv_messages c') = user_texts (cv_messages c)"
      "cv_call_ended c' = cv_call_ended c" "cv_terminal c' = cv_terminal c"
  | (stop) r c' where "tool_one env st ctx tc c = (OneStop, c')"
      "user_texts (cv_messages c') = user_texts (cv_messages c)"
      "cv_call_ended c' = cv_call_ended c" "cv_terminal c' = Some r"
      "tr_is_terminal r" "result_ok (tr_name r) r"
  | (pass) out c' where "tool_one env st ctx tc c = (out, c')" "out = OneNext \<or> out = OneStop"
      "user_texts (cv_messages c') = user_texts (cv_messages c)"
      "cv_call_ended c' = cv_call_ended c" "cv_terminal c' = cv_terminal c"
proof (cases "\<exists>d fn. tc = PDict d \<and> py_or (dget_or d ''function'' (PDict [])) (PDict []) = PDict fn")
  case False
  then have "tool_one env st ctx tc c = (OneRaise ''AttributeError'', c)"
    by (auto simp: tool_one_def split: pyval.splits)
  then show thesis by (rule raise) simp_all
next
  case True
  then obtain d fn where tc: "tc = PDict d"
    "py_or (dget_or d ''function'' (PDict [])) (PDict []) = PDict fn" by blast
  let ?name = "dget_or fn ''name'' (PStr [])"
  let ?c1 = "c\<lparr>cv_uuids := Suc (cv_uuids c)\<rparr>"
  obtain res ts where dis: "dispatch_name (ce_tools env) ?name (dget_or fn ''arguments'' (PStr ''{}''))
      ctx (cv_tools ?c1) = (res, ts)" by (cases "dispatch_name (ce_tools env) ?name
      (dget_or fn ''arguments'' (PStr ''{}'')) ctx (cv_tools ?c1)")
  show thesis
  proof (cases res)
    case (Inl exn)
    with tc dis have "tool_one env st ctx tc c = (OneRaise exn, ?c1\<lparr>cv_tools := ts\<rparr>)"
      by (simp add: tool_one_def Let_def)
    then show thesis by (rule raise) simp_all
  next
    case (Inr r)
    define c2 where "c2 = add_message (tool_message env (dget_or d ''id'' (PStr (ce_uuid env (cv_uuids c)))) r)
      (?c1\<lparr>cv_tools := ts\<rparr>)"
    have c2: "user_texts (cv_messages c2) = user_texts (cv_messages c)"
      "cv_call_ended c2 = cv_call_ended c" "cv_terminal c2 = cv_terminal c" by (simp_all add: c2_def)
    show thesis
    proof (cases "tr_is_terminal r")
      case t: True
      have ok: "result_ok (tr_name r) r" using dispatch_name_ok [OF dis [unfolded Inr] t] .
      from t tc dis Inr have "tool_one env st ctx tc c = (OneStop, let c3 = c2\<lparr>cv_terminal := Some r\<rparr> in
          if tr_speak r \<noteq> [] then enqueue_speech env st ctx (tr_speak r) True c3 else c3)"
        by (simp add: tool_one_def Let_def c2_def)
      then show thesis by (rule stop [where r = r]) (simp_all add: c2 t ok Let_def)
    next
      case f: False
      show thesis
      proof (cases "?name = PStr ''search_kb''")
        case True
        obtain fo c3 where fo: "follow_up env st ctx c2 = (fo, c3)" by (cases "follow_up env st ctx c2")
        with follow_up_state [of env st ctx c2] c2
        have c3: "user_texts (cv_messages c3) = user_texts (cv_messages c)"
          "cv_call_ended c3 = cv_call_ended c" "cv_terminal c3 = cv_terminal c" by simp_all
        have one: "tool_one env st ctx tc c = (case fo of Inl exn \<Rightarrow> (OneRaise exn, c3)
            | Inr go \<Rightarrow> (if go then OneNext else OneStop, c3))"
          using tc dis Inr f True fo
          by (simp add: tool_one_def Let_def c2_def split: sum.splits bool.splits)
        show thesis
        proof (cases fo)
          case (Inl exn)
          with one have "tool_one env st ctx tc c = (OneRaise exn, c3)" by simp
          then show thesis using c3 by (rule raise)
        next
          case (Inr go)
          with one have "tool_one env st ctx tc c = (if go then OneNext else OneStop, c3)" by simp
          moreover have "(if go then OneNext else OneStop) = OneNext \<or>
              (if go then OneNext else OneStop) = OneStop" by (cases go) simp_all
          ultimately show thesis by (rule pass [OF _ _ c3])
        qed
      next
        case n: False
        with tc dis Inr f have "tool_one env st ctx tc c = (OneNext, c2)"
          by (simp add: tool_one_def Let_def c2_def)
        then show thesis by (rule pass [OF _ disjI1 [OF refl] c2])
      qed
    qed
  qed
qed

lemma tool_loop_keeps: "keeps_turn c (snd (tool_loop env st ctx tcs c))"
proof (induction tcs arbitrary: c)
  case (Cons tc tcs)
  show ?case
  proof (cases rule: tool_one_cases [of env st ctx tc c])
    case (pass out c')
    then have "keeps_turn c c'" by (simp add: keeps_turn_def)
    with pass Cons.IH [of c'] show ?thesis by (auto intro: keeps_turn_trans)
  qed (simp_all add: keeps_turn_def terminal_ok_def)
qed simp

text \<open>While no terminal tool fired, the handlers leave the terminal result alone; once one did,
  the loop has stopped.\<close>

lemma tool_loop_stops:
  assumes "cv_terminal c = None" "cv_terminal (snd (tool_loop env st ctx xs c)) \<noteq> None"
  shows "tool_loop env st ctx (xs @ ys) c = tool_loop env st ctx xs c"
  using assms
proof (induction xs arbitrary: c)
  case (Cons tc tcs)
  show ?case
  proof (cases rule: tool_one_cases [of env st ctx tc c])
    case (pass out c')
    with Cons.prems Cons.IH [of c'] show ?thesis by auto
  qed simp_all
qed simp

lemma handle_keeps: "keeps_turn c (snd (handle_llm_response env st ctx content tcs c))"
proof -
  define c1 where "c1 = (if content \<noteq> [] then
      let (spoken, c') = filler_text env st content c
      in enqueue_speech env st ctx spoken False (add_message (msg ''assistant'' content) c') else c)"
  have c1: "keeps_turn c c1" by (simp add: c1_def keeps_turn_def split_beta Let_def)
  define c2 where "c2 = add_message [(''role'', PStr ''assistant''),
     (''content'', if content = [] then PNone else PStr content), (''tool_calls'', tcs)] c1"
  have c2: "keeps_turn c1 c2" by (simp add: c2_def keeps_turn_def)
  have eq: "handle_llm_response env st ctx content tcs c = (if \<not> truthy tcs then (None, c1)
      else case py_iter tcs of None \<Rightarrow> (Some ''TypeError'', c2) | Some xs \<Rightarrow> tool_loop env st ctx xs c2)"
    by (simp only: handle_llm_response_def Let_def c1_def c2_def)
  show ?thesis
    unfolding eq using c1 c2 tool_loop_keeps [of c2 env st ctx]
    by (auto split: option.splits intro: keeps_turn_trans)
qed

section \<open>A whole run\<close>

lemma turn_core_user:
  "user_texts (cv_messages (snd (turn_core env st ctx f c)))
   = user_texts (cv_messages c) @ (if fi_text f = [] then [] else [PStr (fi_text f)])"
proof (cases "fi_text f = []")
  case True
  then show ?thesis by (simp add: turn_core_def)
next
  case False
  define c2 where "c2 = add_message (msg ''user'' (fi_text f)) (write_event ctx ''user_speech''
     [(''text'', PStr (fi_text f)), (''duration_ms'', PInt (fi_duration_ms f))] c)"
  have u2: "user_texts (cv_messages c2) = user_texts (cv_messages c) @ [PStr (fi_text f)]"
    by (simp add: c2_def)
  let ?d = "c2\<lparr>cv_draws := Suc (cv_draws c2)\<rparr>"
  obtain out c3 where llm: "call_llm env st ?d = (out, c3)" by (cases "call_llm env st ?d")
  with call_llm_simps(1) [of env st ?d] have c3: "cv_messages c3 = cv_messages c2" by simp
  have handle: "user_texts (cv_messages (snd (after_response (handle_llm_response env st ctx x y c3))))
      = user_texts (cv_messages c3)" for x y
    using handle_keeps [of c3 env st ctx x y]
    by (auto simp: after_response_def keeps_turn_def split: prod.splits option.splits)
  show ?thesis
    using False u2 c3 llm handle
    by (cases "response_delay_ms (cs_delay_min st) (cs_delay_max st) (ce_draw env (cv_draws c2))"; cases out)
      (simp_all add: turn_core_def Let_def c2_def [symmetric] llm_failed_def)
qed

lemma conv_turn_user:
  "user_texts (cv_messages (snd (conv_turn env st ctx takes f c)))
   = user_texts (cv_messages c) @ (if fi_text f = [] then [] else [PStr (fi_text f)])"
  using turn_core_user [of env st ctx f c]
  by (cases "turn_core env st ctx f c") (auto simp: conv_turn_def split: turn_outcome.splits)

lemma conv_run_user:
  assumes "conv_run env st ctx es c = (TurnNext, c')"
  shows "user_texts (cv_messages c') = user_texts (cv_messages c) @ map PStr (heard es)"
  using assms
proof (induction env st ctx es c rule: conv_run.induct)
  case (3 env st ctx f takes es c)
  obtain out c1 where turn: "conv_turn env st ctx takes f c = (out, c1)"
    by (cases "conv_turn env st ctx takes f c")
  with 3 have "out = TurnNext" by (auto split: turn_outcome.splits)
  with 3 turn conv_turn_user [of env st ctx takes f c] show ?case by simp
qed simp_all

text \<open>How a turn ends: with the history going on and no terminal result, with the call ended on a
  well-formed result or the error result, or with an exception and the call not ended.\<close>

definition ends_ok :: "turn_outcome \<Rightarrow> conv \<Rightarrow> bool" where
  "ends_ok out c \<longleftrightarrow>
     (case out of
        TurnNext \<Rightarrow> cv_terminal c = None \<and> \<not> cv_call_ended c
      | TurnDrain \<Rightarrow> \<not> cv_call_ended c \<and>
          (\<exists>r. cv_terminal c = Some r \<and> tr_is_terminal r \<and> result_ok (tr_name r) r)
      | TurnReturn \<Rightarrow> cv_call_ended c \<and>
          (\<exists>r. cv_terminal c = Some r \<and> tr_is_terminal r \<and> (r = error_result \<or> result_ok (tr_name r) r))
      | TurnRaise exn \<Rightarrow> \<not> cv_call_ended c \<and> terminal_ok (cv_terminal c))"

lemma turn_core_ends:
  assumes "cv_terminal c = None" "\<not> cv_call_ended c"
  shows "ends_ok (fst (turn_core env st ctx f c)) (snd (turn_core env st ctx f c))"
proof (cases "fi_text f = []")
  case True
  then show ?thesis using assms by (simp add: turn_core_def ends_ok_def)
next
  case False
  define c2 where "c2 = add_message (msg ''user'' (fi_text f)) (write_event ctx ''user_speech''
     [(''text'', PStr (fi_text f)), (''duration_ms'', PInt (fi_duration_ms f))] c)"
  let ?d = "c2\<lparr>cv_draws := Suc (cv_draws c2)\<rparr>"
  obtain out c3 where llm: "call_llm env st ?d = (out, c3)" by (cases "call_llm env st ?d")
  have c2e: "cv_terminal c2 = None" "\<not> cv_call_ended c2" using assms by (simp_all add: c2_def)
  with llm call_llm_simps [of env st ?d] have c3: "cv_terminal c3 = None" "\<not> cv_call_ended c3"
    by simp_all
  have handle: "ends_ok (fst (after_response (handle_llm_response env st ctx x y c3)))
      (snd (after_response (handle_llm_response env st ctx x y c3)))" for x y
  proof -
    obtain exn c4 where h: "handle_llm_response env st ctx x y c3 = (exn, c4)"
      by (cases "handle_llm_response env st ctx x y c3")
    with handle_keeps [of c3 env st ctx x y] c3
    have c4: "\<not> cv_call_ended c4" "terminal_ok (cv_terminal c4)"
      by (simp_all add: keeps_turn_def terminal_ok_def)
    show ?thesis
      unfolding h using c4
      by (cases exn; cases "cv_terminal c4") (simp_all add: after_response_def ends_ok_def terminal_ok_def)
  qed
  show ?thesis
    using False llm handle c3 c2e
    by (cases "response_delay_ms (cs_delay_min st) (cs_delay_max st) (ce_draw env (cv_draws c2))"; cases out)
      (simp_all add: turn_core_def Let_def c2_def [symmetric] llm_failed_def ends_ok_def error_result_def terminal_ok_def)
qed

lemma conv_turn_ends:
  assumes "cv_terminal c = None" "\<not> cv_call_ended c"
  shows "ends_ok (fst (conv_turn env st ctx takes f c)) (snd (conv_turn env st ctx takes f c)) \<and>
    fst (conv_turn env st ctx takes f c) \<noteq> TurnDrain"
  using turn_core_ends [OF assms, of env st ctx f]
  by (cases "turn_core env st ctx f c")
    (auto simp: conv_turn_def ends_ok_def split: turn_outcome.splits)

lemma conv_run_ends:
  assumes "cv_terminal c = None" "\<not> cv_call_ended c"
  shows "ends_ok (fst (conv_run env st ctx es c)) (snd (conv_run env st ctx es c)) \<and>
    fst (conv_run env st ctx es c) \<noteq> TurnDrain"
  using assms
proof (induction env st ctx es c rule: conv_run.induct)
  case (3 env st ctx f takes es c)
  obtain out c1 where turn: "conv_turn env st ctx takes f c = (out, c1)"
    by (cases "conv_turn env st ctx takes f c")
  with conv_turn_ends [OF "3.prems", of env st ctx takes f] have "ends_ok out c1" "out \<noteq> TurnDrain" by simp_all
  with turn "3.IH" show ?case by (cases out) (simp_all add: ends_ok_def)
qed (simp_all add: ends_ok_def)

definition demo_conv_env :: conv_env where
  "demo_conv_env = \<lparr>ce_tools = demo_tool_env, ce_llm = (\<lambda>n b. LlmReply 200 (Some (PDict [(''choices'',
       PList [PDict [(''message'', PDict [(''content'', PStr ''hello'')])]])]))),
     ce_draw = (\<lambda>n. \<lparr>dr_random = 1, dr_index = 0\<rparr>), ce_uuid = (\<lambda>n. ''u''), ce_dumps = (\<lambda>_. ''{}'')\<rparr>"

definition demo_settings :: conv_settings where
  "demo_settings = \<lparr>cs_model = ''m'', cs_temperature = 7/10, cs_max_tokens = 256, cs_delay_min = 300,
     cs_delay_max = 900, cs_filler_frequency = 1/10, cs_voice_id = None, cs_enable_tools = True\<rparr>"

definition demo_tool_call :: "string \<Rightarrow> pyval" where
  "demo_tool_call n = PDict [(''id'', PStr ''1''),
     (''function'', PDict [(''name'', PStr n), (''arguments'', PDict [])])]"

lemma demo_run:
  "conv_run demo_conv_env demo_settings demo_ctx
     [UserFinal \<lparr>fi_text = ''hi'', fi_duration_ms = 300, fi_received_at = 1\<rparr> [], SpeechTaken]
     (set_system_prompt ''p'' conv_init) = (TurnNext, snd (conv_run demo_conv_env demo_settings demo_ctx
     [UserFinal \<lparr>fi_text = ''hi'', fi_duration_ms = 300, fi_received_at = 1\<rparr> [], SpeechTaken]
     (set_system_prompt ''p'' conv_init)))"
  by (simp add: conv_turn_def turn_core_def response_delay_ms_def randint_def demo_settings_def call_llm_def
      demo_conv_env_def message_parts_def dget_def py_or_def strip_def lstrip_def rstrip_def is_space_def
      handle_llm_response_def after_response_def filler_text_def maybe_inject_filler_def
      inject_filler_def split_ws_def set_system_prompt_def conv_init_def Let_def split_beta)

section \<open>Properties\<close>

text \<open>
  C9: the history the model is shown is faithful: as long as the conversation runs, the user
  turns in it are exactly the non-empty finals heard, in order, whatever the model, the tools
  and the playout queue did in between.
\<close>

theorem history_faithful:
  assumes "conv_run env st ctx es (set_system_prompt prompt conv_init) = (TurnNext, c)"
  shows "user_texts (cv_messages c) = map PStr (heard es)"
  using conv_run_user [OF assms] by (simp add: set_system_prompt_def conv_init_def)

theorem history_faithful_witness:
  "user_texts (cv_messages (snd (conv_run demo_conv_env demo_settings demo_ctx
     [UserFinal \<lparr>fi_text = ''hi'', fi_duration_ms = 300, fi_received_at = 1\<rparr> [], SpeechTaken]
     (set_system_prompt ''p'' conv_init)))) = [PStr ''hi'']"
  using history_faithful [OF demo_run] by simp

text \<open>
  a terminal tool is the last thing the model gets to do: of a list of tool calls nothing
  after the first one that ends the call is dispatched, so no second disposition, transfer or
  follow-up can happen.
\<close>

lemma nothing_after_terminal_tool:
  assumes "cv_terminal c = None" and "cv_terminal (snd (tool_loop env st ctx xs c)) \<noteq> None"
  shows "tool_loop env st ctx (xs @ ys) c = tool_loop env st ctx xs c"
  using assms by (rule tool_loop_stops)

lemma demo_end_call:
  "cv_terminal (snd (tool_loop demo_conv_env demo_settings demo_ctx [demo_tool_call ''end_call''] conv_init)) \<noteq> None"
  by (simp add: demo_tool_call_def tool_one_def dget_or_def py_or_def dispatch_name_def dispatch_def
      DISPATCH_def parse_args_def t_end_call_def terminal_def Let_def)

lemma nothing_after_terminal_tool_witness:
  "tool_loop demo_conv_env demo_settings demo_ctx ([demo_tool_call ''end_call''] @ [demo_tool_call ''mark_dnc'']) conv_init
   = tool_loop demo_conv_env demo_settings demo_ctx [demo_tool_call ''end_call''] conv_init"
  by (rule nothing_after_terminal_tool [OF _ demo_end_call]) (simp add: conv_init_def)


end
