(* ===== verification/Recorder.thy ===== *)
theory Recorder
  imports Prelude
begin

text \<open>
  \<open>workers/src/aipanel_worker/recorder.py\<close>: the per-call recording. Two byte buffers are
  mixed pairwise, sample by sample with 16-bit saturation, as the frames come in; \<open>close\<close>
  writes what one side has left. \<open>rc_written\<close> is the payload of the WAV file. The reference
  the incremental mixing is compared with is the mix of the two whole recordings.
\<close>

section \<open>Samples\<close>

text \<open>\<open>struct.unpack_from("<h", ...)\<close> and \<open>struct.pack_into("<h", ...)\<close>.\<close>

definition s16 :: "byte \<Rightarrow> byte \<Rightarrow> int" where
  "s16 lo hi = (let v = uint lo + 256 * uint hi in if v < 32768 then v else v - 65536)"

definition pack16 :: "int \<Rightarrow> bytes" where
  "pack16 v = [of_int v, of_int (v div 256)]"

definition saturate :: "int \<Rightarrow> int" where
  "saturate mixed = (if mixed > 32767 then 32767 else if mixed < - 32768 then - 32768 else mixed)"

text \<open>The \<open>for\<close> loop of \<open>_emit_paired\<close> over two buffers of one even length.\<close>

fun mix :: "bytes \<Rightarrow> bytes \<Rightarrow> bytes" where
  "mix (a0 # a1 # as) (b0 # b1 # bs) = pack16 (saturate (s16 a0 a1 + s16 b0 b1)) @ mix as bs"
| "mix _ _ = []"

section \<open>The recorder\<close>

record recorder =
  rc_inbound :: bytes
  rc_outbound :: bytes
  rc_wf :: bool
  rc_closed :: bool
  rc_written :: bytes
  rc_exists :: bool

definition new_recorder :: recorder where
  "new_recorder = \<lparr>rc_inbound = [], rc_outbound = [], rc_wf = False, rc_closed = False,
     rc_written = [], rc_exists = False\<rparr>"

definition rec_open :: "recorder \<Rightarrow> recorder" where
  "rec_open r = r\<lparr>rc_wf := True, rc_exists := True, rc_written := []\<rparr>"

definition write_frames :: "bytes \<Rightarrow> recorder \<Rightarrow> recorder" where
  "write_frames d r = (if rc_wf r then r\<lparr>rc_written := rc_written r @ d\<rparr> else r)"

text \<open>\<open>n_bytes - (n_bytes % 2)\<close>, the whole samples in \<open>n_bytes\<close>.\<close>

definition even_floor :: "nat \<Rightarrow> nat" where
  "even_floor n = n - n mod 2"

definition emit_paired :: "nat \<Rightarrow> recorder \<Rightarrow> recorder" where
  "emit_paired n_bytes r =
     (let n = even_floor n_bytes in
      if n = 0 then r
      else let a = take n (rc_inbound r); b = take n (rc_outbound r) in
        write_frames (mix a b)
          (r\<lparr>rc_inbound := drop n (rc_inbound r), rc_outbound := drop n (rc_outbound r)\<rparr>))"

definition emit_solo :: "nat \<Rightarrow> recorder \<Rightarrow> recorder" where
  "emit_solo n_bytes r =
     (let n = even_floor n_bytes; cleared = r\<lparr>rc_inbound := [], rc_outbound := []\<rparr> in
      if n = 0 then cleared
      else if length (rc_outbound r) \<le> length (rc_inbound r)
      then write_frames (take n (rc_inbound r)) cleared
      else write_frames (take n (rc_outbound r)) cleared)"

definition mix_and_write :: "bool \<Rightarrow> recorder \<Rightarrow> recorder" where
  "mix_and_write flush r =
     (let pair_len = min (length (rc_inbound r)) (length (rc_outbound r));
          r1 = (if pair_len \<noteq> 0 then emit_paired pair_len r else r)
      in if \<not> flush then r1
         else let leftover = max (length (rc_inbound r1)) (length (rc_outbound r1))
           in if leftover \<noteq> 0 then emit_solo leftover r1 else r1)"

definition write_inbound :: "bytes \<Rightarrow> recorder \<Rightarrow> recorder" where
  "write_inbound pcm r =
     (if rc_closed r \<or> \<not> rc_wf r then r
      else mix_and_write False (r\<lparr>rc_inbound := rc_inbound r @ pcm\<rparr>))"

definition write_outbound :: "bytes \<Rightarrow> recorder \<Rightarrow> recorder" where
  "write_outbound pcm r =
     (if rc_closed r \<or> \<not> rc_wf r then r
      else mix_and_write False (r\<lparr>rc_outbound := rc_outbound r @ pcm\<rparr>))"

text \<open>\<open>close\<close>: the returned bool says whether there is a file.\<close>

definition rec_close :: "recorder \<Rightarrow> bool \<times> recorder" where
  "rec_close r =
     (if rc_closed r then (rc_exists r, r)
      else let r1 = mix_and_write True (r\<lparr>rc_closed := True\<rparr>) in (rc_exists r1, r1))"

text \<open>\<open>upload_recording\<close>: whether a client is configured, the file exists, the put works and
  the local copy can be removed; the key on success, and whether the file is still there.\<close>

definition upload_recording :: "bool \<Rightarrow> bool \<Rightarrow> bool \<Rightarrow> bool \<Rightarrow> bool \<Rightarrow> string \<Rightarrow> string option \<times> bool" where
  "upload_recording client exists put_ok delete_local unlink_ok object_name =
     (if \<not> client \<or> \<not> exists then (None, exists)
      else if \<not> put_ok then (None, exists)
      else (Some object_name, \<not> (delete_local \<and> unlink_ok)))"

text \<open>A call: frames from the caller (\<open>Inl\<close>) and from the agent (\<open>Inr\<close>) as they come.\<close>

fun rec_step :: "bytes + bytes \<Rightarrow> recorder \<Rightarrow> recorder" where
  "rec_step (Inl f) r = write_inbound f r"
| "rec_step (Inr f) r = write_outbound f r"

fun caller_bytes :: "(bytes + bytes) list \<Rightarrow> bytes" where
  "caller_bytes [] = []"
| "caller_bytes (Inl f # es) = f @ caller_bytes es"
| "caller_bytes (Inr f # es) = caller_bytes es"

fun agent_bytes :: "(bytes + bytes) list \<Rightarrow> bytes" where
  "agent_bytes [] = []"
| "agent_bytes (Inl f # es) = agent_bytes es"
| "agent_bytes (Inr f # es) = f @ agent_bytes es"

text \<open>What the file holds at the end, as a function of the two whole recordings.\<close>

definition full_mix :: "bytes \<Rightarrow> bytes \<Rightarrow> bytes" where
  "full_mix a b =
     (let e = even_floor (min (length a) (length b));
          rest = (if length b \<le> length a then drop e a else drop e b)
      in mix (take e a) (take e b) @ take (even_floor (length rest)) rest)"

section \<open>Lemmas\<close>

lemma even_floor_even [simp]: "even (even_floor n)"
  by (simp add: even_floor_def dvd_minus_mod)

lemma even_floor_le [simp]: "even_floor n \<le> n"
  by (simp add: even_floor_def)

lemma even_floor_id [simp]: "even n \<Longrightarrow> even_floor n = n"
  by (simp add: even_floor_def even_iff_mod_2_eq_zero)

lemma even_floor_0 [simp]: "even_floor 0 = 0"
  by simp

lemma even_floor_dvd: "even_floor n = 2 * (n div 2)"
  by (simp add: even_floor_def minus_mod_eq_mult_div)

lemma div_diff_nat2: "(n - 2 * k) div 2 = n div 2 - (k :: nat)"
  by presburger

lemma even_floor_diff:
  assumes "even e"
  shows "even_floor (n - e) = even_floor n - e"
proof -
  obtain k where "e = 2 * k" using assms by (rule evenE)
  then show ?thesis by (simp add: even_floor_dvd div_diff_nat2 diff_mult_distrib2)
qed

lemma even_floor_mono: "m \<le> n \<Longrightarrow> even_floor m \<le> even_floor n"
  by (simp add: even_floor_dvd div_le_mono)

lemma even_floor_SucSuc [simp]: "even_floor (Suc (Suc n)) = Suc (Suc (even_floor n))"
  by (simp add: even_floor_dvd)

lemma even_floor_one [simp]: "even_floor (Suc 0) = 0"
  by (simp add: even_floor_dvd)

lemma even_floor_small: "n \<le> Suc 0 \<Longrightarrow> even_floor n = 0"
  by (simp add: even_floor_dvd)

lemma mix_append:
  "length a = length b \<Longrightarrow> even (length a) \<Longrightarrow> mix (a @ c) (b @ d) = mix a b @ mix c d"
  by (induction a b rule: mix.induct) (auto simp: length_Suc_conv)

lemma length_mix: "length (mix a b) = even_floor (min (length a) (length b))"
  by (induction a b rule: mix.induct) (auto simp: pack16_def min_def even_floor_small)

text \<open>The invariant relates the recorder to the two streams so far.\<close>

definition rec_inv :: "bytes \<Rightarrow> bytes \<Rightarrow> recorder \<Rightarrow> bool" where
  "rec_inv a b r \<longleftrightarrow>
     (let e = even_floor (min (length a) (length b)) in
        rc_inbound r = drop e a \<and> rc_outbound r = drop e b \<and>
        rc_written r = mix (take e a) (take e b) \<and> rc_wf r \<and> \<not> rc_closed r)"

lemma rec_inv_open: "rec_inv [] [] (rec_open new_recorder)"
  by (simp add: rec_inv_def rec_open_def new_recorder_def even_floor_def Let_def)

text \<open>Mixing from any even point that both streams have reached catches up.\<close>

lemma mix_and_write_catches_up:
  assumes "rc_inbound r = drop e a" "rc_outbound r = drop e b"
    "rc_written r = mix (take e a) (take e b)" "rc_wf r" "\<not> rc_closed r"
    "even e" "e \<le> min (length a) (length b)"
  shows "rec_inv a b (mix_and_write False r)"
proof -
  let ?m = "min (length a) (length b)"
  let ?n = "even_floor (?m - e)"
  have n: "?n = even_floor ?m - e" using assms(6) by (rule even_floor_diff)
  have le: "e \<le> even_floor ?m"
    using even_floor_mono [OF assms(7)] assms(6) by simp
  then have sum: "e + ?n = even_floor ?m" using n by simp
  have fit: "e + ?n \<le> length a" "e + ?n \<le> length b"
    using sum even_floor_le [of ?m] by linarith+
  have pair: "min (length (rc_inbound r)) (length (rc_outbound r)) = ?m - e"
    using assms(1,2) by simp
  have grown: "mix (take (e + ?n) a) (take (e + ?n) b)
      = mix (take e a) (take e b) @ mix (take ?n (drop e a)) (take ?n (drop e b))"
    using fit assms(6) by (simp add: take_add mix_append)
  have step: "mix_and_write False r = emit_paired (?m - e) r"
    unfolding mix_and_write_def Let_def pair by (simp add: emit_paired_def)
  show ?thesis
  proof (cases "?n = 0")
    case True
    with sum have e: "even_floor ?m = e" by simp
    have "emit_paired (?m - e) r = r" using True by (simp add: emit_paired_def)
    with assms(1-5) show ?thesis unfolding step rec_inv_def Let_def e by simp
  next
    case False
    then have "emit_paired (?m - e) r = write_frames
        (mix (take ?n (rc_inbound r)) (take ?n (rc_outbound r)))
        (r\<lparr>rc_inbound := drop ?n (rc_inbound r), rc_outbound := drop ?n (rc_outbound r)\<rparr>)"
      by (simp add: emit_paired_def Let_def)
    with assms(1-5) show ?thesis
      unfolding step rec_inv_def Let_def sum [symmetric] grown
      by (simp add: write_frames_def add.commute)
  qed
qed

lemma write_inbound_inv:
  assumes "rec_inv a b r"
  shows "rec_inv (a @ f) b (write_inbound f r)"
proof -
  let ?e = "even_floor (min (length a) (length b))"
  have e: "?e \<le> length a" "?e \<le> length b"
    using even_floor_le [of "min (length a) (length b)"] by linarith+
  have "rec_inv (a @ f) b (mix_and_write False (r\<lparr>rc_inbound := rc_inbound r @ f\<rparr>))"
    using assms e by (intro mix_and_write_catches_up [of _ ?e]) (auto simp: rec_inv_def Let_def)
  with assms show ?thesis by (simp add: write_inbound_def rec_inv_def Let_def)
qed

lemma write_outbound_inv:
  assumes "rec_inv a b r"
  shows "rec_inv a (b @ f) (write_outbound f r)"
proof -
  let ?e = "even_floor (min (length a) (length b))"
  have e: "?e \<le> length a" "?e \<le> length b"
    using even_floor_le [of "min (length a) (length b)"] by linarith+
  have "rec_inv a (b @ f) (mix_and_write False (r\<lparr>rc_outbound := rc_outbound r @ f\<rparr>))"
    using assms e by (intro mix_and_write_catches_up [of _ ?e]) (auto simp: rec_inv_def Let_def)
  with assms show ?thesis by (simp add: write_outbound_def rec_inv_def Let_def)
qed

lemma run_inv:
  "rec_inv a b r \<Longrightarrow> rec_inv (a @ caller_bytes es) (b @ agent_bytes es) (fold rec_step es r)"
proof (induction es arbitrary: a b r)
  case Nil
  then show ?case by simp
next
  case (Cons x es)
  show ?case
  proof (cases x)
    case (Inl f)
    with Cons.IH [OF write_inbound_inv [OF Cons.prems, of f]] show ?thesis by simp
  next
    case (Inr f)
    with Cons.IH [OF write_outbound_inv [OF Cons.prems, of f]] show ?thesis by simp
  qed
qed

lemma close_written:
  assumes "rec_inv a b r"
  shows "rc_written (snd (rec_close r)) = full_mix a b"
proof -
  let ?e = "even_floor (min (length a) (length b))"
  let ?r = "mix_and_write False (r\<lparr>rc_closed := True\<rparr>)"
  have small: "even_floor (min (length a - ?e) (length b - ?e)) = 0"
  proof -
    have "min (length a - ?e) (length b - ?e) = min (length a) (length b) - ?e" by simp
    then show ?thesis by (simp only: even_floor_diff [OF even_floor_even] diff_self_eq_0)
  qed
  have same: "?r = r\<lparr>rc_closed := True\<rparr>"
    using assms small
    by (simp add: mix_and_write_def emit_paired_def rec_inv_def Let_def)
  have r: "rc_inbound r = drop ?e a" "rc_outbound r = drop ?e b"
    "rc_written r = mix (take ?e a) (take ?e b)" "rc_wf r" "\<not> rc_closed r"
    using assms unfolding rec_inv_def Let_def by blast+
  let ?rest = "if length b \<le> length a then drop ?e a else drop ?e b"
  have len: "max (length (drop ?e a)) (length (drop ?e b)) = length ?rest"
    by (cases "length b \<le> length a") (simp_all add: max_absorb1 max_absorb2 diff_le_mono)
  have longer: "(length (drop ?e b) \<le> length (drop ?e a)) = (length b \<le> length a)"
    using even_floor_le [of "min (length a) (length b)"] by (simp, linarith)
  have close: "rec_close r = (let r1 = (let leftover = max (length (rc_inbound ?r)) (length (rc_outbound ?r))
      in if leftover \<noteq> 0 then emit_solo leftover ?r else ?r) in (rc_exists r1, r1))"
    using r(5) by (simp add: rec_close_def mix_and_write_def Let_def)
  have sel: "rc_inbound (r\<lparr>rc_closed := True\<rparr>) = rc_inbound r"
    "rc_outbound (r\<lparr>rc_closed := True\<rparr>) = rc_outbound r" by simp_all
  have solo: "rc_written (emit_solo n (r\<lparr>rc_closed := True\<rparr>))
      = rc_written r @ take (even_floor n) ?rest" for n
    using r(4) by (simp add: emit_solo_def write_frames_def Let_def r(1,2) longer del: length_drop)
  have full: "full_mix a b = rc_written r @ take (even_floor (length ?rest)) ?rest"
    by (simp only: full_mix_def Let_def r(3))
  show ?thesis
  proof (cases "length ?rest = 0")
    case True
    then have "rc_written (snd (rec_close r)) = rc_written r"
      unfolding close same by (simp add: r(1,2) len Let_def del: length_drop)
    then show ?thesis unfolding full True by simp
  next
    case False
    then have "rec_close r = (rc_exists (emit_solo (length ?rest) (r\<lparr>rc_closed := True\<rparr>)),
        emit_solo (length ?rest) (r\<lparr>rc_closed := True\<rparr>))"
      unfolding close same by (simp only: sel r(1,2) len Let_def if_True not_False_eq_True)
    then show ?thesis unfolding full by (simp only: snd_conv solo)
  qed
qed

section \<open>Properties\<close>

text \<open>
  mixing frame by frame as they arrive, in any order and of any sizes, writes the same
  file as mixing the two complete recordings at the end: paired samples saturated, then the
  rest of the longer side.
\<close>

lemma recording_is_full_mix:
  "rc_written (snd (rec_close (fold rec_step es (rec_open new_recorder))))
     = full_mix (caller_bytes es) (agent_bytes es)"
  using close_written [OF run_inv [OF rec_inv_open, of es]] by simp

text \<open>
  With whole-sample frames nothing is lost or padded: the recording is exactly as long as
  the longer of the two directions.
\<close>

lemma recording_length:
  assumes "even (length (caller_bytes es))" and "even (length (agent_bytes es))"
  shows "length (rc_written (snd (rec_close (fold rec_step es (rec_open new_recorder)))))
       = max (length (caller_bytes es)) (length (agent_bytes es))"
proof -
  let ?a = "caller_bytes es" and ?b = "agent_bytes es"
  have e: "even (min (length ?a) (length ?b))" using assms by (simp add: min_def)
  show ?thesis
    unfolding recording_is_full_mix full_mix_def Let_def even_floor_id [OF e]
    using assms by (cases "length ?b \<le> length ?a") (simp_all add: length_mix)
qed

lemma recording_length_witness:
  "length (rc_written (snd (rec_close (fold rec_step [Inl [1, 2, 3, 4], Inr [5, 6]]
     (rec_open new_recorder))))) = 4"
  using recording_length [of "[Inl [1, 2, 3, 4], Inr [5, 6]]"] by simp

end
