(* ===== verification/Transcript.thy ===== *)
theory Transcript
  imports Prelude "HOL-Library.Sublist"
begin

text \<open>
  \<open>workers/src/aipanel_worker/transcript_writer.py\<close> with the two tables it writes: the parent
  row of a call, the batched insertion of its events and the final update. The database is the
  part of the schema (\<open>installer/migrations/001_initial.sql\<close>, \<open>db/models/calls.py\<close>) the three
  statements depend on: the keys of \<open>calls\<close> and the foreign keys.
\<close>

section \<open>The tables\<close>

record call_row =
  cr_id :: string
  cr_deployment_id :: string
  cr_vici_uniqueid :: string
  cr_vici_lead_id :: "string option"
  cr_phone_number :: "string option"
  cr_started_at :: rat
  cr_ended_at :: "rat option"
  cr_duration_sec :: "int option"
  cr_outcome :: "string option"
  cr_dispo_code :: "string option"
  cr_transcript_path :: "string option"
  cr_recording_path :: "string option"

record event_row =
  er_call_id :: string
  er_ts :: rat
  er_event_type :: string
  er_payload :: string

record call_db =
  db_deployments :: "string list"
  db_calls :: "call_row list"
  db_events :: "event_row list"

text \<open>\<open>INSERT INTO calls ... ON CONFLICT (id) DO NOTHING\<close>: None is an integrity error. The
  foreign key and the other unique column, \<open>vici_uniqueid\<close>, are not covered by the clause.\<close>

definition insert_call :: "call_row \<Rightarrow> call_db \<Rightarrow> call_db option" where
  "insert_call row db =
     (if cr_id row \<in> cr_id ` set (db_calls db) then Some db
      else if cr_deployment_id row \<notin> set (db_deployments db)
        \<or> cr_vici_uniqueid row \<in> cr_vici_uniqueid ` set (db_calls db) then None
      else Some (db\<lparr>db_calls := db_calls db @ [row]\<rparr>))"

definition update_call :: "string \<Rightarrow> (call_row \<Rightarrow> call_row) \<Rightarrow> call_db \<Rightarrow> call_db" where
  "update_call cid f db = db\<lparr>db_calls := map (\<lambda>r. if cr_id r = cid then f r else r) (db_calls db)\<rparr>"

text \<open>\<open>executemany\<close> in one transaction: all rows or, when one violates the key, none.\<close>

definition insert_events :: "event_row list \<Rightarrow> call_db \<Rightarrow> call_db option" where
  "insert_events rows db =
     (if \<forall>r \<in> set rows. er_call_id r \<in> cr_id ` set (db_calls db)
      then Some (db\<lparr>db_events := db_events db @ rows\<rparr>) else None)"

section \<open>The writer\<close>

text \<open>An event is (timestamp, type, payload). \<open>tw_ops\<close> counts the flushes that reached the
  database, so that \<open>up\<close> can say for each whether it is reachable; \<open>tw_failed\<close> and
  \<open>tw_dropped\<close> are what the warnings of \<open>_flush\<close> report.\<close>

type_synonym tw_event = "rat \<times> string \<times> pyval dict"

record writer =
  tw_call_id :: string
  tw_db :: call_db
  tw_ops :: nat
  tw_failed :: nat
  tw_dropped :: nat

definition insert_call_row :: "rat \<Rightarrow> string \<Rightarrow> string option \<Rightarrow> string option \<Rightarrow> string option \<Rightarrow> writer \<Rightarrow> writer option" where
  "insert_call_row now deployment_id vici_uniqueid vici_lead_id phone_number w =
     (case insert_call
        \<lparr>cr_id = tw_call_id w, cr_deployment_id = deployment_id,
         cr_vici_uniqueid = opt_str_or vici_uniqueid (tw_call_id w),
         cr_vici_lead_id = vici_lead_id, cr_phone_number = phone_number, cr_started_at = now,
         cr_ended_at = None, cr_duration_sec = None, cr_outcome = None, cr_dispo_code = None,
         cr_transcript_path = None, cr_recording_path = None\<rparr> (tw_db w) of
        None \<Rightarrow> None
      | Some db \<Rightarrow> Some (w\<lparr>tw_db := db\<rparr>))"

text \<open>\<open>start\<close>: an error of the database is logged and the flusher starts all the same.\<close>

definition tw_start :: "bool \<Rightarrow> rat \<Rightarrow> string \<Rightarrow> string option \<Rightarrow> string option \<Rightarrow> string option \<Rightarrow> writer \<Rightarrow> writer" where
  "tw_start up now deployment_id vici_uniqueid vici_lead_id phone_number w =
     (if \<not> up then w
      else (case insert_call_row now deployment_id vici_uniqueid vici_lead_id phone_number w of
              None \<Rightarrow> w | Some w' \<Rightarrow> w'))"

definition update_call_row :: "rat \<Rightarrow> string \<Rightarrow> string \<Rightarrow> string \<Rightarrow> string \<Rightarrow> int \<Rightarrow> writer \<Rightarrow> writer" where
  "update_call_row now outcome dispo_code transcript_path recording_path duration_sec w =
     w\<lparr>tw_db := update_call (tw_call_id w)
        (\<lambda>r. r\<lparr>cr_ended_at := Some now, cr_duration_sec := Some duration_sec,
               cr_outcome := Some outcome, cr_dispo_code := Some dispo_code,
               cr_transcript_path := Some transcript_path,
               cr_recording_path := Some recording_path\<rparr>) (tw_db w)\<rparr>"

definition event_row_of :: "(pyval dict \<Rightarrow> string) \<Rightarrow> string \<Rightarrow> tw_event \<Rightarrow> event_row" where
  "event_row_of dumps cid e =
     \<lparr>er_call_id = cid, er_ts = fst e, er_event_type = fst (snd e), er_payload = dumps (snd (snd e))\<rparr>"

definition flush :: "(nat \<Rightarrow> bool) \<Rightarrow> (pyval dict \<Rightarrow> string) \<Rightarrow> tw_event list \<Rightarrow> writer \<Rightarrow> writer" where
  "flush up dumps batch w =
     (if batch = [] then w
      else let w1 = w\<lparr>tw_ops := Suc (tw_ops w)\<rparr>;
               failed = w1\<lparr>tw_failed := Suc (tw_failed w), tw_dropped := tw_dropped w + length batch\<rparr>
           in if \<not> up (tw_ops w) then failed
              else (case insert_events (map (event_row_of dumps (tw_call_id w)) batch) (tw_db w) of
                      None \<Rightarrow> failed
                    | Some db \<Rightarrow> w1\<lparr>tw_db := db\<rparr>))"

text \<open>\<open>_flush_loop\<close> over what \<open>wait_for(queue.get())\<close> yields: an event, the 250 ms timeout, or
  the None that \<open>stop\<close> puts. The result is the batch still held and the writer.\<close>

datatype flush_event = Item tw_event | Timeout | StopItem

fun flush_loop :: "(nat \<Rightarrow> bool) \<Rightarrow> (pyval dict \<Rightarrow> string) \<Rightarrow> flush_event list \<Rightarrow> tw_event list \<Rightarrow> writer \<Rightarrow> tw_event list \<times> writer" where
  "flush_loop up dumps [] batch w = (batch, w)"
| "flush_loop up dumps (Timeout # es) batch w = flush_loop up dumps es [] (flush up dumps batch w)"
| "flush_loop up dumps (StopItem # es) batch w = ([], flush up dumps batch w)"
| "flush_loop up dumps (Item e # es) batch w =
     (let b = batch @ [e] in
      if 50 \<le> length b then flush_loop up dumps es [] (flush up dumps b w)
      else flush_loop up dumps es b w)"

text \<open>A whole call: \<open>start\<close>, the events until \<open>stop\<close>, and the final update.\<close>

definition tw_call :: "bool \<Rightarrow> (nat \<Rightarrow> bool) \<Rightarrow> (pyval dict \<Rightarrow> string) \<Rightarrow> string option \<Rightarrow> string \<Rightarrow> flush_event list \<Rightarrow> writer \<Rightarrow> writer" where
  "tw_call up_rows up dumps vici_uniqueid deployment_id es w =
     (let w1 = tw_start up_rows 0 deployment_id vici_uniqueid None None w;
          w2 = snd (flush_loop up dumps (es @ [StopItem]) [] w1)
      in if up_rows then update_call_row 1 ''abandoned'' ''ABANDON'' [] [] 1 w2 else w2)"

fun items_of :: "flush_event list \<Rightarrow> tw_event list" where
  "items_of [] = []"
| "items_of (Item e # es) = e # items_of es"
| "items_of (Timeout # es) = items_of es"
| "items_of (StopItem # es) = []"

section \<open>Lemmas\<close>

lemma flush_call_id [simp]: "tw_call_id (flush up dumps b w) = tw_call_id w"
  by (simp add: flush_def Let_def split: option.splits)

lemma flush_calls [simp]: "db_calls (tw_db (flush up dumps b w)) = db_calls (tw_db w)"
  by (auto simp: flush_def Let_def insert_events_def split: option.splits)

lemma flush_loop_calls:
  "db_calls (tw_db (snd (flush_loop up dumps es b w))) = db_calls (tw_db w) \<and>
   tw_call_id (snd (flush_loop up dumps es b w)) = tw_call_id w"
  by (induction up dumps es b w rule: flush_loop.induct) (auto simp: Let_def)

text \<open>What a flush does to the events: all of the batch, or none of it and a count.\<close>

definition accounts :: "(pyval dict \<Rightarrow> string) \<Rightarrow> tw_event list \<Rightarrow> writer \<Rightarrow> writer \<Rightarrow> bool" where
  "accounts dumps items w w' \<longleftrightarrow>
     (\<exists>rows. db_events (tw_db w') = db_events (tw_db w) @ rows \<and>
        subseq rows (map (event_row_of dumps (tw_call_id w)) items) \<and>
        length rows + tw_dropped w' = length items + tw_dropped w \<and>
        tw_dropped w' \<le> tw_dropped w + 50 * (tw_failed w' - tw_failed w) \<and>
        tw_failed w \<le> tw_failed w')"

lemma flush_accounts: "length b \<le> 50 \<Longrightarrow> accounts dumps b w (flush up dumps b w)"
  by (auto simp: accounts_def flush_def insert_events_def Let_def split: option.splits)

lemma accounts_trans:
  assumes "accounts dumps xs w w1" "accounts dumps ys w1 w2" "tw_call_id w1 = tw_call_id w"
  shows "accounts dumps (xs @ ys) w w2"
proof -
  obtain r1 where r1: "db_events (tw_db w1) = db_events (tw_db w) @ r1"
    "subseq r1 (map (event_row_of dumps (tw_call_id w)) xs)"
    "length r1 + tw_dropped w1 = length xs + tw_dropped w"
    "tw_dropped w1 \<le> tw_dropped w + 50 * (tw_failed w1 - tw_failed w)" "tw_failed w \<le> tw_failed w1"
    using assms(1) unfolding accounts_def by blast
  obtain r2 where r2: "db_events (tw_db w2) = db_events (tw_db w1) @ r2"
    "subseq r2 (map (event_row_of dumps (tw_call_id w1)) ys)"
    "length r2 + tw_dropped w2 = length ys + tw_dropped w1"
    "tw_dropped w2 \<le> tw_dropped w1 + 50 * (tw_failed w2 - tw_failed w1)" "tw_failed w1 \<le> tw_failed w2"
    using assms(2) unfolding accounts_def by blast
  have "subseq (r1 @ r2) (map (event_row_of dumps (tw_call_id w)) (xs @ ys))"
    using list_emb_append_mono [OF r1(2) r2(2)] assms(3) by simp
  with r1 r2 show ?thesis unfolding accounts_def by (intro exI [of _ "r1 @ r2"]) auto
qed

lemma accounts_refl: "accounts dumps [] w w"
  by (simp add: accounts_def)

lemma flush_loop_accounts:
  "length b < 50 \<Longrightarrow>
   fst (flush_loop up dumps (es @ [StopItem]) b w) = [] \<and>
   accounts dumps (b @ items_of es) w (snd (flush_loop up dumps (es @ [StopItem]) b w))"
proof (induction es arbitrary: b w)
  case Nil
  then show ?case by (simp add: flush_accounts)
next
  case (Cons e es)
  have full: "accounts dumps (b' @ items_of es) w (snd (flush_loop up dumps (es @ [StopItem]) [] (flush up dumps b' w)))"
    if "length b' \<le> 50" for b'
    using accounts_trans [OF flush_accounts [OF that] conjunct2 [OF Cons.IH [of "[]"]]] by simp
  show ?case
  proof (cases e)
    case (Item x)
    have "length (b @ [x]) \<le> 50" using Cons.prems by simp
    from full [OF this] Cons.IH [of "[]"] Cons.IH [of "b @ [x]" w] Item Cons.prems show ?thesis by (auto simp: Let_def)
  next
    case Timeout
    with full [of b] Cons.prems Cons.IH show ?thesis by simp
  next
    case StopItem
    with Cons.prems show ?thesis by (simp add: flush_accounts)
  qed
qed

lemma insert_collision:
  assumes "tw_call_id w \<notin> cr_id ` set (db_calls (tw_db w))"
    and "u \<noteq> []" and "u \<in> cr_vici_uniqueid ` set (db_calls (tw_db w))"
  shows "tw_start up 0 d (Some u) None None w = w"
  using assms by (cases u) (auto simp: tw_start_def insert_call_row_def insert_call_def opt_str_or_def)

lemma flush_no_parent:
  "tw_call_id w \<notin> cr_id ` set (db_calls (tw_db w)) \<Longrightarrow> tw_db (flush up dumps b w) = tw_db w"
  by (cases b) (auto simp: flush_def insert_events_def event_row_of_def Let_def)

lemma flush_loop_no_parent:
  "tw_call_id w \<notin> cr_id ` set (db_calls (tw_db w)) \<Longrightarrow>
   tw_db (snd (flush_loop up dumps es b w)) = tw_db w"
  by (induction up dumps es b w rule: flush_loop.induct) (auto simp: Let_def flush_no_parent)

section \<open>Properties\<close>


text \<open>
  a second call with a ViciDial unique id that is already in the table leaves no trace:
  \<open>ON CONFLICT (id)\<close> does not cover that column, so the row is refused, every event violates the
  foreign key and the final update finds nothing.
\<close>

lemma duplicate_uniqueid_lost:
  assumes "tw_call_id w \<notin> cr_id ` set (db_calls (tw_db w))"
    and "u \<noteq> []" and "u \<in> cr_vici_uniqueid ` set (db_calls (tw_db w))"
  shows "tw_db (tw_call up_rows up dumps (Some u) d es w) = tw_db w"
proof -
  have "map (\<lambda>r. if cr_id r = tw_call_id w then f r else r) (db_calls (tw_db w)) = db_calls (tw_db w)" for f
    using assms(1) by (intro map_idI) (auto simp: image_iff)
  then show ?thesis
    using insert_collision [OF assms] flush_loop_no_parent [OF assms(1)]
      flush_loop_calls [of up dumps "es @ [StopItem]" "[]" w]
    by (simp add: tw_call_def update_call_row_def update_call_def Let_def)
qed

lemma duplicate_uniqueid_lost_witness:
  "\<exists>db. length (db_calls db) = 1 \<and>
     tw_db (tw_call True (\<lambda>_. True) (\<lambda>_. []) (Some ''17.1'') ''d'' [Item (0, ''user_speech'', [])]
       \<lparr>tw_call_id = ''B'', tw_db = db, tw_ops = 0, tw_failed = 0, tw_dropped = 0\<rparr>) = db"
proof -
  let ?row = "\<lparr>cr_id = ''A'', cr_deployment_id = ''d'', cr_vici_uniqueid = ''17.1'',
    cr_vici_lead_id = None, cr_phone_number = None, cr_started_at = 0, cr_ended_at = None,
    cr_duration_sec = None, cr_outcome = None, cr_dispo_code = None, cr_transcript_path = None,
    cr_recording_path = None\<rparr>"
  let ?w = "\<lparr>tw_call_id = ''B'', tw_db = \<lparr>db_deployments = [''d''], db_calls = [?row], db_events = []\<rparr>,
    tw_ops = 0, tw_failed = 0, tw_dropped = 0\<rparr>"
  have "tw_db (tw_call True (\<lambda>_. True) (\<lambda>_. []) (Some ''17.1'') ''d''
      [Item (0, ''user_speech'', [])] ?w) = tw_db ?w"
    by (rule duplicate_uniqueid_lost) simp_all
  then show ?thesis by (intro exI [of _ "tw_db ?w"]) simp
qed

end
