(* ===== verification/Methodologies.thy ===== *)
theory Methodologies
  imports Tools
begin

text \<open>
  The sales methodologies as the worker knows them (\<open>workers/\<dots>/methodologies.py\<close>): a registry of
  six records whose \<open>system_prompt\<close> goes into the prompt of a call. The file calls itself a mirror
  of the panel's \<open>sales_lib/data.py\<close>; \<open>Sales_Lib\<close> holds that one and compares them. A text is
  the list of its lines, each of which ends with a newline.
\<close>

definition text_lines :: "string list \<Rightarrow> string" where
  "text_lines ls = concat (map (\<lambda>l. l @ nl) ls)"

definition dq :: string where
  "dq = [CHR 0x22]"

definition right_arrow :: string where
  "right_arrow = [CHR 0xE2, CHR 0x86, CHR 0x92]"

definition ellipsis :: string where
  "ellipsis = [CHR 0xE2, CHR 0x80, CHR 0xA6]"

record call_stage =
  st_name :: string
  st_goal :: string
  st_success_markers :: "string list"

record methodology =
  mt_key :: string
  mt_name :: string
  mt_tagline :: string
  mt_when_to_use :: string
  mt_system_prompt :: string
  mt_stages :: "call_stage list"
  mt_priority_signals :: "string list"
  mt_common_objections :: "string dict"

section \<open>The worker's copy\<close>

definition worker_SPIN :: methodology where
  "worker_SPIN = \<lparr>mt_key = ''spin'', mt_name = ''SPIN selling'',
   mt_tagline = ''Ask Situation, Problem, Implication, Need-payoff questions in order. The '' @
     ''customer sells themselves.'',
   mt_when_to_use =
     ''Best when the customer doesn't yet know they have a problem you can solve, or '' @
     ''doesn't realise its cost.'',
   mt_system_prompt = text_lines
     [''SPIN SELLING '' @ em_dash @ '' DISCOVERY FRAMEWORK'',
      ''You are using the SPIN methodology. Ask four question types in order. The'',
      ''goal is to make the customer state the value of your solution themselves'',
      ''before you ever mention it.'',
      [],
      ''PHASE 1 '' @ em_dash @ '' SITUATION questions (gather facts)'',
      ''Ask brief, factual questions about their current setup. Use AT MOST two '' @ em_dash,
      ''customers find too many of these tedious and the call dies.'',
      [],
      ''PHASE 2 '' @ em_dash @ '' PROBLEM questions (find pain)'',
      ''Probe for dissatisfaction with the current state. You are listening for'',
      ''irritation in their voice '' @ em_dash @ '' that's the signal a real problem exists.'',
      [],
      ''PHASE 3 '' @ em_dash @ '' IMPLICATION questions (amplify pain)'',
      ''Once you've found a problem, draw out its consequences. This is the most'',
      ''important step '' @ em_dash @ '' it makes the customer FEEL the cost of inaction.'',
      [],
      ''PHASE 4 '' @ em_dash @ '' NEED-PAYOFF questions (let them sell themselves)'',
      ''Get the customer to state the value of solving the problem in their OWN'',
      ''words. When they articulate the value, they own it.'',
      [],
      ''CRITICAL RULES'',
      ''- Never skip phases. If you don't have a problem, don't pitch a solution.'',
      ''- Never argue when the customer pushes back. Restate the implication.'',
      ''- One question at a time. Wait for the answer. Use silence as a tool.'',
      ''- Move to closing ONLY after a clear need-payoff answer from them.''],
   mt_stages = [],
   mt_priority_signals = [],
   mt_common_objections = []\<rparr>"

definition worker_BANT :: methodology where
  "worker_BANT = \<lparr>mt_key = ''bant'', mt_name = ''BANT qualification'',
   mt_tagline = ''Confirm Budget, Authority, Need, Timeline before advancing the deal.'',
   mt_when_to_use =
     ''Best as a qualification filter at the top of a high-volume pipeline.'',
   mt_system_prompt = text_lines
     [''BANT QUALIFICATION'',
      ''Your job on this call is to determine '' @ em_dash @ '' politely but clearly '' @
      em_dash @ '' whether this'',
      ''prospect is worth advancing. By the end you should know all four:'',
      [],
      ''B '' @ em_dash @ '' BUDGET: Can they afford the solution? Don't ask price directly '' @
      em_dash @ '' frame'',
      ''around their current spend or what they've budgeted for the problem.'',
      ''A '' @ em_dash @
      '' AUTHORITY: Are you talking to the decision maker, or someone in the'',
      ''path? Either is fine '' @ em_dash @ '' but you need to know which.'',
      ''N '' @ em_dash @ '' NEED: Is the problem real and important to them right now? Not '' @
      dq @ ''would'',
      ''be nice'' @ dq @ '' '' @ em_dash @ '' actually painful enough to act on.'',
      ''T '' @ em_dash @ '' TIMELINE: When would they realistically move forward? '' @ dq @
      ''Eventually'' @ dq @ '' is'',
      ''not a timeline.'',
      [],
      ''CRITICAL RULES'',
      ''- Don't interrogate. Weave BANT into a normal conversation.'',
      ''- If a single criterion fails clearly, call the disposition early.'',
      ''- Never advance to a transfer unless you have ALL FOUR.''],
   mt_stages = [],
   mt_priority_signals = [],
   mt_common_objections = []\<rparr>"

definition worker_MEDDPICC :: methodology where
  "worker_MEDDPICC = \<lparr>mt_key = ''meddpicc'', mt_name = ''MEDDPICC'',
   mt_tagline = ''Surface Metrics, Economic buyer, Decision criteria + process, Paper process, '' @
     ''Identified pain, Champion, Competition.'',
   mt_when_to_use =
     ''Best for enterprise / multi-stakeholder deals with $50k+ ACV.'',
   mt_system_prompt = text_lines
     [''MEDDPICC '' @ em_dash @ '' ENTERPRISE QUALIFICATION'',
      ''You are running an enterprise discovery call. By the end you should be able'',
      ''to answer all eight questions below. Don't try to cover them all in one'',
      ''call '' @ em_dash @ '' surface as many as the conversation allows.'',
      [],
      ''M '' @ em_dash @
      '' METRICS: How will the customer measure success? Dollars, hours, error'',
      ''rate '' @ em_dash @ '' something countable.'',
      ''E '' @ em_dash @
      '' ECONOMIC BUYER: Who controls the budget? Often NOT the person you're'',
      ''talking to.'',
      ''D '' @ em_dash @ '' DECISION CRITERIA: What technical and business criteria will they'',
      ''evaluate against?'',
      ''D '' @ em_dash @
      '' DECISION PROCESS: How will they actually decide? Procurement, security,'',
      ''legal, board approval.'',
      ''P '' @ em_dash @ '' PAPER PROCESS: Procurement, MSA, security questionnaire '' @
      em_dash @ '' surface'',
      ''early, this is where deals die.'',
      ''I '' @ em_dash @
      '' IDENTIFIED PAIN: Measurable, dollar-quantifiable pain. Without this'',
      ''the deal is '' @ dq @ ''nice to have'' @ dq @ '' and loses to '' @ dq @ ''do nothing'' @
      dq @ ''.'',
      ''C '' @ em_dash @
      '' CHAMPION: Internal advocate who sells on your behalf when you're not'',
      ''in the room.'',
      ''C '' @ em_dash @ '' COMPETITION: Other options under evaluation. '' @ dq @
      ''Doing nothing'' @ dq @ '' is the'',
      ''most common one.'',
      [],
      ''CRITICAL RULES'',
      ''- This is qualification, not interrogation. Ask 2-3 of these per call,'',
      ''  not all eight.'',
      ''- Take notes '' @ em_dash @ '' speak the answers back so the transcript captures them.''],
   mt_stages = [],
   mt_priority_signals = [],
   mt_common_objections = []\<rparr>"

definition worker_CONSULTATIVE :: methodology where
  "worker_CONSULTATIVE = \<lparr>mt_key = ''consultative'', mt_name = ''Consultative selling'',
   mt_tagline = ''Discover their context first. Propose only when their problem is clear. Tailor '' @
     ''every recommendation.'',
   mt_when_to_use =
     ''Default for most outbound calls.'',
   mt_system_prompt = text_lines
     [''CONSULTATIVE SELLING '' @ em_dash @ '' TRUSTED-ADVISOR FRAMING'',
      ''You are calling as a consultant, not a salesperson. Your goal is to help'',
      ''the customer get clarity on their situation. If your product fits, they'll'',
      ''notice; if it doesn't, you save everyone time.'',
      [],
      ''CORE STANCE'',
      ''- Curiosity over conviction.'',
      ''- Patience over pace. A great consultative call is 70% them talking.'',
      ''- '' @ dq @ ''Based on what you've shared'' @ ellipsis @ dq @
      '' is the strongest sentence in this'',
      ''  methodology.'',
      [],
      ''THE RHYTHM'',
      ''1. Earn the right to ask (one warm sentence about why you're calling).'',
      ''2. Ask one good open-ended question.'',
      ''3. Listen '' @ em_dash @ '' actually listen. Reflect back what you heard.'',
      ''4. Ask the next question based on their answer, not your script.'',
      ''5. Only after 3-4 exchanges, offer a tailored recommendation.'',
      ''6. Confirm the recommendation lands ('' @ dq @ ''Does that match how you're thinking'',
      ''   about it?'' @ dq @ '') before pitching next steps.'',
      [],
      ''THINGS A CONSULTANT NEVER DOES'',
      ''- Push when they push back.'',
      ''- Quote a price before they've described the problem.'',
      ''- Read the script word-for-word when the conversation has moved on.''],
   mt_stages = [],
   mt_priority_signals = [],
   mt_common_objections = []\<rparr>"

definition worker_VALUE_BASED :: methodology where
  "worker_VALUE_BASED = \<lparr>mt_key = ''value_based'', mt_name = ''Value-based selling'',
   mt_tagline = ''Frame everything in measurable customer outcomes '' @ em_dash @
     '' time saved, dollars made, risk avoided. Never lead with features.'',
   mt_when_to_use =
     ''Best for products with quantifiable ROI.'',
   mt_system_prompt = text_lines
     [''VALUE-BASED SELLING '' @ em_dash @ '' OUTCOMES, NOT FEATURES'',
      ''You sell outcomes the customer can measure. Every claim should translate'',
      ''to dollars, hours, or risk reduction the customer can put in a spreadsheet.'',
      [],
      ''THE TRANSLATION RULE'',
      ''Whenever you would say a FEATURE, instead say a BENEFIT, then a measurable'',
      ''OUTCOME. Practise the chain in real time.'',
      [],
      ''  Feature:   '' @ dq @ ''Our system has automated routing.'' @ dq,
      ''  Benefit:   '' @ dq @ ''So you don't have to manually triage tickets.'' @ dq,
      ''  Outcome:   '' @ dq @ ''Most teams cut response time by 40% and free up about a day'',
      ''              per week per agent.'' @ dq,
      [],
      ''ALWAYS QUANTIFY'',
      ''- Time saved '' @ right_arrow @ '' hours per week'',
      ''- Money saved '' @ right_arrow @ '' dollars per month or quarter'',
      ''- Money made '' @ right_arrow @ '' incremental revenue or conversion lift'',
      ''- Risk reduced '' @ right_arrow @ '' fines avoided, downtime prevented, errors caught'',
      [],
      ''THE VALUE STATEMENT'',
      ''Once you have inputs, do the math out loud. Numbers spoken aloud get'',
      ''challenged '' @ em_dash @ '' that's good, the customer co-creates the value with you.'',
      [],
      ''NEVER'',
      ''- Quote a feature without a benefit.'',
      ''- Use '' @ dq @ ''robust'' @ dq @ '', '' @ dq @ ''best-in-class'' @ dq @ '', '' @ dq @
      ''leverage'' @ dq @ '', '' @ dq @ ''synergy'' @ dq @ ''.'',
      ''- Hide behind a price without anchoring it to value first.''],
   mt_stages = [],
   mt_priority_signals = [],
   mt_common_objections = []\<rparr>"

definition worker_CUSTOM :: methodology where
  "worker_CUSTOM = \<lparr>mt_key = ''custom'', mt_name = ''Custom'',
   mt_tagline = ''Follow the campaign's script verbatim. No additional methodology scaffolding.'',
   mt_when_to_use =
     ''When the campaign has a hand-tuned script.'',
   mt_system_prompt = text_lines
     [''CUSTOM CONVERSATION PATTERN'',
      ''Follow the campaign's script faithfully. Adapt only when the customer's'',
      ''response makes the next scripted line nonsensical. When in doubt, ask one'',
      ''clarifying question and return to the script.''],
   mt_stages = [],
   mt_priority_signals = [],
   mt_common_objections = []\<rparr>"

definition worker_METHODOLOGIES :: "methodology dict" where
  "worker_METHODOLOGIES = [(''consultative'', worker_CONSULTATIVE), (''spin'', worker_SPIN),
     (''bant'', worker_BANT), (''meddpicc'', worker_MEDDPICC), (''value_based'', worker_VALUE_BASED),
     (''custom'', worker_CUSTOM)]"

definition get_methodology_section :: "string \<Rightarrow> string" where
  "get_methodology_section key =
     (case map_of worker_METHODOLOGIES key of None \<Rightarrow> [] | Some m \<Rightarrow> strip (mt_system_prompt m))"

lemma unknown_methodology:
  "key \<notin> fst ` set worker_METHODOLOGIES \<Longrightarrow> get_methodology_section key = []"
  by (simp add: get_methodology_section_def map_of_eq_None_iff [symmetric])

end
