(* ===== verification/Prompt_Builder.thy ===== *)
theory Prompt_Builder
  imports Methodologies Humanize
begin

text \<open>
  \<open>prompt_builder.py\<close>: the system prompt of a call. The default template is a list of tokens in the
  order of the source: its text, the expressions it prints and the conditional blocks, each of
  whose tags is written with a leading minus. \<open>make_env\<close> sets \<open>trim_blocks\<close>: a tag of a block eats
  the newline after it, and the minus eats all white space before it; the newline at the end of
  the template is dropped. An undefined value is None; a value prints as \<open>str\<close> makes it.
\<close>

section \<open>The helpers the template calls\<close>

definition bullet :: "string \<Rightarrow> string" where
  "bullet s = ''- '' @ s"

fun render_sections :: "(pyval \<Rightarrow> string) \<Rightarrow> pyval \<Rightarrow> string" where
  "render_sections rp v =
     (if \<not> truthy v then []
      else case v of
        PStr s \<Rightarrow> s
      | PList xs \<Rightarrow> join nl (map (\<lambda>s. bullet (py_str rp s)) xs)
      | PDict d \<Rightarrow> join nl (map (\<lambda>(k, x). bullet (k @ '': '' @ py_str rp x)) d)
      | _ \<Rightarrow> py_str rp v)"

fun render_objections :: "(pyval \<Rightarrow> string) \<Rightarrow> pyval \<Rightarrow> string" where
  "render_objections rp v =
     (if \<not> truthy v then []
      else case v of
        PList xs \<Rightarrow> join nl (map (\<lambda>s. bullet (py_str rp s)) xs)
      | PDict d \<Rightarrow> join nl (map (\<lambda>(q, a). bullet (''If they say '' @ dq @ q @ dq @ '': '' @ py_str rp a)) d)
      | _ \<Rightarrow> py_str rp v)"

text \<open>The next two raise \<open>AttributeError\<close> on what has no \<open>get\<close> or no \<open>strip\<close>, which is None here.\<close>

definition tool_description :: "(pyval \<Rightarrow> string) \<Rightarrow> pyval \<Rightarrow> string option" where
  "tool_description rp t =
     (case t of
        PDict d \<Rightarrow>
          (case dget_or d ''function'' t of
             PDict f \<Rightarrow>
               (case dget_or f ''description'' (PStr []) of
                  PStr desc \<Rightarrow> Some (bullet (py_str rp (dget_or f ''name'' (PStr ''?'')) @ '': '' @ strip desc))
                | _ \<Rightarrow> None)
           | _ \<Rightarrow> None)
      | _ \<Rightarrow> None)"

definition render_tool_descriptions :: "(pyval \<Rightarrow> string) \<Rightarrow> pyval list \<Rightarrow> string option" where
  "render_tool_descriptions rp ts =
     (if ts = [] then Some ''(none)'' else map_option (join nl) (those (map (tool_description rp) ts)))"

text \<open>An example with an empty side is left out, and its number with it.\<close>

definition example_lines :: "nat \<times> pyval \<Rightarrow> string list option" where
  "example_lines ie =
     (case snd ie of
        PDict d \<Rightarrow>
          (case (py_or (dget d ''user'') (PStr []), py_or (dget d ''agent'') (PStr [])) of
             (PStr u, PStr a) \<Rightarrow>
               Some (if strip u = [] \<or> strip a = [] then []
                     else [''Example '' @ str_int (int (fst ie)) @ '':'', ''  Customer: '' @ strip u,
                           ''  You:      '' @ strip a])
           | _ \<Rightarrow> None)
      | _ \<Rightarrow> None)"

definition render_few_shot :: "pyval list \<Rightarrow> string option" where
  "render_few_shot examples =
     map_option (\<lambda>ls. join nl (concat ls)) (those (map example_lines (List.enumerate 1 examples)))"

section \<open>The context\<close>

record prompt_context =
  px_persona :: "pyval dict"
  px_lead :: "pyval dict"
  px_campaign :: "pyval dict"
  px_script :: "pyval dict"
  px_objections :: pyval
  px_additional_guidelines :: pyval
  px_disclosure_response :: pyval
  px_kb_enabled :: bool
  px_tools :: "pyval list"
  px_methodology :: string
  px_objective :: string
  px_few_shot :: "pyval list"

text \<open>What \<open>render\<close> is given; no caller sets \<open>max_response_words\<close>, which is 30.\<close>

definition prompt_vars :: "prompt_context \<Rightarrow> pyval dict" where
  "prompt_vars px =
     [(''persona'', PDict (px_persona px)), (''lead'', PDict (px_lead px)),
      (''campaign'', PDict (px_campaign px)), (''script'', PDict (px_script px)),
      (''objections'', px_objections px), (''additional_guidelines'', px_additional_guidelines px),
      (''disclosure_response'', px_disclosure_response px), (''max_response_words'', PInt 30),
      (''kb_enabled'', PBool (px_kb_enabled px)), (''tools'', PList (px_tools px)),
      (''methodology'', PStr (px_methodology px)),
      (''methodology_section'', PStr (get_methodology_section (px_methodology px))),
      (''campaign_objective'', PStr (px_objective px)),
      (''few_shot_examples'', PList (px_few_shot px))]"

section \<open>The template\<close>

datatype jexpr =
    JVar string
  | JDot string string
  | JDefault jexpr pyval
  | JCall string jexpr

datatype jtoken =
    JText string
  | JOut jexpr
  | JIf jexpr
  | JEndif

definition DEFAULT_SYSTEM_PROMPT :: "jtoken list" where
  "DEFAULT_SYSTEM_PROMPT =
    [JText ''You are '', JOut (JDefault (JDot ''persona'' ''name'') (PStr ''an AI assistant'')),
     JText '', '', JOut (JDefault (JDot ''persona'' ''description'') (PStr ''a helpful agent on a phone call'')),
     JText (''.'' @ nl @ ''You are calling ''), JOut (JDefault (JDot ''lead'' ''name'') (PStr ''the customer'')),
     JText '' regarding '',
     JOut (JDefault (JDot ''campaign'' ''purpose'') (PStr (''today'' @ apostrophe @ ''s outreach''))),
     JText (''.'' @ nl @ nl @ ''GUIDELINES:'' @ nl @
       ''- Speak naturally and conversationally. You are on a phone call.'' @ nl @
       ''- Keep responses under ''),
     JOut (JDefault (JVar ''max_response_words'') (PInt 30)),
     JText ('' words unless explaining something complex.'' @ nl @
       ''- Listen to the customer. Acknowledge what they say before responding.'' @ nl @
       ''- If asked '' @ dq @ ''are you a robot/AI/human'' @ dq @ '', respond honestly: '' @ dq),
     JOut (JVar ''disclosure_response''), JText (dq @ nl),
     JIf (JVar ''additional_guidelines''), JText (nl @ ''- ''), JOut (JVar ''additional_guidelines''), JText nl,
     JEndif, JText (nl @ nl),
     JIf (JVar ''methodology_section''), JText (nl @ nl), JOut (JVar ''methodology_section''), JText nl,
     JEndif, JText (nl @ nl),
     JIf (JVar ''campaign_objective''), JText (nl @ nl @ ''CAMPAIGN OBJECTIVE: ''),
     JOut (JVar ''campaign_objective''), JText nl,
     JEndif, JText (nl @ nl @ ''CONVERSATION FLOW:'' @ nl),
     JOut (JDefault (JDot ''script'' ''opening'') (PStr [])), JText nl,
     JIf (JDot ''script'' ''sections''), JText nl, JOut (JCall ''render_sections'' (JDot ''script'' ''sections'')), JText nl,
     JEndif, JText nl,
     JOut (JDefault (JDot ''script'' ''closing'') (PStr [])), JText (nl @ nl),
     JIf (JVar ''objections''), JText (nl @ nl @ ''OBJECTION HANDLING:'' @ nl),
     JOut (JCall ''render_objections'' (JVar ''objections'')), JText nl,
     JEndif, JText (nl @ nl),
     JIf (JVar ''few_shot_examples''),
     JText (nl @ nl @ ''EXAMPLES OF EXCHANGES THAT WORKED ON THIS CAMPAIGN'' @ nl @
       ''(mined from your own previous successful calls '' @ em_dash @ '' match this tone and rhythm):'' @ nl),
     JOut (JCall ''render_few_shot'' (JVar ''few_shot_examples'')), JText nl,
     JEndif, JText (nl @ nl),
     JIf (JVar ''kb_enabled''), JText (nl @ nl @ ''KNOWLEDGE BASE:'' @ nl @
       ''You have access to the search_kb tool for product/policy questions.'' @ nl),
     JEndif, JText (nl @ nl @ ''OUTCOMES:'' @ nl @
       ''You can use these tools to end or transfer the call:'' @ nl),
     JOut (JCall ''render_tool_descriptions'' (JVar ''tools'')), JText nl]"

text \<open>The white space around the tags, as the environment of \<open>make_env\<close> treats it.\<close>

definition drop_newline :: "string \<Rightarrow> string" where
  "drop_newline s = (case s of c # cs \<Rightarrow> if [c] = nl then cs else s | [] \<Rightarrow> [])"

fun is_tag :: "jtoken \<Rightarrow> bool" where
  "is_tag (JIf e) = True"
| "is_tag JEndif = True"
| "is_tag (JText s) = False"
| "is_tag (JOut e) = False"

fun trim_tags :: "jtoken list \<Rightarrow> jtoken list" where
  "trim_tags (JText s # t # ts) = JText (if is_tag t then rstrip s else s) # trim_tags (t # ts)"
| "trim_tags [JText s] = [JText (rev (drop_newline (rev s)))]"
| "trim_tags (t # JText s # ts) =
     t # trim_tags (JText (if is_tag t then drop_newline s else s) # ts)"
| "trim_tags (t # ts) = t # trim_tags ts"
| "trim_tags [] = []"

text \<open>Evaluation. \<open>ChainableUndefined\<close>: an attribute of something that has none is undefined, and
  an undefined value prints as nothing and is false; the helpers take it for no value. The blocks
  of the template are not nested, so a flag says whether its text counts.\<close>

fun jeval :: "pyval dict \<Rightarrow> jexpr \<Rightarrow> pyval option" where
  "jeval env (JVar x) = map_of env x"
| "jeval env (JDot x f) = (case map_of env x of Some (PDict d) \<Rightarrow> map_of d f | _ \<Rightarrow> None)"
| "jeval env (JDefault e v) = (case jeval env e of None \<Rightarrow> Some v | Some x \<Rightarrow> Some x)"
| "jeval env (JCall f e) = None"

definition value_or_none :: "pyval option \<Rightarrow> pyval" where
  "value_or_none v = (case v of None \<Rightarrow> PNone | Some x \<Rightarrow> x)"

definition as_list :: "pyval \<Rightarrow> pyval list" where
  "as_list v = (case v of PList xs \<Rightarrow> xs | _ \<Rightarrow> [])"

definition call_global :: "(pyval \<Rightarrow> string) \<Rightarrow> string \<Rightarrow> pyval \<Rightarrow> string option" where
  "call_global rp f v =
     (if f = ''render_sections'' then Some (render_sections rp v)
      else if f = ''render_objections'' then Some (render_objections rp v)
      else if f = ''render_tool_descriptions'' then render_tool_descriptions rp (as_list v)
      else if f = ''render_few_shot'' then render_few_shot (as_list v)
      else None)"

fun jprint :: "(pyval \<Rightarrow> string) \<Rightarrow> pyval dict \<Rightarrow> jexpr \<Rightarrow> string option" where
  "jprint rp env (JCall f e) = call_global rp f (value_or_none (jeval env e))"
| "jprint rp env e = Some (case jeval env e of None \<Rightarrow> [] | Some v \<Rightarrow> py_str rp v)"

fun jrender :: "(pyval \<Rightarrow> string) \<Rightarrow> pyval dict \<Rightarrow> bool \<Rightarrow> jtoken list \<Rightarrow> string option" where
  "jrender rp env on [] = Some []"
| "jrender rp env on (JText s # ts) =
     (if on then map_option (\<lambda>r. s @ r) (jrender rp env on ts) else jrender rp env on ts)"
| "jrender rp env on (JOut e # ts) =
     (if on then Option.bind (jprint rp env e) (\<lambda>s. map_option (\<lambda>r. s @ r) (jrender rp env on ts))
      else jrender rp env on ts)"
| "jrender rp env on (JIf e # ts) = jrender rp env (truthy (value_or_none (jeval env e))) ts"
| "jrender rp env on (JEndif # ts) = jrender rp env True ts"

definition build_system_prompt :: "(pyval \<Rightarrow> string) \<Rightarrow> prompt_context \<Rightarrow> string option" where
  "build_system_prompt rp px =
     map_option strip (jrender rp (prompt_vars px) True (trim_tags DEFAULT_SYSTEM_PROMPT))"

section \<open>The rendered prompt\<close>

definition printed :: "(pyval \<Rightarrow> string) \<Rightarrow> pyval dict \<Rightarrow> string \<Rightarrow> string \<Rightarrow> string" where
  "printed rp d k dflt = (case map_of d k of None \<Rightarrow> dflt | Some v \<Rightarrow> py_str rp v)"

definition block :: "bool \<Rightarrow> string \<Rightarrow> string" where
  "block b s = (if b then s else [])"

definition prompt_head :: "(pyval \<Rightarrow> string) \<Rightarrow> prompt_context \<Rightarrow> string" where
  "prompt_head rp px =
     ''You are '' @ printed rp (px_persona px) ''name'' ''an AI assistant'' @ '', '' @
     printed rp (px_persona px) ''description'' ''a helpful agent on a phone call'' @
     ''.'' @ nl @ ''You are calling '' @ printed rp (px_lead px) ''name'' ''the customer'' @
     '' regarding '' @ printed rp (px_campaign px) ''purpose'' (''today'' @ apostrophe @ ''s outreach'') @
     ''.'' @ nl @ nl @ ''GUIDELINES:'' @ nl @
     ''- Speak naturally and conversationally. You are on a phone call.'' @ nl @
     ''- Keep responses under '' @ str_int 30 @ '' words unless explaining something complex.'' @ nl @
     ''- Listen to the customer. Acknowledge what they say before responding.'' @ nl @
     ''- If asked '' @ dq @ ''are you a robot/AI/human'' @ dq @ '', respond honestly: '' @ dq @
     py_str rp (px_disclosure_response px) @ dq"

definition prompt_flow :: "(pyval \<Rightarrow> string) \<Rightarrow> pyval dict \<Rightarrow> string" where
  "prompt_flow rp script = printed rp script ''opening'' [] @ render_sections rp (dget script ''sections'') @
     printed rp script ''closing'' []"

definition prompt_before :: "(pyval \<Rightarrow> string) \<Rightarrow> prompt_context \<Rightarrow> string" where
  "prompt_before rp px =
     prompt_head rp px @
     block (truthy (px_additional_guidelines px)) (''- '' @ py_str rp (px_additional_guidelines px)) @
     block (get_methodology_section (px_methodology px) \<noteq> []) (nl @ get_methodology_section (px_methodology px)) @
     block (px_objective px \<noteq> []) (nl @ ''CAMPAIGN OBJECTIVE: '' @ px_objective px) @
     nl @ ''CONVERSATION FLOW:'' @ nl"

definition prompt_after :: "(pyval \<Rightarrow> string) \<Rightarrow> prompt_context \<Rightarrow> string \<Rightarrow> string \<Rightarrow> string" where
  "prompt_after rp px few tools =
     block (truthy (px_objections px)) (nl @ ''OBJECTION HANDLING:'' @ nl @ render_objections rp (px_objections px)) @
     block (px_few_shot px \<noteq> [])
       (nl @ ''EXAMPLES OF EXCHANGES THAT WORKED ON THIS CAMPAIGN'' @ nl @
        ''(mined from your own previous successful calls '' @ em_dash @ '' match this tone and rhythm):'' @ nl @ few) @
     block (px_kb_enabled px) (nl @ ''KNOWLEDGE BASE:'' @ nl @
       ''You have access to the search_kb tool for product/policy questions.'') @
     nl @ ''OUTCOMES:'' @ nl @ ''You can use these tools to end or transfer the call:'' @ nl @ tools"

lemma jrender_if_var:
  assumes "jprint rp env x = Some s"
  shows "jrender rp env True (JIf e # JText a # JOut x # JText b # JEndif # ts) =
     map_option (\<lambda>r. block (truthy (value_or_none (jeval env e))) (a @ s @ b) @ r) (jrender rp env True ts)"
  using assms by (cases "jrender rp env True ts") (simp_all add: block_def)

lemma jrender_if_text:
  "jrender rp env True (JIf e # JText a # JEndif # ts) =
     map_option (\<lambda>r. block (truthy (value_or_none (jeval env e))) a @ r) (jrender rp env True ts)"
  by (cases "jrender rp env True ts") (simp_all add: block_def)

lemma block_simps [simp]: "block True s = s" "block False s = []" "block b [] = []"
  by (simp_all add: block_def)

lemma few_shot_nothing: "render_few_shot [] = Some []"
  by (simp add: render_few_shot_def)

lemmas trim_defs = DEFAULT_SYSTEM_PROMPT_def rstrip_def is_space_def drop_newline_def nl_def dq_def apostrophe_def
  em_dash_def

lemma trim_template:
  "trim_tags DEFAULT_SYSTEM_PROMPT =
    [JText ''You are '', JOut (JDefault (JDot ''persona'' ''name'') (PStr ''an AI assistant'')),
     JText '', '', JOut (JDefault (JDot ''persona'' ''description'') (PStr ''a helpful agent on a phone call'')),
     JText (''.'' @ nl @ ''You are calling ''), JOut (JDefault (JDot ''lead'' ''name'') (PStr ''the customer'')),
     JText '' regarding '',
     JOut (JDefault (JDot ''campaign'' ''purpose'') (PStr (''today'' @ apostrophe @ ''s outreach''))),
     JText (''.'' @ nl @ nl @ ''GUIDELINES:'' @ nl @
       ''- Speak naturally and conversationally. You are on a phone call.'' @ nl @
       ''- Keep responses under ''),
     JOut (JDefault (JVar ''max_response_words'') (PInt 30)),
     JText ('' words unless explaining something complex.'' @ nl @
       ''- Listen to the customer. Acknowledge what they say before responding.'' @ nl @
       ''- If asked '' @ dq @ ''are you a robot/AI/human'' @ dq @ '', respond honestly: '' @ dq),
     JOut (JVar ''disclosure_response''), JText dq,
     JIf (JVar ''additional_guidelines''), JText ''- '', JOut (JVar ''additional_guidelines''), JText [],
     JEndif, JText [],
     JIf (JVar ''methodology_section''), JText nl, JOut (JVar ''methodology_section''), JText [],
     JEndif, JText [],
     JIf (JVar ''campaign_objective''), JText (nl @ ''CAMPAIGN OBJECTIVE: ''),
     JOut (JVar ''campaign_objective''), JText [],
     JEndif, JText (nl @ ''CONVERSATION FLOW:'' @ nl),
     JOut (JDefault (JDot ''script'' ''opening'') (PStr [])), JText [],
     JIf (JDot ''script'' ''sections''), JText [], JOut (JCall ''render_sections'' (JDot ''script'' ''sections'')), JText [],
     JEndif, JText [],
     JOut (JDefault (JDot ''script'' ''closing'') (PStr [])), JText [],
     JIf (JVar ''objections''), JText (nl @ ''OBJECTION HANDLING:'' @ nl),
     JOut (JCall ''render_objections'' (JVar ''objections'')), JText [],
     JEndif, JText [],
     JIf (JVar ''few_shot_examples''),
     JText (nl @ ''EXAMPLES OF EXCHANGES THAT WORKED ON THIS CAMPAIGN'' @ nl @
       ''(mined from your own previous successful calls '' @ em_dash @ '' match this tone and rhythm):'' @ nl),
     JOut (JCall ''render_few_shot'' (JVar ''few_shot_examples'')), JText [],
     JEndif, JText [],
     JIf (JVar ''kb_enabled''), JText (nl @ ''KNOWLEDGE BASE:'' @ nl @
       ''You have access to the search_kb tool for product/policy questions.''),
     JEndif, JText (nl @ ''OUTCOMES:'' @ nl @
       ''You can use these tools to end or transfer the call:'' @ nl),
     JOut (JCall ''render_tool_descriptions'' (JVar ''tools'')), JText []]"
  by (simp add: trim_defs)

lemma prompt_vars_lookup:
  "map_of (prompt_vars px) ''persona'' = Some (PDict (px_persona px))"
  "map_of (prompt_vars px) ''lead'' = Some (PDict (px_lead px))"
  "map_of (prompt_vars px) ''campaign'' = Some (PDict (px_campaign px))"
  "map_of (prompt_vars px) ''script'' = Some (PDict (px_script px))"
  "map_of (prompt_vars px) ''objections'' = Some (px_objections px)"
  "map_of (prompt_vars px) ''additional_guidelines'' = Some (px_additional_guidelines px)"
  "map_of (prompt_vars px) ''disclosure_response'' = Some (px_disclosure_response px)"
  "map_of (prompt_vars px) ''max_response_words'' = Some (PInt 30)"
  "map_of (prompt_vars px) ''kb_enabled'' = Some (PBool (px_kb_enabled px))"
  "map_of (prompt_vars px) ''tools'' = Some (PList (px_tools px))"
  "map_of (prompt_vars px) ''methodology_section'' = Some (PStr (get_methodology_section (px_methodology px)))"
  "map_of (prompt_vars px) ''campaign_objective'' = Some (PStr (px_objective px))"
  "map_of (prompt_vars px) ''few_shot_examples'' = Some (PList (px_few_shot px))"
  by (simp_all add: prompt_vars_def)

lemma call_globals:
  "call_global rp ''render_sections'' v = Some (render_sections rp v)"
  "call_global rp ''render_objections'' v = Some (render_objections rp v)"
  "call_global rp ''render_tool_descriptions'' v = render_tool_descriptions rp (as_list v)"
  "call_global rp ''render_few_shot'' v = render_few_shot (as_list v)"
  by (simp_all add: call_global_def)

lemma print_default:
  "(case (case map_of d k of None \<Rightarrow> Some (PStr s) | Some x \<Rightarrow> Some x) of None \<Rightarrow> [] | Some v \<Rightarrow> py_str rp v) =
     printed rp d k s"
  by (simp add: printed_def split: option.split)

lemma sections_value: "(case map_of d k of None \<Rightarrow> PNone | Some x \<Rightarrow> x) = dget d k"
  by (simp add: dget_def)

lemma block_sections: "block (truthy v) (render_sections rp v) = render_sections rp v"
  by (simp add: block_def)

lemma jrender_few_shot:
  "jrender rp (prompt_vars px) True (JIf (JVar ''few_shot_examples'') # JText a #
       JOut (JCall ''render_few_shot'' (JVar ''few_shot_examples'')) # JText [] # JEndif # ts) =
     Option.bind (render_few_shot (px_few_shot px))
       (\<lambda>s. map_option (\<lambda>r. block (px_few_shot px \<noteq> []) (a @ s) @ r) (jrender rp (prompt_vars px) True ts))"
  by (cases "jrender rp (prompt_vars px) True ts"; cases "render_few_shot (px_few_shot px)"; cases "px_few_shot px = []")
     (simp_all add: prompt_vars_lookup call_globals as_list_def value_or_none_def few_shot_nothing)

text \<open>The rendering for any wording of the template, then for its own.\<close>

lemma jrender_shape:
  "jrender rp (prompt_vars px) True
    [JText a1, JOut (JDefault (JDot ''persona'' ''name'') (PStr d1)),
     JText a2, JOut (JDefault (JDot ''persona'' ''description'') (PStr d2)),
     JText a3, JOut (JDefault (JDot ''lead'' ''name'') (PStr d3)),
     JText a4, JOut (JDefault (JDot ''campaign'' ''purpose'') (PStr d4)),
     JText a5, JOut (JDefault (JVar ''max_response_words'') n), JText a6,
     JOut (JVar ''disclosure_response''), JText a7,
     JIf (JVar ''additional_guidelines''), JText a8, JOut (JVar ''additional_guidelines''), JText [],
     JEndif, JText [],
     JIf (JVar ''methodology_section''), JText a9, JOut (JVar ''methodology_section''), JText [],
     JEndif, JText [],
     JIf (JVar ''campaign_objective''), JText a10, JOut (JVar ''campaign_objective''), JText [],
     JEndif, JText a11,
     JOut (JDefault (JDot ''script'' ''opening'') (PStr [])), JText [],
     JIf (JDot ''script'' ''sections''), JText [], JOut (JCall ''render_sections'' (JDot ''script'' ''sections'')), JText [],
     JEndif, JText [],
     JOut (JDefault (JDot ''script'' ''closing'') (PStr [])), JText [],
     JIf (JVar ''objections''), JText a12, JOut (JCall ''render_objections'' (JVar ''objections'')), JText [],
     JEndif, JText [],
     JIf (JVar ''few_shot_examples''), JText a13, JOut (JCall ''render_few_shot'' (JVar ''few_shot_examples'')), JText [],
     JEndif, JText [],
     JIf (JVar ''kb_enabled''), JText a14,
     JEndif, JText a15, JOut (JCall ''render_tool_descriptions'' (JVar ''tools'')), JText []] =
   Option.bind (render_few_shot (px_few_shot px)) (\<lambda>few.
   map_option (\<lambda>tools. a1 @ printed rp (px_persona px) ''name'' d1 @ a2 @
     printed rp (px_persona px) ''description'' d2 @ a3 @ printed rp (px_lead px) ''name'' d3 @ a4 @
     printed rp (px_campaign px) ''purpose'' d4 @ a5 @ str_int 30 @ a6 @ py_str rp (px_disclosure_response px) @ a7 @
     block (truthy (px_additional_guidelines px)) (a8 @ py_str rp (px_additional_guidelines px)) @
     block (get_methodology_section (px_methodology px) \<noteq> []) (a9 @ get_methodology_section (px_methodology px)) @
     block (px_objective px \<noteq> []) (a10 @ px_objective px) @ a11 @
     prompt_flow rp (px_script px) @
     block (truthy (px_objections px)) (a12 @ render_objections rp (px_objections px)) @
     block (px_few_shot px \<noteq> []) (a13 @ few) @
     block (px_kb_enabled px) a14 @ a15 @ tools) (render_tool_descriptions rp (px_tools px)))"
  by (cases "render_few_shot (px_few_shot px)"; cases "render_tool_descriptions rp (px_tools px)")
     (simp_all add: jrender_if_var jrender_if_text jrender_few_shot prompt_vars_lookup call_globals
       print_default sections_value block_sections as_list_def value_or_none_def prompt_flow_def
       del: jrender.simps(4) render_sections.simps render_objections.simps)

lemma build_system_prompt_eq:
  "build_system_prompt rp px =
     Option.bind (render_few_shot (px_few_shot px)) (\<lambda>few.
     map_option (\<lambda>tools. strip (prompt_before rp px @ prompt_flow rp (px_script px) @ prompt_after rp px few tools))
       (render_tool_descriptions rp (px_tools px)))"
  unfolding build_system_prompt_def trim_template jrender_shape prompt_before_def prompt_head_def prompt_after_def
  by (cases "render_few_shot (px_few_shot px)"; cases "render_tool_descriptions rp (px_tools px)")
     (simp_all only: append_assoc Option.bind.simps option.map)

text \<open>What the tags leave in the middle of the prompt: the opening, the sections and the closing, with
  nothing between them. Stripping the prompt does not reach that far.\<close>

lemma rstrip_append:
  "rstrip (s @ t) = (if \<forall>c\<in>set t. is_space c then rstrip s else s @ rstrip t)"
proof (cases "\<forall>c\<in>set t. is_space c")
  case True
  then have "dropWhile is_space (rev t @ rev s) = dropWhile is_space (rev s)"
    by (intro dropWhile_append2) simp
  then show ?thesis using True by (simp add: rstrip_def)
next
  case False
  then obtain c where "c \<in> set (rev t)" "\<not> is_space c" by auto
  then show ?thesis using False by (auto simp: rstrip_def dropWhile_append1)
qed

lemma strip_keeps_middle:
  assumes "\<not> is_space c" "\<not> is_space d"
  shows "strip ((c # s) @ t @ d # u) = (c # s) @ t @ rstrip (d # u)"
proof -
  have "lstrip ((c # s) @ t @ d # u) = (c # s) @ t @ d # u" using assms by (simp add: lstrip_def)
  moreover have "rstrip ((c # s @ t) @ d # u) = (c # s @ t) @ rstrip (d # u)"
    using assms by (subst rstrip_append) auto
  ultimately show ?thesis by (simp add: strip_def)
qed

lemma prompt_parts:
  assumes "build_system_prompt rp px = Some p"
  obtains c where "p = prompt_before rp px @ prompt_flow rp (px_script px) @ c"
proof -
  obtain few tools where p: "p = strip (prompt_before rp px @ prompt_flow rp (px_script px) @ prompt_after rp px few tools)"
    using assms by (auto simp: build_system_prompt_eq Option.bind_eq_Some_conv)
  obtain x y where x: "prompt_before rp px = CHR ''Y'' # x"
    by (simp add: prompt_before_def prompt_head_def)
  obtain a b where y: "prompt_after rp px few tools = a @ CHR ''O'' # b"
    unfolding prompt_after_def by (metis append_Cons append_assoc)
  have "p = (CHR ''Y'' # x) @ (prompt_flow rp (px_script px) @ a) @ rstrip (CHR ''O'' # b)"
    unfolding p x y using strip_keeps_middle [of "CHR ''Y''" "CHR ''O''" x "prompt_flow rp (px_script px) @ a" b]
    by (simp add: is_space_def)
  then show thesis using that x by simp
qed

text \<open>The two helpers that can fail: on what pools, and on which tools.\<close>

definition text_or_falsy :: "pyval \<Rightarrow> bool" where
  "text_or_falsy v = (case v of PStr s \<Rightarrow> True | _ \<Rightarrow> \<not> truthy v)"

definition example_ok :: "pyval \<Rightarrow> bool" where
  "example_ok ex = (case ex of PDict d \<Rightarrow> text_or_falsy (dget d ''user'') \<and> text_or_falsy (dget d ''agent'') | _ \<Rightarrow> False)"

lemma those_None_iff: "those xs = None \<longleftrightarrow> None \<in> set xs"
  by (induction xs) (auto split: option.splits)

lemma py_or_text: "text_or_falsy v \<longleftrightarrow> (\<exists>s. py_or v (PStr []) = PStr s)"
  by (cases v) (auto simp: text_or_falsy_def py_or_def)

lemma example_lines_ok: "example_lines (i, ex) = None \<longleftrightarrow> \<not> example_ok ex"
proof (cases ex)
  case (PDict d)
  then show ?thesis
    by (cases "py_or (dget d ''user'') (PStr [])"; cases "py_or (dget d ''agent'') (PStr [])")
       (simp_all add: example_lines_def example_ok_def py_or_text)
qed (simp_all add: example_lines_def example_ok_def)

lemma render_few_shot_None: "render_few_shot es = None \<longleftrightarrow> \<not> list_all example_ok es"
proof -
  have "None \<in> example_lines ` set (List.enumerate n es) \<longleftrightarrow> \<not> list_all example_ok es" for n
    by (induction es arbitrary: n) (auto simp: example_lines_ok eq_commute [of None])
  then show ?thesis by (simp add: render_few_shot_def those_None_iff)
qed

definition described :: "string \<times> string \<Rightarrow> string" where
  "described nd = bullet (fst nd @ '': '' @ snd nd)"

lemma describe_schema:
  "tool_description rp (tool_schema name desc params req) = Some (described (name, strip desc))"
  by (simp add: tool_description_def tool_schema_def described_def dget_or_def)

lemma schemas_render: "\<exists>t. render_tool_descriptions rp TOOL_SCHEMAS = Some t"
  by (simp add: render_tool_descriptions_def TOOL_SCHEMAS_def describe_schema)

text \<open>The test of the module, whose assertions look for each bullet in the prompt, passes on it.\<close>

definition sam_context :: prompt_context where
  "sam_context =
     \<lparr>px_persona = [(''name'', PStr ''Sam''), (''description'', PStr ''a friendly outreach agent'')],
      px_lead = [(''name'', PStr ''Pat Doe'')], px_campaign = [(''purpose'', PStr ''scheduling a quick demo'')],
      px_script = [(''opening'', PStr ''Hi, this is Sam.''),
        (''sections'', PList [PStr ''confirm interest'', PStr ''book demo'']),
        (''closing'', PStr ''Thanks for your time.'')],
      px_objections = PDict [(''too busy'', PStr ''I can keep this short.'')],
      px_additional_guidelines = PStr [], px_disclosure_response = PStr DEFAULT_DISCLOSURE,
      px_kb_enabled = False, px_tools = TOOL_SCHEMAS, px_methodology = [], px_objective = [], px_few_shot = []\<rparr>"

text \<open>
  the opening, the sections and the closing of the script stand in the prompt with nothing
  between them. The template writes them on three lines, but its tags eat the newlines: the
  closing goes on the line of the last section, or of the opening when there are no sections.
\<close>

lemma script_runs_together:
  assumes "build_system_prompt rp px = Some p"
    and "map_of (px_script px) ''opening'' = Some (PStr opening)"
    and "map_of (px_script px) ''closing'' = Some (PStr closing)"
  shows "\<exists>a b. p = a @ ''CONVERSATION FLOW:'' @ nl @ opening @
     render_sections rp (dget (px_script px) ''sections'') @ closing @ b"
proof -
  obtain b where p: "p = prompt_before rp px @ prompt_flow rp (px_script px) @ b"
    using prompt_parts [OF assms(1)] by blast
  obtain a where a: "prompt_before rp px = a @ ''CONVERSATION FLOW:'' @ nl"
    unfolding prompt_before_def by (metis append_assoc)
  show ?thesis
    unfolding p a by (intro exI [of _ a] exI [of _ b]) (simp add: prompt_flow_def printed_def assms(2,3))
qed

lemma script_runs_together_witness:
  "\<exists>a b. build_system_prompt (\<lambda>_. []) sam_context = Some (a @ ''CONVERSATION FLOW:'' @ nl @
     ''Hi, this is Sam.- confirm interest'' @ nl @ ''- book demoThanks for your time.'' @ b)"
proof -
  obtain p where p: "build_system_prompt (\<lambda>_. []) sam_context = Some p"
    using schemas_render [of "\<lambda>_. []"]
    by (auto simp: build_system_prompt_eq sam_context_def few_shot_nothing)
  have "map_of (px_script sam_context) ''opening'' = Some (PStr ''Hi, this is Sam.'')"
    "map_of (px_script sam_context) ''closing'' = Some (PStr ''Thanks for your time.'')"
    "render_sections (\<lambda>_. []) (dget (px_script sam_context) ''sections'') =
       ''- confirm interest'' @ nl @ ''- book demo''"
    by (simp_all add: sam_context_def dget_def bullet_def)
  with script_runs_together [OF p this(1,2)] p show ?thesis by auto
qed

end
