(* ===== verification/Call_Session.thy ===== *)
theory Call_Session
  imports Conversation Recorder Transcript Prompt_Builder
begin

text \<open>
  \<open>call_session.py\<close>: the job a worker takes from Redis, the agent and campaign it loads, and the
  tasks of a call with their shared queues and events. A step of the session is one round of
  one task, the state what the tasks share; the interleaving is arbitrary, so a run is any
  sequence of steps. Once the call-ended event is set \<open>run\<close> cancels every task, so no step is
  taken after it, and \<open>cleanup\<close> is what \<open>__aexit__\<close> then does.

  A turn of the conversation is one step, up to the wait for the speech queue, whose polls are
  steps of their own; a TTS response is one step per chunk.
\<close>

section \<open>Jobs\<close>

record call_job =
  cj_call_id :: string
  cj_deployment_id :: string
  cj_sip_socket_path :: string
  cj_vici_uniqueid :: pyval
  cj_vici_lead_id :: pyval
  cj_phone_number :: pyval
  cj_campaign :: pyval

text \<open>\<open>raw.get(a) or raw.get(b) or last\<close>.\<close>

definition get_first :: "pyval dict \<Rightarrow> string list \<Rightarrow> pyval \<Rightarrow> pyval" where
  "get_first d ks last_resort = foldr (\<lambda>k v. py_or (dget d k) v) ks last_resort"

definition job_of_dict :: "(pyval \<Rightarrow> string) \<Rightarrow> pyval dict \<Rightarrow> call_job" where
  "job_of_dict rp raw =
     \<lparr>cj_call_id = py_str rp (get_first raw [''call_id'', ''id''] (PStr [])),
      cj_deployment_id = py_str rp (get_first raw [''deployment_id''] (PStr [])),
      cj_sip_socket_path = py_str rp (get_first raw [''sip_socket_path'', ''socket_path''] (PStr [])),
      cj_vici_uniqueid = get_first raw [''vici_uniqueid''] PNone,
      cj_vici_lead_id = get_first raw [''vici_lead_id''] PNone,
      cj_phone_number = get_first raw [''phone_number'', ''vici_phone''] PNone,
      cj_campaign = get_first raw [''campaign'', ''vici_campaign''] PNone\<rparr>"

text \<open>\<open>from_payload\<close> on a decoded payload: a string is parsed first, anything that then is not an
  object has no \<open>get\<close>.\<close>

definition from_payload :: "(string \<Rightarrow> pyval option) \<Rightarrow> (pyval \<Rightarrow> string) \<Rightarrow> pyval \<Rightarrow> py_exn + call_job" where
  "from_payload loads rp raw =
     (case (case raw of PStr s \<Rightarrow> loads s | v \<Rightarrow> Some v) of
        None \<Rightarrow> Inl ValueErr
      | Some (PDict d) \<Rightarrow> Inr (job_of_dict rp d)
      | Some _ \<Rightarrow> Inl AttributeErr)"

section \<open>Agent and campaign\<close>

record agent_config =
  ag_agent_id :: string
  ag_name :: string
  ag_persona :: "pyval dict"
  ag_voice_id :: "string option"
  ag_language :: string
  ag_script :: "pyval dict"
  ag_scenario_tree :: "pyval dict"
  ag_kb_collection_id :: "string option"
  ag_campaign_id :: "string option"

record campaign_config =
  cc_campaign_id :: string
  cc_name :: string
  cc_methodology :: string
  cc_objective :: string
  cc_persona_template :: "pyval dict"
  cc_script_template :: "pyval dict"
  cc_few_shot_pool :: "pyval list"

text \<open>The columns of the two queries, NULL as None; the JSON columns hold objects and a list.\<close>

record agent_row =
  rw_id :: string
  rw_name :: string
  rw_persona :: "pyval dict option"
  rw_voice_id :: "string option"
  rw_language :: "string option"
  rw_script :: "pyval dict option"
  rw_scenario_tree :: "pyval dict option"
  rw_kb_collection_id :: "string option"
  rw_agent_campaign :: "string option"
  rw_deployment_campaign :: "string option"

record campaign_row =
  cw_id :: string
  cw_name :: "string option"
  cw_methodology :: "string option"
  cw_objective :: "string option"
  cw_persona_template :: "pyval dict option"
  cw_script_template :: "pyval dict option"
  cw_few_shot_pool :: "pyval list option"

definition opt_list :: "'a list option \<Rightarrow> 'a list" where
  "opt_list x = (case x of None \<Rightarrow> [] | Some xs \<Rightarrow> xs)"

definition default_agent :: agent_config where
  "default_agent = \<lparr>ag_agent_id = [], ag_name = ''aipanel agent'', ag_persona = [], ag_voice_id = None,
     ag_language = ''en'', ag_script = [], ag_scenario_tree = [], ag_kb_collection_id = None,
     ag_campaign_id = None\<rparr>"

definition agent_of_row :: "agent_row \<Rightarrow> agent_config" where
  "agent_of_row r =
     \<lparr>ag_agent_id = rw_id r, ag_name = rw_name r, ag_persona = opt_list (rw_persona r),
      ag_voice_id = str_or_none (rw_voice_id r), ag_language = opt_str_or (rw_language r) ''en'',
      ag_script = opt_list (rw_script r), ag_scenario_tree = opt_list (rw_scenario_tree r),
      ag_kb_collection_id = str_or_none (rw_kb_collection_id r),
      ag_campaign_id = str_or_none (rw_agent_campaign r)\<rparr>"

definition campaign_of_row :: "campaign_row \<Rightarrow> campaign_config" where
  "campaign_of_row r =
     \<lparr>cc_campaign_id = cw_id r, cc_name = opt_list (cw_name r),
      cc_methodology = opt_list (cw_methodology r), cc_objective = opt_list (cw_objective r),
      cc_persona_template = opt_list (cw_persona_template r),
      cc_script_template = opt_list (cw_script_template r),
      cc_few_shot_pool = opt_list (cw_few_shot_pool r)\<rparr>"

text \<open>\<open>_sync_load_agent\<close>: the row of the deployment's agent and the campaigns by id; the link
  of the deployment wins over that of the agent.\<close>

definition sync_load_agent :: "agent_row option \<Rightarrow> (string \<Rightarrow> campaign_row option) \<Rightarrow> agent_config \<times> campaign_config option" where
  "sync_load_agent row campaigns =
     (case row of
        None \<Rightarrow> (default_agent, None)
      | Some r \<Rightarrow>
          (let agent = agent_of_row r;
               campaign_id = opt_str_or (rw_deployment_campaign r) (opt_list (rw_agent_campaign r))
           in if campaign_id = [] then (agent, None)
              else (agent, map_option campaign_of_row (campaigns campaign_id))))"

text \<open>\<open>load_agent\<close>: a database error gives the default agent.\<close>

definition load_agent :: "bool \<Rightarrow> agent_row option \<Rightarrow> (string \<Rightarrow> campaign_row option) \<Rightarrow> agent_config \<times> campaign_config option" where
  "load_agent db_ok row campaigns = (if db_ok then sync_load_agent row campaigns else (default_agent, None))"

text \<open>The loop of \<open>setdefault\<close>s that puts a template under the agent's own values.\<close>

definition setdefault :: "string \<times> pyval \<Rightarrow> pyval dict \<Rightarrow> pyval dict" where
  "setdefault kv d = (if fst kv \<in> fst ` set d then d else d @ [kv])"

definition merge_under :: "pyval dict \<Rightarrow> pyval dict \<Rightarrow> pyval dict" where
  "merge_under own template = fold setdefault template own"

definition prompt_context_of :: "call_job \<Rightarrow> lead \<Rightarrow> agent_config \<Rightarrow> campaign_config option \<Rightarrow> prompt_context" where
  "prompt_context_of job ld agent campaign =
     (let persona = (case campaign of None \<Rightarrow> ag_persona agent
                     | Some c \<Rightarrow> merge_under (ag_persona agent) (cc_persona_template c));
          script = (case campaign of None \<Rightarrow> ag_script agent
                     | Some c \<Rightarrow> merge_under (ag_script agent) (cc_script_template c))
      in \<lparr>px_persona = persona,
          px_lead = [(''name'', ld_name ld), (''phone_number'', ld_phone_number ld), (''email'', ld_email ld)],
          px_campaign = [(''purpose'', py_or (cj_campaign job) (PStr (''today'' @ apostrophe @ ''s outreach'')))],
          px_script = script,
          px_objections = dget script ''objections'',
          px_additional_guidelines = dget_or persona ''guidelines'' (PStr []),
          px_disclosure_response = dget_or persona ''disclosure_response'' (PStr DEFAULT_DISCLOSURE),
          px_kb_enabled = (str_or_none (ag_kb_collection_id agent) \<noteq> None),
          px_tools = TOOL_SCHEMAS,
          px_methodology = (case campaign of None \<Rightarrow> [] | Some c \<Rightarrow> cc_methodology c),
          px_objective = (case campaign of None \<Rightarrow> [] | Some c \<Rightarrow> cc_objective c),
          px_few_shot = (case campaign of None \<Rightarrow> [] | Some c \<Rightarrow> cc_few_shot_pool c)\<rparr>)"

text \<open>\<open>_pick_opener\<close>: the opener may be any JSON value the script holds in its list.\<close>

definition session_opener :: "agent_config \<Rightarrow> draw \<Rightarrow> pyval" where
  "session_opener agent d =
     (case py_or (dget (ag_script agent) ''openings'') (dget (ag_script agent) ''opening'') of
        PStr s \<Rightarrow> PStr s
      | PList (x # xs) \<Rightarrow> choice d (x # xs)
      | _ \<Rightarrow> PStr [])"

definition http_to_ws :: "string \<Rightarrow> string" where
  "http_to_ws url =
     (if startswith url ''https://'' then ''wss://'' @ drop 8 url
      else if startswith url ''http://'' then ''ws://'' @ drop 7 url
      else url)"

section \<open>The session\<close>

record session_env =
  sv_conv :: conv_env
  sv_settings :: conv_settings
  sv_ctx :: tool_ctx
  sv_stt :: stt_env
  sv_barge :: barge_cfg

text \<open>The call-ended event, the speech queue and the transcript queue are those of the
  conversation state. \<open>sn_sent\<close> are the frames written to the SIP socket, \<open>sn_tts\<close> the bytes
  left over of the response being streamed, \<open>sn_drain\<close> the polls left of a terminal turn. A
  task that died of an exception is recorded by its flag.\<close>

record session =
  sn_conv :: conv
  sn_out :: audio_out
  sn_in :: audio_in
  sn_rec :: "recorder option"
  sn_sent :: "(int \<times> bytes) list"
  sn_tts :: "bytes option"
  sn_drain :: "nat option"
  sn_last_partial :: "rat option"
  sn_reader_dead :: bool
  sn_conv_dead :: bool
  sn_stt_dead :: bool

definition sn_ended :: "session \<Rightarrow> bool" where
  "sn_ended sn = cv_call_ended (sn_conv sn)"

definition set_ended :: "session \<Rightarrow> session" where
  "set_ended sn = sn\<lparr>sn_conv := (sn_conv sn)\<lparr>cv_call_ended := True\<rparr>\<rparr>"

definition new_session :: "bool \<Rightarrow> conv \<Rightarrow> session" where
  "new_session recording_enabled c =
     \<lparr>sn_conv = c, sn_out = ao_init, sn_in = ai_init,
      sn_rec = (if recording_enabled then Some (rec_open new_recorder) else None),
      sn_sent = [], sn_tts = None, sn_drain = None, sn_last_partial = None,
      sn_reader_dead = False, sn_conv_dead = False, sn_stt_dead = False\<rparr>"

text \<open>One frame in \<open>_sip_read_loop\<close>.\<close>

definition on_sip_frame :: "session_env \<Rightarrow> int \<Rightarrow> bytes \<Rightarrow> session \<Rightarrow> session" where
  "on_sip_frame env ftype payload sn =
     (if ftype = FRAME_AUDIO_IN then
        sn\<lparr>sn_in := feed payload (sn_in sn), sn_rec := map_option (write_inbound payload) (sn_rec sn)\<rparr>
      else if ftype = FRAME_HANGUP then set_ended sn
      else if ftype = FRAME_DTMF then
        sn\<lparr>sn_conv := write_event (sv_ctx env) ''dtmf''
             [(''digit'', PStr (ascii_decode payload))] (sn_conv sn)\<rparr>
      else sn)"

text \<open>One frame in \<open>_sip_write_loop\<close>; \<open>ok\<close> is whether the socket took it.\<close>

definition on_sip_write :: "bool \<Rightarrow> bytes \<Rightarrow> bytes list \<Rightarrow> session \<Rightarrow> session" where
  "on_sip_write ok f fs sn =
     (let sn1 = sn\<lparr>sn_out := (sn_out sn)\<lparr>ao_frames := fs\<rparr>\<rparr> in
      if ok then sn1\<lparr>sn_sent := sn_sent sn @ [(FRAME_AUDIO_OUT, f)],
                     sn_rec := map_option (write_outbound f) (sn_rec sn)\<rparr>
      else set_ended sn1)"

text \<open>One partial in \<open>_barge_in_loop\<close>.\<close>

definition on_partial :: "session_env \<Rightarrow> stt_partial \<Rightarrow> stt_partial list \<Rightarrow> session \<Rightarrow> session" where
  "on_partial env p ps sn =
     (let (cancel, lp) = barge_in_round (sv_barge env)
            (Some (pa_text p, pa_stability p, pa_received_at p, ao_speaking (sn_out sn))) (sn_last_partial sn);
          sn1 = sn\<lparr>sn_in := (sn_in sn)\<lparr>ai_partials := ps\<rparr>, sn_last_partial := lp\<rparr>
      in if cancel
         then sn1\<lparr>sn_out := barge_in_audio (sn_out sn1), sn_conv := write_event (sv_ctx env) ''barge_in''
                   [(''partial_text'', PStr (pa_text p))] (sn_conv sn1)\<rparr>
         else sn1)"

text \<open>One final in the conversation loop, up to the drain.\<close>

definition on_final :: "session_env \<Rightarrow> stt_final \<Rightarrow> stt_final list \<Rightarrow> session \<Rightarrow> session" where
  "on_final env f fs sn =
     (let (out, c) = turn_core (sv_conv env) (sv_settings env) (sv_ctx env) f (sn_conv sn);
          sn1 = sn\<lparr>sn_in := (sn_in sn)\<lparr>ai_finals := fs\<rparr>, sn_conv := c\<rparr>
      in case out of
           TurnNext \<Rightarrow> sn1
         | TurnDrain \<Rightarrow> sn1\<lparr>sn_drain := Some 60\<rparr>
         | TurnReturn \<Rightarrow> sn1
         | TurnRaise exn \<Rightarrow> sn1\<lparr>sn_conv_dead := True\<rparr>)"

text \<open>The start of an utterance, and a chunk of its response.\<close>

definition on_speech_start :: "speech_request \<Rightarrow> speech_request list \<Rightarrow> session \<Rightarrow> session" where
  "on_speech_start req rs sn =
     (let o1 = (sn_out sn)\<lparr>ao_cancel := False, ao_speaking := True\<rparr>
      in sn\<lparr>sn_conv := (sn_conv sn)\<lparr>cv_speech := rs\<rparr>, sn_out := o1, sn_tts := Some []\<rparr>)"

definition tts_finish :: "session \<Rightarrow> session" where
  "tts_finish sn = sn\<lparr>sn_out := (sn_out sn)\<lparr>ao_speaking := False\<rparr>, sn_tts := None\<rparr>"

definition on_tts_chunk :: "bytes \<Rightarrow> bytes \<Rightarrow> session \<Rightarrow> session" where
  "on_tts_chunk leftover c sn =
     (if ao_cancel (sn_out sn) \<or> ao_stop (sn_out sn) then tts_finish sn
      else let (fs, rest) = chunk_frames (leftover @ c)
           in sn\<lparr>sn_out := fold enqueue_frame fs (sn_out sn), sn_tts := Some rest\<rparr>)"

definition on_tts_end :: "bytes \<Rightarrow> session \<Rightarrow> session" where
  "on_tts_end leftover sn =
     tts_finish (if leftover \<noteq> [] then sn\<lparr>sn_out := enqueue_frame (pad_frame leftover) (sn_out sn)\<rparr> else sn)"

datatype session_event =
    SipFrame int bytes | SipEof | SipReset
  | SipWrite bool
  | SttMessage rat string
  | PartialRound | QuietRound
  | FinalRound
  | DrainPoll
  | SpeechStart | TtsChunkIn bytes | TtsEnd | TtsBroken

text \<open>The steps. A task takes its step only while the call has not ended and while it is alive:
  \<open>read_frame\<close> lets every exception but the end of the stream through, and the reader task is
  gone without ending the call.\<close>

inductive session_step :: "session_env \<Rightarrow> session \<Rightarrow> session_event \<Rightarrow> session \<Rightarrow> bool"
  for env :: session_env where
  sip_frame: "\<not> sn_ended sn \<Longrightarrow> \<not> sn_reader_dead sn \<Longrightarrow>
     session_step env sn (SipFrame t p) (on_sip_frame env t p sn)"
| sip_eof: "\<not> sn_ended sn \<Longrightarrow> \<not> sn_reader_dead sn \<Longrightarrow> session_step env sn SipEof (set_ended sn)"
| sip_reset: "\<not> sn_ended sn \<Longrightarrow> \<not> sn_reader_dead sn \<Longrightarrow>
     session_step env sn SipReset (sn\<lparr>sn_reader_dead := True\<rparr>)"
| sip_write: "\<not> sn_ended sn \<Longrightarrow> ao_frames (sn_out sn) = f # fs \<Longrightarrow>
     session_step env sn (SipWrite ok) (on_sip_write ok f fs sn)"
| stt_message: "\<not> sn_ended sn \<Longrightarrow> \<not> sn_stt_dead sn \<Longrightarrow>
     recv_msg (sv_stt env) now m (sn_in sn) = (exn, ai) \<Longrightarrow>
     session_step env sn (SttMessage now m) (sn\<lparr>sn_in := ai, sn_stt_dead := (exn \<noteq> None)\<rparr>)"
| partial_round: "\<not> sn_ended sn \<Longrightarrow> ai_partials (sn_in sn) = p # ps \<Longrightarrow>
     session_step env sn PartialRound (on_partial env p ps sn)"
| quiet_round: "\<not> sn_ended sn \<Longrightarrow> ai_partials (sn_in sn) = [] \<Longrightarrow>
     session_step env sn QuietRound (sn\<lparr>sn_last_partial := None\<rparr>)"
| final_round: "\<not> sn_ended sn \<Longrightarrow> \<not> sn_conv_dead sn \<Longrightarrow> sn_drain sn = None \<Longrightarrow>
     ai_finals (sn_in sn) = f # fs \<Longrightarrow> session_step env sn FinalRound (on_final env f fs sn)"
| drain_done: "\<not> sn_ended sn \<Longrightarrow> sn_drain sn = Some n \<Longrightarrow> n = 0 \<or> cv_speech (sn_conv sn) = [] \<Longrightarrow>
     session_step env sn DrainPoll (set_ended sn)"
| drain_poll: "\<not> sn_ended sn \<Longrightarrow> sn_drain sn = Some (Suc n) \<Longrightarrow> cv_speech (sn_conv sn) \<noteq> [] \<Longrightarrow>
     session_step env sn DrainPoll (sn\<lparr>sn_drain := Some n\<rparr>)"
| speech_start: "\<not> sn_ended sn \<Longrightarrow> sn_tts sn = None \<Longrightarrow> cv_speech (sn_conv sn) = r # rs \<Longrightarrow>
     session_step env sn SpeechStart (on_speech_start r rs sn)"
| tts_chunk: "\<not> sn_ended sn \<Longrightarrow> sn_tts sn = Some b \<Longrightarrow>
     session_step env sn (TtsChunkIn c) (on_tts_chunk b c sn)"
| tts_end: "\<not> sn_ended sn \<Longrightarrow> sn_tts sn = Some b \<Longrightarrow> session_step env sn TtsEnd (on_tts_end b sn)"
| tts_broken: "\<not> sn_ended sn \<Longrightarrow> sn_tts sn = Some b \<Longrightarrow> session_step env sn TtsBroken (tts_finish sn)"

inductive session_run :: "session_env \<Rightarrow> session \<Rightarrow> session_event list \<Rightarrow> session \<Rightarrow> bool"
  for env :: session_env where
  run_nil: "session_run env sn [] sn"
| run_snoc: "session_run env sn es sn1 \<Longrightarrow> session_step env sn1 e sn2 \<Longrightarrow>
     session_run env sn (es @ [e]) sn2"

inductive_cases session_stepE [elim]: "session_step env sn e sn'"

section \<open>Setup\<close>

text \<open>\<open>_await_call_context\<close>: what \<open>read_frame\<close> yields within five seconds. A foreign call id is
  only logged; the result is the exception raised, if any.\<close>

datatype first_frame = FirstTimeout | FirstClosed | FirstFrame int bytes

definition await_call_context :: "(bytes \<Rightarrow> pyval option) \<Rightarrow> first_frame \<Rightarrow> string option" where
  "await_call_context loads fr =
     (case fr of
        FirstTimeout \<Rightarrow> None
      | FirstClosed \<Rightarrow> Some ''RuntimeError''
      | FirstFrame ftype payload \<Rightarrow>
          if ftype \<noteq> FRAME_CONTROL then None
          else (case loads payload of
                  None \<Rightarrow> None
                | Some (PDict ctx) \<Rightarrow> None
                | Some _ \<Rightarrow> Some ''AttributeError''))"

text \<open>\<open>__aenter__\<close>: what it finds outside, and the session it leaves or the exception. The system
  prompt may fail to render, on which the call is lost; an opener that is not text is not modelled.\<close>

record setup_env =
  su_connects :: bool
  su_loads :: "bytes \<Rightarrow> pyval option"
  su_first :: first_frame
  su_db_ok :: bool
  su_agent :: "agent_row option"
  su_campaigns :: "string \<Rightarrow> campaign_row option"
  su_recording_enabled :: bool
  su_recorder_opens :: bool
  su_repr :: "pyval \<Rightarrow> string"
  su_opener_draw :: draw

definition session_enter :: "session_env \<Rightarrow> setup_env \<Rightarrow> call_job \<Rightarrow> string + session" where
  "session_enter env su job =
     (if \<not> su_connects su then Inl ''RuntimeError''
      else case await_call_context (su_loads su) (su_first su) of
        Some exn \<Rightarrow> Inl exn
      | None \<Rightarrow>
          (let (agent, campaign) = load_agent (su_db_ok su) (su_agent su) (su_campaigns su);
               (ld, ts) = get_lead (ce_tools (sv_conv env)) (cj_vici_lead_id job) (tc_vici (sv_ctx env))
                            (cv_tools conv_init)
           in case ld of
                Inl exn \<Rightarrow> Inl exn
              | Inr l \<Rightarrow>
                  if su_recording_enabled su \<and> \<not> su_recorder_opens su then Inl ''OSError''
                  else
                    case build_system_prompt (su_repr su) (prompt_context_of job l agent campaign) of
                      None \<Rightarrow> Inl ''AttributeError''
                    | Some prompt \<Rightarrow>
                        let c1 = set_system_prompt prompt (conv_init\<lparr>cv_tools := ts\<rparr>);
                            c2 = (case session_opener agent (su_opener_draw su) of
                                    PStr t \<Rightarrow> enqueue_opener (sv_conv env) (sv_settings env) (sv_ctx env) t c1
                                  | _ \<Rightarrow> c1)
                        in Inr (new_session (su_recording_enabled su) c2)))"

text \<open>The prompt of a call fails on a malformed example of the campaign, and on nothing else.\<close>

lemma call_prompt_None:
  "build_system_prompt rp (prompt_context_of job l agent c) = None \<longleftrightarrow>
     (case c of None \<Rightarrow> False | Some k \<Rightarrow> \<not> list_all example_ok (cc_few_shot_pool k))"
proof -
  obtain t where t: "render_tool_descriptions rp TOOL_SCHEMAS = Some t" using schemas_render by blast
  have "build_system_prompt rp (prompt_context_of job l agent c) = None \<longleftrightarrow>
     render_few_shot (px_few_shot (prompt_context_of job l agent c)) = None"
    by (cases "render_few_shot (px_few_shot (prompt_context_of job l agent c))")
       (simp_all add: build_system_prompt_eq t prompt_context_of_def Let_def)
  then show ?thesis
    by (cases c) (simp_all add: render_few_shot_None prompt_context_of_def Let_def)
qed

section \<open>Cleanup\<close>

definition classify_outcome :: "tool_result option \<Rightarrow> string" where
  "classify_outcome t =
     (case t of None \<Rightarrow> ''abandoned''
      | Some r \<Rightarrow> if \<not> tr_success r then ''error'' else tr_name r)"

definition final_dispo :: "tool_result option \<Rightarrow> string" where
  "final_dispo t = (case t of None \<Rightarrow> ''ABANDON'' | Some r \<Rightarrow> tr_dispo_code r)"

definition final_notes :: "tool_result option \<Rightarrow> pyval" where
  "final_notes t = (case t of None \<Rightarrow> PStr [] | Some r \<Rightarrow> dget_or (tr_extra r) ''reason'' (PStr []))"

text \<open>What the outside does during the cleanup: whether the socket takes the last frame, whether
  MinIO is configured and takes the file, and whether the local copy can be removed.\<close>

record cleanup_env =
  cl_write_ok :: bool
  cl_minio :: bool
  cl_put_ok :: bool
  cl_unlink_ok :: bool
  cl_bucket :: string
  cl_duration_sec :: int

record cleaned =
  cn_sent :: "(int \<times> bytes) list"
  cn_requests :: "(string \<times> string \<times> pyval dict) list"
  cn_recording :: "bytes option"
  cn_recording_path :: string
  cn_outcome :: string
  cn_dispo :: string
  cn_duration_sec :: int

definition recording_remote :: "cleanup_env \<Rightarrow> call_job \<Rightarrow> recorder option \<Rightarrow> string" where
  "recording_remote ce job rc =
     (case rc of
        None \<Rightarrow> []
      | Some r \<Rightarrow>
          (let (present, _) = rec_close r;
               key = cj_deployment_id job @ ''/'' @ cj_call_id job @ ''.wav''
           in if \<not> present \<or> \<not> cl_minio ce then []
              else (case fst (upload_recording True present (cl_put_ok ce) True (cl_unlink_ok ce) key) of
                      None \<Rightarrow> []
                    | Some k \<Rightarrow> if k = [] then [] else ''s3://'' @ cl_bucket ce @ ''/'' @ k)))"

definition cleanup :: "session_env \<Rightarrow> cleanup_env \<Rightarrow> call_job \<Rightarrow> session \<Rightarrow> cleaned" where
  "cleanup env ce job sn =
     (let t = cv_terminal (sn_conv sn);
          sent = (if cl_write_ok ce then sn_sent sn @ [(FRAME_HANGUP, [])] else sn_sent sn);
          (_, ts) = post_disposition (ce_tools (sv_conv env)) (cj_call_id job)
             (cj_vici_uniqueid job) (final_dispo t) (final_notes t) (tc_vici (sv_ctx env)) (cv_tools (sn_conv sn))
      in \<lparr>cn_sent = sent, cn_requests = ts_requests ts,
          cn_recording = map_option (\<lambda>r. rc_written (snd (rec_close r))) (sn_rec sn),
          cn_recording_path = recording_remote ce job (sn_rec sn),
          cn_outcome = classify_outcome t, cn_dispo = final_dispo t,
          cn_duration_sec = max 0 (cl_duration_sec ce)\<rparr>)"

text \<open>The audio the caller sent in a run.\<close>

fun sip_audio :: "session_event list \<Rightarrow> bytes" where
  "sip_audio [] = []"
| "sip_audio (SipFrame t p # es) = (if t = FRAME_AUDIO_IN then p @ sip_audio es else sip_audio es)"
| "sip_audio (_ # es) = sip_audio es"

definition sent_audio :: "(int \<times> bytes) list \<Rightarrow> bytes" where
  "sent_audio fs = concat (map snd fs)"

section \<open>Lemmas\<close>

lemma setdefault_map: "map_of (setdefault kv d) = (case map_of d (fst kv) of None \<Rightarrow> (map_of d)(fst kv \<mapsto> snd kv) | Some _ \<Rightarrow> map_of d)"
  by (cases kv) (auto simp: setdefault_def map_of_append map_add_def fun_eq_iff image_iff
      split: option.splits dest: map_of_SomeD weak_map_of_SomeI)

lemma merge_under_map:
  "map_of (merge_under own template) k = (case map_of own k of Some v \<Rightarrow> Some v | None \<Rightarrow> map_of template k)"
  unfolding merge_under_def
  by (induction template arbitrary: own) (auto simp: setdefault_map split: option.splits)

lemma sip_audio_snoc:
  "sip_audio (es @ [e]) = sip_audio es @ sip_audio [e]"
  by (induction es rule: sip_audio.induct) auto

lemma sent_audio_snoc: "sent_audio (fs @ [f]) = sent_audio fs @ snd f"
  by (simp add: sent_audio_def)

definition terminal_fine :: "tool_result option \<Rightarrow> bool" where
  "terminal_fine t = (case t of None \<Rightarrow> True
     | Some r \<Rightarrow> r = error_result \<or> (tr_is_terminal r \<and> result_ok (tr_name r) r))"

text \<open>The invariant: the playout queue is bounded, only audio has been sent, the recorder is in
  step with the two directions so far, and a terminal result is only there when the conversation
  is draining, dead or over, and is then a well-formed one.\<close>

definition session_inv :: "session_event list \<Rightarrow> session \<Rightarrow> bool" where
  "session_inv es sn \<longleftrightarrow>
     length (ao_frames (sn_out sn)) \<le> FRAMES_OUT_MAX \<and>
     (\<forall>f \<in> set (sn_sent sn). fst f = FRAME_AUDIO_OUT) \<and>
     (\<forall>r. sn_rec sn = Some r \<longrightarrow> rec_inv (sip_audio es) (sent_audio (sn_sent sn)) r) \<and>
     terminal_fine (cv_terminal (sn_conv sn)) \<and>
     (\<not> sn_ended sn \<longrightarrow> \<not> sn_conv_dead sn \<longrightarrow> sn_drain sn = None \<longrightarrow> cv_terminal (sn_conv sn) = None)"

text \<open>Steps that touch only the conversation flags, the queues or the transcript keep it.\<close>

lemma session_inv_frame:
  assumes "session_inv es sn" "sip_audio [e] = []"
    "length (ao_frames (sn_out sn')) \<le> FRAMES_OUT_MAX"
    "sn_sent sn' = sn_sent sn" "sn_rec sn' = sn_rec sn"
    "cv_terminal (sn_conv sn') = cv_terminal (sn_conv sn)"
    "sn_conv_dead sn' = sn_conv_dead sn"
    "sn_drain sn' = sn_drain sn \<or> sn_drain sn' \<noteq> None"
    "sn_ended sn' \<or> \<not> sn_ended sn"
  shows "session_inv (es @ [e]) sn'"
  using assms by (auto simp: session_inv_def sip_audio_snoc)

lemma terminal_fine_of_ok: "terminal_ok t \<Longrightarrow> terminal_fine t"
  by (simp add: terminal_fine_def terminal_ok_def split: option.splits)

lemma on_final_inv:
  assumes inv: "session_inv es sn" and alive: "\<not> sn_ended sn" "\<not> sn_conv_dead sn" "sn_drain sn = None"
  shows "session_inv (es @ [FinalRound]) (on_final env f fs sn)"
proof -
  obtain out c where core: "turn_core (sv_conv env) (sv_settings env) (sv_ctx env) f (sn_conv sn) = (out, c)"
    by (cases "turn_core (sv_conv env) (sv_settings env) (sv_ctx env) f (sn_conv sn)")
  have "cv_terminal (sn_conv sn) = None" "\<not> cv_call_ended (sn_conv sn)"
    using inv alive by (simp_all add: session_inv_def sn_ended_def)
  with turn_core_ends [of "sn_conv sn" "sv_conv env" "sv_settings env" "sv_ctx env" f] core
  have ends: "ends_ok out c" by simp
  have fine: "terminal_fine (cv_terminal c)"
    using ends by (auto simp: ends_ok_def terminal_fine_def terminal_ok_def split: turn_outcome.splits option.splits)
  show ?thesis
    using inv fine ends
    by (cases out) (simp_all add: session_inv_def on_final_def core sip_audio_snoc sn_ended_def ends_ok_def)
qed

lemma recorder_in: "rec_inv a b r \<Longrightarrow> rec_inv (a @ p) b (write_inbound p r)"
  by (rule write_inbound_inv)

lemma session_step_inv:
  assumes "session_step env sn e sn'" "session_inv es sn"
  shows "session_inv (es @ [e]) sn'"
  using assms(1)
proof cases
  case (sip_frame t p)
  with assms(2) show ?thesis
    by (auto simp: session_inv_def on_sip_frame_def sip_audio_snoc set_ended_def sn_ended_def
        FRAME_AUDIO_IN_def FRAME_HANGUP_def FRAME_DTMF_def intro: recorder_in)
next
  case (sip_write f fs ok)
  have "length fs \<le> FRAMES_OUT_MAX" using sip_write(4) assms(2) by (simp add: session_inv_def)
  with sip_write assms(2) show ?thesis
    by (auto simp: session_inv_def on_sip_write_def sip_audio_snoc sent_audio_snoc set_ended_def
        sn_ended_def Let_def intro: write_outbound_inv)
next
  case (final_round f fs)
  with on_final_inv [OF assms(2)] show ?thesis by simp
next
  case (tts_chunk b c)
  have "length (ao_frames (sn_out (on_tts_chunk b c sn))) \<le> FRAMES_OUT_MAX"
    using assms(2) playout.run_bounded
    by (auto simp: session_inv_def on_tts_chunk_def tts_finish_def split_beta Let_def)
  with tts_chunk assms(2) show ?thesis
    by (intro session_inv_frame [of es sn])
      (auto simp: on_tts_chunk_def tts_finish_def sn_ended_def split_beta Let_def)
next
  case (tts_end b)
  have "length (ao_frames (sn_out (on_tts_end b sn))) \<le> FRAMES_OUT_MAX"
    using assms(2) playout.put_bounded
    by (auto simp: session_inv_def on_tts_end_def tts_finish_def)
  with tts_end assms(2) show ?thesis
    by (intro session_inv_frame [of es sn]) (auto simp: on_tts_end_def tts_finish_def sn_ended_def)
next
  case (partial_round p ps)
  with assms(2) show ?thesis
    by (intro session_inv_frame [of es sn])
      (auto simp: on_partial_def barge_in_audio_def sn_ended_def session_inv_def split_beta Let_def
        simp del: barge_in_round.simps)
qed (use assms(2) in \<open>simp_all add: sip_audio_snoc set_ended_def sn_ended_def on_speech_start_def
  tts_finish_def session_inv_def Let_def\<close>)

lemma session_run_inv:
  assumes "session_run env sn0 es sn" "session_inv [] sn0"
  shows "session_inv es sn"
  using assms by induction (auto intro: session_step_inv)

lemma new_session_inv:
  "cv_terminal c = None \<Longrightarrow> session_inv [] (new_session b c)"
  using rec_inv_open by (simp add: session_inv_def new_session_def ao_init_def terminal_fine_def sent_audio_def)

text \<open>A turn that ends the call at once is a failure of the model: the apology is queued behind
  what is already there.\<close>

lemma turn_core_ended:
  assumes "\<not> cv_call_ended c" "turn_core env st ctx f c = (out, c')" "cv_call_ended c'"
  shows "\<exists>c3. c' = llm_failed env st ctx c3 \<and> cv_speech c3 = cv_speech c"
proof (cases "fi_text f = []")
  case True
  then show ?thesis using assms by (simp add: turn_core_def)
next
  case False
  define c2 where "c2 = add_message (msg ''user'' (fi_text f)) (write_event ctx ''user_speech''
     [(''text'', PStr (fi_text f)), (''duration_ms'', PInt (fi_duration_ms f))] c)"
  let ?d = "c2\<lparr>cv_draws := Suc (cv_draws c2)\<rparr>"
  have c2: "\<not> cv_call_ended c2" "cv_speech c2 = cv_speech c" using assms(1) by (simp_all add: c2_def)
  obtain lo c3 where llm: "call_llm env st ?d = (lo, c3)" by (cases "call_llm env st ?d")
  with call_llm_simps [of env st ?d] c2
  have c3: "\<not> cv_call_ended c3" "cv_speech c3 = cv_speech c" by simp_all
  have quiet: "\<not> cv_call_ended (snd (after_response (handle_llm_response env st ctx x y c3)))" for x y
    using handle_keeps [of c3 env st ctx x y] c3(1)
    by (auto simp: after_response_def keeps_turn_def split: prod.splits option.splits)
  show ?thesis
  proof (cases "response_delay_ms (cs_delay_min st) (cs_delay_max st) (ce_draw env (cv_draws c2))")
    case None
    with False assms(2,3) c2 show ?thesis by (auto simp: turn_core_def Let_def c2_def [symmetric])
  next
    case (Some delay)
    then have core: "turn_core env st ctx f c = (case lo of
        LlmFailure k \<Rightarrow> (TurnReturn, llm_failed env st ctx c3)
      | LlmRaises exn \<Rightarrow> (TurnRaise exn, c3)
      | LlmOk x y \<Rightarrow> after_response (handle_llm_response env st ctx x y c3))"
      using False llm by (simp add: turn_core_def Let_def c2_def [symmetric])
    show ?thesis
    proof (cases lo)
      case (LlmOk x y)
      with core assms(2) have "after_response (handle_llm_response env st ctx x y c3) = (out, c')" by simp
      then have "\<not> cv_call_ended c'" using quiet [of x y] by (metis snd_conv)
      with assms(3) show ?thesis by simp
    next
      case (LlmFailure k)
      with core assms(2) c3(2) show ?thesis by auto
    next
      case (LlmRaises exn)
      with core assms(2,3) c3(1) show ?thesis by simp
    qed
  qed
qed

lemma no_step_after_end: "sn_ended sn \<Longrightarrow> \<not> session_step env sn e sn'"
  by (auto elim: session_stepE)

lemma session_step_rec:
  assumes "session_step env sn e sn'"
  shows "(sn_rec sn' = None) = (sn_rec sn = None)"
  using assms
proof cases
  case (final_round f fs)
  then show ?thesis by (simp add: on_final_def split_beta Let_def split: turn_outcome.splits)
qed (simp_all add: on_sip_frame_def set_ended_def on_sip_write_def on_partial_def on_speech_start_def
  on_tts_chunk_def on_tts_end_def tts_finish_def split_beta Let_def)

lemma session_run_rec:
  "session_run env sn0 es sn \<Longrightarrow> (sn_rec sn = None) = (sn_rec sn0 = None)"
  by (induction rule: session_run.induct) (auto dest: session_step_rec)

lemma post_disposition_sent:
  assumes "vc_enabled vc" "vc_open vc"
  shows "ts_requests (snd (post_disposition env cid u code notes vc s)) = ts_requests s @
    [(''POST'', ''/api/vici/disposition'',
      [(''call_id'', PStr cid), (''vici_uniqueid'', u), (''dispo_code'', PStr code), (''notes'', notes)])]"
  using assms by (simp add: post_disposition_def vici_post_def http_send_def split: http_reply.splits)

lemma outcome_consistent:
  assumes "terminal_fine t"
  shows "(classify_outcome t, final_dispo t)
    \<in> set ((''abandoned'', ''ABANDON'') # (''error'', ''ERROR_AI'') # DISPOSITIONS)"
proof (cases t)
  case None
  then show ?thesis by (simp add: classify_outcome_def final_dispo_def)
next
  case (Some r)
  show ?thesis
  proof (cases "r = error_result")
    case True
    with Some show ?thesis by (simp add: classify_outcome_def final_dispo_def error_result_def)
  next
    case False
    with assms Some have "tr_is_terminal r" "result_ok (tr_name r) r" by (simp_all add: terminal_fine_def)
    then have r: "tr_success r" "map_of DISPOSITIONS (tr_name r) = Some (tr_dispo_code r)"
      by (simp_all add: result_ok_def)
    with Some map_of_SomeD [OF r(2)] show ?thesis by (simp add: classify_outcome_def final_dispo_def)
  qed
qed

definition demo_env :: "(nat \<Rightarrow> pyval dict \<Rightarrow> llm_reply) \<Rightarrow> session_env" where
  "demo_env llm = \<lparr>sv_conv = demo_conv_env\<lparr>ce_llm := llm\<rparr>, sv_settings = demo_settings, sv_ctx = demo_ctx,
     sv_stt = \<lparr>se_loads = (\<lambda>_. None), se_float = (\<lambda>_. None), se_int = (\<lambda>_. None), se_repr = (\<lambda>_. [])\<rparr>,
     sv_barge = \<lparr>bg_min_words = 3, bg_min_duration_ms = 800, bg_stability_threshold = 6/10\<rparr>\<rparr>"

definition demo_job :: call_job where
  "demo_job = \<lparr>cj_call_id = ''c'', cj_deployment_id = ''d'', cj_sip_socket_path = ''/run/c.sock'',
     cj_vici_uniqueid = PStr ''17.1'', cj_vici_lead_id = PNone, cj_phone_number = PNone, cj_campaign = PNone\<rparr>"

definition demo_cleanup :: cleanup_env where
  "demo_cleanup = \<lparr>cl_write_ok = True, cl_minio = False, cl_put_ok = False, cl_unlink_ok = False,
     cl_bucket = ''b'', cl_duration_sec = 3\<rparr>"

section \<open>Properties\<close>



text \<open>
  C25: every call is reported once, and consistently: whatever happened in it, the cleanup sends
  the session manager exactly one disposition, and outcome and disposition are a pair the rest of
  the system knows: abandoned, AI error, or one terminal tool with its own code.
\<close>

theorem call_reported_once:
  assumes "session_run env (new_session b c) es sn" and "cv_terminal c = None"
    and "vc_enabled (tc_vici (sv_ctx env))" and "vc_open (tc_vici (sv_ctx env))"
  shows "\<exists>code notes. cn_requests (cleanup env ce job sn) = ts_requests (cv_tools (sn_conv sn)) @
      [(''POST'', ''/api/vici/disposition'',
        [(''call_id'', PStr (cj_call_id job)), (''vici_uniqueid'', cj_vici_uniqueid job),
         (''dispo_code'', PStr code), (''notes'', notes)])] \<and>
      (cn_outcome (cleanup env ce job sn), code)
        \<in> set ((''abandoned'', ''ABANDON'') # (''error'', ''ERROR_AI'') # DISPOSITIONS)"
proof -
  have "session_inv es sn" using session_run_inv [OF assms(1) new_session_inv [OF assms(2)]] .
  then have "terminal_fine (cv_terminal (sn_conv sn))" by (simp add: session_inv_def)
  from outcome_consistent [OF this] post_disposition_sent [OF assms(3,4)] show ?thesis
    by (intro exI [of _ "final_dispo (cv_terminal (sn_conv sn))"]
        exI [of _ "final_notes (cv_terminal (sn_conv sn))"])
      (simp add: cleanup_def split_beta Let_def)
qed

theorem call_reported_once_witness:
  "\<exists>code notes. cn_requests (cleanup (demo_env (\<lambda>_ _. LlmTimeout)) demo_cleanup demo_job
      (set_ended (new_session False conv_init))) = [] @
      [(''POST'', ''/api/vici/disposition'',
        [(''call_id'', PStr ''c''), (''vici_uniqueid'', PStr ''17.1''),
         (''dispo_code'', PStr code), (''notes'', notes)])] \<and>
      (cn_outcome (cleanup (demo_env (\<lambda>_ _. LlmTimeout)) demo_cleanup demo_job
        (set_ended (new_session False conv_init))), code)
        \<in> set ((''abandoned'', ''ABANDON'') # (''error'', ''ERROR_AI'') # DISPOSITIONS)"
proof -
  let ?e = "demo_env (\<lambda>_ _. LlmTimeout)" and ?sn = "set_ended (new_session False conv_init)"
  have "session_step ?e (new_session False conv_init) SipEof ?sn"
    by (rule session_step.sip_eof) (simp_all add: new_session_def sn_ended_def conv_init_def)
  then have run: "session_run ?e (new_session False conv_init) ([] @ [SipEof]) ?sn"
    by (rule run_snoc [OF run_nil])
  have "ts_requests (cv_tools (sn_conv ?sn)) = []"
    by (simp add: set_ended_def new_session_def conv_init_def)
  moreover have "\<exists>code notes. cn_requests (cleanup ?e demo_cleanup demo_job ?sn)
      = ts_requests (cv_tools (sn_conv ?sn)) @
      [(''POST'', ''/api/vici/disposition'',
        [(''call_id'', PStr (cj_call_id demo_job)), (''vici_uniqueid'', cj_vici_uniqueid demo_job),
         (''dispo_code'', PStr code), (''notes'', notes)])] \<and>
      (cn_outcome (cleanup ?e demo_cleanup demo_job ?sn), code)
        \<in> set ((''abandoned'', ''ABANDON'') # (''error'', ''ERROR_AI'') # DISPOSITIONS)"
    by (rule call_reported_once [OF run]) (simp_all add: demo_env_def demo_ctx_def conv_init_def)
  ultimately show ?thesis by (simp only: demo_job_def call_job.simps)
qed

text \<open>
  the apology is never heard: when the language model fails, the turn queues the spoken
  apology and sets the call-ended event in the same step, after which no task takes a step, so
  the frames on the wire are those sent before, and the hangup.
\<close>

lemma apology_unheard:
  assumes "session_step env sn FinalRound sn'" and "sn_ended sn'"
    and "length (cv_speech (sn_conv sn)) < SPEECH_QUEUE_MAX" and "cl_write_ok ce"
  shows "(\<exists>req. cv_speech (sn_conv sn') = cv_speech (sn_conv sn) @ [req] \<and> sp_text req = FALLBACK_APOLOGY) \<and>
    (\<forall>e sn''. \<not> session_step env sn' e sn'') \<and>
    cn_sent (cleanup env ce job sn') = sn_sent sn @ [(FRAME_HANGUP, [])]"
  using assms(1)
proof cases
  case (final_round f fs)
  obtain out c where core: "turn_core (sv_conv env) (sv_settings env) (sv_ctx env) f (sn_conv sn) = (out, c)"
    by (cases "turn_core (sv_conv env) (sv_settings env) (sv_ctx env) f (sn_conv sn)")
  have conv: "sn_conv sn' = c" "sn_sent sn' = sn_sent sn"
    unfolding final_round(1) using core
    by (simp_all add: on_final_def Let_def split: turn_outcome.splits)
  then obtain c3 where c3: "c = llm_failed (sv_conv env) (sv_settings env) (sv_ctx env) c3"
    "cv_speech c3 = cv_speech (sn_conv sn)"
    using turn_core_ended [OF _ core] assms(2) final_round(2) by (auto simp: sn_ended_def)
  have "FALLBACK_APOLOGY \<noteq> []" by (simp add: FALLBACK_APOLOGY_def)
  with c3 assms(3) have "\<exists>req. cv_speech c = cv_speech (sn_conv sn) @ [req] \<and> sp_text req = FALLBACK_APOLOGY"
    by (simp add: llm_failed_def enqueue_speech_def Let_def)
  with conv assms(4) no_step_after_end [OF assms(2)] show ?thesis
    by (simp add: cleanup_def split_beta Let_def)
qed

lemma apology_unheard_witness:
  "\<exists>sn'. cn_sent (cleanup (demo_env (\<lambda>_ _. LlmTimeout)) demo_cleanup demo_job sn') = [(FRAME_HANGUP, [])]"
proof -
  let ?e = "demo_env (\<lambda>_ _. LlmTimeout)"
  let ?f = "\<lparr>fi_text = ''hi'', fi_duration_ms = 300, fi_received_at = 1\<rparr>"
  define sn where "sn = (new_session False conv_init)\<lparr>sn_in := ai_init\<lparr>ai_finals := [?f]\<rparr>\<rparr>"
  have step: "session_step ?e sn FinalRound (on_final ?e ?f [] sn)"
    by (rule session_step.final_round)
      (simp_all add: sn_def new_session_def sn_ended_def conv_init_def ai_init_def)
  have ended: "sn_ended (on_final ?e ?f [] sn)"
    by (simp add: on_final_def turn_core_def demo_env_def demo_settings_def demo_conv_env_def
        response_delay_ms_def randint_def call_llm_def llm_failed_def sn_ended_def split_beta Let_def)
  have "(\<exists>req. cv_speech (sn_conv (on_final ?e ?f [] sn)) = cv_speech (sn_conv sn) @ [req]
        \<and> sp_text req = FALLBACK_APOLOGY) \<and>
    (\<forall>e sn''. \<not> session_step ?e (on_final ?e ?f [] sn) e sn'') \<and>
    cn_sent (cleanup ?e demo_cleanup demo_job (on_final ?e ?f [] sn)) = sn_sent sn @ [(FRAME_HANGUP, [])]"
    by (rule apology_unheard [OF step ended])
      (simp_all add: sn_def new_session_def conv_init_def SPEECH_QUEUE_MAX_def demo_cleanup_def)
  moreover have "sn_sent sn = []" by (simp add: sn_def new_session_def)
  ultimately show ?thesis by (intro exI [of _ "on_final ?e ?f [] sn"]) simp
qed

end
