(* ===== verification/Worker_Main.thy ===== *)
theory Worker_Main
  imports Call_Session
begin

text \<open>
  \<open>workers/src/aipanel_worker/main.py\<close>: the supervisor that pulls jobs, reserves them in Redis
  and runs at most \<open>concurrency\<close> calls, for a fleet of workers that share the reservation keys.
  A pull is what the two Redis calls answered; Redis payloads are the strings of their UTF-8
  decoding. A worker's tasks are the ids of the calls it runs.
\<close>

section \<open>Jobs\<close>

text \<open>\<open>_decode\<close>: None for what is not JSON, and for \<open>null\<close>, which the caller cannot tell
  apart.\<close>

definition decode :: "(string \<Rightarrow> pyval option) \<Rightarrow> string \<Rightarrow> pyval option" where
  "decode loads payload = (case loads payload of Some PNone \<Rightarrow> None | r \<Rightarrow> r)"

definition decode_stream_fields :: "string dict \<Rightarrow> pyval" where
  "decode_stream_fields kvs = PDict (map (\<lambda>kv. (fst kv, PStr (snd kv))) kvs)"

text \<open>\<open>next_job\<close>: the list wins; the stream is only read when \<open>brpop\<close> timed out or failed.\<close>

definition next_job :: "(string \<Rightarrow> pyval option) \<Rightarrow> string option \<Rightarrow> string dict option \<Rightarrow> pyval option" where
  "next_job loads brpop xread =
     (case brpop of
        Some payload \<Rightarrow> decode loads payload
      | None \<Rightarrow> (case xread of None \<Rightarrow> None | Some kvs \<Rightarrow> Some (decode_stream_fields kvs)))"

section \<open>One worker\<close>

record worker =
  wk_permits :: nat
  wk_active :: "string list"
  wk_shutting_down :: bool
  wk_crashed :: bool

definition new_worker :: "nat \<Rightarrow> worker" where
  "new_worker concurrency = \<lparr>wk_permits = concurrency, wk_active = [], wk_shutting_down = False, wk_crashed = False\<rparr>"

text \<open>\<open>_reserve\<close> and \<open>_release\<close> on the shared keys \<open>calls:active:<id>\<close>; None is the RedisError of
  \<open>SET NX\<close>, which \<open>_reserve\<close> does not catch.\<close>

definition reserve :: "bool \<Rightarrow> string \<Rightarrow> string set \<Rightarrow> (bool \<times> string set) option" where
  "reserve up call_id keys =
     (if \<not> up then None else if call_id \<in> keys then Some (False, keys) else Some (True, insert call_id keys))"

definition release :: "string \<Rightarrow> string set \<Rightarrow> string set" where
  "release call_id keys = keys - {call_id}"

text \<open>The body of the supervisor's loop once it holds a permit: most branches give it back. An
  exception of \<open>from_payload\<close> that is not a ValueError or KeyError leaves the supervisor; its
  running calls are cancelled with the event loop, each releasing its reservation.\<close>

definition crash :: "worker \<times> string set \<Rightarrow> worker \<times> string set" where
  "crash wks = (let (w, keys) = wks in
     (w\<lparr>wk_active := [], wk_permits := wk_permits w + length (wk_active w), wk_crashed := True\<rparr>,
      keys - set (wk_active w)))"

definition take_job :: "bool \<Rightarrow> call_job \<Rightarrow> worker \<times> string set \<Rightarrow> worker \<times> string set" where
  "take_job up job wks = (let (w, keys) = wks in
     if cj_call_id job = [] \<or> cj_sip_socket_path job = [] then (w, keys)
     else (case reserve up (cj_call_id job) keys of
             None \<Rightarrow> crash (w, keys)
           | Some (False, keys1) \<Rightarrow> (w, keys1)
           | Some (True, keys1) \<Rightarrow>
               (w\<lparr>wk_permits := wk_permits w - 1, wk_active := cj_call_id job # wk_active w\<rparr>, keys1)))"

definition supervisor_round :: "(string \<Rightarrow> pyval option) \<Rightarrow> (pyval \<Rightarrow> string) \<Rightarrow> bool \<Rightarrow> pyval option \<Rightarrow> worker \<times> string set \<Rightarrow> worker \<times> string set" where
  "supervisor_round loads rp up payload wks =
     (case payload of
        None \<Rightarrow> wks
      | Some raw \<Rightarrow>
          (case from_payload loads rp raw of
             Inl ValueErr \<Rightarrow> wks
           | Inl KeyErr \<Rightarrow> wks
           | Inl _ \<Rightarrow> crash wks
           | Inr job \<Rightarrow> take_job up job wks))"

text \<open>The \<open>finally\<close> of \<open>_wrapped\<close>.\<close>

definition call_done :: "string \<Rightarrow> worker \<times> string set \<Rightarrow> worker \<times> string set" where
  "call_done call_id wks = (let (w, keys) = wks in
     (w\<lparr>wk_permits := Suc (wk_permits w), wk_active := remove1 call_id (wk_active w)\<rparr>, release call_id keys))"

section \<open>The fleet\<close>

record fleet =
  fl_workers :: "nat \<Rightarrow> worker"
  fl_keys :: "string set"

definition set_worker :: "nat \<Rightarrow> worker \<times> string set \<Rightarrow> fleet \<Rightarrow> fleet" where
  "set_worker i wks F = \<lparr>fl_workers = (fl_workers F)(i := fst wks), fl_keys = snd wks\<rparr>"

datatype fleet_event =
    Pull nat bool "string option" "string dict option"
  | Done nat string
  | Shutdown nat
  | Expire string

inductive fleet_step :: "(string \<Rightarrow> pyval option) \<Rightarrow> (pyval \<Rightarrow> string) \<Rightarrow> fleet \<Rightarrow> fleet_event \<Rightarrow> fleet \<Rightarrow> bool"
  for loads rp where
  pull: "0 < wk_permits (fl_workers F i) \<Longrightarrow> \<not> wk_shutting_down (fl_workers F i) \<Longrightarrow>
     \<not> wk_crashed (fl_workers F i) \<Longrightarrow>
     fleet_step loads rp F (Pull i up brpop xread)
       (set_worker i (supervisor_round loads rp up (next_job loads brpop xread) (fl_workers F i, fl_keys F)) F)"
| finished: "cid \<in> set (wk_active (fl_workers F i)) \<Longrightarrow>
     fleet_step loads rp F (Done i cid) (set_worker i (call_done cid (fl_workers F i, fl_keys F)) F)"
| shutdown: "fleet_step loads rp F (Shutdown i)
     (set_worker i ((fl_workers F i)\<lparr>wk_shutting_down := True\<rparr>, fl_keys F) F)"
| expire: "fleet_step loads rp F (Expire cid) (F\<lparr>fl_keys := release cid (fl_keys F)\<rparr>)"

text \<open>A reservation carries a time to live (\<open>reservation_ttl_sec\<close>, 600 s) and is not renewed. A run is
  timely if none expires while its call is still being handled.\<close>

definition timely :: "fleet \<Rightarrow> fleet_event \<Rightarrow> bool" where
  "timely F e \<longleftrightarrow> (\<forall>cid i. e = Expire cid \<longrightarrow> cid \<notin> set (wk_active (fl_workers F i)))"

inductive fleet_reach :: "(string \<Rightarrow> pyval option) \<Rightarrow> (pyval \<Rightarrow> string) \<Rightarrow> (nat \<Rightarrow> nat) \<Rightarrow> fleet \<Rightarrow> bool"
  for loads rp concurrency where
  start: "fleet_reach loads rp concurrency \<lparr>fl_workers = (\<lambda>i. new_worker (concurrency i)), fl_keys = {}\<rparr>"
| step: "fleet_reach loads rp concurrency F \<Longrightarrow> timely F e \<Longrightarrow> fleet_step loads rp F e F' \<Longrightarrow>
     fleet_reach loads rp concurrency F'"

inductive_cases fleet_stepE: "fleet_step loads rp F e F'"

section \<open>Invariant\<close>

definition worker_inv :: "nat \<Rightarrow> worker \<Rightarrow> bool" where
  "worker_inv n w \<longleftrightarrow> wk_permits w + length (wk_active w) = n \<and> distinct (wk_active w)"

definition fleet_inv :: "(nat \<Rightarrow> nat) \<Rightarrow> fleet \<Rightarrow> bool" where
  "fleet_inv concurrency F \<longleftrightarrow>
     (\<forall>i. worker_inv (concurrency i) (fl_workers F i)) \<and>
     (\<forall>i. set (wk_active (fl_workers F i)) \<subseteq> fl_keys F) \<and>
     (\<forall>i j. i \<noteq> j \<longrightarrow> set (wk_active (fl_workers F i)) \<inter> set (wk_active (fl_workers F j)) = {})"

text \<open>What one worker does to its own calls and to the keys: it adds a free id, or removes its
  own ids.\<close>

definition worker_moves :: "worker \<times> string set \<Rightarrow> worker \<times> string set \<Rightarrow> bool" where
  "worker_moves a b \<longleftrightarrow>
     (let (w, keys) = a; (w', keys') = b in
       wk_permits w' + length (wk_active w') = wk_permits w + length (wk_active w) \<and>
       distinct (wk_active w') \<and>
       ((wk_active w' = wk_active w \<and> keys' = keys) \<or>
        (\<exists>cid. cid \<notin> keys \<and> wk_active w' = cid # wk_active w \<and> keys' = insert cid keys) \<or>
        (\<exists>gone. gone \<subseteq> set (wk_active w) \<and> set (wk_active w') = set (wk_active w) - gone \<and>
           keys' = keys - gone)))"

lemma crash_moves:
  "worker_moves (w, keys) (crash (w, keys))"
  by (auto simp: worker_moves_def crash_def Let_def)

lemma take_job_moves:
  assumes "0 < wk_permits w" "distinct (wk_active w)" "set (wk_active w) \<subseteq> keys"
  shows "worker_moves (w, keys) (take_job up job (w, keys))"
  using assms crash_moves [of w keys] by (auto simp: worker_moves_def take_job_def reserve_def Let_def)

lemma round_moves:
  assumes "0 < wk_permits w" "distinct (wk_active w)" "set (wk_active w) \<subseteq> keys"
  shows "worker_moves (w, keys) (supervisor_round loads rp up payload (w, keys))"
  using take_job_moves [OF assms, of up] crash_moves [of w keys] assms(2)
  by (auto simp: supervisor_round_def worker_moves_def [of _ "(w, keys)"]
      split: option.splits sum.splits py_exn.splits)

lemma done_moves:
  assumes "cid \<in> set (wk_active w)" "distinct (wk_active w)"
  shows "worker_moves (w, keys) (call_done cid (w, keys))"
  using assms length_pos_if_in_set [OF assms(1)]
  by (auto simp: worker_moves_def call_done_def release_def length_remove1 Let_def
      intro!: exI [of _ "{cid}"])

lemma set_worker_inv:
  assumes "fleet_inv n F" "worker_moves (fl_workers F i, fl_keys F) wks"
  shows "fleet_inv n (set_worker i wks F)"
proof -
  obtain w' keys' where wks: "wks = (w', keys')" by (cases wks)
  let ?w = "fl_workers F i"
  have inv: "worker_inv (n j) (fl_workers F j)" "set (wk_active (fl_workers F j)) \<subseteq> fl_keys F"
    "j \<noteq> k \<Longrightarrow> set (wk_active (fl_workers F j)) \<inter> set (wk_active (fl_workers F k)) = {}" for j k
    using assms(1) by (auto simp: fleet_inv_def)
  have own: "worker_inv (n i) w'"
    using assms(2) inv(1) [of i] by (simp add: wks worker_moves_def worker_inv_def)
  consider (same) "wk_active w' = wk_active ?w" "keys' = fl_keys F"
    | (add) cid where "cid \<notin> fl_keys F" "wk_active w' = cid # wk_active ?w" "keys' = insert cid (fl_keys F)"
    | (del) gone where "gone \<subseteq> set (wk_active ?w)" "set (wk_active w') = set (wk_active ?w) - gone"
        "keys' = fl_keys F - gone"
    using assms(2) by (auto simp: wks worker_moves_def)
  then have sub: "set (wk_active w') \<subseteq> keys' \<and> (\<forall>j. j \<noteq> i \<longrightarrow>
      set (wk_active (fl_workers F j)) \<subseteq> keys' \<and>
      set (wk_active (fl_workers F j)) \<inter> set (wk_active w') = {})"
  proof cases
    case same
    then show ?thesis using inv(2,3) by metis
  next
    case add
    have "cid \<notin> set (wk_active (fl_workers F j))" for j using inv(2) [of j] add(1) by blast
    then show ?thesis using inv(2) inv(3) [of _ i] add by auto
  next
    case del
    have "gone \<inter> set (wk_active (fl_workers F j)) = {}" if "j \<noteq> i" for j
      using inv(3) [OF that] del(1) by blast
    then show ?thesis using inv(2) inv(3) [of _ i] del by blast
  qed
  have "set (wk_active (((fl_workers F)(i := w')) j)) \<inter> set (wk_active (((fl_workers F)(i := w')) k)) = {}"
    if "j \<noteq> k" for j k
    using that sub inv(3) [OF that] by (auto simp: Int_commute)
  with own sub inv show ?thesis by (simp add: fleet_inv_def set_worker_def wks)
qed

lemma fleet_step_inv:
  assumes "fleet_step loads rp F e F'" "fleet_inv n F" "timely F e"
  shows "fleet_inv n F'"
proof -
  have w: "distinct (wk_active (fl_workers F i))" "set (wk_active (fl_workers F i)) \<subseteq> fl_keys F" for i
    using assms(2) by (auto simp: fleet_inv_def worker_inv_def)
  from assms(1) show ?thesis
  proof cases
    case (pull i up brpop xread)
    then show ?thesis using set_worker_inv [OF assms(2) round_moves [OF _ w]] by simp
  next
    case (finished cid i)
    then show ?thesis using set_worker_inv [OF assms(2) done_moves [OF _ w(1)]] by simp
  next
    case (shutdown i)
    have "worker_moves (fl_workers F i, fl_keys F)
        ((fl_workers F i)\<lparr>wk_shutting_down := True\<rparr>, fl_keys F)"
      using w(1) by (simp add: worker_moves_def)
    then show ?thesis unfolding shutdown by (rule set_worker_inv [OF assms(2)])
  next
    case (expire cid)
    then show ?thesis using assms(2,3) by (auto simp: fleet_inv_def timely_def release_def)
  qed
qed

lemma fleet_reach_inv: "fleet_reach loads rp n F \<Longrightarrow> fleet_inv n F"
proof (induction rule: fleet_reach.induct)
  case start
  then show ?case by (simp add: fleet_inv_def worker_inv_def new_worker_def)
next
  case (step F e F')
  then show ?case by (blast intro: fleet_step_inv)
qed

section \<open>Properties\<close>

text \<open>
  C7: whatever payloads arrive and however the workers interleave, no worker ever runs more
  calls than its concurrency, every permit is either free or held by exactly one running call,
  and no call id is being handled twice anywhere in the fleet, as long as no reservation
  expires under a running call.
\<close>

theorem fleet_exclusive:
  assumes "fleet_reach loads rp concurrency F"
  shows "wk_permits (fl_workers F i) + length (wk_active (fl_workers F i)) = concurrency i \<and>
    distinct (wk_active (fl_workers F i)) \<and>
    (i \<noteq> j \<longrightarrow> set (wk_active (fl_workers F i)) \<inter> set (wk_active (fl_workers F j)) = {})"
  using fleet_reach_inv [OF assms] by (simp add: fleet_inv_def worker_inv_def)

text \<open>The bound is needed: when the reservation of a running call expires, the same id is taken a
  second time.\<close>

lemma expired_reservation_retaken:
  assumes "i \<noteq> j" "cid \<in> set (wk_active (fl_workers F i))" "cj_call_id job = cid" "cid \<noteq> []"
    "cj_sip_socket_path job \<noteq> []"
  shows "cid \<in> set (wk_active (fl_workers F i)) \<and>
    cid \<in> set (wk_active (fst (take_job True job (fl_workers F j, fl_keys (F\<lparr>fl_keys := release cid (fl_keys F)\<rparr>)))))"
  using assms by (simp add: take_job_def reserve_def release_def)

text \<open>
  one message on the job list that is valid JSON but neither an object nor a string takes
  the worker down: \<open>from_payload\<close> raises an AttributeError nobody catches, and every call the
  worker is handling is dropped and its reservation released.
\<close>

lemma bad_payload_crashes_worker:
  assumes "loads payload = Some v" and "\<And>d. v \<noteq> PDict d" and "\<And>t. v \<noteq> PStr t" and "v \<noteq> PNone"
  shows "(let (w', keys') = supervisor_round loads rp up (next_job loads (Some payload) xread) (w, keys)
    in (wk_crashed w', wk_active w', keys')) = (True, [], keys - set (wk_active w))"
  using assms by (cases v)
    (auto simp: supervisor_round_def next_job_def decode_def from_payload_def crash_def)

definition demo_loads :: "string \<Rightarrow> pyval option" where
  "demo_loads s = (if s = ''[]'' then Some (PList []) else None)"

lemma bad_payload_crashes_worker_witness:
  "(let (w', keys') = supervisor_round demo_loads (\<lambda>_. []) True (next_job demo_loads (Some ''[]'') None)
     (\<lparr>wk_permits = 1, wk_active = [''live''], wk_shutting_down = False, wk_crashed = False\<rparr>, {''live''})
    in (wk_crashed w', wk_active w', keys')) = (True, [], {''live''} - set [''live''])"
  using bad_payload_crashes_worker [of demo_loads "''[]''" "PList []" "\<lambda>_. []" True None
      "\<lparr>wk_permits = 1, wk_active = [''live''], wk_shutting_down = False, wk_crashed = False\<rparr>" "{''live''}"]
  by (simp add: demo_loads_def)

lemma demo_fleet:
  "fleet_reach demo_loads (\<lambda>_. []) (\<lambda>_. 2) (set_worker 0 (supervisor_round demo_loads (\<lambda>_. []) True
     (next_job demo_loads None (Some [(''call_id'', ''c''), (''socket_path'', ''/s'')]))
       (new_worker 2, {})) \<lparr>fl_workers = (\<lambda>i. new_worker 2), fl_keys = {}\<rparr>)"
proof -
  let ?F = "\<lparr>fl_workers = (\<lambda>i. new_worker 2), fl_keys = {}\<rparr>"
  have "fleet_step demo_loads (\<lambda>_. []) ?F (Pull 0 True None (Some [(''call_id'', ''c''), (''socket_path'', ''/s'')]))
     (set_worker 0 (supervisor_round demo_loads (\<lambda>_. []) True
       (next_job demo_loads None (Some [(''call_id'', ''c''), (''socket_path'', ''/s'')]))
         (fl_workers ?F 0, fl_keys ?F)) ?F)"
    by (rule fleet_step.pull) (simp_all add: new_worker_def)
  from fleet_reach.step [OF fleet_reach.start _ this] show ?thesis by (simp add: timely_def)
qed

theorem fleet_exclusive_witness:
  "\<exists>F :: fleet. wk_permits (fl_workers F 0) = 1 \<and>
    wk_permits (fl_workers F 0) + length (wk_active (fl_workers F 0)) = 2 \<and>
    distinct (wk_active (fl_workers F 0)) \<and>
    ((0 :: nat) \<noteq> 1 \<longrightarrow> set (wk_active (fl_workers F 0)) \<inter> set (wk_active (fl_workers F 1)) = {})"
proof -
  define F where "F = set_worker 0 (supervisor_round demo_loads (\<lambda>_. []) True
     (next_job demo_loads None (Some [(''call_id'', ''c''), (''socket_path'', ''/s'')]))
       (new_worker 2, {})) \<lparr>fl_workers = (\<lambda>i. new_worker 2), fl_keys = {}\<rparr>"
  have one: "wk_permits (fl_workers F 0) = 1"
    by (simp add: F_def set_worker_def supervisor_round_def next_job_def decode_stream_fields_def
        from_payload_def job_of_dict_def get_first_def dget_def py_or_def take_job_def reserve_def
        new_worker_def)
  have "wk_permits (fl_workers F 0) + length (wk_active (fl_workers F 0)) = 2 \<and>
    distinct (wk_active (fl_workers F 0)) \<and>
    ((0 :: nat) \<noteq> 1 \<longrightarrow> set (wk_active (fl_workers F 0)) \<inter> set (wk_active (fl_workers F 1)) = {})"
    by (rule fleet_exclusive [OF demo_fleet [folded F_def]])
  with one show ?thesis by (intro exI [of _ F]) simp
qed

end
