(* ===== verification/Panel_Worker.thy ===== *)
theory Panel_Worker
  imports Panel_Api Worker_Main Sales_Lib
begin

text \<open>
  From the panel's rows to the worker's call: the two queries of \<open>_sync_load_agent\<close> on the panel's
  tables, the form in which the panel's routes and jobs leave agents and campaigns there, and what
  the worker makes of it when it sets up a call.
\<close>

section \<open>The worker's queries\<close>

text \<open>The deployment joined with its agent, and a campaign by its id.\<close>

definition worker_agent_row :: "panel_db \<Rightarrow> uuid \<Rightarrow> agent_row option" where
  "worker_agent_row db deployment_id =
     (case get_row pd_id deployment_id (deployments db) of
        None \<Rightarrow> None
      | Some d \<Rightarrow>
          (case get_row pa_id (pd_agent_id d) (agents db) of
             None \<Rightarrow> None
           | Some a \<Rightarrow> Some
               \<lparr>rw_id = pa_id a, rw_name = pa_name a, rw_persona = Some (pa_persona a), rw_voice_id = pa_voice_id a,
                rw_language = Some (pa_language a), rw_script = Some (pa_script a),
                rw_scenario_tree = Some (pa_scenario_tree a), rw_kb_collection_id = pa_kb_collection_id a,
                rw_agent_campaign = pa_campaign_id a, rw_deployment_campaign = pd_aipanel_campaign_id d\<rparr>))"

definition worker_campaign_row :: "panel_db \<Rightarrow> string \<Rightarrow> campaign_row option" where
  "worker_campaign_row db campaign_id =
     map_option (\<lambda>c. \<lparr>cw_id = cm_id c, cw_name = Some (cm_name c), cw_methodology = Some (cm_methodology c),
       cw_objective = Some (cm_objective c), cw_persona_template = Some (cm_persona_template c),
       cw_script_template = Some (cm_script_template c), cw_few_shot_pool = Some (cm_few_shot_pool c)\<rparr>)
       (get_row cm_id campaign_id (campaigns db))"

section \<open>The form of the rows\<close>

definition typed_agent :: "panel_agent \<Rightarrow> bool" where
  "typed_agent a \<longleftrightarrow> (\<exists>p. persona_valid p \<and> pa_persona a = persona_dump False p) \<and>
     (\<exists>s. script_valid s \<and> pa_script a = script_dump False s)"

definition typed_campaign :: "panel_campaign \<Rightarrow> bool" where
  "typed_campaign c \<longleftrightarrow> list_all example_ok (cm_few_shot_pool c)"

definition rows_typed :: "panel_db \<Rightarrow> bool" where
  "rows_typed db \<longleftrightarrow> list_all typed_agent (agents db) \<and> list_all typed_campaign (campaigns db)"

text \<open>\<open>types P h\<close>: from a typed database in which \<open>P\<close> holds, \<open>h\<close> returns with a typed one.\<close>

definition types :: "(panel_db \<Rightarrow> bool) \<Rightarrow> 'a handler \<Rightarrow> bool" where
  "types P h \<longleftrightarrow> (\<forall>s x s'. P (sn_db s) \<longrightarrow> rows_typed (sn_db s) \<longrightarrow> h s = (Inr x, s') \<longrightarrow> rows_typed (sn_db s'))"

lemma types_reads: "reads h \<Longrightarrow> types P h"
  by (metis types_def reads_def)

lemma types_after_read: "reads m \<Longrightarrow> (\<And>x. types P (k x)) \<Longrightarrow> types P (bnd m k)"
  by (auto simp: types_def reads_def elim!: bnd_InrE) metis

lemma types_seq: "types P m \<Longrightarrow> (\<And>x. types (\<lambda>_. True) (k x)) \<Longrightarrow> types P (bnd m k)"
  unfolding types_def by (intro allI impI) (erule bnd_InrE, metis)

lemma types_lookup:
  assumes "\<And>r. types (\<lambda>db. r \<in> set (tab db)) (k r)"
  shows "types P (bnd (lookup tab key tenant what t i) k)"
  unfolding types_def
proof (intro allI impI)
  fix s x s'
  assume ok: "rows_typed (sn_db s)" and run: "bnd (lookup tab key tenant what t i) k s = (Inr x, s')"
  from run obtain r s1 where l: "lookup tab key tenant what t i s = (Inr r, s1)" and k: "k r s1 = (Inr x, s')"
    by (rule bnd_InrE)
  have "r \<in> set (tab (sn_db s)) \<and> s1 = s"
    using l by (auto simp: lookup_def handler_simps split: option.splits if_splits dest: get_row_SomeD)
  then show "rows_typed (sn_db s')"
    using assms [of r] k ok unfolding types_def by blast
qed

lemma types_writing: "(\<And>db. P db \<Longrightarrow> rows_typed db \<Longrightarrow> rows_typed (f db)) \<Longrightarrow> types P (writing f)"
  by (auto simp: types_def writing_def)

lemma types_flushing: "(\<And>db. P db \<Longrightarrow> rows_typed db \<Longrightarrow> rows_typed (f db)) \<Longrightarrow> types P (flushing ok why f)"
  by (auto simp: types_def flushing_def writing_def split: if_splits)

lemma types_guard: "(c \<Longrightarrow> types P k) \<Longrightarrow> types P (bnd (guard_that c code detail) (\<lambda>_. k))"
  by (cases c) (auto simp: types_def guard_that_def bnd_def ret_def raise_def)

lemma types_if: "(c \<Longrightarrow> types P a) \<Longrightarrow> (\<not> c \<Longrightarrow> types P b) \<Longrightarrow> types P (if c then a else b)"
  by simp

lemma types_audit: "types P (audit_dump cx u a tt ti p)" "types P (audit_as cx u a tt ti q)"
  by (auto simp: types_def audit_as_def audit_dump_def log_audit_def writing_def rows_typed_def Let_def
      split: option.splits if_splits)

lemma types_option: "types P a \<Longrightarrow> (\<And>x. types P (b x)) \<Longrightarrow> types P (case z of None \<Rightarrow> a | Some x \<Rightarrow> b x)"
  by (cases z) simp_all

text \<open>What leaves the two tables alone.\<close>

lemma rows_typed_frame: "agents db' = agents db \<Longrightarrow> campaigns db' = campaigns db \<Longrightarrow> rows_typed db' = rows_typed db"
  by (simp add: rows_typed_def)

lemma list_all_put_row: "list_all R rows \<Longrightarrow> R r' \<Longrightarrow> list_all R (put_row key k (\<lambda>_. r') rows)"
  by (auto simp: list_all_iff put_row_def)

section \<open>The handlers\<close>

lemma types_save_agent:
  assumes "typed_agent old \<Longrightarrow> typed_agent new"
  shows "types (\<lambda>db. old \<in> set (agents db)) (save_agent cx old new)"
  unfolding save_agent_def Let_def
proof (intro types_seq types_flushing types_reads reads_basic)
  fix db assume "old \<in> set (agents db)" "rows_typed db"
  then have "typed_agent (touch_agent (rq_now cx) old new)"
    using assms by (auto simp: rows_typed_def list_all_iff touch_agent_def typed_agent_def)
  then show "rows_typed (db\<lparr>agents := put_row pa_id (pa_id old) (\<lambda>_. touch_agent (rq_now cx) old new) (agents db)\<rparr>)"
    using \<open>rows_typed db\<close> by (simp add: rows_typed_def list_all_put_row)
qed

lemma types_insert_agent: "typed_agent a \<Longrightarrow> types P (insert_agent a)"
  unfolding insert_agent_def by (intro types_flushing) (simp add: rows_typed_def)

lemma types_save_campaign:
  assumes "cm_few_shot_pool new = cm_few_shot_pool old"
  shows "types (\<lambda>db. old \<in> set (campaigns db)) (save_campaign cx old new)"
  unfolding save_campaign_def Let_def
proof (intro types_seq types_flushing types_reads reads_basic)
  fix db assume "old \<in> set (campaigns db)" "rows_typed db"
  then have "typed_campaign (if new = old then old else new\<lparr>cm_updated_at := rq_now cx\<rparr>)"
    using assms by (auto simp: rows_typed_def list_all_iff typed_campaign_def)
  then show "rows_typed (db\<lparr>campaigns := put_row cm_id (cm_id old)
      (\<lambda>_. if new = old then old else new\<lparr>cm_updated_at := rq_now cx\<rparr>) (campaigns db)\<rparr>)"
    using \<open>rows_typed db\<close> by (simp add: rows_typed_def list_all_put_row)
qed

lemma types_save_deployment: "types P (save_deployment cx old new)"
  unfolding save_deployment_def Let_def
  by (intro types_seq types_writing types_reads reads_basic) (simp add: rows_typed_def)

lemma typed_new_agent: "agent_create_valid b \<Longrightarrow> typed_agent (new_agent cx t b)"
  by (auto simp: typed_agent_def new_agent_def agent_create_valid_def)

lemma typed_copy: "typed_agent a \<Longrightarrow> typed_agent (copy_agent cx a)"
  by (simp add: typed_agent_def copy_agent_def)

lemma typed_update: "agent_update_valid b \<Longrightarrow> typed_agent a \<Longrightarrow> typed_agent (apply_agent_update b a)"
  by (auto simp: typed_agent_def apply_agent_update_def agent_update_valid_def keep_or_def split: option.splits)

lemma types_insert_copy: "types (\<lambda>db. src \<in> set (agents db)) (insert_agent (copy_agent cx src))"
  unfolding insert_agent_def by (intro types_flushing) (auto simp: rows_typed_def list_all_iff typed_copy)

lemmas type_rules = types_lookup types_seq types_audit types_reads read_rules

lemma types_create_agent: "types P (create_agent cx b u)"
  unfolding create_agent_def Let_def by (intro types_guard types_insert_agent type_rules typed_new_agent)

lemma types_update_agent: "types P (update_agent cx i b u)"
  unfolding update_agent_def get_agent_def by (intro types_guard types_save_agent type_rules typed_update)

lemma types_set_agent_status: "types P (set_agent_status cx i st action u)"
  unfolding set_agent_status_def get_agent_def
  by (intro types_save_agent type_rules) (simp add: typed_agent_def)

lemma types_duplicate_agent: "types P (duplicate_agent cx i u)"
  unfolding duplicate_agent_def get_agent_def Let_def by (intro types_insert_copy type_rules)

lemma types_recordings:
  "types P (upload_training_recording cx f bucket outage i lab up u)"
  "types P (delete_training_recording cx i rid u)"
  unfolding upload_training_recording_def delete_training_recording_def get_agent_def Let_def
  by ((cases outage; simp only: option.case;
       intro types_lookup types_after_read types_if types_save_agent type_rules; simp add: typed_agent_def),
      (intro types_lookup types_if types_save_agent type_rules; simp add: typed_agent_def))

lemma types_frame:
  "(\<And>db. agents (f db) = agents db \<and> campaigns (f db) = campaigns db) \<Longrightarrow> types P (writing f)"
  "(\<And>db. agents (f db) = agents db \<and> campaigns (f db) = campaigns db) \<Longrightarrow> types P (flushing ok why f)"
  by (auto intro!: types_writing types_flushing simp: rows_typed_def)

lemma types_create_voice: "types P (create_voice cx b64 name ref_text audio u)"
  unfolding create_voice_def Let_def by (intro types_after_read types_seq types_frame types_audit types_reads read_rules) simp_all

lemma types_create_kb: "types P (create_kb cx nm d m u)"
  unfolding create_kb_def Let_def by (intro types_after_read types_seq types_frame types_audit types_reads read_rules) simp_all

lemma types_upload_document: "types P (upload_document cx sha b64 i f u)"
  unfolding upload_document_def get_kb_def Let_def
  by (rule types_after_read, rule reads_basic(6), intro types_lookup types_seq types_frame types_audit types_reads read_rules)
    simp_all

lemma types_create_server: "types P (create_server cx enc sb u)"
  unfolding create_server_def Let_def by (intro types_after_read types_seq types_frame types_audit types_reads read_rules) simp_all

lemma types_update_server: "types P (update_server cx enc i b u)"
  unfolding update_server_def get_server_def Let_def
  by (intro types_lookup types_after_read types_seq types_frame types_audit types_reads read_rules) simp_all

lemma types_delete_voice: "types P (delete_voice cx i u)"
  unfolding delete_voice_def get_voice_def
  by (intro types_lookup types_seq types_writing types_audit)
    (auto simp: drop_voice_def rows_typed_def list_all_iff typed_agent_def)

lemma types_delete_document: "types P (delete_document cx i doc_id u)"
  unfolding delete_document_def get_kb_def
  by (intro types_lookup types_after_read reads_basic types_option types_if types_seq types_frame types_audit types_reads) simp_all

lemma typed_new_campaign: "typed_campaign (new_campaign cx t b)"
  by (simp add: typed_campaign_def new_campaign_def)

lemma types_create_campaign: "types P (create_campaign cx b u)"
  unfolding create_campaign_def Let_def
  by (intro types_after_read types_seq types_flushing types_audit types_reads read_rules)
    (simp add: rows_typed_def typed_new_campaign)

lemma types_update_campaign: "types P (update_campaign cx i b u)"
  unfolding update_campaign_def get_campaign_def
  by (rule types_after_read, rule reads_basic(6), intro types_lookup types_save_campaign type_rules)
    (simp add: apply_campaign_update_def)

lemma types_archive_campaign: "types P (archive_campaign cx i u)"
  unfolding archive_campaign_def get_campaign_def
  by (intro types_lookup types_save_campaign type_rules) simp

lemma types_refresh_few_shot: "types P (refresh_few_shot cx i u)"
  unfolding refresh_few_shot_def get_campaign_def by (intro types_after_read types_audit read_rules)

lemma types_create_deployment: "types P (create_deployment cx enc b u)"
  unfolding create_deployment_def Let_def
  by (intro types_after_read types_seq types_frame types_audit types_reads read_rules) simp_all

lemma types_update_deployment: "types P (update_deployment cx enc i b u)"
  unfolding update_deployment_def get_deployment_def
  by (intro types_lookup types_after_read types_seq types_save_deployment types_audit types_reads read_rules)

lemma types_set_deployment_status: "types P (set_deployment_status cx i st u)"
  unfolding set_deployment_status_def get_deployment_def by (intro types_lookup types_save_deployment)

lemma types_start_stop:
  "types P (start_deployment cx r i u)" "types P (stop_deployment cx r i u)"
  unfolding start_deployment_def stop_deployment_def Let_def
  by (intro types_seq types_set_deployment_status types_audit types_reads read_rules)+

lemma types_pause: "types P (pause_deployment cx r i code u)"
  unfolding pause_deployment_def get_deployment_def Let_def by (intro types_after_read types_audit read_rules)

lemma types_delete_deployment: "types P (delete_deployment cx i u)"
  unfolding delete_deployment_def get_deployment_def
  by (intro types_lookup types_seq types_frame types_audit) (simp add: drop_deployment_def Let_def)

lemma types_hand_over: "types P (hand_over cx rp body r i g summary c d u)"
  unfolding hand_over_def
  by (rule types_after_read, rule reads_basic, cases "sm_ask body r", rename_tac ok detail, case_tac ok)
    (auto intro!: types_seq types_frame types_audit intro: types_reads reads_basic)

lemma types_transfer_call: "types P (transfer_call cx rp body r i g summary u)"
  unfolding transfer_call_def
  by (intro types_after_read reads_basic reads_parts types_option types_hand_over types_reads)

lemma types_test_call: "types P (test_call cx rp body r i phone dep u)"
  unfolding test_call_def get_agent_def
  by (intro types_after_read reads_option reads_pick reads_parts reads_basic,
      cases "sm_ask body r", rename_tac ok detail, case_tac ok)
    (auto intro!: types_seq types_audit intro: types_reads reads_basic)

lemma types_archive_promote: "types P (archive_agent cx i u)" "types P (promote_agent cx i u)"
  unfolding archive_agent_def promote_agent_def by (rule types_set_agent_status)+

lemma types_say: "types P h \<Longrightarrow> types P (say f h)"
  unfolding say_def by (rule types_seq) (simp_all add: types_reads reads_basic)

lemmas handler_types = types_create_agent types_update_agent types_archive_promote types_duplicate_agent types_recordings
  types_test_call types_create_voice types_delete_voice types_create_kb types_upload_document types_delete_document
  types_create_server types_update_server types_create_campaign types_update_campaign types_archive_campaign
  types_refresh_few_shot types_create_deployment types_update_deployment types_delete_deployment types_start_stop
  types_pause types_transfer_call

lemma types_handle_panel: "types P (handle_panel w cx c u)"
proof (cases c)
  case (AgentCall a)
  then show ?thesis by (cases a) (simp_all add: types_say handler_types types_reads reads_lists)
next
  case (ContentCall a)
  then show ?thesis by (cases a) (simp_all add: types_say handler_types types_reads reads_lists)
next
  case (CampaignCall a)
  then show ?thesis by (cases a) (simp_all add: types_say handler_types types_reads reads_lists)
next
  case (DeploymentCall a)
  then show ?thesis by (cases a) (simp_all add: types_say handler_types types_reads reads_lists reads_parts reads_recording)
qed

lemma request_typed:
  assumes "rows_typed db"
  shows "rows_typed (snd (panel_request env w rq db))"
proof -
  obtain q c where rq: "rq = (q, c)" by (cases rq)
  show ?thesis
  proof (cases rule: panel_request_cases [of env w q c db])
    case refused
    then show ?thesis using assms by (simp add: rq)
  next
    case (served u x s)
    then show ?thesis
      using assms types_handle_panel [of "\<lambda>_. True" w "pq_ctx q" c u, unfolded types_def, rule_format, of "fresh_session db" x s]
      by (simp add: rq)
  qed
qed

section \<open>The mining job\<close>

lemma mined_ok: "list_all example_ok (mine_one_campaign me now w c db)"
  unfolding list_all_iff
proof
  fix item assume "item \<in> set (mine_one_campaign me now w c db)"
  then have "\<exists>i sc u a. item = example_of me i sc u a"
    using mine_one_own [of item me now w c db] unfolding own_example_def Let_def by blast
  then show "example_ok item"
    by (auto simp: example_of_def example_ok_def text_or_falsy_def dget_def)
qed

lemma store_pool_typed: "rows_typed db \<Longrightarrow> list_all example_ok best \<Longrightarrow> rows_typed (store_pool now i best db)"
  by (auto simp: rows_typed_def store_pool_def list_all_iff put_row_def typed_campaign_def)

lemma mining_typed: "rows_typed db \<Longrightarrow> rows_typed (snd (campaign_mine_few_shot me now target w db))"
proof -
  have "rows_typed d \<Longrightarrow> rows_typed (fold (\<lambda>c d. store_pool now (cm_id c) (mine_one_campaign me now w c d) d) cs d)" for cs d
    by (induction cs arbitrary: d) (simp_all add: store_pool_typed mined_ok)
  then show "rows_typed db \<Longrightarrow> ?thesis"
    by (simp add: campaign_mine_few_shot_def Let_def)
qed

section \<open>The call\<close>

text \<open>What happens to the two tables: requests of the API, each in the world of its moment, and runs of
  the mining job. No other route or job of the panel writes to them.\<close>

datatype 'tok panel_event =
    ApiRequest "'tok auth_env" panel_world "'tok panel_req \<times> panel_call"
  | MiningRun mine_env instant "uuid option" nat

fun panel_event_step :: "'tok panel_event \<Rightarrow> panel_db \<Rightarrow> panel_db" where
  "panel_event_step (ApiRequest env w rq) db = snd (panel_request env w rq db)"
| "panel_event_step (MiningRun me now target w) db = snd (campaign_mine_few_shot me now target w db)"

definition panel_history :: "'tok panel_event list \<Rightarrow> panel_db \<Rightarrow> panel_db" where
  "panel_history es db = fold panel_event_step es db"

lemma history_typed: "rows_typed db \<Longrightarrow> rows_typed (panel_history es db)"
proof (induction es arbitrary: db)
  case (Cons e es)
  then have "rows_typed (panel_event_step e db)"
    by (cases e) (simp_all add: request_typed mining_typed)
  from Cons.IH [OF this] show ?case by (simp add: panel_history_def)
qed (simp add: panel_history_def)

lemma fresh_rows_typed: "agents db = [] \<Longrightarrow> campaigns db = [] \<Longrightarrow> rows_typed db"
  by (simp add: rows_typed_def)

text \<open>The keys of a stored script are the four of the schema; the worker looks for two others.\<close>

lemma script_keys: "map_of (script_dump False s) ''openings'' = None" "map_of (script_dump False s) ''opening'' = None"
  by (cases "sr_sections s"; cases "sr_objections s"; simp add: script_dump_def)+

lemma worker_agent_row_script:
  "worker_agent_row db dep = Some row \<Longrightarrow> \<exists>a\<in>set (agents db). rw_script row = Some (pa_script a)"
  by (auto simp: worker_agent_row_def split: option.splits dest!: get_row_SomeD)

lemma loaded_script:
  assumes "rows_typed db"
  shows "ag_script (fst (load_agent ok (worker_agent_row db dep) camps)) = [] \<or>
     (\<exists>s. ag_script (fst (load_agent ok (worker_agent_row db dep) camps)) = script_dump False s)"
proof (cases "if ok then worker_agent_row db dep else None")
  case None
  then show ?thesis by (auto simp: load_agent_def sync_load_agent_def default_agent_def split: if_splits)
next
  case (Some row)
  then obtain a where a: "a \<in> set (agents db)" and row: "rw_script row = Some (pa_script a)"
    using worker_agent_row_script [of db dep row] by (auto split: if_splits)
  have "ag_script (fst (load_agent ok (worker_agent_row db dep) camps)) = pa_script a"
    using Some row by (auto simp: load_agent_def sync_load_agent_def agent_of_row_def opt_list_def Let_def split: if_splits)
  moreover have "typed_agent a"
    using assms a by (simp add: rows_typed_def list_all_iff)
  ultimately show ?thesis by (auto simp: typed_agent_def)
qed

lemma no_opener:
  assumes "rows_typed db"
  shows "session_opener (fst (load_agent ok (worker_agent_row db dep) camps)) dr = PStr []"
  using loaded_script [OF assms, of ok dep camps] by (auto simp: session_opener_def dget_def script_keys py_or_def)

text \<open>
  C8: whatever requests and mining runs have happened, the persona and the script of every stored agent
  are such as the panel's schema accepts: each has the fields of the schema, of their types, and no
  other.
\<close>

theorem stored_agents_accepted:
  assumes "rows_typed db"
  shows "list_all (\<lambda>a. persona_of (pa_persona a) \<noteq> None \<and> script_of (pa_script a) \<noteq> None) (agents (panel_history es db))"
  using history_typed [OF assms, of es]
  by (auto simp: rows_typed_def typed_agent_def list_all_iff persona_of_dump script_of_dump)

lemma enter_prompt_only:
  assumes "session_enter env su job = Inr sn"
    and "session_opener (fst (load_agent (su_db_ok su) (su_agent su) (su_campaigns su))) (su_opener_draw su) = PStr []"
  shows "cv_speech (sn_conv sn) = [] \<and> (\<exists>prompt. cv_messages (sn_conv sn) = [msg ''system'' prompt])"
  using assms
  by (auto simp: session_enter_def new_session_def set_system_prompt_def conv_init_def enqueue_opener_def Let_def split_beta
      split: if_splits option.splits prod.splits sum.splits)

text \<open>
  C2: no agent made in the panel opens a call. The schema demands one to twenty opening variants, but
  the worker looks for an opening under two other keys, which the schema forbids: when the call is
  set up nothing is queued to be spoken, and the conversation holds the system prompt alone.
\<close>

theorem agents_never_speak_first:
  assumes "rows_typed db" "su_agent su = worker_agent_row (panel_history es db) deployment_id"
    and "session_enter env su job = Inr sn"
  shows "cv_speech (sn_conv sn) = [] \<and> (\<exists>prompt. cv_messages (sn_conv sn) = [msg ''system'' prompt])"
  using no_opener [OF history_typed [OF assms(1)], of "su_db_ok su" es deployment_id "su_campaigns su" "su_opener_draw su"]
  by (intro enter_prompt_only [OF assms(3)]) (simp add: assms(2))

lemma loaded_campaign:
  assumes "rows_typed db" "snd (load_agent ok r (worker_campaign_row db)) = Some c"
  shows "list_all example_ok (cc_few_shot_pool c)"
proof -
  obtain i where "map_option campaign_of_row (worker_campaign_row db i) = Some c"
    using assms(2) by (auto simp: load_agent_def sync_load_agent_def Let_def split: if_splits option.splits)
  then obtain k where "k \<in> set (campaigns db)" "cc_few_shot_pool c = cm_few_shot_pool k"
    by (auto simp: worker_campaign_row_def campaign_of_row_def opt_list_def dest: get_row_SomeD)
  then show ?thesis using assms(1) by (simp add: rows_typed_def list_all_iff typed_campaign_def)
qed

text \<open>
  C4: the examples the mining job stores never cost a call: with the agent and the campaign loaded
  from the panel's tables after any requests and mining runs, the system prompt renders. (It fails,
  and the call with it, on a single example that is not an object of two texts.)
\<close>

theorem mined_prompts_render:
  assumes "rows_typed db" "h = panel_history es db"
    and "load_agent ok (worker_agent_row h deployment_id) (worker_campaign_row h) = (agent, campaign)"
  shows "build_system_prompt rp (prompt_context_of job l agent campaign) \<noteq> None"
proof (cases campaign)
  case (Some c)
  then have "list_all example_ok (cc_few_shot_pool c)"
    using loaded_campaign [OF history_typed [OF assms(1)], of ok "worker_agent_row h deployment_id" es c] assms(2,3)
    by simp
  then show ?thesis by (simp add: call_prompt_None Some)
qed (simp add: call_prompt_None)

section \<open>A call of an agent made in the panel\<close>

definition alice_deployment :: panel_deployment where
  "alice_deployment = \<lparr>pd_id = ''d'', pd_tenant_id = us_tenant_id alice, pd_agent_id = ''new'', pd_vicidial_server_id = ''s'',
     pd_vici_user = ''6666'', pd_vici_pass_encrypted = [], pd_phone_login = ''6666'', pd_phone_pass_encrypted = [],
     pd_campaign_id = ''SALES'', pd_allowed_transfer_ingroups = [], pd_dispo_mapping = [], pd_status = ''running'',
     pd_last_heartbeat_at = None, pd_aipanel_campaign_id = None, pd_created_at = 0, pd_updated_at = 0\<rparr>"

definition calling_db :: panel_db where
  "calling_db = alice_db\<lparr>deployments := [alice_deployment]\<rparr>"

definition sam_request :: "pyval dict panel_event" where
  "sam_request = ApiRequest plain_env plain_world (alice_call, AgentCall (CreateAgent
     \<lparr>anc_name = ''Sam'', anc_persona = sam_persona, anc_script = sam_script, anc_scenario_tree = empty_scenario,
      anc_voice_id = None, anc_language = ''en'', anc_kb_collection_id = None, anc_campaign_id = None\<rparr>))"

lemma calling_typed: "rows_typed calling_db"
  by (simp add: rows_typed_def calling_db_def alice_db_def empty_panel_db_def)

lemma calling_current:
  "get_current_user plain_env 1800 no_denials (Some (''Bearer'', pr_access (make_token_pair plain_env first_login alice)))
     calling_db = Inr alice"
  using alice_current by (simp add: get_current_user_def calling_db_def split: sum.splits)

lemma sam_stored:
  "map (\<lambda>a. (pa_id a, pa_script a)) (agents (panel_history [sam_request] calling_db)) = [(''new'', script_dump False sam_script)] \<and>
   deployments (panel_history [sam_request] calling_db) = [alice_deployment]"
proof -
  have "agent_create_valid \<lparr>anc_name = ''Sam'', anc_persona = sam_persona, anc_script = sam_script,
      anc_scenario_tree = empty_scenario, anc_voice_id = None, anc_language = ''en'', anc_kb_collection_id = None,
      anc_campaign_id = None\<rparr>"
    by (simp add: agent_create_valid_def)
  then show ?thesis
    by (simp add: panel_history_def sam_request_def panel_request_def with_session_def authorised_def alice_call_def
        calling_current require_role_def roles_of_def ROLES_WRITE_def)
      (simp add: Let_def say_def create_agent_def handler_simps insert_agent_def flushing_def audit_as_def audit_dump_def
        log_audit_def fresh_session_def agent_fks_def fk_def new_agent_def calling_db_def alice_db_def alice_def empty_panel_db_def)
qed

theorem stored_agents_accepted_witness:
  "\<exists>a. agents (panel_history [sam_request] calling_db) = [a] \<and> script_of (pa_script a) = Some (script_full sam_script)"
proof -
  obtain a where a: "agents (panel_history [sam_request] calling_db) = [a]" "pa_script a = script_dump False sam_script"
    using sam_stored by auto
  have "script_of (pa_script a) \<noteq> None"
    using stored_agents_accepted [OF calling_typed, of "[sam_request]"] a by simp
  then show ?thesis using a by (simp add: script_of_dump)
qed

definition calling_setup :: setup_env where
  "calling_setup = \<lparr>su_connects = True, su_loads = (\<lambda>_. None), su_first = FirstTimeout, su_db_ok = True,
     su_agent = worker_agent_row (panel_history [sam_request] calling_db) ''d'', su_campaigns = (\<lambda>_. None),
     su_recording_enabled = False, su_recorder_opens = True, su_repr = (\<lambda>_. []),
     su_opener_draw = \<lparr>dr_random = 0, dr_index = 0\<rparr>\<rparr>"

lemma calling_enters: "\<exists>sn. session_enter (demo_env llm) calling_setup demo_job = Inr sn"
proof -
  obtain agent where agent: "load_agent True (su_agent calling_setup) (\<lambda>_. None) = (agent, None)"
    by (cases "su_agent calling_setup") (auto simp: load_agent_def sync_load_agent_def Let_def)
  obtain p where "build_system_prompt (\<lambda>_. []) (prompt_context_of demo_job (stub_lead (PStr [])) agent None) = Some p"
    using call_prompt_None [of "\<lambda>_. []" demo_job "stub_lead (PStr [])" agent None] by auto
  then show ?thesis
    using agent by (simp add: session_enter_def calling_setup_def await_call_context_def get_lead_def demo_job_def Let_def)
qed

lemma sam_row: "\<exists>row. worker_agent_row (panel_history [sam_request] calling_db) ''d'' = Some row"
  using sam_stored by (auto simp: worker_agent_row_def get_row_def alice_deployment_def)

text \<open>The stored script has two opening variants, none of which is spoken.\<close>

theorem agents_never_speak_first_witness:
  "\<exists>sn row. worker_agent_row (panel_history [sam_request] calling_db) ''d'' = Some row \<and>
     session_enter (demo_env (\<lambda>_ _. LlmTimeout)) calling_setup demo_job = Inr sn \<and> cv_speech (sn_conv sn) = []"
proof -
  obtain sn where sn: "session_enter (demo_env (\<lambda>_ _. LlmTimeout)) calling_setup demo_job = Inr sn"
    using calling_enters by blast
  have "su_agent calling_setup = worker_agent_row (panel_history [sam_request] calling_db) ''d''"
    by (simp add: calling_setup_def)
  from agents_never_speak_first [OF calling_typed this sn] sn sam_row show ?thesis by blast
qed

definition solar_agent :: panel_agent where
  "solar_agent = \<lparr>pa_id = ''a1'', pa_tenant_id = ''t1'', pa_name = ''Sam'', pa_persona = persona_dump False sam_persona,
     pa_voice_id = None, pa_language = ''en'', pa_script = script_dump False sam_script, pa_scenario_tree = [],
     pa_training_recordings = [], pa_kb_collection_id = None, pa_campaign_id = None, pa_status = ''ready'',
     pa_created_at = 0, pa_updated_at = 0\<rparr>"

definition solar_calling_db :: panel_db where
  "solar_calling_db = solar_db\<lparr>agents := [solar_agent]\<rparr>"

lemma solar_calling_typed: "rows_typed solar_calling_db"
proof -
  have "typed_agent solar_agent"
    unfolding typed_agent_def solar_agent_def panel_agent.simps using sam_valid by blast
  then show ?thesis
    by (simp add: rows_typed_def solar_calling_db_def typed_campaign_def solar_db_def solar_def)
qed

theorem mined_prompts_render_witness:
  "\<exists>agent c. load_agent True
       (worker_agent_row (panel_history [MiningRun plain_mine 200 None 30 :: pyval dict panel_event] solar_calling_db) ''d1'')
       (worker_campaign_row (panel_history [MiningRun plain_mine 200 None 30 :: pyval dict panel_event] solar_calling_db)) =
       (agent, Some c) \<and> cc_methodology c = ''spin'' \<and>
     build_system_prompt (\<lambda>_. []) (prompt_context_of demo_job (stub_lead PNone) agent (Some c)) \<noteq> None"
proof -
  let ?h = "panel_history [MiningRun plain_mine 200 None 30 :: pyval dict panel_event] solar_calling_db"
  obtain agent c where l: "load_agent True (worker_agent_row ?h ''d1'') (worker_campaign_row ?h) = (agent, Some c)"
    and c: "cc_methodology c = ''spin''"
    by (simp add: panel_history_def campaign_mine_few_shot_def mine_targets_def store_pool_def put_row_def
        solar_calling_db_def solar_db_def solar_def solar_deployment_def solar_agent_def load_agent_def sync_load_agent_def
        worker_agent_row_def worker_campaign_row_def get_row_def agent_of_row_def campaign_of_row_def opt_str_or_def
        opt_list_def Let_def del: mine_one_campaign_def)
  from mined_prompts_render [OF solar_calling_typed refl l, of "\<lambda>_. []" demo_job "stub_lead PNone"] l c
  show ?thesis by blast
qed

end
