(* ===== verification/Panel_Cluster.thy ===== *)
theory Panel_Cluster
  imports Panel_Auth "HOL-Library.List_Lexorder" "HOL-Library.Char_ord"
begin

text \<open>
  The nodes of a cluster and the tokens new ones join with, \<open>api/v1/cluster.py\<close>. The mapping of
  \<open>nodes.role\<close> (\<open>db/models/ops.py\<close>) knows two roles, the column and the routes know more
  (\<open>migrations/005_node_join.sql\<close>): a row whose role the mapping does not know is written as it is
  and cannot be read back (\<open>LookupError\<close>), so every read of rows goes through \<open>loaded\<close>. The hash of
  a token and the random part of a new one are arguments.
\<close>

section \<open>Rows of nodes\<close>

definition mapped_roles :: "string list" where "mapped_roles = [''primary'', ''secondary'']"
definition node_roles :: "string list" where "node_roles = [''gpu'', ''app'', ''sip'', ''mixed'']"

definition loadable :: "node_row \<Rightarrow> bool" where
  "loadable n \<longleftrightarrow> nd_role n \<in> set mapped_roles"

definition loaded :: "(panel_db \<Rightarrow> node_row list) \<Rightarrow> node_row list handler" where
  "loaded f = bnd (reading f) (\<lambda>rows. if list_all loadable rows then ret rows else fails_with ''LookupError'')"

definition find_node :: "uuid \<Rightarrow> node_row handler" where
  "find_node i =
     bnd (loaded (\<lambda>db. filter (\<lambda>n. nd_id n = i) (nodes db))) (\<lambda>rows.
       case rows of [] \<Rightarrow> raise 404 ''node not found'' | n # _ \<Rightarrow> ret n)"

definition role_rank :: "string \<Rightarrow> nat" where
  "role_rank r = length (takeWhile (\<lambda>x. x \<noteq> r) (mapped_roles @ node_roles))"

definition list_nodes :: "node_row list handler" where
  "list_nodes = loaded (\<lambda>db. sort_key (\<lambda>n. role_rank (nd_role n)) (sort_key nd_hostname (nodes db)))"

definition cluster_health :: "nat handler" where
  "cluster_health = bnd (loaded (\<lambda>db. filter (\<lambda>n. nd_status n \<noteq> ''down'') (nodes db))) (\<lambda>rows. ret (length rows))"

section \<open>Join tokens\<close>

definition list_join_tokens :: "join_token_row list handler" where
  "list_join_tokens = reading (\<lambda>db. take 50 (order_desc jt_created_at (join_tokens db)))"

record cluster_env =
  ce_hash :: "string \<Rightarrow> string"
  ce_random :: string
  ce_public_url :: string

definition install_command :: "cluster_env \<Rightarrow> string \<Rightarrow> string \<Rightarrow> string" where
  "install_command ce raw role = ''curl -fsSL '' @ ce_public_url ce @ ''/install-join.sh | sudo bash -s -- --token='' @ raw @
     '' --primary='' @ ce_public_url ce @ '' --role='' @ role"

definition new_join_token :: "cluster_env \<Rightarrow> req_ctx \<Rightarrow> string \<Rightarrow> string \<Rightarrow> nat \<Rightarrow> user_row \<Rightarrow> string \<Rightarrow> join_token_row" where
  "new_join_token ce cx role label ttl_minutes u raw = \<lparr>jt_id = rq_new_id cx, jt_token_hash = ce_hash ce raw, jt_role = role,
     jt_label = label, jt_created_by = Some (us_id u), jt_created_at = rq_now cx,
     jt_expires_at = rq_now cx + of_nat (ttl_minutes * 60), jt_consumed_at = None, jt_consumed_by_node = None\<rparr>"

text \<open>The reply carries the token in the clear; the row only its hash.\<close>

definition create_join_token ::
  "cluster_env \<Rightarrow> req_ctx \<Rightarrow> string \<Rightarrow> string \<Rightarrow> nat \<Rightarrow> user_row \<Rightarrow> (join_token_row \<times> string \<times> string) handler" where
  "create_join_token ce cx role label ttl_minutes u =
     bnd (guard_that (role \<in> set node_roles \<and> length label \<le> 200 \<and> 5 \<le> ttl_minutes \<and> ttl_minutes \<le> 1440) 422 ''validation error'') (\<lambda>_.
     (let raw = ''AIPANEL-'' @ ce_random ce; tok = new_join_token ce cx role label ttl_minutes u raw in
      bnd (flushing (\<lambda>db. jt_token_hash tok \<notin> jt_token_hash ` set (join_tokens db) \<and> jt_id tok \<notin> jt_id ` set (join_tokens db))
             ''IntegrityError'' (\<lambda>db. db\<lparr>join_tokens := join_tokens db @ [tok]\<rparr>)) (\<lambda>_.
      bnd (audit_as cx u ''cluster.join_token_create'' ''node_join_token'' (jt_id tok)
             [(''role'', PStr role), (''ttl_minutes'', PInt (int ttl_minutes))]) (\<lambda>_.
      ret (tok, raw, install_command ce raw role)))))"

definition revoke_join_token :: "req_ctx \<Rightarrow> uuid \<Rightarrow> user_row \<Rightarrow> unit handler" where
  "revoke_join_token cx i u =
     bnd (reading (\<lambda>db. get_row jt_id i (join_tokens db))) (\<lambda>t.
       case t of
         None \<Rightarrow> raise 404 ''token not found''
       | Some _ \<Rightarrow>
           bnd (writing (\<lambda>db. db\<lparr>join_tokens := del_row jt_id i (join_tokens db)\<rparr>)) (\<lambda>_.
           audit_as cx u ''cluster.join_token_revoke'' ''node_join_token'' i []))"

section \<open>Joining\<close>

definition services_for :: "string \<Rightarrow> string list" where
  "services_for role =
     (if role = ''gpu'' then [''aipanel-llm'', ''aipanel-stt'', ''aipanel-tts'']
      else if role = ''app'' then [''aipanel-web'', ''aipanel-jobs'', ''aipanel-workers'', ''aipanel-session-mgr'']
      else if role = ''sip'' then [''aipanel-sip'']
      else if role = ''mixed'' then [''aipanel-web'', ''aipanel-jobs'', ''aipanel-workers'', ''aipanel-session-mgr'',
        ''aipanel-llm'', ''aipanel-stt'', ''aipanel-tts'', ''aipanel-sip'']
      else [])"

text \<open>What the token has to be: known, unused, not expired.\<close>

definition check_token :: "cluster_env \<Rightarrow> req_ctx \<Rightarrow> string \<Rightarrow> join_token_row handler" where
  "check_token ce cx token =
     bnd (reading (\<lambda>db. get_row jt_token_hash (ce_hash ce token) (join_tokens db))) (\<lambda>t.
       case t of
         None \<Rightarrow> raise 403 ''invalid token''
       | Some tok \<Rightarrow>
           if jt_consumed_at tok \<noteq> None then raise 409 ''token already used''
           else if jt_expires_at tok < rq_now cx then raise 410 ''token expired''
           else ret tok)"

definition new_node :: "req_ctx \<Rightarrow> string \<Rightarrow> string \<Rightarrow> node_row" where
  "new_node cx hostname role = \<lparr>nd_id = rq_new_id cx, nd_hostname = hostname, nd_role = role,
     nd_services = services_for role, nd_status = ''joining'', nd_last_heartbeat_at = None, nd_joined_at = rq_now cx,
     nd_drained_at = None\<rparr>"

text \<open>\<open>session.refresh(node)\<close> reads the row that was just written.\<close>

definition refresh_node :: "node_row \<Rightarrow> node_row handler" where
  "refresh_node n = bnd (loaded (\<lambda>_. [n])) (\<lambda>_. ret n)"

definition consume_token :: "req_ctx \<Rightarrow> join_token_row \<Rightarrow> node_row \<Rightarrow> panel_db \<Rightarrow> panel_db" where
  "consume_token cx tok n db = db\<lparr>join_tokens := put_row jt_id (jt_id tok)
     (\<lambda>t. t\<lparr>jt_consumed_at := Some (rq_now cx), jt_consumed_by_node := Some (nd_id n)\<rparr>) (join_tokens db)\<rparr>"

definition join_cluster ::
  "cluster_env \<Rightarrow> req_ctx \<Rightarrow> string \<Rightarrow> string \<Rightarrow> string option \<Rightarrow> (uuid \<times> string) handler" where
  "join_cluster ce cx token hostname remote =
     bnd (guard_that (20 \<le> length token \<and> length token \<le> 512 \<and> 1 \<le> length hostname \<and> length hostname \<le> 253)
            422 ''validation error'') (\<lambda>_.
     bnd (check_token ce cx token) (\<lambda>tok.
     bnd (loaded (\<lambda>db. filter (\<lambda>n. nd_hostname n = hostname) (nodes db))) (\<lambda>existing.
     bnd (guard_that (existing = []) 409 (''a node with hostname '' @ [CHR 0x27] @ hostname @ [CHR 0x27] @ '' is already registered'')) (\<lambda>_.
     (let n = new_node cx hostname (jt_role tok) in
      bnd (writing (\<lambda>db. db\<lparr>nodes := nodes db @ [n]\<rparr>)) (\<lambda>_.
      bnd (refresh_node n) (\<lambda>n.
      bnd (writing (consume_token cx tok n)) (\<lambda>_.
      bnd (log_audit cx None None ''cluster.node_joined'' (Some ''node'') (Some (nd_id n))
             (Some [(''hostname'', PStr hostname), (''role'', PStr (jt_role tok)),
                    (''remote_addr'', case remote of None \<Rightarrow> PNone | Some a \<Rightarrow> PStr a)])) (\<lambda>_.
      ret (nd_id n, jt_role tok))))))))))"

section \<open>Managing nodes\<close>

definition save_node :: "node_row \<Rightarrow> unit handler" where
  "save_node n = writing (\<lambda>db. db\<lparr>nodes := put_row nd_id (nd_id n) (\<lambda>_. n) (nodes db)\<rparr>)"

definition drain_node :: "req_ctx \<Rightarrow> uuid \<Rightarrow> user_row \<Rightarrow> instant handler" where
  "drain_node cx i u =
     bnd (find_node i) (\<lambda>n.
     bnd (save_node (n\<lparr>nd_drained_at := Some (rq_now cx), nd_status := ''draining''\<rparr>)) (\<lambda>_.
     bnd (audit_as cx u ''cluster.node_drain'' ''node'' i []) (\<lambda>_.
     ret (rq_now cx))))"

definition remove_node :: "req_ctx \<Rightarrow> uuid \<Rightarrow> user_row \<Rightarrow> unit handler" where
  "remove_node cx i u =
     bnd (find_node i) (\<lambda>n.
     bnd (guard_that (nd_role n \<noteq> ''primary'') 400 ''cannot remove the primary node'') (\<lambda>_.
     bnd (guard_that (nd_status n \<in> {''down'', ''drained'', ''draining''}) 400 ''node must be drained first'') (\<lambda>_.
     bnd (writing (\<lambda>db. db\<lparr>nodes := del_row nd_id i (nodes db), join_tokens := map (\<lambda>t.
            if jt_consumed_by_node t = Some i then t\<lparr>jt_consumed_by_node := None\<rparr> else t) (join_tokens db)\<rparr>)) (\<lambda>_.
     audit_as cx u ''cluster.node_remove'' ''node'' i [(''hostname'', PStr (nd_hostname n))]))))"

definition update_node_role :: "req_ctx \<Rightarrow> uuid \<Rightarrow> string \<Rightarrow> user_row \<Rightarrow> node_row handler" where
  "update_node_role cx i role u =
     bnd (guard_that (role \<in> set node_roles) 422 ''validation error'') (\<lambda>_.
     bnd (find_node i) (\<lambda>n.
     bnd (guard_that (nd_role n \<noteq> ''primary'') 400 ''cannot change the role of the primary node'') (\<lambda>_.
     bnd (save_node (n\<lparr>nd_role := role\<rparr>)) (\<lambda>_.
     bnd (audit_as cx u ''cluster.node_role_change'' ''node'' i [(''from'', PStr (nd_role n)), (''to'', PStr role)]) (\<lambda>_.
     ret (n\<lparr>nd_role := role\<rparr>))))))"

section \<open>Requests\<close>

datatype cluster_call =
    ListNodes
  | ClusterHealth
  | ListJoinTokens
  | CreateJoinToken string string nat
  | RevokeJoinToken uuid
  | DrainNode uuid
  | RemoveNode uuid
  | UpdateNodeRole uuid string

datatype cluster_reply = NodeRows "node_row list" | TokenRows "join_token_row list" | NewToken string | ClusterOk

fun handle_cluster :: "cluster_env \<Rightarrow> req_ctx \<Rightarrow> cluster_call \<Rightarrow> user_row \<Rightarrow> cluster_reply handler" where
  "handle_cluster ce cx ListNodes u = bnd list_nodes (\<lambda>r. ret (NodeRows r))"
| "handle_cluster ce cx ClusterHealth u = bnd cluster_health (\<lambda>r. ret ClusterOk)"
| "handle_cluster ce cx ListJoinTokens u = bnd list_join_tokens (\<lambda>r. ret (TokenRows r))"
| "handle_cluster ce cx (CreateJoinToken role label ttl) u =
     bnd (create_join_token ce cx role label ttl u) (\<lambda>r. ret (NewToken (fst (snd r))))"
| "handle_cluster ce cx (RevokeJoinToken i) u = bnd (revoke_join_token cx i u) (\<lambda>_. ret ClusterOk)"
| "handle_cluster ce cx (DrainNode i) u = bnd (drain_node cx i u) (\<lambda>_. ret ClusterOk)"
| "handle_cluster ce cx (RemoveNode i) u = bnd (remove_node cx i u) (\<lambda>_. ret ClusterOk)"
| "handle_cluster ce cx (UpdateNodeRole i role) u = bnd (update_node_role cx i role u) (\<lambda>r. ret (NodeRows [r]))"

definition cluster_roles :: "cluster_call \<Rightarrow> string list" where
  "cluster_roles c = (case c of ListNodes \<Rightarrow> ROLES_ALL | ClusterHealth \<Rightarrow> ROLES_ALL | _ \<Rightarrow> ROLES_ADMIN)"

definition cluster_request :: "cluster_env \<Rightarrow> req_ctx \<Rightarrow> cluster_call \<Rightarrow> user_row \<Rightarrow> cluster_reply handler" where
  "cluster_request ce cx c u s =
     (case require_role (cluster_roles c) u of Inl e \<Rightarrow> (Inl e, s) | Inr u \<Rightarrow> handle_cluster ce cx c u s)"

text \<open>What happens to the cluster: a request of a user, or a machine that wants to join.\<close>

datatype cluster_event = Request req_ctx cluster_call user_row | Join req_ctx string string "string option"

fun cluster_step :: "cluster_env \<Rightarrow> cluster_event \<Rightarrow> panel_db \<Rightarrow> panel_db" where
  "cluster_step ce (Request cx c u) db = snd (with_session (cluster_request ce cx c u) db)"
| "cluster_step ce (Join cx token hostname remote) db = snd (with_session (join_cluster ce cx token hostname remote) db)"

definition cluster_run :: "cluster_env \<Rightarrow> cluster_event list \<Rightarrow> panel_db \<Rightarrow> panel_db" where
  "cluster_run ce steps db = fold (cluster_step ce) steps db"

section \<open>What a request may do to the nodes and the tokens\<close>

definition tokens_ok :: "panel_db \<Rightarrow> bool" where
  "tokens_ok db \<longleftrightarrow> (\<forall>t\<in>set (join_tokens db). jt_role t \<in> set node_roles)"

text \<open>A row that is found can be read, with every row of its key; it is saved under its key and
  hostname, the primary with its role, or removed when it is not the primary.\<close>

definition node_move :: "node_row list \<Rightarrow> node_row list \<Rightarrow> bool" where
  "node_move ns ns' \<longleftrightarrow> ns' = ns \<or>
     (\<exists>n\<in>set ns. (\<forall>x\<in>set ns. nd_id x = nd_id n \<longrightarrow> loadable x) \<and>
        ((\<exists>n'. nd_id n' = nd_id n \<and> nd_hostname n' = nd_hostname n \<and> (nd_role n = ''primary'' \<longrightarrow> nd_role n' = ''primary'') \<and>
            ns' = put_row nd_id (nd_id n) (\<lambda>_. n') ns) \<or>
         (nd_role n \<noteq> ''primary'' \<and> ns' = del_row nd_id (nd_id n) ns)))"

lemma node_move_put:
  "n \<in> set ns \<Longrightarrow> (\<forall>x\<in>set ns. nd_id x = nd_id n \<longrightarrow> loadable x) \<Longrightarrow> nd_id n' = nd_id n \<Longrightarrow>
   nd_hostname n' = nd_hostname n \<Longrightarrow> (nd_role n = ''primary'' \<longrightarrow> nd_role n' = ''primary'') \<Longrightarrow>
   node_move ns (put_row nd_id (nd_id n) (\<lambda>_. n') ns)"
  unfolding node_move_def by blast

lemma node_move_del:
  "n \<in> set ns \<Longrightarrow> (\<forall>x\<in>set ns. nd_id x = nd_id n \<longrightarrow> loadable x) \<Longrightarrow> nd_role n \<noteq> ''primary'' \<Longrightarrow>
   node_move ns (del_row nd_id (nd_id n) ns)"
  unfolding node_move_def by blast

lemma find_node_found:
  "find_node i s = (Inr n, s') \<Longrightarrow> s' = s \<and> n \<in> set (nodes (sn_db s)) \<and> nd_id n = i \<and>
     (\<forall>x\<in>set (nodes (sn_db s)). nd_id x = i \<longrightarrow> loadable x)"
  by (auto simp: find_node_def loaded_def handler_simps fails_with_def list_all_iff filter_eq_Cons_iff
      split: list.splits if_splits)

lemma audit_cluster: "audit_as cx u a tt ti p s = (x, s') \<Longrightarrow>
  nodes (sn_db s') = nodes (sn_db s) \<and> join_tokens (sn_db s') = join_tokens (sn_db s)"
  by (auto simp: audit_as_def dest!: audit_dump_frame)

lemma read_cluster:
  "list_nodes s = (x1, s') \<Longrightarrow> s' = s" "cluster_health s = (x2, s') \<Longrightarrow> s' = s" "list_join_tokens s = (x3, s') \<Longrightarrow> s' = s"
  by (auto simp: list_nodes_def cluster_health_def list_join_tokens_def loaded_def handler_simps fails_with_def split: if_splits)

lemma drain_move: "drain_node cx i u s = (Inr x, s') \<Longrightarrow>
  node_move (nodes (sn_db s)) (nodes (sn_db s')) \<and> join_tokens (sn_db s') = join_tokens (sn_db s)"
  unfolding drain_node_def
  by (elim bnd_InrE, drule find_node_found, drule audit_cluster)
    (auto simp: save_node_def writing_def ret_def intro!: node_move_put)

lemma update_role_move: "update_node_role cx i role u s = (Inr x, s') \<Longrightarrow>
  node_move (nodes (sn_db s)) (nodes (sn_db s')) \<and> join_tokens (sn_db s') = join_tokens (sn_db s)"
  unfolding update_node_role_def
  by (elim bnd_InrE, drule find_node_found, drule audit_cluster)
    (auto simp: save_node_def writing_def ret_def guard_that_def raise_def intro!: node_move_put split: if_splits)

lemma remove_move: "remove_node cx i u s = (Inr x, s') \<Longrightarrow>
  node_move (nodes (sn_db s)) (nodes (sn_db s')) \<and> (tokens_ok (sn_db s) \<longrightarrow> tokens_ok (sn_db s'))"
  unfolding remove_node_def
  by (elim bnd_InrE, drule find_node_found, drule audit_cluster)
    (auto simp: writing_def guard_that_def ret_def raise_def tokens_ok_def intro!: node_move_del split: if_splits)

lemma create_token_move: "create_join_token ce cx role label ttl u s = (Inr x, s') \<Longrightarrow>
  nodes (sn_db s') = nodes (sn_db s) \<and> (tokens_ok (sn_db s) \<longrightarrow> tokens_ok (sn_db s'))"
  unfolding create_join_token_def Let_def
  by (elim bnd_InrE, drule audit_cluster)
    (auto simp: writing_def flushing_def guard_that_def ret_def raise_def tokens_ok_def new_join_token_def split: if_splits)

lemma revoke_token_move: "revoke_join_token cx i u s = (Inr x, s') \<Longrightarrow>
  nodes (sn_db s') = nodes (sn_db s) \<and> (tokens_ok (sn_db s) \<longrightarrow> tokens_ok (sn_db s'))"
  by (auto simp: revoke_join_token_def handler_simps tokens_ok_def split: option.splits dest!: audit_cluster)

lemma node_move_refl [simp]: "node_move ns ns"
  by (simp add: node_move_def)

lemma handle_cluster_move:
  assumes "handle_cluster ce cx c u s = (Inr x, s')"
  shows "node_move (nodes (sn_db s)) (nodes (sn_db s')) \<and> (tokens_ok (sn_db s) \<longrightarrow> tokens_ok (sn_db s'))"
  using assms
proof (cases c)
  case (DrainNode i)
  with assms show ?thesis
    using drain_move by (fastforce simp: ret_def tokens_ok_def elim!: bnd_InrE)
next
  case (UpdateNodeRole i role)
  with assms show ?thesis
    using update_role_move by (fastforce simp: ret_def tokens_ok_def elim!: bnd_InrE)
qed (auto simp: ret_def elim!: bnd_InrE dest: read_cluster remove_move create_token_move revoke_token_move)

section \<open>Joining, and what becomes of the nodes\<close>

lemma node_role_unmapped: "r \<in> set node_roles \<Longrightarrow> r \<notin> set mapped_roles"
  by (auto simp: node_roles_def mapped_roles_def)

lemma check_token_found: "check_token ce cx token s = (Inr tok, s') \<Longrightarrow> s' = s \<and> tok \<in> set (join_tokens (sn_db s))"
  by (auto simp: check_token_def handler_simps split: option.splits if_splits dest: get_row_SomeD)

lemma join_stops:
  assumes "tokens_ok (sn_db s)"
  shows "join_cluster ce cx token hostname remote s \<noteq> (Inr x, s')"
proof
  assume "join_cluster ce cx token hostname remote s = (Inr x, s')"
  then obtain tok n s1 s2 where t: "check_token ce cx token s = (Inr tok, s1)"
    and n: "refresh_node (new_node cx hostname (jt_role tok)) s2 = (Inr n, s')
      \<or> (\<exists>s3. refresh_node (new_node cx hostname (jt_role tok)) s2 = (Inr n, s3))"
    unfolding join_cluster_def Let_def
    by (elim bnd_InrE) (auto simp: guard_that_def ret_def raise_def split: if_splits)
  have "jt_role tok \<in> set node_roles"
    using check_token_found [OF t] assms by (auto simp: tokens_ok_def)
  then show False
    using n node_role_unmapped [of "jt_role tok"]
    by (auto simp: refresh_node_def loaded_def handler_simps fails_with_def loadable_def new_node_def)
qed

lemma join_lost: "tokens_ok db \<Longrightarrow> \<exists>e. with_session (join_cluster ce cx token hostname remote) db = (Inl e, db)"
  using join_stops [of "fresh_session db" ce cx token hostname remote]
  by (cases "join_cluster ce cx token hostname remote (fresh_session db)", rename_tac r s, case_tac r)
    (auto simp: with_session_def)

lemma cluster_step_move:
  assumes "tokens_ok db"
  shows "node_move (nodes db) (nodes (cluster_step ce ev db)) \<and> tokens_ok (cluster_step ce ev db)"
proof (cases ev)
  case (Join cx token hostname remote)
  then show ?thesis
    using join_lost [OF assms, of ce cx token hostname remote] assms by auto
next
  case (Request cx c u)
  show ?thesis
  proof (cases rule: with_session_cases [of "cluster_request ce cx c u" db])
    case kept
    then show ?thesis using Request assms by simp
  next
    case (committed x s)
    then have "handle_cluster ce cx c u (fresh_session db) = (Inr x, s)"
      by (auto simp: cluster_request_def require_role_def split: if_splits)
    from handle_cluster_move [OF this] show ?thesis
      using committed Request assms by simp
  qed
qed

definition keeps_node :: "(node_row \<Rightarrow> bool) \<Rightarrow> bool" where
  "keeps_node P \<longleftrightarrow> (\<forall>ns ns'. node_move ns ns' \<longrightarrow> (\<exists>n\<in>set ns. P n) \<longrightarrow> (\<exists>n\<in>set ns'. P n))"

lemma cluster_run_keeps:
  assumes "keeps_node P" "tokens_ok db" "\<exists>n\<in>set (nodes db). P n"
  shows "\<exists>n\<in>set (nodes (cluster_run ce steps db)). P n"
  using assms(2,3) unfolding cluster_run_def
proof (induction steps arbitrary: db)
  case (Cons ev steps)
  have "\<exists>n\<in>set (nodes (cluster_step ce ev db)). P n"
    using cluster_step_move [OF Cons.prems(1), of ce ev] Cons.prems(2) assms(1) unfolding keeps_node_def by blast
  then show ?case
    using Cons.IH [of "cluster_step ce ev db"] cluster_step_move [OF Cons.prems(1), of ce ev] by simp
qed simp

lemma tokens_ok_run: "tokens_ok db \<Longrightarrow> tokens_ok (cluster_run ce steps db)"
  unfolding cluster_run_def by (induction steps arbitrary: db) (simp_all add: cluster_step_move)

lemma row_kept:
  "m \<in> set ns \<Longrightarrow> key m \<noteq> k \<Longrightarrow> m \<in> set (put_row key k f ns)"
  "m \<in> set ns \<Longrightarrow> key m \<noteq> k \<Longrightarrow> m \<in> set (del_row key k ns)"
  by (auto simp: set_put_row del_row_def)

lemma node_move_keeps:
  assumes "node_move ns ns'" "m \<in> set ns" "\<not> loadable m"
  shows "m \<in> set ns'"
proof -
  have "nd_id m \<noteq> nd_id n" if "\<forall>x\<in>set ns. nd_id x = nd_id n \<longrightarrow> loadable x" for n
    using that assms(2,3) by blast
  then show ?thesis
    using assms(1) row_kept [OF assms(2), of nd_id] assms(2) unfolding node_move_def by metis
qed

lemma put_row_ids: "key n' = k \<Longrightarrow> map key (put_row key k (\<lambda>_. n') ns) = map key ns"
  by (auto simp: put_row_def)

lemma node_move_ids:
  assumes "node_move ns ns'" "distinct (map nd_id ns)"
  shows "distinct (map nd_id ns')"
proof -
  consider "ns' = ns" | n n' where "n \<in> set ns" "nd_id n' = nd_id n" "ns' = put_row nd_id (nd_id n) (\<lambda>_. n') ns"
    | n where "n \<in> set ns" "ns' = del_row nd_id (nd_id n) ns"
    using assms(1) unfolding node_move_def by blast
  then show ?thesis
    by cases (simp_all add: assms(2) put_row_ids del_row_def distinct_map_filter)
qed

lemma node_move_primary:
  assumes "node_move ns ns'" "distinct (map nd_id ns)" "m \<in> set ns" "nd_role m = ''primary''"
  shows "\<exists>m'\<in>set ns'. nd_id m' = nd_id m \<and> nd_hostname m' = nd_hostname m \<and> nd_role m' = ''primary''"
proof -
  have same: "x = m" if "x \<in> set ns" "nd_id x = nd_id m" for x
    using that assms(2,3) by (metis distinct_map inj_onD)
  consider "ns' = ns"
    | n n' where "n \<in> set ns" "nd_id n' = nd_id n" "nd_hostname n' = nd_hostname n"
        "nd_role n = ''primary'' \<longrightarrow> nd_role n' = ''primary''" "ns' = put_row nd_id (nd_id n) (\<lambda>_. n') ns"
    | n where "n \<in> set ns" "nd_role n \<noteq> ''primary''" "ns' = del_row nd_id (nd_id n) ns"
    using assms(1) unfolding node_move_def by blast
  then show ?thesis
  proof cases
    case 1
    then show ?thesis using assms(3,4) by blast
  next
    case (2 n n')
    show ?thesis
    proof (cases "nd_id m = nd_id n")
      case True
      then have "n = m" using same 2(1) by simp
      moreover have "n' \<in> set ns'" using 2(5) True assms(3) by (auto simp: set_put_row)
      ultimately show ?thesis using 2 assms(4) by blast
    next
      case False
      then have "m \<in> set ns'" using 2(5) assms(3) row_kept(1) by metis
      then show ?thesis using assms(4) by blast
    qed
  next
    case (3 n)
    then have "nd_id m \<noteq> nd_id n" using same assms(4) by metis
    then have "m \<in> set ns'" using 3(3) assms(3) by (simp add: del_row_def)
    then show ?thesis using assms(4) by blast
  qed
qed

lemma role_change_stored:
  assumes "update_node_role cx i role u s = (Inr r, s')"
  shows "\<exists>n'\<in>set (nodes (sn_db s')). \<not> loadable n'"
proof -
  have "\<exists>n. n \<in> set (nodes (sn_db s)) \<and> role \<in> set node_roles \<and>
      nodes (sn_db s') = put_row nd_id (nd_id n) (\<lambda>_. n\<lparr>nd_role := role\<rparr>) (nodes (sn_db s))"
    using assms unfolding update_node_role_def
    apply (elim bnd_InrE)
    apply (drule find_node_found)
    apply (drule audit_cluster)
    apply (auto simp: save_node_def writing_def ret_def guard_that_def raise_def split: if_splits)
    done
  then obtain n where n: "n \<in> set (nodes (sn_db s))" "role \<in> set node_roles"
    "nodes (sn_db s') = put_row nd_id (nd_id n) (\<lambda>_. n\<lparr>nd_role := role\<rparr>) (nodes (sn_db s))"
    by blast
  have "n\<lparr>nd_role := role\<rparr> \<in> set (nodes (sn_db s'))"
    unfolding n(3) using n(1) by (auto simp: set_put_row)
  then show ?thesis
    using node_role_unmapped [OF n(2)] by (force simp: loadable_def)
qed

text \<open>No machine ever joins. Whatever has happened to a cluster whose tokens were issued by the panel,
  a join with any token is refused or fails, and leaves everything as it was, the token included: the
  node's role is one the mapping of the column does not know, and reading the new row back raises.\<close>

lemma join_never_succeeds:
  assumes "tokens_ok db"
  shows "\<exists>e. with_session (join_cluster ce cx token hostname remote) (cluster_run ce steps db) = (Inl e, cluster_run ce steps db)"
  by (rule join_lost [OF tokens_ok_run [OF assms]])

text \<open>A change of a node's role that succeeds locks the cluster page for good: from then on the list of
  nodes fails after any sequence of requests, since the row can no longer be read, and so neither
  changed nor removed.\<close>

lemma role_change_locks_cluster:
  assumes "tokens_ok db" "with_session (update_node_role cx i role u) db = (Inr r, db')"
  shows "\<exists>e. fst (with_session list_nodes (cluster_run ce steps db')) = Inl e"
proof -
  have keep: "keeps_node (\<lambda>n. \<not> loadable n)"
    unfolding keeps_node_def using node_move_keeps by blast
  obtain s where run: "update_node_role cx i role u (fresh_session db) = (Inr r, s)" and db': "db' = sn_db s"
    using assms(2) by (auto simp: with_session_def split: prod.splits sum.splits if_splits)
  have tok: "tokens_ok db'"
    using update_role_move [OF run] assms(1) by (simp add: tokens_ok_def db')
  have "\<exists>n\<in>set (nodes (cluster_run ce steps db')). \<not> loadable n"
    using role_change_stored [OF run] by (intro cluster_run_keeps [OF keep tok]) (simp add: db')
  then show ?thesis
    by (auto simp: with_session_def list_nodes_def loaded_def handler_simps fails_with_def list_all_iff)
qed

text \<open>The primary node is never removed and never changes its role or its name.\<close>

lemma primary_stays:
  assumes "tokens_ok db" "distinct (map nd_id (nodes db))" "n \<in> set (nodes db)" "nd_role n = ''primary''"
  shows "\<exists>n'\<in>set (nodes (cluster_run ce steps db)). nd_id n' = nd_id n \<and> nd_hostname n' = nd_hostname n \<and> nd_role n' = ''primary''"
  using assms
proof (induction steps arbitrary: db n)
  case (Cons ev steps)
  let ?db = "cluster_step ce ev db"
  have move: "node_move (nodes db) (nodes ?db)" and tok: "tokens_ok ?db"
    using cluster_step_move [OF Cons.prems(1)] by blast+
  obtain n1 where "n1 \<in> set (nodes ?db)" "nd_id n1 = nd_id n" "nd_hostname n1 = nd_hostname n" "nd_role n1 = ''primary''"
    using node_move_primary [OF move Cons.prems(2-4)] by blast
  with Cons.IH [OF tok node_move_ids [OF move Cons.prems(2)] this(1,4)] show ?case
    by (simp add: cluster_run_def)
qed (auto simp: cluster_run_def)

section \<open>A cluster of two nodes\<close>

definition two_nodes :: panel_db where
  "two_nodes = alice_db\<lparr>
     nodes := [\<lparr>nd_id = ''n1'', nd_hostname = ''panel'', nd_role = ''primary'', nd_services = [], nd_status = ''up'',
                 nd_last_heartbeat_at = None, nd_joined_at = 0, nd_drained_at = None\<rparr>,
               \<lparr>nd_id = ''n2'', nd_hostname = ''gpu-1'', nd_role = ''secondary'', nd_services = [], nd_status = ''up'',
                 nd_last_heartbeat_at = None, nd_joined_at = 0, nd_drained_at = None\<rparr>],
     join_tokens := []\<rparr>"

definition plain_cluster :: cluster_env where
  "plain_cluster = \<lparr>ce_hash = (\<lambda>t. rev t), ce_random = ''0123456789abcdef'', ce_public_url = ''https://panel''\<rparr>"

definition cluster_cx :: req_ctx where
  "cluster_cx = \<lparr>rq_now = 100, rq_new_id = ''x1'', rq_audit_id = 7, rq_audit_ok = True\<rparr>"

definition make_token :: cluster_event where
  "make_token = Request cluster_cx (CreateJoinToken ''gpu'' [] 60) alice"

lemma two_nodes_ok: "tokens_ok two_nodes" "distinct (map nd_id (nodes two_nodes))"
  by (simp_all add: two_nodes_def tokens_ok_def)

lemma join_never_succeeds_witness:
  "\<exists>e. with_session (join_cluster plain_cluster cluster_cx ''AIPANEL-0123456789abcdef'' ''gpu-2'' None)
      (cluster_run plain_cluster [make_token] two_nodes) = (Inl e, cluster_run plain_cluster [make_token] two_nodes)"
  by (rule join_never_succeeds [OF two_nodes_ok(1)])

lemma role_change_run:
  "\<exists>r db'. with_session (update_node_role cluster_cx ''n2'' ''gpu'' alice) two_nodes = (Inr r, db')"
  by (simp add: with_session_def update_node_role_def find_node_def loaded_def handler_simps node_roles_def mapped_roles_def
      loadable_def two_nodes_def fresh_session_def save_node_def audit_as_def log_audit_def audit_dump_def cluster_cx_def)

lemma role_change_locks_cluster_witness:
  "\<exists>db' e. (\<exists>r. with_session (update_node_role cluster_cx ''n2'' ''gpu'' alice) two_nodes = (Inr r, db')) \<and>
     fst (with_session list_nodes (cluster_run plain_cluster [make_token] db')) = Inl e"
proof -
  obtain r db' where "with_session (update_node_role cluster_cx ''n2'' ''gpu'' alice) two_nodes = (Inr r, db')"
    using role_change_run by blast
  with role_change_locks_cluster [OF two_nodes_ok(1) this] show ?thesis
    by blast
qed

lemma primary_stays_witness:
  "\<exists>n'\<in>set (nodes (cluster_run plain_cluster [make_token, Request cluster_cx (RemoveNode ''n1'') alice] two_nodes)).
     nd_id n' = ''n1'' \<and> nd_hostname n' = ''panel'' \<and> nd_role n' = ''primary''"
  using primary_stays [OF two_nodes_ok, of "hd (nodes two_nodes)"] by (simp add: two_nodes_def)

end
