(* ===== verification/Panel_Analytics.thy ===== *)
theory Panel_Analytics
  imports Panel_Campaigns
begin

text \<open>
  The figures of the dashboard, \<open>services/analytics_service.py\<close> and \<open>api/v1/analytics.py\<close>, and what
  they count. A day is the number of days since the epoch; \<open>date_trunc\<close> of the database is the
  argument \<open>trunc\<close>, as it depends on the time zone of the session.
\<close>

section \<open>The queries\<close>

definition day_start :: "int \<Rightarrow> instant" where
  "day_start d = of_int (d * 86400)"

definition day_end :: "int \<Rightarrow> instant" where
  "day_end d = of_int (d * 86400) + 86399999999 / 1000000"

definition in_period :: "int \<Rightarrow> int \<Rightarrow> call_record \<Rightarrow> bool" where
  "in_period from_day to_day c \<longleftrightarrow> day_start from_day \<le> ca_started_at c \<and> ca_started_at c \<le> day_end to_day"

text \<open>The join of the calls with the deployments of the tenant.\<close>

definition period_calls :: "uuid \<Rightarrow> int \<Rightarrow> int \<Rightarrow> panel_db \<Rightarrow> call_record list" where
  "period_calls t from_day to_day db =
     filter (\<lambda>c. (\<exists>d\<in>set (deployments db). pd_id d = ca_deployment_id c \<and> pd_tenant_id d = t) \<and> in_period from_day to_day c) (calls db)"

definition transferred :: "call_record \<Rightarrow> bool" where
  "transferred c = (ca_transfer_target c \<noteq> None)"

definition rate_of :: "nat \<Rightarrow> nat \<Rightarrow> rat" where
  "rate_of k n = (if n = 0 then 0 else of_nat k / of_nat n)"

record call_overview =
  ov_total_calls :: nat
  ov_avg_duration_sec :: rat
  ov_transfer_rate :: rat
  ov_dispo_breakdown :: "nat dict"

definition overview :: "uuid \<Rightarrow> int \<Rightarrow> int \<Rightarrow> panel_db \<Rightarrow> call_overview" where
  "overview t from_day to_day db =
     (let base = period_calls t from_day to_day db; rows = crossed base (calls db) in
      \<lparr>ov_total_calls = length base, ov_avg_duration_sec = avg_or_zero (map ca_duration_sec rows),
       ov_transfer_rate = rate_of (length (filter transferred base)) (length base),
       ov_dispo_breakdown = dispo_breakdown rows\<rparr>)"

record agent_rollup =
  ro_agent_id :: uuid
  ro_agent_name :: string
  ro_total_calls :: nat
  ro_avg_duration_sec :: rat
  ro_transfer_rate :: rat

text \<open>The calls of an agent are those of its deployments; an agent without calls is not listed. The
  tenant is the agent's.\<close>

definition agent_calls :: "panel_agent \<Rightarrow> int \<Rightarrow> int \<Rightarrow> panel_db \<Rightarrow> call_record list" where
  "agent_calls a from_day to_day db =
     filter (\<lambda>c. (\<exists>d\<in>set (deployments db). pd_id d = ca_deployment_id c \<and> pd_agent_id d = pa_id a) \<and> in_period from_day to_day c) (calls db)"

definition agent_rollup_of :: "panel_agent \<Rightarrow> call_record list \<Rightarrow> agent_rollup" where
  "agent_rollup_of a cs = \<lparr>ro_agent_id = pa_id a, ro_agent_name = pa_name a, ro_total_calls = length cs,
     ro_avg_duration_sec = avg_or_zero (map ca_duration_sec cs),
     ro_transfer_rate = rate_of (length (filter transferred cs)) (length cs)\<rparr>"

definition per_agent :: "uuid \<Rightarrow> int \<Rightarrow> int \<Rightarrow> panel_db \<Rightarrow> agent_rollup list" where
  "per_agent t from_day to_day db =
     map (\<lambda>a. agent_rollup_of a (agent_calls a from_day to_day db))
       (filter (\<lambda>a. pa_tenant_id a = t \<and> agent_calls a from_day to_day db \<noteq> []) (agents db))"

record timeseries_point =
  pt_ts :: instant
  pt_calls :: nat
  pt_transfers :: nat
  pt_avg_duration_sec :: rat

definition point_of :: "(instant \<Rightarrow> instant) \<Rightarrow> call_record list \<Rightarrow> instant \<Rightarrow> timeseries_point" where
  "point_of trunc cs b =
     (let rows = filter (\<lambda>c. trunc (ca_started_at c) = b) cs in
      \<lparr>pt_ts = b, pt_calls = length rows, pt_transfers = length (filter transferred rows),
       pt_avg_duration_sec = avg_or_zero (map ca_duration_sec rows)\<rparr>)"

definition timeseries :: "(string \<Rightarrow> instant \<Rightarrow> instant) \<Rightarrow> uuid \<Rightarrow> int \<Rightarrow> int \<Rightarrow> string \<Rightarrow> panel_db \<Rightarrow> timeseries_point list" where
  "timeseries trunc t from_day to_day bucket db =
     (let tr = trunc (if bucket = ''hour'' \<or> bucket = ''day'' then bucket else ''day'');
          cs = period_calls t from_day to_day db in
      map (point_of tr cs) (sort (remdups (map (\<lambda>c. tr (ca_started_at c)) cs))))"

section \<open>The routes\<close>

text \<open>A period is used only when both of its ends are given.\<close>

definition period_of :: "int \<Rightarrow> nat \<Rightarrow> int option \<Rightarrow> int option \<Rightarrow> int \<times> int" where
  "period_of today days_back from_day to_day =
     (case (from_day, to_day) of (Some a, Some b) \<Rightarrow> (a, b) | _ \<Rightarrow> (today - int days_back, today))"

definition overview_route :: "int \<Rightarrow> int option \<Rightarrow> int option \<Rightarrow> user_row \<Rightarrow> call_overview handler" where
  "overview_route today from_day to_day u =
     (case period_of today 7 from_day to_day of (a, b) \<Rightarrow> reading (overview (us_tenant_id u) a b))"

definition per_agent_route :: "int \<Rightarrow> int option \<Rightarrow> int option \<Rightarrow> user_row \<Rightarrow> agent_rollup list handler" where
  "per_agent_route today from_day to_day u =
     (case period_of today 30 from_day to_day of (a, b) \<Rightarrow> reading (per_agent (us_tenant_id u) a b))"

definition timeseries_route ::
  "(string \<Rightarrow> instant \<Rightarrow> instant) \<Rightarrow> int \<Rightarrow> string \<Rightarrow> int option \<Rightarrow> int option \<Rightarrow> user_row \<Rightarrow> timeseries_point list handler" where
  "timeseries_route trunc today bucket from_day to_day u =
     bnd (guard_that (bucket = ''hour'' \<or> bucket = ''day'') 422 ''validation error'') (\<lambda>_.
     case period_of today 30 from_day to_day of (a, b) \<Rightarrow> reading (timeseries trunc (us_tenant_id u) a b bucket))"

section \<open>What a product of rows counts\<close>

lemma length_crossed: "length (filter P (crossed base table)) = length base * length (filter P table)"
  by (induction base) (simp_all add: crossed_def)

lemma map_crossed: "map f (crossed base table) = crossed base (map f table)"
  by (simp add: crossed_def map_concat comp_def)

lemma map_filter_append: "List.map_filter f (xs @ ys) = List.map_filter f xs @ List.map_filter f ys"
  by (simp add: List.map_filter_def)

lemma map_filter_crossed: "List.map_filter f (crossed base table) = crossed base (List.map_filter f table)"
  by (induction base) (simp_all add: crossed_def map_filter_append List.map_filter_def)

lemma sum_list_crossed: "sum_list (crossed base table) = of_nat (length base) * (sum_list table :: int)"
  by (induction base) (simp_all add: crossed_def algebra_simps)

lemma length_of_crossed: "length (crossed base table) = length base * length table"
  by (induction base) (simp_all add: crossed_def)

text \<open>The average over the product is the average over the whole table.\<close>

lemma avg_crossed:
  assumes "base \<noteq> []"
  shows "avg_or_zero (crossed base xs) = avg_or_zero xs"
proof -
  let ?ys = "List.map_filter id xs"
  have n: "(of_nat (length base) :: rat) \<noteq> 0"
    using assms by simp
  have "crossed base ?ys = [] \<longleftrightarrow> ?ys = []"
    using assms length_of_crossed [of base ?ys] by (metis length_0_conv mult_eq_0_iff)
  moreover have "of_int (sum_list (crossed base ?ys)) / of_nat (length (crossed base ?ys))
      = (of_int (sum_list ?ys) / of_nat (length ?ys) :: rat)"
    using n by (simp add: sum_list_crossed length_of_crossed)
  ultimately show ?thesis
    by (simp add: avg_or_zero_def map_filter_crossed Let_def)
qed

text \<open>Counting key by key counts everything once.\<close>

lemma count_by_key:
  "(\<Sum>k\<in>f ` set cs \<inter> Collect Q. length (filter (\<lambda>c. R c \<and> f c = k) cs)) = length (filter (\<lambda>c. R c \<and> Q (f c)) cs)"
proof (induction cs)
  case (Cons c cs)
  let ?count = "\<lambda>k. length (filter (\<lambda>c. R c \<and> f c = k) cs)"
  let ?old = "f ` set cs \<inter> Collect Q" and ?new = "f ` set (c # cs) \<inter> Collect Q"
  have none: "?count k = 0" if "k \<in> ?new - ?old" for k
    using that by (auto simp: filter_empty_conv)
  have "(\<Sum>k\<in>?new. length (filter (\<lambda>c. R c \<and> f c = k) (c # cs)))
      = (\<Sum>k\<in>?new. (if k = f c then if R c then 1 else 0 else 0) + ?count k)"
    by (rule sum.cong) auto
  also have "\<dots> = (if R c \<and> Q (f c) then 1 else 0) + (\<Sum>k\<in>?new. ?count k)"
    by (simp add: sum.distrib sum.delta)
  also have "(\<Sum>k\<in>?new. ?count k) = (\<Sum>k\<in>?old. ?count k)"
    by (rule sum.mono_neutral_right) (use none in auto)
  finally show ?case
    using Cons.IH by simp
qed simp

lemma dispo_groups_sum:
  "sum_list (map snd (filter (\<lambda>(d, n). P d) (dispo_groups cs))) = length (filter (\<lambda>c. P (ca_dispo_code c)) cs)"
proof -
  have "sum_list (map snd (filter (\<lambda>(d, n). P d) (dispo_groups cs)))
      = (\<Sum>d\<in>ca_dispo_code ` set cs \<inter> Collect P. length (filter (\<lambda>c. True \<and> ca_dispo_code c = d) cs))"
    by (simp add: dispo_groups_def filter_map comp_def sum_list_distinct_conv_sum_set Int_def)
  then show ?thesis
    using count_by_key [where f = ca_dispo_code and cs = cs and Q = P and R = "\<lambda>_. True"] by simp
qed

lemma buckets_sum:
  "sum_list (map (\<lambda>b. length (filter R (filter (\<lambda>c. f c = b) cs))) (sort (remdups (map f cs)))) = length (filter R cs)"
proof -
  have "sum_list (map (\<lambda>b. length (filter R (filter (\<lambda>c. f c = b) cs))) (sort (remdups (map f cs))))
      = (\<Sum>b\<in>f ` set cs. length (filter (\<lambda>c. R c \<and> f c = b) cs))"
    by (simp add: sum_list_distinct_conv_sum_set conj_commute)
  then show ?thesis
    using count_by_key [where f = f and cs = cs and Q = "\<lambda>_. True" and R = R] by simp
qed

section \<open>What the figures say\<close>

definition counts_as_success :: "panel_campaign \<Rightarrow> call_record \<Rightarrow> bool" where
  "counts_as_success c x \<longleftrightarrow> (case ca_dispo_code x of None \<Rightarrow> False | Some d \<Rightarrow> d \<in> set (cm_success_dispos c))"

text \<open>The points of the time series add up to the overview of the same period: their calls to its total,
  their transfers to its share of transferred calls.\<close>

lemma timeseries_adds_up:
  "sum_list (map pt_calls (timeseries trunc t from_day to_day bucket db)) = ov_total_calls (overview t from_day to_day db) \<and>
   rate_of (sum_list (map pt_transfers (timeseries trunc t from_day to_day bucket db)))
     (sum_list (map pt_calls (timeseries trunc t from_day to_day bucket db))) = ov_transfer_rate (overview t from_day to_day db)"
proof -
  let ?tr = "trunc (if bucket = ''hour'' \<or> bucket = ''day'' then bucket else ''day'')"
  let ?cs = "period_calls t from_day to_day db"
  have "sum_list (map pt_calls (timeseries trunc t from_day to_day bucket db)) = length ?cs"
    using buckets_sum [of "\<lambda>_. True" "\<lambda>c. ?tr (ca_started_at c)" ?cs]
    by (simp add: timeseries_def Let_def point_of_def comp_def)
  moreover have "sum_list (map pt_transfers (timeseries trunc t from_day to_day bucket db)) = length (filter transferred ?cs)"
    using buckets_sum [of transferred "\<lambda>c. ?tr (ca_started_at c)" ?cs]
    by (simp add: timeseries_def Let_def point_of_def comp_def)
  ultimately show ?thesis
    by (simp add: overview_def Let_def)
qed

text \<open>The figures of a campaign are not of the campaign: as soon as it has one call in the period, its
  conversion rate is the number of calls with a success code in the whole table, of every campaign,
  tenant and date, and its average duration the average of the whole table.\<close>

lemma metrics_count_every_tenant:
  assumes "metrics cx i n u s = (Inr m, s')" "0 < mt_total_calls m"
  shows "\<exists>c. get_row cm_id i (campaigns (sn_db s)) = Some c \<and>
     mt_conversion_rate m = of_nat (length (filter (counts_as_success c) (calls (sn_db s)))) \<and>
     mt_avg_duration_sec m = avg_or_zero (map ca_duration_sec (calls (sn_db s)))"
proof -
  obtain c where c: "get_row cm_id i (campaigns (sn_db s)) = Some c"
    and m: "m = (let cs = campaign_calls (us_tenant_id u) i (rq_now cx - of_nat (n * 86400)) (sn_db s);
        rows = crossed cs (calls (sn_db s));
        successful = (if cs = [] then 0 else sum_list (map snd (filter (\<lambda>(d, n).
          case d of None \<Rightarrow> False | Some x \<Rightarrow> x \<in> set (cm_success_dispos c)) (dispo_groups rows)))) in
        \<lparr>mt_total_calls = length cs, mt_successful_calls = successful,
         mt_conversion_rate = (if cs = [] then 0 else of_nat successful / of_nat (length cs)),
         mt_by_dispo = (if cs = [] then [] else dispo_breakdown rows),
         mt_avg_duration_sec = avg_or_zero (map ca_duration_sec rows)\<rparr>)"
    using assms(1) unfolding metrics_def get_campaign_def lookup_def
    by (auto simp: handler_simps split: option.splits if_splits)
  define cs where "cs = campaign_calls (us_tenant_id u) i (rq_now cx - of_nat (n * 86400)) (sn_db s)"
  have "cs \<noteq> []"
    using assms(2) unfolding m cs_def by (auto simp: Let_def)
  then show ?thesis
    using c unfolding m cs_def [symmetric]
    by (simp add: Let_def dispo_groups_sum [where P = "case_option False (\<lambda>x. x \<in> set (cm_success_dispos c))"]
        length_crossed map_crossed avg_crossed counts_as_success_def [abs_def])
qed

text \<open>A campaign with one unsuccessful call of its own, beside two successful calls of another tenant.\<close>

definition foreign_call :: "uuid \<Rightarrow> call_record" where
  "foreign_call i = solar_call\<lparr>ca_id := i, ca_deployment_id := ''d9'', ca_campaign_id := None\<rparr>"

definition busy_db :: panel_db where
  "busy_db = solar_db\<lparr>calls := [solar_call\<lparr>ca_dispo_code := None\<rparr>, foreign_call ''c8'', foreign_call ''c9'']\<rparr>"

definition solar_user :: user_row where
  "solar_user = alice\<lparr>us_tenant_id := ''t1''\<rparr>"

definition solar_cx :: req_ctx where
  "solar_cx = \<lparr>rq_now = 200, rq_new_id = ''x1'', rq_audit_id = 7, rq_audit_ok = True\<rparr>"

lemma busy_metrics: "\<exists>m. metrics solar_cx ''k1'' 30 solar_user (fresh_session busy_db) = (Inr m, fresh_session busy_db) \<and>
   mt_total_calls m = 1"
  by (simp add: metrics_def get_campaign_def lookup_def handler_simps get_row_def fresh_session_def busy_db_def solar_db_def
      solar_def solar_user_def campaign_calls_def solar_cx_def solar_call_def solar_deployment_def foreign_call_def Let_def)

lemma metrics_count_every_tenant_witness:
  "\<exists>m. metrics solar_cx ''k1'' 30 solar_user (fresh_session busy_db) = (Inr m, fresh_session busy_db) \<and>
     mt_total_calls m = 1 \<and> mt_conversion_rate m = 2"
proof -
  obtain m where m: "metrics solar_cx ''k1'' 30 solar_user (fresh_session busy_db) = (Inr m, fresh_session busy_db)"
    "mt_total_calls m = 1"
    using busy_metrics by blast
  then obtain c where "get_row cm_id ''k1'' (campaigns busy_db) = Some c"
    "mt_conversion_rate m = of_nat (length (filter (counts_as_success c) (calls busy_db)))"
    using metrics_count_every_tenant [OF m(1)] by (auto simp: fresh_session_def)
  then have "mt_conversion_rate m = 2"
    by (auto simp: busy_db_def solar_db_def get_row_def counts_as_success_def solar_def solar_call_def foreign_call_def)
  with m show ?thesis by blast
qed

end
