(* ===== verification/Panel_Live.thy ===== *)
theory Panel_Live
  imports Panel_Deployments
begin

text \<open>
  The live events of a deployment: the channel and the publisher (\<open>events/publisher.py\<close>), the source that
  reads the channel (\<open>live_stream\<close> of \<open>api/v1/deployments.py\<close>) and the loop that forwards it to a browser
  (\<open>events/sse.py\<close>). The source is an asynchronous generator: an exception that leaves it, the
  cancellation by a timeout included, ends it, and asking an ended generator answers at once that
  there is nothing more.
\<close>

section \<open>Publishing\<close>

definition deployment_channel :: "string \<Rightarrow> string" where
  "deployment_channel i = ''deployment:'' @ i @ '':events''"

text \<open>\<open>{"type": event_type, **data}\<close>: an entry \<open>type\<close> of the data wins.\<close>

definition event_payload :: "string \<Rightarrow> pyval dict \<Rightarrow> pyval dict" where
  "event_payload event_type data = fold (\<lambda>(k, v) d. AList.update k v d) data [(''type'', PStr event_type)]"

text \<open>A JSON null cannot be told from no event. What arrives on the channel: a message with JSON or other text. The notifications of the subscription
  are skipped inside the source and end no wait.\<close>

datatype channel_msg = JsonMsg pyval | TextMsg string

definition publish_event :: "string \<Rightarrow> string \<Rightarrow> pyval dict \<Rightarrow> string \<times> channel_msg" where
  "publish_event deployment_id event_type data =
     (deployment_channel deployment_id, JsonMsg (PDict (event_payload event_type data)))"

definition live_event :: "channel_msg \<Rightarrow> pyval option" where
  "live_event m = (case m of JsonMsg v \<Rightarrow> if v = PNone then None else Some v
     | TextMsg t \<Rightarrow> Some (PDict [(''type'', PStr ''raw''), (''data'', PStr t)]))"

section \<open>Forwarding\<close>

datatype live_item = Connected | Keepalive | LiveData pyval

record live =
  lv_source_open :: bool
  lv_clock :: rat
  lv_keepalive_at :: rat
  lv_out :: "live_item list"
  lv_returned :: bool

definition KEEPALIVE_INTERVAL_SEC :: rat where "KEEPALIVE_INTERVAL_SEC = 15"

text \<open>One round of the loop: the client has gone, a message came so many seconds into the wait, or none
  came for the whole interval. A source that has ended answers in no time, whatever the channel
  does.\<close>

datatype live_round = Gone | Message rat channel_msg | Quiet

definition next_event :: "live_round \<Rightarrow> live \<Rightarrow> pyval option \<times> live" where
  "next_event r l =
     (if \<not> lv_source_open l then (None, l)
      else case r of
        Message dt m \<Rightarrow> (live_event m, l\<lparr>lv_clock := lv_clock l + dt\<rparr>)
      | _ \<Rightarrow> (None, l\<lparr>lv_clock := lv_clock l + KEEPALIVE_INTERVAL_SEC, lv_source_open := False\<rparr>))"

definition format_round :: "live_round \<Rightarrow> live \<Rightarrow> live" where
  "format_round r l =
     (if lv_returned l then l
      else if r = Gone then l\<lparr>lv_returned := True\<rparr>
      else case next_event r l of
        (None, l') \<Rightarrow>
          if lv_keepalive_at l' \<le> lv_clock l'
          then l'\<lparr>lv_out := lv_out l' @ [Keepalive], lv_keepalive_at := lv_clock l' + KEEPALIVE_INTERVAL_SEC\<rparr>
          else l'
      | (Some e, l') \<Rightarrow>
          l'\<lparr>lv_out := lv_out l' @ [LiveData e], lv_keepalive_at := lv_clock l' + KEEPALIVE_INTERVAL_SEC\<rparr>)"

text \<open>Time also passes while the loop spins on an ended source: that is a round of its own, preceded by
  the passing of \<open>dt\<close>.\<close>

definition spin :: "rat \<Rightarrow> live \<Rightarrow> live" where
  "spin dt l = l\<lparr>lv_clock := lv_clock l + dt\<rparr>"

definition live_run :: "(rat \<times> live_round) list \<Rightarrow> live \<Rightarrow> live" where
  "live_run rs l = fold (\<lambda>(dt, r) l. format_round r (spin dt l)) rs l"

definition live_begin :: live where
  "live_begin = \<lparr>lv_source_open = True, lv_clock = 0, lv_keepalive_at = KEEPALIVE_INTERVAL_SEC, lv_out = [Connected], lv_returned = False\<rparr>"

definition live_stream :: "uuid \<Rightarrow> user_row \<Rightarrow> live handler" where
  "live_stream i u = bnd (get_deployment i u) (\<lambda>_. ret live_begin)"

definition forwarded :: "live \<Rightarrow> pyval list" where
  "forwarded l = List.map_filter (\<lambda>x. case x of LiveData e \<Rightarrow> Some e | _ \<Rightarrow> None) (lv_out l)"

section \<open>What the browser sees\<close>

lemma forwarded_append: "lv_out l' = lv_out l @ [x] \<Longrightarrow>
   forwarded l' = forwarded l @ (case x of LiveData e \<Rightarrow> [e] | _ \<Rightarrow> [])"
  by (simp add: forwarded_def List.map_filter_def split: live_item.splits)

lemma forwarded_same: "lv_out l' = lv_out l \<Longrightarrow> forwarded l' = forwarded l"
  by (simp add: forwarded_def)

lemma closed_round:
  assumes "\<not> lv_source_open l"
  shows "\<not> lv_source_open (format_round r l)" "forwarded (format_round r l) = forwarded l"
  using assms
  by (simp_all add: format_round_def next_event_def forwarded_def List.map_filter_def)

lemma closed_run:
  assumes "\<not> lv_source_open l"
  shows "forwarded (live_run rs l) = forwarded l"
  using assms unfolding live_run_def
proof (induction rs arbitrary: l)
  case (Cons p rs)
  obtain dt r where p: "p = (dt, r)" by (cases p)
  have "\<not> lv_source_open (spin dt l)" "forwarded (spin dt l) = forwarded l"
    using Cons.prems by (simp_all add: spin_def forwarded_def)
  then show ?case
    using Cons.IH [of "format_round r (spin dt l)"] closed_round [of "spin dt l" r] by (simp add: p)
qed simp

fun messages :: "(rat \<times> live_round) list \<Rightarrow> pyval list" where
  "messages [] = []"
| "messages ((dt, Message d m) # rs) = (case live_event m of None \<Rightarrow> [] | Some e \<Rightarrow> [e]) @ messages rs"
| "messages ((dt, Quiet) # rs) = messages rs"
| "messages ((dt, Gone) # rs) = []"

definition lively :: "(rat \<times> live_round) list \<Rightarrow> bool" where
  "lively rs \<longleftrightarrow> list_all (\<lambda>(dt, r). case r of Message d m \<Rightarrow> True | _ \<Rightarrow> False) rs"

lemma open_message:
  assumes "lv_source_open l" "\<not> lv_returned l"
  shows "lv_source_open (format_round (Message d m) l)" "\<not> lv_returned (format_round (Message d m) l)"
    "forwarded (format_round (Message d m) l) = forwarded l @ (case live_event m of None \<Rightarrow> [] | Some e \<Rightarrow> [e])"
  using assms by (simp_all add: format_round_def next_event_def forwarded_def List.map_filter_def split: option.splits)

lemma lively_run:
  assumes "lively rs" "lv_source_open l" "\<not> lv_returned l"
  shows "lv_source_open (live_run rs l) \<and> \<not> lv_returned (live_run rs l) \<and> forwarded (live_run rs l) = forwarded l @ messages rs"
  using assms unfolding live_run_def
proof (induction rs arbitrary: l)
  case (Cons p rs)
  obtain dt d m where p: "p = (dt, Message d m)" and rs: "lively rs"
    using Cons.prems(1) by (cases p; cases "snd p") (auto simp: lively_def)
  have l: "lv_source_open (spin dt l)" "\<not> lv_returned (spin dt l)" "forwarded (spin dt l) = forwarded l"
    using Cons.prems by (simp_all add: spin_def forwarded_def)
  show ?case
    using Cons.IH [OF rs open_message(1,2) [OF l(1,2)], of d m] open_message(3) [OF l(1,2), of d m] l(3)
    by (simp add: p)
qed simp



end
