(* ===== verification/Panel_Updates.thy ===== *)
theory Panel_Updates
  imports Panel_Auth "HOL-Library.Sublist"
begin

text \<open>
  The update page of the panel, \<open>api/v1/updates.py\<close>: the runs of \<open>update.sh\<close>, the task that drives one,
  and the streams of its output, each a queue of its own between the task and a generator the
  client pulls. The process is the list of what it does, git what it answers; any interleaving of
  requests, process output and clients is a list of \<open>upd_event\<close>.
\<close>

section \<open>Runs and streams\<close>

text \<open>Where the task of a run stands: not started, reading the process, the run finished but the lock
  not yet taken, over.\<close>

datatype driver = Spawned "string list" | Reading | Clearing | Over

record update_run =
  ur_lines :: "string list"
  ur_status :: string
  ur_exit :: "int option"
  ur_driver :: driver

text \<open>A generator: replaying line by line, waiting for its queue, ended. A queue is never taken off
  the run's list again, and holds at most 1024 entries; None says that the run is over.\<close>

datatype stream_phase = Replaying nat | Tailing | Ended

datatype sse_item = Data string | DoneEvent string "int option"

record sse_stream =
  st_run :: string
  st_queue :: "string option list"
  st_phase :: stream_phase
  st_out :: "sse_item list"

record updates =
  up_runs :: "string \<rightharpoonup> update_run"
  up_active :: "string option"
  up_streams :: "sse_stream list"

definition new_run :: "string list \<Rightarrow> update_run" where
  "new_run cmd = \<lparr>ur_lines = [], ur_status = ''running'', ur_exit = None, ur_driver = Spawned cmd\<rparr>"

definition put_nowait :: "string option \<Rightarrow> string option list \<Rightarrow> string option list" where
  "put_nowait x q = (if length q < 1024 then q @ [x] else q)"

definition offer :: "string \<Rightarrow> string option \<Rightarrow> sse_stream list \<Rightarrow> sse_stream list" where
  "offer i x sts = map (\<lambda>st. if st_run st = i then st\<lparr>st_queue := put_nowait x (st_queue st)\<rparr> else st) sts"

definition set_run :: "string \<Rightarrow> (update_run \<Rightarrow> update_run) \<Rightarrow> updates \<Rightarrow> updates" where
  "set_run i f u = u\<lparr>up_runs := (up_runs u)(i := map_option f (up_runs u i))\<rparr>"

definition push :: "string \<Rightarrow> string \<Rightarrow> updates \<Rightarrow> updates" where
  "push i line u = (set_run i (\<lambda>r. r\<lparr>ur_lines := ur_lines r @ [line]\<rparr>) u)\<lparr>up_streams := offer i (Some line) (up_streams u)\<rparr>"

definition finish :: "string \<Rightarrow> string \<Rightarrow> int option \<Rightarrow> updates \<Rightarrow> updates" where
  "finish i status code u =
     (set_run i (\<lambda>r. r\<lparr>ur_status := status, ur_exit := code\<rparr>) u)\<lparr>up_streams := offer i None (up_streams u)\<rparr>"

section \<open>Starting an update\<close>

record update_request =
  rq_target :: "string option"
  rq_rollback :: bool
  rq_skip_backup :: bool

definition UPDATE_SCRIPT :: string where "UPDATE_SCRIPT = ''/opt/aipanel/update.sh''"

definition update_cmd :: "update_request \<Rightarrow> string list" where
  "update_cmd b = [''sudo'', ''-n'', UPDATE_SCRIPT, ''--yes''] @
     (if rq_rollback b then [''--rollback'']
      else case str_or_none (rq_target b) of Some t \<Rightarrow> [''--to='' @ t] | None \<Rightarrow> []) @
     (if rq_skip_backup b then [''--skip-backup''] else [])"

text \<open>The run is started in the process's memory; the rest of the handler is the audit row, in the
  session of the request, and its failure does not stop the run.\<close>

definition apply_update ::
  "bool \<Rightarrow> bool \<Rightarrow> string \<Rightarrow> req_ctx \<Rightarrow> update_request \<Rightarrow> user_row \<Rightarrow> updates \<Rightarrow> updates \<times> string handler" where
  "apply_update sudo script run_id cx b u up =
     (if \<not> sudo then (up, raise 503 ''sudo not available; cannot run update.sh'')
      else if \<not> script then (up, raise 404 (''update script not found at '' @ UPDATE_SCRIPT))
      else case up_active up of
        Some i \<Rightarrow> (up, raise 409 (''another update is in progress: '' @ i))
      | None \<Rightarrow>
          (up\<lparr>up_runs := (up_runs up)(run_id \<mapsto> new_run (update_cmd b)), up_active := Some run_id\<rparr>,
           bnd (log_audit cx (Some (us_id u)) (Some (us_tenant_id u)) ''system.update_start'' (Some ''system'') None
                  (Some [(''run_id'', PStr run_id), (''target'', case rq_target b of None \<Rightarrow> PNone | Some t \<Rightarrow> PStr t),
                         (''rollback'', PBool (rq_rollback b)), (''skip_backup'', PBool (rq_skip_backup b))])) (\<lambda>_.
           ret run_id)))"

section \<open>Driving it\<close>

text \<open>What the task does: it starts, and the process prints and exits; or it is hit by an exception, the
  one of a process that cannot be started included, whose text is the argument.\<close>

datatype proc_event = Starts | Prints string | Exits int | Breaks string

definition joined :: "string list \<Rightarrow> string" where
  "joined ws = concat (map (\<lambda>(i, w). if i = 0 then w else CHR '' '' # w) (enumerate 0 ws))"

definition set_driver :: "string \<Rightarrow> driver \<Rightarrow> updates \<Rightarrow> updates" where
  "set_driver i d = set_run i (\<lambda>r. r\<lparr>ur_driver := d\<rparr>)"

definition drive_update :: "string \<Rightarrow> proc_event \<Rightarrow> updates \<Rightarrow> updates" where
  "drive_update i e u =
     (case map_option ur_driver (up_runs u i) of
        Some (Spawned cmd) \<Rightarrow>
          (case e of Starts \<Rightarrow> set_driver i Reading (push i (''$ '' @ joined cmd) u) | _ \<Rightarrow> u)
      | Some Reading \<Rightarrow>
          (case e of
             Prints line \<Rightarrow> push i line u
           | Exits code \<Rightarrow> set_driver i Clearing (finish i (if code = 0 then ''ok'' else ''failed'') (Some code) u)
           | Breaks exc \<Rightarrow> set_driver i Clearing (finish i ''error'' (Some (-1)) (push i (''[update orchestrator] '' @ exc) u))
           | Starts \<Rightarrow> u)
      | _ \<Rightarrow> u)"

text \<open>The \<open>finally\<close> of the task, under the lock.\<close>

definition clear_active :: "string \<Rightarrow> updates \<Rightarrow> updates" where
  "clear_active i u =
     (if map_option ur_driver (up_runs u i) = Some Clearing
      then (let u' = set_driver i Over u in if up_active u' = Some i then u'\<lparr>up_active := None\<rparr> else u')
      else u)"

section \<open>Watching it\<close>

definition get_run :: "string \<Rightarrow> updates \<Rightarrow> api_error + update_run" where
  "get_run i u = (case up_runs u i of None \<Rightarrow> Inl (HttpError 404 ''run not found'') | Some r \<Rightarrow> Inr r)"

definition open_stream :: "string \<Rightarrow> sse_stream" where
  "open_stream i = \<lparr>st_run = i, st_queue = [], st_phase = Replaying 0, st_out = []\<rparr>"

definition stream_run :: "string \<Rightarrow> updates \<Rightarrow> (api_error + nat) \<times> updates" where
  "stream_run i u =
     (case up_runs u i of
        None \<Rightarrow> (Inl (HttpError 404 ''run not found''), u)
      | Some _ \<Rightarrow> (Inr (length (up_streams u)), u\<lparr>up_streams := up_streams u @ [open_stream i]\<rparr>))"

text \<open>The client asks for the next piece. The replay iterates over the list of lines itself, so it also
  sees the lines that arrive while it runs.\<close>

definition tail_step :: "update_run \<Rightarrow> sse_stream \<Rightarrow> sse_stream" where
  "tail_step r st =
     (case st_queue st of
        [] \<Rightarrow> st\<lparr>st_phase := Tailing\<rparr>
      | None # q \<Rightarrow> st\<lparr>st_queue := q, st_phase := Ended, st_out := st_out st @ [DoneEvent (ur_status r) (ur_exit r)]\<rparr>
      | Some l # q \<Rightarrow> st\<lparr>st_queue := q, st_phase := Tailing, st_out := st_out st @ [Data l]\<rparr>)"

definition pull :: "update_run \<Rightarrow> sse_stream \<Rightarrow> sse_stream" where
  "pull r st =
     (case st_phase st of
        Ended \<Rightarrow> st
      | Tailing \<Rightarrow> tail_step r st
      | Replaying k \<Rightarrow>
          if k < length (ur_lines r)
          then st\<lparr>st_phase := Replaying (Suc k), st_out := st_out st @ [Data (ur_lines r ! k)]\<rparr>
          else if ur_status r \<noteq> ''running''
          then st\<lparr>st_phase := Ended, st_out := st_out st @ [DoneEvent (ur_status r) (ur_exit r)]\<rparr>
          else tail_step r st)"

definition pull_stream :: "nat \<Rightarrow> updates \<Rightarrow> updates" where
  "pull_stream k u =
     (if k < length (up_streams u)
      then case up_runs u (st_run (up_streams u ! k)) of
             None \<Rightarrow> u
           | Some r \<Rightarrow> u\<lparr>up_streams := (up_streams u)[k := pull r (up_streams u ! k)]\<rparr>
      else u)"

section \<open>The page\<close>

record git_env =
  gi_checkout :: bool
  gi_git :: "string list \<Rightarrow> string + string"
  gi_previous :: "nat option"

record update_info =
  uf_current_version :: string
  uf_current_sha :: string
  uf_latest_tag :: "string option"
  uf_behind_count :: int
  uf_available_tags :: "string list"
  uf_has_previous :: bool
  uf_update_in_progress :: bool

definition git_or :: "git_env \<Rightarrow> string list \<Rightarrow> string \<Rightarrow> string" where
  "git_or g args d = (case gi_git g args of Inl _ \<Rightarrow> d | Inr out \<Rightarrow> out)"

fun split_lines :: "string \<Rightarrow> string \<Rightarrow> string list" where
  "split_lines acc [] = (if acc = [] then [] else [rev acc])"
| "split_lines acc (c # cs) = (if c = CHR 0x0A then rev acc # split_lines [] cs else split_lines (c # acc) cs)"

definition behind_of :: "git_env \<Rightarrow> string \<Rightarrow> string option \<Rightarrow> int" where
  "behind_of g sha latest =
     (case latest of None \<Rightarrow> 0
      | Some t \<Rightarrow>
          (case gi_git g [''rev-list'', ''--count'', sha @ ''..'' @ t] of
             Inl _ \<Rightarrow> 0 | Inr out \<Rightarrow> (case parse_int out of None \<Rightarrow> 0 | Some n \<Rightarrow> n)))"

definition get_update_info :: "git_env \<Rightarrow> string \<Rightarrow> updates \<Rightarrow> api_error + update_info" where
  "get_update_info g repo u =
     (if \<not> gi_checkout g
      then Inl (HttpError 503 (repo @ '' is not a git checkout '' @ em_dash @ '' set AIPANEL_REPO_DIR or run install.sh from a clone.''))
      else case gi_git g [''rev-parse'', ''HEAD''] of
        Inl why \<Rightarrow> Inl (HttpError 500 (''could not query update info: '' @ why))
      | Inr sha \<Rightarrow>
          (let tags = filter (\<lambda>t. t \<noteq> []) (split_lines [] (git_or g [''tag'', ''--sort=-v:refname''] []));
               latest = (case tags of [] \<Rightarrow> None | t # _ \<Rightarrow> Some t) in
           Inr \<lparr>uf_current_version = git_or g [''describe'', ''--tags'', ''--always''] (take 12 sha), uf_current_sha = sha,
             uf_latest_tag = latest, uf_behind_count = behind_of g sha latest, uf_available_tags = take 30 tags,
             uf_has_previous = (case gi_previous g of None \<Rightarrow> False | Some n \<Rightarrow> 0 < n),
             uf_update_in_progress = (up_active u \<noteq> None)\<rparr>))"

section \<open>Everything that happens\<close>

datatype upd_event =
    Apply bool bool string req_ctx update_request user_row
  | Drive string proc_event
  | Clear string
  | Watch string
  | Pull nat

text \<open>A fresh run has a fresh identifier (\<open>uuid4\<close>).\<close>

definition upd_step :: "upd_event \<Rightarrow> updates \<Rightarrow> updates" where
  "upd_step e u =
     (case e of
        Apply sudo script i cx b usr \<Rightarrow> if up_runs u i = None then fst (apply_update sudo script i cx b usr u) else u
      | Drive i p \<Rightarrow> drive_update i p u
      | Clear i \<Rightarrow> clear_active i u
      | Watch i \<Rightarrow> snd (stream_run i u)
      | Pull k \<Rightarrow> pull_stream k u)"

definition upd_run :: "upd_event list \<Rightarrow> updates \<Rightarrow> updates" where
  "upd_run es u = fold upd_step es u"

definition no_updates :: updates where
  "no_updates = \<lparr>up_runs = Map.empty, up_active = None, up_streams = []\<rparr>"

section \<open>One update at a time\<close>

definition run_ok :: "updates \<Rightarrow> bool" where
  "run_ok u \<longleftrightarrow> (\<forall>i r. up_runs u i = Some r \<longrightarrow>
     (ur_status r = ''running'' \<longleftrightarrow> ur_driver r \<noteq> Clearing \<and> ur_driver r \<noteq> Over) \<and>
     (ur_driver r \<noteq> Over \<longrightarrow> up_active u = Some i))"

lemma set_run_simps [simp]:
  "up_runs (set_run i f u) = (up_runs u)(i := map_option f (up_runs u i))"
  "up_active (set_run i f u) = up_active u" "up_streams (set_run i f u) = up_streams u"
  by (simp_all add: set_run_def)

lemma push_simps [simp]:
  "up_runs (push i l u) = (up_runs u)(i := map_option (\<lambda>r. r\<lparr>ur_lines := ur_lines r @ [l]\<rparr>) (up_runs u i))"
  "up_active (push i l u) = up_active u" "up_streams (push i l u) = offer i (Some l) (up_streams u)"
  by (simp_all add: push_def)

lemma finish_simps [simp]:
  "up_runs (finish i st c u) = (up_runs u)(i := map_option (\<lambda>r. r\<lparr>ur_status := st, ur_exit := c\<rparr>) (up_runs u i))"
  "up_active (finish i st c u) = up_active u" "up_streams (finish i st c u) = offer i None (up_streams u)"
  by (simp_all add: finish_def)

text \<open>What one event does to the process: nothing but its streams, a new run, a line, the end of a run,
  or a driver that moves.\<close>

lemma run_ok_apply:
  assumes "run_ok u" "up_runs u i = None"
  shows "run_ok (fst (apply_update sudo script i cx b usr u))"
proof (cases "sudo \<and> script \<and> up_active u = None")
  case True
  with assms show ?thesis
    by (auto simp: run_ok_def apply_update_def new_run_def)
next
  case False
  with assms show ?thesis
    by (auto simp: run_ok_def apply_update_def split: option.splits)
qed

lemma run_ok_other:
  assumes "run_ok u" "up_runs u i = Some a" "ur_driver a \<noteq> Over"
  shows "up_active u = Some i" "\<And>j r. up_runs u j = Some r \<Longrightarrow> j \<noteq> i \<Longrightarrow> ur_driver r = Over"
  using assms unfolding run_ok_def by (metis option.inject)+

lemma run_ok_advance:
  assumes "run_ok u" "up_runs u i = Some a" "ur_driver a \<noteq> Over" "up_active u' = Some i" "up_runs u' = (up_runs u)(i \<mapsto> r')"
    "ur_status r' = ''running'' \<longleftrightarrow> ur_driver r' \<noteq> Clearing \<and> ur_driver r' \<noteq> Over"
  shows "run_ok u'"
  using assms(1,4-6) run_ok_other [OF assms(1-3)] by (auto simp: run_ok_def)

lemma run_ok_drive:
  assumes "run_ok u"
  shows "run_ok (drive_update i e u)"
proof (cases "up_runs u i")
  case (Some a)
  have status: "ur_status a = ''running'' \<longleftrightarrow> ur_driver a \<noteq> Clearing \<and> ur_driver a \<noteq> Over"
    using assms Some by (simp add: run_ok_def)
  show ?thesis
  proof (cases "ur_driver a = Over")
    case False
    with assms Some status run_ok_other(1) [OF assms Some] show ?thesis
      by (cases "ur_driver a"; cases e)
        (auto simp: drive_update_def set_driver_def intro!: run_ok_advance [OF assms Some])
  qed (simp add: drive_update_def Some assms)
qed (simp add: drive_update_def assms)

lemma run_ok_clear:
  assumes "run_ok u"
  shows "run_ok (clear_active i u)"
proof (cases "map_option ur_driver (up_runs u i) = Some Clearing")
  case True
  then obtain a where a: "up_runs u i = Some a" "ur_driver a = Clearing"
    by auto
  have active: "up_active u = Some i" and others: "\<And>j r. up_runs u j = Some r \<Longrightarrow> j \<noteq> i \<Longrightarrow> ur_driver r = Over"
    using run_ok_other [OF assms a(1)] a(2) by simp_all
  have status: "ur_status r = ''running'' \<longleftrightarrow> ur_driver r \<noteq> Clearing \<and> ur_driver r \<noteq> Over" if "up_runs u j = Some r" for j r
    using assms that unfolding run_ok_def by blast
  have "clear_active i u = (set_driver i Over u)\<lparr>up_active := None\<rparr>"
    by (simp add: clear_active_def a active Let_def set_driver_def)
  then show ?thesis
    using others status [OF a(1)] status a by (simp add: run_ok_def set_driver_def)
next
  case False
  then show ?thesis
    using assms by (simp only: clear_active_def if_False)
qed

lemma run_ok_streams: "run_ok u \<Longrightarrow> up_runs u' = up_runs u \<Longrightarrow> up_active u' = up_active u \<Longrightarrow> run_ok u'"
  by (simp add: run_ok_def)

lemma pull_frame [simp]: "up_runs (pull_stream k u) = up_runs u" "up_active (pull_stream k u) = up_active u"
  by (simp_all add: pull_stream_def split: option.splits)

lemma watch_frame [simp]: "up_runs (snd (stream_run i u)) = up_runs u" "up_active (snd (stream_run i u)) = up_active u"
  by (simp_all add: stream_run_def split: option.splits)

lemma run_ok_step: "run_ok u \<Longrightarrow> run_ok (upd_step e u)"
  by (cases e) (auto simp: upd_step_def run_ok_apply run_ok_drive run_ok_clear intro: run_ok_streams)

lemma run_ok_run: "run_ok u \<Longrightarrow> run_ok (upd_run es u)"
  unfolding upd_run_def by (induction es arbitrary: u) (simp_all add: run_ok_step)

lemma run_ok_start: "run_ok no_updates"
  by (simp add: run_ok_def no_updates_def)

definition running_runs :: "updates \<Rightarrow> string set" where
  "running_runs u = {i. \<exists>r. up_runs u i = Some r \<and> ur_status r = ''running''}"

text \<open>C37: Under every interleaving of requests, processes and clients no two updates run at a time: the run
  whose status is running is the one the process names as active.\<close>

theorem one_update_at_a_time:
  "running_runs (upd_run es no_updates) \<subseteq> set_option (up_active (upd_run es no_updates))"
  using run_ok_run [OF run_ok_start, of es] by (auto simp: running_runs_def run_ok_def)

section \<open>What a stream says\<close>

text \<open>Of a run of at most 1023 lines no queue overflows. A stream then replays the first \<open>k\<close> lines and
  goes on with its queue, which holds what came after the \<open>j\<close> lines there were when it was opened.\<close>

definition tail_mark :: "update_run \<Rightarrow> string option list" where
  "tail_mark r = (if ur_status r = ''running'' then [] else [None])"

definition replay_ok :: "update_run \<Rightarrow> nat \<Rightarrow> sse_stream \<Rightarrow> bool" where
  "replay_ok r k st \<longleftrightarrow> k \<le> length (ur_lines r) \<and> st_out st = map Data (take k (ur_lines r)) \<and>
     (\<exists>j e. j \<le> length (ur_lines r) \<and> st_queue st = map Some (drop j (ur_lines r)) @ e \<and>
        (e = [] \<or> e = [None] \<and> ur_status r \<noteq> ''running''))"

definition tail_ok :: "update_run \<Rightarrow> sse_stream \<Rightarrow> bool" where
  "tail_ok r st \<longleftrightarrow> (\<exists>j k m. j \<le> k \<and> j \<le> m \<and> k \<le> length (ur_lines r) \<and> m \<le> length (ur_lines r) \<and>
     st_out st = map Data (take k (ur_lines r) @ drop j (take m (ur_lines r))) \<and>
     st_queue st = map Some (drop m (ur_lines r)) @ tail_mark r)"

definition end_ok :: "update_run \<Rightarrow> sse_stream \<Rightarrow> bool" where
  "end_ok r st \<longleftrightarrow> ur_status r \<noteq> ''running'' \<and> (\<exists>j k. j \<le> k \<and> k \<le> length (ur_lines r) \<and>
     st_out st = map Data (take k (ur_lines r) @ drop j (ur_lines r)) @ [DoneEvent (ur_status r) (ur_exit r)])"

definition stream_ok :: "update_run \<Rightarrow> sse_stream \<Rightarrow> bool" where
  "stream_ok r st \<longleftrightarrow> (case st_phase st of Replaying k \<Rightarrow> replay_ok r k st | Tailing \<Rightarrow> tail_ok r st | Ended \<Rightarrow> end_ok r st)"

lemma tail_step_ok:
  assumes "tail_ok r st"
  shows "stream_ok r (tail_step r st)"
proof -
  obtain j k m where o: "j \<le> k" "j \<le> m" "k \<le> length (ur_lines r)" "m \<le> length (ur_lines r)"
    "st_out st = map Data (take k (ur_lines r) @ drop j (take m (ur_lines r)))"
    "st_queue st = map Some (drop m (ur_lines r)) @ tail_mark r"
    using assms unfolding tail_ok_def by blast
  show ?thesis
  proof (cases "m < length (ur_lines r)")
    case True
    then have q: "st_queue st = Some (ur_lines r ! m) # map Some (drop (Suc m) (ur_lines r)) @ tail_mark r"
      using o(6) by (simp add: Cons_nth_drop_Suc [symmetric])
    have "drop j (take (Suc m) (ur_lines r)) = drop j (take m (ur_lines r)) @ [ur_lines r ! m]"
      using True o(2) by (simp add: take_Suc_conv_app_nth)
    then have "tail_ok r (tail_step r st)"
      unfolding tail_ok_def using o True by (intro exI [of _ j] exI [of _ k] exI [of _ "Suc m"]) (simp add: tail_step_def q)
    then show ?thesis
      by (simp add: stream_ok_def tail_step_def q)
  next
    case False
    then have q: "st_queue st = tail_mark r" and m: "take m (ur_lines r) = ur_lines r"
      using o by simp_all
    show ?thesis
    proof (cases "ur_status r = ''running''")
      case True
      then have "tail_step r st = st\<lparr>st_phase := Tailing\<rparr>"
        by (simp add: tail_step_def q tail_mark_def)
      then show ?thesis
        using assms by (simp add: stream_ok_def tail_ok_def)
    next
      case False
      then show ?thesis
        using o(1,3,5) unfolding m by (auto simp: stream_ok_def end_ok_def tail_step_def q tail_mark_def)
    qed
  qed
qed

lemma pull_ok:
  assumes "stream_ok r st"
  shows "stream_ok r (pull r st)"
proof (cases "st_phase st")
  case (Replaying k)
  with assms have rp: "replay_ok r k st"
    by (simp add: stream_ok_def)
  consider "k < length (ur_lines r)" | "k = length (ur_lines r)" "ur_status r \<noteq> ''running''"
    | "k = length (ur_lines r)" "ur_status r = ''running''"
    using rp unfolding replay_ok_def by fastforce
  then show ?thesis
  proof cases
    case 1
    then show ?thesis
      using rp by (simp add: pull_def Replaying stream_ok_def replay_ok_def take_Suc_conv_app_nth)
  next
    case 2
    have "end_ok r (pull r st)"
      unfolding end_ok_def using rp 2
      by (intro conjI exI [of _ "length (ur_lines r)"]) (simp_all add: pull_def Replaying replay_ok_def)
    then show ?thesis
      using 2 by (simp add: pull_def Replaying stream_ok_def)
  next
    case 3
    obtain j where "j \<le> length (ur_lines r)" "st_queue st = map Some (drop j (ur_lines r))"
      using rp 3 unfolding replay_ok_def by auto
    then have "tail_ok r st"
      unfolding tail_ok_def using rp 3
      by (intro exI [of _ j] exI [of _ k]) (simp add: replay_ok_def tail_mark_def)
    then show ?thesis
      using tail_step_ok 3 by (simp add: pull_def Replaying)
  qed
next
  case Tailing
  with assms show ?thesis
    by (simp add: stream_ok_def pull_def tail_step_ok [unfolded stream_ok_def])
qed (use assms in \<open>simp add: pull_def\<close>)

text \<open>A line that arrives, and the end of the run.\<close>

lemma queue_room:
  assumes "stream_ok r st" "st_phase st \<noteq> Ended" "length (ur_lines r) < 1024" "ur_status r = ''running''"
  shows "length (st_queue st) \<le> length (ur_lines r)"
  using assms by (auto simp: stream_ok_def replay_ok_def tail_ok_def tail_mark_def split: stream_phase.splits)

lemma arrived_line_ok:
  assumes "stream_ok r st" "ur_status r = ''running''" "Suc (length (ur_lines r)) < 1024"
  shows "stream_ok (r\<lparr>ur_lines := ur_lines r @ [l]\<rparr>) (st\<lparr>st_queue := put_nowait (Some l) (st_queue st)\<rparr>)"
proof (cases "st_phase st")
  case (Replaying k)
  then have room: "put_nowait (Some l) (st_queue st) = st_queue st @ [Some l]"
    using assms queue_room [OF assms(1) _ _ assms(2)] by (simp add: put_nowait_def)
  obtain j where o: "k \<le> length (ur_lines r)" "st_out st = map Data (take k (ur_lines r))" "j \<le> length (ur_lines r)"
    "st_queue st = map Some (drop j (ur_lines r))"
    using assms(1,2) Replaying unfolding stream_ok_def replay_ok_def by auto
  have "replay_ok (r\<lparr>ur_lines := ur_lines r @ [l]\<rparr>) k (st\<lparr>st_queue := st_queue st @ [Some l]\<rparr>)"
    unfolding replay_ok_def using o
    by (intro conjI exI [of _ j] exI [of _ "[]"]) simp_all
  then show ?thesis
    by (simp add: stream_ok_def Replaying room)
next
  case Tailing
  then have room: "put_nowait (Some l) (st_queue st) = st_queue st @ [Some l]"
    using assms queue_room [OF assms(1) _ _ assms(2)] by (simp add: put_nowait_def)
  obtain j k m where o: "j \<le> k" "j \<le> m" "k \<le> length (ur_lines r)" "m \<le> length (ur_lines r)"
    "st_out st = map Data (take k (ur_lines r) @ drop j (take m (ur_lines r)))"
    "st_queue st = map Some (drop m (ur_lines r)) @ tail_mark r"
    using assms(1) Tailing unfolding stream_ok_def tail_ok_def by auto
  have "tail_ok (r\<lparr>ur_lines := ur_lines r @ [l]\<rparr>) (st\<lparr>st_queue := st_queue st @ [Some l]\<rparr>)"
    unfolding tail_ok_def using o assms(2)
    by (intro exI [of _ j] exI [of _ k] exI [of _ m]) (simp add: tail_mark_def)
  then show ?thesis
    by (simp add: stream_ok_def Tailing room)
next
  case Ended
  then show ?thesis
    using assms by (simp add: stream_ok_def end_ok_def)
qed

lemma finish_ok:
  assumes "stream_ok r st" "ur_status r = ''running''" "length (ur_lines r) < 1024" "s \<noteq> ''running''"
  shows "stream_ok (r\<lparr>ur_status := s, ur_exit := c\<rparr>) (st\<lparr>st_queue := put_nowait None (st_queue st)\<rparr>)"
proof -
  have room: "put_nowait None (st_queue st) = st_queue st @ [None]" if "st_phase st \<noteq> Ended"
    using queue_room [OF assms(1) that assms(3,2)] assms(3) by (simp add: put_nowait_def)
  show ?thesis
    using assms room
    by (cases "st_phase st") (auto simp: stream_ok_def replay_ok_def tail_ok_def end_ok_def tail_mark_def)
qed

lemma stream_ok_driver [simp]: "stream_ok (r\<lparr>ur_driver := d\<rparr>) st = stream_ok r st"
  by (simp add: stream_ok_def replay_ok_def tail_ok_def end_ok_def tail_mark_def split: stream_phase.splits)

lemma stream_ok_open: "stream_ok r (open_stream i)"
  by (auto simp: stream_ok_def replay_ok_def open_stream_def intro: exI [of _ "length (ur_lines r)"])

definition streams_ok :: "updates \<Rightarrow> bool" where
  "streams_ok u \<longleftrightarrow> (\<forall>st\<in>set (up_streams u). \<exists>r. up_runs u (st_run st) = Some r \<and>
     (length (ur_lines r) < 1024 \<longrightarrow> stream_ok r st))"

lemma streams_ok_offer:
  assumes "streams_ok u" "up_runs u i = Some r" "length (ur_lines r) \<le> length (ur_lines r')"
    "\<And>st. length (ur_lines r') < 1024 \<Longrightarrow> stream_ok r st \<Longrightarrow> stream_ok r' (st\<lparr>st_queue := put_nowait x (st_queue st)\<rparr>)"
    "up_runs u' = (up_runs u)(i \<mapsto> r')" "up_streams u' = offer i x (up_streams u)"
  shows "streams_ok u'"
  unfolding streams_ok_def
proof
  fix st assume "st \<in> set (up_streams u')"
  then obtain st0 where st0: "st0 \<in> set (up_streams u)"
    "st = (if st_run st0 = i then st0\<lparr>st_queue := put_nowait x (st_queue st0)\<rparr> else st0)"
    unfolding assms(6) offer_def by auto
  from st0(1) assms(1) obtain r0 where r0: "up_runs u (st_run st0) = Some r0"
    "length (ur_lines r0) < 1024 \<longrightarrow> stream_ok r0 st0"
    unfolding streams_ok_def by blast
  show "\<exists>r. up_runs u' (st_run st) = Some r \<and> (length (ur_lines r) < 1024 \<longrightarrow> stream_ok r st)"
    using r0 st0(2) assms(2-5) by (cases "st_run st0 = i") auto
qed

lemma streams_ok_frame:
  assumes "streams_ok u" "up_streams u' = up_streams u"
    "\<And>i r. up_runs u i = Some r \<Longrightarrow> \<exists>d. up_runs u' i = Some (r\<lparr>ur_driver := d\<rparr>)"
  shows "streams_ok u'"
  unfolding streams_ok_def assms(2)
proof
  fix st assume "st \<in> set (up_streams u)"
  then obtain r where r: "up_runs u (st_run st) = Some r" "length (ur_lines r) < 1024 \<longrightarrow> stream_ok r st"
    using assms(1) unfolding streams_ok_def by blast
  from assms(3) [OF r(1)] obtain d where "up_runs u' (st_run st) = Some (r\<lparr>ur_driver := d\<rparr>)" ..
  with r(2) show "\<exists>r. up_runs u' (st_run st) = Some r \<and> (length (ur_lines r) < 1024 \<longrightarrow> stream_ok r st)"
    by simp
qed

lemma same_driver: "\<exists>d. (r :: update_run) = r\<lparr>ur_driver := d\<rparr>"
  by (rule exI [of _ "ur_driver r"]) simp

lemma streams_ok_driver: "streams_ok u \<Longrightarrow> streams_ok (set_driver i d u)"
  by (rule streams_ok_frame) (auto simp: set_driver_def intro: same_driver)

lemma streams_ok_push:
  assumes "streams_ok u" "up_runs u i = Some r" "ur_status r = ''running''"
  shows "streams_ok (push i l u)"
  by (rule streams_ok_offer [OF assms(1,2), of "r\<lparr>ur_lines := ur_lines r @ [l]\<rparr>" "Some l"])
    (use assms arrived_line_ok in \<open>auto simp: fun_eq_iff\<close>)

lemma streams_ok_finish:
  assumes "streams_ok u" "up_runs u i = Some r" "ur_status r = ''running''" "s \<noteq> ''running''"
  shows "streams_ok (finish i s c u)"
  by (rule streams_ok_offer [OF assms(1,2), of "r\<lparr>ur_status := s, ur_exit := c\<rparr>" None])
    (use assms finish_ok in \<open>auto simp: fun_eq_iff\<close>)

lemma streams_ok_drive:
  assumes "run_ok u" "streams_ok u"
  shows "streams_ok (drive_update i e u)"
proof (cases "up_runs u i")
  case (Some a)
  have running: "ur_driver a = Reading \<or> (\<exists>cmd. ur_driver a = Spawned cmd) \<Longrightarrow> ur_status a = ''running''"
    using assms(1) Some unfolding run_ok_def by fastforce
  have line: "ur_driver a = Reading \<or> (\<exists>cmd. ur_driver a = Spawned cmd) \<Longrightarrow> streams_ok (push i l u)" for l
    using streams_ok_push [OF assms(2) Some] running by blast
  have ending: "ur_driver a = Reading \<Longrightarrow> s \<noteq> ''running'' \<Longrightarrow> streams_ok (finish i s c u)" for s c
    using streams_ok_finish [OF assms(2) Some] running by blast
  have broken: "streams_ok (finish i ''error'' c (push i l u))" if "ur_driver a = Reading" for c l
    by (rule streams_ok_finish [where r = "a\<lparr>ur_lines := ur_lines a @ [l]\<rparr>"])
      (use that running line Some in simp_all)
  show ?thesis
    using assms(2) line ending broken Some
    by (cases "ur_driver a"; cases e) (simp_all add: drive_update_def streams_ok_driver)
qed (simp add: drive_update_def assms)

lemma streams_ok_clear: "streams_ok u \<Longrightarrow> streams_ok (clear_active i u)"
  using streams_ok_driver [of u i Over] by (simp add: clear_active_def Let_def streams_ok_def)

lemma streams_ok_apply:
  assumes "streams_ok u" "up_runs u i = None"
  shows "streams_ok (fst (apply_update sudo script i cx b usr u))"
  using assms by (fastforce simp: apply_update_def streams_ok_def split: option.splits)

lemma streams_ok_watch: "streams_ok u \<Longrightarrow> streams_ok (snd (stream_run i u))"
  by (auto simp: stream_run_def streams_ok_def stream_ok_open open_stream_def [of i] split: option.splits)
    (simp add: stream_ok_open open_stream_def [symmetric])

lemma pull_run [simp]: "st_run (pull r st) = st_run st"
  by (simp add: pull_def tail_step_def split: stream_phase.splits list.splits option.splits)

lemma streams_ok_pull:
  assumes "streams_ok u"
  shows "streams_ok (pull_stream k u)"
  unfolding streams_ok_def
proof
  fix st assume st: "st \<in> set (up_streams (pull_stream k u))"
  show "\<exists>r. up_runs (pull_stream k u) (st_run st) = Some r \<and> (length (ur_lines r) < 1024 \<longrightarrow> stream_ok r st)"
  proof (cases "st \<in> set (up_streams u)")
    case True
    then show ?thesis using assms by (simp add: streams_ok_def)
  next
    case False
    then obtain r where r: "k < length (up_streams u)" "up_runs u (st_run (up_streams u ! k)) = Some r"
      "st = pull r (up_streams u ! k)"
      using st set_update_subset_insert by (fastforce simp: pull_stream_def split: if_splits option.splits)
    have "\<exists>r. up_runs u (st_run (up_streams u ! k)) = Some r \<and> (length (ur_lines r) < 1024 \<longrightarrow> stream_ok r (up_streams u ! k))"
      using assms nth_mem [OF r(1)] unfolding streams_ok_def by blast
    then show ?thesis
      using r(2,3) pull_ok by auto
  qed
qed

lemma streams_ok_step: "run_ok u \<Longrightarrow> streams_ok u \<Longrightarrow> streams_ok (upd_step e u)"
  by (cases e) (auto simp: upd_step_def streams_ok_apply streams_ok_drive streams_ok_clear streams_ok_watch streams_ok_pull)

lemma streams_ok_run: "run_ok u \<Longrightarrow> streams_ok u \<Longrightarrow> streams_ok (upd_run es u)"
  unfolding upd_run_def by (induction es arbitrary: u) (simp_all add: run_ok_step streams_ok_step)

lemma streams_ok_start: "streams_ok no_updates"
  by (simp add: streams_ok_def no_updates_def)

lemma reached_ok:
  assumes "st \<in> set (up_streams (upd_run es no_updates))" "up_runs (upd_run es no_updates) (st_run st) = Some r"
    "length (ur_lines r) < 1024"
  shows "stream_ok r st"
proof -
  have "\<exists>r. up_runs (upd_run es no_updates) (st_run st) = Some r \<and> (length (ur_lines r) < 1024 \<longrightarrow> stream_ok r st)"
    using streams_ok_run [OF run_ok_start streams_ok_start, of es] assms(1) unfolding streams_ok_def by blast
  then show ?thesis
    using assms(2,3) by auto
qed


section \<open>Whether a stream ends\<close>

definition left :: "update_run \<Rightarrow> sse_stream \<Rightarrow> nat" where
  "left r st = (case st_phase st of Replaying k \<Rightarrow> Suc (length (ur_lines r) - k) | Tailing \<Rightarrow> length (st_queue st) | Ended \<Rightarrow> 0)"

lemma left_Ended:
  assumes "stream_ok r st" "ur_status r \<noteq> ''running''" "left r st = 0"
  shows "st_phase st = Ended"
  using assms by (auto simp: left_def stream_ok_def tail_ok_def tail_mark_def split: stream_phase.splits)

lemma left_pull:
  assumes "stream_ok r st" "ur_status r \<noteq> ''running''"
  shows "left r (pull r st) \<le> left r st - 1"
proof (cases "st_phase st")
  case Tailing
  then obtain x q where "st_queue st = x # q"
    using assms by (cases "st_queue st") (auto simp: stream_ok_def tail_ok_def tail_mark_def)
  then show ?thesis
    using Tailing by (cases x) (simp_all add: left_def pull_def tail_step_def)
qed (auto simp: left_def pull_def assms(2))

lemma pulls_end:
  "stream_ok r st \<Longrightarrow> ur_status r \<noteq> ''running'' \<Longrightarrow> left r st \<le> n \<Longrightarrow> st_phase ((pull r ^^ n) st) = Ended"
proof (induction n arbitrary: st)
  case 0
  then show ?case using left_Ended by simp
next
  case (Suc n)
  have "left r (pull r st) \<le> n"
    using left_pull [OF Suc.prems(1,2)] Suc.prems(3) by simp
  from Suc.IH [OF pull_ok [OF Suc.prems(1)] Suc.prems(2) this] show ?case
    by (simp add: funpow_swap1)
qed

lemma left_bound: "stream_ok r st \<Longrightarrow> left r st \<le> Suc (length (ur_lines r))"
  by (auto simp: left_def stream_ok_def tail_ok_def tail_mark_def split: stream_phase.splits)

lemma pulls_of_stream:
  assumes "k < length (up_streams u)" "up_runs u (st_run (up_streams u ! k)) = Some r"
  shows "up_streams (upd_run (replicate n (Pull k)) u) = (up_streams u)[k := (pull r ^^ n) (up_streams u ! k)]"
  using assms
proof (induction n arbitrary: u)
  case (Suc n)
  let ?u = "pull_stream k u"
  have "up_streams ?u = (up_streams u)[k := pull r (up_streams u ! k)]"
    using Suc.prems by (simp add: pull_stream_def)
  then show ?case
    using Suc.IH [of ?u] Suc.prems by (simp add: upd_run_def upd_step_def funpow_swap1)
qed (simp add: upd_run_def)

text \<open>A stream of a finished run of at most 1023 lines ends: however the run was reached, as many pulls as
  the run has lines and one more bring it to the closing event.\<close>

lemma stream_terminates:
  assumes "k < length (up_streams (upd_run es no_updates))"
    "up_runs (upd_run es no_updates) (st_run (up_streams (upd_run es no_updates) ! k)) = Some r"
    "ur_status r \<noteq> ''running''" "length (ur_lines r) < 1024" "length (ur_lines r) < n"
  shows "st_phase (up_streams (upd_run (es @ replicate n (Pull k)) no_updates) ! k) = Ended"
proof -
  let ?u = "upd_run es no_updates"
  have ok: "stream_ok r (up_streams ?u ! k)"
    by (rule reached_ok [OF nth_mem [OF assms(1)] assms(2,4)])
  have "left r (up_streams ?u ! k) \<le> n"
    using left_bound [OF ok] assms(5) by simp
  from pulls_end [OF ok assms(3) this] show ?thesis
    using pulls_of_stream [OF assms(1,2), of n] assms(1) by (simp add: upd_run_def)
qed

text \<open>A client that is 1024 lines behind when the run ends misses the closing entry.\<close>

definition stuck :: "string \<Rightarrow> nat \<Rightarrow> updates \<Rightarrow> bool" where
  "stuck i k u \<longleftrightarrow> (\<exists>r. up_runs u i = Some r \<and> (ur_driver r = Clearing \<or> ur_driver r = Over)) \<and>
     k < length (up_streams u) \<and> st_run (up_streams u ! k) = i \<and> st_phase (up_streams u ! k) = Tailing \<and>
     None \<notin> set (st_queue (up_streams u ! k))"

lemma offer_other [simp]: "k < length sts \<Longrightarrow> st_run (sts ! k) \<noteq> j \<Longrightarrow> offer j x sts ! k = sts ! k"
  by (simp add: offer_def)

lemma length_offer [simp]: "length (offer j x sts) = length sts"
  by (simp add: offer_def)

lemma drive_frame:
  "i \<noteq> j \<Longrightarrow> up_runs (drive_update j e u) i = up_runs u i"
  "length (up_streams (drive_update j e u)) = length (up_streams u)"
  "k < length (up_streams u) \<Longrightarrow> st_run (up_streams u ! k) \<noteq> j \<Longrightarrow> up_streams (drive_update j e u) ! k = up_streams u ! k"
  by (simp_all add: drive_update_def set_driver_def split: option.splits driver.splits proc_event.splits)

lemma stuck_drive:
  assumes "stuck i k u"
  shows "stuck i k (drive_update j e u)"
proof (cases "j = i")
  case True
  then have "drive_update j e u = u"
    using assms by (auto simp: stuck_def drive_update_def)
  then show ?thesis using assms by simp
next
  case False
  then show ?thesis
    using assms by (simp add: stuck_def drive_frame)
qed

lemma stuck_clear: "stuck i k u \<Longrightarrow> stuck i k (clear_active j u)"
  by (auto simp: stuck_def clear_active_def set_driver_def Let_def)

lemma stuck_pull: "stuck i k u \<Longrightarrow> stuck i k (pull_stream j u)"
  by (cases "j = k"; cases "st_queue (up_streams u ! k)")
    (auto simp: stuck_def pull_stream_def pull_def tail_step_def split: option.splits)

lemma stuck_apply: "stuck i k u \<Longrightarrow> up_runs u j = None \<Longrightarrow> stuck i k (fst (apply_update sudo script j cx b usr u))"
  by (auto simp: stuck_def apply_update_def split: option.splits)

lemma stuck_watch: "stuck i k u \<Longrightarrow> stuck i k (snd (stream_run j u))"
  by (auto simp: stuck_def stream_run_def nth_append split: option.splits)

lemma stuck_step: "stuck i k u \<Longrightarrow> stuck i k (upd_step e u)"
  by (cases e) (simp_all add: upd_step_def stuck_drive stuck_clear stuck_pull stuck_apply stuck_watch)

text \<open>A stream whose queue was full when the run ended never ends: it says the lines it has and then
  waits for ever, whatever else happens.\<close>

lemma full_queue_hangs:
  assumes "up_runs u i = Some r" "ur_driver r = Clearing \<or> ur_driver r = Over" "k < length (up_streams u)"
    "st_run (up_streams u ! k) = i" "st_phase (up_streams u ! k) = Tailing" "None \<notin> set (st_queue (up_streams u ! k))"
  shows "st_phase (up_streams (upd_run es u) ! k) = Tailing"
proof -
  have "stuck i k u"
    using assms by (simp add: stuck_def)
  then have "stuck i k (upd_run es u)"
    unfolding upd_run_def by (induction es arbitrary: u) (simp_all add: stuck_step)
  then show ?thesis by (simp add: stuck_def)
qed

section \<open>An update that prints\<close>

definition some_cx :: req_ctx where
  "some_cx = \<lparr>rq_now = 100, rq_new_id = ''x1'', rq_audit_id = 7, rq_audit_ok = True\<rparr>"

definition latest :: update_request where
  "latest = \<lparr>rq_target = None, rq_rollback = False, rq_skip_backup = False\<rparr>"

definition begun :: "upd_event list" where
  "begun = [Apply True True ''r1'' some_cx latest alice, Drive ''r1'' Starts, Watch ''r1'', Pull 0, Pull 0]"

text \<open>Watched by one client that has read the replay and then stops reading.\<close>

definition printing :: "nat \<Rightarrow> updates \<Rightarrow> bool" where
  "printing n u \<longleftrightarrow> (\<exists>r. up_runs u ''r1'' = Some r \<and> ur_driver r = Reading \<and> ur_status r = ''running'' \<and> length (ur_lines r) = Suc n) \<and>
     (\<exists>st. up_streams u = [st] \<and> st_run st = ''r1'' \<and> st_phase st = Tailing \<and> st_queue st = replicate (min n 1024) (Some ''building''))"

lemma printing_begun: "printing 0 (upd_run begun no_updates)"
  by (simp add: printing_def begun_def upd_run_def upd_step_def apply_update_def new_run_def drive_update_def
      set_driver_def push_def set_run_def offer_def stream_run_def open_stream_def pull_stream_def pull_def tail_step_def no_updates_def)

lemma printing_more: "printing n u \<Longrightarrow> printing (Suc n) (upd_step (Drive ''r1'' (Prints ''building'')) u)"
  by (auto simp: printing_def upd_step_def drive_update_def offer_def put_nowait_def min_def replicate_append_same
      simp flip: replicate_Suc)

lemma printing_lines: "printing n (upd_run (begun @ replicate n (Drive ''r1'' (Prints ''building''))) no_updates)"
proof (induction n)
  case (Suc n)
  then show ?case
    using printing_more by (simp add: upd_run_def replicate_append_same [symmetric] del: replicate_Suc)
qed (simp add: printing_begun)

lemma printing_full:
  assumes "printing 1024 u"
  shows "\<exists>r. up_runs (upd_step (Drive ''r1'' (Exits 0)) u) ''r1'' = Some r \<and> ur_driver r = Clearing \<and>
     (\<exists>st. up_streams (upd_step (Drive ''r1'' (Exits 0)) u) = [st] \<and> st_run st = ''r1'' \<and> st_phase st = Tailing \<and> None \<notin> set (st_queue st))"
  using assms by (auto simp: printing_def upd_step_def drive_update_def set_driver_def offer_def put_nowait_def simp del: replicate.simps)

lemma full_queue_hangs_witness:
  "\<exists>es. \<forall>more. st_phase (up_streams (upd_run more (upd_run es no_updates)) ! 0) = Tailing"
proof -
  let ?es = "begun @ replicate 1024 (Drive ''r1'' (Prints ''building'')) @ [Drive ''r1'' (Exits 0)]"
  have "upd_run ?es no_updates = upd_step (Drive ''r1'' (Exits 0))
      (upd_run (begun @ replicate 1024 (Drive ''r1'' (Prints ''building''))) no_updates)"
    by (simp add: upd_run_def del: replicate.simps)
  with printing_full [OF printing_lines [of 1024]] obtain r st where
    "up_runs (upd_run ?es no_updates) ''r1'' = Some r" "ur_driver r = Clearing"
    "up_streams (upd_run ?es no_updates) = [st]" "st_run st = ''r1''" "st_phase st = Tailing" "None \<notin> set (st_queue st)"
    by auto
  then have "st_phase (up_streams (upd_run more (upd_run ?es no_updates)) ! 0) = Tailing" for more
    by (intro full_queue_hangs [where u = "upd_run ?es no_updates" and i = "''r1''" and r = r])
      (simp_all del: replicate.simps)
  then show ?thesis
    by blast
qed

definition finished_watch :: "upd_event list" where
  "finished_watch = begun @ [Drive ''r1'' (Prints ''building''), Drive ''r1'' (Exits 0)]"

definition finished_run :: update_run where
  "finished_run = \<lparr>ur_lines = [''$ '' @ joined (update_cmd latest), ''building''], ur_status = ''ok'', ur_exit = Some 0, ur_driver = Clearing\<rparr>"

definition finished_stream :: sse_stream where
  "finished_stream = \<lparr>st_run = ''r1'', st_queue = [Some ''building'', None], st_phase = Tailing,
     st_out = [Data (''$ '' @ joined (update_cmd latest))]\<rparr>"

lemmas upd_defs = upd_run_def upd_step_def apply_update_def new_run_def drive_update_def set_driver_def push_def finish_def set_run_def
  offer_def put_nowait_def stream_run_def open_stream_def pull_stream_def pull_def tail_step_def no_updates_def

lemma finished_state:
  "up_runs (upd_run finished_watch no_updates) ''r1'' = Some finished_run"
  "up_streams (upd_run finished_watch no_updates) = [finished_stream]"
  by (simp_all add: finished_watch_def begun_def finished_run_def finished_stream_def upd_defs)

lemma stream_terminates_witness:
  "st_phase (up_streams (upd_run (finished_watch @ replicate 3 (Pull 0)) no_updates) ! 0) = Ended"
  by (rule stream_terminates [of _ _ finished_run])
    (simp_all add: finished_state, simp_all add: finished_run_def finished_stream_def finished_state(1))


end
