(* ===== verification/Stt_Streaming.thy ===== *)
theory Stt_Streaming
  imports Vici_Models
begin

text \<open>
  The recogniser's stream, \<open>stt-server/src/aipanel_stt/streaming.py\<close>: frames of audio are cut into blocks
  for the voice activity detector, the blocks of an utterance are collected, and what Whisper makes of
  them is sent as partial and final texts. The detector is what it answers for the \<open>n\<close>-th block of the
  stream, Whisper a function of its arguments (None is an exception), the monotonic clock is read
  once per block. Messages are always delivered: a closed socket is the end of the input.
\<close>

section \<open>The state of a stream\<close>

definition VAD_CHUNK_SAMPLES :: nat where "VAD_CHUNK_SAMPLES = 512"
definition VAD_CHUNK_BYTES :: nat where "VAD_CHUNK_BYTES = VAD_CHUNK_SAMPLES * 2"
definition SAMPLE_RATE :: nat where "SAMPLE_RATE = 16000"

datatype vad_event = VadStart | VadEnd

datatype stt_msg = SttPartial string rat | SttFinal string int | SttError string

record recogniser_env =
  se_language :: string
  se_beam_size :: nat
  se_beam_size_partial :: nat
  se_partial_interval_ms :: nat
  se_max_segment_sec :: rat
  se_vad :: "nat \<Rightarrow> bytes \<Rightarrow> vad_event option"
  se_whisper :: "rat list \<Rightarrow> pyval \<Rightarrow> nat \<Rightarrow> string option"
  se_clock :: "nat \<Rightarrow> rat"

datatype stt_phase = Streaming | Finished | CrashedStream

record stt =
  tt_language :: pyval
  tt_pending :: bytes
  tt_speech :: "bytes list"
  tt_started_at :: "rat option"
  tt_last_partial_at :: rat
  tt_last_text :: string
  tt_repeat :: nat
  tt_blocks :: nat
  tt_phase :: stt_phase
  tt_out :: "stt_msg list"

definition new_stt :: "recogniser_env \<Rightarrow> stt" where
  "new_stt env = \<lparr>tt_language = PStr (se_language env), tt_pending = [], tt_speech = [], tt_started_at = None,
     tt_last_partial_at = 0, tt_last_text = [], tt_repeat = 0, tt_blocks = 0, tt_phase = Streaming, tt_out = []\<rparr>"

definition send :: "stt_msg \<Rightarrow> stt \<Rightarrow> stt" where
  "send m s = s\<lparr>tt_out := tt_out s @ [m]\<rparr>"

definition crash_stream :: "stt \<Rightarrow> stt" where
  "crash_stream s = send (SttError ''internal error'') s\<lparr>tt_phase := CrashedStream\<rparr>"

text \<open>Signed 16-bit little-endian samples as fractions of full scale.\<close>

fun bytes_to_f32 :: "bytes \<Rightarrow> rat list" where
  "bytes_to_f32 (lo # hi # bs) = of_int (sint (word_cat hi lo :: 16 word)) / 32768 # bytes_to_f32 bs"
| "bytes_to_f32 _ = []"

definition speech_samples :: "stt \<Rightarrow> rat list" where
  "speech_samples s = concat (map bytes_to_f32 (tt_speech s))"

section \<open>Partial and final texts\<close>

definition stability :: "string \<Rightarrow> string \<Rightarrow> nat \<Rightarrow> rat" where
  "stability prev current repeat_count =
     (if current = [] then 0
      else if current = prev then min (1 / 2 + of_nat repeat_count / 10) (9 / 10)
      else if prev \<noteq> [] \<and> startswith current prev then 7 / 10
      else 4 / 10)"

definition language_arg :: "pyval \<Rightarrow> pyval" where
  "language_arg l = (if \<not> truthy l \<or> l = PStr ''auto'' then PNone else l)"

definition run_whisper :: "recogniser_env \<Rightarrow> rat list \<Rightarrow> pyval \<Rightarrow> nat \<Rightarrow> string option" where
  "run_whisper env pcm language beam = map_option strip (se_whisper env pcm (language_arg language) beam)"

definition emit_partial :: "recogniser_env \<Rightarrow> stt \<Rightarrow> stt" where
  "emit_partial env s =
     (let pcm = speech_samples s in
      if length pcm < SAMPLE_RATE div 4 then s
      else case run_whisper env pcm (tt_language s) (se_beam_size_partial env) of
        None \<Rightarrow> crash_stream s
      | Some words \<Rightarrow>
          (let n = (if words = tt_last_text s then Suc (tt_repeat s) else 0) in
           send (SttPartial words (stability (tt_last_text s) words n)) (s\<lparr>tt_repeat := n, tt_last_text := words\<rparr>)))"

text \<open>\<open>int(round(pcm.size / 16.0))\<close>, the half to the even neighbour.\<close>

definition duration_ms :: "nat \<Rightarrow> int" where
  "duration_ms n =
     (let q = int (n div 16); r = n mod 16 in
      if r < 8 \<or> r = 8 \<and> even q then q else q + 1)"

definition emit_final :: "recogniser_env \<Rightarrow> stt \<Rightarrow> stt" where
  "emit_final env s =
     (let pcm = speech_samples s in
      if pcm = [] then s
      else case run_whisper env pcm (tt_language s) (se_beam_size env) of
        None \<Rightarrow> crash_stream s
      | Some words \<Rightarrow> send (SttFinal words (duration_ms (length pcm))) s)"

definition reset_segment :: "stt \<Rightarrow> stt" where
  "reset_segment s = s\<lparr>tt_speech := [], tt_started_at := None, tt_last_partial_at := 0, tt_last_text := [], tt_repeat := 0\<rparr>"

text \<open>\<open>_emit_final\<close> followed by \<open>_reset_segment\<close>, which an exception of the first skips.\<close>

definition end_segment :: "recogniser_env \<Rightarrow> stt \<Rightarrow> stt" where
  "end_segment env s = (let s' = emit_final env s in if tt_phase s' = Streaming then reset_segment s' else s')"

section \<open>One block of audio\<close>

text \<open>The collection of the block and the event of the detector.\<close>

definition take_block :: "recogniser_env \<Rightarrow> bytes \<Rightarrow> stt \<Rightarrow> stt" where
  "take_block env block s =
     (let ev = se_vad env (tt_blocks s) block; now = se_clock env (tt_blocks s);
          s1 = (if tt_started_at s \<noteq> None \<or> ev \<noteq> None then s\<lparr>tt_speech := tt_speech s @ [block]\<rparr> else s) in
      case ev of
        Some VadStart \<Rightarrow>
          if tt_started_at s1 = None
          then s1\<lparr>tt_started_at := Some now, tt_last_text := [], tt_repeat := 0\<rparr> else s1
      | Some VadEnd \<Rightarrow> if tt_started_at s1 \<noteq> None then end_segment env s1 else s1
      | None \<Rightarrow> s1)"

text \<open>The cap on the length of a segment, else the partial text when one is due.\<close>

definition after_block :: "recogniser_env \<Rightarrow> rat \<Rightarrow> stt \<Rightarrow> stt" where
  "after_block env now s =
     (case tt_started_at s of
        None \<Rightarrow> s
      | Some t0 \<Rightarrow>
          if se_max_segment_sec env \<le> now - t0 then end_segment env s
          else if of_nat (se_partial_interval_ms env) \<le> (now - tt_last_partial_at s) * 1000
          then emit_partial env (s\<lparr>tt_last_partial_at := now\<rparr>)
          else s)"

definition block_step :: "recogniser_env \<Rightarrow> bytes \<Rightarrow> stt \<Rightarrow> stt" where
  "block_step env block s =
     (let s' = take_block env block s in
      (if tt_phase s' = Streaming then after_block env (se_clock env (tt_blocks s)) s' else s')\<lparr>tt_blocks := Suc (tt_blocks s)\<rparr>)"

lemma pending_block_step [simp]: "tt_pending (block_step env b s) = tt_pending s"
  by (simp add: block_step_def take_block_def after_block_def end_segment_def reset_segment_def emit_final_def emit_partial_def
      crash_stream_def send_def Let_def split: option.splits vad_event.splits)

function drain :: "recogniser_env \<Rightarrow> stt \<Rightarrow> stt" where
  "drain env s =
     (if VAD_CHUNK_BYTES \<le> length (tt_pending s) \<and> tt_phase s = Streaming
      then drain env (block_step env (take VAD_CHUNK_BYTES (tt_pending s)) (s\<lparr>tt_pending := drop VAD_CHUNK_BYTES (tt_pending s)\<rparr>))
      else s)"
  by pat_completeness auto
termination
  by (relation "measure (\<lambda>(env, s). length (tt_pending s))") (auto simp: VAD_CHUNK_BYTES_def VAD_CHUNK_SAMPLES_def)

declare drain.simps [simp del]

lemma drain_go:
  "VAD_CHUNK_BYTES \<le> length (tt_pending s) \<and> tt_phase s = Streaming \<Longrightarrow>
   drain env s = drain env (block_step env (take VAD_CHUNK_BYTES (tt_pending s)) (s\<lparr>tt_pending := drop VAD_CHUNK_BYTES (tt_pending s)\<rparr>))"
  by (subst drain.simps) (rule if_P)

lemma drain_stop: "\<not> (VAD_CHUNK_BYTES \<le> length (tt_pending s) \<and> tt_phase s = Streaming) \<Longrightarrow> drain env s = s"
  by (subst drain.simps) (rule if_not_P)

definition handle_audio :: "recogniser_env \<Rightarrow> bytes \<Rightarrow> stt \<Rightarrow> stt" where
  "handle_audio env chunk s = drain env (s\<lparr>tt_pending := tt_pending s @ chunk\<rparr>)"

section \<open>Control messages and the loop\<close>

datatype stt_ctrl = BadJson | CtrlJson pyval

text \<open>\<open>int(v)\<close>; None is an exception.\<close>

definition int_of_value :: "pyval \<Rightarrow> int option" where
  "int_of_value v =
     (case v of
        PInt i \<Rightarrow> Some i
      | PBool b \<Rightarrow> Some (if b then 1 else 0)
      | PFloat x \<Rightarrow> Some (if x < 0 then - \<lfloor>- x\<rfloor> else \<lfloor>x\<rfloor>)
      | PStr t \<Rightarrow> parse_int (strip t)
      | _ \<Rightarrow> None)"

definition start_stream :: "recogniser_env \<Rightarrow> pyval dict \<Rightarrow> stt \<Rightarrow> stt" where
  "start_stream env d s =
     (let s1 = s\<lparr>tt_language := py_or (dget d ''language'') (PStr (se_language env))\<rparr> in
      case int_of_value (py_or (dget d ''sample_rate'') (PInt (int SAMPLE_RATE))) of
        None \<Rightarrow> crash_stream s1
      | Some sr \<Rightarrow>
          if sr \<noteq> int SAMPLE_RATE
          then send (SttError (''sample_rate must be '' @ str_int (int SAMPLE_RATE) @ '' (got '' @ str_int sr @ '')'')) s1
          else s1)"

definition finalize :: "recogniser_env \<Rightarrow> stt \<Rightarrow> stt" where
  "finalize env s =
     (let s' = (if tt_started_at s \<noteq> None \<and> tt_speech s \<noteq> [] then emit_final env s else s) in
      if tt_phase s' = Streaming then s'\<lparr>tt_phase := Finished\<rparr> else s')"

definition handle_control :: "recogniser_env \<Rightarrow> stt_ctrl \<Rightarrow> stt \<Rightarrow> stt" where
  "handle_control env c s =
     (case c of
        BadJson \<Rightarrow> send (SttError ''invalid json'') s
      | CtrlJson (PDict d) \<Rightarrow>
          if dget d ''type'' = PStr ''start'' then start_stream env d s
          else if dget d ''type'' = PStr ''end'' then finalize env s
          else s
      | CtrlJson _ \<Rightarrow> crash_stream s)"

datatype ws_msg = WsText stt_ctrl | WsBytes bytes | WsDisconnect

definition ws_step :: "recogniser_env \<Rightarrow> ws_msg \<Rightarrow> stt \<Rightarrow> stt" where
  "ws_step env m s =
     (if tt_phase s \<noteq> Streaming then s
      else case m of
        WsText c \<Rightarrow> handle_control env c s
      | WsBytes chunk \<Rightarrow> handle_audio env chunk s
      | WsDisconnect \<Rightarrow> s\<lparr>tt_phase := Finished\<rparr>)"

definition stt_stream :: "recogniser_env \<Rightarrow> ws_msg list \<Rightarrow> stt" where
  "stt_stream env ms = fold (ws_step env) ms (new_stt env)"

section \<open>How the audio is cut into frames does not matter\<close>

lemma emit_pending:
  "emit_final env (s\<lparr>tt_pending := p\<rparr>) = (emit_final env s)\<lparr>tt_pending := p\<rparr>"
  "emit_partial env (s\<lparr>tt_pending := p\<rparr>) = (emit_partial env s)\<lparr>tt_pending := p\<rparr>"
  by (simp_all add: emit_final_def emit_partial_def speech_samples_def crash_stream_def send_def Let_def split: option.splits)

lemma end_segment_pending: "end_segment env (s\<lparr>tt_pending := p\<rparr>) = (end_segment env s)\<lparr>tt_pending := p\<rparr>"
  by (simp add: end_segment_def reset_segment_def emit_pending Let_def)

lemma pending_last:
  "(s :: stt)\<lparr>tt_pending := p, tt_speech := x\<rparr> = s\<lparr>tt_speech := x, tt_pending := p\<rparr>"
  "(s :: stt)\<lparr>tt_pending := p, tt_last_partial_at := t\<rparr> = s\<lparr>tt_last_partial_at := t, tt_pending := p\<rparr>"
  by simp_all

lemma take_block_pending: "take_block env b (s\<lparr>tt_pending := p\<rparr>) = (take_block env b s)\<lparr>tt_pending := p\<rparr>"
  using end_segment_pending [of env p "s\<lparr>tt_speech := tt_speech s @ [b]\<rparr>"]
  by (simp add: take_block_def Let_def pending_last split: option.splits vad_event.splits)

lemma after_block_pending: "after_block env now (s\<lparr>tt_pending := p\<rparr>) = (after_block env now s)\<lparr>tt_pending := p\<rparr>"
  using emit_pending(2) [of env p "s\<lparr>tt_last_partial_at := now\<rparr>"]
  by (simp add: after_block_def end_segment_pending pending_last split: option.splits)

lemma block_step_pending: "block_step env b (s\<lparr>tt_pending := p\<rparr>) = (block_step env b s)\<lparr>tt_pending := p\<rparr>"
  by (simp add: block_step_def Let_def take_block_pending after_block_pending)

lemma drain_append:
  "drain env ((drain env s)\<lparr>tt_pending := tt_pending (drain env s) @ q\<rparr>) = drain env (s\<lparr>tt_pending := tt_pending s @ q\<rparr>)"
proof (induction env s rule: drain.induct)
  case (1 env s)
  show ?case
  proof (cases "VAD_CHUNK_BYTES \<le> length (tt_pending s) \<and> tt_phase s = Streaming")
    case True
    let ?s1 = "block_step env (take VAD_CHUNK_BYTES (tt_pending s)) (s\<lparr>tt_pending := drop VAD_CHUNK_BYTES (tt_pending s)\<rparr>)"
    have "drain env (s\<lparr>tt_pending := tt_pending s @ q\<rparr>) = drain env (?s1\<lparr>tt_pending := tt_pending ?s1 @ q\<rparr>)"
      using True by (subst drain_go) (simp_all add: block_step_pending)
    then show ?thesis
      using 1 [OF True] drain_go [OF True, of env] by simp
  qed (simp add: drain_stop)
qed

lemma handle_audio_append: "handle_audio env q (handle_audio env p s) = handle_audio env (p @ q) s"
  using drain_append [of env "s\<lparr>tt_pending := tt_pending s @ p\<rparr>" q] by (simp add: handle_audio_def)

lemma handle_audio_over:
  assumes "tt_phase s \<noteq> Streaming"
  shows "tt_out (handle_audio env p s) = tt_out s" "tt_phase (handle_audio env p s) = tt_phase s"
  using assms by (simp_all add: handle_audio_def drain_stop)

definition alike :: "stt \<Rightarrow> stt \<Rightarrow> bool" where
  "alike s t \<longleftrightarrow> s = t \<or> tt_phase s \<noteq> Streaming \<and> tt_phase t \<noteq> Streaming \<and> tt_out s = tt_out t"

lemma alike_run: "alike s t \<Longrightarrow> alike (fold (ws_step env) ms s) (fold (ws_step env) ms t)"
proof (induction ms arbitrary: s t)
  case (Cons m ms)
  have "alike (ws_step env m s) (ws_step env m t)"
    using Cons.prems by (auto simp: alike_def ws_step_def)
  then show ?case using Cons.IH by simp
qed simp

lemma over_run: "tt_phase s \<noteq> Streaming \<Longrightarrow> fold (ws_step env) ms s = s"
  by (induction ms) (simp_all add: ws_step_def)

lemma handle_audio_Nil:
  assumes "length (tt_pending s) < VAD_CHUNK_BYTES"
  shows "handle_audio env [] s = s"
  using assms by (simp add: handle_audio_def drain_stop)

lemma drain_short: "tt_phase (drain env s) = Streaming \<Longrightarrow> length (tt_pending (drain env s)) < VAD_CHUNK_BYTES"
proof (induction env s rule: drain.induct)
  case (1 env s)
  show ?case
  proof (cases "VAD_CHUNK_BYTES \<le> length (tt_pending s) \<and> tt_phase s = Streaming")
    case True
    then show ?thesis using 1 drain_go [OF True, of env] by simp
  next
    case False
    then show ?thesis using 1(2) drain_stop [OF False, of env] by auto
  qed
qed

text \<open>A streaming state never holds a whole block.\<close>

definition short_pending :: "stt \<Rightarrow> bool" where
  "short_pending s \<longleftrightarrow> (tt_phase s = Streaming \<longrightarrow> length (tt_pending s) < VAD_CHUNK_BYTES)"

lemma short_step: "short_pending s \<Longrightarrow> short_pending (ws_step env m s)"
  by (auto simp: short_pending_def ws_step_def handle_audio_def drain_short handle_control_def start_stream_def finalize_def
      emit_final_def crash_stream_def send_def Let_def split: ws_msg.splits stt_ctrl.splits pyval.splits option.splits if_splits)

lemma short_run: "short_pending s \<Longrightarrow> short_pending (fold (ws_step env) ms s)"
  by (induction ms arbitrary: s) (simp_all add: short_step)

lemma ws_bytes: "tt_phase s = Streaming \<Longrightarrow> ws_step env (WsBytes c) s = handle_audio env c s"
  by (simp add: ws_step_def)

lemma frames_alike:
  "short_pending s \<Longrightarrow> alike (fold (ws_step env) (map WsBytes cs) s) (ws_step env (WsBytes (concat cs)) s)"
proof (induction cs arbitrary: s)
  case Nil
  then show ?case
    by (auto simp: alike_def ws_step_def short_pending_def handle_audio_Nil)
next
  case (Cons c cs)
  let ?s1 = "ws_step env (WsBytes c) s"
  have s1: "alike (fold (ws_step env) (map WsBytes cs) ?s1) (ws_step env (WsBytes (concat cs)) ?s1)"
    using Cons.IH [OF short_step [OF Cons.prems]] .
  show ?case
  proof (cases "tt_phase s = Streaming")
    case streaming: True
    then have s1_is: "?s1 = handle_audio env c s" and all: "ws_step env (WsBytes (concat (c # cs))) s = handle_audio env (concat cs) ?s1"
      by (simp_all add: ws_step_def handle_audio_append)
    show ?thesis
    proof (cases "tt_phase ?s1 = Streaming")
      case True
      have "ws_step env (WsBytes (concat (c # cs))) s = ws_step env (WsBytes (concat cs)) ?s1"
        unfolding all by (rule ws_bytes [OF True, symmetric])
      with s1 show ?thesis by simp
    next
      case False
      have "fold (ws_step env) (map WsBytes (c # cs)) s = ?s1"
        using over_run [OF False] by simp
      then show ?thesis
        unfolding all alike_def using False handle_audio_over [OF False, of env "concat cs"] by simp
    qed
  next
    case False
    then show ?thesis
      using over_run [OF False, of env "map WsBytes (c # cs)"] over_run [OF False, of env "[WsBytes (concat (c # cs))]"]
      by (simp add: alike_def)
  qed
qed


section \<open>Every utterance is transcribed once\<close>

definition finals :: "stt \<Rightarrow> stt_msg list" where
  "finals s = filter (\<lambda>m. case m of SttFinal _ _ \<Rightarrow> True | _ \<Rightarrow> False) (tt_out s)"

text \<open>The utterances the detector sees: from a start to the next end, or to the end of the stream.\<close>

fun segments :: "recogniser_env \<Rightarrow> nat \<Rightarrow> bytes list option \<Rightarrow> bytes list \<Rightarrow> bytes list list" where
  "segments env n None [] = []"
| "segments env n (Some cur) [] = [cur]"
| "segments env n None (b # bs) =
     (if se_vad env n b = Some VadStart then segments env (Suc n) (Some [b]) bs else segments env (Suc n) None bs)"
| "segments env n (Some cur) (b # bs) =
     (if se_vad env n b = Some VadEnd then (cur @ [b]) # segments env (Suc n) None bs
      else segments env (Suc n) (Some (cur @ [b])) bs)"

definition final_of :: "recogniser_env \<Rightarrow> bytes list \<Rightarrow> stt_msg" where
  "final_of env seg =
     (let pcm = concat (map bytes_to_f32 seg) in
      SttFinal (case run_whisper env pcm (PStr (se_language env)) (se_beam_size env) of None \<Rightarrow> [] | Some t \<Rightarrow> t)
        (duration_ms (length pcm)))"

text \<open>What the detector promises: starts and ends alternate, beginning with a start.\<close>

fun alternates :: "recogniser_env \<Rightarrow> nat \<Rightarrow> bool \<Rightarrow> bytes list \<Rightarrow> bool" where
  "alternates env n on [] = True"
| "alternates env n on (b # bs) =
     (case se_vad env n b of
        None \<Rightarrow> alternates env (Suc n) on bs
      | Some VadStart \<Rightarrow> \<not> on \<and> alternates env (Suc n) True bs
      | Some VadEnd \<Rightarrow> on \<and> alternates env (Suc n) False bs)"

definition whisper_works :: "recogniser_env \<Rightarrow> bool" where
  "whisper_works env \<longleftrightarrow> (\<forall>pcm l n. se_whisper env pcm l n \<noteq> None)"

definition within_cap :: "recogniser_env \<Rightarrow> bool" where
  "within_cap env \<longleftrightarrow> (\<forall>n. 0 \<le> se_clock env n \<and> se_clock env n < se_max_segment_sec env)"

definition following :: "recogniser_env \<Rightarrow> bytes list option \<Rightarrow> stt \<Rightarrow> bool" where
  "following env cur s \<longleftrightarrow> tt_phase s = Streaming \<and> tt_language s = PStr (se_language env) \<and>
     (case cur of None \<Rightarrow> tt_started_at s = None \<and> tt_speech s = []
      | Some c \<Rightarrow> (\<exists>t. tt_started_at s = Some t \<and> 0 \<le> t) \<and> tt_speech s = c \<and>
        c \<noteq> [] \<and> list_all (\<lambda>b. length b = VAD_CHUNK_BYTES) c)"

lemma whisper_text: "whisper_works env \<Longrightarrow> \<exists>t. run_whisper env pcm l n = Some t"
  by (auto simp: whisper_works_def run_whisper_def)

lemma bytes_to_f32_length: "length (bytes_to_f32 bs) = length bs div 2"
  by (induction bs rule: bytes_to_f32.induct) simp_all

lemma partial_frame:
  assumes "whisper_works env"
  shows "following env cur (emit_partial env s) = following env cur s" "finals (emit_partial env s) = finals s"
    "tt_blocks (emit_partial env s) = tt_blocks s"
  using whisper_text [OF assms, of "speech_samples s" "tt_language s" "se_beam_size_partial env"]
  by (auto simp: emit_partial_def Let_def following_def finals_def send_def split: option.splits)

lemma after_frame:
  assumes "whisper_works env" "within_cap env" "following env cur s"
  shows "following env cur (after_block env (se_clock env n) s) \<and> finals (after_block env (se_clock env n) s) = finals s"
proof -
  have "following env cur (s\<lparr>tt_last_partial_at := x\<rparr>) = following env cur s" "finals (s\<lparr>tt_last_partial_at := x\<rparr>) = finals s" for x
    by (simp_all add: following_def finals_def split: option.splits)
  moreover have "\<not> se_max_segment_sec env \<le> se_clock env n - t" if "tt_started_at s = Some t" for t
  proof -
    have "0 \<le> t"
      using that assms(3) by (auto simp: following_def split: option.splits)
    moreover have "se_clock env n < se_max_segment_sec env"
      using assms(2) by (simp add: within_cap_def)
    ultimately show ?thesis by linarith
  qed
  ultimately show ?thesis
    using assms(3) by (auto simp: after_block_def partial_frame [OF assms(1)] split: option.splits)
qed

lemma take_frame:
  assumes "whisper_works env" "within_cap env" "following env cur s" "length b = VAD_CHUNK_BYTES"
    "tt_blocks s = n" "alternates env n (cur \<noteq> None) (b # bs)"
  shows "\<exists>cur' out. following env cur' (take_block env b s) \<and> finals (take_block env b s) = finals s @ out \<and>
     alternates env (Suc n) (cur' \<noteq> None) bs \<and>
     segments env n cur (b # bs) = concat (map (\<lambda>_. [the cur @ [b]]) out) @ segments env (Suc n) cur' bs \<and>
     map (\<lambda>_. final_of env (the cur @ [b])) out = out"
proof (cases cur)
  case None
  then have idle: "tt_phase s = Streaming" "tt_language s = PStr (se_language env)" "tt_started_at s = None" "tt_speech s = []"
    using assms(3) by (simp_all add: following_def)
  show ?thesis
  proof (cases "se_vad env n b")
    case None
    then show ?thesis
      using assms(3,5,6) idle \<open>cur = None\<close>
      by (intro exI [of _ None] exI [of _ "[]"]) (simp add: take_block_def Let_def)
  next
    case (Some ev)
    then have "ev = VadStart"
      using assms(6) \<open>cur = None\<close> by (cases ev) simp_all
    moreover have "0 \<le> se_clock env n"
      using assms(2) by (simp add: within_cap_def)
    ultimately show ?thesis
      using Some assms(4-6) idle \<open>cur = None\<close>
      by (intro exI [of _ "Some [b]"] exI [of _ "[]"]) (simp add: take_block_def Let_def following_def finals_def)
  qed
next
  case (Some c)
  then obtain t where on: "tt_phase s = Streaming" "tt_language s = PStr (se_language env)" "tt_started_at s = Some t" "0 \<le> t" "tt_speech s = c"
    "list_all (\<lambda>b. length b = VAD_CHUNK_BYTES) c"
    using assms(3) by (auto simp: following_def)
  show ?thesis
  proof (cases "se_vad env n b")
    case None
    then show ?thesis
      using assms(4-6) on \<open>cur = Some c\<close>
      by (intro exI [of _ "Some (c @ [b])"] exI [of _ "[]"]) (simp add: take_block_def Let_def following_def finals_def)
  next
    case end_ev: (Some ev)
    then have ev: "ev = VadEnd"
      using assms(6) \<open>cur = Some c\<close> by (cases ev) simp_all
    let ?s1 = "s\<lparr>tt_speech := c @ [b]\<rparr>"
    have "length (speech_samples ?s1) \<noteq> 0"
      using assms(4) by (simp add: speech_samples_def bytes_to_f32_length VAD_CHUNK_BYTES_def VAD_CHUNK_SAMPLES_def)
    then have pcm: "speech_samples ?s1 \<noteq> []"
      by auto
    obtain words where w: "run_whisper env (speech_samples ?s1) (PStr (se_language env)) (se_beam_size env) = Some words"
      using whisper_text [OF assms(1)] by blast
    have samples: "speech_samples ?s1 = concat (map bytes_to_f32 (c @ [b]))"
      by (simp add: speech_samples_def)
    have said: "final_of env (c @ [b]) = SttFinal words (duration_ms (length (speech_samples ?s1)))"
      unfolding final_of_def Let_def samples [symmetric] w by simp
    have final: "emit_final env ?s1 = send (final_of env (c @ [b])) ?s1"
      using pcm w on(2) by (simp add: emit_final_def said del: map_append)
    have is_final: "case final_of env (c @ [b]) of SttFinal _ _ \<Rightarrow> True | _ \<Rightarrow> False"
      by (simp add: final_of_def Let_def)
    show ?thesis
      using end_ev ev on is_final assms(5,6) \<open>cur = Some c\<close> final
      by (intro exI [of _ None] exI [of _ "[final_of env (c @ [b])]"])
        (simp add: take_block_def end_segment_def reset_segment_def send_def following_def finals_def Let_def)
  qed
qed

lemma block_frame:
  assumes "whisper_works env" "within_cap env" "following env cur s" "length b = VAD_CHUNK_BYTES"
    "alternates env (tt_blocks s) (cur \<noteq> None) (b # bs)"
  shows "\<exists>cur' out. following env cur' (block_step env b s) \<and> finals (block_step env b s) = finals s @ out \<and>
     alternates env (Suc (tt_blocks s)) (cur' \<noteq> None) bs \<and>
     map (final_of env) (segments env (tt_blocks s) cur (b # bs)) = out @ map (final_of env) (segments env (Suc (tt_blocks s)) cur' bs)"
proof -
  obtain cur' out where t: "following env cur' (take_block env b s)" "finals (take_block env b s) = finals s @ out"
    "alternates env (Suc (tt_blocks s)) (cur' \<noteq> None) bs"
    "segments env (tt_blocks s) cur (b # bs) = concat (map (\<lambda>_. [the cur @ [b]]) out) @ segments env (Suc (tt_blocks s)) cur' bs"
    "map (\<lambda>_. final_of env (the cur @ [b])) out = out"
    using take_frame [OF assms(1-4) refl assms(5)] by blast
  have a: "following env cur' (after_block env (se_clock env (tt_blocks s)) (take_block env b s))"
    "finals (after_block env (se_clock env (tt_blocks s)) (take_block env b s)) = finals s @ out"
    using after_frame [OF assms(1,2) t(1)] t(2) by simp_all
  have counted: "following env cur (s\<lparr>tt_blocks := n\<rparr>) = following env cur s" "finals (s\<lparr>tt_blocks := n\<rparr>) = finals s" for s cur n
    by (simp_all add: following_def finals_def split: option.splits)
  have "tt_phase (take_block env b s) = Streaming"
    using t(1) by (simp add: following_def)
  then have step: "following env cur' (block_step env b s)" "finals (block_step env b s) = finals s @ out"
    using a by (simp_all add: block_step_def Let_def counted)
  have "map (final_of env) (concat (map (\<lambda>_. [the cur @ [b]]) out)) = map (\<lambda>_. final_of env (the cur @ [b])) out"
    by (simp add: map_concat comp_def concat_map_singleton)
  then have "map (final_of env) (segments env (tt_blocks s) cur (b # bs)) = out @ map (final_of env) (segments env (Suc (tt_blocks s)) cur' bs)"
    unfolding t(4) map_append using t(5) by simp
  with step t(3) show ?thesis by blast
qed

lemma blocks_block_step [simp]: "tt_blocks (block_step env b s) = Suc (tt_blocks s)"
  by (simp add: block_step_def Let_def)

lemma blocks_followed:
  assumes "whisper_works env" "within_cap env" "list_all (\<lambda>b. length b = VAD_CHUNK_BYTES) bs"
    "following env cur s" "alternates env (tt_blocks s) (cur \<noteq> None) bs"
  shows "\<exists>cur'. following env cur' (fold (block_step env) bs s) \<and>
     finals (fold (block_step env) bs s) @ (case cur' of None \<Rightarrow> [] | Some c \<Rightarrow> [final_of env c])
       = finals s @ map (final_of env) (segments env (tt_blocks s) cur bs)"
  using assms(3-5)
proof (induction bs arbitrary: cur s)
  case Nil
  then show ?case
    by (cases cur) auto
next
  case (Cons b bs)
  have len: "length b = VAD_CHUNK_BYTES"
    using Cons.prems(1) by simp
  obtain cur' out where b: "following env cur' (block_step env b s)" "finals (block_step env b s) = finals s @ out"
    "alternates env (Suc (tt_blocks s)) (cur' \<noteq> None) bs"
    "map (final_of env) (segments env (tt_blocks s) cur (b # bs)) = out @ map (final_of env) (segments env (Suc (tt_blocks s)) cur' bs)"
    using block_frame [OF assms(1,2) Cons.prems(2) len Cons.prems(3)] by blast
  from Cons.IH [of cur' "block_step env b s"] Cons.prems(1) b(1,3) obtain cur'' where
    "following env cur'' (fold (block_step env) bs (block_step env b s))"
    "finals (fold (block_step env) bs (block_step env b s)) @ (case cur'' of None \<Rightarrow> [] | Some c \<Rightarrow> [final_of env c])
       = finals (block_step env b s) @ map (final_of env) (segments env (Suc (tt_blocks s)) cur' bs)"
    by auto
  then show ?case
    unfolding b(4) fold_simps b(2) by auto
qed

lemma emit_final_phase: "tt_phase s \<noteq> Streaming \<Longrightarrow> tt_phase (emit_final env s) \<noteq> Streaming"
  "tt_phase s \<noteq> Streaming \<Longrightarrow> tt_phase (emit_partial env s) \<noteq> Streaming"
  by (simp_all add: emit_final_def emit_partial_def crash_stream_def send_def Let_def split: option.splits)

lemma block_step_over:
  assumes "tt_phase s \<noteq> Streaming"
  shows "tt_phase (block_step env b s) \<noteq> Streaming"
proof -
  have "tt_phase (end_segment env t) \<noteq> Streaming" if "tt_phase t \<noteq> Streaming" for t
    using emit_final_phase(1) [OF that, of env] by (simp add: end_segment_def Let_def)
  then have "tt_phase (take_block env b s) \<noteq> Streaming"
    using assms by (simp add: take_block_def Let_def split: option.splits vad_event.splits)
  then show ?thesis
    by (simp add: block_step_def Let_def)
qed

lemma blocks_over: "tt_phase (fold (block_step env) bs s) = Streaming \<Longrightarrow> tt_phase s = Streaming"
  by (induction bs arbitrary: s) (use block_step_over in fastforce)+

lemma fold_block_pending: "fold (block_step env) bs (s\<lparr>tt_pending := p\<rparr>) = (fold (block_step env) bs s)\<lparr>tt_pending := p\<rparr>"
  by (induction bs arbitrary: s) (simp_all add: block_step_pending)

lemma drain_blocks:
  assumes "list_all (\<lambda>b. length b = VAD_CHUNK_BYTES) bs" "tt_phase (fold (block_step env) bs s) = Streaming"
  shows "drain env (s\<lparr>tt_pending := concat bs\<rparr>) = (fold (block_step env) bs s)\<lparr>tt_pending := []\<rparr>"
  using assms
proof (induction bs arbitrary: s)
  case Nil
  then show ?case
    by (subst drain_stop) (simp_all add: VAD_CHUNK_BYTES_def VAD_CHUNK_SAMPLES_def)
next
  case (Cons b bs)
  have "tt_phase s = Streaming"
    using blocks_over [OF Cons.prems(2)] .
  then have "drain env (s\<lparr>tt_pending := concat (b # bs)\<rparr>) = drain env ((block_step env b s)\<lparr>tt_pending := concat bs\<rparr>)"
    using Cons.prems(1) by (subst drain_go) (simp_all add: block_step_pending)
  then show ?case
    using Cons by simp
qed

definition end_message :: ws_msg where
  "end_message = WsText (CtrlJson (PDict [(''type'', PStr ''end'')]))"

lemma finalize_following:
  assumes "whisper_works env" "following env cur s"
  shows "finals (finalize env s) = finals s @ (case cur of None \<Rightarrow> [] | Some c \<Rightarrow> [final_of env c])"
proof (cases cur)
  case None
  then show ?thesis
    using assms(2) by (simp add: following_def finalize_def finals_def Let_def)
next
  case (Some c)
  then obtain t where on: "tt_phase s = Streaming" "tt_language s = PStr (se_language env)" "tt_started_at s = Some t"
    "tt_speech s = c" "c \<noteq> []" "list_all (\<lambda>b. length b = VAD_CHUNK_BYTES) c"
    using assms(2) by (auto simp: following_def)
  have samples: "speech_samples s = concat (map bytes_to_f32 c)"
    by (simp add: speech_samples_def on(4))
  obtain b bs where "c = b # bs" "length (bytes_to_f32 b) = 512"
    using on(5,6) by (cases c) (simp_all add: bytes_to_f32_length VAD_CHUNK_BYTES_def VAD_CHUNK_SAMPLES_def)
  then have pcm: "speech_samples s \<noteq> []"
    unfolding samples by auto
  obtain words where w: "run_whisper env (speech_samples s) (PStr (se_language env)) (se_beam_size env) = Some words"
    using whisper_text [OF assms(1)] by blast
  have "final_of env c = SttFinal words (duration_ms (length (speech_samples s)))"
    unfolding final_of_def Let_def samples [symmetric] w by simp
  then show ?thesis
    using on(1-5) pcm w Some by (simp add: finalize_def emit_final_def send_def finals_def Let_def)
qed


section \<open>The cap on a segment\<close>

fun silent_detector :: "recogniser_env \<Rightarrow> nat \<Rightarrow> bytes list \<Rightarrow> bool" where
  "silent_detector env n [] = True"
| "silent_detector env n (b # bs) = (se_vad env n b = None \<and> silent_detector env (Suc n) bs)"

lemma idle_blocks:
  "tt_phase s = Streaming \<Longrightarrow> tt_started_at s = None \<Longrightarrow> silent_detector env (tt_blocks s) bs \<Longrightarrow>
   \<exists>n. fold (block_step env) bs s = s\<lparr>tt_blocks := n\<rparr>"
proof (induction bs arbitrary: s)
  case Nil
  show ?case by (rule exI [of _ "tt_blocks s"]) simp
next
  case (Cons b bs)
  then have "block_step env b s = s\<lparr>tt_blocks := Suc (tt_blocks s)\<rparr>"
    by (simp add: block_step_def take_block_def after_block_def Let_def)
  then show ?case
    using Cons.IH [of "s\<lparr>tt_blocks := Suc (tt_blocks s)\<rparr>"] Cons.prems by simp
qed

text \<open>What a caller says after the segment cap is lost. When the cap is reached at a block and the detector
  has nothing new to say, since the caller just goes on talking, one final text is sent for the speech so far
  and none of the following blocks is kept, however many there are.\<close>

lemma capped_speech_lost:
  assumes "whisper_works env" "tt_phase s = Streaming" "tt_started_at s = Some t0" "length b = VAD_CHUNK_BYTES"
    "se_max_segment_sec env \<le> se_clock env (tt_blocks s) - t0" "silent_detector env (tt_blocks s) (b # bs)"
  shows "\<exists>words. finals (fold (block_step env) (b # bs) s) = finals s @ [SttFinal words (duration_ms (length (speech_samples s) + 512))] \<and>
     tt_speech (fold (block_step env) (b # bs) s) = [] \<and> tt_started_at (fold (block_step env) (b # bs) s) = None"
proof -
  let ?s1 = "s\<lparr>tt_speech := tt_speech s @ [b]\<rparr>"
  have pcm: "length (speech_samples ?s1) = length (speech_samples s) + 512"
    using assms(4) by (simp add: speech_samples_def bytes_to_f32_length VAD_CHUNK_BYTES_def VAD_CHUNK_SAMPLES_def)
  then have some: "speech_samples ?s1 \<noteq> []"
    by auto
  obtain words where w: "run_whisper env (speech_samples ?s1) (tt_language s) (se_beam_size env) = Some words"
    using whisper_text [OF assms(1)] by blast
  have "emit_final env ?s1 = send (SttFinal words (duration_ms (length (speech_samples s) + 512))) ?s1"
    using some w pcm by (simp add: emit_final_def)
  then have step: "block_step env b s = (reset_segment (send (SttFinal words (duration_ms (length (speech_samples s) + 512))) ?s1))
      \<lparr>tt_blocks := Suc (tt_blocks s)\<rparr>"
    using assms(2,3,5,6) by (simp add: block_step_def take_block_def after_block_def end_segment_def send_def Let_def)
  obtain n where "fold (block_step env) bs (block_step env b s) = (block_step env b s)\<lparr>tt_blocks := n\<rparr>"
    using idle_blocks [of "block_step env b s" env bs] assms(2,6) by (auto simp: step reset_segment_def send_def)
  then show ?thesis
    by (simp add: step reset_segment_def send_def finals_def)
qed

section \<open>A caller who speaks\<close>

text \<open>Every block is 32 ms of sound; the detector hears a start at block 1 and an end at block 3.\<close>

definition block_of :: "byte \<Rightarrow> bytes" where
  "block_of x = replicate VAD_CHUNK_BYTES x"

definition demo_stt :: "rat \<Rightarrow> recogniser_env" where
  "demo_stt cap = \<lparr>se_language = ''en'', se_beam_size = 5, se_beam_size_partial = 1, se_partial_interval_ms = 300,
     se_max_segment_sec = cap, se_vad = (\<lambda>n b. if n = 1 then Some VadStart else if n = 3 then Some VadEnd else None),
     se_whisper = (\<lambda>pcm l n. Some ''hello''), se_clock = (\<lambda>n. 1 - 1 / of_nat (Suc n))\<rparr>"

lemma demo_works: "whisper_works (demo_stt cap)"
  by (simp add: whisper_works_def demo_stt_def)

lemma demo_within: "within_cap (demo_stt 1)"
  by (simp add: within_cap_def demo_stt_def divide_le_eq)


definition talking :: stt where
  "talking = (new_stt (demo_stt (1 / 2)))\<lparr>tt_started_at := Some 0, tt_speech := [block_of 1], tt_blocks := 4\<rparr>"

lemma capped_speech_lost_witness:
  "tt_speech (fold (block_step (demo_stt (1 / 2))) [block_of 2, block_of 3, block_of 4] talking) = []"
proof -
  have "tt_phase talking = Streaming" "tt_started_at talking = Some 0" "length (block_of 2) = VAD_CHUNK_BYTES"
    "se_max_segment_sec (demo_stt (1 / 2)) \<le> se_clock (demo_stt (1 / 2)) (tt_blocks talking) - 0"
    "silent_detector (demo_stt (1 / 2)) (tt_blocks talking) (block_of 2 # [block_of 3, block_of 4])"
    by (simp_all add: talking_def new_stt_def block_of_def demo_stt_def)
  from capped_speech_lost [OF demo_works this] show ?thesis
    by blast
qed

end
