(* ===== verification/Service_Config.thy ===== *)
theory Service_Config
  imports Prelude
begin

text \<open>
  The \<open>config.py\<close> of the eight services: their pydantic models as lists of fields, the loaders that read
  one shared \<open>aipanel.conf\<close>, and the file the installer ships. Parsing TOML is the standard library's:
  a file is its nested dictionary. None is a loader that raises, so that its process does not start.
\<close>

section \<open>Models\<close>

text \<open>A model is the list of its fields with kind and default; an instance is the dictionary of its
  values. What pydantic makes of a value that is not of the field's own type is an argument.\<close>

datatype field_kind = KStr | KInt | KFloat | KBool | KPath | KStrs | KInts

type_synonym schema = "(string \<times> field_kind \<times> pyval option) list"

record pydantic =
  px_int :: "pyval \<Rightarrow> int option"
  px_float :: "pyval \<Rightarrow> rat option"
  px_bool :: "pyval \<Rightarrow> bool option"

fun str_value :: "pyval \<Rightarrow> pyval option" where
  "str_value (PStr s) = Some (PStr s)"
| "str_value _ = None"

fun list_value :: "pyval \<Rightarrow> pyval list option" where
  "list_value (PList vs) = Some vs"
| "list_value _ = None"

fun coerce :: "pydantic \<Rightarrow> field_kind \<Rightarrow> pyval \<Rightarrow> pyval option" where
  "coerce px KStr v = str_value v"
| "coerce px KPath v = str_value v"
| "coerce px KInt v = map_option PInt (px_int px v)"
| "coerce px KFloat v = map_option PFloat (px_float px v)"
| "coerce px KBool v = map_option PBool (px_bool px v)"
| "coerce px KStrs v = Option.bind (list_value v) (\<lambda>vs. map_option PList (those (map str_value vs)))"
| "coerce px KInts v =
     Option.bind (list_value v) (\<lambda>vs. map_option PList (those (map (\<lambda>x. map_option PInt (px_int px x)) vs)))"

definition field_value :: "pydantic \<Rightarrow> pyval dict \<Rightarrow> string \<times> field_kind \<times> pyval option \<Rightarrow> (string \<times> pyval) option" where
  "field_value px d f =
     (case f of (n, k, dflt) \<Rightarrow>
        (case map_of d n of Some v \<Rightarrow> map_option (Pair n) (coerce px k v) | None \<Rightarrow> map_option (Pair n) dflt))"

definition validate :: "pydantic \<Rightarrow> bool \<Rightarrow> schema \<Rightarrow> pyval dict \<Rightarrow> pyval dict option" where
  "validate px forbid_extra s d =
     (if forbid_extra \<and> \<not> set (map fst d) \<subseteq> set (map fst s) then None else those (map (field_value px d) s))"

text \<open>The value of a field of an instance, by the kind it has there.\<close>

definition attr_str :: "pyval dict \<Rightarrow> string \<Rightarrow> string" where
  "attr_str c k = (case dget c k of PStr s \<Rightarrow> s | _ \<Rightarrow> [])"

definition attr_int :: "pyval dict \<Rightarrow> string \<Rightarrow> int" where
  "attr_int c k = (case dget c k of PInt i \<Rightarrow> i | _ \<Rightarrow> 0)"

definition attr_rat :: "pyval dict \<Rightarrow> string \<Rightarrow> rat" where
  "attr_rat c k = (case dget c k of PFloat x \<Rightarrow> x | _ \<Rightarrow> 0)"

definition attr_bool :: "pyval dict \<Rightarrow> string \<Rightarrow> bool" where
  "attr_bool c k = (case dget c k of PBool b \<Rightarrow> b | _ \<Rightarrow> False)"

section \<open>Files and environment\<close>

text \<open>\<open>os.environ\<close>, the secrets file and the parsed configuration file, each of which may be missing;
  \<open>int\<close> and \<open>float\<close> of a string, \<open>repr\<close>, and pydantic.\<close>

record host =
  ho_env :: "string \<Rightarrow> string option"
  ho_secrets :: "(string \<Rightarrow> string option) option"
  ho_file :: "pyval dict option"
  ho_int_of_str :: "string \<Rightarrow> int option"
  ho_float_of_str :: "string \<Rightarrow> rat option"
  ho_repr :: "pyval \<Rightarrow> string"
  ho_px :: pydantic

text \<open>\<open>load_dotenv(override=False)\<close>: a variable that is set already wins.\<close>

definition getenv :: "host \<Rightarrow> string \<Rightarrow> string option" where
  "getenv h k =
     (case ho_env h k of
        Some v \<Rightarrow> Some v
      | None \<Rightarrow> (case ho_secrets h of None \<Rightarrow> None | Some sec \<Rightarrow> sec k))"

definition require_env :: "host \<Rightarrow> string \<Rightarrow> string option" where
  "require_env h k = str_or_none (getenv h k)"

text \<open>\<open>v[k]\<close> and \<open>v.get(k, dflt)\<close> on a value that should be a section; \<open>int\<close>, \<open>float\<close>, \<open>bool\<close>.\<close>

definition index :: "pyval \<Rightarrow> string \<Rightarrow> pyval option" where
  "index v k = (case v of PDict d \<Rightarrow> map_of d k | _ \<Rightarrow> None)"

definition get_key :: "pyval \<Rightarrow> string \<Rightarrow> pyval \<Rightarrow> pyval option" where
  "get_key v k dflt = (case v of PDict d \<Rightarrow> Some (dget_or d k dflt) | _ \<Rightarrow> None)"

fun to_int :: "host \<Rightarrow> pyval \<Rightarrow> pyval option" where
  "to_int h (PInt i) = Some (PInt i)"
| "to_int h (PBool b) = Some (PInt (of_bool b))"
| "to_int h (PFloat x) = Some (PInt (if 0 \<le> x then \<lfloor>x\<rfloor> else \<lceil>x\<rceil>))"
| "to_int h (PStr s) = map_option PInt (ho_int_of_str h s)"
| "to_int h _ = None"

fun to_float :: "host \<Rightarrow> pyval \<Rightarrow> pyval option" where
  "to_float h (PInt i) = Some (PFloat (of_int i))"
| "to_float h (PBool b) = Some (PFloat (of_bool b))"
| "to_float h (PFloat x) = Some (PFloat x)"
| "to_float h (PStr s) = map_option PFloat (ho_float_of_str h s)"
| "to_float h _ = None"

definition get_int :: "host \<Rightarrow> pyval \<Rightarrow> string \<Rightarrow> int \<Rightarrow> pyval option" where
  "get_int h v k dflt = Option.bind (get_key v k (PInt dflt)) (to_int h)"

definition get_float :: "host \<Rightarrow> pyval \<Rightarrow> string \<Rightarrow> rat \<Rightarrow> pyval option" where
  "get_float h v k dflt = Option.bind (get_key v k (PFloat dflt)) (to_float h)"

definition get_bool :: "pyval \<Rightarrow> string \<Rightarrow> bool \<Rightarrow> pyval option" where
  "get_bool v k dflt = map_option (\<lambda>x. PBool (truthy x)) (get_key v k (PBool dflt))"

definition get_str :: "pyval \<Rightarrow> string \<Rightarrow> string \<Rightarrow> pyval option" where
  "get_str v k dflt = get_key v k (PStr dflt)"

text \<open>A constructor call with keyword arguments, each of which may raise.\<close>

definition construct :: "host \<Rightarrow> schema \<Rightarrow> (string \<times> pyval option) list \<Rightarrow> pyval dict option" where
  "construct h s kws =
     Option.bind (those (map (\<lambda>(k, v). map_option (Pair k) v) kws)) (validate (ho_px h) False s)"

definition section_of_file :: "pyval dict \<Rightarrow> string \<Rightarrow> pyval" where
  "section_of_file data k = dget_or data k (PDict [])"

text \<open>The f-strings of the connection addresses, shared by the SIP service, the workers, the session
  manager and the synthesis server.\<close>

definition fmt_key :: "host \<Rightarrow> pyval \<Rightarrow> string \<Rightarrow> string option" where
  "fmt_key h v k = map_option (py_str (ho_repr h)) (index v k)"

definition db_dsn_of :: "host \<Rightarrow> pyval \<Rightarrow> string \<Rightarrow> pyval option" where
  "db_dsn_of h db pw =
     (case (fmt_key h db ''user'', fmt_key h db ''host'', fmt_key h db ''port'', fmt_key h db ''name'') of
        (Some u, Some ho, Some po, Some na) \<Rightarrow>
          Some (PStr (''postgresql://'' @ u @ '':'' @ pw @ ''@'' @ ho @ '':'' @ po @ ''/'' @ na))
      | _ \<Rightarrow> None)"

definition redis_url_of :: "host \<Rightarrow> pyval \<Rightarrow> pyval option" where
  "redis_url_of h redis =
     (let pw = opt_str_or (getenv h ''REDIS_PASSWORD'') [];
          auth = (if pw \<noteq> [] then '':'' @ pw @ ''@'' else []) in
      case (fmt_key h redis ''host'', fmt_key h redis ''port'', fmt_key h redis ''db'') of
        (Some ho, Some po, Some n) \<Rightarrow> Some (PStr (''redis://'' @ auth @ ho @ '':'' @ po @ ''/'' @ n))
      | _ \<Rightarrow> None)"

section \<open>Model servers\<close>

definition LLMConfig :: schema where
  "LLMConfig = [(''listen_host'', KStr, Some (PStr ''127.0.0.1'')), (''listen_port'', KInt, Some (PInt 8001)),
     (''internal_host'', KStr, Some (PStr ''127.0.0.1'')), (''internal_port'', KInt, Some (PInt 8011)),
     (''model'', KStr, Some (PStr ''Qwen/Qwen2.5-14B-Instruct-AWQ'')), (''max_model_len'', KInt, Some (PInt 8192)),
     (''gpu_memory_utilization'', KFloat, Some (PFloat (6 / 10))), (''tensor_parallel_size'', KInt, Some (PInt 1)),
     (''enable_auto_tool_choice'', KBool, Some (PBool True)), (''tool_call_parser'', KStr, Some (PStr ''hermes'')),
     (''log_level'', KStr, Some (PStr ''INFO'')), (''request_timeout_sec'', KInt, Some (PInt 30)),
     (''models_dir'', KPath, Some (PStr ''/var/lib/aipanel/models/llm''))]"

definition load_llm_config :: "host \<Rightarrow> pyval dict option" where
  "load_llm_config h =
     (case ho_file h of
        None \<Rightarrow> validate (ho_px h) False LLMConfig []
      | Some data \<Rightarrow>
          (let s = section_of_file data ''llm'' in
           construct h LLMConfig
             [(''listen_host'', get_str s ''listen_host'' ''127.0.0.1''),
              (''listen_port'', get_int h s ''listen_port'' 8001),
              (''internal_port'', get_int h s ''internal_port'' 8011),
              (''model'', get_str s ''model'' ''Qwen/Qwen2.5-14B-Instruct-AWQ''),
              (''max_model_len'', get_int h s ''max_model_len'' 8192),
              (''gpu_memory_utilization'', get_float h s ''gpu_memory_utilization'' (6 / 10)),
              (''tensor_parallel_size'', get_int h s ''tensor_parallel_size'' 1),
              (''enable_auto_tool_choice'', get_bool s ''enable_auto_tool_choice'' True),
              (''tool_call_parser'', get_str s ''tool_call_parser'' ''hermes''),
              (''request_timeout_sec'', get_int h s ''request_timeout_sec'' 30)]))"

definition STTConfig :: schema where
  "STTConfig = [(''listen_host'', KStr, Some (PStr ''127.0.0.1'')), (''listen_port'', KInt, Some (PInt 8002)),
     (''model'', KStr, Some (PStr ''large-v3'')), (''language'', KStr, Some (PStr ''en'')),
     (''device'', KStr, Some (PStr ''auto'')), (''compute_type'', KStr, Some (PStr ''float16'')),
     (''models_dir'', KPath, Some (PStr ''/var/lib/aipanel/models/stt'')), (''beam_size'', KInt, Some (PInt 5)),
     (''beam_size_partial'', KInt, Some (PInt 1)), (''vad_threshold'', KFloat, Some (PFloat (1 / 2))),
     (''vad_min_silence_ms'', KInt, Some (PInt 500)), (''partial_interval_ms'', KInt, Some (PInt 300)),
     (''max_segment_sec'', KFloat, Some (PFloat 30)), (''log_level'', KStr, Some (PStr ''INFO''))]"

definition load_stt_config :: "host \<Rightarrow> pyval dict option" where
  "load_stt_config h =
     (case ho_file h of
        None \<Rightarrow> validate (ho_px h) False STTConfig []
      | Some data \<Rightarrow>
          (let s = section_of_file data ''stt'' in
           construct h STTConfig
             [(''listen_host'', get_str s ''listen_host'' ''127.0.0.1''),
              (''listen_port'', get_int h s ''listen_port'' 8002),
              (''model'', get_str s ''model'' ''large-v3''),
              (''language'', get_str s ''language'' ''en''),
              (''device'', get_str s ''device'' ''auto''),
              (''compute_type'', get_str s ''compute_type'' ''float16''),
              (''beam_size'', get_int h s ''beam_size'' 5),
              (''beam_size_partial'', get_int h s ''beam_size_partial'' 1),
              (''vad_threshold'', get_float h s ''vad_threshold'' (1 / 2)),
              (''partial_interval_ms'', get_int h s ''partial_interval_ms'' 300)]))"

definition TTSConfig :: schema where
  "TTSConfig = [(''listen_host'', KStr, Some (PStr ''127.0.0.1'')), (''listen_port'', KInt, Some (PInt 8003)),
     (''backend'', KStr, Some (PStr ''f5'')), (''device'', KStr, Some (PStr ''auto'')),
     (''sample_rate'', KInt, Some (PInt 24000)), (''output_format_default'', KStr, Some (PStr ''ulaw_8000'')),
     (''default_voice_id'', KStr, Some (PStr [])), (''voices_dir'', KPath, Some (PStr ''/var/lib/aipanel/voices'')),
     (''models_dir'', KPath, Some (PStr ''/var/lib/aipanel/models/tts'')), (''db_dsn'', KStr, Some PNone),
     (''log_level'', KStr, Some (PStr ''INFO''))]"

text \<open>\<open>_build_db_dsn\<close>: no section or no password is no registry; the field is optional.\<close>

definition build_db_dsn :: "host \<Rightarrow> pyval dict \<Rightarrow> pyval option" where
  "build_db_dsn h data =
     (let db = dget data ''database'' in
      if \<not> truthy db then Some PNone
      else (case require_env h ''DB_PASSWORD'' of None \<Rightarrow> Some PNone | Some pw \<Rightarrow> db_dsn_of h db pw))"

definition optional_kw :: "string \<Rightarrow> pyval option \<Rightarrow> (string \<times> pyval option) list" where
  "optional_kw k v = (if v = Some PNone then [] else [(k, v)])"

definition load_tts_config :: "host \<Rightarrow> pyval dict option" where
  "load_tts_config h =
     (case ho_file h of
        None \<Rightarrow> validate (ho_px h) False TTSConfig []
      | Some data \<Rightarrow>
          (let t = section_of_file data ''tts'' in
           construct h TTSConfig
             ([(''listen_host'', get_str t ''listen_host'' ''127.0.0.1''),
               (''listen_port'', get_int h t ''listen_port'' 8003),
               (''backend'', get_str t ''backend'' ''f5''),
               (''device'', get_str t ''device'' ''auto''),
               (''sample_rate'', get_int h t ''sample_rate'' 24000),
               (''output_format_default'', get_str t ''output_format_default'' ''ulaw_8000''),
               (''default_voice_id'', get_str t ''default_voice_id'' []),
               (''voices_dir'', Option.bind (get_str t ''voices_dir'' ''/var/lib/aipanel/voices'') str_value)] @
              optional_kw ''db_dsn'' (build_db_dsn h data))))"

definition EmbedConfig :: schema where
  "EmbedConfig = [(''listen_host'', KStr, Some (PStr ''127.0.0.1'')), (''listen_port'', KInt, Some (PInt 8004)),
     (''model'', KStr, Some (PStr ''BAAI/bge-m3'')), (''device'', KStr, Some (PStr ''auto'')),
     (''models_dir'', KPath, Some (PStr ''/var/lib/aipanel/models/embed'')), (''log_level'', KStr, Some (PStr ''INFO'')),
     (''metrics_host'', KStr, Some (PStr ''127.0.0.1'')), (''metrics_port'', KInt, Some (PInt 9103)),
     (''max_batch'', KInt, Some (PInt 32))]"

definition load_embed_config :: "host \<Rightarrow> pyval dict option" where
  "load_embed_config h =
     (case ho_file h of
        None \<Rightarrow> validate (ho_px h) False EmbedConfig []
      | Some data \<Rightarrow>
          (let e = section_of_file data ''embed'' in
           construct h EmbedConfig
             [(''listen_host'', get_str e ''listen_host'' ''127.0.0.1''),
              (''listen_port'', get_int h e ''listen_port'' 8004),
              (''model'', get_str e ''model'' ''BAAI/bge-m3''),
              (''device'', get_str e ''device'' ''auto''),
              (''max_batch'', get_int h e ''max_batch'' 32)]))"

section \<open>Call services\<close>

definition SipConfig :: schema where
  "SipConfig = [(''db_dsn'', KStr, None), (''redis_url'', KStr, None), (''sip_listen_host'', KStr, None),
     (''sip_listen_port'', KInt, None), (''sip_public_ip'', KStr, None), (''rtp_port_min'', KInt, Some (PInt 16384)),
     (''rtp_port_max'', KInt, Some (PInt 32767)), (''runtime_dir'', KStr, Some (PStr ''/run/aipanel/calls'')),
     (''log_level'', KStr, Some (PStr ''INFO'')), (''metrics_host'', KStr, Some (PStr ''127.0.0.1'')),
     (''metrics_port'', KInt, Some (PInt 9100)), (''encryption_key'', KStr, None),
     (''worker_request_stream'', KStr, Some (PStr ''aipanel:worker_requests'')),
     (''worker_connect_timeout_sec'', KFloat, Some (PFloat 5)), (''register_stagger_sec'', KFloat, Some (PFloat 60)),
     (''register_jitter_sec'', KFloat, Some (PFloat 2)),
     (''register_backoff_sec'', KInts, Some (PList [PInt 5, PInt 10, PInt 30, PInt 60])),
     (''shutdown_drain_sec'', KFloat, Some (PFloat 30))]"

definition env_kw :: "host \<Rightarrow> string \<Rightarrow> pyval option" where
  "env_kw h k = map_option PStr (require_env h k)"

definition dsn_kw :: "host \<Rightarrow> pyval \<Rightarrow> pyval option" where
  "dsn_kw h db = Option.bind (require_env h ''DB_PASSWORD'') (db_dsn_of h db)"

definition load_sip_config :: "host \<Rightarrow> pyval dict option" where
  "load_sip_config h =
     (case ho_file h of
        None \<Rightarrow> None
      | Some data \<Rightarrow>
          (case (map_of data ''database'', map_of data ''redis'', map_of data ''sip'') of
             (Some db, Some redis, Some sip) \<Rightarrow>
               construct h SipConfig
                 [(''db_dsn'', dsn_kw h db),
                  (''redis_url'', redis_url_of h redis),
                  (''sip_listen_host'', index sip ''listen_host''),
                  (''sip_listen_port'', index sip ''listen_port''),
                  (''sip_public_ip'', index sip ''public_ip''),
                  (''rtp_port_min'', get_key sip ''rtp_port_min'' (PInt 16384)),
                  (''rtp_port_max'', get_key sip ''rtp_port_max'' (PInt 32767)),
                  (''encryption_key'', env_kw h ''ENCRYPTION_KEY'')]
           | _ \<Rightarrow> None))"

definition WorkerConfig :: schema where
  "WorkerConfig = [(''concurrency'', KInt, Some (PInt 10)), (''queue_list_key'', KStr, Some (PStr ''calls:incoming'')),
     (''queue_stream_key'', KStr, Some (PStr ''aipanel:worker_requests'')),
     (''queue_consumer_group'', KStr, Some (PStr ''aipanel-workers'')), (''reservation_ttl_sec'', KInt, Some (PInt 600)),
     (''db_dsn'', KStr, None), (''redis_url'', KStr, None), (''llm_url'', KStr, Some (PStr ''http://127.0.0.1:8001'')),
     (''stt_url'', KStr, Some (PStr ''http://127.0.0.1:8002'')), (''tts_url'', KStr, Some (PStr ''http://127.0.0.1:8003'')),
     (''vici_url'', KStr, Some (PStr [])), (''vici_enabled'', KBool, Some (PBool False)),
     (''minio_endpoint'', KStr, Some (PStr ''127.0.0.1:9000'')), (''minio_secure'', KBool, Some (PBool False)),
     (''minio_access_key'', KStr, Some (PStr [])), (''minio_secret_key'', KStr, Some (PStr [])),
     (''minio_bucket_recordings'', KStr, Some (PStr ''aipanel-recordings'')),
     (''response_delay_ms_min'', KInt, Some (PInt 300)), (''response_delay_ms_max'', KInt, Some (PInt 900)),
     (''backchannel_frequency'', KFloat, Some (PFloat (3 / 10))), (''filler_frequency'', KFloat, Some (PFloat (1 / 10))),
     (''barge_in_min_words'', KInt, Some (PInt 3)), (''barge_in_min_duration_ms'', KInt, Some (PInt 800)),
     (''barge_in_stability_threshold'', KFloat, Some (PFloat (6 / 10))),
     (''llm_model'', KStr, Some (PStr ''Qwen/Qwen2.5-14B-Instruct-AWQ'')), (''llm_temperature'', KFloat, Some (PFloat (7 / 10))),
     (''llm_max_response_tokens'', KInt, Some (PInt 256)), (''llm_request_timeout_sec'', KInt, Some (PInt 30)),
     (''llm_first_token_timeout_sec'', KInt, Some (PInt 10)), (''recording_enabled'', KBool, Some (PBool True)),
     (''recording_dir'', KPath, Some (PStr ''/tmp'')), (''log_level'', KStr, Some (PStr ''INFO'')),
     (''metrics_host'', KStr, Some (PStr ''127.0.0.1'')), (''metrics_port'', KInt, Some (PInt 9101)),
     (''shutdown_drain_sec'', KFloat, Some (PFloat 30))]"

text \<open>\<open>endpoint.rstrip("/").rsplit("/v1", 1)[0]\<close>: the text before the last \<open>/v1\<close>.\<close>

fun before_last :: "string \<Rightarrow> string \<Rightarrow> string option" where
  "before_last p [] = None"
| "before_last p (c # cs) =
     (case before_last p cs of
        Some s \<Rightarrow> Some (c # s)
      | None \<Rightarrow> if startswith (c # cs) p then Some [] else None)"

definition llm_base :: "string \<Rightarrow> string" where
  "llm_base endpoint =
     (let e = rev (dropWhile (\<lambda>c. c = CHR ''/'') (rev endpoint)) in
      case before_last ''/v1'' e of Some s \<Rightarrow> s | None \<Rightarrow> e)"

definition llm_base_kw :: "pyval option \<Rightarrow> pyval option" where
  "llm_base_kw v = (case v of Some (PStr s) \<Rightarrow> Some (PStr (llm_base s)) | _ \<Rightarrow> None)"

definition load_worker_config :: "host \<Rightarrow> pyval dict option" where
  "load_worker_config h =
     (case ho_file h of
        None \<Rightarrow> None
      | Some data \<Rightarrow>
          (let llm = section_of_file data ''llm''; stt = section_of_file data ''stt''; tts = section_of_file data ''tts'';
               minio = section_of_file data ''minio''; worker = section_of_file data ''worker'';
               vici = section_of_file data ''vici'' in
           case (map_of data ''database'', map_of data ''redis'') of
             (Some db, Some redis) \<Rightarrow>
               construct h WorkerConfig
                 [(''concurrency'', Option.bind (get_key worker ''concurrency'' (PInt 10))
                     (\<lambda>c. to_int h (case getenv h ''AIPANEL_WORKER_CONCURRENCY'' of Some s \<Rightarrow> PStr s | None \<Rightarrow> c))),
                  (''db_dsn'', dsn_kw h db),
                  (''redis_url'', redis_url_of h redis),
                  (''llm_url'', llm_base_kw (get_str llm ''endpoint'' ''http://127.0.0.1:8001/v1'')),
                  (''stt_url'', get_str stt ''endpoint'' ''http://127.0.0.1:8002''),
                  (''tts_url'', get_str tts ''endpoint'' ''http://127.0.0.1:8003''),
                  (''vici_url'', get_str vici ''url'' []),
                  (''vici_enabled'', get_bool vici ''enabled'' False),
                  (''minio_endpoint'', get_str minio ''endpoint'' ''127.0.0.1:9000''),
                  (''minio_secure'', get_bool minio ''secure'' False),
                  (''minio_access_key'', Some (PStr (case getenv h ''MINIO_ACCESS_KEY'' of Some s \<Rightarrow> s | None \<Rightarrow> []))),
                  (''minio_secret_key'', Some (PStr (case getenv h ''MINIO_SECRET_KEY'' of Some s \<Rightarrow> s | None \<Rightarrow> []))),
                  (''minio_bucket_recordings'', get_str minio ''bucket_recordings'' ''aipanel-recordings''),
                  (''llm_model'', get_str llm ''model'' ''Qwen/Qwen2.5-14B-Instruct-AWQ''),
                  (''llm_temperature'', get_float h llm ''temperature'' (7 / 10)),
                  (''llm_max_response_tokens'', get_int h worker ''llm_max_response_tokens'' 256),
                  (''llm_request_timeout_sec'', get_int h llm ''request_timeout_sec'' 30)]
           | _ \<Rightarrow> None))"

definition SessionMgrConfig :: schema where
  "SessionMgrConfig = [(''listen_host'', KStr, Some (PStr ''127.0.0.1'')), (''listen_port'', KInt, Some (PInt 8010)),
     (''db_dsn'', KStr, None), (''redis_url'', KStr, None), (''auth_token'', KStr, None),
     (''vici_default_web_user_admin'', KStr, Some (PStr [])), (''vici_default_web_pass_admin'', KStr, Some (PStr [])),
     (''supervisor_poll_interval_sec'', KFloat, Some (PFloat 30)), (''heartbeat_interval_sec'', KFloat, Some (PFloat (3 / 2))),
     (''heartbeat_max_concurrency'', KInt, Some (PInt 200)), (''heartbeat_failure_threshold'', KInt, Some (PInt 3)),
     (''login_backoff_sec'', KInts, Some (PList [PInt 5, PInt 30, PInt 120, PInt 600])),
     (''playwright_browsers_path'', KStr, Some (PStr ''/var/lib/aipanel/playwright-browsers'')),
     (''browser_pool_size'', KInt, Some (PInt 3)), (''browser_login_timeout_sec'', KFloat, Some (PFloat 30)),
     (''browser_screenshot_dir'', KStr, Some (PStr ''/var/log/aipanel/vici-screenshots'')),
     (''adapter'', KStr, Some (PStr ''v2_14'')), (''log_level'', KStr, Some (PStr ''INFO'')),
     (''metrics_host'', KStr, Some (PStr ''127.0.0.1'')), (''metrics_port'', KInt, Some (PInt 9102))]"

definition load_session_mgr_config :: "host \<Rightarrow> pyval dict option" where
  "load_session_mgr_config h =
     (case ho_file h of
        None \<Rightarrow> None
      | Some data \<Rightarrow>
          (let vici = section_of_file data ''vici'' in
           case (map_of data ''database'', map_of data ''redis'') of
             (Some db, Some redis) \<Rightarrow>
               construct h SessionMgrConfig
                 [(''listen_host'', get_str vici ''session_mgr_host'' ''127.0.0.1''),
                  (''listen_port'', get_int h vici ''session_mgr_port'' 8010),
                  (''db_dsn'', dsn_kw h db),
                  (''redis_url'', redis_url_of h redis),
                  (''auth_token'', env_kw h ''SESSION_MGR_TOKEN''),
                  (''adapter'', get_str vici ''adapter'' ''v2_14''),
                  (''playwright_browsers_path'',
                     get_str vici ''playwright_browsers_path'' ''/var/lib/aipanel/playwright-browsers''),
                  (''browser_pool_size'', get_int h vici ''browser_pool_size'' 3)]
           | _ \<Rightarrow> None))"

section \<open>The panel\<close>

text \<open>Every section is a model that forbids unknown keys; the file as a whole ignores unknown sections.\<close>

definition DatabaseConfig :: schema where
  "DatabaseConfig = [(''host'', KStr, None), (''port'', KInt, Some (PInt 5432)), (''name'', KStr, None),
     (''user'', KStr, None), (''pool_min'', KInt, Some (PInt 2)), (''pool_max'', KInt, Some (PInt 16))]"

definition RedisConfig :: schema where
  "RedisConfig = [(''host'', KStr, None), (''port'', KInt, Some (PInt 6379)), (''db'', KInt, Some (PInt 0))]"

definition MinIOConfig :: schema where
  "MinIOConfig = [(''endpoint'', KStr, None), (''console_endpoint'', KStr, None), (''secure'', KBool, Some (PBool False)),
     (''bucket_recordings'', KStr, None), (''bucket_transcripts'', KStr, None), (''bucket_kb'', KStr, None),
     (''bucket_voices'', KStr, None)]"

definition SIPConfig :: schema where
  "SIPConfig = [(''listen_host'', KStr, None), (''listen_port'', KInt, Some (PInt 5060)), (''public_ip'', KStr, None),
     (''rtp_port_min'', KInt, Some (PInt 16384)), (''rtp_port_max'', KInt, Some (PInt 32767)),
     (''codec_preference'', KStrs, Some (PList [PStr ''opus'', PStr ''PCMU'', PStr ''PCMA'']))]"

definition panel_LLMConfig :: schema where
  "panel_LLMConfig = [(''provider'', KStr, None), (''endpoint'', KStr, None), (''model'', KStr, None),
     (''max_tokens'', KInt, Some (PInt 512)), (''temperature'', KFloat, Some (PFloat (4 / 10))),
     (''request_timeout_sec'', KInt, Some (PInt 30))]"

definition panel_STTConfig :: schema where
  "panel_STTConfig = [(''provider'', KStr, None), (''endpoint'', KStr, None), (''model'', KStr, None),
     (''language'', KStr, Some (PStr ''en'')), (''vad_threshold'', KFloat, Some (PFloat (1 / 2)))]"

definition panel_TTSConfig :: schema where
  "panel_TTSConfig = [(''provider'', KStr, None), (''endpoint'', KStr, None), (''default_voice_id'', KStr, Some (PStr [])),
     (''sample_rate'', KInt, Some (PInt 24000))]"

definition PanelConfig :: schema where
  "PanelConfig = [(''listen_host'', KStr, None), (''listen_port'', KInt, Some (PInt 8000)), (''public_url'', KStr, None),
     (''session_lifetime_hours'', KInt, Some (PInt 12)), (''cors_origins'', KStrs, Some (PList [])),
     (''access_token_minutes'', KInt, Some (PInt 15)), (''refresh_token_days'', KInt, Some (PInt 7))]"

definition ClusterConfig :: schema where
  "ClusterConfig = [(''node_role'', KStr, None), (''hostname'', KStr, None),
     (''heartbeat_interval_sec'', KInt, Some (PInt 10)), (''quorum_min_nodes'', KInt, Some (PInt 1))]"

definition WorkerSectionConfig :: schema where
  "WorkerSectionConfig = [(''concurrency'', KInt, Some (PInt 10)), (''llm_max_response_tokens'', KInt, Some (PInt 256))]"

definition ViciSectionConfig :: schema where
  "ViciSectionConfig = [(''url'', KStr, Some (PStr [])), (''enabled'', KBool, Some (PBool False)),
     (''adapter'', KStr, Some (PStr ''v2_14'')), (''session_mgr_host'', KStr, Some (PStr ''127.0.0.1'')),
     (''session_mgr_port'', KInt, Some (PInt 8010)),
     (''playwright_browsers_path'', KStr, Some (PStr ''/var/lib/aipanel/playwright-browsers'')),
     (''browser_pool_size'', KInt, Some (PInt 3))]"

definition EmbedSectionConfig :: schema where
  "EmbedSectionConfig = [(''endpoint'', KStr, Some (PStr ''http://127.0.0.1:8004'')), (''model'', KStr, Some (PStr ''BAAI/bge-m3''))]"

definition AipanelConfig :: "(string \<times> schema \<times> bool) list" where
  "AipanelConfig = [(''database'', DatabaseConfig, True), (''redis'', RedisConfig, True), (''minio'', MinIOConfig, True),
     (''sip'', SIPConfig, True), (''llm'', panel_LLMConfig, True), (''stt'', panel_STTConfig, True),
     (''tts'', panel_TTSConfig, True), (''panel'', PanelConfig, True), (''cluster'', ClusterConfig, True),
     (''worker'', WorkerSectionConfig, False), (''vici'', ViciSectionConfig, False), (''embed'', EmbedSectionConfig, False)]"

text \<open>A section that must be there, or whose absence means its defaults.\<close>

definition section_value :: "pydantic \<Rightarrow> pyval dict \<Rightarrow> string \<times> schema \<times> bool \<Rightarrow> (string \<times> pyval) option" where
  "section_value px data f =
     (case f of (n, s, required) \<Rightarrow>
        (case map_of data n of
           Some (PDict d) \<Rightarrow> map_option (\<lambda>c. (n, PDict c)) (validate px True s d)
         | Some _ \<Rightarrow> None
         | None \<Rightarrow> if required then None else map_option (\<lambda>c. (n, PDict c)) (validate px True s [])))"

definition load_panel_config :: "host \<Rightarrow> pyval dict option" where
  "load_panel_config h =
     (case ho_file h of None \<Rightarrow> None | Some data \<Rightarrow> those (map (section_value (ho_px h) data) AipanelConfig))"

text \<open>\<open>get_config\<close> keeps what it has loaded, not what it failed to load; \<open>reset_config_cache\<close> forgets it.\<close>

definition get_config :: "host \<Rightarrow> pyval dict option \<Rightarrow> pyval dict option \<times> pyval dict option" where
  "get_config h cache =
     (case cache of
        Some c \<Rightarrow> (Some c, cache)
      | None \<Rightarrow> (case load_panel_config h of Some c \<Rightarrow> (Some c, Some c) | None \<Rightarrow> (None, None)))"

definition reset_config_cache :: "pyval dict option \<Rightarrow> pyval dict option" where
  "reset_config_cache cache = None"

text \<open>The properties that take a secret from the environment.\<close>

definition panel_dsn :: "host \<Rightarrow> pyval \<Rightarrow> pyval option" where
  "panel_dsn h db = Option.bind (require_env h ''DB_PASSWORD'') (db_dsn_of h db)"

definition panel_redis_url :: "host \<Rightarrow> pyval \<Rightarrow> pyval option" where
  "panel_redis_url h redis = redis_url_of h redis"

definition panel_secret :: "host \<Rightarrow> string \<Rightarrow> string option" where
  "panel_secret h k = require_env h k"

section \<open>The file the installer ships\<close>

text \<open>\<open>installer/templates/aipanel.conf.template\<close> with its three placeholders filled in: what every section has
  for the panel, and the knobs of the servers that share it.\<close>

definition llm_knobs :: "pyval dict" where
  "llm_knobs = [(''listen_host'', PStr ''127.0.0.1''), (''listen_port'', PInt 8001), (''internal_port'', PInt 8011),
     (''gpu_memory_utilization'', PFloat (6 / 10)), (''max_model_len'', PInt 8192), (''tensor_parallel_size'', PInt 1),
     (''enable_auto_tool_choice'', PBool True), (''tool_call_parser'', PStr ''hermes'')]"

definition stt_knobs :: "pyval dict" where
  "stt_knobs = [(''listen_host'', PStr ''127.0.0.1''), (''listen_port'', PInt 8002), (''device'', PStr ''auto''),
     (''compute_type'', PStr ''float16''), (''beam_size'', PInt 5), (''beam_size_partial'', PInt 1),
     (''partial_interval_ms'', PInt 300)]"

definition tts_knobs :: "pyval dict" where
  "tts_knobs = [(''listen_host'', PStr ''127.0.0.1''), (''listen_port'', PInt 8003), (''backend'', PStr ''f5''),
     (''device'', PStr ''auto''), (''output_format_default'', PStr ''ulaw_8000''),
     (''voices_dir'', PStr ''/var/lib/aipanel/voices'')]"

definition conf_file :: "pyval dict \<Rightarrow> pyval dict \<Rightarrow> pyval dict \<Rightarrow> string \<Rightarrow> string \<Rightarrow> string \<Rightarrow> pyval dict" where
  "conf_file llm_extra stt_extra tts_extra public_ip public_url hostname =
     [(''database'', PDict [(''host'', PStr ''127.0.0.1''), (''port'', PInt 5432), (''name'', PStr ''aipanel''),
         (''user'', PStr ''aipanel''), (''pool_min'', PInt 2), (''pool_max'', PInt 16)]),
      (''redis'', PDict [(''host'', PStr ''127.0.0.1''), (''port'', PInt 6379), (''db'', PInt 0)]),
      (''minio'', PDict [(''endpoint'', PStr ''127.0.0.1:9000''), (''console_endpoint'', PStr ''127.0.0.1:9001''),
         (''secure'', PBool False), (''bucket_recordings'', PStr ''aipanel-recordings''),
         (''bucket_transcripts'', PStr ''aipanel-transcripts''), (''bucket_kb'', PStr ''aipanel-kb''),
         (''bucket_voices'', PStr ''aipanel-voices'')]),
      (''sip'', PDict [(''listen_host'', PStr ''0.0.0.0''), (''listen_port'', PInt 5060), (''public_ip'', PStr public_ip),
         (''rtp_port_min'', PInt 16384), (''rtp_port_max'', PInt 32767),
         (''codec_preference'', PList [PStr ''opus'', PStr ''PCMU'', PStr ''PCMA''])]),
      (''llm'', PDict ([(''provider'', PStr ''vllm''), (''endpoint'', PStr ''http://127.0.0.1:8001/v1''),
         (''model'', PStr ''Qwen/Qwen2.5-14B-Instruct-AWQ''), (''max_tokens'', PInt 512),
         (''temperature'', PFloat (4 / 10)), (''request_timeout_sec'', PInt 30)] @ llm_extra)),
      (''stt'', PDict ([(''provider'', PStr ''faster-whisper''), (''endpoint'', PStr ''http://127.0.0.1:8002''),
         (''model'', PStr ''large-v3''), (''language'', PStr ''en''), (''vad_threshold'', PFloat (1 / 2))] @ stt_extra)),
      (''embed'', PDict [(''endpoint'', PStr ''http://127.0.0.1:8004''), (''model'', PStr ''BAAI/bge-m3'')]),
      (''tts'', PDict ([(''provider'', PStr ''f5''), (''endpoint'', PStr ''http://127.0.0.1:8003''),
         (''default_voice_id'', PStr []), (''sample_rate'', PInt 24000)] @ tts_extra)),
      (''panel'', PDict [(''listen_host'', PStr ''0.0.0.0''), (''listen_port'', PInt 8000), (''public_url'', PStr public_url),
         (''session_lifetime_hours'', PInt 12), (''cors_origins'', PList [])]),
      (''cluster'', PDict [(''node_role'', PStr ''primary''), (''hostname'', PStr hostname),
         (''heartbeat_interval_sec'', PInt 10), (''quorum_min_nodes'', PInt 1)]),
      (''worker'', PDict [(''concurrency'', PInt 10), (''llm_max_response_tokens'', PInt 256)]),
      (''vici'', PDict [(''url'', PStr ''http://127.0.0.1:8010''), (''enabled'', PBool True), (''adapter'', PStr ''v2_14''),
         (''session_mgr_host'', PStr ''127.0.0.1''), (''session_mgr_port'', PInt 8010),
         (''playwright_browsers_path'', PStr ''/var/lib/aipanel/playwright-browsers''), (''browser_pool_size'', PInt 3)])]"

definition shipped_file :: "string \<Rightarrow> string \<Rightarrow> string \<Rightarrow> pyval dict" where
  "shipped_file = conf_file llm_knobs stt_knobs tts_knobs"

text \<open>What pydantic documents of values that have the field's type already.\<close>

definition px_law :: "pydantic \<Rightarrow> bool" where
  "px_law px \<longleftrightarrow> (\<forall>i. px_int px (PInt i) = Some i) \<and> (\<forall>x. px_float px (PFloat x) = Some x) \<and>
     (\<forall>b. px_bool px (PBool b) = Some b)"

section \<open>Lemmas\<close>

lemma those_None: "None \<in> set xs \<Longrightarrow> those xs = None"
  by (induction xs) (auto split: option.split)

lemma px_laws:
  assumes "px_law px"
  shows "px_int px (PInt i) = Some i" "px_float px (PFloat x) = Some x" "px_bool px (PBool b) = Some b"
  using assms by (simp_all add: px_law_def)

lemmas load_simps = field_value_def validate_def construct_def section_of_file_def get_int_def get_float_def
  get_bool_def get_str_def get_key_def dget_or_def index_def env_kw_def dsn_kw_def optional_kw_def

lemma addresses:
  assumes "ho_file h = Some (conf_file a b c ip url name)" "require_env h ''DB_PASSWORD'' = Some pw"
  shows "\<exists>u. db_dsn_of h (the (map_of (conf_file a b c ip url name) ''database'')) pw = Some (PStr u)"
    "\<exists>u. redis_url_of h (the (map_of (conf_file a b c ip url name) ''redis'')) = Some (PStr u)"
  by (simp_all add: conf_file_def db_dsn_of_def redis_url_of_def fmt_key_def index_def Let_def)

lemma llm_loads:
  assumes "ho_file h = Some (shipped_file ip url name)" "px_law (ho_px h)"
  shows "\<exists>c. load_llm_config h = Some c \<and> map_of c ''listen_host'' = Some (PStr ''127.0.0.1'') \<and> map_of c ''listen_port'' = Some (PInt 8001)"
  by (simp add: load_llm_config_def assms(1) shipped_file_def conf_file_def llm_knobs_def LLMConfig_def load_simps
      px_laws [OF assms(2)])

lemma stt_loads:
  assumes "ho_file h = Some (shipped_file ip url name)" "px_law (ho_px h)"
  shows "\<exists>c. load_stt_config h = Some c \<and> map_of c ''listen_host'' = Some (PStr ''127.0.0.1'') \<and> map_of c ''listen_port'' = Some (PInt 8002)"
  by (simp add: load_stt_config_def assms(1) shipped_file_def conf_file_def stt_knobs_def STTConfig_def load_simps
      px_laws [OF assms(2)])

lemma embed_loads:
  assumes "ho_file h = Some (shipped_file ip url name)" "px_law (ho_px h)"
  shows "\<exists>c. load_embed_config h = Some c \<and> map_of c ''listen_port'' = Some (PInt 8004)"
  by (simp add: load_embed_config_def assms(1) shipped_file_def conf_file_def EmbedConfig_def load_simps
      px_laws [OF assms(2)])

lemma tts_loads:
  assumes "ho_file h = Some (shipped_file ip url name)" "px_law (ho_px h)" "require_env h ''DB_PASSWORD'' = Some pw"
  shows "\<exists>c. load_tts_config h = Some c \<and> map_of c ''listen_host'' = Some (PStr ''127.0.0.1'') \<and> map_of c ''listen_port'' = Some (PInt 8003) \<and>
     map_of c ''backend'' = Some (PStr ''f5'')"
proof -
  obtain u where "build_db_dsn h (shipped_file ip url name) = Some (PStr u)"
    using addresses(1) [OF assms(1) [unfolded shipped_file_def] assms(3)] assms(3)
    by (auto simp: build_db_dsn_def dget_def shipped_file_def conf_file_def)
  then show ?thesis
    by (simp add: load_tts_config_def assms(1))
      (simp add: shipped_file_def conf_file_def tts_knobs_def TTSConfig_def load_simps px_laws [OF assms(2)])
qed

lemma sip_loads:
  assumes "ho_file h = Some (shipped_file ip url name)" "px_law (ho_px h)" "require_env h ''DB_PASSWORD'' = Some pw"
    and "require_env h ''ENCRYPTION_KEY'' = Some key"
  shows "\<exists>c. load_sip_config h = Some c \<and> map_of c ''sip_public_ip'' = Some (PStr ip)"
proof -
  obtain u v where u: "dsn_kw h (the (map_of (shipped_file ip url name) ''database'')) = Some (PStr u)"
    and v: "redis_url_of h (the (map_of (shipped_file ip url name) ''redis'')) = Some (PStr v)"
    using addresses [OF assms(1) [unfolded shipped_file_def] assms(3)] assms(3)
    by (auto simp: dsn_kw_def shipped_file_def)
  show ?thesis
    using u v
    by (simp add: load_sip_config_def assms(1))
      (simp add: env_kw_def assms(4) shipped_file_def conf_file_def SipConfig_def construct_def get_key_def index_def dget_or_def
        validate_def field_value_def px_laws [OF assms(2)])
qed

lemma worker_loads:
  assumes "ho_file h = Some (shipped_file ip url name)" "px_law (ho_px h)" "require_env h ''DB_PASSWORD'' = Some pw"
    and "getenv h ''AIPANEL_WORKER_CONCURRENCY'' = None"
  shows "\<exists>c. load_worker_config h = Some c \<and> map_of c ''llm_url'' = Some (PStr ''http://127.0.0.1:8001'') \<and>
     map_of c ''stt_url'' = Some (PStr ''http://127.0.0.1:8002'') \<and> map_of c ''tts_url'' = Some (PStr ''http://127.0.0.1:8003'') \<and>
     map_of c ''vici_url'' = Some (PStr ''http://127.0.0.1:8010'')"
proof -
  obtain u v where u: "dsn_kw h (the (map_of (shipped_file ip url name) ''database'')) = Some (PStr u)"
    and v: "redis_url_of h (the (map_of (shipped_file ip url name) ''redis'')) = Some (PStr v)"
    using addresses [OF assms(1) [unfolded shipped_file_def] assms(3)] assms(3)
    by (auto simp: dsn_kw_def shipped_file_def)
  have base: "llm_base ''http://127.0.0.1:8001/v1'' = ''http://127.0.0.1:8001''"
    by (simp add: llm_base_def startswith_def)
  show ?thesis
    using u v
    by (simp add: load_worker_config_def assms(1) Let_def)
      (simp add: assms(4) shipped_file_def conf_file_def llm_knobs_def stt_knobs_def tts_knobs_def WorkerConfig_def construct_def
        get_str_def get_int_def get_float_def get_bool_def get_key_def section_of_file_def llm_base_kw_def base
        index_def dget_or_def validate_def field_value_def px_laws [OF assms(2)])
qed

lemma session_mgr_loads:
  assumes "ho_file h = Some (shipped_file ip url name)" "px_law (ho_px h)" "require_env h ''DB_PASSWORD'' = Some pw"
    and "require_env h ''SESSION_MGR_TOKEN'' = Some tok"
  shows "\<exists>c. load_session_mgr_config h = Some c \<and> map_of c ''listen_host'' = Some (PStr ''127.0.0.1'') \<and>
     map_of c ''listen_port'' = Some (PInt 8010)"
proof -
  obtain u v where u: "dsn_kw h (the (map_of (shipped_file ip url name) ''database'')) = Some (PStr u)"
    and v: "redis_url_of h (the (map_of (shipped_file ip url name) ''redis'')) = Some (PStr v)"
    using addresses [OF assms(1) [unfolded shipped_file_def] assms(3)] assms(3)
    by (auto simp: dsn_kw_def shipped_file_def)
  show ?thesis
    using u v
    by (simp add: load_session_mgr_config_def assms(1) Let_def)
      (simp add: env_kw_def assms(4) shipped_file_def conf_file_def SessionMgrConfig_def construct_def
        get_str_def get_int_def get_key_def section_of_file_def
        index_def dget_or_def validate_def field_value_def px_laws [OF assms(2)])
qed

text \<open>The panel has no field for the knobs of the servers, and forbids what it has no field for.\<close>

lemma panel_refuses:
  assumes "ho_file h = Some (conf_file (k # ks) b c ip url name)" "fst k \<notin> set (map fst panel_LLMConfig)"
  shows "load_panel_config h = None"
proof -
  have "section_value (ho_px h) (conf_file (k # ks) b c ip url name) (''llm'', panel_LLMConfig, True) = None"
    using assms(2) by (simp add: section_value_def conf_file_def validate_def)
  moreover have "(''llm'', panel_LLMConfig, True) \<in> set AipanelConfig"
    by (simp add: AipanelConfig_def)
  ultimately have "None \<in> set (map (section_value (ho_px h) (conf_file (k # ks) b c ip url name)) AipanelConfig)"
    by (metis image_eqI set_map)
  then show ?thesis
    by (simp add: load_panel_config_def assms(1) those_None del: set_map)
qed

lemma panel_accepts:
  assumes "ho_file h = Some (conf_file [] [] [] ip url name)" "px_law (ho_px h)"
  shows "load_panel_config h \<noteq> None"
proof -
  let ?d = "conf_file [] [] [] ip url name"
  note laws = px_laws [OF assms(2)]
  have "\<forall>f\<in>set AipanelConfig. \<exists>v. section_value (ho_px h) ?d f = Some v"
    by (simp add: AipanelConfig_def section_value_def conf_file_def validate_def field_value_def laws list_value.simps
        DatabaseConfig_def RedisConfig_def MinIOConfig_def SIPConfig_def panel_LLMConfig_def panel_STTConfig_def
        panel_TTSConfig_def PanelConfig_def ClusterConfig_def WorkerSectionConfig_def ViciSectionConfig_def EmbedSectionConfig_def)
  then have "\<exists>vs. those (map (section_value (ho_px h) ?d) fs) = Some vs" if "set fs \<subseteq> set AipanelConfig" for fs
    using that by (induction fs) auto
  then show ?thesis
    by (auto simp: load_panel_config_def assms(1))
qed

section \<open>Property\<close>

text \<open>
  C15: the installer's own configuration file starts every service except the panel. With the secrets
  set, the workers, the SIP service, the session manager and the four model servers load it, and the
  addresses of the workers are those on which the servers listen; the panel refuses it, because its
  sections forbid the server knobs that the same file holds, and goes on refusing however often it
  is asked. Without these knobs it would load.
\<close>

theorem shipped_file_stops_panel:
  assumes "ho_file h = Some (shipped_file ip url name)" "px_law (ho_px h)"
    and "require_env h ''DB_PASSWORD'' \<noteq> None" "require_env h ''ENCRYPTION_KEY'' \<noteq> None"
    and "require_env h ''SESSION_MGR_TOKEN'' \<noteq> None" "getenv h ''AIPANEL_WORKER_CONCURRENCY'' = None"
  shows "get_config h None = (None, None) \<and>
    load_panel_config (h\<lparr>ho_file := Some (conf_file [] [] [] ip url name)\<rparr>) \<noteq> None \<and>
    load_sip_config h \<noteq> None \<and> load_embed_config h \<noteq> None \<and>
    (\<exists>w l s t m. load_worker_config h = Some w \<and> load_llm_config h = Some l \<and> load_stt_config h = Some s \<and>
      load_tts_config h = Some t \<and> load_session_mgr_config h = Some m \<and>
      (\<forall>(key, server, port, url)\<in>{(''llm_url'', l, 8001, ''http://127.0.0.1:8001''), (''stt_url'', s, 8002, ''http://127.0.0.1:8002''),
          (''tts_url'', t, 8003, ''http://127.0.0.1:8003''), (''vici_url'', m, 8010, ''http://127.0.0.1:8010'')}.
         map_of server ''listen_host'' = Some (PStr ''127.0.0.1'') \<and> map_of server ''listen_port'' = Some (PInt port) \<and>
         map_of w key = Some (PStr url)))"
proof (intro conjI)
  obtain pw key tok where env: "require_env h ''DB_PASSWORD'' = Some pw" "require_env h ''ENCRYPTION_KEY'' = Some key"
    "require_env h ''SESSION_MGR_TOKEN'' = Some tok"
    using assms(3-5) by blast
  show "get_config h None = (None, None)"
    using panel_refuses [of h _ _ _ _ ip url name] assms(1)
    by (simp add: get_config_def shipped_file_def llm_knobs_def panel_LLMConfig_def)
  show "load_panel_config (h\<lparr>ho_file := Some (conf_file [] [] [] ip url name)\<rparr>) \<noteq> None"
    using assms(2) by (intro panel_accepts) simp_all
  show "load_sip_config h \<noteq> None" "load_embed_config h \<noteq> None"
    using sip_loads [OF assms(1,2) env(1,2)] embed_loads [OF assms(1,2)] by auto
  show "\<exists>w l s t m. load_worker_config h = Some w \<and> load_llm_config h = Some l \<and> load_stt_config h = Some s \<and>
      load_tts_config h = Some t \<and> load_session_mgr_config h = Some m \<and>
      (\<forall>(key, server, port, url)\<in>{(''llm_url'', l, 8001, ''http://127.0.0.1:8001''), (''stt_url'', s, 8002, ''http://127.0.0.1:8002''),
          (''tts_url'', t, 8003, ''http://127.0.0.1:8003''), (''vici_url'', m, 8010, ''http://127.0.0.1:8010'')}.
         map_of server ''listen_host'' = Some (PStr ''127.0.0.1'') \<and> map_of server ''listen_port'' = Some (PInt port) \<and>
         map_of w key = Some (PStr url))"
    using worker_loads [OF assms(1,2) env(1) assms(6)] llm_loads [OF assms(1,2)] stt_loads [OF assms(1,2)]
      tts_loads [OF assms(1,2) env(1)] session_mgr_loads [OF assms(1,2) env(1,3)]
    by (elim exE conjE) (intro exI conjI; (assumption | simp))
qed

definition demo_px :: pydantic where
  "demo_px = \<lparr>px_int = \<lambda>v. (case v of PInt i \<Rightarrow> Some i | _ \<Rightarrow> None), px_float = \<lambda>v. (case v of PFloat x \<Rightarrow> Some x | _ \<Rightarrow> None),
     px_bool = \<lambda>v. (case v of PBool b \<Rightarrow> Some b | _ \<Rightarrow> None)\<rparr>"

definition demo_host :: host where
  "demo_host = \<lparr>ho_env = (\<lambda>_. None),
     ho_secrets = Some [''DB_PASSWORD'' \<mapsto> ''pw'', ''ENCRYPTION_KEY'' \<mapsto> ''key'', ''SESSION_MGR_TOKEN'' \<mapsto> ''tok''],
     ho_file = Some (shipped_file ''10.0.0.5'' ''https://panel'' ''panel''), ho_int_of_str = (\<lambda>_. None),
     ho_float_of_str = (\<lambda>_. None), ho_repr = (\<lambda>_. []), ho_px = demo_px\<rparr>"

theorem shipped_file_stops_panel_witness:
  "get_config demo_host None = (None, None) \<and> load_sip_config demo_host \<noteq> None \<and> load_embed_config demo_host \<noteq> None"
proof -
  have hyps: "ho_file demo_host = Some (shipped_file ''10.0.0.5'' ''https://panel'' ''panel'')" "px_law (ho_px demo_host)"
    "require_env demo_host ''DB_PASSWORD'' \<noteq> None" "require_env demo_host ''ENCRYPTION_KEY'' \<noteq> None"
    "require_env demo_host ''SESSION_MGR_TOKEN'' \<noteq> None" "getenv demo_host ''AIPANEL_WORKER_CONCURRENCY'' = None"
    by (simp_all add: demo_host_def demo_px_def px_law_def require_env_def getenv_def str_or_none_def)
  show ?thesis
    using shipped_file_stops_panel [OF hyps] by blast
qed

end
