(* ===== verification/Llm_Gateway.thy ===== *)
theory Llm_Gateway
  imports Service_Config
begin

text \<open>
  The language-model service (\<open>llm-server/\<close>): the command line and the life of the vLLM child process
  (\<open>launcher.py\<close>), and the proxy in front of it (\<open>main.py\<close>) with its count of requests under way and
  its shutdown. Time is in milliseconds; what the child process, httpx and the clients do is an
  argument or an event.
\<close>

section \<open>Command line\<close>

definition internal_base_url :: "pyval dict \<Rightarrow> string" where
  "internal_base_url c = ''http://'' @ attr_str c ''internal_host'' @ '':'' @ str_int (attr_int c ''internal_port'')"

fun replace_slash :: "string \<Rightarrow> string" where
  "replace_slash [] = []"
| "replace_slash (c # cs) = (if c = CHR ''/'' then ''__'' else [c]) @ replace_slash cs"

definition model_local_path :: "pyval dict \<Rightarrow> string" where
  "model_local_path c = attr_str c ''models_dir'' @ ''/'' @ replace_slash (attr_str c ''model'')"

text \<open>\<open>c\<close> is the loaded configuration, \<open>exists\<close> the file system, \<open>python\<close> the interpreter, \<open>fl\<close> the text of
  a float.\<close>

definition build_vllm_argv :: "(string \<Rightarrow> bool) \<Rightarrow> string \<Rightarrow> (rat \<Rightarrow> string) \<Rightarrow> pyval dict \<Rightarrow> string list" where
  "build_vllm_argv exists python fl c =
     (let model_arg = (if exists (model_local_path c) then model_local_path c else attr_str c ''model'') in
      [python, ''-m'', ''vllm.entrypoints.openai.api_server'',
       ''--host'', attr_str c ''internal_host'',
       ''--port'', str_int (attr_int c ''internal_port''),
       ''--model'', model_arg,
       ''--max-model-len'', str_int (attr_int c ''max_model_len''),
       ''--gpu-memory-utilization'', fl (attr_rat c ''gpu_memory_utilization''),
       ''--tensor-parallel-size'', str_int (attr_int c ''tensor_parallel_size''),
       ''--disable-log-requests''] @
      (if attr_bool c ''enable_auto_tool_choice''
       then [''--enable-auto-tool-choice'', ''--tool-call-parser'', attr_str c ''tool_call_parser''] else []))"

section \<open>The child process\<close>

text \<open>\<open>_proc\<close>: none yet, running, or exited. Only spawning and signals are operations of the wrapper;
  that the process exits by itself is the environment's.\<close>

datatype vllm = NoProc | Running nat | Exited nat

definition vllm_start :: "nat \<Rightarrow> vllm \<Rightarrow> vllm" where
  "vllm_start new_pid p = (case p of Running pid \<Rightarrow> p | _ \<Rightarrow> Running new_pid)"

definition vllm_is_alive :: "vllm \<Rightarrow> bool" where
  "vllm_is_alive p = (case p of Running pid \<Rightarrow> True | _ \<Rightarrow> False)"

text \<open>\<open>wait_ready\<close>: the \<open>k\<close>-th round finds the process alive or not and asks its health page, which
  takes \<open>rs_ms\<close> (the probe has a timeout of its own), raises or answers; then it sleeps a second.\<close>

datatype probe = ProbeOk | ProbeNotOk | ProbeRaises

record round_seen =
  rs_alive :: bool
  rs_probe :: probe
  rs_ms :: nat

fun rounds_ms :: "(nat \<Rightarrow> round_seen) \<Rightarrow> nat \<Rightarrow> nat" where
  "rounds_ms seen 0 = 0"
| "rounds_ms seen (Suc k) = rounds_ms seen k + rs_ms (seen k) + 1000"

lemma rounds_ms_grow: "1000 * k \<le> rounds_ms seen k"
  by (induction k) simp_all

datatype readiness = Ready | Died | TimedOut

function wait_ready_from :: "nat \<Rightarrow> (nat \<Rightarrow> round_seen) \<Rightarrow> nat \<Rightarrow> readiness \<times> nat" where
  "wait_ready_from timeout_ms seen k =
     (if rounds_ms seen k < timeout_ms
      then if \<not> rs_alive (seen k) then (Died, k)
           else if rs_probe (seen k) = ProbeOk then (Ready, k)
           else wait_ready_from timeout_ms seen (Suc k)
      else (TimedOut, k))"
  by pat_completeness auto
termination
proof (relation "measure (\<lambda>(timeout_ms, seen, k). timeout_ms - k)", simp, clarsimp)
  fix timeout_ms seen k
  assume "rounds_ms seen k < timeout_ms"
  then have "k < timeout_ms" using rounds_ms_grow [of k seen] by simp
  then show "timeout_ms - Suc k < timeout_ms - k" by simp
qed

declare wait_ready_from.simps [simp del]

definition wait_ready :: "nat \<Rightarrow> (nat \<Rightarrow> round_seen) \<Rightarrow> readiness" where
  "wait_ready timeout_ms seen = fst (wait_ready_from timeout_ms seen 0)"

text \<open>\<open>terminate\<close>: what the process does with the signal, and whether the wait after the kill ends.\<close>

datatype on_term = TermGone | TermExits | TermIgnored bool

definition vllm_terminate :: "on_term \<Rightarrow> vllm \<Rightarrow> (string + unit) \<times> vllm" where
  "vllm_terminate reaction p =
     (case p of
        Running pid \<Rightarrow>
          (case reaction of
             TermGone \<Rightarrow> (Inr (), p)
           | TermExits \<Rightarrow> (Inr (), Exited pid)
           | TermIgnored dies_of_kill \<Rightarrow> if dies_of_kill then (Inr (), Exited pid) else (Inl ''TimeoutExpired'', p))
      | _ \<Rightarrow> (Inr (), p))"

section \<open>Headers\<close>

definition HOP_BY_HOP :: "string list" where
  "HOP_BY_HOP = [''connection'', ''keep-alive'', ''proxy-authenticate'', ''proxy-authorization'',
     ''te'', ''trailer'', ''transfer-encoding'', ''upgrade'', ''host'']"

text \<open>A dictionary built from the items: a later value of a repeated header replaces the earlier.\<close>

definition strip_headers :: "(string \<times> string) list \<Rightarrow> string dict" where
  "strip_headers hs = fold (\<lambda>(k, v) d. AList.update k v d) (filter (\<lambda>(k, v). lower k \<notin> set HOP_BY_HOP) hs) []"

definition proxy_target :: "string \<Rightarrow> string \<Rightarrow> string" where
  "proxy_target prefix path = (if prefix \<noteq> [] then ''/'' @ prefix @ ''/'' @ path else ''/'' @ path)"

section \<open>The proxy\<close>

text \<open>A request on its way: admitted by the gate and its body being read; counted and sent; answered by
  vLLM with its body not yet pulled; its body being streamed. Then it is over: refused by the gate,
  gone before it was counted, answered 502, completed; or it ended in a way that no handler of the
  proxy sees, an exception of the client that is no \<open>HTTPError\<close> or a body that nobody pulls.\<close>

datatype req_phase =
    ReadingBody
  | Sending
  | Answered int
  | Streaming int
  | Refused503
  | GoneEarly
  | Replied502
  | Completed int
  | LostInSend
  | NeverPulled int

definition counted :: "req_phase \<Rightarrow> bool" where
  "counted p = (case p of Sending \<Rightarrow> True | Answered _ \<Rightarrow> True | Streaming _ \<Rightarrow> True | LostInSend \<Rightarrow> True
     | NeverPulled _ \<Rightarrow> True | _ \<Rightarrow> False)"

definition leaked :: "req_phase \<Rightarrow> bool" where
  "leaked p = (case p of LostInSend \<Rightarrow> True | NeverPulled _ \<Rightarrow> True | _ \<Rightarrow> False)"

definition under_way :: "req_phase \<Rightarrow> bool" where
  "under_way p = (case p of ReadingBody \<Rightarrow> True | Sending \<Rightarrow> True | Answered _ \<Rightarrow> True | Streaming _ \<Rightarrow> True | _ \<Rightarrow> False)"

text \<open>\<open>State\<close>, with the requests seen so far and when the drain began; \<open>gw_client_open\<close> until
  \<open>aclose\<close>.\<close>

record gateway =
  gw_inflight :: int
  gw_shutting_down :: bool
  gw_loaded :: bool
  gw_client_open :: bool
  gw_vllm :: vllm
  gw_reqs :: "req_phase list"
  gw_drain_ms :: nat

definition gw_init :: "bool \<Rightarrow> vllm \<Rightarrow> gateway" where
  "gw_init ready p = \<lparr>gw_inflight = 0, gw_shutting_down = False, gw_loaded = ready, gw_client_open = True,
     gw_vllm = p, gw_reqs = [], gw_drain_ms = 0\<rparr>"

datatype send_result = SendOk int | SendHttpError | SendOther

text \<open>What happens, one step between two suspension points each: a request arrives at a proxy route; its
  body has been read, or its client has gone; httpx answers; the body is pulled for the first
  time, or never; the stream ends, for whatever reason; the server is told to stop; one round of the
  drain, which takes at least half a second. Requests may arrive and end during the drain; a server that
  finishes its requests before it runs the shutdown, as uvicorn does unless told otherwise, makes fewer of
  these sequences, with only leaked requests left to wait for.\<close>

datatype gw_event =
    Arrive
  | BodyRead nat
  | BodyLost nat
  | SendDone nat send_result
  | FirstPull nat
  | NoPull nat
  | StreamEnd nat
  | Stop
  | DrainRound nat on_term
  | ChildExits

definition set_phase :: "nat \<Rightarrow> req_phase \<Rightarrow> gateway \<Rightarrow> gateway" where
  "set_phase i p g = g\<lparr>gw_reqs := (gw_reqs g)[i := p]\<rparr>"

definition count_by :: "int \<Rightarrow> gateway \<Rightarrow> gateway" where
  "count_by d g = g\<lparr>gw_inflight := gw_inflight g + d\<rparr>"

fun is_answered :: "req_phase \<Rightarrow> bool" where
  "is_answered (Answered st) = True"
| "is_answered _ = False"

fun is_streaming :: "req_phase \<Rightarrow> bool" where
  "is_streaming (Streaming st) = True"
| "is_streaming _ = False"

definition phase_is :: "gateway \<Rightarrow> nat \<Rightarrow> (req_phase \<Rightarrow> bool) \<Rightarrow> bool" where
  "phase_is g i P \<longleftrightarrow> i < length (gw_reqs g) \<and> P (gw_reqs g ! i)"

text \<open>\<open>_shutdown_gate\<close> on a path other than the health page.\<close>

definition shutdown_gate :: "gateway \<Rightarrow> gateway" where
  "shutdown_gate g = g\<lparr>gw_reqs := gw_reqs g @ [if gw_shutting_down g then Refused503 else ReadingBody]\<rparr>"

definition proxy_send :: "nat \<Rightarrow> send_result \<Rightarrow> gateway \<Rightarrow> gateway" where
  "proxy_send i r g =
     (case r of
        SendOk status \<Rightarrow> set_phase i (Answered status) g
      | SendHttpError \<Rightarrow> count_by (- 1) (set_phase i Replied502 g)
      | SendOther \<Rightarrow> set_phase i LostInSend g)"

text \<open>A closed client raises a \<open>RuntimeError\<close>, which is no \<open>HTTPError\<close>.\<close>

definition send_outcome :: "gateway \<Rightarrow> send_result \<Rightarrow> send_result" where
  "send_outcome g r = (if gw_client_open g then r else SendOther)"

definition streamed_status :: "req_phase \<Rightarrow> int" where
  "streamed_status p = (case p of Answered st \<Rightarrow> st | Streaming st \<Rightarrow> st | _ \<Rightarrow> 0)"

definition DRAIN_LIMIT_MS :: nat where "DRAIN_LIMIT_MS = 30000"
definition DRAIN_POLL_MS :: nat where "DRAIN_POLL_MS = 500"

text \<open>The condition of the drain loop: another round of sleep, or the end of the lifespan, which closes
  the client and stops the child, in whatever way that reacts.\<close>

definition drain_round :: "nat \<Rightarrow> on_term \<Rightarrow> gateway \<Rightarrow> gateway" where
  "drain_round late reaction g =
     (if 0 < gw_inflight g \<and> gw_drain_ms g < DRAIN_LIMIT_MS
      then g\<lparr>gw_drain_ms := gw_drain_ms g + DRAIN_POLL_MS + late\<rparr>
      else g\<lparr>gw_client_open := False, gw_vllm := snd (vllm_terminate reaction (gw_vllm g))\<rparr>)"

definition gw_step :: "gw_event \<Rightarrow> gateway \<Rightarrow> gateway" where
  "gw_step e g =
     (case e of
        Arrive \<Rightarrow> if gw_client_open g then shutdown_gate g else g
      | BodyRead i \<Rightarrow> if phase_is g i (\<lambda>p. p = ReadingBody) then count_by 1 (set_phase i Sending g) else g
      | BodyLost i \<Rightarrow> if phase_is g i (\<lambda>p. p = ReadingBody) then set_phase i GoneEarly g else g
      | SendDone i r \<Rightarrow> if phase_is g i (\<lambda>p. p = Sending) then proxy_send i (send_outcome g r) g else g
      | FirstPull i \<Rightarrow> if phase_is g i is_answered
                       then set_phase i (Streaming (streamed_status (gw_reqs g ! i))) g else g
      | NoPull i \<Rightarrow> if phase_is g i is_answered
                    then set_phase i (NeverPulled (streamed_status (gw_reqs g ! i))) g else g
      | StreamEnd i \<Rightarrow> if phase_is g i is_streaming
                       then count_by (- 1) (set_phase i (Completed (streamed_status (gw_reqs g ! i))) g) else g
      | Stop \<Rightarrow> g\<lparr>gw_shutting_down := True\<rparr>
      | DrainRound late reaction \<Rightarrow>
          if gw_shutting_down g \<and> gw_client_open g then drain_round late reaction g else g
      | ChildExits \<Rightarrow> g\<lparr>gw_vllm := (case gw_vllm g of Running pid \<Rightarrow> Exited pid | p \<Rightarrow> p)\<rparr>)"

definition gw_run :: "gw_event list \<Rightarrow> gateway \<Rightarrow> gateway" where
  "gw_run es g = fold gw_step es g"

text \<open>\<open>/health\<close>: status and body; the gate lets it through.\<close>

definition gw_health :: "gateway \<Rightarrow> int \<times> string" where
  "gw_health g =
     (if \<not> gw_loaded g then (503, ''loading'')
      else if \<not> vllm_is_alive (gw_vllm g) then (503, ''vllm_down'')
      else (200, ''ok''))"

section \<open>Waiting for the model\<close>

lemma wait_ready_spec:
  assumes "wait_ready_from t seen k0 = (r, k)"
  shows "k0 \<le> k \<and> (\<forall>j. k0 \<le> j \<longrightarrow> j < k \<longrightarrow> rounds_ms seen j < t \<and> rs_alive (seen j) \<and> rs_probe (seen j) \<noteq> ProbeOk) \<and>
     (case r of Ready \<Rightarrow> rounds_ms seen k < t \<and> rs_alive (seen k) \<and> rs_probe (seen k) = ProbeOk
      | Died \<Rightarrow> rounds_ms seen k < t \<and> \<not> rs_alive (seen k)
      | TimedOut \<Rightarrow> t \<le> rounds_ms seen k)"
  using assms
proof (induction t seen k0 rule: wait_ready_from.induct)
  case (1 t seen k0)
  consider (late) "t \<le> rounds_ms seen k0" | (died) "rounds_ms seen k0 < t" "\<not> rs_alive (seen k0)"
    | (ok) "rounds_ms seen k0 < t" "rs_alive (seen k0)" "rs_probe (seen k0) = ProbeOk"
    | (again) "rounds_ms seen k0 < t" "rs_alive (seen k0)" "rs_probe (seen k0) \<noteq> ProbeOk"
    by linarith
  then show ?case
  proof cases
    case again
    then have "wait_ready_from t seen (Suc k0) = (r, k)"
      using 1(2) by (subst (asm) wait_ready_from.simps) simp
    from 1(1) [OF again(1) _ again(3) this] again have
      "Suc k0 \<le> k" "\<forall>j. Suc k0 \<le> j \<longrightarrow> j < k \<longrightarrow> rounds_ms seen j < t \<and> rs_alive (seen j) \<and> rs_probe (seen j) \<noteq> ProbeOk"
      "case r of Ready \<Rightarrow> rounds_ms seen k < t \<and> rs_alive (seen k) \<and> rs_probe (seen k) = ProbeOk
        | Died \<Rightarrow> rounds_ms seen k < t \<and> \<not> rs_alive (seen k) | TimedOut \<Rightarrow> t \<le> rounds_ms seen k"
      by simp_all
    with again show ?thesis
      by (metis Suc_leD Suc_leI le_neq_implies_less)
  qed (use 1(2) in \<open>subst (asm) wait_ready_from.simps, simp; force\<close>)+
qed

text \<open>
  waiting for the model ends: after at most as many rounds as the timeout has seconds it reports
  ready, died or timed out, and it says ready only when a probe was answered in time while the
  child was alive, and none before.
\<close>

lemma wait_ready_ends:
  assumes "wait_ready_from (1000 * secs) seen 0 = (r, k)"
  shows "k \<le> secs \<and> (r = Ready \<longleftrightarrow> rounds_ms seen k < 1000 * secs \<and> rs_alive (seen k) \<and> rs_probe (seen k) = ProbeOk)"
proof -
  have spec: "\<forall>j<k. rounds_ms seen j < 1000 * secs"
    "case r of Ready \<Rightarrow> rounds_ms seen k < 1000 * secs \<and> rs_alive (seen k) \<and> rs_probe (seen k) = ProbeOk
      | Died \<Rightarrow> rounds_ms seen k < 1000 * secs \<and> \<not> rs_alive (seen k) | TimedOut \<Rightarrow> 1000 * secs \<le> rounds_ms seen k"
    using wait_ready_spec [OF assms] by simp_all
  have "k \<le> secs"
  proof (rule ccontr)
    assume "\<not> k \<le> secs"
    then have "rounds_ms seen secs < 1000 * secs" using spec(1) by simp
    then show False using rounds_ms_grow [of secs seen] by simp
  qed
  then show ?thesis using spec(2) by (cases r) auto
qed

text \<open>A model that loads in three seconds, with probes of half a second.\<close>

definition loading :: "nat \<Rightarrow> round_seen" where
  "loading k = \<lparr>rs_alive = True, rs_probe = (if k < 2 then ProbeRaises else ProbeOk), rs_ms = 500\<rparr>"

lemma wait_ready_ends_witness: "wait_ready_from (1000 * 300) loading 0 = (Ready, 2) \<and> (2::nat) \<le> 300"
proof -
  have r: "wait_ready_from (1000 * 300) loading 0 = (Ready, 2)"
    by (subst wait_ready_from.simps, simp add: loading_def, subst wait_ready_from.simps, simp add: loading_def,
        subst wait_ready_from.simps, simp add: loading_def numeral_2_eq_2)
  with wait_ready_ends [OF r] show ?thesis by simp
qed

section \<open>The count\<close>

definition counted_in :: "req_phase list \<Rightarrow> int" where
  "counted_in ps = int (length (filter counted ps))"

lemma counted_update:
  "i < length ps \<Longrightarrow> counted_in (ps[i := p]) = counted_in ps - of_bool (counted (ps ! i)) + of_bool (counted p)"
proof (induction ps arbitrary: i)
  case (Cons q ps)
  then show ?case by (cases i) (auto simp: counted_in_def)
qed simp

lemma counted_append: "counted_in (ps @ [p]) = counted_in ps + of_bool (counted p)"
  by (simp add: counted_in_def)

definition gw_inv :: "gateway \<Rightarrow> bool" where
  "gw_inv g \<longleftrightarrow> gw_inflight g = counted_in (gw_reqs g)"

lemma is_answered_iff: "is_answered p \<longleftrightarrow> (\<exists>st. p = Answered st)"
  by (cases p) simp_all

lemma is_streaming_iff: "is_streaming p \<longleftrightarrow> (\<exists>st. p = Streaming st)"
  by (cases p) simp_all

lemmas gw_defs = gw_step_def phase_is_def count_by_def set_phase_def proxy_send_def send_outcome_def shutdown_gate_def
  drain_round_def

lemma gw_inv_step: "gw_inv g \<Longrightarrow> gw_inv (gw_step e g)"
  by (cases e)
    (auto simp: gw_inv_def gw_defs counted_update counted_append counted_def is_answered_iff is_streaming_iff
      split: send_result.splits if_splits)

lemma gw_run_simps [simp]: "gw_run [] g = g" "gw_run (e # es) g = gw_run es (gw_step e g)"
  by (simp_all add: gw_run_def)

lemma gw_run_append: "gw_run (es @ es') g = gw_run es' (gw_run es g)"
  by (simp add: gw_run_def)

lemma gw_inv_run: "gw_inv g \<Longrightarrow> gw_inv (gw_run es g)"
  by (induction es arbitrary: g) (simp_all add: gw_inv_step)

lemma gw_inv_init: "gw_inv (gw_init ready p)"
  by (simp add: gw_inv_def gw_init_def counted_in_def)

text \<open>
  the count of the proxy is, after any sequence of events, the number of requests that were sent and
  have not been given back: those under way there, and for ever those that ended where no handler
  of the proxy sees it. It is never negative.
\<close>

lemma gateway_count:
  "gw_inflight (gw_run es (gw_init ready p)) =
     int (length (filter counted (gw_reqs (gw_run es (gw_init ready p)))))"
  using gw_inv_run [OF gw_inv_init, of es ready p] by (simp add: gw_inv_def counted_in_def)

text \<open>A leak stays.\<close>

definition leaked_at :: "gateway \<Rightarrow> nat \<Rightarrow> bool" where
  "leaked_at g i \<longleftrightarrow> i < length (gw_reqs g) \<and> leaked (gw_reqs g ! i)"

lemma leaked_iff: "leaked p \<longleftrightarrow> p = LostInSend \<or> (\<exists>st. p = NeverPulled st)"
  by (cases p) (simp_all add: leaked_def)

lemma leak_step: "leaked_at g i \<Longrightarrow> leaked_at (gw_step e g) i"
  by (cases e)
    (auto simp: leaked_at_def leaked_iff gw_defs nth_append nth_list_update is_answered_iff is_streaming_iff
      split: send_result.splits)

lemma leak_run: "leaked_at g i \<Longrightarrow> leaked_at (gw_run es g) i"
  by (induction es arbitrary: g) (simp_all add: leak_step)

lemma leak_counts:
  assumes "gw_inv g" "leaked_at g i"
  shows "0 < gw_inflight g"
proof -
  have "gw_reqs g ! i \<in> set (filter counted (gw_reqs g))"
    using assms(2) by (auto simp: leaked_at_def leaked_iff counted_def)
  then have "filter counted (gw_reqs g) \<noteq> []" by force
  then show ?thesis using assms(1) by (simp add: gw_inv_def counted_in_def)
qed

lemma client_closes:
  assumes "gw_client_open g" "\<not> gw_client_open (gw_step e g)"
  shows "gw_inflight g \<le> 0 \<or> DRAIN_LIMIT_MS \<le> gw_drain_ms g" "gw_drain_ms (gw_step e g) = gw_drain_ms g"
    "gw_reqs (gw_step e g) = gw_reqs g"
  using assms by (cases e; auto simp: gw_defs split: if_splits send_result.splits)+

lemma client_stays_closed:
  "\<not> gw_client_open g \<Longrightarrow> \<not> gw_client_open (gw_step e g) \<and> gw_drain_ms (gw_step e g) = gw_drain_ms g"
  by (cases e) (auto simp: gw_defs split: if_splits send_result.splits)

text \<open>
  one request that the client of the proxy answers with an exception other than its own
  \<open>HTTPError\<close>, or whose body is never pulled, is counted for ever: whenever the service is stopped
  after it, the drain takes its full thirty seconds, though nothing is under way.
\<close>

lemma leak_stalls_shutdown:
  assumes "g = gw_run es (gw_init ready p)" "gw_client_open g" "leaked_at g i"
    and "\<not> gw_client_open (gw_run es' g)"
  shows "DRAIN_LIMIT_MS \<le> gw_drain_ms (gw_run es' g)"
proof -
  have "gw_inv g" using gw_inv_run [OF gw_inv_init] assms(1) by simp
  with assms(2-4) show ?thesis
  proof (induction es' arbitrary: g)
    case (Cons e es')
    show ?case
    proof (cases "gw_client_open (gw_step e g)")
      case True
      then show ?thesis using Cons.IH [of "gw_step e g"] Cons.prems by (simp add: leak_step gw_inv_step)
    next
      case False
      have "\<not> gw_client_open h \<Longrightarrow> gw_drain_ms (gw_run es' h) = gw_drain_ms h" for h
        by (induction es' arbitrary: h) (simp_all add: client_stays_closed)
      then show ?thesis
        using client_closes [OF Cons.prems(1) False] leak_counts [OF Cons.prems(4,2)] False by simp
    qed
  qed simp
qed

definition one_leak :: "gw_event list" where
  "one_leak = [Arrive, BodyRead 0, SendDone 0 SendOther, Stop]"

section \<open>The drain\<close>

fun is_drain_round :: "gw_event \<Rightarrow> bool" where
  "is_drain_round (DrainRound late reaction) = True"
| "is_drain_round _ = False"

lemma drain_ms_step:
  assumes "gw_client_open (gw_step e g)" "gw_shutting_down g" "is_drain_round e"
  shows "gw_drain_ms g < DRAIN_LIMIT_MS \<and> gw_drain_ms g + 500 \<le> gw_drain_ms (gw_step e g)"
  using assms by (cases e) (auto simp: gw_defs DRAIN_POLL_MS_def split: if_splits)

lemma drain_ms_other:
  "gw_drain_ms g \<le> gw_drain_ms (gw_step e g)" "gw_shutting_down g \<Longrightarrow> gw_shutting_down (gw_step e g)"
  by (cases e; auto simp: gw_defs split: if_splits send_result.splits)+

lemma stays_closed_run: "\<not> gw_client_open g \<Longrightarrow> \<not> gw_client_open (gw_run es g)"
  by (induction es arbitrary: g) (simp_all add: client_stays_closed)

lemma open_drain:
  assumes "gw_shutting_down g" "gw_client_open (gw_run es g)"
  shows "500 * length (filter is_drain_round es) + gw_drain_ms g \<le> gw_drain_ms (gw_run es g) \<and>
     (list_ex is_drain_round es \<longrightarrow> 500 * (length (filter is_drain_round es) - 1) + gw_drain_ms g < DRAIN_LIMIT_MS)"
  using assms
proof (induction es arbitrary: g)
  case (Cons e es)
  have opn: "gw_client_open (gw_step e g)"
    using Cons.prems(2) stays_closed_run [of "gw_step e g" es] by auto
  have ih: "500 * length (filter is_drain_round es) + gw_drain_ms (gw_step e g) \<le> gw_drain_ms (gw_run es (gw_step e g)) \<and>
     (list_ex is_drain_round es \<longrightarrow> 500 * (length (filter is_drain_round es) - 1) + gw_drain_ms (gw_step e g) < DRAIN_LIMIT_MS)"
    using Cons.IH [of "gw_step e g"] Cons.prems drain_ms_other(2) by simp
  show ?case
  proof (cases "is_drain_round e")
    case True
    have none: "\<not> list_ex is_drain_round es \<Longrightarrow> filter is_drain_round es = []"
      by (induction es) auto
    have some: "list_ex is_drain_round es \<Longrightarrow> 1 \<le> length (filter is_drain_round es)"
      by (induction es) auto
    show ?thesis
      using drain_ms_step [OF opn Cons.prems(1) True] ih True none some
      by (cases "list_ex is_drain_round es") auto
  next
    case False
    then show ?thesis using ih drain_ms_other(1) [of g e] by auto
  qed
qed simp

lemma drain_closes:
  assumes "gw_shutting_down g" "60 < length (filter is_drain_round es)"
  shows "\<not> gw_client_open (gw_run es g)"
proof
  assume "gw_client_open (gw_run es g)"
  moreover have "list_ex is_drain_round es"
    using assms(2) by (induction es) (auto split: if_splits)
  ultimately have "500 * (length (filter is_drain_round es) - 1) < DRAIN_LIMIT_MS"
    using open_drain [OF assms(1)] by fastforce
  then show False
    using assms(2) by (simp add: DRAIN_LIMIT_MS_def)
qed

lemma leak_stalls_shutdown_witness:
  "leaked_at (gw_run one_leak (gw_init True (Running 7))) 0 \<and>
   \<not> gw_client_open (gw_run (replicate 61 (DrainRound 0 TermExits)) (gw_run one_leak (gw_init True (Running 7)))) \<and>
   30000 \<le> gw_drain_ms (gw_run (replicate 61 (DrainRound 0 TermExits)) (gw_run one_leak (gw_init True (Running 7))))"
proof -
  let ?g = "gw_run one_leak (gw_init True (Running 7))"
  have g: "?g = \<lparr>gw_inflight = 1, gw_shutting_down = True, gw_loaded = True, gw_client_open = True,
      gw_vllm = Running 7, gw_reqs = [LostInSend], gw_drain_ms = 0\<rparr>"
    by (simp add: one_leak_def gw_init_def gw_defs)
  have opn: "gw_client_open ?g" and leak: "leaked_at ?g 0"
    by (simp_all add: g leaked_at_def leaked_def)
  have "gw_shutting_down ?g" by (simp add: g)
  moreover have "filter is_drain_round (replicate 61 (DrainRound 0 TermExits)) = replicate 61 (DrainRound 0 TermExits)"
    by (simp add: filter_replicate)
  ultimately have closed: "\<not> gw_client_open (gw_run (replicate 61 (DrainRound 0 TermExits)) ?g)"
    by (intro drain_closes) simp_all
  show ?thesis
    using leak_stalls_shutdown [OF refl opn leak closed] leak closed by (simp add: DRAIN_LIMIT_MS_def)
qed

text \<open>
  the drain ends, leaks or not: of the rounds after the stop at most sixty sleep, and the next
  closes the client, whatever happens in between; and before the thirty seconds are over the client
  closes only when no counted request is left.
\<close>

lemma drain_ends:
  assumes "g = gw_run before (gw_init ready p)" "gw_shutting_down g"
  shows "(60 < length (filter is_drain_round es) \<longrightarrow> \<not> gw_client_open (gw_run es g)) \<and>
     (gw_client_open (gw_run es g) \<longrightarrow> \<not> gw_client_open (gw_step e (gw_run es g)) \<longrightarrow>
      gw_drain_ms (gw_run es g) < DRAIN_LIMIT_MS \<longrightarrow> \<not> list_ex counted (gw_reqs (gw_run es g)))"
proof (intro conjI impI)
  assume "60 < length (filter is_drain_round es)"
  then show "\<not> gw_client_open (gw_run es g)" by (rule drain_closes [OF assms(2)])
next
  assume "gw_client_open (gw_run es g)" "\<not> gw_client_open (gw_step e (gw_run es g))"
    "gw_drain_ms (gw_run es g) < DRAIN_LIMIT_MS"
  then have "gw_inflight (gw_run es g) \<le> 0"
    using client_closes(1) by fastforce
  moreover have "gw_inv (gw_run es g)"
    using gw_inv_run [OF gw_inv_run [OF gw_inv_init]] assms(1) by blast
  ultimately have "filter counted (gw_reqs (gw_run es g)) = []"
    by (simp add: gw_inv_def counted_in_def)
  then show "\<not> list_ex counted (gw_reqs (gw_run es g))"
    by (auto simp: list_ex_iff filter_empty_conv)
qed

lemma drain_ends_witness:
  "gw_shutting_down (gw_run one_leak (gw_init True (Running 7))) \<and>
   \<not> gw_client_open (gw_run (replicate 100 (DrainRound 3 TermGone)) (gw_run one_leak (gw_init True (Running 7))))"
proof -
  have s: "gw_shutting_down (gw_run one_leak (gw_init True (Running 7)))"
    by (simp add: one_leak_def gw_init_def gw_defs)
  have "60 < length (filter is_drain_round (replicate 100 (DrainRound 3 TermGone)))"
    by (simp add: filter_replicate)
  with drain_ends [OF refl s, of "replicate 100 (DrainRound 3 TermGone)"] s show ?thesis by blast
qed

text \<open>What the drain does not wait for, under a server that runs the shutdown while requests are open: a request that was admitted before the stop and whose body is
  still being read is not counted yet. When nothing else is under way the client closes at once, and
  the request ends in an exception that no handler of the proxy sees.\<close>

lemma late_body_lost:
  "gw_reqs (gw_run [Arrive, Stop, DrainRound 0 TermExits, BodyRead 0, SendDone 0 (SendOk 200)] (gw_init True (Running 7))) = [LostInSend]"
  by (simp add: gw_init_def gw_defs vllm_terminate_def)

section \<open>Health\<close>

text \<open>A model that took longer than the timeout is reported loading for ever, although the proxy
  serves it; a child that died is never started again.\<close>

lemma gw_health_const: "gw_loaded (gw_step e g) = gw_loaded g"
  "\<not> vllm_is_alive (gw_vllm g) \<Longrightarrow> \<not> vllm_is_alive (gw_vllm (gw_step e g))"
  by (cases e; auto simp: gw_defs vllm_is_alive_def vllm_terminate_def split: send_result.splits vllm.splits on_term.splits if_splits)+

lemma late_model_stays_loading: "gw_health (gw_run es (gw_init False p)) = (503, ''loading'')"
proof -
  have "\<not> gw_loaded g \<Longrightarrow> \<not> gw_loaded (gw_run es g)" for g
    by (induction es arbitrary: g) (simp_all add: gw_health_const)
  then show ?thesis by (simp add: gw_health_def gw_init_def)
qed

lemma late_model_serves:
  "gw_reqs (gw_run [Arrive, BodyRead 0, SendDone 0 (SendOk 200), FirstPull 0, StreamEnd 0] (gw_init False (Running 7))) =
     [Completed 200]"
  by (simp add: gw_init_def gw_defs streamed_status_def)

lemma dead_child_stays_dead:
  "\<not> vllm_is_alive (gw_vllm g) \<Longrightarrow> fst (gw_health (gw_run es g)) = 503"
  by (induction es arbitrary: g) (simp_all add: gw_health_const gw_health_def)

section \<open>Headers\<close>

text \<open>No hop-by-hop header is passed on, in whatever case it is written; of any other the last value.\<close>

lemma strip_headers_spec:
  "map_of (strip_headers hs) k = (if lower k \<in> set HOP_BY_HOP then None else map_of (rev hs) k)"
proof -
  have upd: "map_of (fold (\<lambda>(k, v) d. AList.update k v d) xs d) k = (case map_of (rev xs) k of None \<Rightarrow> map_of d k | Some v \<Rightarrow> Some v)"
    for xs and d :: "string dict"
    by (induction xs arbitrary: d) (auto simp: AList.update_conv' map_add_def split: option.splits)
  have "map_of (filter (\<lambda>(k, v). lower k \<notin> set HOP_BY_HOP) ys) k =
      (if lower k \<in> set HOP_BY_HOP then None else map_of ys k)" for ys :: "string dict"
    by (induction ys) auto
  then show ?thesis
    unfolding strip_headers_def upd rev_filter by (simp split: option.split)
qed

end
