(* ===== verification/Model_Servers.thy ===== *)
theory Model_Servers
  imports Llm_Gateway Kb_Ingest
begin

text \<open>
  The rest of the speech recognition server (\<open>main.py\<close>, \<open>model_loader.py\<close>, \<open>transcribe.py\<close>: the one-shot endpoint),
  the embedding server (\<open>embed-server/\<close>) with the panel's client of it, and the guard of the synthesis server
  (\<open>main.py\<close>). Whisper, soundfile, the sentence encoder and \<open>numpy\<close>'s interpolation are arguments.
\<close>

section \<open>The guard\<close>

text \<open>The middleware of the recognition and of the synthesis server: a request is counted while its
  handler runs, however it ends, unless it is turned away.\<close>

record service_gate =
  sg_shutting_down :: bool
  sg_inflight :: int

definition gate_enter :: "string \<Rightarrow> service_gate \<Rightarrow> bool \<times> service_gate" where
  "gate_enter path g =
     (if sg_shutting_down g \<and> path \<noteq> ''/health'' then (False, g) else (True, g\<lparr>sg_inflight := sg_inflight g + 1\<rparr>))"

definition gate_leave :: "service_gate \<Rightarrow> service_gate" where
  "gate_leave g = g\<lparr>sg_inflight := sg_inflight g - 1\<rparr>"

datatype gate_event = Enter string | Leave nat | StopSignal

text \<open>The requests inside, by their paths.\<close>

definition gate_step :: "gate_event \<Rightarrow> service_gate \<times> string list \<Rightarrow> service_gate \<times> string list" where
  "gate_step e s =
     (case s of (g, inside) \<Rightarrow>
        (case e of
           Enter path \<Rightarrow> (case gate_enter path g of (True, g1) \<Rightarrow> (g1, inside @ [path]) | (False, g1) \<Rightarrow> (g1, inside))
         | Leave i \<Rightarrow> if i < length inside then (gate_leave g, take i inside @ drop (Suc i) inside) else (g, inside)
         | StopSignal \<Rightarrow> (g\<lparr>sg_shutting_down := True\<rparr>, inside)))"

text \<open>The loop of the shutdown: at most thirty seconds, half a second at a time.\<close>

definition keeps_draining :: "nat \<Rightarrow> service_gate \<Rightarrow> bool" where
  "keeps_draining elapsed_ms g \<longleftrightarrow> 0 < sg_inflight g \<and> elapsed_ms < 30000"

definition gate_run :: "gate_event list \<Rightarrow> service_gate \<times> string list \<Rightarrow> service_gate \<times> string list" where
  "gate_run es s = fold gate_step es s"

lemma gate_step_count:
  "sg_inflight (fst s) = int (length (snd s)) \<Longrightarrow> sg_inflight (fst (gate_step e s)) = int (length (snd (gate_step e s)))"
  by (cases s; cases e) (auto simp: gate_step_def gate_enter_def gate_leave_def)

text \<open>The count is the number of requests inside, so that the shutdown waits for exactly these.\<close>

lemma gate_count:
  "sg_inflight (fst (gate_run es (\<lparr>sg_shutting_down = False, sg_inflight = 0\<rparr>, []))) =
   int (length (snd (gate_run es (\<lparr>sg_shutting_down = False, sg_inflight = 0\<rparr>, []))))"
  by (induction es rule: rev_induct) (simp_all add: gate_run_def gate_step_count)

lemma gate_closed_step:
  "sg_shutting_down (fst s) \<Longrightarrow> sg_shutting_down (fst (gate_step e s)) \<and> set (snd (gate_step e s)) \<subseteq> insert ''/health'' (set (snd s))"
  by (cases s; cases e)
    (auto simp: gate_step_def gate_enter_def gate_leave_def dest: in_set_takeD in_set_dropD)

text \<open>After the stop signal only the health page is let in.\<close>

lemma gate_closed:
  "sg_shutting_down (fst s) \<Longrightarrow> set (snd (gate_run es s)) \<subseteq> insert ''/health'' (set (snd s))"
proof (induction es arbitrary: s)
  case (Cons e es)
  from Cons.IH [of "gate_step e s"] gate_closed_step [OF Cons.prems, of e] show ?case
    by (auto simp: gate_run_def)
qed (auto simp: gate_run_def)

section \<open>Loading the models\<close>

text \<open>\<open>cuda_env\<close> is \<open>CUDA_VISIBLE_DEVICES\<close>, \<open>libcudart\<close> whether the library loads, \<open>exists\<close> the file system.\<close>

definition resolve_device :: "string \<Rightarrow> string option \<Rightarrow> bool \<Rightarrow> string" where
  "resolve_device requested cuda_env libcudart =
     (if requested \<noteq> ''auto'' then requested
      else if strip (opt_str_or cuda_env []) = [] then ''cpu''
      else if libcudart then ''cuda'' else ''cpu'')"

definition resolve_compute_type :: "string \<Rightarrow> string \<Rightarrow> string" where
  "resolve_compute_type device requested =
     (if device = ''cpu'' \<and> requested \<in> {''float16'', ''int8_float16''} then ''int8'' else requested)"

definition resolve_model_path :: "(string \<Rightarrow> bool) \<Rightarrow> pyval dict \<Rightarrow> string" where
  "resolve_model_path exists c =
     (let local = attr_str c ''models_dir'' @ ''/'' @ attr_str c ''model'' in
      if exists (local @ ''/model.bin'') \<or> exists (local @ ''/tokenizer.json'') then local else attr_str c ''model'')"

record loaded_models =
  lm_device :: string
  lm_compute_type :: string
  lm_model_path :: string

text \<open>\<open>load_models\<close>: a second call returns what the first has loaded; \<open>loads\<close> is whether the libraries do.\<close>

definition load_models ::
  "string option \<Rightarrow> bool \<Rightarrow> (string \<Rightarrow> bool) \<Rightarrow> (loaded_models \<Rightarrow> bool) \<Rightarrow> pyval dict \<Rightarrow> loaded_models option \<Rightarrow> loaded_models option" where
  "load_models cuda_env libcudart exists loads c cached =
     (case cached of
        Some m \<Rightarrow> Some m
      | None \<Rightarrow>
          (let device = resolve_device (attr_str c ''device'') cuda_env libcudart;
               m = \<lparr>lm_device = device, lm_compute_type = resolve_compute_type device (attr_str c ''compute_type''),
                    lm_model_path = resolve_model_path exists c\<rparr>
           in if loads m then Some m else None))"

definition stt_health :: "string \<Rightarrow> loaded_models option \<Rightarrow> int \<times> pyval dict" where
  "stt_health model m =
     (case m of
        None \<Rightarrow> (503, [(''status'', PStr ''loading''), (''model'', PStr model)])
      | Some l \<Rightarrow> (200, [(''status'', PStr ''ok''), (''model'', PStr model), (''device'', PStr (lm_device l)),
                        (''compute_type'', PStr (lm_compute_type l))]))"

section \<open>One-shot transcription\<close>

text \<open>Python's \<open>round\<close>: to the nearest integer, a tie to the even one.\<close>

definition py_round :: "rat \<Rightarrow> int" where
  "py_round x =
     (let f = \<lfloor>x\<rfloor>; d = x - of_int f in
      if d < 1 / 2 then f else if 1 / 2 < d then f + 1 else if even f then f else f + 1)"

record transcript_segment =
  ts_start :: rat
  ts_end :: rat
  ts_text :: string

text \<open>\<open>te_read\<close> is soundfile: the frames, one sample per channel, and the rate; \<open>te_interp xs n\<close> is the linear
  interpolation to \<open>n\<close> samples; \<open>te_whisper\<close> gets samples, language and beam size.\<close>

record transcribe_env =
  te_read :: "bytes \<Rightarrow> (rat list list \<times> int) option"
  te_interp :: "rat list \<Rightarrow> nat \<Rightarrow> rat list"
  te_whisper :: "rat list \<Rightarrow> string option \<Rightarrow> int \<Rightarrow> transcript_segment list \<times> string"

definition mean :: "rat list \<Rightarrow> rat" where
  "mean xs = sum_list xs / of_nat (length xs)"

definition new_length :: "nat \<Rightarrow> int \<Rightarrow> nat" where
  "new_length n sr = nat (py_round (of_nat n * (16000 / of_int sr)))"

definition to_mono16k_f32 :: "transcribe_env \<Rightarrow> rat list list \<Rightarrow> int \<Rightarrow> rat list" where
  "to_mono16k_f32 te frames sr =
     (let audio = map mean frames in
      if sr \<noteq> 16000 then te_interp te audio (new_length (length audio) sr) else audio)"

definition clip_ms :: "rat list \<Rightarrow> int" where
  "clip_ms pcm = py_round (of_nat (length pcm) / 16)"

definition trunc_ms :: "rat \<Rightarrow> int" where
  "trunc_ms s = (if 0 \<le> s * 1000 then \<lfloor>s * 1000\<rfloor> else \<lceil>s * 1000\<rceil>)"

definition segment_json :: "transcript_segment \<Rightarrow> pyval dict" where
  "segment_json s = [(''start_ms'', PInt (trunc_ms (ts_start s))), (''end_ms'', PInt (trunc_ms (ts_end s))),
     (''text'', PStr (ts_text s))]"

definition transcribe_route ::
  "transcribe_env \<Rightarrow> loaded_models option \<Rightarrow> bytes \<Rightarrow> string \<Rightarrow> int \<Rightarrow> (int \<times> string) + pyval dict" where
  "transcribe_route te models raw language beam_size =
     (if models = None then Inl (503, ''model not yet loaded'')
      else if raw = [] then Inl (400, ''empty audio upload'')
      else
        (case te_read te raw of
           None \<Rightarrow> Inl (400, ''unreadable audio'')
         | Some (frames, sr) \<Rightarrow>
             (let pcm = to_mono16k_f32 te frames sr in
              if pcm = [] then Inl (400, ''audio decoded to zero samples'')
              else
                (let lang_arg = (if language = [] \<or> language = ''auto'' then None else Some language);
                     (segments, detected) = te_whisper te pcm lang_arg beam_size
                 in Inr [(''text'', PStr (strip (concat (map ts_text segments)))), (''language'', PStr detected),
                      (''duration_ms'', PInt (clip_ms pcm)),
                      (''segments'', PList (map (PDict \<circ> segment_json) segments))]))))"

lemma py_round_near: "\<bar>of_int (py_round x) - x\<bar> \<le> 1 / 2"
proof -
  have "of_int \<lfloor>x\<rfloor> \<le> x" "x < of_int \<lfloor>x\<rfloor> + 1" using floor_correct [of x] by simp_all
  then show ?thesis
    by (auto simp: py_round_def Let_def abs_le_iff)
qed

lemma py_round_nonneg: "0 \<le> x \<Longrightarrow> 0 \<le> py_round x"
proof -
  assume "0 \<le> x"
  then have "0 \<le> \<lfloor>x\<rfloor>" by simp
  then show ?thesis by (auto simp: py_round_def Let_def)
qed

lemma two_roundings:
  fixes d p x y :: rat
  assumes "\<bar>p - x\<bar> \<le> 1 / 2" "\<bar>d - p / 16\<bar> \<le> 1 / 2" "x / 16 = y"
  shows "\<bar>d - y\<bar> \<le> 17 / 32"
  using assms unfolding abs_le_iff by linarith

lemma duration_of_samples:
  assumes "\<And>xs n. length (te_interp te xs n) = n" "0 < sr"
  shows "\<bar>of_int (clip_ms (to_mono16k_f32 te frames sr)) - 1000 * of_nat (length frames) / of_int sr\<bar> \<le> (17 / 32 :: rat)"
proof (rule two_roundings)
  let ?pcm = "to_mono16k_f32 te frames sr"
  let ?x = "of_nat (length frames) * (16000 / of_int sr) :: rat"
  show "\<bar>of_nat (length ?pcm) - ?x\<bar> \<le> 1 / 2"
  proof (cases "sr = 16000")
    case True
    then show ?thesis by (simp add: to_mono16k_f32_def)
  next
    case False
    have "0 \<le> py_round ?x" using assms(2) by (intro py_round_nonneg) simp
    then have "(of_nat (new_length (length frames) sr) :: rat) = of_int (py_round ?x)"
      by (simp add: new_length_def)
    then show ?thesis using False assms(1) py_round_near [of ?x] by (simp add: to_mono16k_f32_def)
  qed
  show "\<bar>of_int (clip_ms ?pcm) - of_nat (length ?pcm) / 16\<bar> \<le> (1 / 2 :: rat)"
    unfolding clip_ms_def by (rule py_round_near)
  show "?x / 16 = 1000 * of_nat (length frames) / of_int sr" by (simp add: field_simps)
qed

text \<open>
  the duration the one-shot endpoint reports is that of the upload, up to seventeen thirty-seconds of a
  millisecond: of a clip of any number of frames at any rate, after mixing down and resampling, given that
  the interpolation returns as many samples as it is asked for.
\<close>

lemma duration_reported:
  assumes "\<And>xs n. length (te_interp te xs n) = n" "te_read te raw = Some (frames, sr)" "0 < sr"
    and "transcribe_route te (Some m) raw language beam_size = Inr answer"
  shows "\<exists>ms. map_of answer ''duration_ms'' = Some (PInt ms) \<and>
    \<bar>of_int ms - 1000 * of_nat (length frames) / of_int sr\<bar> \<le> (17 / 32 :: rat)"
proof -
  have "map_of answer ''duration_ms'' = Some (PInt (clip_ms (to_mono16k_f32 te frames sr)))"
    using assms(2,4) by (auto simp: transcribe_route_def Let_def split_beta split: if_splits)
  then show ?thesis using duration_of_samples [of te sr frames] assms(1,3) by blast
qed

definition demo_transcribe :: transcribe_env where
  "demo_transcribe = \<lparr>te_read = (\<lambda>raw. Some ([[0, 1], [1, 0]], 8000)), te_interp = (\<lambda>xs n. replicate n 0),
     te_whisper = (\<lambda>pcm lang beam. ([\<lparr>ts_start = 0, ts_end = 1, ts_text = '' hi''\<rparr>], ''en''))\<rparr>"

definition demo_loaded :: loaded_models where
  "demo_loaded = \<lparr>lm_device = ''cpu'', lm_compute_type = ''int8'', lm_model_path = ''large-v3''\<rparr>"

lemma duration_reported_witness:
  "\<exists>answer ms. transcribe_route demo_transcribe (Some demo_loaded) [0] ''en'' 5 = Inr answer \<and>
     map_of answer ''duration_ms'' = Some (PInt ms) \<and> \<bar>of_int ms - 1 / 4\<bar> \<le> (17 / 32 :: rat)"
proof -
  have n: "new_length (Suc (Suc 0)) 8000 = 4" by code_simp
  have "\<exists>answer. transcribe_route demo_transcribe (Some demo_loaded) [0] ''en'' 5 = Inr answer"
    by (simp add: transcribe_route_def demo_transcribe_def to_mono16k_f32_def Let_def n)
  then obtain answer where a: "transcribe_route demo_transcribe (Some demo_loaded) [0] ''en'' 5 = Inr answer" ..
  have "\<exists>ms. map_of answer ''duration_ms'' = Some (PInt ms) \<and>
    \<bar>of_int ms - 1000 * of_nat (length [[0, 1], [1, 0 :: rat]]) / of_int 8000\<bar> \<le> (17 / 32 :: rat)"
    by (rule duration_reported [OF _ _ _ a]) (simp_all add: demo_transcribe_def)
  then show ?thesis using a by simp
qed

section \<open>The embedding server\<close>

text \<open>\<open>model_loader.py\<close>: the device, and the model staged by the installer before the one of the hub.\<close>

definition embed_resolve_device :: "string \<Rightarrow> string option \<Rightarrow> bool \<Rightarrow> string" where
  "embed_resolve_device req cuda_env libcudart =
     (if req \<noteq> ''auto'' then req
      else if strip (opt_str_or cuda_env []) \<noteq> [] \<and> libcudart then ''cuda'' else ''cpu'')"

definition embed_model_path :: "(string \<Rightarrow> bool) \<Rightarrow> pyval dict \<Rightarrow> string" where
  "embed_model_path exists c =
     (let local = model_local_path c in
      if exists (local @ ''/config.json'') then local else attr_str c ''model'')"

record embed_model =
  em_name :: string
  em_path :: string
  em_device :: string
  em_dim :: int

text \<open>\<open>dimension\<close> is what the model says of itself: none at all or zero counts as 1024.\<close>

definition load_embed_model ::
  "string option \<Rightarrow> bool \<Rightarrow> (string \<Rightarrow> bool) \<Rightarrow> (string \<Rightarrow> string \<Rightarrow> int option option) \<Rightarrow> pyval dict \<Rightarrow> embed_model option \<Rightarrow> embed_model option" where
  "load_embed_model cuda_env libcudart exists dimension c cached =
     (case cached of
        Some m \<Rightarrow> Some m
      | None \<Rightarrow>
          (let device = embed_resolve_device (attr_str c ''device'') cuda_env libcudart; path = embed_model_path exists c in
           case dimension path device of
             None \<Rightarrow> None
           | Some d \<Rightarrow> Some \<lparr>em_name = attr_str c ''model'', em_path = path, em_device = device,
               em_dim = (case d of None \<Rightarrow> 1024 | Some n \<Rightarrow> if n = 0 then 1024 else n)\<rparr>))"

lemma devices_agree: "embed_resolve_device req cuda_env libcudart = resolve_device req cuda_env libcudart"
  by (simp add: embed_resolve_device_def resolve_device_def)

text \<open>The server: its model, the encoder (None is an exception), and the limit of the configuration.\<close>

record embed_server =
  es_model :: "embed_model option"
  es_encode :: "string list \<Rightarrow> rat list list option"
  es_max_batch :: int

definition embed_sync :: "embed_server \<Rightarrow> string list \<Rightarrow> rat list list option" where
  "embed_sync es texts = (if es_model es = None then None else es_encode es texts)"

datatype embed_answer = EmbedError int | EmbedOne "rat list" int string | EmbedMany "rat list list" int string

definition embed_one :: "embed_server \<Rightarrow> string \<Rightarrow> embed_answer" where
  "embed_one es msg =
     (if msg = [] \<or> 8000 < length msg then EmbedError 422
      else
        (case (embed_sync es [msg], es_model es) of
           (Some (v # vs), Some m) \<Rightarrow> EmbedOne v (em_dim m) (em_name m)
         | _ \<Rightarrow> EmbedError 500))"

definition embed_batch_route :: "embed_server \<Rightarrow> string list \<Rightarrow> embed_answer" where
  "embed_batch_route es texts =
     (if texts = [] \<or> 64 < length texts then EmbedError 422
      else if es_max_batch es < int (length texts) then EmbedError 400
      else
        (case (embed_sync es texts, es_model es) of
           (Some vs, Some m) \<Rightarrow> EmbedMany vs (em_dim m) (em_name m)
         | _ \<Rightarrow> EmbedError 500))"

definition embed_health :: "embed_server \<Rightarrow> int \<times> pyval dict" where
  "embed_health es =
     (case es_model es of
        None \<Rightarrow> (503, [(''status'', PStr ''loading'')])
      | Some m \<Rightarrow> (200, [(''status'', PStr ''ok''), (''model'', PStr (em_name m)), (''dim'', PInt (em_dim m)),
                        (''device'', PStr (em_device m))]))"

section \<open>The panel's client of it\<close>

text \<open>\<open>EmbedClient\<close>: a connection that fails and a status that is no success are both None; \<open>up\<close> is whether
  the request gets there and its answer back.\<close>

definition client_embed :: "bool \<Rightarrow> embed_server \<Rightarrow> string \<Rightarrow> rat list option" where
  "client_embed up es msg = (if \<not> up then None else case embed_one es msg of EmbedOne v _ _ \<Rightarrow> Some v | _ \<Rightarrow> None)"

definition client_embed_batch :: "(string list \<Rightarrow> bool) \<Rightarrow> embed_server \<Rightarrow> embed_batch" where
  "client_embed_batch up es texts =
     Inr (if \<not> up texts then None else case embed_batch_route es texts of EmbedMany vs _ _ \<Rightarrow> Some vs | _ \<Rightarrow> None)"

section \<open>Documents meet the server\<close>

text \<open>What the encoder documents: one vector for each sentence, in order.\<close>

definition encoder_law :: "(string \<Rightarrow> rat list) \<Rightarrow> embed_server \<Rightarrow> bool" where
  "encoder_law e es \<longleftrightarrow> es_model es \<noteq> None \<and> (\<forall>texts. es_encode es texts = Some (map e texts))"

lemma batch_accepted:
  assumes "encoder_law e es" "b \<noteq> []" "length b \<le> EMBED_BATCH_SIZE"
  shows "client_embed_batch (\<lambda>_. True) es b = Inr (if int (length b) \<le> es_max_batch es then Some (map e b) else None)"
  using assms
  by (auto simp: encoder_law_def client_embed_batch_def embed_batch_route_def embed_sync_def EMBED_BATCH_SIZE_def)

lemma embed_all_accepted:
  assumes "encoder_law e es" "\<forall>b\<in>set bs. b \<noteq> [] \<and> length b \<le> EMBED_BATCH_SIZE \<and> int (length b) \<le> es_max_batch es"
  shows "embed_all (client_embed_batch (\<lambda>_. True) es) bs acc = Inr (acc @ map e (concat bs))"
  using assms(2)
proof (induction bs arbitrary: acc)
  case (Cons b bs)
  then show ?case using batch_accepted [OF assms(1), of b] by simp
qed simp

lemma batches_shorter: "\<forall>b\<in>set (batches xs). length b \<le> length xs"
proof
  fix b assume "b \<in> set (batches xs)"
  then have "length b \<le> sum_list (map length (batches xs))" by (intro member_le_sum_list) simp_all
  then show "length b \<le> length xs" by (simp add: length_concat [symmetric] concat_batches)
qed

lemma batches_first: "xs \<noteq> [] \<Longrightarrow> \<exists>bs. batches xs = take EMBED_BATCH_SIZE xs # bs"
  by (subst batches.simps) simp

lemma embed_document:
  assumes "encoder_law e es" "cs \<noteq> []"
  shows "embed_all (client_embed_batch (\<lambda>_. True) es) (batches cs) [] =
    (if min 32 (int (length cs)) \<le> es_max_batch es then Inr (map e cs) else Inl ''embed-server unreachable or returned error'')"
proof (cases "min 32 (int (length cs)) \<le> es_max_batch es")
  case True
  have "\<forall>b\<in>set (batches cs). b \<noteq> [] \<and> length b \<le> EMBED_BATCH_SIZE \<and> int (length b) \<le> es_max_batch es"
    using batches_sizes [of cs] batches_shorter [of cs] True by (fastforce simp: EMBED_BATCH_SIZE_def)
  from embed_all_accepted [OF assms(1) this, of "[]"] True show ?thesis by (simp add: concat_batches)
next
  case False
  obtain bs where bs: "batches cs = take EMBED_BATCH_SIZE cs # bs" using batches_first [OF assms(2)] by blast
  have "client_embed_batch (\<lambda>_. True) es (take EMBED_BATCH_SIZE cs) = Inr None"
    using batch_accepted [OF assms(1), of "take EMBED_BATCH_SIZE cs"] assms(2) False
    by (simp add: EMBED_BATCH_SIZE_def min_def split: if_splits)
  then show ?thesis using False by (simp add: bs)
qed

definition embedded_rows :: "(string \<Rightarrow> rat list) \<Rightarrow> string \<Rightarrow> string \<Rightarrow> string list \<Rightarrow> kb_chunk list" where
  "embedded_rows e d k cs = map (chunk_row d k) (enumerate 0 (map (\<lambda>c. (c, e c)) cs))"


definition demo_embed :: embed_server where
  "demo_embed = \<lparr>es_model = Some \<lparr>em_name = ''BAAI/bge-m3'', em_path = ''/m'', em_device = ''cpu'', em_dim = 1\<rparr>,
     es_encode = (\<lambda>ts. Some (map (\<lambda>s. [of_nat (length s)]) ts)), es_max_batch = 32\<rparr>"


text \<open>The limit of the server's own default, and of the installer's file, is just the batch of the job.\<close>

lemma shipped_max_batch:
  assumes "ho_file h = Some (shipped_file ip url name)" "px_law (ho_px h)"
  shows "\<exists>c. load_embed_config h = Some c \<and> attr_int c ''max_batch'' = 32"
  by (simp add: load_embed_config_def assms(1) shipped_file_def conf_file_def EmbedConfig_def load_simps attr_int_def dget_def
      px_laws [OF assms(2)])

end
