(* ===== verification/Panel_System.thy ===== *)
theory Panel_System
  imports Panel_Auth Llm_Gateway Model_Servers
begin

text \<open>
  The panel's own pages and processes: \<open>system.py\<close> (health of the three speech services, the safe part of the
  configuration, a backup on demand), the application and its documentation routes (\<open>main.py\<close>), the job process
  (\<open>arq_worker.py\<close>) and the backup job. The three health pages that are probed are those of the servers' own theories.
\<close>

section \<open>Health\<close>

text \<open>\<open>LLMClient.health\<close>, \<open>STTClient.health\<close> and \<open>TTSClient.health\<close>: no answer and any status that is no
  success are both None.\<close>

definition client_health :: "bool \<Rightarrow> int \<times> pyval dict \<Rightarrow> pyval dict option" where
  "client_health up resp = (if up \<and> 200 \<le> fst resp \<and> fst resp < 300 then Some (snd resp) else None)"

record service_health =
  sh_name :: string
  sh_status :: string
  sh_detail :: pyval

definition service_health_of :: "string \<Rightarrow> pyval dict option \<Rightarrow> service_health" where
  "service_health_of nm h =
     \<lparr>sh_name = nm,
      sh_status = (case h of
                     Some d \<Rightarrow> if d \<noteq> [] \<and> map_of d ''status'' = Some (PStr ''ok'') then ''ok'' else ''degraded''
                   | None \<Rightarrow> ''degraded''),
      sh_detail = (case h of
                     Some d \<Rightarrow> (case map_of d ''status'' of None \<Rightarrow> PStr ''unreachable'' | Some v \<Rightarrow> v)
                   | None \<Rightarrow> PStr ''unreachable'')\<rparr>"

definition system_health :: "pyval dict option \<Rightarrow> pyval dict option \<Rightarrow> pyval dict option \<Rightarrow> string \<times> service_health list" where
  "system_health llm stt tts =
     (let services = [service_health_of ''llm'' llm, service_health_of ''stt'' stt, service_health_of ''tts'' tts] in
      (if \<forall>s\<in>set services. sh_status s = ''ok'' then ''ok'' else ''degraded'', services))"

text \<open>The bodies of the three pages: the gateway's, the recognition server's and the synthesis server's, which
  knows of no model.\<close>

definition llm_health :: "string \<Rightarrow> gateway \<Rightarrow> int \<times> pyval dict" where
  "llm_health model g = (fst (gw_health g), [(''status'', PStr (snd (gw_health g))), (''model'', PStr model)])"

definition tts_health :: "pyval dict \<Rightarrow> int \<times> pyval dict" where
  "tts_health c = (200, [(''status'', PStr ''ok''), (''model'', PStr (attr_str c ''backend'')), (''device'', PStr (attr_str c ''device''))])"

definition health_page ::
  "(bool \<times> bool \<times> bool) \<Rightarrow> string \<Rightarrow> gateway \<Rightarrow> string \<Rightarrow> loaded_models option \<Rightarrow> pyval dict \<Rightarrow> string \<times> service_health list" where
  "health_page up llm_model g stt_model m tts_config =
     (case up of (up_llm, up_stt, up_tts) \<Rightarrow>
        system_health (client_health up_llm (llm_health llm_model g)) (client_health up_stt (stt_health stt_model m))
          (client_health up_tts (tts_health tts_config)))"

text \<open>
  the health page of the panel says ok exactly when the three services can be reached, the gateway has
  seen its model ready and its process runs, and the recognition server has its models; a service that is
  still loading is shown as unreachable, no other detail occurs, and of the synthesis server only whether it
  answers is looked at.
\<close>

lemma health_page_spec:
  "(fst (health_page (l, s, t) llm_model g stt_model m c) = ''ok'' \<longleftrightarrow>
      l \<and> gw_loaded g \<and> vllm_is_alive (gw_vllm g) \<and> s \<and> m \<noteq> None \<and> t) \<and>
   map sh_detail (snd (health_page (l, s, t) llm_model g stt_model m c)) =
     map (\<lambda>b. PStr (if b then ''ok'' else ''unreachable''))
       [l \<and> gw_loaded g \<and> vllm_is_alive (gw_vllm g), s \<and> m \<noteq> None, t]"
  by (auto simp: health_page_def system_health_def service_health_of_def client_health_def llm_health_def tts_health_def
      gw_health_def stt_health_def Let_def split: option.splits)

text \<open>With what the gateway does: once it has given up waiting for a model, the page is degraded for ever.\<close>

lemma late_model_degrades:
  "fst (health_page up llm_model (gw_run es (gw_init False p)) stt_model m c) = ''degraded''"
proof -
  obtain l s t where up: "up = (l, s, t)" by (metis prod_cases3)
  have "gw_health (gw_run es (gw_init False p)) = (503, ''loading'')" by (rule late_model_stays_loading)
  then show ?thesis
    by (simp add: up health_page_def system_health_def service_health_of_def client_health_def llm_health_def)
qed

section \<open>Configuration and backup\<close>

text \<open>\<open>get_safe_config\<close>: fields of five sections; None is the exception of \<open>get_config\<close>.\<close>

definition config_section :: "pyval dict \<Rightarrow> string \<Rightarrow> pyval dict" where
  "config_section c k = (case map_of c k of Some (PDict d) \<Rightarrow> d | _ \<Rightarrow> [])"

definition get_safe_config :: "host \<Rightarrow> pyval dict option \<Rightarrow> pyval dict option" where
  "get_safe_config h cache =
     map_option (\<lambda>c. [(''panel_public_url'', dget (config_section c ''panel'') ''public_url''),
          (''sip_listen_port'', dget (config_section c ''sip'') ''listen_port''),
          (''llm_model'', dget (config_section c ''llm'') ''model''),
          (''stt_model'', dget (config_section c ''stt'') ''model''),
          (''tts_backend'', dget (config_section c ''tts'') ''provider'')])
       (fst (get_config h cache))"

definition backup_now :: "unit handler" where
  "backup_now = doing (EnqueueJob ''nightly_backup'' [])"

text \<open>\<open>nightly_backup\<close>: whether the script is there, and the return code of its process.\<close>

definition nightly_backup :: "bool \<Rightarrow> bool \<Rightarrow> int \<Rightarrow> rat \<Rightarrow> pyval dict" where
  "nightly_backup is_file executable returncode duration_sec =
     (if \<not> is_file \<or> \<not> executable
      then [(''ok'', PBool False), (''reason'', PStr ''backup script not installed yet'')]
      else if returncode = 0 then [(''ok'', PBool True), (''duration_sec'', PFloat duration_sec)]
      else [(''ok'', PBool False), (''returncode'', PInt returncode)])"

text \<open>\<open>_cluster_config_for_new_node\<close> (\<open>cluster.py\<close>): what a node that joins is told of the shared services.\<close>

definition pick_keys :: "pyval dict \<Rightarrow> string list \<Rightarrow> pyval" where
  "pick_keys d ks = PDict (map (\<lambda>k. (k, dget d k)) ks)"

definition cluster_config_for_new_node :: "pyval dict \<Rightarrow> pyval dict" where
  "cluster_config_for_new_node c =
     [(''panel_public_url'', dget (config_section c ''panel'') ''public_url''),
      (''database'', pick_keys (config_section c ''database'') [''host'', ''port'', ''name'', ''user'']),
      (''redis'', pick_keys (config_section c ''redis'') [''host'', ''port'', ''db'']),
      (''minio'', pick_keys (config_section c ''minio'')
         [''endpoint'', ''secure'', ''bucket_recordings'', ''bucket_transcripts'', ''bucket_kb'', ''bucket_voices''])]"

section \<open>The job process\<close>

definition job_functions :: "string list" where
  "job_functions = [''voice_clone'', ''kb_ingest_document'', ''nightly_backup'', ''analytics_rollup'', ''campaign_mine_few_shot'']"

definition analytics_rollup :: "pyval dict" where
  "analytics_rollup = [(''ok'', PBool True), (''stub'', PBool True)]"

text \<open>The schedule: what starts at an hour and minute of the day.\<close>

definition cron_jobs :: "nat \<Rightarrow> nat \<Rightarrow> string list" where
  "cron_jobs hour minute =
     (if hour = 3 \<and> minute = 30 then [''nightly_backup''] else []) @
     (if minute = 5 then [''analytics_rollup''] else []) @
     (if minute = 20 then [''campaign_mine_few_shot''] else [])"

text \<open>The shared connection pool; \<open>create n\<close> is the pool that the \<open>n\<close>-th \<open>create_pool\<close> makes.\<close>

record 'p arq_pool =
  aq_pool :: "'p option"
  aq_created :: nat
  aq_closed :: "'p list"

definition init_arq_pool :: "(nat \<Rightarrow> 'p) \<Rightarrow> 'p arq_pool \<Rightarrow> 'p \<times> 'p arq_pool" where
  "init_arq_pool create a =
     (case aq_pool a of
        Some p \<Rightarrow> (p, a)
      | None \<Rightarrow> (create (aq_created a), a\<lparr>aq_pool := Some (create (aq_created a)), aq_created := Suc (aq_created a)\<rparr>))"

definition close_arq_pool :: "'p arq_pool \<Rightarrow> 'p arq_pool" where
  "close_arq_pool a =
     (case aq_pool a of None \<Rightarrow> a | Some p \<Rightarrow> a\<lparr>aq_pool := None, aq_closed := aq_closed a @ [p]\<rparr>)"

definition get_arq :: "(nat \<Rightarrow> 'p) \<Rightarrow> 'p arq_pool \<Rightarrow> 'p \<times> 'p arq_pool" where
  "get_arq create a = (case aq_pool a of Some p \<Rightarrow> (p, a) | None \<Rightarrow> init_arq_pool create a)"

datatype arq_event = InitPool | ClosePool | GetPool

definition arq_step :: "(nat \<Rightarrow> 'p) \<Rightarrow> arq_event \<Rightarrow> 'p arq_pool \<Rightarrow> 'p arq_pool" where
  "arq_step create e a =
     (case e of InitPool \<Rightarrow> snd (init_arq_pool create a) | ClosePool \<Rightarrow> close_arq_pool a | GetPool \<Rightarrow> snd (get_arq create a))"

definition arq_init :: "'p arq_pool" where "arq_init = \<lparr>aq_pool = None, aq_created = 0, aq_closed = []\<rparr>"

text \<open>No connection is lost: every pool that was made is closed, in order, or the one in use.\<close>

lemma arq_pools_accounted:
  "aq_closed (fold (arq_step create) es arq_init) @ (case aq_pool (fold (arq_step create) es arq_init) of None \<Rightarrow> [] | Some p \<Rightarrow> [p]) =
   map create [0..<aq_created (fold (arq_step create) es arq_init)]"
proof (induction es rule: rev_induct)
  case (snoc e es)
  then show ?case
    by (cases e) (simp_all add: arq_step_def init_arq_pool_def close_arq_pool_def get_arq_def split: option.splits)
qed (simp add: arq_init_def)

section \<open>The application\<close>

text \<open>\<open>create_app\<close> runs when the module is imported and needs the configuration; the documentation is for
  administrators, the probe of the web server for anybody.\<close>

definition panel_imports :: "host \<Rightarrow> bool" where
  "panel_imports h \<longleftrightarrow> fst (get_config h None) \<noteq> None"

datatype main_page = OpenapiJson | SwaggerUi | HealthOk

definition main_route :: "'tok auth_env \<Rightarrow> int \<Rightarrow> denylist \<Rightarrow> 'tok creds \<Rightarrow> string \<Rightarrow> main_page handler option" where
  "main_route env now dn creds path =
     (if path = ''/api/openapi.json'' then Some (authorised env now dn creds ROLES_ADMIN (\<lambda>u. ret OpenapiJson))
      else if path = ''/api/docs'' then Some (authorised env now dn creds ROLES_ADMIN (\<lambda>u. ret SwaggerUi))
      else if path = ''/api/healthz'' then Some (ret HealthOk)
      else None)"

lemma docs_for_admins:
  assumes "main_route env now dn creds path = Some h" "h s = (Inr p, s')" "p \<noteq> HealthOk"
  shows "\<exists>u. get_current_user env now dn creds (sn_db s) = Inr u \<and> us_role u = ''admin''"
  using assms
  by (auto simp: main_route_def authorised_def require_role_def ROLES_ADMIN_def ret_def split: if_splits sum.splits)

text \<open>The system routes.\<close>

datatype system_request = GetVersion | GetHealth | GetSafeConfig | BackupNow

datatype system_reply = VersionIs string | HealthIs "string \<times> service_health list" | ConfigIs "pyval dict" | OkReply

definition system_route ::
  "'tok auth_env \<Rightarrow> int \<Rightarrow> denylist \<Rightarrow> 'tok creds \<Rightarrow> string \<Rightarrow> (string \<times> service_health list) \<Rightarrow> host \<Rightarrow> pyval dict option \<Rightarrow>
     system_request \<Rightarrow> system_reply handler" where
  "system_route env now dn creds version health h cache q =
     (case q of
        GetVersion \<Rightarrow> ret (VersionIs version)
      | GetHealth \<Rightarrow> authorised env now dn creds ROLES_ALL (\<lambda>u. ret (HealthIs health))
      | GetSafeConfig \<Rightarrow> authorised env now dn creds ROLES_ALL (\<lambda>u.
          case get_safe_config h cache of None \<Rightarrow> fails_with ''ConfigError'' | Some c \<Rightarrow> ret (ConfigIs c))
      | BackupNow \<Rightarrow> authorised env now dn creds ROLES_ADMIN (\<lambda>u. bnd backup_now (\<lambda>_. ret OkReply)))"

text \<open>Only an administrator starts a backup, and the job it names is one that the job process runs.\<close>

lemma backups_by_admins:
  assumes "EnqueueJob j args \<in> set (effects_of (system_route env now dn creds version health h cache q) db)"
  shows "j \<in> set job_functions \<and> (\<exists>u. get_current_user env now dn creds db = Inr u \<and> us_role u = ''admin'')"
  using assms
  by (auto simp: effects_of_def system_route_def authorised_def require_role_def ROLES_ADMIN_def ROLES_ALL_def ret_def
      fails_with_def backup_now_def doing_def bnd_def job_functions_def fresh_session_def
      split: system_request.splits sum.splits option.splits if_splits)

end
