(* ===== verification/Tts_Codec.thy ===== *)
theory Tts_Codec
  imports Recorder
begin

text \<open>
  \<open>audio_codec.py\<close> of the speech synthesis server: from the floats of a backend to the bytes on the wire,
  and the slices of eighty milliseconds in which \<open>synthesizer.py\<close> sends a sentence. \<open>ratecv\<close> and
  \<open>lin2ulaw\<close> of the standard library are translated from their arithmetic: samples scaled to 32
  bits, linear interpolation between neighbours, the segments of G.711.
\<close>

section \<open>Samples\<close>

definition trunc_rat :: "rat \<Rightarrow> int" where
  "trunc_rat x = (if 0 \<le> x then \<lfloor>x\<rfloor> else \<lceil>x\<rceil>)"

definition clip_unit :: "rat \<Rightarrow> rat" where
  "clip_unit x = max (- 1) (min 1 x)"

definition to_s16 :: "rat \<Rightarrow> int" where
  "to_s16 x = trunc_rat (clip_unit x * 32767)"

definition f32_to_s16 :: "rat list \<Rightarrow> bytes" where
  "f32_to_s16 arr = concat (map (\<lambda>x. pack16 (to_s16 x)) arr)"

text \<open>The samples in a buffer; a length that is no multiple of the width is an error.\<close>

fun samples_of :: "bytes \<Rightarrow> int list" where
  "samples_of (lo # hi # bs) = s16 lo hi # samples_of bs"
| "samples_of _ = []"

section \<open>\<open>ratecv\<close>\<close>

text \<open>One channel, no state, rates divided by their greatest common divisor. The outer loop reads a
  sample while \<open>d\<close> is negative; the inner one writes while it is not.\<close>

definition interpolate :: "int \<Rightarrow> int \<Rightarrow> int \<Rightarrow> int \<Rightarrow> int" where
  "interpolate outr d prev cur =
     trunc_rat ((of_int prev * of_int d + of_int cur * of_int (outr - d)) / of_int outr) div 65536"

function rate_write :: "int \<Rightarrow> int \<Rightarrow> int \<Rightarrow> int \<Rightarrow> int \<Rightarrow> int list \<times> int" where
  "rate_write inr outr prev cur d =
     (if 0 \<le> d \<and> 0 < inr
      then (let (ys, d') = rate_write inr outr prev cur (d - inr) in (interpolate outr d prev cur # ys, d'))
      else ([], d))"
  by pat_completeness auto
termination by (relation "measure (\<lambda>(inr, outr, prev, cur, d). nat (d + 1))") auto

declare rate_write.simps [simp del]

fun rate_read :: "int \<Rightarrow> int \<Rightarrow> int \<Rightarrow> int \<Rightarrow> int list \<Rightarrow> int list" where
  "rate_read inr outr d cur [] = []"
| "rate_read inr outr d cur (s # ss) =
     (if d + outr < 0 then rate_read inr outr (d + outr) (s * 65536) ss
      else (let (ys, d') = rate_write inr outr cur (s * 65536) (d + outr)
            in ys @ rate_read inr outr d' (s * 65536) ss))"

definition ratecv :: "int \<Rightarrow> int \<Rightarrow> int list \<Rightarrow> int list" where
  "ratecv inrate outrate ss =
     (let g = gcd inrate outrate; inr = inrate div g; outr = outrate div g in rate_read inr outr (- outr) 0 ss)"

definition resample_s16 :: "bytes \<Rightarrow> int \<Rightarrow> int \<Rightarrow> bytes" where
  "resample_s16 pcm src dst = (if src = dst then pcm else concat (map pack16 (ratecv src dst (samples_of pcm))))"

unbundle bit_operations_syntax

section \<open>\<open>lin2ulaw\<close>\<close>

definition SEG_UEND :: "int list" where
  "SEG_UEND = [0x3F, 0x7F, 0xFF, 0x1FF, 0x3FF, 0x7FF, 0xFFF, 0x1FFF]"

fun seg_search :: "int \<Rightarrow> int list \<Rightarrow> nat" where
  "seg_search v [] = 0"
| "seg_search v (e # es) = (if v \<le> e then 0 else Suc (seg_search v es))"

definition ulaw :: "int \<Rightarrow> byte" where
  "ulaw s =
     (let v = s div 4; mask = (if v < 0 then 0x7F else 0xFF); m = min \<bar>v\<bar> 8159 + 33; seg = seg_search m SEG_UEND in
      (if 8 \<le> seg then word_of_int 0x7F else word_of_int (int seg * 16 + (m div 2 ^ (seg + 1)) mod 16)) XOR mask)"

definition s16_to_ulaw :: "bytes \<Rightarrow> bytes" where
  "s16_to_ulaw pcm = map ulaw (samples_of pcm)"

section \<open>\<open>encode\<close>\<close>

definition VALID_FORMATS :: "string list" where
  "VALID_FORMATS = [''ulaw_8000'', ''pcm_s16le_8000'', ''pcm_s16le_24000'']"

definition encode_audio :: "rat list \<Rightarrow> int \<Rightarrow> string \<Rightarrow> string + bytes" where
  "encode_audio pcm_f32 src_rate fmt =
     (if fmt \<notin> set VALID_FORMATS then Inl (''unsupported output_format: '' @ fmt)
      else
        (let s = f32_to_s16 pcm_f32 in
         if fmt = ''pcm_s16le_24000'' then Inr (resample_s16 s src_rate 24000)
         else if fmt = ''pcm_s16le_8000'' then Inr (resample_s16 s src_rate 8000)
         else Inr (s16_to_ulaw (resample_s16 s src_rate 8000))))"

definition media_type_for :: "string \<Rightarrow> string" where
  "media_type_for fmt = (if fmt = ''ulaw_8000'' then ''audio/basic'' else ''audio/L16'')"

section \<open>Slices\<close>

definition EMIT_MS :: int where "EMIT_MS = 80"

definition slice_samples :: "int \<Rightarrow> nat" where
  "slice_samples sample_rate = nat (max 1 (sample_rate * EMIT_MS div 1000))"

function slices :: "nat \<Rightarrow> 'a list \<Rightarrow> 'a list list" where
  "slices n xs = (if xs = [] \<or> n = 0 then [] else take n xs # slices n (drop n xs))"
  by pat_completeness auto
termination by (relation "measure (\<lambda>(n, xs). length xs)") auto

declare slices.simps [simp del]

section \<open>Sixteen bits\<close>

lemma trunc_rat_of_int [simp]: "trunc_rat (of_int x) = x"
  by (simp add: trunc_rat_def)

lemma clip_unit_bounds: "- 1 \<le> clip_unit x" "clip_unit x \<le> 1"
  by (simp_all add: clip_unit_def)

lemma trunc_rat_bounds:
  assumes "of_int a \<le> x" "x \<le> of_int b"
  shows "a \<le> trunc_rat x" "trunc_rat x \<le> b"
proof -
  have "a \<le> \<lfloor>x\<rfloor>" "\<lceil>x\<rceil> \<le> b" "\<lfloor>x\<rfloor> \<le> \<lceil>x\<rceil>"
    using assms by (simp_all add: le_floor_iff ceiling_le_iff floor_le_ceiling)
  then show "a \<le> trunc_rat x" "trunc_rat x \<le> b"
    by (metis order_trans trunc_rat_def)+
qed

lemma to_s16_bounds: "- 32767 \<le> to_s16 x" "to_s16 x \<le> 32767"
proof -
  have "of_int (- 32767) \<le> clip_unit x * 32767" "clip_unit x * 32767 \<le> of_int 32767"
    using clip_unit_bounds [of x] by simp_all
  then show "- 32767 \<le> to_s16 x" "to_s16 x \<le> 32767"
    unfolding to_s16_def by (rule trunc_rat_bounds)+
qed

lemma s16_pack16:
  assumes "- 32768 \<le> v" "v < 32768"
  shows "s16 (of_int v) (of_int (v div 256)) = v"
proof -
  have "uint (of_int v :: byte) = v mod 256" "uint (of_int (v div 256) :: byte) = v div 256 mod 256"
    by (simp_all add: uint_word_of_int)
  moreover have "v mod 256 + 256 * (v div 256 mod 256) = v mod 65536"
    using zmod_zmult2_eq [of 256 v 256] by simp
  moreover have "v mod 65536 = (if 0 \<le> v then v else v + 65536)"
    using assms mod_pos_pos_trivial [of v 65536] mod_pos_pos_trivial [of "v + 65536" 65536] by simp
  ultimately show ?thesis
    using assms unfolding s16_def by (simp add: Let_def)
qed

lemma samples_of_pack16 [simp]:
  "- 32768 \<le> v \<Longrightarrow> v < 32768 \<Longrightarrow> samples_of (pack16 v @ bs) = v # samples_of bs"
  by (simp add: pack16_def s16_pack16)

lemma samples_of_packed:
  "\<forall>v\<in>set vs. - 32768 \<le> v \<and> v < 32768 \<Longrightarrow> samples_of (concat (map pack16 vs)) = vs"
  by (induction vs) simp_all

lemma samples_of_f32: "samples_of (f32_to_s16 arr) = map to_s16 arr"
proof -
  have "- 32768 \<le> to_s16 x \<and> to_s16 x < 32768" for x
    using to_s16_bounds [of x] by linarith
  then show ?thesis
    using samples_of_packed [of "map to_s16 arr"] by (simp add: f32_to_s16_def comp_def)
qed

section \<open>Every third sample\<close>

fun thin :: "'a list \<Rightarrow> 'a list" where
  "thin [] = []"
| "thin (x # xs) = x # thin (drop 2 xs)"

lemma thin_append: "3 dvd length xs \<Longrightarrow> thin (xs @ ys) = thin xs @ thin ys"
proof (induction xs rule: thin.induct)
  case (2 x xs)
  then have "2 \<le> length xs" "3 dvd length (drop 2 xs)"
    by (auto simp: dvd_def) presburger+
  with 2(1) show ?case by simp
qed simp

lemma interpolate_exact: "interpolate 1 0 p (s * 65536) = s"
proof -
  have "trunc_rat ((of_int p * of_int 0 + of_int (s * 65536) * of_int (1 - 0)) / of_int 1) = s * 65536"
    using trunc_rat_of_int [of "s * 65536"] by simp
  then show ?thesis by (simp add: interpolate_def)
qed

lemma rate_write_third: "rate_write 3 1 p (s * 65536) 0 = ([s], - 3)"
proof -
  have "rate_write 3 1 p (s * 65536) (- 3) = ([], - 3)"
    by (subst rate_write.simps) simp
  then show ?thesis
    by (subst rate_write.simps) (simp add: interpolate_exact)
qed

lemma rate_read_third: "rate_read 3 1 (- 1) p ss = thin ss"
proof (induction ss arbitrary: p rule: thin.induct)
  case (2 s ss)
  have "rate_read 3 1 (- 3) q ss = rate_read 3 1 (- 1) (last (q # map (\<lambda>x. x * 65536) (take 2 ss))) (drop 2 ss)" for q
    by (cases ss rule: thin.cases; cases "tl ss") (auto)
  then show ?case
    by (simp add: rate_write_third 2)
qed simp

lemma ratecv_third: "ratecv 24000 8000 ss = thin ss"
  by (simp add: ratecv_def rate_read_third)

section \<open>Slices and the whole\<close>

lemma slices_hom:
  assumes hom: "\<And>xs ys. length xs = n \<Longrightarrow> f (xs @ ys) = f xs @ f ys" and nil: "f [] = []" and pos: "0 < n"
  shows "concat (map f (slices n xs)) = f xs"
  using pos hom
proof (induction n xs rule: slices.induct)
  case (1 n xs)
  show ?case
  proof (cases "xs = []")
    case True
    then show ?thesis by (subst slices.simps) (simp add: nil)
  next
    case False
    have "f xs = f (take n xs) @ f (drop n xs)"
    proof (cases "n \<le> length xs")
      case True
      then show ?thesis using 1(3) [of "take n xs" "drop n xs"] by simp
    qed (simp add: nil)
    moreover have "concat (map f (slices n (drop n xs))) = f (drop n xs)"
      using 1 False by simp
    ultimately show ?thesis
      using False 1(2) by (subst slices.simps) simp
  qed
qed

text \<open>The wire form of a format the service knows.\<close>

definition wire :: "rat list \<Rightarrow> string \<Rightarrow> bytes" where
  "wire xs fmt =
     (let s = map to_s16 xs in
      if fmt = ''pcm_s16le_24000'' then concat (map pack16 s)
      else if fmt = ''pcm_s16le_8000'' then concat (map pack16 (thin s)) else map ulaw (thin s))"

lemma thin_bounds: "set (thin xs) \<subseteq> set xs"
proof (induction xs rule: thin.induct)
  case (2 x xs)
  then show ?case using set_drop_subset [of 2 xs] by auto
qed simp

lemma encode_audio_24000:
  "encode_audio xs 24000 fmt =
     (if fmt \<in> set VALID_FORMATS then Inr (wire xs fmt) else Inl (''unsupported output_format: '' @ fmt))"
proof -
  let ?s = "map to_s16 xs"
  have "\<forall>v\<in>set ?s. - 32768 \<le> v \<and> v < 32768"
    by (auto intro: order_trans [OF _ to_s16_bounds(1)] le_less_trans [OF to_s16_bounds(2)])
  then have packed: "samples_of (concat (map pack16 (thin ?s))) = thin ?s"
    using thin_bounds [of ?s] by (intro samples_of_packed) blast
  have f32: "f32_to_s16 xs = concat (map pack16 ?s)"
    by (simp add: f32_to_s16_def comp_def)
  have r8: "resample_s16 (f32_to_s16 xs) 24000 8000 = concat (map pack16 (thin ?s))"
    by (simp add: resample_s16_def ratecv_third samples_of_f32)
  show ?thesis
    unfolding encode_audio_def wire_def Let_def r8
    by (simp add: s16_to_ulaw_def packed VALID_FORMATS_def resample_s16_def f32)
qed

lemma wire_append: "3 dvd length xs \<Longrightarrow> wire (xs @ ys) fmt = wire xs fmt @ wire ys fmt"
  by (simp add: wire_def Let_def thin_append)

lemma wire_nil: "wire [] fmt = []"
  by (simp add: wire_def)

lemma slice_samples_24000: "slice_samples 24000 = 1920"
  by (simp add: slice_samples_def EMIT_MS_def)

text \<open>
  the slices of eighty milliseconds in which a sentence is sent, each resampled and encoded for itself,
  are together byte for byte the encoding of the whole sentence, in every format the service accepts.
\<close>

lemma slices_equal_whole:
  assumes "fmt \<in> set VALID_FORMATS"
  shows "\<exists>bss. map (\<lambda>sub. encode_audio sub 24000 fmt) (slices (slice_samples 24000) pcm) = map Inr bss \<and>
           encode_audio pcm 24000 fmt = Inr (concat bss)"
proof (intro exI conjI)
  let ?bss = "map (\<lambda>sub. wire sub fmt) (slices (slice_samples 24000) pcm)"
  show "map (\<lambda>sub. encode_audio sub 24000 fmt) (slices (slice_samples 24000) pcm) = map Inr ?bss"
    using assms by (simp add: encode_audio_24000)
  have "concat ?bss = wire pcm fmt"
    unfolding slice_samples_24000 by (rule slices_hom) (simp_all add: wire_append wire_nil)
  then show "encode_audio pcm 24000 fmt = Inr (concat ?bss)"
    using assms by (simp add: encode_audio_24000)
qed

lemma slices_equal_whole_witness:
  "''ulaw_8000'' \<in> set VALID_FORMATS \<and>
   (\<exists>bss. map (\<lambda>sub. encode_audio sub 24000 ''ulaw_8000'') (slices (slice_samples 24000) (replicate 5000 (1 / 2))) = map Inr bss \<and>
      encode_audio (replicate 5000 (1 / 2)) 24000 ''ulaw_8000'' = Inr (concat bss))"
proof -
  have "''ulaw_8000'' \<in> set VALID_FORMATS" by (simp add: VALID_FORMATS_def)
  from this slices_equal_whole [OF this] show ?thesis by blast
qed

text \<open>A rate whose slices are no multiple of three samples would not have it: two slices of one sample.\<close>

lemma slices_needed_the_rate: "concat (map (\<lambda>sub. wire sub ''pcm_s16le_8000'') [[1], [1]]) \<noteq> wire [1, 1] ''pcm_s16le_8000''"
  by (simp add: wire_def pack16_def)

end
