(* ===== verification/Tts_Server.thy ===== *)
theory Tts_Server
  imports Panel_Content Tts_Codec Worker_Audio Service_Config
begin

text \<open>
  The speech synthesis server (\<open>tts-server/\<close>): its back ends (\<open>backends/\<close>), the registry of cloned voices
  (\<open>voice_store.py\<close>, \<open>cloner.py\<close>), the request that streams audio (\<open>synthesizer.py\<close>) with what the thread
  produces. The synthesis models and \<open>numpy\<close>'s interpolation are arguments.
\<close>

section \<open>Sentences\<close>

text \<open>\<open>_SENT_RE\<close>: at least one character, then as few as possible up to a mark with white space or the end
  after it, to newlines, or to the end. \<open>boundary\<close> is what is left after such an end here.\<close>

definition sent_mark :: "char \<Rightarrow> bool" where
  "sent_mark c \<longleftrightarrow> c \<in> {CHR ''.'', CHR ''!'', CHR ''?''}"

fun boundary :: "string \<Rightarrow> string option" where
  "boundary [] = Some []"
| "boundary (c # cs) =
     (if sent_mark c \<and> (cs = [] \<or> is_space (hd cs)) then Some (dropWhile is_space cs)
      else if c = CHR 0x0A then Some (dropWhile (\<lambda>x. x = CHR 0x0A) cs)
      else None)"

fun sent_rest :: "string \<Rightarrow> string" where
  "sent_rest [] = []"
| "sent_rest (c # cs) = (case boundary (c # cs) of Some r \<Rightarrow> r | None \<Rightarrow> sent_rest cs)"

definition sent_match :: "string \<Rightarrow> string" where
  "sent_match cs = take (length cs - length (sent_rest (tl cs))) cs"

lemma dropWhile_suffix: "\<exists>p. c # cs = p @ dropWhile P cs"
  by (metis append_Cons takeWhile_dropWhile_id)

lemma boundary_shorter: "boundary cs = Some r \<Longrightarrow> \<exists>p. cs = p @ r"
  by (cases cs) (use dropWhile_suffix in \<open>auto split: if_splits\<close>)

lemma sent_rest_suffix: "\<exists>p. cs = p @ sent_rest cs"
proof (induction cs)
  case (Cons c cs)
  show ?case
  proof (cases "boundary (c # cs)")
    case None
    then show ?thesis using Cons by (metis append_Cons option.simps(4) sent_rest.simps(2))
  next
    case (Some r)
    then show ?thesis using boundary_shorter [OF Some] by simp
  qed
qed simp

lemma sent_rest_shorter: "length (sent_rest cs) \<le> length cs"
  using sent_rest_suffix [of cs] by (metis length_append le_add2)

function sent_matches :: "string \<Rightarrow> string list" where
  "sent_matches cs = (if cs = [] then [] else sent_match cs # sent_matches (sent_rest (tl cs)))"
  by pat_completeness auto
termination
  by (relation "measure length") (auto simp: less_le_trans le_less_trans [OF sent_rest_shorter])

declare sent_matches.simps [simp del]

definition split_sentences :: "string \<Rightarrow> string list" where
  "split_sentences s = filter (\<lambda>p. p \<noteq> []) (map strip (sent_matches s))"

definition sentences_of :: "string \<Rightarrow> string list" where
  "sentences_of s = (let ss = split_sentences s in if ss = [] then [s] else ss)"

section \<open>Back ends\<close>

text \<open>What a generator yields until it ends or raises.\<close>

record generated =
  ge_chunks :: "rat list list"
  ge_error :: "string option"

text \<open>The directory of the voices: the reference clip and its transcript, by voice.\<close>

record voice_files =
  vf_wav :: "string \<Rightarrow> bytes option"
  vf_text :: "string \<Rightarrow> string option"

definition no_files :: voice_files where
  "no_files = \<lparr>vf_wav = (\<lambda>_. None), vf_text = (\<lambda>_. None)\<rparr>"

text \<open>\<open>clone\<close>, the same in all three back ends: both files are written, the path of the clip is returned.\<close>

definition backend_clone ::
  "string \<Rightarrow> string \<Rightarrow> bytes \<Rightarrow> string \<Rightarrow> voice_files \<Rightarrow> string \<times> voice_files" where
  "backend_clone voices_dir voice_id audio_bytes ref_text fs =
     (voices_dir @ ''/'' @ voice_id @ ''/ref.wav'',
      \<lparr>vf_wav = (vf_wav fs)(voice_id := Some audio_bytes), vf_text = (vf_text fs)(voice_id := Some ref_text)\<rparr>)"

text \<open>The models: of F5 the audio and its rate for a sentence, of Kokoro one call or a stream of pieces;
  None is an exception. \<open>sy_resample\<close> is the interpolation from a rate to the back end's own.\<close>

datatype kokoro_answer = KCreated "rat list" int | KPieces "rat list list" | KRaises

record synth_env =
  sy_f5_loads :: bool
  sy_f5 :: "bytes \<Rightarrow> string \<Rightarrow> string \<Rightarrow> rat \<Rightarrow> (rat list \<times> int) option"
  sy_kokoro_loads :: bool
  sy_kokoro :: "string \<Rightarrow> string \<Rightarrow> rat \<Rightarrow> kokoro_answer"
  sy_resample :: "rat list \<Rightarrow> int \<Rightarrow> rat list"
  sy_sine :: "nat \<Rightarrow> rat"

definition BACKEND_RATE :: int where "BACKEND_RATE = 24000"

definition silence :: "rat list" where
  "silence = replicate 4800 0"

definition at_rate :: "synth_env \<Rightarrow> rat list \<Rightarrow> int \<Rightarrow> rat list" where
  "at_rate sy audio sr = (if sr \<noteq> BACKEND_RATE then sy_resample sy audio sr else audio)"

definition resolve_voice :: "voice_files \<Rightarrow> string option \<Rightarrow> string + bytes \<times> string" where
  "resolve_voice fs voice_id =
     (case str_or_none voice_id of
        None \<Rightarrow> Inl ''ValueError''
      | Some v \<Rightarrow>
          (case (vf_wav fs v, vf_text fs v) of
             (Some wav, Some t) \<Rightarrow> Inr (wav, strip t)
           | _ \<Rightarrow> Inl ''FileNotFoundError''))"

definition f5_synthesize :: "synth_env \<Rightarrow> voice_files \<Rightarrow> string \<Rightarrow> string option \<Rightarrow> rat \<Rightarrow> generated" where
  "f5_synthesize sy fs msg voice_id speed =
     (case resolve_voice fs voice_id of
        Inl e \<Rightarrow> \<lparr>ge_chunks = [], ge_error = Some e\<rparr>
      | Inr (wav, ref_text) \<Rightarrow>
          if \<not> sy_f5_loads sy then \<lparr>ge_chunks = [], ge_error = Some ''ImportError''\<rparr>
          else \<lparr>ge_chunks = map (\<lambda>s. case sy_f5 sy wav ref_text s speed of
                                    Some (audio, sr) \<Rightarrow> at_rate sy audio sr | None \<Rightarrow> silence) (sentences_of msg),
                ge_error = None\<rparr>)"

definition DEFAULT_KOKORO_VOICE :: string where "DEFAULT_KOKORO_VOICE = ''af_bella''"

definition kokoro_piece :: "synth_env \<Rightarrow> kokoro_answer \<Rightarrow> rat list list" where
  "kokoro_piece sy a =
     (case a of
        KCreated samples sr \<Rightarrow> [at_rate sy samples sr]
      | KPieces ps \<Rightarrow> if ps = [] then [] else [concat ps]
      | KRaises \<Rightarrow> [silence])"

definition kokoro_synthesize :: "synth_env \<Rightarrow> string \<Rightarrow> string option \<Rightarrow> rat \<Rightarrow> generated" where
  "kokoro_synthesize sy msg voice_id speed =
     (if \<not> sy_kokoro_loads sy then \<lparr>ge_chunks = [], ge_error = Some ''RuntimeError''\<rparr>
      else \<lparr>ge_chunks = concat (map (\<lambda>s. kokoro_piece sy (sy_kokoro sy (opt_str_or voice_id DEFAULT_KOKORO_VOICE) s speed))
                                 (sentences_of msg)),
            ge_error = None\<rparr>)"

text \<open>The sine wave of the test back end, in blocks of a fifth of a second.\<close>

definition noop_samples :: "string \<Rightarrow> rat \<Rightarrow> nat" where
  "noop_samples msg speed =
     nat \<lfloor>max (1 / 2) (min 4 (of_nat (length msg) * (8 / 100) / max speed (1 / 10))) * of_int BACKEND_RATE\<rfloor>"

function noop_blocks :: "(nat \<Rightarrow> rat) \<Rightarrow> nat \<Rightarrow> nat \<Rightarrow> rat list list" where
  "noop_blocks sine t0 n =
     (if t0 < n then map sine [t0..<min (t0 + 4800) n] # noop_blocks sine (min (t0 + 4800) n) n else [])"
  by pat_completeness auto
termination by (relation "measure (\<lambda>(sine, t0, n). n - t0)") auto

declare noop_blocks.simps [simp del]

definition noop_synthesize :: "synth_env \<Rightarrow> string \<Rightarrow> rat \<Rightarrow> generated" where
  "noop_synthesize sy msg speed =
     \<lparr>ge_chunks = noop_blocks (sy_sine sy) 0 (noop_samples msg speed), ge_error = None\<rparr>"

datatype backend = F5 | Kokoro | Noop

definition make_backend :: "string \<Rightarrow> backend option" where
  "make_backend name =
     (if name = ''f5'' then Some F5 else if name = ''kokoro'' then Some Kokoro
      else if name = ''noop'' then Some Noop else None)"

definition backend_synthesize ::
  "synth_env \<Rightarrow> backend \<Rightarrow> voice_files \<Rightarrow> string \<Rightarrow> string option \<Rightarrow> rat \<Rightarrow> generated" where
  "backend_synthesize sy b fs msg voice_id speed =
     (case b of
        F5 \<Rightarrow> f5_synthesize sy fs msg voice_id speed
      | Kokoro \<Rightarrow> kokoro_synthesize sy msg voice_id speed
      | Noop \<Rightarrow> noop_synthesize sy msg speed)"

section \<open>Voices\<close>

text \<open>The server writes into the panel's table of voices, and into its directory.\<close>

record tts_state =
  tt_db :: panel_db
  tt_files :: voice_files

text \<open>\<open>VoiceStore.create\<close>: without a database the identifier is all there is.\<close>

definition store_create ::
  "bool \<Rightarrow> uuid \<Rightarrow> instant \<Rightarrow> uuid \<Rightarrow> string \<Rightarrow> string \<Rightarrow> string \<Rightarrow> panel_db \<Rightarrow> panel_db option" where
  "store_create has_db voice_id now_t tenant_id name sample_path embedding_path db =
     (if \<not> has_db then Some db
      else if tenant_id \<notin> tn_id ` set (tenants db) \<or> voice_id \<in> vo_id ` set (voices db) then None
      else Some (db\<lparr>voices := voices db @
             [\<lparr>vo_id = voice_id, vo_tenant_id = tenant_id, vo_name = name, vo_sample_path = Some sample_path,
               vo_embedding_path = Some embedding_path, vo_status = ''ready'', vo_created_at = now_t\<rparr>]\<rparr>))"

definition store_list :: "bool \<Rightarrow> uuid option \<Rightarrow> panel_db \<Rightarrow> voice_row list" where
  "store_list has_db tenant_id db =
     (if \<not> has_db then []
      else order_desc vo_created_at
             (filter (\<lambda>v. case tenant_id of None \<Rightarrow> True | Some t \<Rightarrow> vo_tenant_id v = t) (voices db)))"

record clone_form =
  cf_voice_name :: string
  cf_tenant_id :: string
  cf_ref_text :: string
  cf_audio :: bytes

record clone_env =
  cl_has_db :: bool
  cl_voices_dir :: string
  cl_new_id :: uuid
  cl_now :: instant
  cl_parse_uuid :: "string \<Rightarrow> uuid option"

definition detail :: "string \<Rightarrow> pyval dict" where
  "detail msg = [(''detail'', PStr msg)]"

text \<open>A form field that is empty counts as missing.\<close>

definition clone_route :: "clone_env \<Rightarrow> clone_form \<Rightarrow> tts_state \<Rightarrow> (int \<times> pyval dict) \<times> tts_state" where
  "clone_route cl f st =
     (if \<not> (1 \<le> length (cf_voice_name f) \<and> length (cf_voice_name f) \<le> 200) \<or> cf_tenant_id f = [] \<or> cf_ref_text f = [] then ((422, detail ''validation error''), st)
      else
        (case cl_parse_uuid cl (cf_tenant_id f) of
           None \<Rightarrow> ((400, detail ''tenant_id must be a UUID''), st)
         | Some tenant_uuid \<Rightarrow>
             if cf_audio f = [] then ((400, detail ''empty audio upload''), st)
             else
               (case store_create (cl_has_db cl) (cl_new_id cl) (cl_now cl) tenant_uuid (cf_voice_name f)
                       (cl_voices_dir cl) (cl_voices_dir cl) (tt_db st) of
                  None \<Rightarrow> ((500, detail ''Internal Server Error''), st)
                | Some db \<Rightarrow>
                    (let (path, fs) = backend_clone (cl_voices_dir cl) (cl_new_id cl) (cf_audio f) (cf_ref_text f) (tt_files st) in
                     ((200, [(''voice_id'', PStr (cl_new_id cl)), (''voice_name'', PStr (cf_voice_name f)),
                             (''embedding_path'', PStr path), (''status'', PStr ''ready'')]),
                      \<lparr>tt_db = db, tt_files = fs\<rparr>)))))"

definition voice_json :: "voice_row \<Rightarrow> pyval dict" where
  "voice_json v = [(''voice_id'', PStr (vo_id v)), (''tenant_id'', PStr (vo_tenant_id v)), (''name'', PStr (vo_name v)),
     (''sample_path'', PStr (opt_str_or (vo_sample_path v) [])), (''embedding_path'', PStr (opt_str_or (vo_embedding_path v) [])),
     (''status'', PStr (vo_status v))]"

definition list_voices_route :: "clone_env \<Rightarrow> string option \<Rightarrow> tts_state \<Rightarrow> int \<times> pyval dict" where
  "list_voices_route cl tenant_id st =
     (case str_or_none tenant_id of
        None \<Rightarrow> (200, [(''voices'', PList (map (PDict \<circ> voice_json) (store_list (cl_has_db cl) None (tt_db st))))])
      | Some t \<Rightarrow>
          (case cl_parse_uuid cl t of
             None \<Rightarrow> (400, detail ''tenant_id must be a UUID'')
           | Some u \<Rightarrow> (200, [(''voices'', PList (map (PDict \<circ> voice_json) (store_list (cl_has_db cl) (Some u) (tt_db st))))])))"

text \<open>\<open>TTSClient.clone\<close>: any error of the transport, and any status that is not a success, is None.\<close>

definition client_clone :: "bool \<Rightarrow> int \<times> pyval dict \<Rightarrow> pyval dict option" where
  "client_clone transport_fails resp =
     (if transport_fails then None else if 200 \<le> fst resp \<and> fst resp < 300 then Some (snd resp) else None)"

text \<open>The panel's clone job against the server: the arguments are those of the queued job, the audio
  decoded. The request may be lost on the way there or on the way back.\<close>

datatype clone_transport = Delivered | NeverSent | AnswerLost

record clone_job =
  cj_voice_id :: uuid
  cj_tenant_id :: uuid
  cj_name :: string
  cj_ref_text :: string
  cj_audio :: bytes

definition clone_form_of :: "clone_job \<Rightarrow> clone_form" where
  "clone_form_of j = \<lparr>cf_voice_name = cj_name j, cf_tenant_id = cj_tenant_id j, cf_ref_text = cj_ref_text j,
     cf_audio = cj_audio j\<rparr>"

definition run_clone_job :: "clone_env \<Rightarrow> clone_transport \<Rightarrow> clone_job \<Rightarrow> tts_state \<Rightarrow> tts_state" where
  "run_clone_job cl tr j st =
     (let (resp, st1) = (if tr = NeverSent then ((0, []), st)
                         else clone_route cl (clone_form_of j) st);
          result = client_clone (tr \<noteq> Delivered) resp
      in st1\<lparr>tt_db := snd (voice_clone result (cj_voice_id j) (tt_db st1))\<rparr>)"

fun run_clone_jobs :: "(clone_env \<times> clone_transport \<times> clone_job) list \<Rightarrow> tts_state \<Rightarrow> tts_state" where
  "run_clone_jobs [] st = st"
| "run_clone_jobs ((cl, tr, j) # rest) st = run_clone_jobs rest (run_clone_job cl tr j st)"

section \<open>The request\<close>

record synth_request =
  sq_text :: string
  sq_voice_id :: "string option"
  sq_speed :: rat
  sq_format :: "string option"

definition synth_route :: "string \<Rightarrow> string \<Rightarrow> synth_request \<Rightarrow> (int \<times> string) + string option \<times> string" where
  "synth_route default_voice_id output_format_default q =
     (if \<not> (1 \<le> length (sq_text q) \<and> length (sq_text q) \<le> 10000 \<and> 1 / 4 \<le> sq_speed q \<and> sq_speed q \<le> 2)
      then Inl (422, ''validation error'')
      else
        (let voice_id = str_or_none (Some (opt_str_or (sq_voice_id q) default_voice_id));
             fmt = opt_str_or (sq_format q) output_format_default in
         if fmt \<notin> set VALID_FORMATS then Inl (400, ''output_format must be one of'') else Inr (voice_id, fmt)))"

text \<open>What the producer puts into the queue: the slices of every chunk, encoded; an exception of the
  generator or of the encoder only ends it.\<close>

definition produced :: "string \<Rightarrow> generated \<Rightarrow> bytes list" where
  "produced fmt ge =
     map projr (takeWhile (\<lambda>r. \<not> isl r)
       (concat (map (\<lambda>pcm. map (\<lambda>sub. encode_audio sub BACKEND_RATE fmt) (slices (slice_samples BACKEND_RATE) pcm))
                  (ge_chunks ge))))"

definition synthesize :: "synth_env \<Rightarrow> pyval dict \<Rightarrow> voice_files \<Rightarrow> synth_request \<Rightarrow> (int \<times> string) + bytes list" where
  "synthesize sy cfg fs q =
     (case make_backend (attr_str cfg ''backend'') of
        None \<Rightarrow> Inl (0, ''the service did not start'')
      | Some b \<Rightarrow>
          (case synth_route (attr_str cfg ''default_voice_id'') (attr_str cfg ''output_format_default'') q of
             Inl e \<Rightarrow> Inl e
           | Inr (voice_id, fmt) \<Rightarrow> Inr (produced fmt (backend_synthesize sy b fs (sq_text q) voice_id (sq_speed q)))))"

section \<open>Nothing of a text is lost\<close>

lemma sent_match_rest: "cs \<noteq> [] \<Longrightarrow> sent_match cs @ sent_rest (tl cs) = cs"
proof -
  assume ne: "cs \<noteq> []"
  obtain p where "tl cs = p @ sent_rest (tl cs)" using sent_rest_suffix by blast
  then obtain q where "cs = q @ sent_rest (tl cs)" using ne by (metis append_Cons list.collapse)
  then have "sent_match cs = q"
    unfolding sent_match_def by (metis append_eq_conv_conj length_append add_diff_cancel_right')
  with \<open>cs = q @ sent_rest (tl cs)\<close> show ?thesis by simp
qed

lemma concat_sent_matches: "concat (sent_matches cs) = cs"
proof (induction cs rule: sent_matches.induct)
  case (1 cs)
  show ?case
  proof (cases "cs = []")
    case False
    then show ?thesis using 1 sent_match_rest [of cs] by (subst sent_matches.simps) simp
  qed (simp add: sent_matches.simps)
qed

lemma filter_dropWhile: "filter (\<lambda>c. \<not> P c) (dropWhile P xs) = filter (\<lambda>c. \<not> P c) xs"
  by (induction xs) auto

lemma filter_strip: "filter (\<lambda>c. \<not> is_space c) (strip s) = filter (\<lambda>c. \<not> is_space c) s"
  by (simp add: strip_def lstrip_def rstrip_def filter_dropWhile rev_filter [symmetric])

lemma concat_filter_ne: "concat (filter (\<lambda>p. p \<noteq> []) ps) = concat ps"
  by (induction ps) auto

lemma sentences_cover: "filter (\<lambda>c. \<not> is_space c) (concat (sentences_of s)) = filter (\<lambda>c. \<not> is_space c) s"
proof -
  have strips: "filter (\<lambda>c. \<not> is_space c) (concat (map strip ps)) = filter (\<lambda>c. \<not> is_space c) (concat ps)" for ps
    by (induction ps) (simp_all add: filter_strip)
  then show ?thesis
    by (simp add: sentences_of_def Let_def split_sentences_def concat_filter_ne concat_sent_matches)
qed

lemma sentences_of_ne: "sentences_of s \<noteq> []"
  by (simp add: sentences_of_def Let_def)

section \<open>What is produced\<close>

lemma produced_wire:
  assumes "fmt \<in> set VALID_FORMATS"
  shows "concat (produced fmt ge) = concat (map (\<lambda>pcm. wire pcm fmt) (ge_chunks ge))"
proof -
  have enc: "encode_audio sub BACKEND_RATE fmt = Inr (wire sub fmt)" for sub
    using assms by (simp add: BACKEND_RATE_def encode_audio_24000)
  have all: "takeWhile (\<lambda>r. \<not> isl r) (map Inr ys) = map Inr ys" for ys :: "bytes list"
    by (induction ys) simp_all
  let ?yss = "concat (map (\<lambda>pcm. map (\<lambda>sub. wire sub fmt) (slices (slice_samples BACKEND_RATE) pcm)) (ge_chunks ge))"
  have "concat (map (\<lambda>pcm. map (\<lambda>sub. encode_audio sub BACKEND_RATE fmt) (slices (slice_samples BACKEND_RATE) pcm)) (ge_chunks ge)) =
      map Inr ?yss"
    by (simp add: enc map_concat comp_def)
  then have "produced fmt ge = ?yss"
    unfolding produced_def by (simp only: all) (simp add: comp_def)
  moreover have "concat (map (\<lambda>sub. wire sub fmt) (slices (slice_samples BACKEND_RATE) pcm)) = wire pcm fmt" for pcm
    unfolding BACKEND_RATE_def slice_samples_24000 by (rule slices_hom) (simp_all add: wire_append wire_nil)
  then have "concat (concat (map (\<lambda>pcm. map (\<lambda>sub. wire sub fmt) (slices (slice_samples BACKEND_RATE) pcm)) xs)) =
      concat (map (\<lambda>pcm. wire pcm fmt) xs)" for xs
    by (induction xs) simp_all
  ultimately show ?thesis by simp
qed


definition demo_synth :: synth_env where
  "demo_synth = \<lparr>sy_f5_loads = True, sy_f5 = (\<lambda>wav ref s speed. Some ([1 / 2, 1 / 4, 1 / 8, 0], 24000)), sy_kokoro_loads = False,
     sy_kokoro = (\<lambda>voice s speed. KRaises), sy_resample = (\<lambda>xs sr. xs), sy_sine = (\<lambda>i. 0)\<rparr>"

definition demo_tts_cfg :: "pyval dict" where
  "demo_tts_cfg = [(''backend'', PStr ''f5''), (''default_voice_id'', PStr []), (''output_format_default'', PStr ''ulaw_8000'')]"

definition demo_request :: "string \<Rightarrow> synth_request" where
  "demo_request v = \<lparr>sq_text = ''Hi. Bye.'', sq_voice_id = Some v, sq_speed = 1, sq_format = Some ''pcm_s16le_8000''\<rparr>"

lemma demo_route:
  "make_backend (attr_str demo_tts_cfg ''backend'') = Some F5"
  "synth_route (attr_str demo_tts_cfg ''default_voice_id'') (attr_str demo_tts_cfg ''output_format_default'') (demo_request ''v'') =
     Inr (Some ''v'', ''pcm_s16le_8000'')"
  by (simp_all add: demo_tts_cfg_def demo_request_def make_backend_def attr_str_def dget_def synth_route_def opt_str_or_def
      str_or_none_def VALID_FORMATS_def)

definition demo_files :: voice_files where
  "demo_files = snd (backend_clone ''/voices'' ''v'' [1, 2] ''hello'' no_files)"


section \<open>Cloned voices\<close>

lemma run_clone_job_files:
  "cl_new_id cl \<noteq> v \<Longrightarrow> vf_wav (tt_files (run_clone_job cl tr j st)) v = vf_wav (tt_files st) v"
  by (simp add: run_clone_job_def clone_route_def backend_clone_def split_beta Let_def split: option.split)

lemma run_clone_jobs_files:
  "\<forall>(cl, tr, j)\<in>set runs. cl_new_id cl \<noteq> v \<Longrightarrow> vf_wav (tt_files (run_clone_jobs runs st)) v = vf_wav (tt_files st) v"
proof (induction runs arbitrary: st)
  case (Cons run runs)
  obtain cl tr j where r: "run = (cl, tr, j)" by (cases run) auto
  with Cons show ?case by (simp add: run_clone_job_files)
qed simp

lemma run_clone_jobs_append: "run_clone_jobs (xs @ ys) st = run_clone_jobs ys (run_clone_jobs xs st)"
  by (induction xs st rule: run_clone_jobs.induct) simp_all

lemma clone_route_200:
  assumes "fst (fst (clone_route cl f st)) = 200" "cl_has_db cl"
  shows "\<exists>t. cl_parse_uuid cl (cf_tenant_id f) = Some t \<and>
    \<lparr>vo_id = cl_new_id cl, vo_tenant_id = t, vo_name = cf_voice_name f, vo_sample_path = Some (cl_voices_dir cl),
      vo_embedding_path = Some (cl_voices_dir cl), vo_status = ''ready'', vo_created_at = cl_now cl\<rparr>
      \<in> set (voices (tt_db (snd (clone_route cl f st)))) \<and>
    vf_wav (tt_files (snd (clone_route cl f st))) (cl_new_id cl) = Some (cf_audio f) \<and>
    vf_text (tt_files (snd (clone_route cl f st))) (cl_new_id cl) = Some (cf_ref_text f)"
  using assms
  by (auto simp: clone_route_def store_create_def backend_clone_def Let_def split: if_splits option.splits)

text \<open>
  C32: a voice that was cloned in the panel never speaks. Its row says ready after the job, but the
  server has stored the clip under an identifier of its own, for which it has added a second row of
  that name; with the identifier of the panel's row, whatever jobs ran before, F5 finds no clip, and the
  answer is a 200 without a byte, of which the worker plays nothing. Only the second row has the clip.
\<close>

theorem cloned_voice_never_speaks:
  assumes "vf_wav (tt_files st) v = None" "\<forall>(cl, tr, j)\<in>set (runs @ [(cl, Delivered, j)]). cl_new_id cl \<noteq> v"
    and "cj_voice_id j = v" "cl_has_db cl"
    and "fst (fst (clone_route cl (clone_form_of j) (run_clone_jobs runs st))) = 200"
    and "make_backend (attr_str cfg ''backend'') = Some F5"
    and "synth_route (attr_str cfg ''default_voice_id'') (attr_str cfg ''output_format_default'') q = Inr (Some v, fmt)"
    and "st' = run_clone_jobs (runs @ [(cl, Delivered, j)]) st"
  shows "(\<forall>r\<in>set (voices (tt_db st')). vo_id r = v \<longrightarrow> vo_status r = ''ready'') \<and>
    (\<exists>r\<in>set (voices (tt_db st')). vo_id r = cl_new_id cl \<and> vo_name r = cj_name j \<and> vo_status r = ''ready'' \<and> vo_id r \<noteq> v) \<and>
    synthesize sy cfg (tt_files st') q = Inr [] \<and> stream_tts 200 (map TtsChunk []) a = (False, a) \<and>
    vf_wav (tt_files st') (cl_new_id cl) = Some (cj_audio j)"
proof (intro conjI)
  let ?st = "run_clone_jobs runs st"
  obtain body st1 where answer: "clone_route cl (clone_form_of j) ?st = ((200, body), st1)"
    using assms(5) by (metis prod.collapse)
  have other: "cl_new_id cl \<noteq> v" using assms(2) by simp
  define paths where "paths = (case dget_or body ''embedding_path'' (PStr []) of PStr p \<Rightarrow> p | _ \<Rightarrow> [])"
  have st': "st' = st1\<lparr>tt_db := mark_voice_ready v paths paths (tt_db st1)\<rparr>"
    unfolding assms(8) run_clone_jobs_append run_clone_jobs.simps
    by (simp add: run_clone_job_def answer assms(3) client_clone_def voice_clone_def Let_def paths_def)
  then have rows: "voices (tt_db st') = map (\<lambda>r. if vo_id r = v then r\<lparr>vo_sample_path := Some paths,
      vo_embedding_path := Some paths, vo_status := ''ready''\<rparr> else r) (voices (tt_db st1))"
    by (simp add: mark_voice_ready_def put_row_def)
  note facts = clone_route_200 [OF assms(5,4), unfolded answer snd_conv]
  show "\<forall>r\<in>set (voices (tt_db st')). vo_id r = v \<longrightarrow> vo_status r = ''ready''"
  proof (intro ballI impI)
    fix r assume "r \<in> set (voices (tt_db st'))" "vo_id r = v"
    then show "vo_status r = ''ready''"
      unfolding rows set_map by (elim imageE) (simp split: if_splits)
  qed
  show "\<exists>r\<in>set (voices (tt_db st')). vo_id r = cl_new_id cl \<and> vo_name r = cj_name j \<and> vo_status r = ''ready'' \<and> vo_id r \<noteq> v"
  proof -
    obtain t where row: "\<lparr>vo_id = cl_new_id cl, vo_tenant_id = t, vo_name = cj_name j, vo_sample_path = Some (cl_voices_dir cl),
      vo_embedding_path = Some (cl_voices_dir cl), vo_status = ''ready'', vo_created_at = cl_now cl\<rparr>
      \<in> set (voices (tt_db st1))" (is "?r \<in> _")
      using facts by (auto simp: clone_form_of_def)
    have "?r \<in> set (voices (tt_db st'))"
      unfolding rows set_map using row other by (intro image_eqI [of _ _ ?r]) simp_all
    then show ?thesis using other by force
  qed
  have gone: "vf_wav (tt_files st') v = None"
    using run_clone_jobs_files [OF assms(2)] assms(1,8) by simp
  have voice: "resolve_voice (tt_files st') (Some v) = Inl e" if "e = (if v = [] then ''ValueError'' else ''FileNotFoundError'')" for e
    using gone that by (cases v) (simp_all add: resolve_voice_def str_or_none_def)
  show "synthesize sy cfg (tt_files st') q = Inr []"
    unfolding synthesize_def assms(6,7) option.case sum.case prod.case backend_synthesize_def backend.case
      f5_synthesize_def voice [OF refl]
    by (simp add: produced_def)
  show "stream_tts 200 (map TtsChunk []) a = (False, a)"
    by (simp add: stream_tts_def)
  show "vf_wav (tt_files st') (cl_new_id cl) = Some (cj_audio j)"
    using facts by (auto simp: st' clone_form_of_def)
qed

definition demo_clone :: "uuid \<Rightarrow> clone_env" where
  "demo_clone i = \<lparr>cl_has_db = True, cl_voices_dir = ''/voices'', cl_new_id = i, cl_now = 0, cl_parse_uuid = Some\<rparr>"

definition demo_clone_job :: clone_job where
  "demo_clone_job = \<lparr>cj_voice_id = ''v'', cj_tenant_id = ''t'', cj_name = ''Ann'', cj_ref_text = ''hello'', cj_audio = [1, 2]\<rparr>"

definition demo_tts_state :: tts_state where
  "demo_tts_state = \<lparr>tt_db = \<lparr>tenants = [\<lparr>tn_id = ''t'', tn_name = [], tn_settings = [], tn_created_at = 0\<rparr>], users = [],
       voices = [\<lparr>vo_id = ''v'', vo_tenant_id = ''t'', vo_name = ''Ann'', vo_sample_path = None, vo_embedding_path = None,
         vo_status = ''pending'', vo_created_at = 0\<rparr>],
       kbs = [], documents = [], agents = [], servers = [], deployments = [], calls = [], events = [], campaigns = [],
       audits = [], nodes = [], join_tokens = []\<rparr>, tt_files = no_files\<rparr>"

theorem cloned_voice_never_speaks_witness:
  "synthesize demo_synth demo_tts_cfg
     (tt_files (run_clone_jobs ([] @ [(demo_clone ''w'', Delivered, demo_clone_job)]) demo_tts_state)) (demo_request ''v'') = Inr []"
proof -
  have "fst (fst (clone_route (demo_clone ''w'') (clone_form_of demo_clone_job) (run_clone_jobs [] demo_tts_state))) = 200"
    by (simp add: clone_route_def demo_clone_def demo_clone_job_def clone_form_of_def demo_tts_state_def store_create_def
        backend_clone_def)
  moreover have "vf_wav (tt_files demo_tts_state) ''v'' = None"
    by (simp add: demo_tts_state_def no_files_def)
  moreover have "\<forall>(cl, tr, j)\<in>set ([] @ [(demo_clone ''w'', Delivered, demo_clone_job)]). cl_new_id cl \<noteq> ''v''"
    by (simp add: demo_clone_def)
  moreover have "cj_voice_id demo_clone_job = ''v''" "cl_has_db (demo_clone ''w'')"
    by (simp_all add: demo_clone_job_def demo_clone_def)
  ultimately show ?thesis
    using cloned_voice_never_speaks [OF _ _ _ _ _ demo_route refl, of demo_tts_state "[]" "demo_clone ''w''" demo_clone_job]
    by blast
qed

end
