(* ===== verification/Tts_Streams.thy ===== *)
theory Tts_Streams
  imports Tts_Server
begin

text \<open>
  The streams of \<open>synthesizer.py\<close>: per request a producer on a thread of the event loop's default pool and a
  generator that the response pulls, with a queue of sixteen between them. The events are those of the
  environment: a request, a free thread that takes the oldest waiting producer, the progress of a
  producer and of a response, and a client that goes away.
\<close>

section \<open>State\<close>

definition QUEUE_MAX :: nat where "QUEUE_MAX = 16"

datatype producer = Waiting | Working | Over

text \<open>\<open>sm_all\<close> is what the back end yields for this request, \<open>sm_todo\<close> what the thread has still to put, the
  chunk it is blocked on first; None in the queue is the end marker. \<open>sm_client\<close> holds while the
  generator is alive, \<open>sm_ended\<close> once it has seen the marker.\<close>

record tts_stream =
  sm_all :: "bytes list"
  sm_todo :: "bytes list"
  sm_queue :: "bytes option list"
  sm_sent :: "bytes list"
  sm_client :: bool
  sm_ended :: bool
  sm_thread :: producer

definition new_stream :: "bytes list \<Rightarrow> tts_stream" where
  "new_stream cs = \<lparr>sm_all = cs, sm_todo = cs, sm_queue = [], sm_sent = [], sm_client = True, sm_ended = False,
     sm_thread = Waiting\<rparr>"

record pool =
  po_size :: nat
  po_streams :: "tts_stream list"

definition pool_init :: "nat \<Rightarrow> pool" where
  "pool_init n = \<lparr>po_size = n, po_streams = []\<rparr>"

datatype pool_event =
    Request "bytes list"
  | ThreadTakes nat
  | Put nat
  | Get nat
  | ClientGone nat

section \<open>Steps\<close>

definition working :: "pool \<Rightarrow> nat" where
  "working p = length (filter (\<lambda>s. sm_thread s = Working) (po_streams p))"

text \<open>A producer that waits is taken in the order of the requests.\<close>

definition may_start :: "pool \<Rightarrow> nat \<Rightarrow> bool" where
  "may_start p i \<longleftrightarrow> working p < po_size p \<and> sm_thread (po_streams p ! i) = Waiting \<and>
     (\<forall>s\<in>set (take i (po_streams p)). sm_thread s \<noteq> Waiting)"

text \<open>\<open>queue.put(...)\<close> waited for: no progress while the queue is full. After the marker the thread is free.\<close>

definition produce_step :: "tts_stream \<Rightarrow> tts_stream" where
  "produce_step s =
     (if sm_thread s = Working \<and> length (sm_queue s) < QUEUE_MAX
      then (case sm_todo s of
              c # cs \<Rightarrow> s\<lparr>sm_todo := cs, sm_queue := sm_queue s @ [Some c]\<rparr>
            | [] \<Rightarrow> s\<lparr>sm_queue := sm_queue s @ [None], sm_thread := Over\<rparr>)
      else s)"

text \<open>The end of the generator, for whatever reason, cancels the producer, which has an effect only on
  one that no thread has taken yet.\<close>

definition cancel_producer :: "tts_stream \<Rightarrow> tts_stream" where
  "cancel_producer s = (if sm_thread s = Waiting then s\<lparr>sm_thread := Over\<rparr> else s)"

definition consume_step :: "tts_stream \<Rightarrow> tts_stream" where
  "consume_step s =
     (if sm_client s
      then (case sm_queue s of
              [] \<Rightarrow> s
            | Some c # q \<Rightarrow> s\<lparr>sm_queue := q, sm_sent := sm_sent s @ [c]\<rparr>
            | None # q \<Rightarrow> cancel_producer (s\<lparr>sm_queue := q, sm_client := False, sm_ended := True\<rparr>))
      else s)"

definition leave_step :: "tts_stream \<Rightarrow> tts_stream" where
  "leave_step s = (if sm_client s then cancel_producer (s\<lparr>sm_client := False\<rparr>) else s)"

definition on_stream :: "nat \<Rightarrow> (tts_stream \<Rightarrow> tts_stream) \<Rightarrow> pool \<Rightarrow> pool" where
  "on_stream i f p =
     (if i < length (po_streams p) then p\<lparr>po_streams := (po_streams p)[i := f (po_streams p ! i)]\<rparr> else p)"

definition pool_step :: "pool_event \<Rightarrow> pool \<Rightarrow> pool" where
  "pool_step e p =
     (case e of
        Request cs \<Rightarrow> p\<lparr>po_streams := po_streams p @ [new_stream cs]\<rparr>
      | ThreadTakes i \<Rightarrow> on_stream i (\<lambda>s. if may_start p i then s\<lparr>sm_thread := Working\<rparr> else s) p
      | Put i \<Rightarrow> on_stream i produce_step p
      | Get i \<Rightarrow> on_stream i consume_step p
      | ClientGone i \<Rightarrow> on_stream i leave_step p)"

definition pool_run :: "pool_event list \<Rightarrow> pool \<Rightarrow> pool" where
  "pool_run es p = fold pool_step es p"

lemma pool_run_simps [simp]: "pool_run [] p = p" "pool_run (e # es) p = pool_run es (pool_step e p)"
  by (simp_all add: pool_run_def)

lemma pool_run_append: "pool_run (es @ es') p = pool_run es' (pool_run es p)"
  by (simp add: pool_run_def)

section \<open>Order\<close>

text \<open>What was sent, what waits in the queue and what is still to come is the whole, in order; the marker
  comes last.\<close>

definition pending :: "bytes option list \<Rightarrow> bytes list" where
  "pending q = map the (filter (\<lambda>c. c \<noteq> None) q)"

definition tts_stream_ok :: "tts_stream \<Rightarrow> bool" where
  "tts_stream_ok s \<longleftrightarrow> sm_sent s @ pending (sm_queue s) @ sm_todo s = sm_all s \<and> length (sm_queue s) \<le> QUEUE_MAX \<and>
     (None \<in> set (butlast (sm_queue s)) \<longrightarrow> False) \<and>
     (None \<in> set (sm_queue s) \<or> sm_ended s \<longrightarrow> sm_todo s = [] \<and> sm_thread s = Over) \<and>
     (sm_ended s \<longrightarrow> sm_queue s = [] \<and> \<not> sm_client s) \<and>
     (sm_thread s = Waiting \<longrightarrow> sm_queue s = [] \<and> sm_sent s = [])"

lemma pending_simps [simp]:
  "pending [] = []" "pending (Some c # q) = c # pending q" "pending (None # q) = pending q"
  "pending (q @ [Some c]) = pending q @ [c]" "pending (q @ [None]) = pending q"
  by (simp_all add: pending_def)

lemma new_stream_ok: "tts_stream_ok (new_stream cs)"
  by (simp add: tts_stream_ok_def new_stream_def)

lemma butlast_snoc_mem: "x \<in> set (butlast q) \<Longrightarrow> x \<in> set q"
  by (rule in_set_butlastD)

lemma produce_ok: "tts_stream_ok s \<Longrightarrow> tts_stream_ok (produce_step s)"
  by (cases "sm_todo s") (auto simp: tts_stream_ok_def produce_step_def QUEUE_MAX_def)

lemma consume_ok:
  assumes "tts_stream_ok s"
  shows "tts_stream_ok (consume_step s)"
proof (cases "sm_client s")
  case True
  show ?thesis
  proof (cases "sm_queue s")
    case (Cons c q)
    show ?thesis
    proof (cases c)
      case None
      then have "q = []" using assms Cons by (cases q) (auto simp: tts_stream_ok_def)
      then show ?thesis
        using assms True Cons None by (auto simp: tts_stream_ok_def consume_step_def cancel_producer_def)
    next
      case (Some b)
      have "None \<in> set (butlast q) \<Longrightarrow> None \<in> set (butlast (c # q))" by (cases q) auto
      then show ?thesis
        using assms True Cons Some by (auto simp: tts_stream_ok_def consume_step_def)
    qed
  qed (use assms True in \<open>simp add: consume_step_def\<close>)
qed (use assms in \<open>simp add: consume_step_def\<close>)

lemma leave_ok: "tts_stream_ok s \<Longrightarrow> tts_stream_ok (leave_step s)"
  by (auto simp: tts_stream_ok_def leave_step_def cancel_producer_def)

lemma start_ok: "tts_stream_ok s \<Longrightarrow> tts_stream_ok (if b \<and> sm_thread s = Waiting then s\<lparr>sm_thread := Working\<rparr> else s)"
  by (auto simp: tts_stream_ok_def)

lemma on_stream_all:
  assumes "\<forall>s\<in>set (po_streams p). P s" "i < length (po_streams p) \<Longrightarrow> P (f (po_streams p ! i))"
  shows "\<forall>s\<in>set (po_streams (on_stream i f p)). P s"
  using assms set_update_subset_insert [of "po_streams p" i "f (po_streams p ! i)"]
  by (auto simp: on_stream_def)

lemma pool_step_ok:
  assumes ok: "\<forall>s\<in>set (po_streams p). tts_stream_ok s"
  shows "\<forall>s\<in>set (po_streams (pool_step e p)). tts_stream_ok s"
proof (cases e)
  case (Request cs)
  then show ?thesis using ok by (simp add: pool_step_def new_stream_ok)
next
  case (ThreadTakes i)
  show ?thesis
    unfolding pool_step_def ThreadTakes pool_event.case
  proof (rule on_stream_all [OF ok])
    assume "i < length (po_streams p)"
    then have "tts_stream_ok (po_streams p ! i)" using ok by simp
    then show "tts_stream_ok (if may_start p i then (po_streams p ! i)\<lparr>sm_thread := Working\<rparr> else po_streams p ! i)"
      by (auto simp: may_start_def tts_stream_ok_def)
  qed
next
  case (Put i)
  show ?thesis unfolding pool_step_def Put pool_event.case
    by (rule on_stream_all [OF ok]) (simp add: ok produce_ok)
next
  case (Get i)
  show ?thesis unfolding pool_step_def Get pool_event.case
    by (rule on_stream_all [OF ok]) (simp add: ok consume_ok)
next
  case (ClientGone i)
  show ?thesis unfolding pool_step_def ClientGone pool_event.case
    by (rule on_stream_all [OF ok]) (simp add: ok leave_ok)
qed

lemma pool_run_ok: "\<forall>s\<in>set (po_streams p). tts_stream_ok s \<Longrightarrow> \<forall>s\<in>set (po_streams (pool_run es p)). tts_stream_ok s"
proof (induction es arbitrary: p)
  case (Cons e es)
  from Cons.IH [OF pool_step_ok [OF Cons.prems]] show ?case by (simp only: pool_run_simps)
qed (simp only: pool_run_simps)

text \<open>What a response may look like at any time.\<close>

definition response_ok :: "tts_stream \<Rightarrow> bool" where
  "response_ok s \<longleftrightarrow>
     (if sm_ended s then sm_sent s = sm_all s else prefix (sm_sent s) (sm_all s)) \<and> length (sm_queue s) \<le> QUEUE_MAX"

lemma stream_response_ok: "tts_stream_ok s \<Longrightarrow> response_ok s"
  unfolding response_ok_def tts_stream_ok_def prefix_def by (metis append.right_neutral append_Nil pending_simps(1))

text \<open>
  whatever the interleaving of requests, threads, responses and clients that leave, every response has
  sent a prefix of what the back end yields for its request, in order and with at most sixteen chunks
  between, and a response that ended by itself has sent all of it.
\<close>

lemma responses_in_order: "list_all response_ok (po_streams (pool_run es (pool_init n)))"
proof -
  have "\<forall>s\<in>set (po_streams (pool_run es (pool_init n))). tts_stream_ok s"
    by (rule pool_run_ok) (simp add: pool_init_def)
  then show ?thesis by (simp add: list_all_iff stream_response_ok)
qed

section \<open>Producers that never end\<close>

text \<open>A producer whose client has left and whose queue is full waits for ever on its thread.\<close>

definition producer_stuck :: "tts_stream \<Rightarrow> bool" where
  "producer_stuck s \<longleftrightarrow> sm_thread s = Working \<and> \<not> sm_client s \<and> length (sm_queue s) = QUEUE_MAX"

lemma stuck_stays: "producer_stuck s \<Longrightarrow> produce_step s = s" "producer_stuck s \<Longrightarrow> consume_step s = s" "producer_stuck s \<Longrightarrow> leave_step s = s"
  by (simp_all add: producer_stuck_def produce_step_def consume_step_def leave_step_def)

text \<open>With as many of them as the pool has threads, no producer is taken any more, and the others stay silent.\<close>

definition silent :: "tts_stream \<Rightarrow> bool" where
  "silent s \<longleftrightarrow> sm_thread s \<noteq> Working \<and> sm_queue s = [] \<and> sm_sent s = [] \<and> \<not> sm_ended s"

definition all_stuck :: "nat \<Rightarrow> pool \<Rightarrow> bool" where
  "all_stuck n p \<longleftrightarrow> po_size p = n \<and> n \<le> length (po_streams p) \<and>
     list_all producer_stuck (take n (po_streams p)) \<and>
     list_all silent (drop n (po_streams p))"

lemma all_stuck_nth:
  "all_stuck n p \<Longrightarrow> i < length (po_streams p) \<Longrightarrow>
     if i < n then producer_stuck (po_streams p ! i)
     else silent (po_streams p ! i)"
  unfolding all_stuck_def list_all_length
  by (auto dest: spec [of _ i] spec [of _ "i - n"])

lemma all_stuck_working: "all_stuck n p \<Longrightarrow> n \<le> working p"
proof -
  assume a: "all_stuck n p"
  have "filter (\<lambda>s. sm_thread s = Working) (take n (po_streams p)) = take n (po_streams p)"
    using a by (intro filter_True) (auto simp: all_stuck_def list_all_iff producer_stuck_def)
  moreover have "length (filter P (take n xs)) \<le> length (filter P xs)" for P and xs :: "tts_stream list"
    by (metis append_take_drop_id filter_append le_add1 length_append)
  ultimately show ?thesis using a unfolding working_def all_stuck_def by (metis length_take min.absorb2)
qed

lemma all_stuck_update:
  assumes "all_stuck n p" "i < length (po_streams p)" "i < n \<Longrightarrow> s = po_streams p ! i"
    and "n \<le> i \<Longrightarrow> silent s"
  shows "all_stuck n (p\<lparr>po_streams := (po_streams p)[i := s]\<rparr>)"
proof (cases "i < n")
  case True
  then show ?thesis using assms by simp
next
  case False
  then show ?thesis
    using assms by (auto simp: all_stuck_def drop_update_swap list_all_length nth_list_update)
qed

lemma all_stuck_on_stream:
  assumes "all_stuck n p" "\<And>s. producer_stuck s \<Longrightarrow> f s = s"
    and "\<And>s. silent s \<Longrightarrow> silent (f s)"
  shows "all_stuck n (on_stream i f p)"
proof (cases "i < length (po_streams p)")
  case True
  then show ?thesis
    using all_stuck_nth [OF assms(1) True] assms
    by (auto simp: on_stream_def intro!: all_stuck_update [OF assms(1) True] split: if_splits)
qed (use assms(1) in \<open>simp add: on_stream_def\<close>)

lemma all_stuck_step: "all_stuck n p \<Longrightarrow> all_stuck n (pool_step e p)"
proof (cases e)
  case (Request cs)
  assume "all_stuck n p"
  then show ?thesis using Request by (simp add: pool_step_def all_stuck_def new_stream_def silent_def)
next
  case (ThreadTakes i)
  assume a: "all_stuck n p"
  then have "\<not> may_start p i"
    using all_stuck_working [OF a] by (simp add: may_start_def all_stuck_def)
  then show ?thesis using ThreadTakes a by (simp add: pool_step_def on_stream_def)
next
  case (Put i)
  assume "all_stuck n p"
  then show ?thesis unfolding pool_step_def Put pool_event.case
    by (rule all_stuck_on_stream) (erule stuck_stays, simp add: silent_def produce_step_def)
next
  case (Get i)
  assume "all_stuck n p"
  then show ?thesis unfolding pool_step_def Get pool_event.case
    by (rule all_stuck_on_stream) (erule stuck_stays, simp add: silent_def consume_step_def)
next
  case (ClientGone i)
  assume "all_stuck n p"
  then show ?thesis unfolding pool_step_def ClientGone pool_event.case
    by (rule all_stuck_on_stream) (erule stuck_stays, simp add: silent_def leave_step_def cancel_producer_def)
qed

lemma all_stuck_run: "all_stuck n p \<Longrightarrow> all_stuck n (pool_run es p)"
proof (induction es arbitrary: p)
  case (Cons e es)
  from Cons.IH [OF all_stuck_step [OF Cons.prems]] show ?case by (simp only: pool_run_simps)
qed (simp only: pool_run_simps)

section \<open>Interrupted calls\<close>

text \<open>A request whose client leaves, as the worker does when the caller speaks, after the thread has filled
  the queue and before the response has taken a chunk.\<close>

definition interrupted :: "nat \<Rightarrow> bytes list \<Rightarrow> pool_event list" where
  "interrupted i cs = [Request cs, ThreadTakes i] @ replicate QUEUE_MAX (Put i) @ [ClientGone i]"

fun interrupted_calls :: "nat \<Rightarrow> bytes list list \<Rightarrow> pool_event list" where
  "interrupted_calls i [] = []"
| "interrupted_calls i (cs # css) = interrupted i cs @ interrupted_calls (Suc i) css"

lemma on_stream_end [simp]:
  "on_stream (length ss) f \<lparr>po_size = n, po_streams = ss @ [s]\<rparr> = \<lparr>po_size = n, po_streams = ss @ [f s]\<rparr>"
  by (simp add: on_stream_def)

lemma puts_end:
  "pool_run (replicate k (Put (length ss))) \<lparr>po_size = n, po_streams = ss @ [s]\<rparr> =
     \<lparr>po_size = n, po_streams = ss @ [(produce_step ^^ k) s]\<rparr>"
proof (induction k arbitrary: s)
  case (Suc k)
  then show ?case by (simp add: pool_step_def funpow_swap1)
qed simp

lemma produce_steps:
  assumes "k \<le> QUEUE_MAX" "k \<le> length cs"
  shows "(produce_step ^^ k) ((new_stream cs)\<lparr>sm_thread := Working\<rparr>) =
     (new_stream cs)\<lparr>sm_todo := drop k cs, sm_queue := map Some (take k cs), sm_thread := Working\<rparr>"
  using assms
proof (induction k)
  case (Suc k)
  then have "drop k cs = cs ! k # drop (Suc k) cs" "take (Suc k) cs = take k cs @ [cs ! k]"
    by (simp_all add: Cons_nth_drop_Suc take_Suc_conv_app_nth)
  with Suc show ?case by (simp add: new_stream_def produce_step_def)
qed (simp add: new_stream_def)

lemma interrupted_sticks:
  assumes "\<forall>s\<in>set ss. producer_stuck s" "length ss < n" "QUEUE_MAX \<le> length cs"
  shows "\<exists>s. producer_stuck s \<and> pool_run (interrupted (length ss) cs) \<lparr>po_size = n, po_streams = ss\<rparr> =
     \<lparr>po_size = n, po_streams = ss @ [s]\<rparr>"
proof -
  let ?w = "(new_stream cs)\<lparr>sm_thread := Working\<rparr>"
  let ?f = "(new_stream cs)\<lparr>sm_todo := drop QUEUE_MAX cs, sm_queue := map Some (take QUEUE_MAX cs), sm_thread := Working\<rparr>"
  have "filter (\<lambda>s. sm_thread s = Working) ss = ss"
    using assms(1) by (intro filter_True) (auto simp: producer_stuck_def)
  then have free: "may_start \<lparr>po_size = n, po_streams = ss @ [new_stream cs]\<rparr> (length ss)"
    using assms(1,2) by (auto simp: may_start_def working_def new_stream_def producer_stuck_def)
  have "pool_run (interrupted (length ss) cs) \<lparr>po_size = n, po_streams = ss\<rparr> =
      pool_step (ClientGone (length ss)) (pool_run (replicate QUEUE_MAX (Put (length ss)))
        \<lparr>po_size = n, po_streams = ss @ [?w]\<rparr>)"
    by (simp add: interrupted_def pool_run_append pool_step_def free)
  also have "\<dots> = \<lparr>po_size = n, po_streams = ss @ [leave_step ?f]\<rparr>"
    using produce_steps [of QUEUE_MAX cs] assms(3) by (simp add: puts_end pool_step_def)
  finally have "pool_run (interrupted (length ss) cs) \<lparr>po_size = n, po_streams = ss\<rparr> =
      \<lparr>po_size = n, po_streams = ss @ [leave_step ?f]\<rparr>" .
  moreover have "producer_stuck (leave_step ?f)"
    using assms(3) by (simp add: producer_stuck_def leave_step_def cancel_producer_def new_stream_def)
  ultimately show ?thesis by blast
qed

lemma interrupted_calls_stick:
  assumes "\<forall>s\<in>set ss. producer_stuck s" "length ss + length css = n" "\<forall>cs\<in>set css. QUEUE_MAX \<le> length cs"
  shows "all_stuck n (pool_run (interrupted_calls (length ss) css) \<lparr>po_size = n, po_streams = ss\<rparr>)"
  using assms
proof (induction css arbitrary: ss)
  case Nil
  then show ?case by (simp add: all_stuck_def list_all_iff)
next
  case (Cons cs css)
  obtain s where "producer_stuck s" and s: "pool_run (interrupted (length ss) cs) \<lparr>po_size = n, po_streams = ss\<rparr> =
     \<lparr>po_size = n, po_streams = ss @ [s]\<rparr>"
    using interrupted_sticks [of ss n cs] Cons.prems by auto
  then show ?case
    using Cons.IH [of "ss @ [s]"] Cons.prems by (simp add: pool_run_append)
qed



section \<open>Calls that are heard\<close>

text \<open>On a free thread, a response that takes each chunk as it comes is sent whole and ends.\<close>

definition exchange :: "tts_stream \<Rightarrow> tts_stream" where
  "exchange s = consume_step (produce_step s)"

lemma put_get:
  assumes "sm_client s" "sm_thread s = Working" "sm_queue s = []" "sm_todo s = c # cs"
  shows "exchange s = s\<lparr>sm_todo := cs, sm_sent := sm_sent s @ [c]\<rparr>"
  using assms by (simp add: exchange_def produce_step_def consume_step_def QUEUE_MAX_def)

lemma put_gets:
  assumes "sm_client s" "sm_thread s = Working" "sm_queue s = []" "sm_todo s = cs"
  shows "(exchange ^^ Suc (length cs)) s =
     s\<lparr>sm_todo := [], sm_sent := sm_sent s @ cs, sm_thread := Over, sm_client := False, sm_ended := True\<rparr>"
  using assms
proof (induction cs arbitrary: s)
  case Nil
  then show ?case
    by (simp add: exchange_def produce_step_def consume_step_def cancel_producer_def QUEUE_MAX_def)
next
  case (Cons c cs)
  have "(exchange ^^ Suc (length (c # cs))) s = (exchange ^^ Suc (length cs)) (exchange s)"
    by (simp only: length_Cons funpow_Suc_right [of "Suc (length cs)"] comp_apply)
  also have "\<dots> = (exchange ^^ Suc (length cs)) (s\<lparr>sm_todo := cs, sm_sent := sm_sent s @ [c]\<rparr>)"
    using put_get [of s c cs] Cons.prems by simp
  finally show ?case
    using Cons.IH [of "s\<lparr>sm_todo := cs, sm_sent := sm_sent s @ [c]\<rparr>"] Cons.prems by simp
qed

lemma put_gets_run:
  "pool_run (concat (replicate k [Put (length ss), Get (length ss)])) \<lparr>po_size = n, po_streams = ss @ [s]\<rparr> =
     \<lparr>po_size = n, po_streams = ss @ [(exchange ^^ k) s]\<rparr>"
proof (induction k arbitrary: s)
  case (Suc k)
  then show ?case by (simp add: pool_step_def funpow_swap1 exchange_def [symmetric])
qed simp

text \<open>
  while a thread is free and nobody waits for one, a request is answered in full: as many rounds of
  producer and response as it has chunks, and one for the marker, send every chunk in order and end
  both the response and the producer.
\<close>

lemma uninterrupted_is_answered:
  assumes "working p < po_size p" "\<forall>s\<in>set (po_streams p). sm_thread s \<noteq> Waiting" "i = length (po_streams p)"
  shows "po_streams (pool_run ([Request cs, ThreadTakes i] @ concat (replicate (Suc (length cs)) [Put i, Get i])) p) =
     po_streams p @ [\<lparr>sm_all = cs, sm_todo = [], sm_queue = [], sm_sent = cs, sm_client = False, sm_ended = True,
       sm_thread = Over\<rparr>]"
proof -
  obtain n ss where p: "p = \<lparr>po_size = n, po_streams = ss\<rparr>" by (cases p)
  let ?w = "(new_stream cs)\<lparr>sm_thread := Working\<rparr>"
  have free: "may_start \<lparr>po_size = n, po_streams = ss @ [new_stream cs]\<rparr> (length ss)"
    using assms(1,2) p by (auto simp: may_start_def working_def new_stream_def)
  have "pool_run ([Request cs, ThreadTakes (length ss)] @ es) p = pool_run es \<lparr>po_size = n, po_streams = ss @ [?w]\<rparr>" for es
    by (simp add: pool_step_def free p)
  then have "pool_run ([Request cs, ThreadTakes (length ss)] @ concat (replicate (Suc (length cs)) [Put (length ss), Get (length ss)])) p =
      \<lparr>po_size = n, po_streams = ss @ [(exchange ^^ Suc (length cs)) ?w]\<rparr>"
    by (simp only: put_gets_run)
  moreover have "(exchange ^^ Suc (length cs)) ?w =
      ?w\<lparr>sm_todo := [], sm_sent := sm_sent ?w @ cs, sm_thread := Over, sm_client := False, sm_ended := True\<rparr>"
    by (rule put_gets) (simp_all add: new_stream_def)
  ultimately show ?thesis
    using assms(3) p by (simp add: new_stream_def)
qed

lemma uninterrupted_is_answered_witness:
  "map sm_sent (po_streams (pool_run ([Request [[1], [2]], ThreadTakes 0] @ concat (replicate (Suc (length [[1], [2::byte]])) [Put 0, Get 0]))
     (pool_init 1))) = [[[1], [2]]]"
proof -
  have "working (pool_init 1) < po_size (pool_init 1)" "\<forall>s\<in>set (po_streams (pool_init 1)). sm_thread s \<noteq> Waiting"
    "0 = length (po_streams (pool_init 1))"
    by (simp_all add: pool_init_def working_def)
  from uninterrupted_is_answered [OF this, of "[[1], [2]]"] show ?thesis by (simp add: pool_init_def)
qed

end
