(* ===== verification/Browser_Login.thy ===== *)
theory Browser_Login
  imports Session_Worker "HOL-Library.Multiset"
begin

text \<open>
  \<open>login.py\<close> of the session manager: one login through a browser page, and the pool of browser contexts that
  the logins of all deployments share. What Playwright's page does at each call is an argument; a
  context is the cookies it holds. The result of a login is the \<open>sx_login\<close> of the session worker; the client
  it then talks to ViciDial with (\<open>http_session.py\<close>) is at the end.
\<close>

section \<open>One login\<close>

definition AIPANEL_UA :: string where
  "AIPANEL_UA = ''Mozilla/5.0 (X11; Linux x86_64) AppleWebKit/537.36 (KHTML, like Gecko) Chrome/124.0.0.0 Safari/537.36 aipanel-session-mgr/0.6''"

text \<open>A cookie is the site it belongs to, its name and its value.\<close>

type_synonym cookie = "string \<times> string \<times> string"

record browser_ctx =
  bc_number :: nat
  bc_cookies :: "cookie list"

text \<open>Whether each step succeeds, which fields of the form can be filled, the cookies the site sets on the
  way, and the page that is found at the end.\<close>

record page_env =
  pg_new :: bool
  pg_goto :: bool
  pg_fill :: "string \<Rightarrow> bool"
  pg_click :: bool
  pg_press :: bool
  pg_conf_exten :: bool
  pg_content :: "string option"
  pg_sets :: "(string \<times> string) list"

definition set_cookie :: "string \<Rightarrow> string \<times> string \<Rightarrow> cookie list \<Rightarrow> cookie list" where
  "set_cookie site c cs = filter (\<lambda>(s, n, v). \<not> (s = site \<and> n = fst c)) cs @ [(site, c)]"

definition visit :: "string \<Rightarrow> page_env \<Rightarrow> browser_ctx \<Rightarrow> browser_ctx" where
  "visit base pg ctx = ctx\<lparr>bc_cookies := fold (set_cookie base) (pg_sets pg) (bc_cookies ctx)\<rparr>"

definition cookie_jar :: "string \<Rightarrow> browser_ctx \<Rightarrow> string dict" where
  "cookie_jar base ctx =
     fold (\<lambda>(s, n, v) d. AList.update n v d) (filter (\<lambda>(s, n, v). s = base \<and> n \<noteq> []) (bc_cookies ctx)) []"

definition filled_fields :: "page_env \<Rightarrow> deployment_row \<Rightarrow> string dict" where
  "filled_fields pg d = filter (\<lambda>(n, v). pg_fill pg n) (login_form_fields d)"

definition login_failed :: string where "login_failed = ''playwright login failed''"

definition login_once :: "page_env \<Rightarrow> deployment_row \<Rightarrow> browser_ctx \<Rightarrow> (string + captured_session) \<times> browser_ctx" where
  "login_once pg d ctx =
     (if \<not> pg_new pg then (Inl login_failed, ctx)
      else
        (case base_url_from (dp_web_url d) of
           None \<Rightarrow> (Inl login_failed, ctx)
         | Some base \<Rightarrow>
             if \<not> pg_goto pg then (Inl login_failed, ctx)
             else
               (let ctx1 = visit base pg ctx in
                if \<not> pg_click pg \<and> \<not> pg_press pg then (Inl login_failed, ctx1)
                else if \<not> pg_conf_exten pg then (Inl ''agent UI did not render conf_exten'', ctx1)
                else
                  (case pg_content pg of
                     None \<Rightarrow> (Inl login_failed, ctx1)
                   | Some html \<Rightarrow>
                       (case parse_agent_page html (cookie_jar base ctx1) of
                          Inl e \<Rightarrow> (Inl e, ctx1)
                        | Inr c \<Rightarrow> (Inr (c\<lparr>cp_user_agent := AIPANEL_UA\<rparr>), ctx1))))))"

section \<open>The pool\<close>

text \<open>Contexts that are free, in the order of the queue; logins under way with the context of each; logins
  that wait in \<open>acquire\<close>; what came out.\<close>

record browser_pool =
  bp_free :: "browser_ctx list"
  bp_busy :: "(deployment_row \<times> page_env \<times> browser_ctx) list"
  bp_waiting :: "(deployment_row \<times> page_env) list"
  bp_results :: "(deployment_row \<times> page_env \<times> (string + captured_session)) list"

definition bp_start :: "nat \<Rightarrow> browser_pool" where
  "bp_start n = \<lparr>bp_free = map (\<lambda>i. \<lparr>bc_number = i, bc_cookies = []\<rparr>) [0..<n], bp_busy = [], bp_waiting = [],
     bp_results = []\<rparr>"

datatype login_event = AskLogin deployment_row page_env | LoginEnds nat bool

definition acquire :: "deployment_row \<Rightarrow> page_env \<Rightarrow> browser_pool \<Rightarrow> browser_pool" where
  "acquire d pg p =
     (case bp_free p of
        [] \<Rightarrow> p\<lparr>bp_waiting := bp_waiting p @ [(d, pg)]\<rparr>
      | ctx # rest \<Rightarrow> p\<lparr>bp_free := rest, bp_busy := bp_busy p @ [(d, pg, ctx)]\<rparr>)"

text \<open>\<open>release\<close>: a failure to clear the cookies is logged, and the context goes back all the same. A login
  that waits gets it.\<close>

definition release_ctx :: "bool \<Rightarrow> browser_ctx \<Rightarrow> browser_pool \<Rightarrow> browser_pool" where
  "release_ctx clear_ok ctx p =
     (let ctx1 = (if clear_ok then ctx\<lparr>bc_cookies := []\<rparr> else ctx) in
      case bp_waiting p of
        [] \<Rightarrow> p\<lparr>bp_free := bp_free p @ [ctx1]\<rparr>
      | (d, pg) # rest \<Rightarrow> p\<lparr>bp_waiting := rest, bp_busy := bp_busy p @ [(d, pg, ctx1)]\<rparr>)"

definition remove_nth :: "nat \<Rightarrow> 'a list \<Rightarrow> 'a list" where
  "remove_nth i xs = take i xs @ drop (Suc i) xs"

definition login_ends :: "nat \<Rightarrow> bool \<Rightarrow> browser_pool \<Rightarrow> browser_pool" where
  "login_ends i clear_ok p =
     (if i < length (bp_busy p)
      then (case bp_busy p ! i of (d, pg, ctx) \<Rightarrow>
              (let (r, ctx1) = login_once pg d ctx in
               release_ctx clear_ok ctx1 (p\<lparr>bp_busy := remove_nth i (bp_busy p), bp_results := bp_results p @ [(d, pg, r)]\<rparr>)))
      else p)"

definition login_step :: "login_event \<Rightarrow> browser_pool \<Rightarrow> browser_pool" where
  "login_step e p = (case e of AskLogin d pg \<Rightarrow> acquire d pg p | LoginEnds i clear_ok \<Rightarrow> login_ends i clear_ok p)"

definition login_run :: "login_event list \<Rightarrow> browser_pool \<Rightarrow> browser_pool" where
  "login_run es p = fold login_step es p"

section \<open>Contexts\<close>

definition contexts :: "browser_pool \<Rightarrow> nat multiset" where
  "contexts p = mset (map bc_number (bp_free p)) + mset (map (\<lambda>(d, pg, ctx). bc_number ctx) (bp_busy p))"

lemma login_once_number [simp]: "bc_number (snd (login_once pg d ctx)) = bc_number ctx"
  by (simp add: login_once_def visit_def Let_def split: option.split sum.split)

lemma mset_remove_nth: "i < length xs \<Longrightarrow> mset (remove_nth i xs) + {#xs ! i#} = mset xs"
  by (metis add_mset_add_single append_take_drop_id Cons_nth_drop_Suc mset.simps(2) mset_append remove_nth_def
      union_mset_add_mset_right)

lemma map_remove_nth: "map f (remove_nth i xs) = remove_nth i (map f xs)"
  by (simp add: remove_nth_def take_map drop_map)

lemma acquire_contexts: "contexts (acquire d pg p) = contexts p"
  by (simp add: acquire_def contexts_def split: list.split)

lemma release_contexts: "contexts (release_ctx ok ctx p) = contexts p + {#bc_number ctx#}"
  by (simp add: release_ctx_def contexts_def Let_def split: list.split)

lemma login_step_contexts: "contexts (login_step e p) = contexts p"
proof (cases e)
  case (LoginEnds i clear_ok)
  show ?thesis
  proof (cases "i < length (bp_busy p)")
    case True
    obtain d pg ctx where b: "bp_busy p ! i = (d, pg, ctx)" by (metis prod_cases3)
    let ?f = "\<lambda>(d, pg, ctx). bc_number ctx"
    have "mset (map ?f (remove_nth i (bp_busy p))) + {#bc_number ctx#} = mset (map ?f (bp_busy p))"
      using mset_remove_nth [of i "map ?f (bp_busy p)"] True b by (simp add: map_remove_nth)
    then have "contexts (p\<lparr>bp_busy := remove_nth i (bp_busy p), bp_results := rs\<rparr>) + {#bc_number ctx#} = contexts p" for rs
      by (simp add: contexts_def)
    then show ?thesis
      using True b unfolding LoginEnds
      by (simp add: login_step_def login_ends_def split_beta release_contexts)
  qed (simp add: LoginEnds login_step_def login_ends_def)
qed (simp add: login_step_def acquire_contexts)

lemma login_run_append: "login_run (xs @ ys) p = login_run ys (login_run xs p)"
  by (simp add: login_run_def)

lemma login_run_contexts: "contexts (login_run es p) = contexts p"
proof (induction es rule: rev_induct)
  case (snoc e es)
  then show ?case by (simp add: login_run_append) (simp add: login_run_def login_step_contexts)
qed (simp add: login_run_def)

text \<open>A login waits only while no context is free.\<close>

lemma login_step_waiting: "bp_waiting p = [] \<or> bp_free p = [] \<Longrightarrow>
   bp_waiting (login_step e p) = [] \<or> bp_free (login_step e p) = []"
  by (cases e) (auto simp: login_step_def acquire_def login_ends_def release_ctx_def Let_def split_beta split: list.split)

lemma login_run_waiting: "bp_waiting (login_run es (bp_start n)) = [] \<or> bp_free (login_run es (bp_start n)) = []"
proof (induction es rule: rev_induct)
  case (snoc e es)
  then show ?case using login_step_waiting by (simp add: login_run_append) (simp add: login_run_def)
qed (simp add: login_run_def bp_start_def)

definition pool_ok :: "nat \<Rightarrow> browser_pool \<Rightarrow> bool" where
  "pool_ok n p \<longleftrightarrow>
     mset (map bc_number (bp_free p)) + mset (map (\<lambda>(d, pg, ctx). bc_number ctx) (bp_busy p)) = mset [0..<n] \<and>
     (bp_waiting p = [] \<or> bp_free p = [])"

text \<open>
  whatever logins are asked for and however they end, the contexts that are free and those of the
  logins under way are the ones the pool was started with, each once: no two logins share one, and none
  is lost by a login that failed. A login waits only while all are in use.
\<close>

lemma contexts_conserved: "pool_ok n (login_run es (bp_start n))"
proof -
  have "contexts (login_run es (bp_start n)) = mset [0..<n]"
    by (simp add: login_run_contexts) (simp add: contexts_def bp_start_def comp_def)
  then show ?thesis using login_run_waiting by (simp add: contexts_def pool_ok_def)
qed

section \<open>Cookies\<close>

text \<open>The cookies a login captures are those its own page set, as long as the contexts come back clean.\<close>

definition clean_pool :: "browser_pool \<Rightarrow> bool" where
  "clean_pool p \<longleftrightarrow> (\<forall>ctx\<in>set (bp_free p). bc_cookies ctx = []) \<and> (\<forall>(d, pg, ctx)\<in>set (bp_busy p). bc_cookies ctx = [])"

lemma set_remove_nth: "set (remove_nth i xs) \<subseteq> set xs"
  unfolding remove_nth_def using set_take_subset [of i xs] set_drop_subset [of "Suc i" xs] by auto

lemma clean_step:
  assumes "clean_pool p" "case e of LoginEnds i ok \<Rightarrow> ok | _ \<Rightarrow> True"
  shows "clean_pool (login_step e p)"
proof (cases e)
  case (AskLogin d pg)
  then show ?thesis using assms by (auto simp: login_step_def acquire_def clean_pool_def split: list.splits)
next
  case (LoginEnds i ok)
  then have "ok" using assms(2) by simp
  with LoginEnds assms(1) show ?thesis
    using set_remove_nth [of i "bp_busy p"]
    by (auto simp: login_step_def login_ends_def clean_pool_def release_ctx_def Let_def split_beta split: list.splits)
qed

definition own_cookies :: "deployment_row \<times> page_env \<times> (string + captured_session) \<Rightarrow> bool" where
  "own_cookies x = (case x of (d, pg, r) \<Rightarrow>
     (case r of Inl _ \<Rightarrow> True
      | Inr c \<Rightarrow> set (map fst (cp_cookies c)) \<subseteq> set (map fst (pg_sets pg)) \<and> cp_user_agent c = AIPANEL_UA))"

lemma set_cookies_names:
  "(s, n, v) \<in> set (fold (set_cookie base) xs cs) \<Longrightarrow> (s, n, v) \<in> set cs \<or> n \<in> set (map fst xs)"
proof (induction xs arbitrary: cs)
  case (Cons x xs)
  from Cons.IH [of "set_cookie base x cs"] Cons.prems show ?case
    by (cases x) (auto simp: set_cookie_def)
qed simp

lemma jar_names: "k \<in> set (map fst (cookie_jar base ctx)) \<Longrightarrow> \<exists>s v. (s, k, v) \<in> set (bc_cookies ctx)"
proof -
  have "k \<in> fst ` set (fold (\<lambda>(s, n, v) d. AList.update n v d) cs d) \<Longrightarrow> k \<in> fst ` set d \<or> (\<exists>s v. (s, k, v) \<in> set cs)"
    for cs :: "cookie list" and d :: "string dict"
  proof (induction cs arbitrary: d)
    case (Cons c cs)
    obtain s n v where c: "c = (s, n, v)" by (metis prod_cases3)
    from Cons.IH [of "AList.update n v d"] Cons.prems c show ?case
      by (auto simp: AList.dom_update)
  qed simp
  then show "k \<in> set (map fst (cookie_jar base ctx)) \<Longrightarrow> \<exists>s v. (s, k, v) \<in> set (bc_cookies ctx)"
    unfolding cookie_jar_def set_map by fastforce
qed

lemma parse_agent_page_cookies: "parse_agent_page html jar = Inr c \<Longrightarrow> cp_cookies c = jar"
  by (auto simp: parse_agent_page_def split: if_splits option.splits)

lemma login_once_own:
  assumes "bc_cookies ctx = []"
  shows "own_cookies (d, pg, fst (login_once pg d ctx))"
proof (cases "fst (login_once pg d ctx)")
  case (Inl e)
  then show ?thesis by (simp add: own_cookies_def)
next
  case (Inr c)
  then obtain base html c' where "base_url_from (dp_web_url d) = Some base"
    and c': "parse_agent_page html (cookie_jar base (visit base pg ctx)) = Inr c'" "c = c'\<lparr>cp_user_agent := AIPANEL_UA\<rparr>"
    by (auto simp: login_once_def Let_def split: if_splits option.splits sum.splits)
  have "set (map fst (cookie_jar base (visit base pg ctx))) \<subseteq> set (map fst (pg_sets pg))"
  proof
    fix k assume "k \<in> set (map fst (cookie_jar base (visit base pg ctx)))"
    then obtain s v where "(s, k, v) \<in> set (fold (set_cookie base) (pg_sets pg) [])"
      using jar_names [of k base "visit base pg ctx"] assms by (auto simp: visit_def)
    then show "k \<in> set (map fst (pg_sets pg))" using set_cookies_names by fastforce
  qed
  then show ?thesis
    using Inr c' parse_agent_page_cookies [OF c'(1)] by (simp add: own_cookies_def)
qed

lemma own_step:
  assumes "clean_pool p" "list_all own_cookies (bp_results p)"
  shows "list_all own_cookies (bp_results (login_step e p))"
proof (cases e)
  case (AskLogin d pg)
  then show ?thesis using assms by (simp add: login_step_def acquire_def split: list.split)
next
  case (LoginEnds i ok)
  show ?thesis
  proof (cases "i < length (bp_busy p)")
    case True
    obtain d pg ctx where b: "bp_busy p ! i = (d, pg, ctx)" by (metis prod_cases3)
    then have "bc_cookies ctx = []"
      using assms(1) True nth_mem [of i "bp_busy p"] by (fastforce simp: clean_pool_def)
    then show ?thesis
      using assms(2) LoginEnds True b login_once_own [of ctx d pg]
      by (simp add: login_step_def login_ends_def split_beta release_ctx_def Let_def split: list.split)
  qed (use assms LoginEnds in \<open>simp add: login_step_def login_ends_def\<close>)
qed

fun clears :: "login_event \<Rightarrow> bool" where
  "clears (AskLogin d pg) = True"
| "clears (LoginEnds i ok) = ok"

lemma clean_own_run:
  "list_all clears es \<Longrightarrow> clean_pool (login_run es (bp_start n)) \<and> list_all own_cookies (bp_results (login_run es (bp_start n)))"
proof (induction es rule: rev_induct)
  case Nil
  then show ?case by (simp add: login_run_def bp_start_def clean_pool_def)
next
  case (snoc e es)
  let ?p = "login_run es (bp_start n)"
  have step: "login_run (es @ [e]) (bp_start n) = login_step e ?p"
    by (simp add: login_run_def)
  have "case e of LoginEnds i ok \<Rightarrow> ok | _ \<Rightarrow> True" using snoc.prems by (cases e) simp_all
  then show ?case
    unfolding step using snoc clean_step own_step by simp
qed


section \<open>The client of a captured session\<close>

text \<open>\<open>ViciHttp\<close>: the client keeps the cookies of the login, for the site of the deployment and under the browser's
  name; answers may set others. \<open>refresh_cookies\<close> is the snapshot of its jar.\<close>

record vici_http_client =
  vh_base :: string
  vh_jar :: "(string \<times> string) list"
  vh_user_agent :: string

definition vici_http :: "deployment_row \<Rightarrow> captured_session \<Rightarrow> vici_http_client option" where
  "vici_http d c =
     map_option (\<lambda>base. \<lparr>vh_base = base, vh_jar = cp_cookies c,
         vh_user_agent = (if cp_user_agent c = [] then ''aipanel-session-mgr/0.6'' else cp_user_agent c)\<rparr>)
       (base_url_from (dp_web_url d))"

definition refresh_cookies :: "vici_http_client \<Rightarrow> string dict" where
  "refresh_cookies v = fold (\<lambda>(n, x) d. AList.update n x d) (filter (\<lambda>(n, x). n \<noteq> []) (vh_jar v)) []"

lemma login_once_client:
  assumes "fst (login_once pg d ctx) = Inr c"
  shows "\<exists>v. vici_http d c = Some v \<and> vh_jar v = cp_cookies c \<and> vh_user_agent v = AIPANEL_UA"
  using assms
  by (auto simp: login_once_def vici_http_def Let_def AIPANEL_UA_def split: if_splits option.splits sum.splits)

definition demo_page :: "(string \<times> string) list \<Rightarrow> page_env" where
  "demo_page cs = \<lparr>pg_new = True, pg_goto = True, pg_fill = (\<lambda>_. True), pg_click = True, pg_press = True, pg_conf_exten = True,
     pg_content = Some ''var conf_exten = 8600051; var session_id = 77;'', pg_sets = cs\<rparr>"

definition demo_login_row :: "string \<Rightarrow> deployment_row" where
  "demo_login_row u = \<lparr>dp_deployment_id = u, dp_tenant_id = ''t'', dp_vici_server_id = ''s'', dp_web_url = ''https://vici/x'',
     dp_asterisk_host = ''h'', dp_vici_user = u, dp_vici_pass = ''p'', dp_phone_login = ''1'', dp_phone_pass = ''2'',
     dp_campaign_id = ''c'', dp_ingroups = []\<rparr>"

definition two_logins :: "bool \<Rightarrow> login_event list" where
  "two_logins ok = [AskLogin (demo_login_row ''a'') (demo_page [(''SID'', ''1'')]), AskLogin (demo_login_row ''b'') (demo_page []),
     LoginEnds 0 ok, LoginEnds 0 True]"


end
