(* ===== verification/Process_Main.thy ===== *)
theory Process_Main
  imports Call_Router Account_Manager Browser_Login Session_Supervisor Worker_Main Service_Config
begin

text \<open>
  The processes around the call services: start and shutdown of the SIP service (\<open>main.py\<close>, \<open>endpoint.py\<close>), the
  start and shutdown of the session manager (\<open>main.py\<close>) and of a worker (\<open>main.py\<close>). What Redis, PJSIP and Chromium do at
  the start is an argument, and so is what happens during each half second of a shutdown.
\<close>

section \<open>PJSIP endpoint\<close>

text \<open>\<open>_configure_codecs\<close>: the priority each codec is given, by its identifier; zero disables it.\<close>

definition wanted_priority :: "string \<Rightarrow> nat" where
  "wanted_priority cid = (if cid = ''PCMU/8000'' then 250 else if cid = ''PCMA/8000'' then 240 else 0)"

definition configure_codecs :: "string list \<Rightarrow> (string \<times> nat) list" where
  "configure_codecs ids = map (\<lambda>cid. (cid, wanted_priority cid)) ids"

definition active_codecs :: "(string \<times> nat) list \<Rightarrow> string list" where
  "active_codecs cs = map fst (filter (\<lambda>(cid, p). 0 < p) cs)"

record sip_endpoint =
  ep_started :: bool
  ep_codecs :: "(string \<times> nat) list"

definition endpoint_start :: "string list \<Rightarrow> sip_endpoint" where
  "endpoint_start codec_ids = \<lparr>ep_started = True, ep_codecs = configure_codecs codec_ids\<rparr>"

definition endpoint_shutdown :: "sip_endpoint \<Rightarrow> sip_endpoint" where
  "endpoint_shutdown ep = ep\<lparr>ep_started := False\<rparr>"

section \<open>Starting\<close>

datatype 'a started = ExitCode int | Raises | Serving 'a

text \<open>The SIP service: Redis first, then PJSIP, then the accounts.\<close>

definition sip_start :: "host \<Rightarrow> bool \<Rightarrow> bool \<Rightarrow> string list \<Rightarrow> acct_state \<Rightarrow> (sip_state \<times> acct_state \<times> sip_endpoint) started" where
  "sip_start h redis_answers pjsip_starts codec_ids accts =
     (case load_sip_config h of
        None \<Rightarrow> Raises
      | Some c \<Rightarrow>
          if \<not> redis_answers then ExitCode 2
          else if \<not> pjsip_starts then Raises
          else Serving (sip_init, accts, endpoint_start codec_ids))"

definition session_mgr_start :: "host \<Rightarrow> bool \<Rightarrow> bool \<Rightarrow> (adapter \<times> browser_pool) started" where
  "session_mgr_start h redis_answers browser_starts =
     (case load_session_mgr_config h of
        None \<Rightarrow> Raises
      | Some c \<Rightarrow>
          if require_env h ''ENCRYPTION_KEY'' = None then ExitCode 2
          else if \<not> redis_answers then ExitCode 2
          else
            (case get_adapter (attr_str c ''adapter'') of
               None \<Rightarrow> Raises
             | Some a \<Rightarrow> if browser_starts then Serving (a, bp_start (nat (attr_int c ''browser_pool_size''))) else ExitCode 2))"

text \<open>\<open>int(os.environ.get(...)) or None\<close>, which the command line overrides, which overrides the
  configuration; the worker's concurrency, and whether it has an object store.\<close>

definition worker_concurrency :: "host \<Rightarrow> int option \<Rightarrow> int option" where
  "worker_concurrency h arg =
     (case (case ho_env h ''AIPANEL_WORKER_CONCURRENCY'' of None \<Rightarrow> Some 0 | Some s \<Rightarrow> ho_int_of_str h s) of
        None \<Rightarrow> None
      | Some e \<Rightarrow>
          (case load_worker_config h of
             None \<Rightarrow> None
           | Some c \<Rightarrow>
               (let a = (case arg of Some n \<Rightarrow> n | None \<Rightarrow> e) in
                Some (if 0 < a then a else attr_int c ''concurrency''))))"

definition has_minio :: "pyval dict \<Rightarrow> bool \<Rightarrow> bool" where
  "has_minio c importable \<longleftrightarrow> attr_str c ''minio_access_key'' \<noteq> [] \<and> attr_str c ''minio_secret_key'' \<noteq> [] \<and> importable"

definition worker_start :: "host \<Rightarrow> int option \<Rightarrow> bool \<Rightarrow> int started" where
  "worker_start h arg redis_answers =
     (case worker_concurrency h arg of None \<Rightarrow> Raises | Some n \<Rightarrow> if redis_answers then Serving n else ExitCode 2)"

section \<open>Shutting the SIP service down\<close>

text \<open>The drain: while calls are left and the time is not over, half a second passes, and \<open>evs k\<close> happens
  in it, which takes \<open>late k\<close> milliseconds more.\<close>

function sip_drain ::
  "string \<Rightarrow> (nat \<Rightarrow> sip_event list) \<Rightarrow> (nat \<Rightarrow> nat) \<Rightarrow> nat \<Rightarrow> nat \<Rightarrow> nat \<Rightarrow> sip_state \<Rightarrow> sip_state \<times> nat" where
  "sip_drain rd evs late limit_ms elapsed k s =
     (if 0 < active_count s \<and> elapsed < limit_ms
      then sip_drain rd evs late limit_ms (elapsed + 500 + late k) (Suc k) (run_sip rd (evs k) s)
      else (s, k))"
  by pat_completeness auto
termination by (relation "measure (\<lambda>(rd, evs, late, limit_ms, elapsed, k, s). limit_ms - elapsed)") auto

declare sip_drain.simps [simp del]

text \<open>\<open>_shutdown\<close>: \<open>ok\<close> says which BYEs PJSIP takes, \<open>after\<close> what happens in the second after them. A second
  signal finds the flag set.\<close>

definition accounts_stop :: "acct_state \<Rightarrow> acct_state" where
  "accounts_stop a = a\<lparr>am_stopped := True\<rparr>"

definition sip_shutdown ::
  "string \<Rightarrow> (nat \<Rightarrow> sip_event list) \<Rightarrow> (nat \<Rightarrow> nat) \<Rightarrow> nat \<Rightarrow> (uuid \<Rightarrow> bool) \<Rightarrow> sip_event list \<Rightarrow>
     sip_state \<times> acct_state \<times> sip_endpoint \<Rightarrow> sip_state \<times> acct_state \<times> sip_endpoint" where
  "sip_shutdown rd evs late limit_ms ok after st =
     (case st of (s, a, ep) \<Rightarrow>
        if ss_shutting_down s then st
        else
          (let s1 = sip_step rd ShutdownSignal s;
               (s2, k) = sip_drain rd evs late limit_ms 0 0 s1;
               s3 = (if 0 < active_count s2 then run_sip rd after (sip_step rd (HangupAll ok) s2) else s2)
           in (s3, accounts_stop (unregister_all a), endpoint_shutdown ep)))"

section \<open>No call begins during a shutdown\<close>

lemma fold_responses [simp]:
  "ss_shutting_down (reject iv c r s) = ss_shutting_down s" "ss_calls (reject iv c r s) = ss_calls s"
  by (simp_all add: reject_def)

lemma media_state_fields:
  "ss_shutting_down (on_call_media_state i ms att h cid s) = ss_shutting_down s"
  "set (ss_byes s) \<subseteq> set (ss_byes (on_call_media_state i ms att h cid s))"
  by (induction i ms att h cid s rule: on_call_media_state.induct) (auto simp: set_object_def Let_def split: option.splits)

lemma closing_step:
  assumes "ss_shutting_down s"
  shows "ss_shutting_down (sip_step rd e s) \<and> set (ss_calls (sip_step rd e s)) \<subseteq> set (ss_calls s) \<and>
     set (ss_byes s) \<subseteq> set (ss_byes (sip_step rd e s))"
  by (cases e)
    (use assms in \<open>auto simp: handle_invite_def on_call_state_def calls_pop_def hangup_all_def worker_initiated_hangup_def
      on_disconnected_def on_dtmf_digit_def reject_def set_object_def Let_def media_state_fields(1) on_call_media_state_fields
      dest: subsetD [OF media_state_fields(2)]
      split: option.splits if_splits\<close>)

lemma closing_run:
  "ss_shutting_down s \<Longrightarrow> ss_shutting_down (run_sip rd es s) \<and> set (ss_calls (run_sip rd es s)) \<subseteq> set (ss_calls s) \<and>
     set (ss_byes s) \<subseteq> set (ss_byes (run_sip rd es s))"
proof (induction es arbitrary: s)
  case (Cons e es)
  have c: "run_sip rd (e # es) s = run_sip rd es (sip_step rd e s)" by (simp add: run_sip_def)
  have e: "ss_shutting_down (sip_step rd e s)" "set (ss_calls (sip_step rd e s)) \<subseteq> set (ss_calls s)"
    "set (ss_byes s) \<subseteq> set (ss_byes (sip_step rd e s))"
    using closing_step [OF Cons.prems] by blast+
  show ?case unfolding c using Cons.IH [OF e(1)] e by blast
qed (simp add: run_sip_def)

lemma sip_drain_spec:
  assumes "ss_shutting_down s" "sip_drain rd evs late limit_ms elapsed k s = (s', k')"
  shows "ss_shutting_down s' \<and> set (ss_calls s') \<subseteq> set (ss_calls s) \<and> k \<le> k' \<and> 500 * (k' - k) < limit_ms - elapsed + 500"
  using assms
proof (induction rd evs late limit_ms elapsed k s rule: sip_drain.induct)
  case (1 rd evs late limit_ms elapsed k s)
  show ?case
  proof (cases "0 < active_count s \<and> elapsed < limit_ms")
    case False
    then have "(s', k') = (s, k)" using 1(3) by (subst (asm) sip_drain.simps) auto
    then show ?thesis using 1(2) by simp
  next
    case True
    let ?s = "run_sip rd (evs k) s"
    have c: "ss_shutting_down ?s" "set (ss_calls ?s) \<subseteq> set (ss_calls s)"
      using closing_run [OF 1(2)] by blast+
    have "sip_drain rd evs late limit_ms (elapsed + 500 + late k) (Suc k) ?s = (s', k')"
      using 1(3) True by (subst (asm) sip_drain.simps) simp
    note ih = 1(1) [OF True c(1) this]
    then obtain m where m: "k' = Suc k + m" using le_Suc_ex by blast
    have "500 * (k' - k) < limit_ms - elapsed + 500"
    proof -
      have "500 * m < limit_ms - (elapsed + 500 + late k) + 500" "elapsed < limit_ms"
        using ih True m by auto
      moreover obtain x where x: "limit_ms = elapsed + x" using True less_imp_le_nat le_Suc_ex by blast
      ultimately have "500 * m < x - (500 + late k) + 500" "0 < x" by simp_all
      then show ?thesis by (cases "500 + late k \<le> x") (simp_all add: m x)
    qed
    with ih c(2) show ?thesis by auto
  qed
qed



section \<open>Shutting the session manager down\<close>

text \<open>The heartbeats end first, then every worker is stopped.\<close>

definition session_mgr_shutdown :: "sw_env \<Rightarrow> sess_sup \<Rightarrow> sess_sup" where
  "session_mgr_shutdown env s = stop_all env (s\<lparr>ss_beats := []\<rparr>)"

lemma on_each_worker:
  assumes "distinct as" "\<forall>a\<in>set as. a < length (ss_objs s)"
  shows "(\<forall>a\<in>set as. \<exists>r. ss_objs (fold (on_worker f) as s) ! a = f ((ss_objs s ! a)\<lparr>w_redis := r\<rparr>)) \<and>
    (\<forall>b. b \<notin> set as \<longrightarrow> ss_objs (fold (on_worker f) as s) ! b = ss_objs s ! b)"
  using assms
proof (induction as arbitrary: s)
  case (Cons a as)
  let ?s = "on_worker f a s"
  have ih: "\<forall>c\<in>set as. \<exists>r. ss_objs (fold (on_worker f) as ?s) ! c = f ((ss_objs ?s ! c)\<lparr>w_redis := r\<rparr>)"
    "\<forall>b. b \<notin> set as \<longrightarrow> ss_objs (fold (on_worker f) as ?s) ! b = ss_objs ?s ! b"
    using Cons.IH [of ?s] Cons.prems by auto
  have other: "c \<noteq> a" if "c \<in> set as" for c using Cons.prems(1) that by auto
  obtain r where "ss_objs ?s ! a = f ((ss_objs s ! a)\<lparr>w_redis := r\<rparr>)"
    using on_worker_at [of a s f] Cons.prems(2) by auto
  moreover have "a \<notin> set as" using Cons.prems(1) by simp
  ultimately show ?case using ih other by auto
qed simp

lemma on_each_worker_beats: "ss_beats (fold (on_worker f) as s) = ss_beats s"
  by (induction as arbitrary: s) simp_all



section \<open>Shutting a worker down\<close>

text \<open>The drain of a worker: \<open>finished\<close> are the calls that end in time; the others are cancelled, and the
  \<open>finally\<close> of each gives its reservation and its permit back.\<close>

definition worker_drain :: "string list \<Rightarrow> worker \<times> string set \<Rightarrow> worker \<times> string set" where
  "worker_drain finished wks =
     (let s1 = fold call_done finished ((fst wks)\<lparr>wk_shutting_down := True\<rparr>, snd wks)
      in fold call_done (wk_active (fst s1)) s1)"

lemma calls_done:
  assumes "distinct xs" "set xs \<subseteq> set (wk_active w)"
  shows "fold call_done xs (w, keys) =
    (w\<lparr>wk_permits := wk_permits w + length xs, wk_active := fold remove1 xs (wk_active w)\<rparr>, keys - set xs)"
  using assms
proof (induction xs arbitrary: w keys)
  case (Cons x xs)
  let ?w = "w\<lparr>wk_permits := Suc (wk_permits w), wk_active := remove1 x (wk_active w)\<rparr>"
  have "set xs \<subseteq> set (wk_active ?w)" proof
    fix y assume "y \<in> set xs"
    then have "y \<noteq> x" "y \<in> set (wk_active w)" using Cons.prems by auto
    then show "y \<in> set (wk_active ?w)" by simp
  qed
  moreover have "distinct xs" using Cons.prems(1) by simp
  ultimately have rest: "fold call_done xs (?w, keys - {x}) =
      (?w\<lparr>wk_permits := wk_permits ?w + length xs, wk_active := fold remove1 xs (wk_active ?w)\<rparr>, keys - {x} - set xs)"
    by (intro Cons.IH)
  have first: "call_done x (w, keys) = (?w, keys - {x})" by (simp add: call_done_def release_def)
  have "keys - {x} - set xs = keys - set (x # xs)" by auto
  then show ?case by (simp only: fold_Cons o_apply first rest) simp
qed simp

lemma remove1_each:
  "distinct ys \<Longrightarrow> distinct (fold remove1 xs ys) \<and> set (fold remove1 xs ys) = set ys - set xs"
proof (induction xs arbitrary: ys)
  case (Cons x xs)
  from Cons.IH [of "remove1 x ys"] Cons.prems show ?case by (auto simp: set_remove1_eq)
qed simp

text \<open>After it no call of the worker is left, all permits are back and no reservation of its calls stays.\<close>

lemma worker_drain_releases:
  assumes "worker_inv n w" "distinct finished" "set finished \<subseteq> set (wk_active w)"
  shows "worker_drain finished (w, keys) =
    (w\<lparr>wk_shutting_down := True, wk_permits := n, wk_active := []\<rparr>, keys - set (wk_active w))"
proof -
  let ?rest = "fold remove1 finished (wk_active w)"
  have d: "distinct (wk_active w)" "wk_permits w + length (wk_active w) = n"
    using assms(1) by (simp_all add: worker_inv_def)
  have rest: "distinct ?rest" "set ?rest = set (wk_active w) - set finished"
    using remove1_each [OF d(1), of finished] by simp_all
  have "length ?rest = card (set (wk_active w) - set finished)" using rest by (metis distinct_card)
  moreover have "length finished \<le> length (wk_active w)"
    using card_mono [OF finite_set assms(3)] assms(2) d(1) by (simp add: distinct_card)
  ultimately have len: "length finished + length ?rest = length (wk_active w)"
    using assms(2,3) d(1) by (simp add: card_Diff_subset distinct_card)
  have none: "fold remove1 ?rest ?rest = []"
    using remove1_each [OF rest(1), of ?rest] by simp
  have keys: "keys - set finished - set ?rest = keys - set (wk_active w)" using rest(2) assms(3) by auto
  show ?thesis
    using assms(2,3) rest(1) len none keys d(2)
    by (simp add: worker_drain_def calls_done Let_def add.assoc)
qed

section \<open>Codecs\<close>

text \<open>PJSIP names a codec by encoding, clock rate and number of channels. None of these names is in the
  table of the endpoint, so that every codec is disabled.\<close>

definition pjsip_name :: "string \<Rightarrow> string \<Rightarrow> string \<Rightarrow> string" where
  "pjsip_name encoding rate channels = encoding @ ''/'' @ rate @ ''/'' @ channels"

lemma slashes: "length (filter (\<lambda>c. c = CHR ''/'') (pjsip_name e r ch)) \<ge> 2"
  by (simp add: pjsip_name_def)

lemma no_codec_left:
  assumes "\<forall>cid\<in>set ids. \<exists>e r ch. cid = pjsip_name e r ch"
  shows "active_codecs (ep_codecs (endpoint_start ids)) = []"
proof -
  have "wanted_priority cid = 0" if "cid \<in> set ids" for cid
  proof -
    have "2 \<le> length (filter (\<lambda>c. c = CHR ''/'') cid)" using assms that slashes by metis
    then show ?thesis by (auto simp: wanted_priority_def)
  qed
  then show ?thesis
    by (auto simp: endpoint_start_def configure_codecs_def active_codecs_def filter_empty_conv)
qed

end
