(* ===== verification/Spec2Isabelle.thy ===== *)
theory Spec2Isabelle
  imports Audio_Bridge Call_Router Account_Manager Session_Api Panel_Worker Panel_Cluster
    Panel_Analytics Panel_Live Panel_Updates Stt_Streaming Panel_System Tts_Streams Process_Main
begin

text \<open>
  aipanel runs voice agents on the phone lines of a ViciDial call centre. This development models its
  Python services, the three that handle a call, the four model servers and the panel's backend, and
  proves what they promise their users and each other.

  \<^bold>\<open>The program.\<close> The SIP service (\<open>sip/\<close>) registers one account per deployment with PJSIP,
  answers INVITEs, publishes a worker request to a Redis stream and bridges RTP audio to a worker
  over a unix socket. A worker (\<open>workers/\<close>) takes a request, connects to the socket, transcribes
  the caller, talks to a language model whose tools dispose of the call, speaks its answers,
  records and reports. The session manager (\<open>session-mgr/\<close>) keeps one agent session logged in to
  ViciDial per active deployment and offers it to the workers over HTTP. Behind the workers are the
  servers for recognition (\<open>stt-server/\<close>), synthesis (\<open>tts-server/\<close>), the language model
  (\<open>llm-server/\<close>) and embeddings (\<open>embed-server/\<close>). In the panel (\<open>panel/backend/\<close>) the users of a tenant
  edit agents, voices, knowledge bases, campaigns and deployments; its rows are what a worker reads
  when a call begins.

  \<^bold>\<open>The theories.\<close>
  \<^item> \<open>Prelude\<close>: bytes, dictionaries, JSON values, the string functions of Python's library.
    \<open>Bounded_Queue\<close>: the drop-oldest queue as a locale, interpreted on the audio queues.
  \<^item> \<open>Wire\<close>: the frame codec of both sides (\<open>audio_bridge.py\<close>, \<open>sip_protocol.py\<close>) over a socket
    that segments the byte stream at will.
  \<^item> \<open>Audio_Bridge\<close> (\<open>audio_bridge.py\<close>), \<open>Header_Parser\<close> (\<open>header_parser.py\<close>), \<open>Call_Router\<close>
    (\<open>call_handler.py\<close>, \<open>worker_dispatcher.py\<close>, \<open>models.py\<close>) and \<open>Account_Manager\<close>
    (\<open>account_manager.py\<close>): the SIP service.
  \<^item> \<open>Worker_Main\<close> (\<open>main.py\<close>), \<open>Call_Session\<close> (\<open>call_session.py\<close>), \<open>Prompt_Builder\<close>
    (\<open>prompt_builder.py\<close>), \<open>Methodologies\<close> (\<open>methodologies.py\<close>), \<open>Conversation\<close>
    (\<open>conversation.py\<close>), \<open>Tools\<close> (\<open>tools.py\<close>, \<open>vici_client.py\<close>, \<open>kb_search.py\<close>), \<open>Humanize\<close>
    (\<open>humanize.py\<close>, \<open>barge_in.py\<close>), \<open>Worker_Audio\<close> (\<open>audio_in.py\<close>, \<open>audio_out.py\<close>), \<open>Recorder\<close>
    (\<open>recorder.py\<close>) and \<open>Transcript\<close> (\<open>transcript_writer.py\<close>): the worker.
  \<^item> \<open>Vici_Models\<close> (\<open>models.py\<close>), \<open>Vici_Adapter\<close> (\<open>adapters/\<close>, \<open>http_session.py\<close>),
    \<open>Session_Worker\<close> (\<open>session_worker.py\<close>), \<open>Browser_Login\<close> (\<open>login.py\<close>, the client of
    \<open>http_session.py\<close>), \<open>Session_Supervisor\<close> (\<open>session_supervisor.py\<close>, \<open>heartbeat.py\<close>) and
    \<open>Session_Api\<close> (\<open>api.py\<close>): the session manager.
  \<^item> \<open>Stt_Streaming\<close> (\<open>streaming.py\<close>) and \<open>Model_Servers\<close> (\<open>main.py\<close>, \<open>model_loader.py\<close>,
    \<open>transcribe.py\<close>; \<open>embed-server/\<close> with the panel's client): recognition and embeddings.
    \<open>Llm_Gateway\<close> (\<open>launcher.py\<close>, \<open>main.py\<close>): the proxy in front of vLLM. \<open>Tts_Codec\<close>
    (\<open>audio_codec.py\<close>), \<open>Tts_Server\<close> (\<open>backends/\<close>, \<open>cloner.py\<close>, \<open>voice_store.py\<close>, \<open>synthesizer.py\<close>,
    \<open>voice_clone_job.py\<close>) and \<open>Tts_Streams\<close> (its producers and responses): synthesis.
  \<^item> \<open>Panel_Db\<close> (\<open>db/\<close>, \<open>audit_service.py\<close>, \<open>crypto.py\<close>), \<open>Panel_Auth\<close> (\<open>auth/\<close>), \<open>Panel_Tenants\<close>,
    \<open>Agent_Dsl\<close> (\<open>schemas/agent_dsl.py\<close>), \<open>Panel_Content\<close> (agents, voices, knowledge bases, servers),
    \<open>Panel_Campaigns\<close>, \<open>Panel_Deployments\<close>, \<open>Panel_Isolation\<close> and \<open>Panel_Api\<close> (all routes of a tenant's
    content together), \<open>Panel_Analytics\<close>, \<open>Panel_Live\<close> (\<open>events/\<close>), \<open>Panel_Updates\<close>, \<open>Panel_Cluster\<close>,
    \<open>Sales_Lib\<close>, \<open>Kb_Ingest\<close> (\<open>kb_ingest_job.py\<close>) and \<open>Panel_System\<close> (\<open>system.py\<close>, \<open>main.py\<close>,
    \<open>arq_worker.py\<close>): the panel. \<open>Panel_Worker\<close>: from its rows to the worker's call.
  \<^item> \<open>Service_Config\<close>: the \<open>config.py\<close> of all services and the file the installer writes.
    \<open>Process_Main\<close>: start and shutdown of the call services (\<open>main.py\<close>, \<open>endpoint.py\<close>).
  \<^item> This theory: the properties across the call services. An INVITE becomes the job of a worker; the
    worker's tools meet the API of the session manager.

  \<^bold>\<open>Correspondence.\<close> A class is a record of its attributes, a method a function on it with the
  method's name (prefixed where two classes share one); a Python exception is a value of an error
  type; concurrency is an explicit sequence of atomic steps between two suspension points, chosen
  by the environment. A route of the panel is a \<open>handler\<close>: it reads and changes the uncommitted rows,
  \<open>with_session\<close> commits or rolls back, and jobs, objects and requests to other services are its
  effects. Awaited calls of a session worker are one step; \<open>sx_stop_wait\<close> and \<open>sx_stop_login\<close> add
  the one interleaving that matters there. A dictionary is an association list in insertion order, a
  float a rational, int16 samples and frame lengths words; characters are code points below 256.

  \<^bold>\<open>Parameters.\<close> What other programs and libraries do is an argument, with its documented failures
  among its values: PJSIP, Redis, ViciDial, the pages of the browser, git and \<open>update.sh\<close>, Whisper and
  the voice detector, F5 and Kokoro, the sentence encoder, vLLM, soundfile and numpy's interpolation,
  random draws and the clock. The tables of Postgres are lists of rows with the constraints of their
  schema. Where a property needs more of a library it is a named law, each with an instance in a
  witness: \<open>jwt_law\<close> (PyJWT decodes what it encoded), \<open>px_law\<close> (pydantic keeps a value of the field's
  own type), \<open>encoder_law\<close> (one vector for each text). jinja2 is used as documented on the default template.

  \<^bold>\<open>The lemmas.\<close> Each theory first defines, then proves the invariants its operations keep
  (\<open>inv_intros\<close>), then the properties. Interfaces are locales, each interpreted on the code's
  own definitions: the bounded queue, the frame codec, the contract of a tool, the contract of a ViciDial
  adapter, a table with a tenant column. Step relations are inductive (\<open>session_step\<close>, \<open>fleet_step\<close>,
  \<open>sup_step\<close>), with invariants by rule induction over reachable states; the bridge, the SIP process,
  the gateway, the pool of synthesis threads, the browser contexts and the update runs are folds of a
  step function over any list of events. What handlers keep (\<open>keeps\<close>: the rows of other tenants;
  \<open>types\<close>: the form of agents and campaigns) is proved by rules that follow how they are composed.
  Across components: the INVITE and the job (this theory), the panel's rows and the prompt of a call
  (\<open>Panel_Worker\<close>), the text of the synthesis server and the playout of the worker (\<open>Tts_Server\<close>), the
  chunks of a document and the limits of the embedding server (\<open>Model_Servers\<close>), the health pages and
  the panel's (\<open>Panel_System\<close>), one configuration file and eight loaders (\<open>Service_Config\<close>).

  \<^bold>\<open>Bounds.\<close> All loops of the code are structural recursions over what happens, or terminate by a
  measure (the bytes missing in \<open>recv_loop\<close>, the time left in \<open>sip_drain\<close> and \<open>wait_ready\<close>, the text left
  in the sentence splitters); the readers of whole frame sequences take a bound on the number of
  frames, and any number above that of the frames sent is enough. The queue bounds (50, 200 and 16
  entries, 1024 lines of an update), the 50-event and 32-chunk batches, chunks of 380 tokens with an
  overlap of 60, slices of 1920 samples, the keep-alive of 15 seconds, the drains of 30 seconds and the
  retry and backoff schedules are those of the code.

  \<^bold>\<open>Not modelled.\<close> Logging, metrics and GPU figures; TOML, HTTP and WebSocket parsing, which are the
  libraries'; the connection set-up of the worker's recogniser socket; screenshots of failed logins;
  prompt templates other than the default; database migrations and the seed scripts under \<open>dev/\<close>; the
  TypeScript frontend and the shell scripts of the installer.
\<close>

section \<open>From the INVITE to the worker's job\<close>

lemma race_stream: "ss_stream (race_step cid r s) = ss_stream s"
  by (cases r) (auto simp: worker_initiated_hangup_def on_call_state_def on_disconnected_def calls_pop_def Let_def
      split: prod.splits option.splits)

lemma races_stream: "ss_stream (fold (race_step cid) rs s) = ss_stream s"
  by (induction rs arbitrary: s) (simp_all add: race_stream)

definition opt_value :: "string option \<Rightarrow> pyval" where
  "opt_value v = (case str_or_none v of None \<Rightarrow> PNone | Some s \<Rightarrow> PStr s)"

lemma opt_or_value: "py_or (PStr (opt_str_or v [])) PNone = opt_value v"
  by (cases v) (auto simp: opt_value_def str_or_none_def opt_str_or_def py_or_def split: list.splits)

lemma job_of_request:
  "from_payload loads rp (decode_stream_fields (request_payload ctx)) = Inr
     \<lparr>cj_call_id = cx_call_id ctx, cj_deployment_id = cx_deployment_id ctx,
      cj_sip_socket_path = cx_socket_path ctx, cj_vici_uniqueid = opt_value (cx_vici_uniqueid ctx),
      cj_vici_lead_id = opt_value (cx_vici_lead_id ctx), cj_phone_number = opt_value (cx_vici_phone ctx),
      cj_campaign = opt_value (cx_vici_campaign ctx)\<rparr>"
  by (simp add: from_payload_def decode_stream_fields_def request_payload_def job_of_dict_def get_first_def
      dget_def opt_or_value) (simp add: py_or_def)

text \<open>
  C1: an answered INVITE leaves in the request stream an entry that any worker decodes to a valid
  job for this very call: the call id, the account's deployment, the socket the bridge listens
  on, and lead, unique id, phone number and campaign exactly as the headers of the INVITE
  gave them, empty ones as None.
\<close>

theorem invite_becomes_job:
  assumes "handle_invite rd iv s = (IvAnswered, s')"
  shows "\<exists>fields. ss_stream s' = ss_stream s @ [fields] \<and>
    from_payload loads rp (decode_stream_fields fields) = Inr
     \<lparr>cj_call_id = iv_call_id iv, cj_deployment_id = sa_deployment_id (iv_account iv),
      cj_sip_socket_path = rd @ ''/'' @ iv_call_id iv @ ''.sock'',
      cj_vici_uniqueid = opt_value (map_of (parse_headers (opt_str_or (iv_raw_msg iv) [])) ''vici_uniqueid''),
      cj_vici_lead_id = opt_value (map_of (parse_headers (opt_str_or (iv_raw_msg iv) [])) ''vici_lead_id''),
      cj_phone_number = opt_value (map_of (parse_headers (opt_str_or (iv_raw_msg iv) [])) ''vici_phone''),
      cj_campaign = opt_value (map_of (parse_headers (opt_str_or (iv_raw_msg iv) [])) ''vici_campaign'')\<rparr>"
proof -
  have "ss_stream s' = ss_stream s @ [request_payload (invite_context rd iv)]"
    using handle_invite_answered_state [OF assms] by (auto simp: calls_add_def races_stream)
  then show ?thesis by (simp add: job_of_request) (simp add: invite_context_def Let_def)
qed

theorem invite_becomes_job_witness:
  "length (ss_stream (snd (handle_invite ''/run'' (demo_invite []) sip_init))) = 1"
proof -
  obtain s' where r: "handle_invite ''/run'' (demo_invite []) sip_init = (IvAnswered, s')"
    using demo_answered [of "''/run''" "[]"] by (metis prod.collapse)
  then obtain f where f: "ss_stream s' = ss_stream sip_init @ [f]"
    using invite_becomes_job [OF r, of "\<lambda>_. None" "\<lambda>_. []"] by blast
  have "ss_stream sip_init = []" by (simp add: sip_init_def)
  with f show ?thesis by (simp add: r)
qed

section \<open>The worker's tools against the session manager's API\<close>

text \<open>The HTTP call in between: the worker's client sends JSON bodies and sets no header of its
  own, so that \<open>tok\<close> is None; the reply is whatever the API answers in its present state.\<close>

definition worker_request :: "string option \<Rightarrow> string \<Rightarrow> string \<Rightarrow> pyval dict \<Rightarrow> api_req" where
  "worker_request tok meth path body =
     \<lparr>rq_method = meth, rq_path = path, rq_token = tok, rq_query = [],
      rq_body = (if meth = ''POST'' then Some (PDict body) else None)\<rparr>"

fun reply_of :: "api_resp \<Rightarrow> http_reply" where
  "reply_of (Resp status v) = HttpReply status (Some v)"

definition api_behind :: "api_env \<Rightarrow> sess_sup \<Rightarrow> string option \<Rightarrow> tool_env \<Rightarrow> bool" where
  "api_behind env smgr tok tenv \<longleftrightarrow>
     (\<forall>n meth path body. te_http tenv n meth path body = reply_of (fst (api_handle env (worker_request tok meth path body) smgr)))"

lemma vici_post_status:
  assumes "vc_enabled vc" "vc_open vc" "api_behind env smgr tok tenv"
  shows "fst (vici_post tenv path body vc s) =
     is_success (resp_status (fst (api_handle env (worker_request tok ''POST'' path body) smgr)))"
  using assms by (cases "fst (api_handle env (worker_request tok ''POST'' path body) smgr)")
    (simp add: vici_post_def http_send_def api_behind_def)

text \<open>
  the worker's client never authenticates: with the header it does not send, every POST of its
  tools is refused and the session manager does nothing, whichever of the two sides' routes is
  called; a transfer, a callback and the final disposition of a call are all lost.
\<close>

lemma worker_posts_refused:
  assumes "api_behind env smgr None tenv" and "ae_auth_token env \<noteq> []" and "vc_enabled vc" and "vc_open vc"
    and "path \<noteq> ''/health''" and "path \<noteq> ''/metrics''"
  shows "fst (vici_post tenv path body vc s) = False \<and>
    snd (api_handle env (worker_request None ''POST'' path body) smgr) = smgr"
proof -
  have "\<not> token_ok env (worker_request None ''POST'' path body)"
    using assms(2) by (auto simp: token_ok_def worker_request_def)
  from api_unauthorised [OF this, of smgr] assms(5,6) show ?thesis
    unfolding vici_post_status [OF assms(3,4,1)] by (auto simp: worker_request_def is_success_def)
qed

definition demo_behind :: tool_env where
  "demo_behind = \<lparr>te_http = (\<lambda>n meth path body. reply_of (fst (api_handle (demo_api Failed)
     (worker_request None meth path body) demo_live))), te_loads = (\<lambda>_. Inl ''x''), te_repr = (\<lambda>_. [])\<rparr>"

lemma demo_behind: "api_behind (demo_api Failed) demo_live None demo_behind"
  by (simp add: api_behind_def demo_behind_def)

lemma worker_posts_refused_witness:
  "\<not> fst (post_disposition demo_behind ''c'' PNone ''SALE'' PNone (tc_vici demo_ctx) \<lparr>ts_requests = [], ts_transcript = []\<rparr>)"
  using worker_posts_refused [OF demo_behind, of "tc_vici demo_ctx" "''/api/vici/disposition''"
      "[(''call_id'', PStr ''c''), (''vici_uniqueid'', PNone), (''dispo_code'', PStr ''SALE''), (''notes'', PNone)]"
      "\<lparr>ts_requests = [], ts_transcript = []\<rparr>"]
  by (simp add: post_disposition_def demo_api_def demo_ctx_def)

text \<open>
  C40: the do-not-call promise is not kept: the tool tells the caller they are on the list although
  the session manager refused the request, with the right token as without one, because the
  route wants a deployment the client never names.
\<close>

theorem dnc_promise_not_kept:
  assumes "api_behind env smgr tok tenv" and "vc_enabled (tc_vici ctx)" and "vc_open (tc_vici ctx)"
  shows "(\<exists>extra. fst (t_dnc tenv (PDict d) ctx s) = Inr (terminal ''mark_dnc''
      (''Understood '' @ em_dash @ '' I'' @ apostrophe @ ''ve added you to our do-not-call list. Have a good day.'')
      ''DNC'' extra)) \<and>
    fst (mark_dnc tenv (tc_vici_lead_id ctx) (dget_or d ''reason'' (PStr [])) (tc_vici ctx) s) = False \<and>
    snd (api_handle env (worker_request tok ''POST'' ''/api/vici/dnc''
      [(''vici_lead_id'', tc_vici_lead_id ctx), (''reason'', dget_or d ''reason'' (PStr []))]) smgr) = smgr"
proof -
  let ?body = "[(''vici_lead_id'', tc_vici_lead_id ctx), (''reason'', dget_or d ''reason'' (PStr []))]"
  have "match_route ''/api/vici/dnc'' = Some (''POST'', CompatDnc)"
    by (simp add: match_route_def compat_route_def COMPAT_ROUTES_def)
  then have api: "api_handle env (worker_request tok ''POST'' ''/api/vici/dnc'' ?body) smgr =
      (http_error (if token_ok env (worker_request tok ''POST'' ''/api/vici/dnc'' ?body) then 400 else 401)
        (if token_ok env (worker_request tok ''POST'' ''/api/vici/dnc'' ?body) then ''deployment_id required'' else ''bad token''), smgr)"
    by (simp add: api_handle_def worker_request_def compat_body_def compat_dnc_def dget_def)
  then have "fst (mark_dnc tenv (tc_vici_lead_id ctx) (dget_or d ''reason'' (PStr [])) (tc_vici ctx) s) = False"
    unfolding mark_dnc_def vici_post_status [OF assms(2,3,1)] by (simp add: http_error_def is_success_def)
  then show ?thesis using api
    by (auto simp: t_dnc_def on_args_def Let_def split: prod.splits)
qed

theorem dnc_promise_not_kept_witness:
  "\<not> fst (mark_dnc demo_behind (PStr ''42'') (PStr ''asked'') (tc_vici demo_ctx) \<lparr>ts_requests = [], ts_transcript = []\<rparr>)"
  using dnc_promise_not_kept [OF demo_behind, of demo_ctx "[(''reason'', PStr ''asked'')]"]
  by (simp add: demo_ctx_def dget_or_def)

end
